(* ===== verification/Prelude.thy ===== *)
theory Prelude imports Complex_Main "HOL-Library.Char_ord" begin

text \<open>
  Shared vocabulary of the development: the Python values the code passes around (text,
  optional text, ordered dictionaries), the table operations that the SQL statements of
  the two stores are made of, and the automation the component theories rely on.

  Text is \<^verbatim>\<open>string\<close>, one \<^verbatim>\<open>char\<close> per code point; only the code points below 256 are
  represented.  Time is \<^verbatim>\<open>int\<close>, the microseconds since the epoch.  Floats are exact
  rationals, so rounding is not modelled.
\<close>

named_theorems table_simps "rewriting of table updates, inserts and look-ups"
named_theorems od_simps "rewriting of ordered dictionaries"

type_synonym pystr = string
type_synonym time = int

section \<open>Python text\<close>

text \<open>\<open>str.strip\<close>, \<open>str.lower\<close> and truthiness of text, on Latin-1 code points.\<close>

definition is_py_space :: "char \<Rightarrow> bool" where
  "is_py_space c = (let n = of_char c :: nat in
     (9 \<le> n \<and> n \<le> 13) \<or> (28 \<le> n \<and> n \<le> 32) \<or> n = 133 \<or> n = 160)"

definition strip :: "pystr \<Rightarrow> pystr" where
  "strip s = rev (dropWhile is_py_space (rev (dropWhile is_py_space s)))"

definition lower_char :: "char \<Rightarrow> char" where
  "lower_char c = (let n = of_char c :: nat in
     if (65 \<le> n \<and> n \<le> 90) \<or> (192 \<le> n \<and> n \<le> 222 \<and> n \<noteq> 215) then char_of (n + 32) else c)"

definition lower :: "pystr \<Rightarrow> pystr" where
  "lower s = map lower_char s"

text \<open>The text of an optional value, as in \<open>(x or "")\<close>.\<close>

definition or_empty :: "pystr option \<Rightarrow> pystr" where
  "or_empty x = (case x of None \<Rightarrow> [] | Some s \<Rightarrow> s)"

text \<open>\<open>a or b\<close> on optional text: the empty string is false too.\<close>

definition py_or :: "pystr option \<Rightarrow> pystr option \<Rightarrow> pystr option" where
  "py_or a b = (case a of None \<Rightarrow> b | Some s \<Rightarrow> if s = [] then b else Some s)"

definition truthy :: "pystr option \<Rightarrow> bool" where
  "truthy x = (case x of None \<Rightarrow> False | Some s \<Rightarrow> s \<noteq> [])"

text \<open>\<open>s.startswith(p)\<close>, \<open>s.endswith(p)\<close> and \<open>p in s\<close>.\<close>

definition starts_with :: "pystr \<Rightarrow> pystr \<Rightarrow> bool" where
  "starts_with p s \<longleftrightarrow> take (length p) s = p"

definition ends_with :: "pystr \<Rightarrow> pystr \<Rightarrow> bool" where
  "ends_with p s \<longleftrightarrow> length p \<le> length s \<and> drop (length s - length p) s = p"

fun contains :: "pystr \<Rightarrow> pystr \<Rightarrow> bool" where
  "contains pat [] = (pat = [])"
| "contains pat (c # s) = (take (length pat) (c # s) = pat \<or> contains pat s)"

lemma dropWhile_eq_self: "(xs = [] \<or> \<not> P (hd xs)) \<Longrightarrow> dropWhile P xs = xs"
  by (cases xs) auto

lemma strip_Nil [simp]: "strip [] = []"
  by (simp add: strip_def)

lemma lower_Nil [simp]: "lower [] = []"
  by (simp add: lower_def)

lemma lower_append [simp]: "lower (s @ t) = lower s @ lower t"
  by (simp add: lower_def)

lemma length_lower [simp]: "length (lower s) = length s"
  by (simp add: lower_def)

lemma lower_idem [simp]: "lower (lower s) = lower s"
proof -
  have "lower_char (lower_char c) = lower_char c" for c by (simp add: lower_char_def Let_def)
  then show ?thesis by (simp add: lower_def)
qed

lemma strip_last_not_space:
  assumes "strip s \<noteq> []" shows "\<not> is_py_space (last (strip s))"
proof -
  let ?d = "dropWhile is_py_space (rev (dropWhile is_py_space s))"
  from assms have "?d \<noteq> []" by (simp add: strip_def)
  then have "\<not> is_py_space (hd ?d)" by (rule hd_dropWhile)
  with \<open>?d \<noteq> []\<close> show ?thesis by (simp add: strip_def last_rev)
qed

lemma strip_hd_not_space:
  assumes "strip s \<noteq> []" shows "\<not> is_py_space (hd (strip s))"
proof -
  let ?a = "dropWhile is_py_space s"
  obtain ys where "rev ?a = takeWhile is_py_space (rev ?a) @ dropWhile is_py_space (rev ?a)"
    by simp
  then have split: "?a = strip s @ rev (takeWhile is_py_space (rev ?a))"
    by (metis rev_append rev_rev_ident strip_def)
  with assms have "?a \<noteq> []" by (metis append_is_Nil_conv)
  then have "\<not> is_py_space (hd ?a)" by (rule hd_dropWhile)
  moreover have "hd ?a = hd (strip s)" using split assms by (metis hd_append2)
  ultimately show ?thesis by simp
qed

lemma strip_idem [simp]: "strip (strip s) = strip s"
proof (cases "strip s = []")
  case True
  then show ?thesis by simp
next
  case False
  then have "dropWhile is_py_space (strip s) = strip s"
    by (intro dropWhile_eq_self) (simp add: strip_hd_not_space)
  moreover from False have "dropWhile is_py_space (rev (strip s)) = rev (strip s)"
    by (intro dropWhile_eq_self) (simp add: hd_rev strip_last_not_space)
  ultimately show ?thesis by (simp add: strip_def [of "strip s"])
qed

text \<open>Decimal text of a number (\<open>str(n)\<close>), and fixed-width digits (\<open>%06d\<close>).\<close>

fun nat_text :: "nat \<Rightarrow> pystr" where
  "nat_text n = (if n < 10 then [char_of (48 + n)] else nat_text (n div 10) @ [char_of (48 + n mod 10)])"

declare nat_text.simps [simp del]

definition int_text :: "int \<Rightarrow> pystr" where
  "int_text i = (if i < 0 then ''-'' @ nat_text (nat (- i)) else nat_text (nat i))"

fun join_text :: "pystr \<Rightarrow> pystr list \<Rightarrow> pystr" where
  "join_text sep [] = []"
| "join_text sep [x] = x"
| "join_text sep (x # y # xs) = x @ sep @ join_text sep (y # xs)"

section \<open>Numbers and lists\<close>

text \<open>Python's \<open>round\<close>: to the nearest integer, halves to the even one.\<close>

definition py_round :: "rat \<Rightarrow> int" where
  "py_round q = (let f = \<lfloor>q\<rfloor>; d = q - of_int f in
     if d < 1/2 then f else if d > 1/2 then f + 1 else if even f then f else f + 1)"

text \<open>\<open>int(q)\<close> of a float: rounded towards zero.\<close>

definition truncated :: "rat \<Rightarrow> int" where
  "truncated q = (if q \<ge> 0 then \<lfloor>q\<rfloor> else - \<lfloor>- q\<rfloor>)"

text \<open>\<open>list(dict.fromkeys(xs))\<close>: the first of each value, in order.\<close>

definition dict_fromkeys :: "'a list \<Rightarrow> 'a list" where
  "dict_fromkeys xs = rev (remdups (rev xs))"

lemma set_dict_fromkeys [simp]: "set (dict_fromkeys xs) = set xs"
  by (simp add: dict_fromkeys_def)

lemma dict_fromkeys_Nil [simp]: "dict_fromkeys [] = []"
  by (simp add: dict_fromkeys_def)

section \<open>Exceptions\<close>

text \<open>
  The exceptions the modelled code raises or tells apart, each with its message.  A
  fallible operation returns \<^verbatim>\<open>exc + 'a\<close>: \<^const>\<open>Inl\<close> is the exception that leaves it.
\<close>

datatype exc =
    ValueError pystr
  | TypeError pystr
  | RuntimeError pystr
  | IntegrityError pystr
  | AMQPConnectionError pystr
  | ConnectionClosed pystr
  | ChannelClosed pystr
  | ChannelInvalidStateError pystr
  | OSError pystr
  | TimeoutError pystr
  | OtherError pystr

fun exc_text :: "exc \<Rightarrow> pystr" where
  "exc_text (ValueError m) = m"
| "exc_text (TypeError m) = m"
| "exc_text (RuntimeError m) = m"
| "exc_text (IntegrityError m) = m"
| "exc_text (AMQPConnectionError m) = m"
| "exc_text (ConnectionClosed m) = m"
| "exc_text (ChannelClosed m) = m"
| "exc_text (ChannelInvalidStateError m) = m"
| "exc_text (OSError m) = m"
| "exc_text (TimeoutError m) = m"
| "exc_text (OtherError m) = m"

section \<open>Tables\<close>

text \<open>
  A table is the list of its rows in insertion order.  \<open>update_rows p f\<close> is
  \<open>update t set f where p\<close>, \<open>delete_rows p\<close> is \<open>delete from t where p\<close>, and
  \<^const>\<open>List.find\<close> is \<open>select \<dots> where \<dots>\<close> on a column with a unique index.
\<close>

definition update_rows :: "('r \<Rightarrow> bool) \<Rightarrow> ('r \<Rightarrow> 'r) \<Rightarrow> 'r list \<Rightarrow> 'r list" where
  "update_rows p f rows = map (\<lambda>r. if p r then f r else r) rows"

definition delete_rows :: "('r \<Rightarrow> bool) \<Rightarrow> 'r list \<Rightarrow> 'r list" where
  "delete_rows p rows = filter (\<lambda>r. \<not> p r) rows"

lemma update_rows_simps [table_simps, simp]:
  "update_rows p f [] = []"
  "update_rows p f (r # rows) = (if p r then f r else r) # update_rows p f rows"
  "update_rows p f (rows @ rows') = update_rows p f rows @ update_rows p f rows'"
  by (simp_all add: update_rows_def)

lemma length_update_rows [simp]: "length (update_rows p f rows) = length rows"
  by (simp add: update_rows_def)

lemma set_update_rows: "set (update_rows p f rows) = (\<lambda>r. if p r then f r else r) ` set rows"
  by (simp add: update_rows_def)

lemma map_update_rows [table_simps]:
  "(\<And>r. p r \<Longrightarrow> k (f r) = k r) \<Longrightarrow> map k (update_rows p f rows) = map k rows"
  by (induction rows) auto

lemma update_rows_idle: "(\<And>r. r \<in> set rows \<Longrightarrow> \<not> p r) \<Longrightarrow> update_rows p f rows = rows"
  by (induction rows) auto

lemma find_unique:
  "distinct (map k rows) \<Longrightarrow> r \<in> set rows \<Longrightarrow> List.find (\<lambda>x. k x = k r) rows = Some r"
  by (induction rows) (auto simp: image_iff)

lemma find_SomeD: "List.find p rows = Some r \<Longrightarrow> r \<in> set rows \<and> p r"
  by (auto simp: find_Some_iff)

lemma find_NoneD: "List.find p rows = None \<Longrightarrow> r \<in> set rows \<Longrightarrow> \<not> p r"
  by (auto simp: find_None_iff)

lemma find_append_one: "List.find p (rows @ [x])
    = (case List.find p rows of None \<Rightarrow> if p x then Some x else None | Some y \<Rightarrow> Some y)"
  by (induction rows) auto

lemma find_update_rows:
  assumes "\<And>r. q (if p r then f r else r) = q r"
  shows "List.find q (update_rows p f rows)
    = map_option (\<lambda>r. if p r then f r else r) (List.find q rows)"
  using assms by (induction rows) auto

lemma key_unique:
  "distinct (map k rows) \<Longrightarrow> r \<in> set rows \<Longrightarrow> r' \<in> set rows \<Longrightarrow> k r = k r' \<Longrightarrow> r = r'"
  by (simp add: distinct_map inj_on_def)

lemma set_take_sort_key:
  "set (take n (sort_key k rows)) \<subseteq> set rows"
  by (metis set_sort set_take_subset)

section \<open>Ordered dictionaries\<close>

text \<open>
  \<open>collections.OrderedDict\<close>: an association list whose order is the dictionary's
  order.  Assigning an existing key keeps its place, a new key goes last.
\<close>

type_synonym ('k, 'v) odict = "('k \<times> 'v) list"

definition od_get :: "'k \<Rightarrow> ('k, 'v) odict \<Rightarrow> 'v option" where
  "od_get k d = map_of d k"

fun od_set :: "'k \<Rightarrow> 'v \<Rightarrow> ('k, 'v) odict \<Rightarrow> ('k, 'v) odict" where
  "od_set k v [] = [(k, v)]"
| "od_set k v ((k', v') # d) = (if k' = k then (k, v) # d else (k', v') # od_set k v d)"

definition od_pop :: "'k \<Rightarrow> ('k, 'v) odict \<Rightarrow> ('k, 'v) odict" where
  "od_pop k d = filter (\<lambda>(k', v'). k' \<noteq> k) d"

definition od_move_to_end :: "'k \<Rightarrow> ('k, 'v) odict \<Rightarrow> ('k, 'v) odict" where
  "od_move_to_end k d = od_pop k d @ filter (\<lambda>(k', v'). k' = k) d"

text \<open>\<open>while len(d) > n: d.popitem(last=False)\<close>\<close>

fun od_trim :: "nat \<Rightarrow> ('k, 'v) odict \<Rightarrow> ('k, 'v) odict" where
  "od_trim n [] = []"
| "od_trim n (x # d) = (if length (x # d) > n then od_trim n d else x # d)"

definition od_keys :: "('k, 'v) odict \<Rightarrow> 'k list" where
  "od_keys d = map fst d"

lemma od_trim_drop: "od_trim n d = drop (length d - n) d"
  by (induction d) (auto simp: Suc_diff_le not_less less_Suc_eq_le)

lemma length_od_trim [od_simps, simp]: "length (od_trim n d) = min n (length d)"
  by (simp add: od_trim_drop min_def)

lemma od_keys_set: "od_keys (od_set k v d) = (if k \<in> set (od_keys d) then od_keys d else od_keys d @ [k])"
  by (induction k v d rule: od_set.induct) (auto simp: od_keys_def)

lemma od_get_set [od_simps]: "od_get k' (od_set k v d) = (if k' = k then Some v else od_get k' d)"
  by (induction d) (auto simp: od_get_def)

lemma od_get_append: "od_get k (d @ e) = (case od_get k d of None \<Rightarrow> od_get k e | Some v \<Rightarrow> Some v)"
  by (auto simp: od_get_def map_add_def split: option.splits)

lemma od_get_filter_key:
  "od_get k (filter (\<lambda>(k', v'). P k') d) = (if P k then od_get k d else None)"
  by (induction d) (auto simp: od_get_def)

lemma od_get_pop [od_simps]: "od_get k' (od_pop k d) = (if k' = k then None else od_get k' d)"
  using od_get_filter_key [of k' "\<lambda>x. x \<noteq> k" d] by (simp add: od_pop_def)

lemma od_get_move_to_end [od_simps]: "od_get k' (od_move_to_end k d) = od_get k' d"
  using od_get_filter_key [of k' "\<lambda>x. x = k" d]
  by (cases "k' = k") (simp_all add: od_move_to_end_def od_get_append od_get_pop split: option.splits)

lemma set_od_keys: "k \<in> set (od_keys d) \<longleftrightarrow> od_get k d \<noteq> None"
  by (induction d) (auto simp: od_keys_def od_get_def)

lemma distinct_od_set: "distinct (od_keys d) \<Longrightarrow> distinct (od_keys (od_set k v d))"
  by (simp add: od_keys_set)

lemma od_keys_filter_key: "od_keys (filter (\<lambda>(k', v'). P k') d) = filter P (od_keys d)"
  by (induction d) (auto simp: od_keys_def)

lemma od_keys_move_to_end:
  "od_keys (od_move_to_end k d) = filter (\<lambda>x. x \<noteq> k) (od_keys d) @ filter (\<lambda>x. x = k) (od_keys d)"
proof -
  have "od_keys (a @ b) = od_keys a @ od_keys b" for a b :: "('a, 'b) odict"
    by (simp add: od_keys_def)
  then show ?thesis
    using od_keys_filter_key [of "\<lambda>x. x \<noteq> k" d] od_keys_filter_key [of "\<lambda>x. x = k" d]
    by (simp add: od_move_to_end_def od_pop_def)
qed

lemma distinct_od_move_to_end: "distinct (od_keys d) \<Longrightarrow> distinct (od_keys (od_move_to_end k d))"
  by (auto simp: od_keys_move_to_end)

lemma od_keys_move_to_end_last:
  assumes "distinct (od_keys d)" and "k \<in> set (od_keys d)"
  shows "od_keys (od_move_to_end k d) = filter (\<lambda>x. x \<noteq> k) (od_keys d) @ [k]"
proof -
  have "filter (\<lambda>x. x = k) xs = [k]" if "distinct xs" "k \<in> set xs" for xs
    using that by (induction xs) (auto simp: filter_empty_conv)
  with assms show ?thesis by (simp add: od_keys_move_to_end)
qed

lemma distinct_od_trim: "distinct (od_keys d) \<Longrightarrow> distinct (od_keys (od_trim n d))"
  by (simp add: od_trim_drop od_keys_def drop_map flip: drop_map)

lemma length_od_set: "length (od_set k v d) = (if od_get k d = None then Suc (length d) else length d)"
  by (induction d) (auto simp: od_get_def)

lemma length_od_move_to_end [simp]: "length (od_move_to_end k d) = length d"
proof -
  have "length (filter P d) + length (filter (\<lambda>x. \<not> P x) d) = length d" for P
    by (simp add: sum_length_filter_compl)
  from this [of "\<lambda>(k', v'). k' = k"] show ?thesis
    by (simp add: od_move_to_end_def od_pop_def case_prod_unfold)
qed

lemma od_get_trim_Some: "od_get k (od_trim n d) = Some v \<Longrightarrow> distinct (od_keys d) \<Longrightarrow> od_get k d = Some v"
  unfolding od_trim_drop od_get_def od_keys_def
  by (metis in_set_dropD map_of_SomeD map_of_is_SomeI)

end
