(* ===== verification/Fingerprints.thy ===== *)
theory Fingerprints imports Prelude "HOL-Library.List_Lexorder" begin

text \<open>
  \<^verbatim>\<open>domain/scrape_fingerprints.py\<close>: the normalisation every scraped field goes through
  before it is stored, and the identity key and payload hash built from it.
  JSON values are a datatype; a float is carried by its text.  SHA-256 and the JSON
  encoder are parameters (\<open>sha256\<close>, \<open>dumps\<close>).
\<close>

section \<open>JSON values and their text\<close>

datatype json =
    JNull
  | JBool bool
  | JInt int
  | JFloat pystr
  | JStr pystr
  | JArr "json list"
  | JObj "(pystr \<times> json) list"

text \<open>\<open>repr\<close> of a string: the quotes Python picks and the escapes it writes.\<close>

definition hex_digit :: "nat \<Rightarrow> char" where
  "hex_digit n = (if n < 10 then char_of (48 + n) else char_of (87 + n))"

definition repr_char :: "char \<Rightarrow> char \<Rightarrow> pystr" where
  "repr_char q c = (let n = of_char c :: nat in
     if c = q \<or> n = 92 then [CHR 0x5C, c]
     else if n = 9 then [CHR 0x5C, CHR ''t'']
     else if n = 10 then [CHR 0x5C, CHR ''n'']
     else if n = 13 then [CHR 0x5C, CHR ''r'']
     else if n < 32 \<or> (127 \<le> n \<and> n \<le> 160) \<or> n = 173
       then [CHR 0x5C, CHR ''x'', hex_digit (n div 16), hex_digit (n mod 16)]
     else [c])"

definition repr_str :: "pystr \<Rightarrow> pystr" where
  "repr_str s = (let q = (if CHR 0x27 \<in> set s \<and> CHR 0x22 \<notin> set s then CHR 0x22 else CHR 0x27)
     in [q] @ concat (map (repr_char q) s) @ [q])"

fun py_repr :: "json \<Rightarrow> pystr" where
  "py_repr JNull = ''None''"
| "py_repr (JBool b) = (if b then ''True'' else ''False'')"
| "py_repr (JInt i) = int_text i"
| "py_repr (JFloat t) = t"
| "py_repr (JStr s) = repr_str s"
| "py_repr (JArr xs) = ''['' @ join_text '', '' (map py_repr xs) @ '']''"
| "py_repr (JObj d) = ''{'' @ join_text '', '' (map (\<lambda>(k, v). repr_str k @ '': '' @ py_repr v) d) @ ''}''"

definition py_str :: "json \<Rightarrow> pystr" where
  "py_str v = (case v of JStr s \<Rightarrow> s | _ \<Rightarrow> py_repr v)"

section \<open>JSON access\<close>

definition json_truthy :: "json \<Rightarrow> bool" where
  "json_truthy v = (case v of JNull \<Rightarrow> False | JBool b \<Rightarrow> b | JInt i \<Rightarrow> i \<noteq> 0
     | JFloat t \<Rightarrow> t \<noteq> ''0.0'' \<and> t \<noteq> ''-0.0'' | JStr s \<Rightarrow> s \<noteq> [] | JArr xs \<Rightarrow> xs \<noteq> [] | JObj d \<Rightarrow> d \<noteq> [])"

type_synonym json_row = "(pystr \<times> json) list"

text \<open>\<open>row.get(k)\<close>: a missing key is \<open>None\<close>, like a null.\<close>

definition row_get :: "pystr \<Rightarrow> json_row \<Rightarrow> json" where
  "row_get k row = (case map_of row k of None \<Rightarrow> JNull | Some v \<Rightarrow> v)"

lemma row_get_set [simp]: "row_get k (od_set k' v d) = (if k = k' then v else row_get k d)"
  using od_get_set [of k k' v d] by (simp add: row_get_def od_get_def)

definition json_or :: "json \<Rightarrow> json \<Rightarrow> json" where
  "json_or a b = (if json_truthy a then a else b)"

definition jopt :: "pystr option \<Rightarrow> json" where
  "jopt s = (case s of None \<Rightarrow> JNull | Some x \<Rightarrow> JStr x)"

definition jtexts :: "(pystr, pystr) odict \<Rightarrow> json" where
  "jtexts d = JObj (map (\<lambda>(k, v). (k, JStr v)) d)"

text \<open>The encoder writes objects with their keys sorted (\<open>OPT_SORT_KEYS\<close>), at every depth.\<close>

fun sort_keys :: "json \<Rightarrow> json" where
  "sort_keys (JObj d) = JObj (sort_key fst (map (\<lambda>(k, v). (k, sort_keys v)) d))"
| "sort_keys (JArr xs) = JArr (map sort_keys xs)"
| "sort_keys v = v"

section \<open>Text normalisation\<close>

text \<open>\<open>re.sub(r"\s+", " ", s)\<close>: every run of blanks becomes one space.\<close>

fun collapse_ws :: "pystr \<Rightarrow> pystr" where
  "collapse_ws [] = []"
| "collapse_ws [c] = (if is_py_space c then '' '' else [c])"
| "collapse_ws (c # d # s) =
    (if is_py_space c then (if is_py_space d then collapse_ws (d # s) else CHR '' '' # collapse_ws (d # s))
     else c # collapse_ws (d # s))"

definition replace_nbsp :: "pystr \<Rightarrow> pystr" where
  "replace_nbsp s = map (\<lambda>c. if c = CHR 0xA0 then CHR '' '' else c) s"

definition normalize_str :: "pystr \<Rightarrow> pystr option" where
  "normalize_str s = (let t = strip (collapse_ws (replace_nbsp s)) in if t = [] then None else Some t)"

definition normalize_text :: "json \<Rightarrow> pystr option" where
  "normalize_text v = (if v = JNull then None else normalize_str (py_str v))"

section \<open>URLs\<close>

text \<open>
  \<open>urllib.parse.urlsplit\<close>, as far as scheme, location and path go: leading control
  characters and blanks are dropped, tabs and line breaks are removed, the scheme is
  what precedes the first colon when it has the form of a scheme, the location is what
  stands between \<open>//\<close> and the next \<open>/\<close>, \<open>?\<close> or \<open>#\<close>, and the path ends at the first \<open>?\<close>
  or \<open>#\<close>.  A location with only one of the two square brackets raises \<open>ValueError\<close>.
\<close>

definition is_scheme_char :: "char \<Rightarrow> bool" where
  "is_scheme_char c = (let n = of_char c :: nat in
     (65 \<le> n \<and> n \<le> 90) \<or> (97 \<le> n \<and> n \<le> 122) \<or> (48 \<le> n \<and> n \<le> 57) \<or> n = 43 \<or> n = 45 \<or> n = 46)"

definition is_ascii_alpha :: "char \<Rightarrow> bool" where
  "is_ascii_alpha c = (let n = of_char c :: nat in (65 \<le> n \<and> n \<le> 90) \<or> (97 \<le> n \<and> n \<le> 122))"

definition url_scheme_rest :: "pystr \<Rightarrow> pystr \<times> pystr" where
  "url_scheme_rest url =
    (let pre = takeWhile (\<lambda>c. c \<noteq> CHR '':'') url; post = dropWhile (\<lambda>c. c \<noteq> CHR '':'') url in
     if post \<noteq> [] \<and> pre \<noteq> [] \<and> is_ascii_alpha (hd pre) \<and> list_all is_scheme_char pre
     then (lower pre, tl post) else ([], url))"

definition is_netloc_char :: "char \<Rightarrow> bool" where
  "is_netloc_char c = (c \<noteq> CHR ''/'' \<and> c \<noteq> CHR ''?'' \<and> c \<noteq> CHR ''#'')"

definition urlsplit :: "pystr \<Rightarrow> exc + (pystr \<times> pystr \<times> pystr)" where
  "urlsplit raw =
    (let url = filter (\<lambda>c. c \<noteq> CHR 0x09 \<and> c \<noteq> CHR 0x0A \<and> c \<noteq> CHR 0x0D)
                 (dropWhile (\<lambda>c. (of_char c :: nat) \<le> 32) raw);
         (scheme, rest) = url_scheme_rest url;
         (netloc, rest') = (if take 2 rest = ''//''
            then (takeWhile is_netloc_char (drop 2 rest), dropWhile is_netloc_char (drop 2 rest))
            else ([], rest))
     in if (CHR ''['' \<in> set netloc) \<noteq> (CHR '']'' \<in> set netloc)
        then Inl (ValueError ''Invalid IPv6 URL'')
        else Inr (scheme, netloc, takeWhile (\<lambda>c. c \<noteq> CHR ''?'' \<and> c \<noteq> CHR ''#'') rest'))"

definition is_valid_http_url :: "pystr option \<Rightarrow> exc + bool" where
  "is_valid_http_url v = (case v of
      None \<Rightarrow> Inr False
    | Some url \<Rightarrow> if url = [] then Inr False else
        (case urlsplit url of
           Inl e \<Rightarrow> Inl e
         | Inr (scheme, netloc, path) \<Rightarrow>
             Inr ((lower scheme = ''http'' \<or> lower scheme = ''https'') \<and> netloc \<noteq> [])))"

lemma is_valid_http_url_ValueError: "is_valid_http_url v = Inl x \<Longrightarrow> \<exists>m. x = ValueError m"
  by (auto simp: is_valid_http_url_def urlsplit_def Let_def
      split: sum.splits if_splits prod.splits option.splits)

text \<open>\<open>path.rstrip("/")\<close>, and \<open>urlunsplit((scheme, netloc, path, "", ""))\<close> as Python 3.12 has it.\<close>

definition rstrip_slash :: "pystr \<Rightarrow> pystr" where
  "rstrip_slash s = rev (dropWhile (\<lambda>c. c = CHR ''/'') (rev s))"

definition uses_netloc :: "pystr list" where
  "uses_netloc = [''ftp'', ''http'', ''gopher'', ''nntp'', ''telnet'', ''imap'', ''wais'', ''file'', ''mms'', ''https'', ''shttp'',
     ''snews'', ''prospero'', ''rtsp'', ''rtsps'', ''rtspu'', ''rsync'', ''svn'', ''svn+ssh'', ''sftp'', ''nfs'', ''git'', ''git+ssh'',
     ''ws'', ''wss'']"

definition urlunsplit3 :: "pystr \<Rightarrow> pystr \<Rightarrow> pystr \<Rightarrow> pystr" where
  "urlunsplit3 scheme netloc path =
    (let url = (if netloc \<noteq> [] then ''//'' @ netloc @ (if path \<noteq> [] \<and> hd path \<noteq> CHR ''/'' then ''/'' @ path else path)
                else if take 2 path = ''//'' then ''//'' @ path
                else if scheme \<in> set uses_netloc \<and> (path = [] \<or> hd path = CHR ''/'') then ''//'' @ path
                else path)
     in if scheme = [] then url else scheme @ '':'' @ url)"

definition canonicalize_source_url :: "pystr \<Rightarrow> exc + pystr" where
  "canonicalize_source_url url =
    (case urlsplit (or_empty (normalize_str url)) of
       Inl e \<Rightarrow> Inl e
     | Inr (scheme, netloc, path) \<Rightarrow>
        (let sch = lower (if scheme = [] then ''https'' else scheme);
             net = lower netloc;
             p = (if path = [] then ''/'' else path);
             p' = (if p \<noteq> ''/'' \<and> last p = CHR ''/'' then rstrip_slash p else p)
         in Inr (urlunsplit3 sch net p')))"

section \<open>Images, identifiers and specifications\<close>

definition MAX_IMAGE_URLS :: nat where
  "MAX_IMAGE_URLS = 100"

text \<open>The loop of \<open>normalize_image_urls\<close> over the URLs that are left, with what it has kept.\<close>

fun normalize_image_urls_loop :: "pystr list \<Rightarrow> pystr list \<Rightarrow> exc + pystr list" where
  "normalize_image_urls_loop unique [] = Inr unique"
| "normalize_image_urls_loop unique (raw # rest) =
    (case normalize_str raw of
       None \<Rightarrow> normalize_image_urls_loop unique rest
     | Some n \<Rightarrow>
        (case is_valid_http_url (Some n) of
           Inl e \<Rightarrow> Inl e
         | Inr False \<Rightarrow> normalize_image_urls_loop unique rest
         | Inr True \<Rightarrow>
            if n \<in> set unique then normalize_image_urls_loop unique rest
            else if Suc (length unique) \<ge> MAX_IMAGE_URLS then Inr (unique @ [n])
            else normalize_image_urls_loop (unique @ [n]) rest))"

definition normalize_image_urls :: "pystr list \<Rightarrow> exc + pystr list" where
  "normalize_image_urls urls = normalize_image_urls_loop [] urls"

fun normalize_external_ids :: "(pystr, pystr) odict \<Rightarrow> (pystr \<times> json) list \<Rightarrow> (pystr, pystr) odict" where
  "normalize_external_ids out [] = out"
| "normalize_external_ids out ((key, value) # rest) =
    (case (normalize_str key, normalize_text value) of
       (Some k, Some v) \<Rightarrow> normalize_external_ids (od_set k v out) rest
     | _ \<Rightarrow> normalize_external_ids out rest)"

definition FRONTEND_NOISE_MARKERS :: "pystr list" where
  "FRONTEND_NOISE_MARKERS =
    [''self.__next_f.push('', ''__next_f.push('', ''__next_data__'', ''window.__'', ''webpack'',
     ''<script'', ''</script'']"

definition looks_like_frontend_noise :: "pystr \<Rightarrow> bool" where
  "looks_like_frontend_noise value = (case normalize_str value of
      None \<Rightarrow> False
    | Some t \<Rightarrow> list_ex (\<lambda>marker. contains marker (lower t)) FRONTEND_NOISE_MARKERS)"

text \<open>
  \<open>normalize_json_dict\<close>: keys and texts are normalised, empty values and frontend noise
  are dropped, nested objects and lists are cleaned the same way.
\<close>

fun normalize_json_dict :: "(pystr, json) odict \<Rightarrow> (pystr \<times> json) list \<Rightarrow> (pystr, json) odict"
and normalize_json_items :: "json list \<Rightarrow> json list" where
  "normalize_json_dict out [] = out"
| "normalize_json_dict out ((key, value) # rest) =
    (case normalize_str key of
       None \<Rightarrow> normalize_json_dict out rest
     | Some k \<Rightarrow>
        if looks_like_frontend_noise k then normalize_json_dict out rest
        else
         (case value of
            JObj d \<Rightarrow> (let nested = normalize_json_dict [] d in
               normalize_json_dict (if nested \<noteq> [] then od_set k (JObj nested) out else out) rest)
          | JArr items \<Rightarrow> (let normalized = normalize_json_items items in
               normalize_json_dict (if normalized \<noteq> [] then od_set k (JArr normalized) out else out) rest)
          | v \<Rightarrow> (case normalize_text v of
               None \<Rightarrow> normalize_json_dict out rest
             | Some t \<Rightarrow> normalize_json_dict
                 (if looks_like_frontend_noise t then out else od_set k (JStr t) out) rest)))"
| "normalize_json_items [] = []"
| "normalize_json_items (item # rest) =
    (case item of
       JObj d \<Rightarrow> (let nested = normalize_json_dict [] d in
          if nested \<noteq> [] then JObj nested # normalize_json_items rest else normalize_json_items rest)
     | v \<Rightarrow> (case normalize_text v of
          None \<Rightarrow> normalize_json_items rest
        | Some t \<Rightarrow> if looks_like_frontend_noise t then normalize_json_items rest
                    else JStr t # normalize_json_items rest))"

section \<open>Identity\<close>

definition build_product_identity_key ::
    "(pystr \<Rightarrow> pystr) \<Rightarrow> pystr \<Rightarrow> pystr option \<Rightarrow> pystr \<Rightarrow> exc + pystr" where
  "build_product_identity_key sha256 store_name source_id source_url =
    (let clean_store = lower (case normalize_str store_name of None \<Rightarrow> ''unknown'' | Some s \<Rightarrow> s) in
     case (case source_id of None \<Rightarrow> None | Some s \<Rightarrow> normalize_str s) of
       Some sid \<Rightarrow> Inr (clean_store @ '':'' @ sid)
     | None \<Rightarrow> (case canonicalize_source_url source_url of
          Inl e \<Rightarrow> Inl e
        | Inr u \<Rightarrow> Inr (clean_store @ '':'' @ take 16 (sha256 u))))"

section \<open>Normal forms\<close>

text \<open>Text in normal form: the only blank is the space, and no two spaces are adjacent.\<close>

definition normal_ws :: "pystr \<Rightarrow> bool" where
  "normal_ws s \<longleftrightarrow> (\<forall>c \<in> set s. is_py_space c \<longrightarrow> c = CHR '' '')
     \<and> successively (\<lambda>a b. \<not> (is_py_space a \<and> is_py_space b)) s"

lemma is_py_space_space [simp]: "is_py_space (CHR '' '')"
  by (simp add: is_py_space_def Let_def)

lemma is_py_space_nbsp [simp]: "is_py_space (CHR 0xA0)"
  by (simp add: is_py_space_def Let_def)

lemma collapse_ws_hd: "s \<noteq> [] \<Longrightarrow> collapse_ws s \<noteq> [] \<and> (is_py_space (hd (collapse_ws s)) = is_py_space (hd s))"
  by (induction s rule: collapse_ws.induct) auto

lemma normal_ws_Cons:
  "normal_ws (c # s) \<longleftrightarrow> (is_py_space c \<longrightarrow> c = CHR '' '') \<and> normal_ws s
     \<and> (s = [] \<or> \<not> (is_py_space c \<and> is_py_space (hd s)))"
  by (cases s) (auto simp: normal_ws_def)

lemma normal_ws_collapse: "normal_ws (collapse_ws s)"
proof (induction s rule: collapse_ws.induct)
  case (3 c d s)
  then show ?case using collapse_ws_hd [of "d # s"] by (auto simp: normal_ws_Cons)
qed (auto simp: normal_ws_def)

lemma collapse_ws_normal: "normal_ws s \<Longrightarrow> collapse_ws s = s"
  by (induction s rule: collapse_ws.induct) (auto simp: normal_ws_Cons)

lemma normal_ws_append: "normal_ws (a @ b) \<Longrightarrow> normal_ws a \<and> normal_ws b"
  by (auto simp: normal_ws_def successively_append_iff)

lemma strip_split: "\<exists>p q. s = p @ strip s @ q"
proof -
  let ?a = "dropWhile is_py_space s"
  have "rev ?a = takeWhile is_py_space (rev ?a) @ dropWhile is_py_space (rev ?a)" by simp
  then have "?a = strip s @ rev (takeWhile is_py_space (rev ?a))"
    by (metis rev_append rev_rev_ident strip_def)
  then show ?thesis by (metis takeWhile_dropWhile_id)
qed

lemma normal_ws_strip: "normal_ws s \<Longrightarrow> normal_ws (strip s)"
  using strip_split [of s] normal_ws_append by metis

lemma replace_nbsp_normal: "normal_ws s \<Longrightarrow> replace_nbsp s = s"
  unfolding replace_nbsp_def by (rule map_idI) (force simp: normal_ws_def)

lemma normalize_str_idem: "normalize_str s = Some t \<Longrightarrow> normalize_str t = Some t"
proof -
  assume "normalize_str s = Some t"
  then have t: "t = strip (collapse_ws (replace_nbsp s))" "t \<noteq> []"
    by (auto simp: normalize_str_def Let_def split: if_splits)
  then have "normal_ws t" by (simp add: normal_ws_strip normal_ws_collapse)
  with t show ?thesis
    by (simp add: normalize_str_def replace_nbsp_normal collapse_ws_normal)
qed

lemma normalize_str_nonempty: "normalize_str s = Some t \<Longrightarrow> t \<noteq> [] \<and> strip t = t"
  by (auto simp: normalize_str_def Let_def split: if_splits)

lemma normalize_str_normal_ws: "normalize_str s = Some t \<Longrightarrow> normal_ws t"
  by (auto simp: normalize_str_def Let_def normal_ws_strip normal_ws_collapse split: if_splits)

text \<open>What the image list looks like after normalisation.\<close>

definition clean_image_urls :: "pystr list \<Rightarrow> bool" where
  "clean_image_urls us \<longleftrightarrow> distinct us \<and> length us \<le> MAX_IMAGE_URLS
     \<and> (\<forall>u \<in> set us. normalize_str u = Some u \<and> is_valid_http_url (Some u) = Inr True)"

lemma normalize_image_urls_loop_clean:
  "normalize_image_urls_loop acc raws = Inr us \<Longrightarrow> clean_image_urls acc \<Longrightarrow> length acc < MAX_IMAGE_URLS
   \<Longrightarrow> clean_image_urls us \<and> set us \<subseteq> set acc \<union> {n. \<exists>r \<in> set raws. normalize_str r = Some n}"
proof (induction acc raws rule: normalize_image_urls_loop.induct)
  case (1 acc)
  then show ?case by simp
next
  case (2 acc raw rest)
  show ?case
  proof (cases "normalize_str raw")
    case None
    with "2.IH"(1) "2.prems" show ?thesis by auto
  next
    case n: (Some n)
    consider (err) e where "is_valid_http_url (Some n) = Inl e"
      | (bad) "is_valid_http_url (Some n) = Inr False"
      | (dup) "is_valid_http_url (Some n) = Inr True" "n \<in> set acc"
      | (new) "is_valid_http_url (Some n) = Inr True" "n \<notin> set acc"
      by (cases "is_valid_http_url (Some n)") (metis (full_types))+
    then show ?thesis
    proof cases
      case err
      with n "2.prems" show ?thesis by simp
    next
      case bad
      with n "2.IH"(4) "2.prems" show ?thesis by auto
    next
      case dup
      with n "2.IH"(2) "2.prems" show ?thesis by auto
    next
      case new
      from new n "2.prems"(2,3) have acc: "clean_image_urls (acc @ [n])"
        using normalize_str_idem by (auto simp: clean_image_urls_def)
      show ?thesis
      proof (cases "Suc (length acc) \<ge> MAX_IMAGE_URLS")
        case True
        with new n "2.prems" acc show ?thesis by auto
      next
        case False
        with new n "2.IH"(3) "2.prems" acc show ?thesis by fastforce
      qed
    qed
  qed
qed

lemma normalize_image_urls_clean: "normalize_image_urls raws = Inr us \<Longrightarrow> clean_image_urls us"
  using normalize_image_urls_loop_clean [of "[]" raws us]
  by (simp add: normalize_image_urls_def clean_image_urls_def MAX_IMAGE_URLS_def)

lemma normalize_image_urls_loop_fixed:
  "clean_image_urls (acc @ us) \<Longrightarrow> normalize_image_urls_loop acc us = Inr (acc @ us)"
proof (induction us arbitrary: acc)
  case Nil
  then show ?case by simp
next
  case (Cons u us)
  from Cons.prems have u: "normalize_str u = Some u" "is_valid_http_url (Some u) = Inr True" "u \<notin> set acc"
    and len: "Suc (length acc + length us) \<le> MAX_IMAGE_URLS"
    by (auto simp: clean_image_urls_def)
  from Cons.prems have "clean_image_urls ((acc @ [u]) @ us)" by simp
  from Cons.IH [OF this] u len show ?case by (cases us) auto
qed

lemma normalize_image_urls_fixed: "clean_image_urls us \<Longrightarrow> normalize_image_urls us = Inr us"
  using normalize_image_urls_loop_fixed [of "[]" us] by (simp add: normalize_image_urls_def)

end
