(* ===== verification/Domain.thy ===== *)
theory Domain imports Fingerprints begin

text \<open>
  The value objects of \<^verbatim>\<open>domain/\<close>: the product snapshot a spider item becomes, the
  publication event built from it, and the contract the event must meet before it is
  handed to RabbitMQ (\<^verbatim>\<open>domain/publication_event.py\<close>,
  \<^verbatim>\<open>domain/scraped_product.py\<close>, \<^verbatim>\<open>application/ingestion/event_builder.py\<close>).
  A JSON column of the stores is represented by the value it encodes.
\<close>

section \<open>Snapshots and events\<close>

record snapshot =
  sn_store_name :: pystr
  sn_source_url :: pystr
  sn_source_id :: "pystr option"
  sn_title :: pystr
  sn_brand :: "pystr option"
  sn_price_raw :: "pystr option"
  sn_in_stock :: "bool option"
  sn_raw_specs :: "(pystr \<times> json) list"
  sn_image_urls :: "pystr list"
  sn_description :: "pystr option"
  sn_category_hint :: "pystr option"
  sn_external_ids :: "(pystr \<times> pystr) list"
  sn_scraped_at :: time
  sn_payload_hash :: pystr
  sn_raw_payload :: "(pystr \<times> json) list"
  sn_scrape_run_id :: pystr
  sn_identity_key :: pystr

record payload =
  pl_store_name :: pystr
  pl_source_url :: pystr
  pl_source_id :: "pystr option"
  pl_title :: pystr
  pl_brand :: "pystr option"
  pl_price_raw :: "pystr option"
  pl_in_stock :: "bool option"
  pl_raw_specs :: "(pystr \<times> json) list"
  pl_image_urls :: "pystr list"
  pl_description :: "pystr option"
  pl_category_hint :: "pystr option"
  pl_external_ids :: "(pystr \<times> pystr) list"
  pl_scraped_at :: time
  pl_payload_hash :: pystr
  pl_raw_payload_snapshot :: "(pystr \<times> json) list"
  pl_scrape_run_id :: pystr
  pl_identity_key :: pystr

record publication =
  pb_publication_version :: int
  pb_exchange_name :: "pystr option"
  pb_queue_name :: "pystr option"
  pb_routing_key :: "pystr option"
  pb_outbox_status :: pystr
  pb_attempt_number :: int
  pb_publisher_service :: "pystr option"
  pb_outbox_created_at :: time
  pb_published_at :: "time option"

record event =
  ev_event_id :: pystr
  ev_event_type :: pystr
  ev_schema_version :: int
  ev_store_name :: pystr
  ev_source_id :: "pystr option"
  ev_source_url :: pystr
  ev_scrape_run_id :: pystr
  ev_scraped_at :: time
  ev_payload_hash :: pystr
  ev_structured_payload :: payload
  ev_publication :: publication

definition SCRAPER_PRODUCT_EVENT_TYPE :: pystr where
  "SCRAPER_PRODUCT_EVENT_TYPE = ''scraper.product.scraped.v1''"

definition SCRAPER_PRODUCT_SCHEMA_VERSION :: int where
  "SCRAPER_PRODUCT_SCHEMA_VERSION = 1"

section \<open>Building the event of a snapshot\<close>

definition build_scraper_product_event ::
    "int \<Rightarrow> pystr \<Rightarrow> snapshot \<Rightarrow> pystr \<Rightarrow> pystr \<Rightarrow> pystr \<Rightarrow> pystr \<Rightarrow> time \<Rightarrow> event" where
  "build_scraper_product_event schema_version queue snap event_id event_type exchange_name routing_key created =
    (let product = \<lparr>
        pl_store_name = sn_store_name snap,
        pl_source_url = sn_source_url snap,
        pl_source_id = sn_source_id snap,
        pl_title = sn_title snap,
        pl_brand = sn_brand snap,
        pl_price_raw = sn_price_raw snap,
        pl_in_stock = sn_in_stock snap,
        pl_raw_specs = sn_raw_specs snap,
        pl_image_urls = sn_image_urls snap,
        pl_description = sn_description snap,
        pl_category_hint = sn_category_hint snap,
        pl_external_ids = sn_external_ids snap,
        pl_scraped_at = sn_scraped_at snap,
        pl_payload_hash = sn_payload_hash snap,
        pl_raw_payload_snapshot = sn_raw_payload snap,
        pl_scrape_run_id = sn_scrape_run_id snap,
        pl_identity_key = sn_identity_key snap \<rparr>;
      pub = \<lparr>
        pb_publication_version = schema_version,
        pb_exchange_name = Some exchange_name,
        pb_queue_name = Some queue,
        pb_routing_key = Some routing_key,
        pb_outbox_status = ''pending'',
        pb_attempt_number = 0,
        pb_publisher_service = None,
        pb_outbox_created_at = created,
        pb_published_at = None \<rparr>
     in \<lparr> ev_event_id = event_id,
          ev_event_type = event_type,
          ev_schema_version = schema_version,
          ev_store_name = sn_store_name snap,
          ev_source_id = sn_source_id snap,
          ev_source_url = sn_source_url snap,
          ev_scrape_run_id = sn_scrape_run_id snap,
          ev_scraped_at = sn_scraped_at snap,
          ev_payload_hash = sn_payload_hash snap,
          ev_structured_payload = product,
          ev_publication = pub \<rparr>)"

section \<open>The RabbitMQ publish contract\<close>

definition is_non_empty_string :: "pystr option \<Rightarrow> bool" where
  "is_non_empty_string v = (case v of None \<Rightarrow> False | Some s \<Rightarrow> strip s \<noteq> [])"

lemma is_non_empty_string_None [simp]: "\<not> is_non_empty_string None"
  by (simp add: is_non_empty_string_def)

definition check :: "bool \<Rightarrow> pystr \<Rightarrow> pystr list" where
  "check ok msg = (if ok then [] else [msg])"

lemma check_Nil [simp]: "check ok msg = [] \<longleftrightarrow> ok"
  by (simp add: check_def)

text \<open>The loop over the image URLs: one message per invalid URL, or the exception of \<open>urlsplit\<close>.\<close>

fun image_url_errors :: "nat \<Rightarrow> pystr list \<Rightarrow> exc + pystr list" where
  "image_url_errors index [] = Inr []"
| "image_url_errors index (u # us) =
    (case is_valid_http_url (Some u) of
       Inl e \<Rightarrow> Inl e
     | Inr ok \<Rightarrow>
        (case image_url_errors (Suc index) us of
           Inl e \<Rightarrow> Inl e
         | Inr msgs \<Rightarrow> Inr (check ok (''structured_payload.image_urls['' @ nat_text index
             @ ''] must be a valid http/https URL'') @ msgs)))"

definition envelope_errors :: "event \<Rightarrow> bool \<Rightarrow> pystr list" where
  "envelope_errors e url_ok =
     check (is_non_empty_string (Some (ev_event_id e))) ''event_id must be a non-empty string''
   @ check (ev_event_type e = SCRAPER_PRODUCT_EVENT_TYPE) (''event_type must be '' @ [CHR 0x27] @ SCRAPER_PRODUCT_EVENT_TYPE @ [CHR 0x27])
   @ check (ev_schema_version e = SCRAPER_PRODUCT_SCHEMA_VERSION) ''schema_version must be 1''
   @ check (is_non_empty_string (Some (ev_store_name e))) ''store_name must be a non-empty string''
   @ check url_ok ''source_url must be a valid http/https URL''
   @ check (is_non_empty_string (Some (ev_scrape_run_id e))) ''scrape_run_id must be a non-empty string''
   @ check (is_non_empty_string (Some (ev_payload_hash e))) ''payload_hash must be a non-empty string''"

definition mirror_errors :: "event \<Rightarrow> pystr list" where
  "mirror_errors e = (let p = ev_structured_payload e in
     check (pl_store_name p = ev_store_name e) ''structured_payload.store_name must match store_name''
   @ check (pl_source_url p = ev_source_url e) ''structured_payload.source_url must match source_url''
   @ check (pl_source_id p = ev_source_id e) ''structured_payload.source_id must match source_id''
   @ check (pl_scraped_at p = ev_scraped_at e) ''structured_payload.scraped_at must match scraped_at''
   @ check (pl_payload_hash p = ev_payload_hash e) ''structured_payload.payload_hash must match payload_hash''
   @ check (pl_scrape_run_id p = ev_scrape_run_id e) ''structured_payload.scrape_run_id must match scrape_run_id'')"

definition product_errors :: "payload \<Rightarrow> pystr list" where
  "product_errors p =
     check (is_non_empty_string (Some (pl_title p))) ''structured_payload.title must be a non-empty string''
   @ check (pl_in_stock p \<noteq> None) ''structured_payload.in_stock must be boolean''
   @ check (is_non_empty_string (Some (pl_identity_key p))) ''structured_payload.identity_key must be a non-empty string''
   @ check (length (pl_image_urls p) \<le> 100) ''structured_payload.image_urls must contain at most 100 URLs''"

definition publication_errors :: "publication \<Rightarrow> pystr list" where
  "publication_errors b =
     check (pb_publication_version b \<ge> 1) ''publication.publication_version must be >= 1''
   @ check (is_non_empty_string (pb_exchange_name b)) ''publication.exchange_name must be a non-empty string''
   @ check (is_non_empty_string (pb_queue_name b)) ''publication.queue_name must be a non-empty string''
   @ check (is_non_empty_string (pb_routing_key b)) ''publication.routing_key must be a non-empty string''
   @ check (pb_outbox_status b = ''published'') ''publication.outbox_status must be 'published' before Rabbit publish''
   @ check (pb_attempt_number b \<ge> 0) ''publication.attempt_number must be >= 0''
   @ check (is_non_empty_string (pb_publisher_service b)) ''publication.publisher_service must be a non-empty string''
   @ check (pb_published_at b \<noteq> None) ''publication.published_at must be set for a published Rabbit event''"

text \<open>
  \<open>ScraperProductEvent.assert_rabbit_publish_contract\<close>: all violations are collected and
  raised as one \<open>ValueError\<close>.
\<close>

definition assert_rabbit_publish_contract :: "event \<Rightarrow> exc + unit" where
  "assert_rabbit_publish_contract e =
    (case is_valid_http_url (Some (ev_source_url e)) of
       Inl x \<Rightarrow> Inl x
     | Inr url_ok \<Rightarrow>
        (case image_url_errors 0 (pl_image_urls (ev_structured_payload e)) of
           Inl x \<Rightarrow> Inl x
         | Inr image_msgs \<Rightarrow>
            (let errors = envelope_errors e url_ok @ mirror_errors e
                   @ product_errors (ev_structured_payload e) @ image_msgs
                   @ publication_errors (ev_publication e)
             in if errors = [] then Inr () else Inl (ValueError (join_text ''; '' errors)))))"

lemma image_url_errors_Nil:
  "image_url_errors i us = Inr [] \<longleftrightarrow> (\<forall>u \<in> set us. is_valid_http_url (Some u) = Inr True)"
proof (induction us arbitrary: i)
  case Nil
  show ?case by simp
next
  case (Cons u us)
  show ?case using Cons [of "Suc i"] by (cases "image_url_errors (Suc i) us") (auto split: sum.splits)
qed

lemma image_url_errors_ValueError:
  "image_url_errors i us = Inl x \<Longrightarrow> \<exists>m. x = ValueError m"
  by (induction us arbitrary: i)
     (auto split: sum.splits dest: is_valid_http_url_ValueError)

lemma assert_contract_error: "assert_rabbit_publish_contract e = Inl x \<Longrightarrow> \<exists>m. x = ValueError m"
  by (auto simp: assert_rabbit_publish_contract_def Let_def split: sum.splits if_splits
      dest: image_url_errors_ValueError is_valid_http_url_ValueError)

text \<open>The contract spelled out: the event passes exactly when every clause holds.\<close>

definition publishable_payload :: "payload \<Rightarrow> bool" where
  "publishable_payload p \<longleftrightarrow> strip (pl_title p) \<noteq> [] \<and> pl_in_stock p \<noteq> None
     \<and> strip (pl_identity_key p) \<noteq> [] \<and> length (pl_image_urls p) \<le> 100
     \<and> (\<forall>u \<in> set (pl_image_urls p). is_valid_http_url (Some u) = Inr True)"

definition mirrors_payload :: "event \<Rightarrow> bool" where
  "mirrors_payload e \<longleftrightarrow> (let p = ev_structured_payload e in
     pl_store_name p = ev_store_name e \<and> pl_source_url p = ev_source_url e
     \<and> pl_source_id p = ev_source_id e \<and> pl_scraped_at p = ev_scraped_at e
     \<and> pl_payload_hash p = ev_payload_hash e \<and> pl_scrape_run_id p = ev_scrape_run_id e)"

definition publishable_metadata :: "publication \<Rightarrow> bool" where
  "publishable_metadata b \<longleftrightarrow> pb_publication_version b \<ge> 1 \<and> is_non_empty_string (pb_exchange_name b)
     \<and> is_non_empty_string (pb_queue_name b) \<and> is_non_empty_string (pb_routing_key b)
     \<and> pb_outbox_status b = ''published'' \<and> pb_attempt_number b \<ge> 0
     \<and> is_non_empty_string (pb_publisher_service b) \<and> pb_published_at b \<noteq> None"

definition publishable_envelope :: "event \<Rightarrow> bool" where
  "publishable_envelope e \<longleftrightarrow> strip (ev_event_id e) \<noteq> []
     \<and> ev_event_type e = SCRAPER_PRODUCT_EVENT_TYPE \<and> ev_schema_version e = SCRAPER_PRODUCT_SCHEMA_VERSION
     \<and> strip (ev_store_name e) \<noteq> [] \<and> is_valid_http_url (Some (ev_source_url e)) = Inr True
     \<and> strip (ev_scrape_run_id e) \<noteq> [] \<and> strip (ev_payload_hash e) \<noteq> []"

lemma assert_contract_iff:
  "assert_rabbit_publish_contract e = Inr () \<longleftrightarrow>
     publishable_envelope e \<and> mirrors_payload e
     \<and> publishable_payload (ev_structured_payload e) \<and> publishable_metadata (ev_publication e)"
  (is "?l \<longleftrightarrow> ?r")
proof (cases "is_valid_http_url (Some (ev_source_url e))")
  case (Inl x)
  then show ?thesis by (auto simp: assert_rabbit_publish_contract_def publishable_envelope_def)
next
  case url: (Inr ok)
  show ?thesis
  proof (cases "image_url_errors 0 (pl_image_urls (ev_structured_payload e))")
    case (Inl x)
    then have "\<not> publishable_payload (ev_structured_payload e)"
      using image_url_errors_Nil [of 0 "pl_image_urls (ev_structured_payload e)"]
      by (auto simp: publishable_payload_def)
    with Inl url show ?thesis by (simp add: assert_rabbit_publish_contract_def)
  next
    case (Inr msgs)
    then have imgs: "msgs = [] \<longleftrightarrow>
        (\<forall>u \<in> set (pl_image_urls (ev_structured_payload e)). is_valid_http_url (Some u) = Inr True)"
      using image_url_errors_Nil [of 0 "pl_image_urls (ev_structured_payload e)"] by auto
    show ?thesis
      using url Inr imgs
      by (auto simp: assert_rabbit_publish_contract_def Let_def envelope_errors_def mirror_errors_def
          product_errors_def publication_errors_def publishable_envelope_def mirrors_payload_def
          publishable_payload_def publishable_metadata_def is_non_empty_string_def
          split: option.splits)
  qed
qed

lemma built_event_mirrors: "mirrors_payload (build_scraper_product_event v q s i t x r c)"
  by (simp add: mirrors_payload_def build_scraper_product_event_def Let_def)

end
