(* ===== verification/Store_Tables.thy ===== *)
theory Store_Tables imports Domain begin

text \<open>
  The relational state both stores keep (\<^verbatim>\<open>infrastructure/persistence/\<close>): the tables
  \<open>scrape_runs\<close>, \<open>raw_products\<close>, \<open>raw_product_images\<close>, \<open>raw_product_specs\<close>,
  \<open>publication_outbox\<close> and \<open>publication_attempts\<close>, the statements that write them, and
  the invariant that ties them together.  Surrogate keys the code never reads (those of
  runs, images, specs and attempts) are left out; the sequences of the two keys it does
  read are part of the state.
\<close>

section \<open>Flattened specifications\<close>

record flat_spec =
  fs_spec_name :: pystr
  fs_spec_value :: pystr
  fs_source_section :: "pystr option"

fun normalized_spec_items :: "json list \<Rightarrow> json list" where
  "normalized_spec_items [] = []"
| "normalized_spec_items (item # rest) =
    (case item of
       JObj d \<Rightarrow> JObj d # normalized_spec_items rest
     | v \<Rightarrow> (case normalize_text v of
          None \<Rightarrow> normalized_spec_items rest
        | Some t \<Rightarrow> JStr t # normalized_spec_items rest))"

definition coerce_spec_value :: "(json \<Rightarrow> pystr) \<Rightarrow> json \<Rightarrow> pystr option" where
  "coerce_spec_value dumps value =
    (case value of
       JNull \<Rightarrow> None
     | JObj d \<Rightarrow> Some (dumps (JObj d))
     | JArr items \<Rightarrow> (let ns = normalized_spec_items items in
          if ns = [] then None else Some (dumps (JArr ns)))
     | v \<Rightarrow> normalize_text v)"

fun flatten_spec_section ::
    "(json \<Rightarrow> pystr) \<Rightarrow> pystr \<Rightarrow> pystr option \<Rightarrow> (pystr \<times> json) list \<Rightarrow> flat_spec list" where
  "flatten_spec_section dumps section_name prefix [] = []"
| "flatten_spec_section dumps section_name prefix ((key, value) # rest) =
    (case normalize_str key of
       None \<Rightarrow> flatten_spec_section dumps section_name prefix rest
     | Some clean_key \<Rightarrow>
        (let next_prefix = (case prefix of None \<Rightarrow> clean_key | Some p \<Rightarrow> p @ '' / '' @ clean_key) in
         (case value of
            JObj (kv # kvs) \<Rightarrow>
              flatten_spec_section dumps section_name (Some next_prefix) (kv # kvs)
              @ flatten_spec_section dumps section_name prefix rest
          | v \<Rightarrow>
              (case coerce_spec_value dumps v of
                 None \<Rightarrow> flatten_spec_section dumps section_name prefix rest
               | Some t \<Rightarrow> \<lparr> fs_spec_name = next_prefix, fs_spec_value = t, fs_source_section = Some section_name \<rparr>
                   # flatten_spec_section dumps section_name prefix rest))))"

fun flatten_specs :: "(json \<Rightarrow> pystr) \<Rightarrow> (pystr \<times> json) list \<Rightarrow> flat_spec list" where
  "flatten_specs dumps [] = []"
| "flatten_specs dumps ((key, value) # rest) =
    (case normalize_str key of
       None \<Rightarrow> flatten_specs dumps rest
     | Some clean_key \<Rightarrow>
        (case value of
           JObj (kv # kvs) \<Rightarrow> flatten_spec_section dumps clean_key None (kv # kvs) @ flatten_specs dumps rest
         | v \<Rightarrow>
             (case coerce_spec_value dumps v of
                None \<Rightarrow> flatten_specs dumps rest
              | Some t \<Rightarrow> \<lparr> fs_spec_name = clean_key, fs_spec_value = t, fs_source_section = None \<rparr>
                  # flatten_specs dumps rest)))"

section \<open>Rows\<close>

datatype outbox_status = Pending | Retryable | Publishing | Leased | Published | Failed

record run_row =
  rr_run_id :: pystr
  rr_store_name :: pystr
  rr_spider_name :: pystr
  rr_started_at :: time
  rr_finished_at :: "time option"
  rr_status :: pystr
  rr_items_scraped :: int
  rr_items_persisted :: int
  rr_items_failed :: int
  rr_category_urls :: "pystr list"
  rr_stats :: "(pystr \<times> int) list"
  rr_created_at :: time
  rr_updated_at :: time

record product_row =
  pr_id :: int
  pr_scrape_run_id :: pystr
  pr_store_name :: pystr
  pr_source_id :: "pystr option"
  pr_source_url :: pystr
  pr_identity_key :: pystr
  pr_title :: pystr
  pr_brand :: "pystr option"
  pr_price_raw :: "pystr option"
  pr_in_stock :: "bool option"
  pr_description :: "pystr option"
  pr_category_hint :: "pystr option"
  pr_external_ids :: "(pystr \<times> pystr) list"
  pr_payload_hash :: pystr
  pr_raw_payload :: "(pystr \<times> json) list"
  pr_structured_payload :: payload
  pr_scraped_at :: time
  pr_publication_state :: outbox_status
  pr_created_at :: time
  pr_updated_at :: time

record image_row =
  im_raw_product_id :: int
  im_image_url :: pystr
  im_position :: nat
  im_created_at :: time
  im_updated_at :: time

record spec_row =
  sp_raw_product_id :: int
  sp_spec :: flat_spec
  sp_position :: nat
  sp_created_at :: time
  sp_updated_at :: time

record outbox_row =
  ob_id :: int
  ob_raw_product_id :: int
  ob_event_id :: pystr
  ob_event_type :: pystr
  ob_schema_version :: int
  ob_scrape_run_id :: pystr
  ob_store_name :: pystr
  ob_source_id :: "pystr option"
  ob_source_url :: pystr
  ob_payload_hash :: pystr
  ob_exchange_name :: pystr
  ob_routing_key :: pystr
  ob_payload :: event
  ob_status :: outbox_status
  ob_available_at :: time
  ob_published_at :: "time option"
  ob_retry_count :: int
  ob_last_error :: "pystr option"
  ob_lease_owner :: "pystr option"
  ob_lease_expires_at :: "time option"
  ob_created_at :: time
  ob_updated_at :: time

record attempt_row =
  at_outbox_id :: int
  at_attempt_number :: int
  at_attempted_at :: time
  at_success :: bool
  at_error_message :: "pystr option"
  at_publisher_name :: pystr
  at_created_at :: time

record db =
  t_runs :: "run_row list"
  t_products :: "product_row list"
  t_images :: "image_row list"
  t_specs :: "spec_row list"
  t_outbox :: "outbox_row list"
  t_attempts :: "attempt_row list"
  product_seq :: int
  outbox_seq :: int

definition empty_db :: db where
  "empty_db = \<lparr> t_runs = [], t_products = [], t_images = [], t_specs = [], t_outbox = [],
     t_attempts = [], product_seq = 0, outbox_seq = 0 \<rparr>"

text \<open>\<open>ClaimedOutboxMessage\<close> and \<open>PersistedRawProduct\<close> of \<^verbatim>\<open>persistence/base.py\<close>.\<close>

record claimed =
  cl_event_id :: pystr
  cl_exchange_name :: pystr
  cl_routing_key :: pystr
  cl_attempt_count :: int
  cl_payload :: event

record persisted =
  ps_raw_product_id :: int
  ps_outbox_id :: int
  ps_event_id :: pystr
  ps_payload_hash :: pystr
  ps_publication_state :: outbox_status

definition claimed_of :: "outbox_row \<Rightarrow> claimed" where
  "claimed_of r = \<lparr> cl_event_id = ob_event_id r, cl_exchange_name = ob_exchange_name r,
     cl_routing_key = ob_routing_key r, cl_attempt_count = ob_retry_count r, cl_payload = ob_payload r \<rparr>"

text \<open>The settings the stores read.\<close>

record store_settings =
  MESSAGE_SCHEMA_VERSION :: int
  RABBITMQ_QUEUE :: pystr
  SCRAPER_OUTBOX_MAX_RETRIES :: int
  SCRAPER_OUTBOX_RETRY_BASE_SECONDS :: int

section \<open>Statements\<close>

text \<open>\<open>int(stats.get(a) or stats.get(b) or 0)\<close> on the counters of a run.\<close>

definition stat_or :: "(pystr \<times> int) list \<Rightarrow> pystr \<Rightarrow> int \<Rightarrow> int" where
  "stat_or stats key other = (case od_get key stats of None \<Rightarrow> other | Some n \<Rightarrow> if n = 0 then other else n)"

definition register_scrape_run ::
    "time \<Rightarrow> pystr \<Rightarrow> pystr \<Rightarrow> pystr \<Rightarrow> pystr list \<Rightarrow> db \<Rightarrow> db" where
  "register_scrape_run now run_id store spider category_urls d =
    (if list_ex (\<lambda>r. rr_run_id r = run_id) (t_runs d)
     then d\<lparr>t_runs := update_rows (\<lambda>r. rr_run_id r = run_id)
            (\<lambda>r. r\<lparr>rr_store_name := store, rr_spider_name := spider, rr_status := ''running'',
                    rr_category_urls := category_urls, rr_updated_at := now\<rparr>) (t_runs d)\<rparr>
     else d\<lparr>t_runs := t_runs d @ [\<lparr> rr_run_id = run_id, rr_store_name = store, rr_spider_name = spider,
            rr_started_at = now, rr_finished_at = None, rr_status = ''running'', rr_items_scraped = 0,
            rr_items_persisted = 0, rr_items_failed = 0, rr_category_urls = category_urls,
            rr_stats = [], rr_created_at = now, rr_updated_at = now \<rparr>]\<rparr>)"

definition finish_scrape_run ::
    "time \<Rightarrow> pystr \<Rightarrow> pystr \<Rightarrow> (pystr \<times> int) list \<Rightarrow> db \<Rightarrow> db" where
  "finish_scrape_run now run_id status stats d =
    d\<lparr>t_runs := update_rows (\<lambda>r. rr_run_id r = run_id)
        (\<lambda>r. r\<lparr>rr_finished_at := Some now, rr_status := status,
                rr_items_scraped := stat_or stats ''items_scraped'' (stat_or stats ''item_scraped_count'' 0),
                rr_items_persisted := stat_or stats ''items_persisted'' 0,
                rr_items_failed := stat_or stats ''items_failed'' (stat_or stats ''item_dropped_count'' 0),
                rr_stats := stats, rr_updated_at := now\<rparr>) (t_runs d)\<rparr>"

definition fresh_product_row :: "int \<Rightarrow> snapshot \<Rightarrow> payload \<Rightarrow> time \<Rightarrow> product_row" where
  "fresh_product_row pid snap structured now = \<lparr>
     pr_id = pid, pr_scrape_run_id = sn_scrape_run_id snap, pr_store_name = sn_store_name snap,
     pr_source_id = sn_source_id snap, pr_source_url = sn_source_url snap,
     pr_identity_key = sn_identity_key snap, pr_title = sn_title snap, pr_brand = sn_brand snap,
     pr_price_raw = sn_price_raw snap, pr_in_stock = sn_in_stock snap,
     pr_description = sn_description snap, pr_category_hint = sn_category_hint snap,
     pr_external_ids = sn_external_ids snap, pr_payload_hash = sn_payload_hash snap,
     pr_raw_payload = sn_raw_payload snap, pr_structured_payload = structured,
     pr_scraped_at = sn_scraped_at snap, pr_publication_state = Pending,
     pr_created_at = now, pr_updated_at = now \<rparr>"

definition refresh_product_row :: "snapshot \<Rightarrow> payload \<Rightarrow> time \<Rightarrow> product_row \<Rightarrow> product_row" where
  "refresh_product_row snap structured now r = r\<lparr>
     pr_store_name := sn_store_name snap, pr_source_id := sn_source_id snap,
     pr_source_url := sn_source_url snap, pr_title := sn_title snap, pr_brand := sn_brand snap,
     pr_price_raw := sn_price_raw snap, pr_in_stock := sn_in_stock snap,
     pr_description := sn_description snap, pr_category_hint := sn_category_hint snap,
     pr_external_ids := sn_external_ids snap, pr_payload_hash := sn_payload_hash snap,
     pr_raw_payload := sn_raw_payload snap, pr_structured_payload := structured,
     pr_scraped_at := sn_scraped_at snap, pr_publication_state := Pending, pr_updated_at := now \<rparr>"

fun insert_images :: "int \<Rightarrow> time \<Rightarrow> nat \<Rightarrow> pystr list \<Rightarrow> image_row list \<Rightarrow> exc + image_row list" where
  "insert_images pid now pos [] rows = Inr rows"
| "insert_images pid now pos (url # urls) rows =
    (if list_ex (\<lambda>r. im_raw_product_id r = pid \<and> (im_image_url r = url \<or> im_position r = pos)) rows
     then Inl (IntegrityError ''UNIQUE constraint failed: raw_product_images'')
     else insert_images pid now (Suc pos) urls
       (rows @ [\<lparr> im_raw_product_id = pid, im_image_url = url, im_position = pos,
                  im_created_at = now, im_updated_at = now \<rparr>]))"

definition replace_image_rows :: "int \<Rightarrow> pystr list \<Rightarrow> time \<Rightarrow> db \<Rightarrow> exc + db" where
  "replace_image_rows pid urls now d =
    (case insert_images pid now 0 urls (delete_rows (\<lambda>r. im_raw_product_id r = pid) (t_images d)) of
       Inl e \<Rightarrow> Inl e
     | Inr rows \<Rightarrow> Inr (d\<lparr>t_images := rows\<rparr>))"

text \<open>\<open>unique(raw_product_id, spec_name, spec_value, ifnull(source_section, ''))\<close>\<close>

definition spec_identity :: "flat_spec \<Rightarrow> pystr \<times> pystr \<times> pystr" where
  "spec_identity f = (fs_spec_name f, fs_spec_value f, or_empty (fs_source_section f))"

fun insert_specs :: "int \<Rightarrow> time \<Rightarrow> nat \<Rightarrow> flat_spec list \<Rightarrow> spec_row list \<Rightarrow> exc + spec_row list" where
  "insert_specs pid now pos [] rows = Inr rows"
| "insert_specs pid now pos (f # fs) rows =
    (if list_ex (\<lambda>r. sp_raw_product_id r = pid
          \<and> (spec_identity (sp_spec r) = spec_identity f \<or> sp_position r = pos)) rows
     then Inl (IntegrityError ''UNIQUE constraint failed: raw_product_specs'')
     else insert_specs pid now (Suc pos) fs
       (rows @ [\<lparr> sp_raw_product_id = pid, sp_spec = f, sp_position = pos,
                  sp_created_at = now, sp_updated_at = now \<rparr>]))"

definition replace_spec_rows ::
    "(json \<Rightarrow> pystr) \<Rightarrow> int \<Rightarrow> (pystr \<times> json) list \<Rightarrow> time \<Rightarrow> db \<Rightarrow> exc + db" where
  "replace_spec_rows dumps pid raw_specs now d =
    (case insert_specs pid now 0 (flatten_specs dumps raw_specs)
            (delete_rows (\<lambda>r. sp_raw_product_id r = pid) (t_specs d)) of
       Inl e \<Rightarrow> Inl e
     | Inr rows \<Rightarrow> Inr (d\<lparr>t_specs := rows\<rparr>))"

definition run_exists :: "pystr \<Rightarrow> db \<Rightarrow> bool" where
  "run_exists run_id d = list_ex (\<lambda>r. rr_run_id r = run_id) (t_runs d)"

definition fresh_outbox_row ::
    "store_settings \<Rightarrow> int \<Rightarrow> int \<Rightarrow> snapshot \<Rightarrow> event \<Rightarrow> pystr \<Rightarrow> pystr \<Rightarrow> time \<Rightarrow> outbox_row" where
  "fresh_outbox_row s oid pid snap e exchange_name routing_key now = \<lparr>
     ob_id = oid, ob_raw_product_id = pid, ob_event_id = ev_event_id e, ob_event_type = ev_event_type e,
     ob_schema_version = MESSAGE_SCHEMA_VERSION s, ob_scrape_run_id = sn_scrape_run_id snap,
     ob_store_name = sn_store_name snap, ob_source_id = sn_source_id snap,
     ob_source_url = sn_source_url snap, ob_payload_hash = sn_payload_hash snap,
     ob_exchange_name = exchange_name, ob_routing_key = routing_key, ob_payload = e,
     ob_status = Pending, ob_available_at = now, ob_published_at = None, ob_retry_count = 0,
     ob_last_error = None, ob_lease_owner = None, ob_lease_expires_at = None,
     ob_created_at = now, ob_updated_at = now \<rparr>"

definition refresh_outbox_row ::
    "store_settings \<Rightarrow> int \<Rightarrow> snapshot \<Rightarrow> event \<Rightarrow> pystr \<Rightarrow> pystr \<Rightarrow> time \<Rightarrow> outbox_row \<Rightarrow> outbox_row" where
  "refresh_outbox_row s pid snap e exchange_name routing_key now r = r\<lparr>
     ob_raw_product_id := pid, ob_event_type := ev_event_type e,
     ob_schema_version := MESSAGE_SCHEMA_VERSION s, ob_scrape_run_id := sn_scrape_run_id snap,
     ob_store_name := sn_store_name snap, ob_source_id := sn_source_id snap,
     ob_source_url := sn_source_url snap, ob_payload_hash := sn_payload_hash snap,
     ob_exchange_name := exchange_name, ob_routing_key := routing_key, ob_payload := e,
     ob_status := Pending, ob_available_at := now, ob_published_at := None, ob_retry_count := 0,
     ob_last_error := None, ob_lease_owner := None, ob_lease_expires_at := None,
     ob_updated_at := now \<rparr>"

text \<open>
  The pair of updates every change of an outbox status consists of: the outbox rows
  with the given ids, then \<open>publication_state\<close> of the products they belong to.
\<close>

definition move_outbox_rows ::
    "int list \<Rightarrow> (outbox_row \<Rightarrow> outbox_row) \<Rightarrow> outbox_status \<Rightarrow> time \<Rightarrow> db \<Rightarrow> db" where
  "move_outbox_rows ids f state now d =
    (let pids = map ob_raw_product_id (filter (\<lambda>r. ob_id r \<in> set ids) (t_outbox d)) in
     d\<lparr>t_outbox := update_rows (\<lambda>r. ob_id r \<in> set ids) f (t_outbox d),
       t_products := update_rows (\<lambda>p. pr_id p \<in> set pids)
         (\<lambda>p. p\<lparr>pr_publication_state := state, pr_updated_at := now\<rparr>) (t_products d)\<rparr>)"

text \<open>\<open>insert into publication_attempts \<dots> on conflict(outbox_id, attempt_number) do update\<close>\<close>

definition record_attempt ::
    "int \<Rightarrow> int \<Rightarrow> time \<Rightarrow> bool \<Rightarrow> pystr option \<Rightarrow> pystr \<Rightarrow> db \<Rightarrow> db" where
  "record_attempt oid number now ok err publisher d =
    (if list_ex (\<lambda>a. at_outbox_id a = oid \<and> at_attempt_number a = number) (t_attempts d)
     then d\<lparr>t_attempts := update_rows (\<lambda>a. at_outbox_id a = oid \<and> at_attempt_number a = number)
            (\<lambda>a. a\<lparr>at_success := ok, at_error_message := err, at_publisher_name := publisher,
                    at_created_at := now\<rparr>) (t_attempts d)\<rparr>
     else d\<lparr>t_attempts := t_attempts d @ [\<lparr> at_outbox_id = oid, at_attempt_number = number,
            at_attempted_at = now, at_success = ok, at_error_message = err,
            at_publisher_name = publisher, at_created_at = now \<rparr>]\<rparr>)"

text \<open>\<open>str(uuid.uuid5(NAMESPACE_URL, f"outbox:{run}:{identity}"))\<close>; \<open>uuid5\<close> is a parameter.\<close>

definition outbox_event_id :: "(pystr \<Rightarrow> pystr) \<Rightarrow> pystr \<Rightarrow> pystr \<Rightarrow> pystr" where
  "outbox_event_id uuid5 run_id identity_key = uuid5 (''outbox:'' @ run_id @ '':'' @ identity_key)"

section \<open>Reads\<close>

definition get_outbox_row :: "pystr \<Rightarrow> db \<Rightarrow> outbox_row option" where
  "get_outbox_row event_id d = List.find (\<lambda>r. ob_event_id r = event_id) (t_outbox d)"

definition get_snapshot_row :: "pystr \<Rightarrow> pystr \<Rightarrow> db \<Rightarrow> product_row option" where
  "get_snapshot_row run_id ident d =
    List.find (\<lambda>p. pr_scrape_run_id p = run_id \<and> pr_identity_key p = ident) (t_products d)"

definition get_scrape_run_row :: "pystr \<Rightarrow> db \<Rightarrow> run_row option" where
  "get_scrape_run_row run_id d = List.find (\<lambda>r. rr_run_id r = run_id) (t_runs d)"

definition get_raw_product_images :: "int \<Rightarrow> db \<Rightarrow> image_row list" where
  "get_raw_product_images pid d = sort_key im_position (filter (\<lambda>r. im_raw_product_id r = pid) (t_images d))"

definition get_raw_product_specs :: "int \<Rightarrow> db \<Rightarrow> spec_row list" where
  "get_raw_product_specs pid d = sort_key sp_position (filter (\<lambda>r. sp_raw_product_id r = pid) (t_specs d))"

definition get_publication_attempts :: "int \<Rightarrow> db \<Rightarrow> attempt_row list" where
  "get_publication_attempts oid d =
    sort_key at_attempt_number (filter (\<lambda>a. at_outbox_id a = oid) (t_attempts d))"

end
