(* ===== verification/Store_Invariant.thy ===== *)
theory Store_Invariant imports Store_Tables begin

text \<open>
  The invariant of the relational state (keys are unique, every outbox row belongs to one
  product and carries its event id) and the mirror property (a product's
  \<open>publication_state\<close> is the status of its outbox row), with the facts about the
  statements of \<open>Store_Tables\<close> that both stores use.
\<close>

definition product_key :: "product_row \<Rightarrow> pystr \<times> pystr" where
  "product_key p = (pr_scrape_run_id p, pr_identity_key p)"

definition products_wf :: "db \<Rightarrow> bool" where
  "products_wf d \<longleftrightarrow> distinct (map pr_id (t_products d)) \<and> distinct (map product_key (t_products d))
     \<and> (\<forall>p \<in> set (t_products d). pr_id p \<le> product_seq d)"

definition outbox_wf :: "db \<Rightarrow> bool" where
  "outbox_wf d \<longleftrightarrow> distinct (map ob_id (t_outbox d)) \<and> distinct (map ob_event_id (t_outbox d))
     \<and> distinct (map ob_raw_product_id (t_outbox d)) \<and> (\<forall>r \<in> set (t_outbox d). ob_id r \<le> outbox_seq d)"

definition outbox_linked :: "(pystr \<Rightarrow> pystr) \<Rightarrow> db \<Rightarrow> bool" where
  "outbox_linked uuid5 d \<longleftrightarrow> (\<forall>r \<in> set (t_outbox d). \<exists>p \<in> set (t_products d).
      pr_id p = ob_raw_product_id r
      \<and> ob_event_id r = outbox_event_id uuid5 (pr_scrape_run_id p) (pr_identity_key p))"

definition db_wf :: "(pystr \<Rightarrow> pystr) \<Rightarrow> db \<Rightarrow> bool" where
  "db_wf uuid5 d \<longleftrightarrow> products_wf d \<and> outbox_wf d \<and> outbox_linked uuid5 d"

definition states_mirror :: "db \<Rightarrow> bool" where
  "states_mirror d \<longleftrightarrow> (\<forall>r \<in> set (t_outbox d). \<forall>p \<in> set (t_products d).
      pr_id p = ob_raw_product_id r \<longrightarrow> pr_publication_state p = ob_status r)"

text \<open>The event id of a snapshot is not that of another product already stored.\<close>

definition event_id_unambiguous :: "(pystr \<Rightarrow> pystr) \<Rightarrow> pystr \<Rightarrow> pystr \<Rightarrow> db \<Rightarrow> bool" where
  "event_id_unambiguous uuid5 run_id ident d \<longleftrightarrow> (\<forall>p \<in> set (t_products d).
      outbox_event_id uuid5 (pr_scrape_run_id p) (pr_identity_key p) = outbox_event_id uuid5 run_id ident
      \<longrightarrow> product_key p = (run_id, ident))"

definition status_of :: "pystr \<Rightarrow> db \<Rightarrow> outbox_status option" where
  "status_of event_id d = map_option ob_status (get_outbox_row event_id d)"

lemma db_wf_empty [simp]: "db_wf uuid5 empty_db"
  by (simp add: db_wf_def products_wf_def outbox_wf_def outbox_linked_def empty_db_def)

lemma states_mirror_empty [simp]: "states_mirror empty_db"
  by (simp add: states_mirror_def empty_db_def)

lemma db_wf_distinct:
  assumes "db_wf uuid5 d"
  shows "distinct (map pr_id (t_products d))" "distinct (map product_key (t_products d))"
    "distinct (map ob_id (t_outbox d))" "distinct (map ob_event_id (t_outbox d))"
    "distinct (map ob_raw_product_id (t_outbox d))"
  using assms by (simp_all add: db_wf_def products_wf_def outbox_wf_def)

text \<open>Updates that leave the keys alone.\<close>

lemma products_wf_cong:
  "\<lbrakk> products_wf d; map pr_id (t_products d') = map pr_id (t_products d);
     map product_key (t_products d') = map product_key (t_products d);
     product_seq d' \<ge> product_seq d \<rbrakk> \<Longrightarrow> products_wf d'"
proof -
  assume a: "products_wf d" "map pr_id (t_products d') = map pr_id (t_products d)"
    "map product_key (t_products d') = map product_key (t_products d)" "product_seq d' \<ge> product_seq d"
  have "pr_id p \<le> product_seq d'" if "p \<in> set (t_products d')" for p
  proof -
    from that a(2) have "pr_id p \<in> pr_id ` set (t_products d)" by (metis image_eqI list.set_map)
    with a(1,4) show ?thesis by (auto simp: products_wf_def)
  qed
  with a show ?thesis by (simp add: products_wf_def)
qed

lemma outbox_wf_cong:
  "\<lbrakk> outbox_wf d; map ob_id (t_outbox d') = map ob_id (t_outbox d);
     map ob_event_id (t_outbox d') = map ob_event_id (t_outbox d);
     map ob_raw_product_id (t_outbox d') = map ob_raw_product_id (t_outbox d);
     outbox_seq d' \<ge> outbox_seq d \<rbrakk> \<Longrightarrow> outbox_wf d'"
proof -
  assume a: "outbox_wf d" "map ob_id (t_outbox d') = map ob_id (t_outbox d)"
    "map ob_event_id (t_outbox d') = map ob_event_id (t_outbox d)"
    "map ob_raw_product_id (t_outbox d') = map ob_raw_product_id (t_outbox d)" "outbox_seq d' \<ge> outbox_seq d"
  have "ob_id r \<le> outbox_seq d'" if "r \<in> set (t_outbox d')" for r
  proof -
    from that a(2) have "ob_id r \<in> ob_id ` set (t_outbox d)" by (metis image_eqI list.set_map)
    with a(1,5) show ?thesis by (auto simp: outbox_wf_def)
  qed
  with a show ?thesis by (simp add: outbox_wf_def)
qed

text \<open>The invariant speaks of the keys only.\<close>

abbreviation product_keys :: "product_row \<Rightarrow> int \<times> pystr \<times> pystr" where
  "product_keys p \<equiv> (pr_id p, product_key p)"

abbreviation outbox_keys :: "outbox_row \<Rightarrow> int \<times> pystr \<times> int" where
  "outbox_keys r \<equiv> (ob_id r, ob_event_id r, ob_raw_product_id r)"

lemma outbox_linked_keys:
  "outbox_linked uuid5 d \<longleftrightarrow> (\<forall>(oid, eid, pid) \<in> set (map outbox_keys (t_outbox d)).
     \<exists>(pid', run, ident) \<in> set (map product_keys (t_products d)).
       pid' = pid \<and> eid = outbox_event_id uuid5 run ident)"
  by (auto simp: outbox_linked_def product_key_def)

lemma db_wf_cong:
  assumes "db_wf uuid5 d" "map product_keys (t_products d') = map product_keys (t_products d)"
    "map outbox_keys (t_outbox d') = map outbox_keys (t_outbox d)"
    "product_seq d' \<ge> product_seq d" "outbox_seq d' \<ge> outbox_seq d"
  shows "db_wf uuid5 d'"
proof -
  have p: "map (g \<circ> product_keys) (t_products d') = map (g \<circ> product_keys) (t_products d)" for g :: "_ \<Rightarrow> 'z"
    using arg_cong [OF assms(2), of "map g"] by simp
  have o: "map (g \<circ> outbox_keys) (t_outbox d') = map (g \<circ> outbox_keys) (t_outbox d)" for g :: "_ \<Rightarrow> 'z"
    using arg_cong [OF assms(3), of "map g"] by simp
  have "products_wf d'"
    using assms(1,4) p [of fst] p [of snd]
    by - (rule products_wf_cong [of d], simp_all add: db_wf_def comp_def)
  moreover have "outbox_wf d'"
    using assms(1,5) o [of fst] o [of "fst \<circ> snd"] o [of "snd \<circ> snd"]
    by - (rule outbox_wf_cong [of d], simp_all add: db_wf_def comp_def)
  moreover have "outbox_linked uuid5 d'"
    using assms(1) unfolding db_wf_def outbox_linked_keys assms(2,3) by simp
  ultimately show ?thesis by (simp add: db_wf_def)
qed

text \<open>An outbox update that keeps every key.\<close>

definition keeps_keys :: "(outbox_row \<Rightarrow> outbox_row) \<Rightarrow> bool" where
  "keeps_keys f \<longleftrightarrow> (\<forall>r. ob_id (f r) = ob_id r \<and> ob_event_id (f r) = ob_event_id r
      \<and> ob_raw_product_id (f r) = ob_raw_product_id r)"

lemma t_outbox_move [simp]:
  "t_outbox (move_outbox_rows ids f st now d) = update_rows (\<lambda>r. ob_id r \<in> set ids) f (t_outbox d)"
  by (simp add: move_outbox_rows_def Let_def)

lemma t_products_move:
  "t_products (move_outbox_rows ids f st now d) = update_rows
     (\<lambda>p. \<exists>r \<in> set (t_outbox d). ob_id r \<in> set ids \<and> pr_id p = ob_raw_product_id r)
     (\<lambda>p. p\<lparr>pr_publication_state := st, pr_updated_at := now\<rparr>) (t_products d)"
  unfolding move_outbox_rows_def Let_def update_rows_def
  by (auto intro!: map_cong)

lemma move_frame [simp]:
  "t_runs (move_outbox_rows ids f st now d) = t_runs d"
  "t_images (move_outbox_rows ids f st now d) = t_images d"
  "t_specs (move_outbox_rows ids f st now d) = t_specs d"
  "t_attempts (move_outbox_rows ids f st now d) = t_attempts d"
  "product_seq (move_outbox_rows ids f st now d) = product_seq d"
  "outbox_seq (move_outbox_rows ids f st now d) = outbox_seq d"
  by (simp_all add: move_outbox_rows_def Let_def)

lemma map_products_move:
  "(\<And>p st now. k (p\<lparr>pr_publication_state := st, pr_updated_at := now\<rparr>) = k p) \<Longrightarrow>
     map k (t_products (move_outbox_rows ids f st now d)) = map k (t_products d)"
  by (simp add: t_products_move map_update_rows)

lemma db_wf_move:
  assumes "db_wf uuid5 d" "keeps_keys f"
  shows "db_wf uuid5 (move_outbox_rows ids f st now d)"
  using assms
  by - (rule db_wf_cong [of uuid5 d], simp_all add: map_products_move product_key_def map_update_rows keeps_keys_def)

lemma states_mirror_move:
  assumes "db_wf uuid5 d" "states_mirror d" "keeps_keys f" "\<And>r. ob_status (f r) = st"
  shows "states_mirror (move_outbox_rows ids f st now d)"
  unfolding states_mirror_def
proof (intro ballI impI)
  let ?d = "move_outbox_rows ids f st now d"
  fix r' p' assume r': "r' \<in> set (t_outbox ?d)" and p': "p' \<in> set (t_products ?d)"
    and eq: "pr_id p' = ob_raw_product_id r'"
  from r' obtain r where r: "r \<in> set (t_outbox d)" "r' = (if ob_id r \<in> set ids then f r else r)"
    by (auto simp: set_update_rows)
  from p' obtain p where p: "p \<in> set (t_products d)"
    "p' = (if \<exists>r \<in> set (t_outbox d). ob_id r \<in> set ids \<and> pr_id p = ob_raw_product_id r
           then p\<lparr>pr_publication_state := st, pr_updated_at := now\<rparr> else p)"
    unfolding t_products_move set_update_rows by blast
  from r p eq assms(3) have same: "pr_id p = ob_raw_product_id r"
    by (auto simp: keeps_keys_def split: if_splits)
  show "pr_publication_state p' = ob_status r'"
  proof (cases "ob_id r \<in> set ids")
    case True
    with r p same assms(4) show ?thesis by auto
  next
    case False
    have "\<not> (\<exists>q \<in> set (t_outbox d). ob_id q \<in> set ids \<and> pr_id p = ob_raw_product_id q)"
    proof
      assume "\<exists>q \<in> set (t_outbox d). ob_id q \<in> set ids \<and> pr_id p = ob_raw_product_id q"
      then obtain q where "q \<in> set (t_outbox d)" "ob_id q \<in> set ids" "ob_raw_product_id q = ob_raw_product_id r"
        using same by auto
      with key_unique [OF db_wf_distinct(5) [OF assms(1)], of q r] r(1) False show False by auto
    qed
    with p(2) have "p' = p" by simp
    with False r p(1) same assms(2) show ?thesis by (simp add: states_mirror_def)
  qed
qed

text \<open>Only the outbox, the products and their sequences matter to the invariants.\<close>

lemma invariants_frame:
  assumes "t_products d' = t_products d" "t_outbox d' = t_outbox d"
    "product_seq d' = product_seq d" "outbox_seq d' = outbox_seq d"
  shows "db_wf uuid5 d' = db_wf uuid5 d" "states_mirror d' = states_mirror d"
    "get_outbox_row e d' = get_outbox_row e d" "status_of e d' = status_of e d"
  using assms
  by (simp_all add: db_wf_def products_wf_def outbox_wf_def outbox_linked_def states_mirror_def
      get_outbox_row_def status_of_def)

lemma record_attempt_frame [simp]:
  "t_products (record_attempt o' n t ok err pub d) = t_products d"
  "t_outbox (record_attempt o' n t ok err pub d) = t_outbox d"
  "product_seq (record_attempt o' n t ok err pub d) = product_seq d"
  "outbox_seq (record_attempt o' n t ok err pub d) = outbox_seq d"
  "t_images (record_attempt o' n t ok err pub d) = t_images d"
  "t_specs (record_attempt o' n t ok err pub d) = t_specs d"
  "t_runs (record_attempt o' n t ok err pub d) = t_runs d"
  by (simp_all add: record_attempt_def)

lemmas record_attempt_invariants [simp] =
  invariants_frame [OF record_attempt_frame(1-4)]

lemma register_scrape_run_frame [simp]:
  "t_products (register_scrape_run now r st sp us d) = t_products d"
  "t_outbox (register_scrape_run now r st sp us d) = t_outbox d"
  "product_seq (register_scrape_run now r st sp us d) = product_seq d"
  "outbox_seq (register_scrape_run now r st sp us d) = outbox_seq d"
  by (simp_all add: register_scrape_run_def)

lemma finish_scrape_run_frame [simp]:
  "t_products (finish_scrape_run now r st stats d) = t_products d"
  "t_outbox (finish_scrape_run now r st stats d) = t_outbox d"
  "product_seq (finish_scrape_run now r st stats d) = product_seq d"
  "outbox_seq (finish_scrape_run now r st stats d) = outbox_seq d"
  by (simp_all add: finish_scrape_run_def)

lemmas run_invariants [simp] =
  invariants_frame [OF register_scrape_run_frame] invariants_frame [OF finish_scrape_run_frame]

lemma get_outbox_row_move:
  assumes "keeps_keys f"
  shows "get_outbox_row e (move_outbox_rows ids f st now d)
    = map_option (\<lambda>r. if ob_id r \<in> set ids then f r else r) (get_outbox_row e d)"
  unfolding get_outbox_row_def t_outbox_move
  using assms by (intro find_update_rows) (simp add: keeps_keys_def)

lemma get_outbox_row_SomeD: "get_outbox_row e d = Some r \<Longrightarrow> r \<in> set (t_outbox d) \<and> ob_event_id r = e"
  unfolding get_outbox_row_def by (drule find_SomeD) simp

lemma get_outbox_row_mem:
  "db_wf uuid5 d \<Longrightarrow> r \<in> set (t_outbox d) \<Longrightarrow> get_outbox_row (ob_event_id r) d = Some r"
  unfolding get_outbox_row_def by (rule find_unique) (auto simp: db_wf_distinct)

lemma outbox_id_unique:
  "db_wf uuid5 d \<Longrightarrow> get_outbox_row e d = Some r \<Longrightarrow> q \<in> set (t_outbox d) \<Longrightarrow> ob_id q = ob_id r \<Longrightarrow> q = r"
  using key_unique [OF db_wf_distinct(3)] get_outbox_row_SomeD by blast

text \<open>Moving one row, found by its event id, changes that event only.\<close>

lemma get_outbox_row_move_single:
  assumes "db_wf uuid5 d" "keeps_keys f" "get_outbox_row e d = Some r"
  shows "get_outbox_row e' (move_outbox_rows [ob_id r] f st now d)
    = (if e' = e then Some (f r) else get_outbox_row e' d)"
proof (cases "get_outbox_row e' d")
  case None
  with assms show ?thesis by (auto simp: get_outbox_row_move)
next
  case (Some q)
  have "ob_id q = ob_id r \<longleftrightarrow> e' = e"
  proof
    assume "ob_id q = ob_id r"
    then have "q = r" using outbox_id_unique [OF assms(1) assms(3)] get_outbox_row_SomeD [OF Some] by blast
    then show "e' = e" using get_outbox_row_SomeD [OF Some] get_outbox_row_SomeD [OF assms(3)] by simp
  qed (use Some assms(3) in simp)
  with assms Some show ?thesis by (auto simp: get_outbox_row_move)
qed

section \<open>Images and specifications\<close>

lemma insert_images_ok:
  assumes "\<And>r. r \<in> set rows \<Longrightarrow> im_raw_product_id r = pid \<Longrightarrow>
      im_position r < pos \<and> im_image_url r \<notin> set urls"
  shows "distinct urls \<Longrightarrow> insert_images pid now pos urls rows = Inr (rows @
      map (\<lambda>(i, u). \<lparr> im_raw_product_id = pid, im_image_url = u, im_position = i,
                      im_created_at = now, im_updated_at = now \<rparr>) (zip [pos..<pos + length urls] urls))"
  using assms
proof (induction urls arbitrary: pos rows)
  case Nil
  then show ?case by simp
next
  case (Cons u us)
  let ?row = "\<lparr> im_raw_product_id = pid, im_image_url = u, im_position = pos,
      im_created_at = now, im_updated_at = now \<rparr>"
  have free: "\<not> list_ex (\<lambda>r. im_raw_product_id r = pid \<and> (im_image_url r = u \<or> im_position r = pos)) rows"
    using Cons.prems(2) by (fastforce simp: list_ex_iff)
  have "insert_images pid now (Suc pos) us (rows @ [?row]) = Inr ((rows @ [?row]) @
      map (\<lambda>(i, u). \<lparr> im_raw_product_id = pid, im_image_url = u, im_position = i,
                      im_created_at = now, im_updated_at = now \<rparr>) (zip [Suc pos..<Suc pos + length us] us))"
  proof (rule Cons.IH)
    show "distinct us" using Cons.prems(1) by simp
  next
    fix r assume "r \<in> set (rows @ [?row])" "im_raw_product_id r = pid"
    then consider "r \<in> set rows" | "r = ?row" by auto
    then show "im_position r < Suc pos \<and> im_image_url r \<notin> set us"
    proof cases
      case 1
      with Cons.prems(2) [of r] \<open>im_raw_product_id r = pid\<close> show ?thesis by simp
    next
      case 2
      with Cons.prems(1) show ?thesis by simp
    qed
  qed
  with free show ?case by (simp add: upt_conv_Cons del: upt_Suc)
qed

lemma insert_images_dup:
  "insert_images pid now pos urls rows = Inr rows' \<Longrightarrow>
     distinct urls \<and> (\<forall>r \<in> set rows. im_raw_product_id r = pid \<longrightarrow> im_image_url r \<notin> set urls)"
proof (induction urls arbitrary: pos rows)
  case Nil
  then show ?case by simp
next
  case (Cons u us)
  from Cons.prems have free: "\<And>r. r \<in> set rows \<Longrightarrow> im_raw_product_id r = pid \<Longrightarrow> im_image_url r \<noteq> u"
    by (auto simp: list_ex_iff split: if_splits)
  from Cons.prems have "insert_images pid now (Suc pos) us (rows @ [\<lparr> im_raw_product_id = pid,
      im_image_url = u, im_position = pos, im_created_at = now, im_updated_at = now \<rparr>]) = Inr rows'"
    by (auto split: if_splits)
  from Cons.IH [OF this] free show ?case by force
qed

lemma replace_image_rows_iff:
  "(\<exists>d'. replace_image_rows pid urls now d = Inr d') \<longleftrightarrow> distinct urls"
proof
  assume "distinct urls"
  then have "\<exists>rows. insert_images pid now 0 urls (delete_rows (\<lambda>r. im_raw_product_id r = pid) (t_images d)) = Inr rows"
    using insert_images_ok [of "delete_rows (\<lambda>r. im_raw_product_id r = pid) (t_images d)" pid 0 urls now]
    by (auto simp: delete_rows_def)
  then show "\<exists>d'. replace_image_rows pid urls now d = Inr d'"
    by (auto simp: replace_image_rows_def)
qed (auto simp: replace_image_rows_def split: sum.splits dest: insert_images_dup)

lemma replace_image_rows_frame:
  "replace_image_rows pid urls now d = Inr d' \<Longrightarrow> t_products d' = t_products d \<and> t_outbox d' = t_outbox d
     \<and> product_seq d' = product_seq d \<and> outbox_seq d' = outbox_seq d \<and> t_runs d' = t_runs d
     \<and> t_specs d' = t_specs d \<and> t_attempts d' = t_attempts d"
  by (auto simp: replace_image_rows_def split: sum.splits)

lemma replace_image_rows_read:
  assumes "replace_image_rows pid urls now d = Inr d'"
  shows "map im_image_url (get_raw_product_images pid d') = urls"
proof -
  let ?old = "delete_rows (\<lambda>r. im_raw_product_id r = pid) (t_images d)"
  let ?new = "map (\<lambda>(i, u). \<lparr> im_raw_product_id = pid, im_image_url = u, im_position = i,
      im_created_at = now, im_updated_at = now \<rparr>) (zip [0..<length urls] urls)"
  from assms have "distinct urls" using replace_image_rows_iff by blast
  then have "insert_images pid now 0 urls ?old = Inr (?old @ ?new)"
    using insert_images_ok [of ?old pid 0 urls now] by (auto simp: delete_rows_def)
  with assms have d': "t_images d' = ?old @ ?new" by (auto simp: replace_image_rows_def)
  have "filter (\<lambda>r. im_raw_product_id r = pid) ?old = []" by (auto simp: delete_rows_def filter_empty_conv)
  moreover have "filter (\<lambda>r. im_raw_product_id r = pid) ?new = ?new" by (simp add: filter_map comp_def case_prod_unfold)
  moreover have "map im_position ?new = [0..<length urls]" by (auto simp: comp_def case_prod_unfold map_fst_zip)
  then have "sort_key im_position ?new = ?new"
    by (intro sort_key_id_if_sorted) (metis sorted_upt)
  moreover have "map im_image_url ?new = urls" by (auto simp: comp_def case_prod_unfold)
  ultimately show ?thesis by (simp add: get_raw_product_images_def d')
qed

lemma insert_specs_ok:
  assumes "\<And>r. r \<in> set rows \<Longrightarrow> sp_raw_product_id r = pid \<Longrightarrow>
      sp_position r < pos \<and> spec_identity (sp_spec r) \<notin> spec_identity ` set fs"
  shows "distinct (map spec_identity fs) \<Longrightarrow> \<exists>rows'. insert_specs pid now pos fs rows = Inr rows'"
  using assms
proof (induction fs arbitrary: pos rows)
  case Nil
  then show ?case by simp
next
  case (Cons f fs)
  let ?row = "\<lparr> sp_raw_product_id = pid, sp_spec = f, sp_position = pos,
      sp_created_at = now, sp_updated_at = now \<rparr>"
  have free: "\<not> list_ex (\<lambda>r. sp_raw_product_id r = pid
      \<and> (spec_identity (sp_spec r) = spec_identity f \<or> sp_position r = pos)) rows"
    using Cons.prems(2) by (fastforce simp: list_ex_iff)
  have "\<exists>rows'. insert_specs pid now (Suc pos) fs (rows @ [?row]) = Inr rows'"
  proof (rule Cons.IH)
    show "distinct (map spec_identity fs)" using Cons.prems(1) by simp
  next
    fix r assume "r \<in> set (rows @ [?row])" "sp_raw_product_id r = pid"
    then consider "r \<in> set rows" | "r = ?row" by auto
    then show "sp_position r < Suc pos \<and> spec_identity (sp_spec r) \<notin> spec_identity ` set fs"
    proof cases
      case 1
      with Cons.prems(2) [of r] \<open>sp_raw_product_id r = pid\<close> show ?thesis by simp
    next
      case 2
      with Cons.prems(1) show ?thesis by simp
    qed
  qed
  with free show ?case by simp
qed

lemma insert_specs_dup:
  "insert_specs pid now pos fs rows = Inr rows' \<Longrightarrow> distinct (map spec_identity fs)
     \<and> (\<forall>r \<in> set rows. sp_raw_product_id r = pid \<longrightarrow> spec_identity (sp_spec r) \<notin> spec_identity ` set fs)"
proof (induction fs arbitrary: pos rows)
  case Nil
  then show ?case by simp
next
  case (Cons f fs)
  from Cons.prems have free: "\<And>r. r \<in> set rows \<Longrightarrow> sp_raw_product_id r = pid \<Longrightarrow>
      spec_identity (sp_spec r) \<noteq> spec_identity f"
    by (auto simp: list_ex_iff split: if_splits)
  from Cons.prems have "insert_specs pid now (Suc pos) fs (rows @ [\<lparr> sp_raw_product_id = pid,
      sp_spec = f, sp_position = pos, sp_created_at = now, sp_updated_at = now \<rparr>]) = Inr rows'"
    by (auto split: if_splits)
  from Cons.IH [OF this] free show ?case by force
qed

lemma replace_spec_rows_iff:
  "(\<exists>d'. replace_spec_rows dumps pid raw now d = Inr d') \<longleftrightarrow> distinct (map spec_identity (flatten_specs dumps raw))"
proof
  assume "distinct (map spec_identity (flatten_specs dumps raw))"
  then have "\<exists>rows. insert_specs pid now 0 (flatten_specs dumps raw)
      (delete_rows (\<lambda>r. sp_raw_product_id r = pid) (t_specs d)) = Inr rows"
    by (intro insert_specs_ok) (auto simp: delete_rows_def)
  then show "\<exists>d'. replace_spec_rows dumps pid raw now d = Inr d'"
    by (auto simp: replace_spec_rows_def)
qed (auto simp: replace_spec_rows_def split: sum.splits dest: insert_specs_dup)

lemma replace_spec_rows_frame:
  "replace_spec_rows dumps pid raw now d = Inr d' \<Longrightarrow> t_products d' = t_products d \<and> t_outbox d' = t_outbox d
     \<and> product_seq d' = product_seq d \<and> outbox_seq d' = outbox_seq d \<and> t_runs d' = t_runs d
     \<and> t_images d' = t_images d \<and> t_attempts d' = t_attempts d"
  by (auto simp: replace_spec_rows_def split: sum.splits)

end
