(* ===== verification/Store_Persist.thy ===== *)
theory Store_Persist imports Store_Invariant begin

text \<open>
  What the two stores share beyond the tables: the transaction of \<open>persist_snapshot\<close>,
  composed from a store's own two upserts, and the bookkeeping of
  \<open>mark_outbox_published\<close> and \<open>mark_outbox_failed\<close>.  The contract of the upserts is
  stated as two relations; the locale \<open>snapshot_writer\<close> derives the properties of the whole
  transaction from it, and each store's theory interprets the locale.
\<close>

section \<open>The transaction that persists a snapshot\<close>

type_synonym product_upsert = "snapshot \<Rightarrow> payload \<Rightarrow> time \<Rightarrow> db \<Rightarrow> exc + (int \<times> db)"
type_synonym outbox_upsert =
  "store_settings \<Rightarrow> int \<Rightarrow> snapshot \<Rightarrow> event \<Rightarrow> pystr \<Rightarrow> pystr \<Rightarrow> time \<Rightarrow> db \<Rightarrow> exc + (int \<times> db)"

definition mark_product_pending :: "int \<Rightarrow> time \<Rightarrow> db \<Rightarrow> db" where
  "mark_product_pending pid now d = d\<lparr>t_products := update_rows (\<lambda>p. pr_id p = pid)
     (\<lambda>p. p\<lparr>pr_publication_state := Pending, pr_updated_at := now\<rparr>) (t_products d)\<rparr>"

definition snapshot_event ::
    "store_settings \<Rightarrow> (pystr \<Rightarrow> pystr) \<Rightarrow> time \<Rightarrow> pystr \<Rightarrow> pystr \<Rightarrow> pystr \<Rightarrow> snapshot \<Rightarrow> event" where
  "snapshot_event s uuid5 now event_type exchange_name routing_key snap =
    build_scraper_product_event (MESSAGE_SCHEMA_VERSION s) (RABBITMQ_QUEUE s) snap
      (outbox_event_id uuid5 (sn_scrape_run_id snap) (sn_identity_key snap))
      event_type exchange_name routing_key now"

text \<open>An exception (\<^const>\<open>Inl\<close>) rolls the transaction back: the state is unchanged.\<close>

definition persist_with ::
    "product_upsert \<Rightarrow> outbox_upsert \<Rightarrow> store_settings \<Rightarrow> (pystr \<Rightarrow> pystr) \<Rightarrow> (json \<Rightarrow> pystr) \<Rightarrow> time
      \<Rightarrow> pystr \<Rightarrow> pystr \<Rightarrow> pystr \<Rightarrow> snapshot \<Rightarrow> db \<Rightarrow> exc + (persisted \<times> db)" where
  "persist_with upsert_product upsert_outbox s uuid5 dumps now event_type exchange_name routing_key snap d =
    (let e = snapshot_event s uuid5 now event_type exchange_name routing_key snap in
     case upsert_product snap (ev_structured_payload e) now d of
       Inl x \<Rightarrow> Inl x
     | Inr (pid, d1) \<Rightarrow>
        (case replace_image_rows pid (sn_image_urls snap) now d1 of
           Inl x \<Rightarrow> Inl x
         | Inr d2 \<Rightarrow>
            (case replace_spec_rows dumps pid (sn_raw_specs snap) now d2 of
               Inl x \<Rightarrow> Inl x
             | Inr d3 \<Rightarrow>
                (case upsert_outbox s pid snap e exchange_name routing_key now d3 of
                   Inl x \<Rightarrow> Inl x
                 | Inr (oid, d4) \<Rightarrow>
                    Inr (\<lparr> ps_raw_product_id = pid, ps_outbox_id = oid, ps_event_id = ev_event_id e,
                           ps_payload_hash = sn_payload_hash snap, ps_publication_state = Pending \<rparr>,
                         mark_product_pending pid now d4)))))"

section \<open>The contract of the upserts\<close>

definition product_upserted :: "snapshot \<Rightarrow> payload \<Rightarrow> time \<Rightarrow> db \<Rightarrow> int \<Rightarrow> db \<Rightarrow> bool" where
  "product_upserted snap structured now d pid d1 \<longleftrightarrow>
    (\<exists>n \<ge> product_seq d. case get_snapshot_row (sn_scrape_run_id snap) (sn_identity_key snap) d of
       Some p \<Rightarrow> pid = pr_id p \<and> d1 = d\<lparr>t_products := update_rows (\<lambda>q. pr_id q = pid)
                   (refresh_product_row snap structured now) (t_products d), product_seq := n\<rparr>
     | None \<Rightarrow> pid = product_seq d + 1 \<and> pid \<le> n \<and>
         d1 = d\<lparr>t_products := t_products d @ [fresh_product_row pid snap structured now],
                product_seq := n\<rparr>)"

definition outbox_upserted ::
    "store_settings \<Rightarrow> int \<Rightarrow> snapshot \<Rightarrow> event \<Rightarrow> pystr \<Rightarrow> pystr \<Rightarrow> time \<Rightarrow> db \<Rightarrow> int \<Rightarrow> db \<Rightarrow> bool" where
  "outbox_upserted s pid snap e exchange_name routing_key now d oid d1 \<longleftrightarrow>
    (\<exists>n \<ge> outbox_seq d. case get_outbox_row (ev_event_id e) d of
       Some r \<Rightarrow> oid = ob_id r \<and> d1 = d\<lparr>t_outbox := update_rows (\<lambda>q. ob_id q = oid)
                   (refresh_outbox_row s pid snap e exchange_name routing_key now) (t_outbox d),
                   outbox_seq := n\<rparr>
     | None \<Rightarrow> oid = outbox_seq d + 1 \<and> oid \<le> n \<and>
         d1 = d\<lparr>t_outbox := t_outbox d @ [fresh_outbox_row s oid pid snap e exchange_name routing_key now],
                outbox_seq := n\<rparr>)"

text \<open>No other message carries the product the message of event \<open>eid\<close> is about.\<close>

definition outbox_slot_free :: "pystr \<Rightarrow> int \<Rightarrow> db \<Rightarrow> bool" where
  "outbox_slot_free eid pid d \<longleftrightarrow>
    list_all (\<lambda>r. ob_raw_product_id r = pid \<longrightarrow> ob_event_id r = eid) (t_outbox d)"

section \<open>Facts about the rows\<close>

lemma get_snapshot_row_SomeD:
  "get_snapshot_row run ident d = Some p \<Longrightarrow> p \<in> set (t_products d) \<and> product_key p = (run, ident)"
  unfolding get_snapshot_row_def product_key_def by (drule find_SomeD) simp

lemma get_snapshot_row_NoneD:
  "get_snapshot_row run ident d = None \<Longrightarrow> p \<in> set (t_products d) \<Longrightarrow> product_key p \<noteq> (run, ident)"
  unfolding get_snapshot_row_def product_key_def by (drule (1) find_NoneD) simp

lemma refresh_product_row_keys [simp]:
  "pr_id (refresh_product_row snap st now p) = pr_id p"
  "product_key (refresh_product_row snap st now p) = product_key p"
  "pr_scrape_run_id (refresh_product_row snap st now p) = pr_scrape_run_id p"
  "pr_identity_key (refresh_product_row snap st now p) = pr_identity_key p"
  by (simp_all add: refresh_product_row_def product_key_def)

lemma fresh_product_row_keys [simp]:
  "pr_id (fresh_product_row pid snap st now) = pid"
  "product_key (fresh_product_row pid snap st now) = (sn_scrape_run_id snap, sn_identity_key snap)"
  "pr_scrape_run_id (fresh_product_row pid snap st now) = sn_scrape_run_id snap"
  "pr_identity_key (fresh_product_row pid snap st now) = sn_identity_key snap"
  by (simp_all add: fresh_product_row_def product_key_def)

lemma fresh_outbox_row_simps [simp]:
  "ob_id (fresh_outbox_row s oid pid snap e ex rk now) = oid"
  "ob_event_id (fresh_outbox_row s oid pid snap e ex rk now) = ev_event_id e"
  "ob_raw_product_id (fresh_outbox_row s oid pid snap e ex rk now) = pid"
  "ob_status (fresh_outbox_row s oid pid snap e ex rk now) = Pending"
  "ob_payload (fresh_outbox_row s oid pid snap e ex rk now) = e"
  "ob_retry_count (fresh_outbox_row s oid pid snap e ex rk now) = 0"
  "ob_available_at (fresh_outbox_row s oid pid snap e ex rk now) = now"
  "ob_lease_expires_at (fresh_outbox_row s oid pid snap e ex rk now) = None"
  "ob_lease_owner (fresh_outbox_row s oid pid snap e ex rk now) = None"
  "ob_payload_hash (fresh_outbox_row s oid pid snap e ex rk now) = sn_payload_hash snap"
  by (simp_all add: fresh_outbox_row_def)

lemma refresh_outbox_row_simps [simp]:
  "ob_id (refresh_outbox_row s pid snap e ex rk now r) = ob_id r"
  "ob_event_id (refresh_outbox_row s pid snap e ex rk now r) = ob_event_id r"
  "ob_raw_product_id (refresh_outbox_row s pid snap e ex rk now r) = pid"
  "ob_status (refresh_outbox_row s pid snap e ex rk now r) = Pending"
  "ob_payload (refresh_outbox_row s pid snap e ex rk now r) = e"
  "ob_retry_count (refresh_outbox_row s pid snap e ex rk now r) = 0"
  "ob_available_at (refresh_outbox_row s pid snap e ex rk now r) = now"
  "ob_lease_expires_at (refresh_outbox_row s pid snap e ex rk now r) = None"
  "ob_lease_owner (refresh_outbox_row s pid snap e ex rk now r) = None"
  "ob_payload_hash (refresh_outbox_row s pid snap e ex rk now r) = sn_payload_hash snap"
  by (simp_all add: refresh_outbox_row_def)

lemma snapshot_event_simps [simp]:
  "ev_event_id (snapshot_event s uuid5 now et ex rk snap)
    = outbox_event_id uuid5 (sn_scrape_run_id snap) (sn_identity_key snap)"
  by (simp add: snapshot_event_def build_scraper_product_event_def Let_def)

section \<open>The upserts and the invariant\<close>

lemma product_upserted_frame:
  assumes "product_upserted snap st now d pid d1"
  shows "t_outbox d1 = t_outbox d" "outbox_seq d1 = outbox_seq d" "t_runs d1 = t_runs d"
    "t_images d1 = t_images d" "t_specs d1 = t_specs d" "t_attempts d1 = t_attempts d"
    "get_outbox_row e d1 = get_outbox_row e d"
proof -
  obtain ps n where "d1 = d\<lparr>t_products := ps, product_seq := n\<rparr>"
    using assms unfolding product_upserted_def by (auto split: option.splits)
  then show "t_outbox d1 = t_outbox d" "outbox_seq d1 = outbox_seq d" "t_runs d1 = t_runs d"
    "t_images d1 = t_images d" "t_specs d1 = t_specs d" "t_attempts d1 = t_attempts d"
    "get_outbox_row e d1 = get_outbox_row e d"
    by (simp_all add: get_outbox_row_def)
qed

lemma product_upserted_rows:
  assumes "product_upserted snap st now d pid d1"
  shows "t_products d1 = (case get_snapshot_row (sn_scrape_run_id snap) (sn_identity_key snap) d of
       Some p \<Rightarrow> update_rows (\<lambda>q. pr_id q = pid) (refresh_product_row snap st now) (t_products d)
     | None \<Rightarrow> t_products d @ [fresh_product_row pid snap st now])"
  using assms unfolding product_upserted_def by (auto split: option.splits)

lemma product_upserted_seq:
  assumes "product_upserted snap st now d pid d1"
  shows "product_seq d \<le> product_seq d1"
    "get_snapshot_row (sn_scrape_run_id snap) (sn_identity_key snap) d = None
      \<Longrightarrow> pid = product_seq d + 1 \<and> pid \<le> product_seq d1"
    "get_snapshot_row (sn_scrape_run_id snap) (sn_identity_key snap) d = Some p \<Longrightarrow> pid = pr_id p"
  using assms unfolding product_upserted_def by (auto split: option.splits)

lemma product_upserted_keys:
  assumes "product_upserted snap st now d pid d1"
  shows "map product_keys (t_products d1) = map product_keys (t_products d)
      \<and> get_snapshot_row (sn_scrape_run_id snap) (sn_identity_key snap) d \<noteq> None
    \<or> map product_keys (t_products d1)
      = map product_keys (t_products d) @ [(pid, sn_scrape_run_id snap, sn_identity_key snap)]"
  by (cases "get_snapshot_row (sn_scrape_run_id snap) (sn_identity_key snap) d")
    (simp_all add: product_upserted_rows [OF assms] map_update_rows)

lemma product_upserted_old_keys:
  assumes "product_upserted snap st now d pid d1" "p \<in> set (t_products d)"
  shows "\<exists>q \<in> set (t_products d1). pr_id q = pr_id p \<and> product_key q = product_key p"
proof -
  have "product_keys p \<in> set (map product_keys (t_products d1))"
    using product_upserted_keys [OF assms(1)] assms(2) by (elim disjE conjE) (simp_all del: set_map, simp_all)
  then show ?thesis by auto
qed

lemma product_upserted_new_keys:
  assumes "product_upserted snap st now d pid d1" "q \<in> set (t_products d1)"
  shows "product_key q = (sn_scrape_run_id snap, sn_identity_key snap)
    \<or> (\<exists>p \<in> set (t_products d). pr_id q = pr_id p \<and> product_key q = product_key p)"
proof -
  have "product_keys q \<in> set (map product_keys (t_products d1))" using assms(2) by simp
  then have "product_keys q \<in> set (map product_keys (t_products d))
      \<or> product_keys q = (pid, sn_scrape_run_id snap, sn_identity_key snap)"
    using product_upserted_keys [OF assms(1)] by (elim disjE conjE) auto
  then show ?thesis by auto
qed

lemma product_upserted_wf:
  assumes "product_upserted snap st now d pid d1" "db_wf uuid5 d"
  shows "db_wf uuid5 d1"
proof -
  have "products_wf d1"
  proof (cases "get_snapshot_row (sn_scrape_run_id snap) (sn_identity_key snap) d")
    case (Some p)
    then have "t_products d1 = update_rows (\<lambda>q. pr_id q = pid) (refresh_product_row snap st now) (t_products d)"
      using product_upserted_rows [OF assms(1)] by simp
    moreover have "product_seq d \<le> product_seq d1" by (rule product_upserted_seq(1) [OF assms(1)])
    ultimately show ?thesis
      using assms(2) by - (rule products_wf_cong [of d], simp_all add: db_wf_def map_update_rows)
  next
    case None
    then have rows: "t_products d1 = t_products d @ [fresh_product_row pid snap st now]"
      and pid: "pid = product_seq d + 1" "pid \<le> product_seq d1"
      using product_upserted_seq(2) [OF assms(1) None] product_upserted_rows [OF assms(1)] by auto
    from assms(2) have old: "products_wf d" by (simp add: db_wf_def)
    then have "pid \<notin> pr_id ` set (t_products d)" using pid(1) by (auto simp: products_wf_def)
    moreover have "(sn_scrape_run_id snap, sn_identity_key snap) \<notin> product_key ` set (t_products d)"
      using get_snapshot_row_NoneD [OF None] by (metis imageE)
    moreover have "\<forall>p \<in> set (t_products d). pr_id p \<le> product_seq d1"
      using old pid by (auto simp: products_wf_def)
    ultimately show ?thesis using old pid(2) by (auto simp: products_wf_def rows)
  qed
  moreover have "outbox_wf d1"
    using assms(2) product_upserted_frame(1,2) [OF assms(1)] by (simp add: db_wf_def outbox_wf_def)
  moreover have "outbox_linked uuid5 d1"
    unfolding outbox_linked_def product_upserted_frame(1) [OF assms(1)]
  proof
    fix r assume "r \<in> set (t_outbox d)"
    then obtain p where p: "p \<in> set (t_products d)" "pr_id p = ob_raw_product_id r"
      "ob_event_id r = outbox_event_id uuid5 (pr_scrape_run_id p) (pr_identity_key p)"
      using assms(2) by (auto simp: db_wf_def outbox_linked_def)
    from product_upserted_old_keys [OF assms(1) p(1)] p(2,3)
    show "\<exists>p \<in> set (t_products d1). pr_id p = ob_raw_product_id r
        \<and> ob_event_id r = outbox_event_id uuid5 (pr_scrape_run_id p) (pr_identity_key p)"
      by (auto simp: product_key_def)
  qed
  ultimately show ?thesis by (simp add: db_wf_def)
qed

lemma product_upserted_row:
  assumes "product_upserted snap st now d pid d1"
  shows "\<exists>p \<in> set (t_products d1). pr_id p = pid
    \<and> product_key p = (sn_scrape_run_id snap, sn_identity_key snap)"
proof (cases "get_snapshot_row (sn_scrape_run_id snap) (sn_identity_key snap) d")
  case (Some p)
  then have "pid = pr_id p" by (rule product_upserted_seq(3) [OF assms])
  with product_upserted_old_keys [OF assms] get_snapshot_row_SomeD [OF Some] show ?thesis by metis
qed (use product_upserted_rows [OF assms] in simp)

lemma product_upserted_unambiguous:
  assumes "product_upserted snap st now d pid d1"
    "event_id_unambiguous uuid5 (sn_scrape_run_id snap) (sn_identity_key snap) d"
  shows "event_id_unambiguous uuid5 (sn_scrape_run_id snap) (sn_identity_key snap) d1"
  unfolding event_id_unambiguous_def
proof (intro ballI impI)
  fix q assume q: "q \<in> set (t_products d1)"
    "outbox_event_id uuid5 (pr_scrape_run_id q) (pr_identity_key q)
      = outbox_event_id uuid5 (sn_scrape_run_id snap) (sn_identity_key snap)"
  from product_upserted_new_keys [OF assms(1) q(1)] show "product_key q = (sn_scrape_run_id snap, sn_identity_key snap)"
  proof
    assume "\<exists>p \<in> set (t_products d). pr_id q = pr_id p \<and> product_key q = product_key p"
    then obtain p where "p \<in> set (t_products d)" "product_key q = product_key p" by auto
    with q(2) assms(2) show ?thesis by (auto simp: event_id_unambiguous_def product_key_def)
  qed
qed

text \<open>The message of a stored product is the only one that carries it.\<close>

lemma outbox_slot:
  assumes "db_wf uuid5 d" "p \<in> set (t_products d)" "product_key p = (run, ident)"
  shows "outbox_slot_free (outbox_event_id uuid5 run ident) (pr_id p) d"
proof -
  have "ob_event_id r = outbox_event_id uuid5 run ident"
    if "r \<in> set (t_outbox d)" "ob_raw_product_id r = pr_id p" for r
  proof -
    from that(1) assms(1) obtain q where q: "q \<in> set (t_products d)" "pr_id q = ob_raw_product_id r"
      "ob_event_id r = outbox_event_id uuid5 (pr_scrape_run_id q) (pr_identity_key q)"
      by (auto simp: db_wf_def outbox_linked_def)
    with that(2) have "q = p" using key_unique [OF db_wf_distinct(1) [OF assms(1)]] assms(2) by metis
    with q(3) assms(3) show ?thesis by (simp add: product_key_def)
  qed
  then show ?thesis by (simp add: outbox_slot_free_def list_all_iff)
qed

lemma outbox_row_product:
  assumes "db_wf uuid5 d" "event_id_unambiguous uuid5 run ident d" "p \<in> set (t_products d)"
    "product_key p = (run, ident)" "get_outbox_row (outbox_event_id uuid5 run ident) d = Some r"
  shows "ob_raw_product_id r = pr_id p"
proof -
  from get_outbox_row_SomeD [OF assms(5)] have r: "r \<in> set (t_outbox d)"
    "ob_event_id r = outbox_event_id uuid5 run ident" by simp_all
  with assms(1) obtain q where q: "q \<in> set (t_products d)" "pr_id q = ob_raw_product_id r"
    "ob_event_id r = outbox_event_id uuid5 (pr_scrape_run_id q) (pr_identity_key q)"
    by (auto simp: db_wf_def outbox_linked_def)
  with r(2) assms(2) have "product_key q = (run, ident)" by (auto simp: event_id_unambiguous_def)
  with assms(3,4) q(1) have "q = p" using key_unique [OF db_wf_distinct(2) [OF assms(1)]] by metis
  with q(2) show ?thesis by simp
qed

section \<open>The outbox upsert and the invariant\<close>

lemma outbox_upserted_frame:
  assumes "outbox_upserted s pid snap e ex rk now d oid d1"
  shows "t_products d1 = t_products d" "product_seq d1 = product_seq d" "t_runs d1 = t_runs d"
    "t_images d1 = t_images d" "t_specs d1 = t_specs d" "t_attempts d1 = t_attempts d"
  using assms unfolding outbox_upserted_def by (auto split: option.splits)

lemma outbox_upserted_rows:
  assumes "outbox_upserted s pid snap e ex rk now d oid d1"
  shows "t_outbox d1 = (case get_outbox_row (ev_event_id e) d of
       Some r \<Rightarrow> update_rows (\<lambda>q. ob_id q = oid) (refresh_outbox_row s pid snap e ex rk now) (t_outbox d)
     | None \<Rightarrow> t_outbox d @ [fresh_outbox_row s oid pid snap e ex rk now])"
    "outbox_seq d \<le> outbox_seq d1"
    "get_outbox_row (ev_event_id e) d = None \<Longrightarrow> oid = outbox_seq d + 1 \<and> oid \<le> outbox_seq d1"
    "get_outbox_row (ev_event_id e) d = Some r \<Longrightarrow> oid = ob_id r"
  using assms unfolding outbox_upserted_def by (auto split: option.splits)

lemma outbox_upserted_wf:
  assumes up: "outbox_upserted s pid snap e ex rk now d oid d1" and wf: "db_wf uuid5 d"
    and p: "p \<in> set (t_products d)" "product_key p = (run, ident)" "pr_id p = pid"
    and un: "event_id_unambiguous uuid5 run ident d"
    and e: "ev_event_id e = outbox_event_id uuid5 run ident"
  shows "db_wf uuid5 d1"
proof (cases "get_outbox_row (ev_event_id e) d")
  case (Some r)
  then have rows: "t_outbox d1 = update_rows (\<lambda>q. ob_id q = oid) (refresh_outbox_row s pid snap e ex rk now) (t_outbox d)"
    and oid: "oid = ob_id r" using outbox_upserted_rows [OF up] by simp_all
  have r: "r \<in> set (t_outbox d)" using get_outbox_row_SomeD [OF Some] by simp
  have "ob_raw_product_id r = pid"
    using outbox_row_product [OF wf un p(1,2)] Some e p(3) by simp
  then have same: "ob_raw_product_id q = pid" if "q \<in> set (t_outbox d)" "ob_id q = oid" for q
    using that outbox_id_unique [OF wf Some] oid by metis
  have pids: "map ob_raw_product_id (t_outbox d1) = map ob_raw_product_id (t_outbox d)"
    using same by (auto simp: rows update_rows_def)
  have "outbox_wf d1"
    using wf outbox_upserted_rows(2) [OF up] pids
    by - (rule outbox_wf_cong [of d], simp_all add: db_wf_def rows map_update_rows)
  moreover have "products_wf d1"
    using wf outbox_upserted_frame(1,2) [OF up] by (simp add: db_wf_def products_wf_def)
  moreover have "outbox_linked uuid5 d1"
    unfolding outbox_linked_def outbox_upserted_frame(1) [OF up]
  proof
    fix q' assume "q' \<in> set (t_outbox d1)"
    then obtain q where q: "q \<in> set (t_outbox d)"
      "q' = (if ob_id q = oid then refresh_outbox_row s pid snap e ex rk now q else q)"
      unfolding rows set_update_rows by blast
    then have "ob_event_id q' = ob_event_id q" "ob_raw_product_id q' = ob_raw_product_id q"
      using same by simp_all
    with wf q(1) show "\<exists>p \<in> set (t_products d). pr_id p = ob_raw_product_id q'
        \<and> ob_event_id q' = outbox_event_id uuid5 (pr_scrape_run_id p) (pr_identity_key p)"
      by (auto simp: db_wf_def outbox_linked_def)
  qed
  ultimately show ?thesis by (simp add: db_wf_def)
next
  case None
  then have rows: "t_outbox d1 = t_outbox d @ [fresh_outbox_row s oid pid snap e ex rk now]"
    and oid: "oid = outbox_seq d + 1" "oid \<le> outbox_seq d1" using outbox_upserted_rows [OF up] by auto
  have ev: "q \<in> set (t_outbox d) \<Longrightarrow> ob_event_id q \<noteq> ev_event_id e" for q
    using None unfolding get_outbox_row_def by (auto dest: find_NoneD)
  have free: "q \<in> set (t_outbox d) \<Longrightarrow> ob_raw_product_id q \<noteq> pid" for q
    using outbox_slot [OF wf p(1,2)] ev e p(3) by (auto simp: outbox_slot_free_def list_all_iff)
  have "oid \<notin> ob_id ` set (t_outbox d)" using wf oid(1) by (auto simp: db_wf_def outbox_wf_def)
  moreover have "ev_event_id e \<notin> ob_event_id ` set (t_outbox d)" "pid \<notin> ob_raw_product_id ` set (t_outbox d)"
    using ev free by (metis imageE)+
  ultimately have "outbox_wf d1"
    using wf oid by (auto simp: db_wf_def outbox_wf_def rows)
  moreover have "products_wf d1"
    using wf outbox_upserted_frame(1,2) [OF up] by (simp add: db_wf_def products_wf_def)
  moreover have "outbox_linked uuid5 d1"
    using wf p e unfolding outbox_linked_def outbox_upserted_frame(1) [OF up] rows
    by (auto simp: db_wf_def outbox_linked_def product_key_def)
  ultimately show ?thesis by (simp add: db_wf_def)
qed

lemma outbox_upserted_lookup:
  assumes up: "outbox_upserted s pid snap e ex rk now d oid d1"
  shows "\<exists>r. get_outbox_row (ev_event_id e) d1 = Some r \<and> ob_id r = oid \<and> ob_status r = Pending
      \<and> ob_payload r = e \<and> ob_retry_count r = 0 \<and> ob_available_at r = now
      \<and> ob_lease_expires_at r = None \<and> ob_raw_product_id r = pid"
proof (cases "get_outbox_row (ev_event_id e) d")
  case (Some r)
  have "get_outbox_row (ev_event_id e) d1
      = map_option (\<lambda>q. if ob_id q = oid then refresh_outbox_row s pid snap e ex rk now q else q)
          (get_outbox_row (ev_event_id e) d)"
    using outbox_upserted_rows(1) [OF up] Some unfolding get_outbox_row_def
    by (simp add: find_update_rows)
  with Some outbox_upserted_rows(4) [OF up Some] show ?thesis by simp
next
  case None
  from None outbox_upserted_rows(1) [OF up] show ?thesis by (simp add: get_outbox_row_def find_append_one)
qed

lemma outbox_upserted_other:
  assumes up: "outbox_upserted s pid snap e ex rk now d oid d1" and wf: "db_wf uuid5 d"
    and "e' \<noteq> ev_event_id e"
  shows "get_outbox_row e' d1 = get_outbox_row e' d"
proof (cases "get_outbox_row (ev_event_id e) d")
  case (Some r)
  have "get_outbox_row e' d1
      = map_option (\<lambda>q. if ob_id q = oid then refresh_outbox_row s pid snap e ex rk now q else q)
          (get_outbox_row e' d)"
    using outbox_upserted_rows(1) [OF up] Some unfolding get_outbox_row_def
    by (simp add: find_update_rows)
  moreover have "ob_id q \<noteq> oid" if "get_outbox_row e' d = Some q" for q
    using outbox_id_unique [OF wf Some] get_outbox_row_SomeD [OF that] get_outbox_row_SomeD [OF Some]
      outbox_upserted_rows(4) [OF up Some] assms(3) by metis
  ultimately show ?thesis by (cases "get_outbox_row e' d") auto
next
  case None
  from None outbox_upserted_rows(1) [OF up] assms(3) show ?thesis
    by (auto simp: get_outbox_row_def find_append_one split: option.splits)
qed

lemma mark_product_pending_frame [simp]:
  "t_outbox (mark_product_pending pid now d) = t_outbox d"
  "outbox_seq (mark_product_pending pid now d) = outbox_seq d"
  "product_seq (mark_product_pending pid now d) = product_seq d"
  "t_images (mark_product_pending pid now d) = t_images d"
  "t_specs (mark_product_pending pid now d) = t_specs d"
  "t_runs (mark_product_pending pid now d) = t_runs d"
  "t_attempts (mark_product_pending pid now d) = t_attempts d"
  "get_outbox_row e (mark_product_pending pid now d) = get_outbox_row e d"
  by (simp_all add: mark_product_pending_def get_outbox_row_def)

lemma mark_product_pending_wf:
  "db_wf uuid5 d \<Longrightarrow> db_wf uuid5 (mark_product_pending pid now d)"
  by (rule db_wf_cong [of uuid5 d]) (simp_all add: mark_product_pending_def map_update_rows product_key_def)

lemma mark_product_pending_get:
  "get_snapshot_row run ident (mark_product_pending pid now d) = map_option
     (\<lambda>p. if pr_id p = pid then p\<lparr>pr_publication_state := Pending, pr_updated_at := now\<rparr> else p)
     (get_snapshot_row run ident d)"
  unfolding get_snapshot_row_def mark_product_pending_def
  by (simp add: find_update_rows)

section \<open>Properties of the transaction\<close>

locale snapshot_writer =
  fixes upsert_product :: product_upsert and upsert_outbox :: outbox_upsert
  assumes product_ok: "upsert_product snap st now d = Inr (pid, d1) \<Longrightarrow> product_upserted snap st now d pid d1"
    and product_total: "(\<exists>pid d1. upsert_product snap st now d = Inr (pid, d1))
      \<longleftrightarrow> get_snapshot_row (sn_scrape_run_id snap) (sn_identity_key snap) d \<noteq> None
        \<or> run_exists (sn_scrape_run_id snap) d"
    and outbox_ok: "upsert_outbox s pid snap e ex rk now d = Inr (oid, d1)
      \<Longrightarrow> outbox_upserted s pid snap e ex rk now d oid d1"
    and outbox_total: "(\<exists>oid d1. upsert_outbox s pid snap e ex rk now d = Inr (oid, d1))
      \<longleftrightarrow> run_exists (sn_scrape_run_id snap) d \<and> outbox_slot_free (ev_event_id e) pid d"
begin

lemma persist_stages:
  assumes "persist_with upsert_product upsert_outbox s uuid5 dumps now et ex rk snap d = Inr (res, d')"
  obtains d1 d2 d3 d4 where
    "product_upserted snap (ev_structured_payload (snapshot_event s uuid5 now et ex rk snap)) now d (ps_raw_product_id res) d1"
    "replace_image_rows (ps_raw_product_id res) (sn_image_urls snap) now d1 = Inr d2"
    "replace_spec_rows dumps (ps_raw_product_id res) (sn_raw_specs snap) now d2 = Inr d3"
    "outbox_upserted s (ps_raw_product_id res) snap (snapshot_event s uuid5 now et ex rk snap) ex rk now d3 (ps_outbox_id res) d4"
    "d' = mark_product_pending (ps_raw_product_id res) now d4"
    "ps_event_id res = outbox_event_id uuid5 (sn_scrape_run_id snap) (sn_identity_key snap)"
    "ps_payload_hash res = sn_payload_hash snap" "ps_publication_state res = Pending"
  using assms unfolding persist_with_def Let_def
  by (auto split: sum.splits prod.splits dest!: product_ok outbox_ok)

lemma persist_middle:
  assumes "replace_image_rows pid urls now d1 = Inr d2" "replace_spec_rows dumps pid raw now d2 = Inr d3"
  shows "t_products d3 = t_products d1" "t_outbox d3 = t_outbox d1" "product_seq d3 = product_seq d1"
    "outbox_seq d3 = outbox_seq d1" "t_runs d3 = t_runs d1" "get_outbox_row e d3 = get_outbox_row e d1"
    "db_wf uuid5 d3 = db_wf uuid5 d1"
    "event_id_unambiguous uuid5 run ident d3 = event_id_unambiguous uuid5 run ident d1"
proof -
  show eq: "t_products d3 = t_products d1" "t_outbox d3 = t_outbox d1" "product_seq d3 = product_seq d1"
    "outbox_seq d3 = outbox_seq d1" "t_runs d3 = t_runs d1"
    using replace_image_rows_frame [OF assms(1)] replace_spec_rows_frame [OF assms(2)] by simp_all
  show "get_outbox_row e d3 = get_outbox_row e d1" "db_wf uuid5 d3 = db_wf uuid5 d1"
    using invariants_frame [OF eq(1-4)] by simp_all
  show "event_id_unambiguous uuid5 run ident d3 = event_id_unambiguous uuid5 run ident d1"
    by (simp add: event_id_unambiguous_def eq)
qed

lemma persist_wf:
  assumes "persist_with upsert_product upsert_outbox s uuid5 dumps now et ex rk snap d = Inr (res, d')"
    and wf: "db_wf uuid5 d" and un: "event_id_unambiguous uuid5 (sn_scrape_run_id snap) (sn_identity_key snap) d"
  shows "db_wf uuid5 d'"
proof -
  from assms(1) obtain d1 d2 d3 d4 where
    st: "product_upserted snap (ev_structured_payload (snapshot_event s uuid5 now et ex rk snap)) now d (ps_raw_product_id res) d1"
    "replace_image_rows (ps_raw_product_id res) (sn_image_urls snap) now d1 = Inr d2"
    "replace_spec_rows dumps (ps_raw_product_id res) (sn_raw_specs snap) now d2 = Inr d3"
    "outbox_upserted s (ps_raw_product_id res) snap (snapshot_event s uuid5 now et ex rk snap) ex rk now d3 (ps_outbox_id res) d4"
    "d' = mark_product_pending (ps_raw_product_id res) now d4"
    by (rule persist_stages)
  note mid = persist_middle [OF st(2,3)]
  from product_upserted_row [OF st(1)] obtain p where p: "p \<in> set (t_products d1)"
    "pr_id p = ps_raw_product_id res" "product_key p = (sn_scrape_run_id snap, sn_identity_key snap)" by auto
  have "db_wf uuid5 d4"
    by (rule outbox_upserted_wf [OF st(4) _ _ p(3,2)])
      (simp_all add: mid p product_upserted_wf [OF st(1) wf] product_upserted_unambiguous [OF st(1) un])
  with st(5) show ?thesis by (simp add: mark_product_pending_wf)
qed

lemma persist_message:
  assumes "persist_with upsert_product upsert_outbox s uuid5 dumps now et ex rk snap d = Inr (res, d')"
  shows "\<exists>r. get_outbox_row (ps_event_id res) d' = Some r \<and> ob_id r = ps_outbox_id res \<and> ob_status r = Pending
      \<and> ob_payload r = snapshot_event s uuid5 now et ex rk snap \<and> ob_retry_count r = 0
      \<and> ob_available_at r = now \<and> ob_lease_expires_at r = None \<and> ob_raw_product_id r = ps_raw_product_id res"
  using assms by (elim persist_stages) (auto dest!: outbox_upserted_lookup)

lemma persist_others:
  assumes "persist_with upsert_product upsert_outbox s uuid5 dumps now et ex rk snap d = Inr (res, d')"
    and wf: "db_wf uuid5 d" and "e' \<noteq> ps_event_id res"
  shows "get_outbox_row e' d' = get_outbox_row e' d"
proof -
  from assms(1) obtain d1 d2 d3 d4 where
    st: "product_upserted snap (ev_structured_payload (snapshot_event s uuid5 now et ex rk snap)) now d (ps_raw_product_id res) d1"
    "replace_image_rows (ps_raw_product_id res) (sn_image_urls snap) now d1 = Inr d2"
    "replace_spec_rows dumps (ps_raw_product_id res) (sn_raw_specs snap) now d2 = Inr d3"
    "outbox_upserted s (ps_raw_product_id res) snap (snapshot_event s uuid5 now et ex rk snap) ex rk now d3 (ps_outbox_id res) d4"
    "d' = mark_product_pending (ps_raw_product_id res) now d4"
    "ps_event_id res = outbox_event_id uuid5 (sn_scrape_run_id snap) (sn_identity_key snap)"
    by (rule persist_stages)
  note mid = persist_middle [OF st(2,3)]
  have "get_outbox_row e' d4 = get_outbox_row e' d3"
    by (rule outbox_upserted_other [OF st(4), of uuid5]) (use assms(3) st(6) in \<open>simp_all add: mid product_upserted_wf [OF st(1) wf]\<close>)
  with st(5) show ?thesis by (simp add: mid product_upserted_frame [OF st(1)])
qed

lemma persist_frame:
  assumes "persist_with upsert_product upsert_outbox s uuid5 dumps now et ex rk snap d = Inr (res, d')"
  shows "t_runs d' = t_runs d"
    and "q \<in> set (t_products d') \<Longrightarrow> product_key q = (sn_scrape_run_id snap, sn_identity_key snap)
      \<or> product_key q \<in> product_key ` set (t_products d)"
proof -
  from assms obtain d1 d2 d3 d4 where
    st: "product_upserted snap (ev_structured_payload (snapshot_event s uuid5 now et ex rk snap)) now d (ps_raw_product_id res) d1"
    "replace_image_rows (ps_raw_product_id res) (sn_image_urls snap) now d1 = Inr d2"
    "replace_spec_rows dumps (ps_raw_product_id res) (sn_raw_specs snap) now d2 = Inr d3"
    "outbox_upserted s (ps_raw_product_id res) snap (snapshot_event s uuid5 now et ex rk snap) ex rk now d3 (ps_outbox_id res) d4"
    "d' = mark_product_pending (ps_raw_product_id res) now d4"
    by (rule persist_stages)
  note mid = persist_middle [OF st(2,3)]
  show "t_runs d' = t_runs d"
    by (simp add: st(5) outbox_upserted_frame [OF st(4)] mid product_upserted_frame [OF st(1)])
  assume "q \<in> set (t_products d')"
  then obtain p where p: "p \<in> set (t_products d1)" "product_key q = product_key p"
    by (auto simp: st(5) mark_product_pending_def set_update_rows outbox_upserted_frame [OF st(4)] mid product_key_def split: if_splits)
  with product_upserted_new_keys [OF st(1) p(1)]
  show "product_key q = (sn_scrape_run_id snap, sn_identity_key snap) \<or> product_key q \<in> product_key ` set (t_products d)"
    by auto
qed

lemma persist_mirror:
  assumes ok: "persist_with upsert_product upsert_outbox s uuid5 dumps now et ex rk snap d = Inr (res, d')"
    and wf: "db_wf uuid5 d" and un: "event_id_unambiguous uuid5 (sn_scrape_run_id snap) (sn_identity_key snap) d"
    and mir: "states_mirror d"
  shows "states_mirror d'"
  unfolding states_mirror_def
proof (intro ballI impI)
  fix r p' assume r: "r \<in> set (t_outbox d')" and p': "p' \<in> set (t_products d')" "pr_id p' = ob_raw_product_id r"
  from ok obtain d1 d2 d3 d4 where
    st: "product_upserted snap (ev_structured_payload (snapshot_event s uuid5 now et ex rk snap)) now d (ps_raw_product_id res) d1"
    "replace_image_rows (ps_raw_product_id res) (sn_image_urls snap) now d1 = Inr d2"
    "replace_spec_rows dumps (ps_raw_product_id res) (sn_raw_specs snap) now d2 = Inr d3"
    "outbox_upserted s (ps_raw_product_id res) snap (snapshot_event s uuid5 now et ex rk snap) ex rk now d3 (ps_outbox_id res) d4"
    "d' = mark_product_pending (ps_raw_product_id res) now d4"
    by (rule persist_stages)
  note mid = persist_middle [OF st(2,3)]
  have wf': "db_wf uuid5 d'" by (rule persist_wf [OF ok wf un])
  from persist_message [OF ok] obtain q where q: "get_outbox_row (ps_event_id res) d' = Some q"
    "ob_status q = Pending" "ob_raw_product_id q = ps_raw_product_id res" by auto
  show "pr_publication_state p' = ob_status r"
  proof (cases "ob_raw_product_id r = ps_raw_product_id res")
    case True
    then have "r = q"
      using q(1,3) r get_outbox_row_SomeD [OF q(1)] key_unique [OF db_wf_distinct(5) [OF wf']] by auto
    moreover have "pr_publication_state p' = Pending"
      using p' True by (auto simp: st(5) mark_product_pending_def set_update_rows split: if_splits)
    ultimately show ?thesis using q(2) by simp
  next
    case False
    have "ob_event_id r \<noteq> ps_event_id res"
      using False get_outbox_row_mem [OF wf' r] q(1,3) by auto
    then have "get_outbox_row (ob_event_id r) d = Some r"
      using get_outbox_row_mem [OF wf' r] persist_others [OF ok wf] by simp
    then have rd: "r \<in> set (t_outbox d)" using get_outbox_row_SomeD by blast
    have ne: "pr_id p' \<noteq> ps_raw_product_id res" using p'(2) False by simp
    with p'(1) have "p' \<in> set (t_products d4)"
      by (auto simp: st(5) mark_product_pending_def set_update_rows split: if_splits)
    then have "p' \<in> set (t_products d1)" by (simp add: outbox_upserted_frame [OF st(4)] mid)
    with ne have "p' \<in> set (t_products d)"
      by (auto simp: product_upserted_rows [OF st(1)] set_update_rows split: option.splits if_splits)
    with rd p'(2) mir show ?thesis by (auto simp: states_mirror_def)
  qed
qed

lemma persist_succeeds_iff:
  assumes wf: "db_wf uuid5 d" and un: "event_id_unambiguous uuid5 (sn_scrape_run_id snap) (sn_identity_key snap) d"
  shows "(\<exists>x. persist_with upsert_product upsert_outbox s uuid5 dumps now et ex rk snap d = Inr x)
    \<longleftrightarrow> run_exists (sn_scrape_run_id snap) d \<and> distinct (sn_image_urls snap)
      \<and> distinct (map spec_identity (flatten_specs dumps (sn_raw_specs snap)))" (is "?L \<longleftrightarrow> ?R")
proof
  assume ?L
  then obtain res d' where ok: "persist_with upsert_product upsert_outbox s uuid5 dumps now et ex rk snap d = Inr (res, d')"
    by auto
  then obtain pid d1 d2 d3 oid d4 where
    st: "upsert_product snap (ev_structured_payload (snapshot_event s uuid5 now et ex rk snap)) now d = Inr (pid, d1)"
    "replace_image_rows pid (sn_image_urls snap) now d1 = Inr d2"
    "replace_spec_rows dumps pid (sn_raw_specs snap) now d2 = Inr d3"
    "upsert_outbox s pid snap (snapshot_event s uuid5 now et ex rk snap) ex rk now d3 = Inr (oid, d4)"
    unfolding persist_with_def Let_def by (auto split: sum.splits prod.splits)
  have "run_exists (sn_scrape_run_id snap) d3" using st(4) outbox_total by blast
  then have "run_exists (sn_scrape_run_id snap) d"
    using persist_middle(5) [OF st(2,3)] product_upserted_frame(3) [OF product_ok [OF st(1)]]
    by (simp add: run_exists_def)
  with st(2,3) show ?R using replace_image_rows_iff replace_spec_rows_iff by blast
next
  assume R: ?R
  then obtain pid d1 where st1:
    "upsert_product snap (ev_structured_payload (snapshot_event s uuid5 now et ex rk snap)) now d = Inr (pid, d1)"
    using product_total by blast
  from R obtain d2 where st2: "replace_image_rows pid (sn_image_urls snap) now d1 = Inr d2"
    using replace_image_rows_iff by blast
  from R obtain d3 where st3: "replace_spec_rows dumps pid (sn_raw_specs snap) now d2 = Inr d3"
    using replace_spec_rows_iff by blast
  note up = product_ok [OF st1]
  note mid = persist_middle [OF st2 st3]
  from product_upserted_row [OF up] obtain p where p: "p \<in> set (t_products d3)" "pr_id p = pid"
    "product_key p = (sn_scrape_run_id snap, sn_identity_key snap)" unfolding mid by auto
  have "db_wf uuid5 d3" using product_upserted_wf [OF up wf] by (simp add: mid)
  from outbox_slot [OF this p(1,3)]
  have "outbox_slot_free (ev_event_id (snapshot_event s uuid5 now et ex rk snap)) pid d3" by (simp add: p(2))
  moreover have "run_exists (sn_scrape_run_id snap) d3"
    using R by (simp add: run_exists_def mid product_upserted_frame(3) [OF up])
  ultimately obtain oid d4 where
    "upsert_outbox s pid snap (snapshot_event s uuid5 now et ex rk snap) ex rk now d3 = Inr (oid, d4)"
    using outbox_total by blast
  with st1 st2 st3 show ?L by (simp add: persist_with_def Let_def)
qed

lemma persist_images:
  assumes "persist_with upsert_product upsert_outbox s uuid5 dumps now et ex rk snap d = Inr (res, d')"
  shows "map im_image_url (get_raw_product_images (ps_raw_product_id res) d') = sn_image_urls snap"
proof -
  from assms obtain d1 d2 d3 d4 where
    st: "replace_image_rows (ps_raw_product_id res) (sn_image_urls snap) now d1 = Inr d2"
    "replace_spec_rows dumps (ps_raw_product_id res) (sn_raw_specs snap) now d2 = Inr d3"
    "outbox_upserted s (ps_raw_product_id res) snap (snapshot_event s uuid5 now et ex rk snap) ex rk now d3 (ps_outbox_id res) d4"
    "d' = mark_product_pending (ps_raw_product_id res) now d4"
    by (rule persist_stages)
  have "t_images d' = t_images d2"
    by (simp add: st(4) outbox_upserted_frame(4) [OF st(3)] replace_spec_rows_frame [OF st(2)])
  with replace_image_rows_read [OF st(1)] show ?thesis by (simp add: get_raw_product_images_def)
qed

end

end
