(* ===== verification/Store_Settle.thy ===== *)
theory Store_Settle imports Store_Invariant begin

text \<open>
  The transactions that settle a claimed message: \<open>mark_outbox_published\<close> and
  \<open>mark_outbox_failed\<close>, whose statements are the same in both stores, and the retry
  schedule they compute.
\<close>

definition MICROS :: int where
  "MICROS = 1000000"

text \<open>\<open>int(a or b)\<close> on an optional integer: zero is false.\<close>

definition int_or :: "int option \<Rightarrow> int \<Rightarrow> int" where
  "int_or a b = (case a of None \<Rightarrow> b | Some n \<Rightarrow> if n = 0 then b else n)"

definition max_retry_count :: "store_settings \<Rightarrow> int option \<Rightarrow> int" where
  "max_retry_count s max_retries = max (int_or max_retries (SCRAPER_OUTBOX_MAX_RETRIES s)) 1"

definition retry_delay_seconds :: "store_settings \<Rightarrow> int option \<Rightarrow> int" where
  "retry_delay_seconds s retry_base = max (int_or retry_base (SCRAPER_OUTBOX_RETRY_BASE_SECONDS s)) 1"

definition backoff_seconds :: "int \<Rightarrow> int \<Rightarrow> int" where
  "backoff_seconds delay attempt_number = delay * max 1 (2 ^ nat (max (attempt_number - 1) 0))"

definition published_row :: "event option \<Rightarrow> time \<Rightarrow> outbox_row \<Rightarrow> outbox_row" where
  "published_row payload now r = r\<lparr>
     ob_status := Published, ob_retry_count := ob_retry_count r + 1,
     ob_payload := (case payload of None \<Rightarrow> ob_payload r | Some e \<Rightarrow> e),
     ob_published_at := Some now, ob_lease_owner := None, ob_lease_expires_at := None,
     ob_last_error := None, ob_updated_at := now \<rparr>"

definition failed_row :: "outbox_status \<Rightarrow> time \<Rightarrow> pystr \<Rightarrow> time \<Rightarrow> outbox_row \<Rightarrow> outbox_row" where
  "failed_row next_status available_at error_message now r = r\<lparr>
     ob_status := next_status, ob_retry_count := ob_retry_count r + 1,
     ob_available_at := available_at, ob_lease_owner := None, ob_lease_expires_at := None,
     ob_last_error := Some error_message, ob_updated_at := now \<rparr>"

definition settle_published :: "time \<Rightarrow> event option \<Rightarrow> pystr \<Rightarrow> pystr \<Rightarrow> db \<Rightarrow> db" where
  "settle_published now payload event_id publisher_id d =
    (case get_outbox_row event_id d of
       None \<Rightarrow> d
     | Some r \<Rightarrow> record_attempt (ob_id r) (ob_retry_count r + 1) now True None publisher_id
         (move_outbox_rows [ob_id r] (published_row payload now) Published now d))"

definition settle_failed ::
    "store_settings \<Rightarrow> time \<Rightarrow> pystr \<Rightarrow> pystr \<Rightarrow> pystr \<Rightarrow> bool \<Rightarrow> int option \<Rightarrow> int option \<Rightarrow> db \<Rightarrow> db" where
  "settle_failed s now event_id publisher_id error_message retryable max_retries retry_base d =
    (case get_outbox_row event_id d of
       None \<Rightarrow> d
     | Some r \<Rightarrow>
        (let attempt_number = ob_retry_count r + 1;
             can_retry = (retryable \<and> attempt_number < max_retry_count s max_retries);
             next_status = (if can_retry then Retryable else Failed);
             delay = (if can_retry then backoff_seconds (retry_delay_seconds s retry_base) attempt_number else 0)
         in record_attempt (ob_id r) attempt_number now False (Some error_message) publisher_id
              (move_outbox_rows [ob_id r] (failed_row next_status (now + delay * MICROS) error_message now)
                next_status now d)))"

section \<open>Effects\<close>

lemma keeps_keys_rows [simp]:
  "keeps_keys (published_row payload now)"
  "keeps_keys (failed_row st av err now)"
  by (simp_all add: keeps_keys_def published_row_def failed_row_def)

lemma settle_published_row:
  assumes "db_wf uuid5 d"
  shows "get_outbox_row e' (settle_published now payload e pub d)
    = (if e' = e then map_option (published_row payload now) (get_outbox_row e d) else get_outbox_row e' d)"
  using assms by (cases "get_outbox_row e d") (auto simp: settle_published_def get_outbox_row_move_single [OF assms])

definition settle_next :: "store_settings \<Rightarrow> bool \<Rightarrow> int option \<Rightarrow> outbox_row \<Rightarrow> outbox_status" where
  "settle_next s retryable max_retries r =
    (if retryable \<and> ob_retry_count r + 1 < max_retry_count s max_retries then Retryable else Failed)"

definition settle_available :: "store_settings \<Rightarrow> time \<Rightarrow> bool \<Rightarrow> int option \<Rightarrow> int option \<Rightarrow> outbox_row \<Rightarrow> time" where
  "settle_available s now retryable max_retries retry_base r =
    (if settle_next s retryable max_retries r = Retryable
     then now + backoff_seconds (retry_delay_seconds s retry_base) (ob_retry_count r + 1) * MICROS else now)"

lemma settle_failed_row:
  assumes "db_wf uuid5 d"
  shows "get_outbox_row e' (settle_failed s now e pub err retryable mx base d)
    = (if e' = e then map_option (\<lambda>r. failed_row (settle_next s retryable mx r)
           (settle_available s now retryable mx base r) err now r) (get_outbox_row e d)
       else get_outbox_row e' d)"
  using assms by (cases "get_outbox_row e d")
    (auto simp: settle_failed_def Let_def get_outbox_row_move_single [OF assms] settle_next_def settle_available_def)

lemma settle_failed_outcome:
  assumes "db_wf uuid5 d"
  shows "\<exists>st av. (st = Retryable \<or> st = Failed) \<and> (\<not> rt \<longrightarrow> st = Failed) \<and>
      get_outbox_row e' (settle_failed s now e pub err rt mx base d)
      = (if e' = e then map_option (failed_row st av err now) (get_outbox_row e d) else get_outbox_row e' d)"
proof (cases "get_outbox_row e d")
  case None
  then show ?thesis by (intro exI [of _ Failed]) (simp add: settle_failed_row [OF assms])
next
  case (Some r)
  then show ?thesis
    by (intro exI [of _ "settle_next s rt mx r"] exI [of _ "settle_available s now rt mx base r"])
      (simp add: settle_failed_row [OF assms] settle_next_def)
qed

lemma settle_wf:
  "db_wf uuid5 d \<Longrightarrow> db_wf uuid5 (settle_published now payload e pub d)"
  "db_wf uuid5 d \<Longrightarrow> db_wf uuid5 (settle_failed s now e pub err retryable mx base d)"
  by (auto simp: settle_published_def settle_failed_def Let_def db_wf_move split: option.split)

lemma settle_mirror:
  "db_wf uuid5 d \<Longrightarrow> states_mirror d \<Longrightarrow> states_mirror (settle_published now payload e pub d)"
  "db_wf uuid5 d \<Longrightarrow> states_mirror d \<Longrightarrow> states_mirror (settle_failed s now e pub err retryable mx base d)"
proof -
  assume base: "db_wf uuid5 d" "states_mirror d"
  note mv = states_mirror_move [OF this]
  show "states_mirror (settle_published now payload e pub d)"
    by (auto simp: settle_published_def published_row_def keeps_keys_def intro!: mv base(2) split: option.split)
  show "states_mirror (settle_failed s now e pub err retryable mx base d)"
    by (auto simp: settle_failed_def Let_def failed_row_def keeps_keys_def intro!: mv base(2) split: option.split)
qed

text \<open>Every settlement is recorded as an attempt under its number.\<close>

lemma record_attempt_mem:
  "\<exists>a \<in> set (t_attempts (record_attempt oid n now ok err pub d)).
     at_outbox_id a = oid \<and> at_attempt_number a = n \<and> at_success a = ok \<and> at_error_message a = err"
proof (cases "list_ex (\<lambda>a. at_outbox_id a = oid \<and> at_attempt_number a = n) (t_attempts d)")
  case True
  then obtain a where "a \<in> set (t_attempts d)" "at_outbox_id a = oid" "at_attempt_number a = n"
    by (auto simp: list_ex_iff)
  then have "a\<lparr>at_success := ok, at_error_message := err, at_publisher_name := pub, at_created_at := now\<rparr>
      \<in> set (t_attempts (record_attempt oid n now ok err pub d))" (is "?a \<in> _")
    using True by (auto simp: record_attempt_def update_rows_def intro: image_eqI [of _ _ a])
  with \<open>at_outbox_id a = oid\<close> \<open>at_attempt_number a = n\<close> show ?thesis by (intro bexI [of _ ?a]) simp_all
qed (simp add: record_attempt_def)

lemma max_retry_count_pos: "1 \<le> max_retry_count s mx"
  by (simp add: max_retry_count_def)

lemma backoff_seconds_pos: "1 \<le> backoff_seconds (retry_delay_seconds s base) n"
proof -
  have "1 \<le> retry_delay_seconds s base" by (simp add: retry_delay_seconds_def)
  then have "1 * 1 \<le> retry_delay_seconds s base * max 1 (2 ^ nat (max (n - 1) 0))"
    by (intro mult_mono) simp_all
  then show ?thesis by (simp add: backoff_seconds_def)
qed

lemma backoff_seconds_power:
  "backoff_seconds delay n = delay * 2 ^ nat (max (n - 1) 0)"
proof -
  have "(1::int) \<le> 2 ^ k" for k :: nat by simp
  then show ?thesis by (simp add: backoff_seconds_def max_absorb2)
qed

lemma backoff_seconds_double:
  assumes "1 \<le> n" shows "backoff_seconds delay (n + 1) = 2 * backoff_seconds delay n"
proof -
  from assms have "nat n = Suc (nat (n - 1))" by simp
  then have "(2::int) ^ nat n = 2 * 2 ^ nat (n - 1)" by simp
  with assms show ?thesis by (simp add: backoff_seconds_power)
qed

end
