(* ===== verification/Store_Claim.thy ===== *)
theory Store_Claim imports Store_Settle begin

text \<open>
  The claim transaction (\<open>claim_outbox_batch\<close>): select the ids of the claimable rows in
  creation order, mark them as held under a lease, mirror the state on their products and
  return the messages.  The stores differ in which rows are claimable, in how creation
  times compare and in the status of a held row; those are the parameters here.
\<close>

definition lease_row :: "outbox_status \<Rightarrow> pystr \<Rightarrow> time \<Rightarrow> time \<Rightarrow> outbox_row \<Rightarrow> outbox_row" where
  "lease_row held publisher_id lease_expires now r = r\<lparr>
     ob_status := held, ob_lease_owner := Some publisher_id,
     ob_lease_expires_at := Some lease_expires, ob_updated_at := now \<rparr>"

definition claim_ids :: "(outbox_row \<Rightarrow> bool) \<Rightarrow> (time \<Rightarrow> int) \<Rightarrow> nat \<Rightarrow> db \<Rightarrow> int list" where
  "claim_ids claimable rank batch_size d =
    map ob_id (take batch_size (sort_key (\<lambda>r. rank (ob_created_at r)) (filter claimable (t_outbox d))))"

definition claim_with ::
    "(outbox_row \<Rightarrow> bool) \<Rightarrow> (time \<Rightarrow> int) \<Rightarrow> outbox_status \<Rightarrow> time \<Rightarrow> nat \<Rightarrow> pystr \<Rightarrow> int \<Rightarrow> db \<Rightarrow> claimed list \<times> db" where
  "claim_with claimable rank held now batch_size publisher_id lease_seconds d =
    (let lease_expires = now + max lease_seconds 1 * MICROS;
         outbox_ids = claim_ids claimable rank batch_size d
     in if outbox_ids = [] then ([], d)
        else let d' = move_outbox_rows outbox_ids (lease_row held publisher_id lease_expires now) held now d
             in (map claimed_of (sort_key (\<lambda>r. rank (ob_created_at r))
                   (filter (\<lambda>r. ob_id r \<in> set outbox_ids) (t_outbox d'))), d'))"

lemma lease_row_simps [simp]:
  "ob_id (lease_row h p x now r) = ob_id r" "ob_event_id (lease_row h p x now r) = ob_event_id r"
  "ob_raw_product_id (lease_row h p x now r) = ob_raw_product_id r"
  "ob_status (lease_row h p x now r) = h" "ob_lease_expires_at (lease_row h p x now r) = Some x"
  "ob_lease_owner (lease_row h p x now r) = Some p"
  "ob_payload (lease_row h p x now r) = ob_payload r" "ob_retry_count (lease_row h p x now r) = ob_retry_count r"
  "ob_created_at (lease_row h p x now r) = ob_created_at r"
  "claimed_of (lease_row h p x now r) = claimed_of r"
  "keeps_keys (lease_row h p x now)"
  by (simp_all add: lease_row_def claimed_of_def keeps_keys_def)

lemma claimed_of_event_id [simp]: "cl_event_id (claimed_of r) = ob_event_id r"
  by (simp add: claimed_of_def)

definition claimed_rows :: "(outbox_row \<Rightarrow> bool) \<Rightarrow> (time \<Rightarrow> int) \<Rightarrow> nat \<Rightarrow> db \<Rightarrow> outbox_row list" where
  "claimed_rows claimable rank n d = take n (sort_key (\<lambda>r. rank (ob_created_at r)) (filter claimable (t_outbox d)))"

lemma claimed_rows_mem: "r \<in> set (claimed_rows cl rank n d) \<Longrightarrow> r \<in> set (t_outbox d) \<and> cl r"
  using set_take_sort_key [of n "\<lambda>r. rank (ob_created_at r)" "filter cl (t_outbox d)"]
  by (auto simp: claimed_rows_def)

lemma length_claimed_rows: "length (claimed_rows cl rank n d) = min n (length (filter cl (t_outbox d)))"
  by (simp add: claimed_rows_def min_def)

lemma claim_ids_rows: "claim_ids cl rank n d = map ob_id (claimed_rows cl rank n d)"
  by (simp add: claim_ids_def claimed_rows_def)

lemma distinct_claimed_rows:
  assumes "db_wf uuid5 d" shows "distinct (map ob_event_id (claimed_rows cl rank n d))" "distinct (map ob_id (claimed_rows cl rank n d))"
proof -
  have gen: "distinct (map k (claimed_rows cl rank n d))" if "distinct (map k (t_outbox d))" for k :: "outbox_row \<Rightarrow> 'z"
  proof -
    have "distinct (map k (filter cl (t_outbox d)))" using that by (simp add: distinct_map_filter)
    then have "distinct (map k (sort_key (\<lambda>r. rank (ob_created_at r)) (filter cl (t_outbox d))))"
      by (simp add: distinct_map)
    then show ?thesis by (simp add: claimed_rows_def flip: take_map)
  qed
  show "distinct (map ob_event_id (claimed_rows cl rank n d))" by (rule gen [OF db_wf_distinct(4) [OF assms]])
  show "distinct (map ob_id (claimed_rows cl rank n d))" by (rule gen [OF db_wf_distinct(3) [OF assms]])
qed

lemma distinct_map_rows: "distinct (map k rows) \<Longrightarrow> distinct rows"
  by (simp add: distinct_map)

text \<open>The claimed rows are the selected ones, in the selected order.\<close>

lemma claim_with_messages:
  assumes "db_wf uuid5 d"
  shows "set (fst (claim_with cl rank held now n pub lease d)) = claimed_of ` set (claimed_rows cl rank n d)"
    "length (fst (claim_with cl rank held now n pub lease d)) = length (claimed_rows cl rank n d)"
    "distinct (map cl_event_id (fst (claim_with cl rank held now n pub lease d)))"
proof -
  let ?rows = "claimed_rows cl rank n d"
  let ?ids = "claim_ids cl rank n d"
  let ?f = "lease_row held pub (now + max lease 1 * MICROS) now"
  let ?new = "filter (\<lambda>r. ob_id r \<in> set ?ids) (update_rows (\<lambda>r. ob_id r \<in> set ?ids) ?f (t_outbox d))"
  have new: "?new = map ?f (filter (\<lambda>r. ob_id r \<in> set ?ids) (t_outbox d))"
    by (induction "t_outbox d") (auto simp: update_rows_def filter_map comp_def intro!: map_cong filter_cong)
  have sel: "set (filter (\<lambda>r. ob_id r \<in> set ?ids) (t_outbox d)) = set ?rows"
    using claimed_rows_mem [of _ cl rank n d] key_unique [OF db_wf_distinct(3) [OF assms]]
    by (auto simp: claim_ids_rows)
  have dist: "distinct (map ob_event_id (filter (\<lambda>r. ob_id r \<in> set ?ids) (t_outbox d)))"
    using db_wf_distinct(4) [OF assms] by (simp add: distinct_map_filter)
  have len: "length (filter (\<lambda>r. ob_id r \<in> set ?ids) (t_outbox d)) = length ?rows"
    using distinct_card [OF distinct_map_rows [OF dist]]
      distinct_card [OF distinct_map_rows [OF distinct_claimed_rows(1) [OF assms, of cl rank n]]] sel by metis
  have idle: "?ids = [] \<longleftrightarrow> ?rows = []" by (simp add: claim_ids_rows)
  show "set (fst (claim_with cl rank held now n pub lease d)) = claimed_of ` set ?rows"
    unfolding sel [symmetric] using idle
    by (auto simp: claim_with_def Let_def new image_image)
  show "length (fst (claim_with cl rank held now n pub lease d)) = length ?rows"
    unfolding len [symmetric] using idle by (auto simp: claim_with_def Let_def new)
  show "distinct (map cl_event_id (fst (claim_with cl rank held now n pub lease d)))"
  proof -
    have "distinct (map ob_event_id ?new)" unfolding new using dist by (simp add: comp_def)
    then have "distinct (map ob_event_id (sort_key (\<lambda>r. rank (ob_created_at r)) ?new))"
      by (simp add: distinct_map)
    then show ?thesis by (simp add: claim_with_def Let_def comp_def)
  qed
qed

lemma claim_with_state:
  "snd (claim_with cl rank held now n pub lease d)
    = (if claimed_rows cl rank n d = [] then d
       else move_outbox_rows (claim_ids cl rank n d) (lease_row held pub (now + max lease 1 * MICROS) now) held now d)"
  by (simp add: claim_with_def Let_def claim_ids_rows)

lemma claim_with_wf: "db_wf uuid5 d \<Longrightarrow> db_wf uuid5 (snd (claim_with cl rank held now n pub lease d))"
  by (simp add: claim_with_state db_wf_move)

lemma claim_with_mirror:
  "db_wf uuid5 d \<Longrightarrow> states_mirror d \<Longrightarrow> states_mirror (snd (claim_with cl rank held now n pub lease d))"
  by (simp add: claim_with_state states_mirror_move)

lemma claim_with_lookup:
  assumes "db_wf uuid5 d"
  shows "get_outbox_row e (snd (claim_with cl rank held now n pub lease d))
    = (if e \<in> cl_event_id ` set (fst (claim_with cl rank held now n pub lease d))
       then map_option (lease_row held pub (now + max lease 1 * MICROS) now) (get_outbox_row e d)
       else get_outbox_row e d)"
proof (cases "get_outbox_row e d")
  case None
  then show ?thesis by (simp add: claim_with_state get_outbox_row_move)
next
  case (Some r)
  have "ob_id r \<in> set (claim_ids cl rank n d) \<longleftrightarrow> e \<in> ob_event_id ` set (claimed_rows cl rank n d)"
    using get_outbox_row_SomeD [OF Some] claimed_rows_mem [of _ cl rank n d]
      outbox_id_unique [OF assms Some] key_unique [OF db_wf_distinct(4) [OF assms]]
    unfolding claim_ids_rows set_map image_iff by metis
  with Some show ?thesis
    by (auto simp: claim_with_state get_outbox_row_move claim_with_messages [OF assms] image_image)
qed

lemma claim_with_claimable:
  assumes "db_wf uuid5 d" "m \<in> set (fst (claim_with cl rank held now n pub lease d))"
  shows "\<exists>r. get_outbox_row (cl_event_id m) d = Some r \<and> cl r \<and> m = claimed_of r"
  using assms(2) claimed_rows_mem [of _ cl rank n d] get_outbox_row_mem [OF assms(1)]
  by (fastforce simp: claim_with_messages [OF assms(1)])

lemma claim_with_nonempty:
  assumes "db_wf uuid5 d"
  shows "fst (claim_with cl rank held now n pub lease d) \<noteq> [] \<longleftrightarrow> 0 < n \<and> list_ex cl (t_outbox d)"
proof -
  have "length (fst (claim_with cl rank held now n pub lease d)) = min n (length (filter cl (t_outbox d)))"
    by (simp add: claim_with_messages(2) [OF assms] length_claimed_rows)
  then have "fst (claim_with cl rank held now n pub lease d) \<noteq> []
      \<longleftrightarrow> 0 < min n (length (filter cl (t_outbox d)))" unfolding length_greater_0_conv [symmetric] by simp
  also have "\<dots> \<longleftrightarrow> 0 < n \<and> list_ex cl (t_outbox d)"
    by (auto simp: list_ex_iff filter_empty_conv)
  finally show ?thesis .
qed

text \<open>Oldest first: a claimable row left behind is not older than a claimed one.\<close>

lemma claim_with_oldest:
  assumes "r \<in> set (claimed_rows cl rank n d)" "q \<in> set (t_outbox d)" "cl q" "q \<notin> set (claimed_rows cl rank n d)"
  shows "rank (ob_created_at r) \<le> rank (ob_created_at q)"
proof -
  let ?s = "sort_key (\<lambda>r. rank (ob_created_at r)) (filter cl (t_outbox d))"
  have "sorted (map (\<lambda>r. rank (ob_created_at r)) (take n ?s @ drop n ?s))" by simp
  moreover have "q \<in> set (drop n ?s)"
  proof -
    have "q \<in> set (take n ?s @ drop n ?s)" using assms(2,3) by simp
    then show ?thesis using assms(4) unfolding set_append claimed_rows_def by blast
  qed
  moreover have "r \<in> set (take n ?s)" using assms(1) by (simp add: claimed_rows_def)
  ultimately show ?thesis unfolding map_append sorted_append set_map by blast
qed

end
