(* ===== verification/Outbox_Store.thy ===== *)
theory Outbox_Store imports Store_Claim begin

text \<open>
  The part of the \<open>ScraperStore\<close> protocol (\<^verbatim>\<open>infrastructure/persistence/base.py\<close>) the
  publisher calls, as a record of operations, and the contract it relies on as the
  locale \<open>outbox_store\<close>.  Time is an argument: each operation reads the clock once.
\<close>

record 'db outbox_ops =
  op_has_claimable :: "time \<Rightarrow> 'db \<Rightarrow> bool"
  op_claim :: "time \<Rightarrow> nat \<Rightarrow> pystr \<Rightarrow> int \<Rightarrow> 'db \<Rightarrow> claimed list \<times> 'db"
  op_mark_published :: "time \<Rightarrow> pystr \<Rightarrow> pystr \<Rightarrow> event option \<Rightarrow> 'db \<Rightarrow> 'db"
  op_mark_failed :: "time \<Rightarrow> pystr \<Rightarrow> pystr \<Rightarrow> pystr \<Rightarrow> bool \<Rightarrow> int option \<Rightarrow> int option \<Rightarrow> 'db \<Rightarrow> 'db"

locale outbox_store =
  fixes ops :: "'db outbox_ops"
    and well_formed :: "'db \<Rightarrow> bool"
    and message :: "pystr \<Rightarrow> 'db \<Rightarrow> outbox_row option"
    and held :: outbox_status
  assumes claim_wf: "well_formed d \<Longrightarrow> well_formed (snd (op_claim ops now n pub lease d))"
    and published_wf: "well_formed d \<Longrightarrow> well_formed (op_mark_published ops now e pub evo d)"
    and failed_wf: "well_formed d \<Longrightarrow> well_formed (op_mark_failed ops now e pub err rt mx base d)"
    and claim_bounded: "well_formed d \<Longrightarrow> length (fst (op_claim ops now n pub lease d)) \<le> n"
    and claim_distinct: "well_formed d \<Longrightarrow> distinct (map cl_event_id (fst (op_claim ops now n pub lease d)))"
    and claim_message: "well_formed d \<Longrightarrow> m \<in> set (fst (op_claim ops now n pub lease d)) \<Longrightarrow>
        \<exists>r. message (cl_event_id m) d = Some r \<and> m = claimed_of r"
    and claim_lookup: "well_formed d \<Longrightarrow> message e (snd (op_claim ops now n pub lease d))
        = (if e \<in> cl_event_id ` set (fst (op_claim ops now n pub lease d))
           then map_option (lease_row held pub (now + max lease 1 * MICROS) now) (message e d)
           else message e d)"
    and claimable_iff: "well_formed d \<Longrightarrow> 0 < n \<Longrightarrow>
        op_has_claimable ops now d \<longleftrightarrow> fst (op_claim ops now n pub lease d) \<noteq> []"
    and published_lookup: "well_formed d \<Longrightarrow> pb_published_at (ev_publication ev) = Some t \<Longrightarrow>
        message e' (op_mark_published ops now e pub (Some ev) d)
        = (if e' = e then map_option (published_row (Some ev) t) (message e d) else message e' d)"
    and failed_lookup: "well_formed d \<Longrightarrow> \<exists>st av. (st = Retryable \<or> st = Failed) \<and> (\<not> rt \<longrightarrow> st = Failed) \<and>
        message e' (op_mark_failed ops now e pub err rt mx base d)
        = (if e' = e then map_option (failed_row st av err now) (message e d) else message e' d)"
begin

lemma claimed_messages_distinct:
  "well_formed d \<Longrightarrow> op_claim ops now n pub lease d = (ms, d') \<Longrightarrow> distinct (map cl_event_id ms)"
  using claim_distinct [of d now n pub lease] by simp

lemma claim_marks_held:
  assumes "well_formed d" "op_claim ops now n pub lease d = (ms, d')" "m \<in> set ms"
  shows "\<exists>r. message (cl_event_id m) d' = Some r \<and> ob_status r = held \<and> claimed_of r = m
    \<and> ob_lease_owner r = Some pub \<and> ob_lease_expires_at r = Some (now + max lease 1 * MICROS)"
proof -
  from assms obtain r where r: "message (cl_event_id m) d = Some r" "m = claimed_of r"
    using claim_message [OF assms(1), of m now n pub lease] by auto
  have "cl_event_id m \<in> cl_event_id ` set ms" using assms(3) by simp
  with claim_lookup [OF assms(1), of "cl_event_id m" now n pub lease] assms(2) r
  show ?thesis by simp
qed

lemma claim_others:
  assumes "well_formed d" "op_claim ops now n pub lease d = (ms, d')" "e \<notin> cl_event_id ` set ms"
  shows "message e d' = message e d"
  using claim_lookup [OF assms(1), of e now n pub lease] assms(2,3) by simp

end

end
