(* ===== verification/Sqlite_Store.thy ===== *)
theory Sqlite_Store imports Store_Persist Outbox_Store begin

text \<open>
  \<open>SQLiteScraperStore\<close> (\<^verbatim>\<open>infrastructure/persistence/sqlite_store.py\<close>).  Timestamps are
  stored as ISO text and SQLite compares them as text, so the order of timestamps is the
  order of their texts and not that of the instants.
\<close>

section \<open>The order of ISO timestamps\<close>

text \<open>
  \<open>dt.isoformat()\<close> in UTC is \<open>YYYY-MM-DDTHH:MM:SS\<close>, then \<open>.ffffff\<close> unless the microseconds
  are zero, then \<open>Z\<close>.  The part before the fraction has a fixed width and grows with the
  second, so comparing texts compares seconds first and then the suffixes.
\<close>

fun digits :: "nat \<Rightarrow> nat \<Rightarrow> pystr" where
  "digits 0 n = []"
| "digits (Suc k) n = char_of (48 + n div 10 ^ k) # digits k (n mod 10 ^ k)"

definition iso_suffix :: "time \<Rightarrow> pystr" where
  "iso_suffix t = (let us = t mod MICROS in if us = 0 then ''Z'' else ''.'' @ digits 6 (nat us) @ ''Z'')"

fun text_le :: "pystr \<Rightarrow> pystr \<Rightarrow> bool" where
  "text_le [] _ = True"
| "text_le (c # s) [] = False"
| "text_le (c # s) (c' # s') = (let a = of_char c :: nat; b = of_char c' in a < b \<or> (a = b \<and> text_le s s'))"

definition iso_le :: "time \<Rightarrow> time \<Rightarrow> bool" where
  "iso_le a b = (a div MICROS < b div MICROS
     \<or> (a div MICROS = b div MICROS \<and> text_le (iso_suffix a) (iso_suffix b)))"

text \<open>The number whose order is that of the texts: a whole second comes last in its second.\<close>

definition iso_rank :: "time \<Rightarrow> int" where
  "iso_rank t = (if t mod MICROS = 0 then t + MICROS else t)"

section \<open>Persisting a snapshot\<close>

definition sqlite_upsert_raw_product :: product_upsert where
  "sqlite_upsert_raw_product snap structured now d =
    (case get_snapshot_row (sn_scrape_run_id snap) (sn_identity_key snap) d of
       None \<Rightarrow>
         if run_exists (sn_scrape_run_id snap) d
         then (let pid = product_seq d + 1 in
           Inr (pid, d\<lparr>t_products := t_products d @ [fresh_product_row pid snap structured now], product_seq := pid\<rparr>))
         else Inl (IntegrityError ''FOREIGN KEY constraint failed'')
     | Some p \<Rightarrow> Inr (pr_id p, d\<lparr>t_products := update_rows (\<lambda>q. pr_id q = pr_id p)
           (refresh_product_row snap structured now) (t_products d)\<rparr>))"

definition sqlite_upsert_outbox_row :: outbox_upsert where
  "sqlite_upsert_outbox_row s pid snap e exchange_name routing_key now d =
    (if \<not> run_exists (sn_scrape_run_id snap) d then Inl (IntegrityError ''FOREIGN KEY constraint failed'')
     else if \<not> outbox_slot_free (ev_event_id e) pid d
     then Inl (IntegrityError ''UNIQUE constraint failed: publication_outbox.raw_product_id'')
     else (case get_outbox_row (ev_event_id e) d of
       None \<Rightarrow> (let oid = outbox_seq d + 1 in
         Inr (oid, d\<lparr>t_outbox := t_outbox d @ [fresh_outbox_row s oid pid snap e exchange_name routing_key now],
                     outbox_seq := oid\<rparr>))
     | Some r \<Rightarrow> Inr (ob_id r, d\<lparr>t_outbox := update_rows (\<lambda>q. ob_id q = ob_id r)
         (refresh_outbox_row s pid snap e exchange_name routing_key now) (t_outbox d)\<rparr>)))"

definition sqlite_persist_snapshot ::
    "store_settings \<Rightarrow> (pystr \<Rightarrow> pystr) \<Rightarrow> (json \<Rightarrow> pystr) \<Rightarrow> time \<Rightarrow> pystr \<Rightarrow> pystr \<Rightarrow> pystr
      \<Rightarrow> snapshot \<Rightarrow> db \<Rightarrow> exc + (persisted \<times> db)" where
  "sqlite_persist_snapshot = persist_with sqlite_upsert_raw_product sqlite_upsert_outbox_row"

definition sqlite_save_snapshot_and_enqueue ::
    "store_settings \<Rightarrow> (pystr \<Rightarrow> pystr) \<Rightarrow> (json \<Rightarrow> pystr) \<Rightarrow> time \<Rightarrow> pystr \<Rightarrow> pystr \<Rightarrow> pystr
      \<Rightarrow> snapshot \<Rightarrow> db \<Rightarrow> exc + (pystr \<times> db)" where
  "sqlite_save_snapshot_and_enqueue s uuid5 dumps now event_type exchange_name routing_key snap d =
    (case sqlite_persist_snapshot s uuid5 dumps now event_type exchange_name routing_key snap d of
       Inl x \<Rightarrow> Inl x
     | Inr (res, d') \<Rightarrow> Inr (ps_event_id res, d'))"

section \<open>Claiming and settling\<close>

definition sqlite_claimable :: "time \<Rightarrow> outbox_row \<Rightarrow> bool" where
  "sqlite_claimable now r \<longleftrightarrow> (ob_status r = Pending \<or> ob_status r = Retryable)
     \<and> iso_le (ob_available_at r) now
     \<and> (case ob_lease_expires_at r of None \<Rightarrow> True | Some t \<Rightarrow> iso_le t now)"

definition sqlite_has_claimable_outbox_rows :: "time \<Rightarrow> db \<Rightarrow> bool" where
  "sqlite_has_claimable_outbox_rows now d = list_ex (sqlite_claimable now) (t_outbox d)"

definition sqlite_claim_outbox_batch :: "time \<Rightarrow> nat \<Rightarrow> pystr \<Rightarrow> int \<Rightarrow> db \<Rightarrow> claimed list \<times> db" where
  "sqlite_claim_outbox_batch now batch_size publisher_id lease_seconds d =
    claim_with (sqlite_claimable now) iso_rank Publishing now batch_size publisher_id lease_seconds d"

definition sqlite_mark_outbox_published :: "time \<Rightarrow> pystr \<Rightarrow> pystr \<Rightarrow> event option \<Rightarrow> db \<Rightarrow> db" where
  "sqlite_mark_outbox_published utcnow event_id publisher_id published_event d =
    (case Option.bind published_event (\<lambda>e. pb_published_at (ev_publication e)) of
       Some now \<Rightarrow> settle_published now published_event event_id publisher_id d
     | None \<Rightarrow> settle_published utcnow None event_id publisher_id d)"

definition sqlite_mark_outbox_failed ::
    "store_settings \<Rightarrow> time \<Rightarrow> pystr \<Rightarrow> pystr \<Rightarrow> pystr \<Rightarrow> bool \<Rightarrow> int option \<Rightarrow> int option \<Rightarrow> db \<Rightarrow> db" where
  "sqlite_mark_outbox_failed s now event_id publisher_id error_message retryable max_retries retry_base d =
    settle_failed s now event_id publisher_id error_message retryable max_retries retry_base d"

definition sqlite_ops :: "store_settings \<Rightarrow> db outbox_ops" where
  "sqlite_ops s = \<lparr> op_has_claimable = sqlite_has_claimable_outbox_rows, op_claim = sqlite_claim_outbox_batch,
     op_mark_published = sqlite_mark_outbox_published, op_mark_failed = sqlite_mark_outbox_failed s \<rparr>"

section \<open>The text order is the order of the ranks\<close>

lemma of_char_digit: "d < 10 \<Longrightarrow> of_char (char_of (48 + d) :: char) = (48 + d :: nat)"
  by simp

lemma length_digits [simp]: "length (digits k n) = k"
  by (induction k arbitrary: n) auto

lemma text_le_refl [simp]: "text_le s s"
  by (induction s) (auto simp: Let_def)

lemma text_le_digits:
  "a < 10 ^ k \<Longrightarrow> b < 10 ^ k \<Longrightarrow> text_le (digits k a @ s) (digits k b @ s) \<longleftrightarrow> a \<le> b"
proof (induction k arbitrary: a b)
  case 0
  then show ?case by simp
next
  case (Suc k)
  let ?p = "10 ^ k :: nat"
  have d: "a div ?p < 10" "b div ?p < 10"
    using Suc.prems by (simp_all add: less_mult_imp_div_less mult.commute)
  have m: "a mod ?p < ?p" "b mod ?p < ?p" by simp_all
  have eq: "(a \<le> b) \<longleftrightarrow> a div ?p < b div ?p \<or> (a div ?p = b div ?p \<and> a mod ?p \<le> b mod ?p)"
  proof -
    have "a = ?p * (a div ?p) + a mod ?p" "b = ?p * (b div ?p) + b mod ?p" by simp_all
    moreover have "a div ?p < b div ?p \<Longrightarrow> a \<le> b"
      by (metis div_le_mono leD le_cases)
    moreover have "a \<le> b \<Longrightarrow> a div ?p \<le> b div ?p" by (rule div_le_mono)
    ultimately show ?thesis by (metis add_le_cancel_left le_neq_implies_less)
  qed
  show ?case
    using Suc.IH [OF m] d eq by (auto simp: of_char_digit simp del: of_char_of)
qed

lemma seconds_order:
  fixes r r' :: int
  shows "1 \<le> r \<Longrightarrow> r \<le> 1000000 \<Longrightarrow> 1 \<le> r' \<Longrightarrow> r' \<le> 1000000 \<Longrightarrow>
    1000000 * q + r \<le> 1000000 * q' + r' \<longleftrightarrow> q < q' \<or> (q = q' \<and> r \<le> r')"
  by auto

lemma iso_le_rank: "iso_le a b \<longleftrightarrow> iso_rank a \<le> iso_rank b"
proof -
  have b: "0 \<le> t mod MICROS" "t mod MICROS < MICROS" "t = MICROS * (t div MICROS) + t mod MICROS" for t
    by (simp_all add: MICROS_def)
  have dg: "nat (t mod MICROS) < 10 ^ 6" for t
    using b [of t] by (simp add: MICROS_def nat_less_iff)
  consider "a mod MICROS = 0" "b mod MICROS = 0" | "a mod MICROS = 0" "b mod MICROS \<noteq> 0"
    | "a mod MICROS \<noteq> 0" "b mod MICROS = 0" | "a mod MICROS \<noteq> 0" "b mod MICROS \<noteq> 0" by blast
  then have "text_le (iso_suffix a) (iso_suffix b) \<longleftrightarrow>
      (if a mod MICROS = 0 then b mod MICROS = 0 else b mod MICROS = 0 \<or> a mod MICROS \<le> b mod MICROS)"
  proof cases
    case 4
    then show ?thesis using text_le_digits [OF dg [of a] dg [of b], of "''Z''"] b [of a] b [of b]
      by (auto simp: iso_suffix_def Let_def nat_le_eq_zle)
  qed (simp_all add: iso_suffix_def Let_def)
  moreover define r where "r t = (if t mod MICROS = 0 then MICROS else t mod MICROS)" for t
  moreover have rank: "iso_rank t = 1000000 * (t div MICROS) + r t" for t
    using b(3) [of t] unfolding iso_rank_def MICROS_def r_def by (simp only: split: if_split) linarith
  moreover have r: "1 \<le> r t" "r t \<le> 1000000" for t
    using b(1,2) [of t] unfolding r_def MICROS_def by (simp_all only: split: if_split) linarith+
  ultimately have "text_le (iso_suffix a) (iso_suffix b) \<longleftrightarrow> r a \<le> r b"
    using b(1,2) [of a] b(1,2) [of b] by (simp add: MICROS_def) linarith
  then show ?thesis
    unfolding iso_le_def rank seconds_order [OF r r] by simp
qed

section \<open>The store meets its contracts\<close>

lemma sqlite_upsert_raw_product_ok:
  "sqlite_upsert_raw_product snap st now d = Inr (pid, d1) \<Longrightarrow> product_upserted snap st now d pid d1"
  unfolding sqlite_upsert_raw_product_def product_upserted_def
  by (rule exI [of _ "product_seq d1"]) (auto simp: Let_def split: option.splits if_splits)

lemma sqlite_upsert_outbox_row_ok:
  "sqlite_upsert_outbox_row s pid snap e ex rk now d = Inr (oid, d1) \<Longrightarrow> outbox_upserted s pid snap e ex rk now d oid d1"
  unfolding sqlite_upsert_outbox_row_def outbox_upserted_def
  by (rule exI [of _ "outbox_seq d1"]) (auto simp: Let_def split: option.splits if_splits)

interpretation sqlite_writer: snapshot_writer sqlite_upsert_raw_product sqlite_upsert_outbox_row
proof
  show "(\<exists>pid d1. sqlite_upsert_raw_product snap st now d = Inr (pid, d1))
      \<longleftrightarrow> get_snapshot_row (sn_scrape_run_id snap) (sn_identity_key snap) d \<noteq> None
        \<or> run_exists (sn_scrape_run_id snap) d" for snap st now d
    by (auto simp: sqlite_upsert_raw_product_def Let_def split: option.split)
  show "(\<exists>oid d1. sqlite_upsert_outbox_row s pid snap e ex rk now d = Inr (oid, d1))
      \<longleftrightarrow> run_exists (sn_scrape_run_id snap) d \<and> outbox_slot_free (ev_event_id e) pid d"
    for s pid snap e ex rk now d
    by (auto simp: sqlite_upsert_outbox_row_def Let_def split: option.split)
qed (auto dest: sqlite_upsert_raw_product_ok sqlite_upsert_outbox_row_ok)

lemma sqlite_ops_simps [simp]:
  "op_has_claimable (sqlite_ops s) = sqlite_has_claimable_outbox_rows"
  "op_claim (sqlite_ops s) = sqlite_claim_outbox_batch"
  "op_mark_published (sqlite_ops s) = sqlite_mark_outbox_published"
  "op_mark_failed (sqlite_ops s) = sqlite_mark_outbox_failed s"
  by (simp_all add: sqlite_ops_def)

interpretation sqlite_outbox: outbox_store "sqlite_ops s" "db_wf uuid5" get_outbox_row Publishing
  for s uuid5
proof
  fix d now n pub lease m e
  assume wf: "db_wf uuid5 d"
  note cl = sqlite_claim_outbox_batch_def sqlite_ops_simps
  show "db_wf uuid5 (snd (op_claim (sqlite_ops s) now n pub lease d))"
    unfolding cl by (rule claim_with_wf [OF wf])
  show "length (fst (op_claim (sqlite_ops s) now n pub lease d)) \<le> n"
    unfolding cl by (simp add: claim_with_messages [OF wf] length_claimed_rows)
  show "distinct (map cl_event_id (fst (op_claim (sqlite_ops s) now n pub lease d)))"
    unfolding cl by (rule claim_with_messages(3) [OF wf])
  show "m \<in> set (fst (op_claim (sqlite_ops s) now n pub lease d)) \<Longrightarrow>
      \<exists>r. get_outbox_row (cl_event_id m) d = Some r \<and> m = claimed_of r"
    unfolding cl using claim_with_claimable [OF wf] by blast
  show "get_outbox_row e (snd (op_claim (sqlite_ops s) now n pub lease d))
      = (if e \<in> cl_event_id ` set (fst (op_claim (sqlite_ops s) now n pub lease d))
         then map_option (lease_row Publishing pub (now + max lease 1 * MICROS) now) (get_outbox_row e d)
         else get_outbox_row e d)"
    unfolding cl by (rule claim_with_lookup [OF wf])
  show "0 < n \<Longrightarrow> op_has_claimable (sqlite_ops s) now d \<longleftrightarrow> fst (op_claim (sqlite_ops s) now n pub lease d) \<noteq> []"
    unfolding cl by (simp add: claim_with_nonempty [OF wf] sqlite_has_claimable_outbox_rows_def)
next
  fix d now e pub and evo :: "event option"
  assume wf: "db_wf uuid5 d"
  then show "db_wf uuid5 (op_mark_published (sqlite_ops s) now e pub evo d)"
    by (simp add: sqlite_mark_outbox_published_def settle_wf split: option.split)
next
  fix d now e e' pub t and ev :: event
  assume "db_wf uuid5 d" "pb_published_at (ev_publication ev) = Some t"
  then show "get_outbox_row e' (op_mark_published (sqlite_ops s) now e pub (Some ev) d)
      = (if e' = e then map_option (published_row (Some ev) t) (get_outbox_row e d) else get_outbox_row e' d)"
    by (simp add: sqlite_mark_outbox_published_def settle_published_row)
next
  fix d now e pub err rt mx base
  assume wf: "db_wf uuid5 d"
  then show "db_wf uuid5 (op_mark_failed (sqlite_ops s) now e pub err rt mx base d)"
    by (simp add: sqlite_mark_outbox_failed_def settle_wf)
  fix e'
  show "\<exists>st av. (st = Retryable \<or> st = Failed) \<and> (\<not> rt \<longrightarrow> st = Failed) \<and>
      get_outbox_row e' (op_mark_failed (sqlite_ops s) now e pub err rt mx base d)
      = (if e' = e then map_option (failed_row st av err now) (get_outbox_row e d) else get_outbox_row e' d)"
    unfolding sqlite_ops_simps sqlite_mark_outbox_failed_def by (rule settle_failed_outcome [OF wf])
qed

end
