(* ===== verification/Postgres_Store.thy ===== *)
theory Postgres_Store imports Store_Persist Outbox_Store begin

text \<open>
  \<open>PostgresScraperStore\<close> (\<^verbatim>\<open>infrastructure/persistence/postgres_store.py\<close>).  Timestamps are
  \<open>timestamptz\<close> and compare as instants.  An \<open>insert \<dots> on conflict\<close> draws from the id sequence
  whether or not it inserts.  \<open>for update skip locked\<close> ignores the rows other transactions
  hold locks on; their ids are a parameter of the claim.
\<close>

definition pg_upsert_raw_product :: product_upsert where
  "pg_upsert_raw_product snap structured now d =
    (let pid = product_seq d + 1 in
     case get_snapshot_row (sn_scrape_run_id snap) (sn_identity_key snap) d of
       None \<Rightarrow>
         if run_exists (sn_scrape_run_id snap) d
         then Inr (pid, d\<lparr>t_products := t_products d @ [fresh_product_row pid snap structured now], product_seq := pid\<rparr>)
         else Inl (IntegrityError ''violates foreign key constraint'')
     | Some p \<Rightarrow> Inr (pr_id p, d\<lparr>t_products := update_rows (\<lambda>q. pr_id q = pr_id p)
           (refresh_product_row snap structured now) (t_products d), product_seq := pid\<rparr>))"

definition pg_upsert_outbox_row :: outbox_upsert where
  "pg_upsert_outbox_row s pid snap e exchange_name routing_key now d =
    (let oid = outbox_seq d + 1 in
     if \<not> run_exists (sn_scrape_run_id snap) d then Inl (IntegrityError ''violates foreign key constraint'')
     else if \<not> outbox_slot_free (ev_event_id e) pid d
     then Inl (IntegrityError ''duplicate key value violates unique constraint'')
     else (case get_outbox_row (ev_event_id e) d of
       None \<Rightarrow> Inr (oid, d\<lparr>t_outbox := t_outbox d @ [fresh_outbox_row s oid pid snap e exchange_name routing_key now],
                     outbox_seq := oid\<rparr>)
     | Some r \<Rightarrow> Inr (ob_id r, d\<lparr>t_outbox := update_rows (\<lambda>q. ob_id q = ob_id r)
         (refresh_outbox_row s pid snap e exchange_name routing_key now) (t_outbox d), outbox_seq := oid\<rparr>)))"

definition pg_persist_snapshot ::
    "store_settings \<Rightarrow> (pystr \<Rightarrow> pystr) \<Rightarrow> (json \<Rightarrow> pystr) \<Rightarrow> time \<Rightarrow> pystr \<Rightarrow> pystr \<Rightarrow> pystr
      \<Rightarrow> snapshot \<Rightarrow> db \<Rightarrow> exc + (persisted \<times> db)" where
  "pg_persist_snapshot = persist_with pg_upsert_raw_product pg_upsert_outbox_row"

definition pg_claimable :: "time \<Rightarrow> outbox_row \<Rightarrow> bool" where
  "pg_claimable now r \<longleftrightarrow>
     ((ob_status r = Pending \<or> ob_status r = Retryable) \<and> ob_available_at r \<le> now)
     \<or> (ob_status r = Leased \<and> (case ob_lease_expires_at r of None \<Rightarrow> False | Some t \<Rightarrow> t \<le> now))"

definition pg_has_claimable_outbox_rows :: "time \<Rightarrow> db \<Rightarrow> bool" where
  "pg_has_claimable_outbox_rows now d = list_ex (pg_claimable now) (t_outbox d)"

definition pg_claim_outbox_batch :: "int list \<Rightarrow> time \<Rightarrow> nat \<Rightarrow> pystr \<Rightarrow> int \<Rightarrow> db \<Rightarrow> claimed list \<times> db" where
  "pg_claim_outbox_batch locked now batch_size publisher_id lease_seconds d =
    claim_with (\<lambda>r. pg_claimable now r \<and> ob_id r \<notin> set locked) (\<lambda>t. t) Leased
      now batch_size publisher_id lease_seconds d"

definition pg_mark_outbox_published :: "time \<Rightarrow> pystr \<Rightarrow> pystr \<Rightarrow> event option \<Rightarrow> db \<Rightarrow> db" where
  "pg_mark_outbox_published utcnow event_id publisher_id published_event d =
    (let now = (case Option.bind published_event (\<lambda>e. pb_published_at (ev_publication e)) of
          Some t \<Rightarrow> t | None \<Rightarrow> utcnow)
     in settle_published now published_event event_id publisher_id d)"

definition pg_mark_outbox_failed ::
    "store_settings \<Rightarrow> time \<Rightarrow> pystr \<Rightarrow> pystr \<Rightarrow> pystr \<Rightarrow> bool \<Rightarrow> int option \<Rightarrow> int option \<Rightarrow> db \<Rightarrow> db" where
  "pg_mark_outbox_failed s now event_id publisher_id error_message retryable max_retries retry_base d =
    settle_failed s now event_id publisher_id error_message retryable max_retries retry_base d"

text \<open>The operations of a publisher no other transaction runs beside.\<close>

definition pg_ops :: "store_settings \<Rightarrow> db outbox_ops" where
  "pg_ops s = \<lparr> op_has_claimable = pg_has_claimable_outbox_rows, op_claim = pg_claim_outbox_batch [],
     op_mark_published = pg_mark_outbox_published, op_mark_failed = pg_mark_outbox_failed s \<rparr>"

section \<open>The store meets its contracts\<close>

lemma pg_upsert_raw_product_ok:
  "pg_upsert_raw_product snap st now d = Inr (pid, d1) \<Longrightarrow> product_upserted snap st now d pid d1"
  unfolding pg_upsert_raw_product_def product_upserted_def
  by (auto simp: Let_def split: option.splits if_splits intro!: exI [of _ "product_seq d + 1"])

lemma pg_upsert_outbox_row_ok:
  "pg_upsert_outbox_row s pid snap e ex rk now d = Inr (oid, d1) \<Longrightarrow> outbox_upserted s pid snap e ex rk now d oid d1"
  unfolding pg_upsert_outbox_row_def outbox_upserted_def
  by (auto simp: Let_def split: option.splits if_splits intro!: exI [of _ "outbox_seq d + 1"])

interpretation pg_writer: snapshot_writer pg_upsert_raw_product pg_upsert_outbox_row
proof
  show "(\<exists>pid d1. pg_upsert_raw_product snap st now d = Inr (pid, d1))
      \<longleftrightarrow> get_snapshot_row (sn_scrape_run_id snap) (sn_identity_key snap) d \<noteq> None
        \<or> run_exists (sn_scrape_run_id snap) d" for snap st now d
    by (auto simp: pg_upsert_raw_product_def Let_def split: option.split)
  show "(\<exists>oid d1. pg_upsert_outbox_row s pid snap e ex rk now d = Inr (oid, d1))
      \<longleftrightarrow> run_exists (sn_scrape_run_id snap) d \<and> outbox_slot_free (ev_event_id e) pid d"
    for s pid snap e ex rk now d
    by (auto simp: pg_upsert_outbox_row_def Let_def split: option.split)
qed (auto dest: pg_upsert_raw_product_ok pg_upsert_outbox_row_ok)

lemma pg_ops_simps [simp]:
  "op_has_claimable (pg_ops s) = pg_has_claimable_outbox_rows"
  "op_claim (pg_ops s) = pg_claim_outbox_batch []"
  "op_mark_published (pg_ops s) = pg_mark_outbox_published"
  "op_mark_failed (pg_ops s) = pg_mark_outbox_failed s"
  by (simp_all add: pg_ops_def)

interpretation pg_outbox: outbox_store "pg_ops s" "db_wf uuid5" get_outbox_row Leased
  for s uuid5
proof
  fix d now n pub lease m e
  assume wf: "db_wf uuid5 d"
  note cl = pg_claim_outbox_batch_def pg_ops_simps
  show "db_wf uuid5 (snd (op_claim (pg_ops s) now n pub lease d))"
    unfolding cl by (rule claim_with_wf [OF wf])
  show "length (fst (op_claim (pg_ops s) now n pub lease d)) \<le> n"
    unfolding cl by (simp add: claim_with_messages [OF wf] length_claimed_rows)
  show "distinct (map cl_event_id (fst (op_claim (pg_ops s) now n pub lease d)))"
    unfolding cl by (rule claim_with_messages(3) [OF wf])
  show "m \<in> set (fst (op_claim (pg_ops s) now n pub lease d)) \<Longrightarrow>
      \<exists>r. get_outbox_row (cl_event_id m) d = Some r \<and> m = claimed_of r"
    unfolding cl using claim_with_claimable [OF wf] by blast
  show "get_outbox_row e (snd (op_claim (pg_ops s) now n pub lease d))
      = (if e \<in> cl_event_id ` set (fst (op_claim (pg_ops s) now n pub lease d))
         then map_option (lease_row Leased pub (now + max lease 1 * MICROS) now) (get_outbox_row e d)
         else get_outbox_row e d)"
    unfolding cl by (rule claim_with_lookup [OF wf])
  show "0 < n \<Longrightarrow> op_has_claimable (pg_ops s) now d \<longleftrightarrow> fst (op_claim (pg_ops s) now n pub lease d) \<noteq> []"
    unfolding cl by (simp add: claim_with_nonempty [OF wf] pg_has_claimable_outbox_rows_def)
next
  fix d now e pub and evo :: "event option"
  assume wf: "db_wf uuid5 d"
  then show "db_wf uuid5 (op_mark_published (pg_ops s) now e pub evo d)"
    by (simp add: pg_mark_outbox_published_def settle_wf)
next
  fix d now e e' pub t and ev :: event
  assume "db_wf uuid5 d" "pb_published_at (ev_publication ev) = Some t"
  then show "get_outbox_row e' (op_mark_published (pg_ops s) now e pub (Some ev) d)
      = (if e' = e then map_option (published_row (Some ev) t) (get_outbox_row e d) else get_outbox_row e' d)"
    by (simp add: pg_mark_outbox_published_def settle_published_row)
next
  fix d now e pub err rt mx base
  assume wf: "db_wf uuid5 d"
  then show "db_wf uuid5 (op_mark_failed (pg_ops s) now e pub err rt mx base d)"
    by (simp add: pg_mark_outbox_failed_def settle_wf)
  fix e'
  show "\<exists>st av. (st = Retryable \<or> st = Failed) \<and> (\<not> rt \<longrightarrow> st = Failed) \<and>
      get_outbox_row e' (op_mark_failed (pg_ops s) now e pub err rt mx base d)
      = (if e' = e then map_option (failed_row st av err now) (get_outbox_row e d) else get_outbox_row e' d)"
    unfolding pg_ops_simps pg_mark_outbox_failed_def by (rule settle_failed_outcome [OF wf])
qed

end
