(* ===== verification/Outbox_Lifecycle.thy ===== *)
theory Outbox_Lifecycle imports Sqlite_Store Postgres_Store begin

text \<open>
  The stores as state machines: the operations of \<open>ScraperStore\<close> as a step relation over the
  relational state, for either backend, with the states reachable from an empty
  database, and the life of a message in the outbox (pending, held, retried, published,
  failed).
\<close>

section \<open>Operations of a backend\<close>

datatype backend = Sqlite | Postgres

definition resolve_scraper_db_backend :: "pystr option \<Rightarrow> pystr option \<Rightarrow> pystr" where
  "resolve_scraper_db_backend configured dsn =
    (let backend = lower (strip (or_empty configured)) in
     if backend \<noteq> [] then backend else if truthy dsn then ''postgres'' else ''sqlite'')"

definition build_scraper_store :: "pystr option \<Rightarrow> pystr \<Rightarrow> pystr option \<Rightarrow> exc + backend" where
  "build_scraper_store settings_dsn backend dsn =
    (let resolved = resolve_scraper_db_backend (Some backend) dsn in
     if resolved = ''sqlite'' then Inr Sqlite
     else if resolved = ''postgres''
     then (if strip (or_empty (py_or dsn settings_dsn)) = [] then Inl (ValueError ''SCRAPER_DB_DSN must be set when SCRAPER_DB_BACKEND=postgres'')
           else Inr Postgres)
     else Inl (ValueError (''Unsupported SCRAPER_DB_BACKEND='' @ backend)))"

definition store_persist ::
    "backend \<Rightarrow> store_settings \<Rightarrow> (pystr \<Rightarrow> pystr) \<Rightarrow> (json \<Rightarrow> pystr) \<Rightarrow> time \<Rightarrow> pystr \<Rightarrow> pystr \<Rightarrow> pystr
      \<Rightarrow> snapshot \<Rightarrow> db \<Rightarrow> exc + (persisted \<times> db)" where
  "store_persist b = (case b of Sqlite \<Rightarrow> sqlite_persist_snapshot | Postgres \<Rightarrow> pg_persist_snapshot)"

definition store_ops :: "backend \<Rightarrow> store_settings \<Rightarrow> db outbox_ops" where
  "store_ops b s = (case b of Sqlite \<Rightarrow> sqlite_ops s | Postgres \<Rightarrow> pg_ops s)"

definition held_status :: "backend \<Rightarrow> outbox_status" where
  "held_status b = (case b of Sqlite \<Rightarrow> Publishing | Postgres \<Rightarrow> Leased)"

inductive store_step ::
    "backend \<Rightarrow> store_settings \<Rightarrow> (pystr \<Rightarrow> pystr) \<Rightarrow> (json \<Rightarrow> pystr) \<Rightarrow> db \<Rightarrow> db \<Rightarrow> bool"
  for b s uuid5 dumps where
  step_register: "store_step b s uuid5 dumps d (register_scrape_run now run store spider urls d)"
| step_finish: "store_step b s uuid5 dumps d (finish_scrape_run now run status stats d)"
| step_persist: "event_id_unambiguous uuid5 (sn_scrape_run_id snap) (sn_identity_key snap) d \<Longrightarrow>
    store_persist b s uuid5 dumps now et ex rk snap d = Inr (res, d') \<Longrightarrow> store_step b s uuid5 dumps d d'"
| step_claim: "store_step b s uuid5 dumps d (snd (op_claim (store_ops b s) now n pub lease d))"
| step_claim_locked: "b = Postgres \<Longrightarrow> store_step b s uuid5 dumps d (snd (pg_claim_outbox_batch locked now n pub lease d))"
| step_published: "store_step b s uuid5 dumps d (op_mark_published (store_ops b s) now e pub ev d)"
| step_failed: "store_step b s uuid5 dumps d (op_mark_failed (store_ops b s) now e pub err rt mx base d)"

inductive reachable ::
    "backend \<Rightarrow> store_settings \<Rightarrow> (pystr \<Rightarrow> pystr) \<Rightarrow> (json \<Rightarrow> pystr) \<Rightarrow> db \<Rightarrow> bool"
  for b s uuid5 dumps where
  reachable_empty: "reachable b s uuid5 dumps empty_db"
| reachable_step: "reachable b s uuid5 dumps d \<Longrightarrow> store_step b s uuid5 dumps d d' \<Longrightarrow> reachable b s uuid5 dumps d'"

inductive_cases store_stepE: "store_step b s uuid5 dumps d d'"

section \<open>Both backends at once\<close>

lemma store_outbox: "outbox_store (store_ops b s) (db_wf uuid5) get_outbox_row (held_status b)"
  by (cases b) (simp_all add: store_ops_def held_status_def sqlite_outbox.outbox_store_axioms pg_outbox.outbox_store_axioms)

interpretation store: outbox_store "store_ops b s" "db_wf uuid5" get_outbox_row "held_status b" for b s uuid5
  by (rule store_outbox)

lemma store_persist_wf:
  "store_persist b s uuid5 dumps now et ex rk snap d = Inr (res, d') \<Longrightarrow> db_wf uuid5 d \<Longrightarrow>
     event_id_unambiguous uuid5 (sn_scrape_run_id snap) (sn_identity_key snap) d \<Longrightarrow> db_wf uuid5 d'"
  by (cases b) (simp_all add: store_persist_def sqlite_persist_snapshot_def pg_persist_snapshot_def
      sqlite_writer.persist_wf pg_writer.persist_wf)

lemma store_persist_mirror:
  "store_persist b s uuid5 dumps now et ex rk snap d = Inr (res, d') \<Longrightarrow> db_wf uuid5 d \<Longrightarrow>
     event_id_unambiguous uuid5 (sn_scrape_run_id snap) (sn_identity_key snap) d \<Longrightarrow>
     states_mirror d \<Longrightarrow> states_mirror d'"
  by (cases b) (simp_all add: store_persist_def sqlite_persist_snapshot_def pg_persist_snapshot_def
      sqlite_writer.persist_mirror pg_writer.persist_mirror)

lemma store_settle_mirror:
  assumes "db_wf uuid5 d" "states_mirror d"
  shows "states_mirror (op_mark_published (store_ops b s) now e pub ev d)"
    "states_mirror (op_mark_failed (store_ops b s) now e pub err rt mx base d)"
    "states_mirror (snd (op_claim (store_ops b s) now n pub lease d))"
  using settle_mirror [OF assms] claim_with_mirror [OF assms]
  by (cases b; simp add: store_ops_def sqlite_mark_outbox_published_def pg_mark_outbox_published_def
      sqlite_mark_outbox_failed_def pg_mark_outbox_failed_def sqlite_claim_outbox_batch_def
      pg_claim_outbox_batch_def split: option.split)+

lemma step_invariants:
  assumes "store_step b s uuid5 dumps d d'" "db_wf uuid5 d" "states_mirror d"
  shows "db_wf uuid5 d' \<and> states_mirror d'"
  using assms
proof (cases rule: store_step.cases)
  case step_claim
  with assms show ?thesis using store.claim_wf store_settle_mirror(3) by blast
next
  case step_claim_locked
  with assms show ?thesis by (simp add: pg_claim_outbox_batch_def claim_with_wf claim_with_mirror)
next
  case step_published
  with assms show ?thesis using store.published_wf store_settle_mirror(1) by blast
next
  case step_failed
  with assms show ?thesis by (simp add: store.failed_wf store_settle_mirror)
qed (auto intro: store_persist_wf store_persist_mirror)

section \<open>A sample state\<close>

definition sample_settings :: store_settings where
  "sample_settings = \<lparr> MESSAGE_SCHEMA_VERSION = 1, RABBITMQ_QUEUE = ''products'',
     SCRAPER_OUTBOX_MAX_RETRIES = 3, SCRAPER_OUTBOX_RETRY_BASE_SECONDS = 5 \<rparr>"

definition sample_snapshot :: snapshot where
  "sample_snapshot = \<lparr> sn_store_name = ''shop'', sn_source_url = ''https://shop.uz/p/1'', sn_source_id = Some ''1'',
     sn_title = ''Phone'', sn_brand = None, sn_price_raw = Some ''100'', sn_in_stock = Some True,
     sn_raw_specs = [], sn_image_urls = [''https://shop.uz/1.jpg''], sn_description = None,
     sn_category_hint = None, sn_external_ids = [], sn_scraped_at = 5, sn_payload_hash = ''h1'',
     sn_raw_payload = [], sn_scrape_run_id = ''run'', sn_identity_key = ''shop:1'' \<rparr>"

definition sample_registered :: db where
  "sample_registered = register_scrape_run 1 ''run'' ''shop'' ''spider'' [] empty_db"

definition sample_dumps :: "json \<Rightarrow> pystr" where
  "sample_dumps j = ''{}''"

definition sample_persisted :: "backend \<Rightarrow> db" where
  "sample_persisted b = (case store_persist b sample_settings id sample_dumps 10 ''t'' ''ex'' ''rk'' sample_snapshot sample_registered of
     Inl _ \<Rightarrow> empty_db | Inr (res, d) \<Rightarrow> d)"

lemma sample_registered_facts:
  "db_wf id sample_registered" "states_mirror sample_registered" "run_exists ''run'' sample_registered"
  "event_id_unambiguous id ''run'' ''shop:1'' sample_registered" "t_outbox sample_registered = []"
  "get_outbox_row e sample_registered = None"
  by (simp_all add: sample_registered_def event_id_unambiguous_def register_scrape_run_def empty_db_def
      run_exists_def db_wf_def products_wf_def outbox_wf_def outbox_linked_def states_mirror_def get_outbox_row_def)

lemma sample_event_id: "outbox_event_id id (sn_scrape_run_id sample_snapshot) (sn_identity_key sample_snapshot) = ''outbox:run:shop:1''"
  by (simp add: outbox_event_id_def sample_snapshot_def)

lemma store_persist_succeeds:
  assumes "db_wf uuid5 d" "event_id_unambiguous uuid5 (sn_scrape_run_id snap) (sn_identity_key snap) d"
  shows "(\<exists>x. store_persist b s uuid5 dumps now et ex rk snap d = Inr x)
    \<longleftrightarrow> run_exists (sn_scrape_run_id snap) d \<and> distinct (sn_image_urls snap)
      \<and> distinct (map spec_identity (flatten_specs dumps (sn_raw_specs snap)))"
  using sqlite_writer.persist_succeeds_iff [OF assms] pg_writer.persist_succeeds_iff [OF assms]
  by (cases b) (simp_all add: store_persist_def sqlite_persist_snapshot_def pg_persist_snapshot_def)

lemma sample_persist:
  "\<exists>res. store_persist b sample_settings id sample_dumps 10 ''t'' ''ex'' ''rk'' sample_snapshot sample_registered
     = Inr (res, sample_persisted b)"
proof -
  have "\<exists>x. store_persist b sample_settings id sample_dumps 10 ''t'' ''ex'' ''rk'' sample_snapshot sample_registered = Inr x"
    using store_persist_succeeds [OF sample_registered_facts(1), of sample_snapshot b sample_settings sample_dumps 10 "''t''" "''ex''" "''rk''"]
      sample_registered_facts by (simp add: sample_snapshot_def)
  then show ?thesis by (auto simp: sample_persisted_def)
qed

lemma store_persist_lookup:
  assumes "store_persist b s uuid5 dumps now et ex rk snap d = Inr (res, d')"
  shows "\<exists>r. get_outbox_row (ps_event_id res) d' = Some r \<and> ob_id r = ps_outbox_id res \<and> ob_status r = Pending
      \<and> ob_payload r = snapshot_event s uuid5 now et ex rk snap \<and> ob_retry_count r = 0
      \<and> ob_available_at r = now \<and> ob_lease_expires_at r = None \<and> ob_raw_product_id r = ps_raw_product_id res"
  using assms sqlite_writer.persist_message pg_writer.persist_message
  by (cases b) (simp_all add: store_persist_def sqlite_persist_snapshot_def pg_persist_snapshot_def)

lemma store_persist_ids:
  assumes "store_persist b s uuid5 dumps now et ex rk snap d = Inr (res, d')"
  shows "ps_event_id res = outbox_event_id uuid5 (sn_scrape_run_id snap) (sn_identity_key snap)"
  using assms by (cases b)
    (auto simp: store_persist_def sqlite_persist_snapshot_def pg_persist_snapshot_def
      elim: sqlite_writer.persist_stages pg_writer.persist_stages)

lemma sample_persisted_facts:
  "db_wf id (sample_persisted b)" "states_mirror (sample_persisted b)"
  "\<exists>r. get_outbox_row ''outbox:run:shop:1'' (sample_persisted b) = Some r \<and> ob_status r = Pending
     \<and> ob_available_at r = 10 \<and> ob_lease_expires_at r = None \<and> ob_retry_count r = 0"
proof -
  obtain res where p: "store_persist b sample_settings id sample_dumps 10 ''t'' ''ex'' ''rk'' sample_snapshot sample_registered
     = Inr (res, sample_persisted b)" using sample_persist by blast
  have un: "event_id_unambiguous id (sn_scrape_run_id sample_snapshot) (sn_identity_key sample_snapshot) sample_registered"
    using sample_registered_facts(4) by (simp add: sample_snapshot_def)
  show "db_wf id (sample_persisted b)" by (rule store_persist_wf [OF p sample_registered_facts(1) un])
  show "states_mirror (sample_persisted b)"
    by (rule store_persist_mirror [OF p sample_registered_facts(1) un sample_registered_facts(2)])
  show "\<exists>r. get_outbox_row ''outbox:run:shop:1'' (sample_persisted b) = Some r \<and> ob_status r = Pending
     \<and> ob_available_at r = 10 \<and> ob_lease_expires_at r = None \<and> ob_retry_count r = 0"
    using store_persist_lookup [OF p] store_persist_ids [OF p] sample_event_id by auto
qed

lemma persist_others_none:
  assumes "store_persist b sample_settings id sample_dumps 10 ''t'' ''ex'' ''rk'' sample_snapshot sample_registered
     = Inr (res, d)" "e \<noteq> ''outbox:run:shop:1''"
  shows "get_outbox_row e d = None"
proof -
  have ne: "e \<noteq> ps_event_id res" using store_persist_ids [OF assms(1)] sample_event_id assms(2) by simp
  note w = sample_registered_facts(1)
  show ?thesis
  proof (cases b)
    case Sqlite
    with assms(1) have "persist_with sqlite_upsert_raw_product sqlite_upsert_outbox_row sample_settings id sample_dumps
        10 ''t'' ''ex'' ''rk'' sample_snapshot sample_registered = Inr (res, d)"
      by (simp add: store_persist_def sqlite_persist_snapshot_def)
    from sqlite_writer.persist_others [OF this w ne] show ?thesis by (simp add: sample_registered_facts)
  next
    case Postgres
    with assms(1) have "persist_with pg_upsert_raw_product pg_upsert_outbox_row sample_settings id sample_dumps
        10 ''t'' ''ex'' ''rk'' sample_snapshot sample_registered = Inr (res, d)"
      by (simp add: store_persist_def pg_persist_snapshot_def)
    from pg_writer.persist_others [OF this w ne] show ?thesis by (simp add: sample_registered_facts)
  qed
qed

lemma sample_persisted_reachable: "reachable b sample_settings id sample_dumps (sample_persisted b)"
proof -
  have "reachable b sample_settings id sample_dumps sample_registered"
    unfolding sample_registered_def by (rule reachable_step [OF reachable_empty step_register])
  moreover obtain res where "store_persist b sample_settings id sample_dumps 10 ''t'' ''ex'' ''rk'' sample_snapshot sample_registered
     = Inr (res, sample_persisted b)" using sample_persist by blast
  moreover have "event_id_unambiguous id (sn_scrape_run_id sample_snapshot) (sn_identity_key sample_snapshot) sample_registered"
    using sample_registered_facts(4) by (simp add: sample_snapshot_def)
  ultimately show ?thesis by (blast intro: reachable_step step_persist)
qed

section \<open>Properties of the stores\<close>

text \<open>C1. Whatever sequence of store operations runs, on either backend, the keys stay
  unique, every outbox row keeps belonging to one product under that product's event id,
  and a product's \<open>publication_state\<close> is always the status of its outbox row.\<close>

theorem store_reachable_invariants:
  "reachable b s uuid5 dumps d \<Longrightarrow> db_wf uuid5 d \<and> states_mirror d"
  by (induction rule: reachable.induct) (use step_invariants in auto)

theorem store_reachable_invariants_witness:
  "db_wf id (sample_persisted Postgres) \<and> states_mirror (sample_persisted Postgres)"
  by (rule store_reachable_invariants [OF sample_persisted_reachable])



text \<open>C3. A successful persist leaves a pending, unleased message available at once, with a
  fresh retry budget and the snapshot's own event as payload; the stored images are the
  snapshot's, in order; and no other message changes.\<close>

theorem persist_enqueues:
  assumes "store_persist b s uuid5 dumps now et ex rk snap d = Inr (res, d')" "db_wf uuid5 d"
  shows "(\<exists>r. get_outbox_row (ps_event_id res) d' = Some r \<and> ob_status r = Pending \<and> ob_retry_count r = 0
        \<and> ob_available_at r = now \<and> ob_lease_expires_at r = None \<and> ob_raw_product_id r = ps_raw_product_id res
        \<and> ob_payload r = snapshot_event s uuid5 now et ex rk snap)
    \<and> map im_image_url (get_raw_product_images (ps_raw_product_id res) d') = sn_image_urls snap
    \<and> (\<forall>e. e \<noteq> ps_event_id res \<longrightarrow> get_outbox_row e d' = get_outbox_row e d)"
proof (intro conjI)
  show "\<exists>r. get_outbox_row (ps_event_id res) d' = Some r \<and> ob_status r = Pending \<and> ob_retry_count r = 0
        \<and> ob_available_at r = now \<and> ob_lease_expires_at r = None \<and> ob_raw_product_id r = ps_raw_product_id res
        \<and> ob_payload r = snapshot_event s uuid5 now et ex rk snap"
    using store_persist_lookup [OF assms(1)] by blast
  show "map im_image_url (get_raw_product_images (ps_raw_product_id res) d') = sn_image_urls snap"
    using assms(1) by (cases b) (simp_all add: store_persist_def sqlite_persist_snapshot_def
        pg_persist_snapshot_def sqlite_writer.persist_images pg_writer.persist_images)
  show "\<forall>e. e \<noteq> ps_event_id res \<longrightarrow> get_outbox_row e d' = get_outbox_row e d"
    using assms by (cases b) (simp_all add: store_persist_def sqlite_persist_snapshot_def
        pg_persist_snapshot_def sqlite_writer.persist_others pg_writer.persist_others)
qed

theorem persist_enqueues_witness:
  "\<exists>res :: persisted. map im_image_url (get_raw_product_images (ps_raw_product_id res) (sample_persisted Sqlite))
     = [''https://shop.uz/1.jpg'']"
proof -
  obtain res where "store_persist Sqlite sample_settings id sample_dumps 10 ''t'' ''ex'' ''rk'' sample_snapshot sample_registered
     = Inr (res, sample_persisted Sqlite)" using sample_persist by blast
  from persist_enqueues [OF this sample_registered_facts(1)]
  have "map im_image_url (get_raw_product_images (ps_raw_product_id res) (sample_persisted Sqlite))
    = sn_image_urls sample_snapshot" by blast
  then show ?thesis by (intro exI [of _ res]) (simp add: sample_snapshot_def)
qed

text \<open>Claims, in the terms both backends share.\<close>

definition store_claimable :: "backend \<Rightarrow> time \<Rightarrow> outbox_row \<Rightarrow> bool" where
  "store_claimable b now = (case b of Sqlite \<Rightarrow> sqlite_claimable now | Postgres \<Rightarrow> pg_claimable now)"

definition store_rank :: "backend \<Rightarrow> time \<Rightarrow> int" where
  "store_rank b t = (case b of Sqlite \<Rightarrow> iso_rank t | Postgres \<Rightarrow> t)"

lemma store_claim_with:
  "op_claim (store_ops b s) now n pub lease d
    = claim_with (store_claimable b now) (store_rank b) (held_status b) now n pub lease d"
  by (cases b) (simp_all add: store_ops_def store_claimable_def store_rank_def [abs_def] held_status_def
      sqlite_claim_outbox_batch_def pg_claim_outbox_batch_def)

lemma store_has_claimable: "op_has_claimable (store_ops b s) now d = list_ex (store_claimable b now) (t_outbox d)"
  by (cases b) (simp_all add: store_ops_def store_claimable_def sqlite_has_claimable_outbox_rows_def
      pg_has_claimable_outbox_rows_def)

text \<open>C4. A claim returns distinct messages, at most the batch size, each of which was claimable
  and is now held by this publisher under a lease that ends at least a second later; every
  other message is untouched, and a batch is returned exactly when one is announced.\<close>

theorem claim_contract:
  assumes "db_wf uuid5 d" "op_claim (store_ops b s) now n pub lease d = (ms, d')"
  shows "length ms \<le> n \<and> distinct (map cl_event_id ms)
    \<and> (\<forall>m \<in> set ms. \<exists>r. get_outbox_row (cl_event_id m) d = Some r \<and> store_claimable b now r \<and> claimed_of r = m
         \<and> get_outbox_row (cl_event_id m) d' = Some (lease_row (held_status b) pub (now + max lease 1 * MICROS) now r))
    \<and> (\<forall>e. e \<notin> cl_event_id ` set ms \<longrightarrow> get_outbox_row e d' = get_outbox_row e d)
    \<and> (0 < n \<longrightarrow> (ms \<noteq> [] \<longleftrightarrow> op_has_claimable (store_ops b s) now d))"
proof (intro conjI ballI allI impI)
  note c = assms(2) [unfolded store_claim_with]
  show "length ms \<le> n" using store.claim_bounded [OF assms(1), of b s now n pub lease] assms(2) by simp
  show "distinct (map cl_event_id ms)" by (rule store.claimed_messages_distinct [OF assms])
  show "\<exists>r. get_outbox_row (cl_event_id m) d = Some r \<and> store_claimable b now r \<and> claimed_of r = m
      \<and> get_outbox_row (cl_event_id m) d' = Some (lease_row (held_status b) pub (now + max lease 1 * MICROS) now r)"
    if "m \<in> set ms" for m
  proof -
    from claim_with_claimable [OF assms(1), of m "store_claimable b now" "store_rank b" "held_status b" now n pub lease] c that
    obtain r where r: "get_outbox_row (cl_event_id m) d = Some r" "store_claimable b now r" "m = claimed_of r" by auto
    have "cl_event_id m \<in> cl_event_id ` set ms" using that by simp
    with store.claim_lookup [OF assms(1), of "cl_event_id m" b s now n pub lease] assms(2) r
    show ?thesis by simp
  qed
  show "get_outbox_row e d' = get_outbox_row e d" if "e \<notin> cl_event_id ` set ms" for e
    by (rule store.claim_others [OF assms that])
  show "(ms \<noteq> []) = op_has_claimable (store_ops b s) now d" if "0 < n"
    using store.claimable_iff [OF assms(1) that, of b s now pub lease] assms(2) by simp
qed

text \<open>A sequence of claims by any publishers.\<close>

fun pg_claims :: "(int list \<times> time \<times> nat \<times> pystr \<times> int) list \<Rightarrow> db \<Rightarrow> claimed list \<times> db" where
  "pg_claims [] d = ([], d)"
| "pg_claims ((locked, now, n, pub, lease) # cs) d =
    (let (ms, d1) = pg_claim_outbox_batch locked now n pub lease d; (ms', d2) = pg_claims cs d1 in (ms @ ms', d2))"

lemma pg_claim_skips:
  assumes "db_wf uuid5 d" "get_outbox_row e d = Some r" "\<not> pg_claimable now r"
    "pg_claim_outbox_batch locked now n pub lease d = (ms, d')"
  shows "e \<notin> cl_event_id ` set ms \<and> get_outbox_row e d' = Some r"
proof -
  let ?cl = "\<lambda>r. pg_claimable now r \<and> ob_id r \<notin> set locked"
  note c = assms(4) [unfolded pg_claim_outbox_batch_def]
  have "e \<notin> cl_event_id ` set ms"
  proof
    assume "e \<in> cl_event_id ` set ms"
    with claim_with_claimable [OF assms(1), of _ ?cl "\<lambda>t. t" Leased now n pub lease] c assms(2,3)
    show False by fastforce
  qed
  with claim_with_lookup [OF assms(1), of e ?cl "\<lambda>t. t" Leased now n pub lease] c assms(2)
  show ?thesis by simp
qed

lemma pg_claims_skip:
  assumes "db_wf uuid5 d" "get_outbox_row e d = Some r" "\<forall>c \<in> set cs. \<not> pg_claimable (fst (snd c)) r"
    "pg_claims cs d = (ms, d')"
  shows "e \<notin> cl_event_id ` set ms \<and> get_outbox_row e d' = Some r"
  using assms
proof (induction cs arbitrary: d ms)
  case Nil
  then show ?case by simp
next
  case (Cons c cs)
  obtain locked now n pub lease where c: "c = (locked, now, n, pub, lease)" by (cases c) auto
  obtain ms1 d1 where one: "pg_claim_outbox_batch locked now n pub lease d = (ms1, d1)" by fastforce
  obtain ms2 d2 where rest: "pg_claims cs d1 = (ms2, d2)" by fastforce
  have "e \<notin> cl_event_id ` set ms1 \<and> get_outbox_row e d1 = Some r"
    using pg_claim_skips [OF Cons.prems(1,2) _ one] Cons.prems(3) c by simp
  moreover have "db_wf uuid5 d1"
    using claim_with_wf [OF Cons.prems(1)] one by (metis pg_claim_outbox_batch_def snd_conv)
  ultimately have "e \<notin> cl_event_id ` set ms2 \<and> get_outbox_row e d2 = Some r"
    using Cons.IH [of d1 ms2] Cons.prems(3) Cons.prems(4) rest one c by simp
  with \<open>e \<notin> cl_event_id ` set ms1 \<and> _\<close> Cons.prems(4) c one rest show ?case by auto
qed

text \<open>C5. On PostgreSQL a held message is exclusive for the length of its lease: however many
  other claims run, by whomever, none returns it before the lease expires.\<close>

theorem pg_lease_exclusive:
  assumes "db_wf uuid5 d" "pg_claim_outbox_batch locked now n pub lease d = (ms, d')" "m \<in> set ms"
    and "\<forall>c \<in> set cs. fst (snd c) < now + max lease 1 * MICROS"
  shows "cl_event_id m \<notin> cl_event_id ` set (fst (pg_claims cs d'))"
proof -
  note c = assms(2) [unfolded pg_claim_outbox_batch_def]
  let ?cl = "\<lambda>r. pg_claimable now r \<and> ob_id r \<notin> set locked"
  have wf': "db_wf uuid5 d'"
    using claim_with_wf [OF assms(1), of ?cl "\<lambda>t. t" Leased now n pub lease] c by simp
  from claim_with_claimable [OF assms(1), of m ?cl "\<lambda>t. t" Leased now n pub lease] c assms(3)
  obtain r where r: "get_outbox_row (cl_event_id m) d = Some r" "m = claimed_of r" by auto
  let ?r = "lease_row Leased pub (now + max lease 1 * MICROS) now r"
  have "cl_event_id m \<in> cl_event_id ` set ms" using assms(3) by simp
  then have held: "get_outbox_row (cl_event_id m) d' = Some ?r"
    using claim_with_lookup [OF assms(1), of "cl_event_id m" ?cl "\<lambda>t. t" Leased now n pub lease] c r(1) by simp
  have "\<forall>c \<in> set cs. \<not> pg_claimable (fst (snd c)) ?r"
    using assms(4) by (auto simp: pg_claimable_def)
  from pg_claims_skip [OF wf' held this] show ?thesis by (cases "pg_claims cs d'") simp
qed

lemma sample_outbox:
  "\<exists>r. t_outbox (sample_persisted b) = [r] \<and> get_outbox_row ''outbox:run:shop:1'' (sample_persisted b) = Some r"
proof -
  note wf = sample_persisted_facts(1) [of b]
  obtain r where r: "get_outbox_row ''outbox:run:shop:1'' (sample_persisted b) = Some r"
    using sample_persisted_facts(3) by blast
  have "t_outbox (sample_persisted b) = [r]"
  proof -
    obtain res where p: "store_persist b sample_settings id sample_dumps 10 ''t'' ''ex'' ''rk'' sample_snapshot sample_registered
        = Inr (res, sample_persisted b)" using sample_persist by blast
    have "get_outbox_row e (sample_persisted b) = None" if "e \<noteq> ''outbox:run:shop:1''" for e
      using persist_others_none [OF p] that by simp
    then have "ob_event_id q = ''outbox:run:shop:1''" if "q \<in> set (t_outbox (sample_persisted b))" for q
      using get_outbox_row_mem [OF wf that] by fastforce
    then have all: "\<forall>q \<in> set (t_outbox (sample_persisted b)). q = r"
      using get_outbox_row_mem [OF wf] r by fastforce
    have "r \<in> set (t_outbox (sample_persisted b))" using get_outbox_row_SomeD [OF r] by simp
    moreover have "distinct (t_outbox (sample_persisted b))"
      using db_wf_distinct(3) [OF wf] by (rule distinct_map_rows)
    ultimately have "length (t_outbox (sample_persisted b)) = 1"
      using all distinct_card [of "t_outbox (sample_persisted b)"] by (metis is_singletonI' is_singleton_altdef empty_iff)
    with \<open>r \<in> set (t_outbox (sample_persisted b))\<close> show ?thesis by (auto simp: length_Suc_conv)
  qed
  with r show ?thesis by simp
qed

lemma sample_claim:
  assumes "20 \<le> now"
  shows "\<exists>m d'. op_claim (store_ops b s) now 1 pub 60 (sample_persisted b) = ([m], d')
    \<and> cl_event_id m = ''outbox:run:shop:1''"
proof -
  let ?c = "op_claim (store_ops b s) now 1 pub 60 (sample_persisted b)"
  note wf = sample_persisted_facts(1) [of b]
  obtain r where r: "get_outbox_row ''outbox:run:shop:1'' (sample_persisted b) = Some r" "ob_status r = Pending"
    "ob_available_at r = 10" "ob_lease_expires_at r = None" using sample_persisted_facts(3) by blast
  have "iso_rank 10 \<le> iso_rank now"
  proof -
    have "iso_rank (10::int) = 10" by (simp add: iso_rank_def MICROS_def)
    moreover have "now \<le> iso_rank now" by (simp add: iso_rank_def MICROS_def)
    ultimately show ?thesis using assms by simp
  qed
  then have cl: "store_claimable b now r"
    using r assms by (cases b) (simp_all add: store_claimable_def sqlite_claimable_def pg_claimable_def iso_le_rank)
  have ob: "t_outbox (sample_persisted b) = [r]" using sample_outbox [of b] r(1) by auto
  have "set (fst ?c) = claimed_of ` set [r]"
    using ob cl by (simp add: store_claim_with claim_with_messages(1) [OF wf] claimed_rows_def)
  moreover have "length (fst ?c) = 1"
    using ob cl by (simp add: store_claim_with claim_with_messages(2) [OF wf] claimed_rows_def)
  ultimately have "fst ?c = [claimed_of r]" by (cases "fst ?c") auto
  moreover have "ob_event_id r = ''outbox:run:shop:1''" using get_outbox_row_SomeD [OF r(1)] by simp
  ultimately show ?thesis by (intro exI [of _ "claimed_of r"] exI [of _ "snd ?c"]) (simp add: prod_eq_iff)
qed

lemma sample_has_claimable:
  assumes "20 \<le> now" shows "op_has_claimable (store_ops b s) now (sample_persisted b)"
proof -
  obtain m d' where "op_claim (store_ops b s) now 1 [] 60 (sample_persisted b) = ([m], d')"
    using sample_claim [OF assms] by blast
  then have "fst (op_claim (store_ops b s) now 1 [] 60 (sample_persisted b)) \<noteq> []" by simp
  with store.claimable_iff [OF sample_persisted_facts(1) zero_less_one] show ?thesis by blast
qed

theorem claim_contract_witness:
  "\<exists>m d'. op_claim (store_ops Sqlite sample_settings) 20 1 ''w'' 60 (sample_persisted Sqlite) = ([m], d')
     \<and> get_outbox_row (cl_event_id m) d' \<noteq> None"
proof -
  obtain m d' where c: "op_claim (store_ops Sqlite sample_settings) 20 1 ''w'' 60 (sample_persisted Sqlite) = ([m], d')"
    using sample_claim [of 20] by fastforce
  from claim_contract [OF sample_persisted_facts(1) c] c show ?thesis by auto
qed

theorem pg_lease_exclusive_witness:
  "\<exists>m d'. pg_claim_outbox_batch [] 20 1 ''w'' 60 (sample_persisted Postgres) = ([m], d')
     \<and> cl_event_id m \<notin> cl_event_id ` set (fst (pg_claims [([], 30, 5, ''v'', 60)] d'))"
proof -
  obtain m d' where c: "pg_claim_outbox_batch [] 20 1 ''w'' 60 (sample_persisted Postgres) = ([m], d')"
    using sample_claim [of 20 Postgres] by (fastforce simp: store_ops_def)
  from pg_lease_exclusive [OF sample_persisted_facts(1) c, of m "[([], 30, 5, ''v'', 60)]"] c
  show ?thesis by (auto simp: MICROS_def)
qed

text \<open>C6. On PostgreSQL a message whose publisher died is not lost: once its lease has expired,
  a claim that no lock or batch limit holds back returns it again.\<close>

theorem pg_expired_lease_reclaimed:
  assumes "db_wf uuid5 d" "get_outbox_row e d = Some r" "ob_status r = Leased"
    "ob_lease_expires_at r = Some t" "t \<le> now" "length (t_outbox d) \<le> n"
  shows "e \<in> cl_event_id ` set (fst (pg_claim_outbox_batch [] now n pub lease d))"
proof -
  have "r \<in> set (claimed_rows (\<lambda>r. pg_claimable now r \<and> ob_id r \<notin> set []) (\<lambda>t. t) n d)"
    using get_outbox_row_SomeD [OF assms(2)] assms(3-6) le_trans [OF length_filter_le assms(6)]
    by (simp add: claimed_rows_def pg_claimable_def)
  with get_outbox_row_SomeD [OF assms(2)] show ?thesis
    by (force simp: pg_claim_outbox_batch_def claim_with_messages(1) [OF assms(1)] image_image)
qed

theorem pg_expired_lease_reclaimed_witness:
  "\<exists>d'. ''outbox:run:shop:1'' \<in> cl_event_id ` set (fst (pg_claim_outbox_batch [] 90000000 9 ''v'' 60 d'))
     \<and> d' = snd (pg_claim_outbox_batch [] 20 1 ''w'' 60 (sample_persisted Postgres))"
proof -
  obtain m d' where c: "op_claim (store_ops Postgres sample_settings) 20 1 ''w'' 60 (sample_persisted Postgres) = ([m], d')"
    "cl_event_id m = ''outbox:run:shop:1''" using sample_claim [of 20 Postgres] by fastforce
  note wf = sample_persisted_facts(1) [of Postgres]
  have wf': "db_wf id d'" using store.claim_wf [OF wf] c(1) by (metis snd_conv)
  from store.claim_marks_held [OF wf c(1)] c(2) obtain r where
    r: "get_outbox_row ''outbox:run:shop:1'' d' = Some r" "ob_status r = Leased" "ob_lease_expires_at r = Some 60000020"
    by (auto simp: held_status_def MICROS_def)
  have "length (t_outbox d') = length (t_outbox (sample_persisted Postgres))"
    using c(1) by (auto simp: store_claim_with claim_with_def Let_def split: if_splits)
  also have "\<dots> = 1" using sample_outbox [of Postgres] by auto
  finally have "length (t_outbox d') \<le> 9" by simp
  from pg_expired_lease_reclaimed [OF wf' r _ this] c(1) show ?thesis
    by (simp add: store_ops_def)
qed

text \<open>On SQLite a held message is never claimed again: the claim selects pending and
  retryable rows only, so a message whose publisher stopped before settling it stays in
  \<open>publishing\<close>, whatever the time and the expiry of its lease.\<close>

theorem sqlite_held_never_reclaimed:
  assumes "db_wf uuid5 d" "get_outbox_row e d = Some r" "ob_status r = Publishing"
  shows "e \<notin> cl_event_id ` set (fst (sqlite_claim_outbox_batch now n pub lease d))
    \<and> get_outbox_row e (snd (sqlite_claim_outbox_batch now n pub lease d)) = Some r"
proof -
  have "e \<notin> cl_event_id ` set (fst (sqlite_claim_outbox_batch now n pub lease d))"
    using claim_with_claimable [OF assms(1), of _ "sqlite_claimable now" iso_rank Publishing now n pub lease] assms(2,3)
    by (fastforce simp: sqlite_claim_outbox_batch_def sqlite_claimable_def)
  with claim_with_lookup [OF assms(1), of e "sqlite_claimable now" iso_rank Publishing now n pub lease] assms(2)
  show ?thesis by (simp add: sqlite_claim_outbox_batch_def)
qed

theorem sqlite_held_never_reclaimed_witness:
  "\<exists>d' r. d' = snd (sqlite_claim_outbox_batch 20 1 ''w'' 60 (sample_persisted Sqlite))
     \<and> get_outbox_row ''outbox:run:shop:1'' d' = Some r \<and> ob_lease_expires_at r = Some 60000020
     \<and> ''outbox:run:shop:1'' \<notin> cl_event_id ` set (fst (sqlite_claim_outbox_batch 90000000 9 ''v'' 60 d'))"
proof -
  obtain m d' where c: "op_claim (store_ops Sqlite sample_settings) 20 1 ''w'' 60 (sample_persisted Sqlite) = ([m], d')"
    "cl_event_id m = ''outbox:run:shop:1''" using sample_claim [of 20 Sqlite] by fastforce
  note wf = sample_persisted_facts(1) [of Sqlite]
  have wf': "db_wf id d'" using store.claim_wf [OF wf] c(1) by (metis snd_conv)
  from store.claim_marks_held [OF wf c(1)] c(2) obtain r where
    r: "get_outbox_row ''outbox:run:shop:1'' d' = Some r" "ob_status r = Publishing" "ob_lease_expires_at r = Some 60000020"
    by (auto simp: held_status_def MICROS_def)
  from sqlite_held_never_reclaimed [OF wf' r(1,2), of 90000000 9 "''v''" 60] c(1) r show ?thesis
    by (simp add: store_ops_def)
qed

text \<open>A failed delivery is rescheduled exactly when it may be retried and an attempt is left:
  it becomes available after the base delay doubled with every attempt so far, else it is
  failed for good; the lease is released and the attempt is recorded under its number.\<close>

theorem failed_retry_schedule:
  assumes "db_wf uuid5 d" "get_outbox_row e d = Some r"
  shows "let d' = op_mark_failed (store_ops b s) now e pub err retryable mx base d;
             again = (retryable \<and> ob_retry_count r + 1 < max_retry_count s mx) in
    (\<exists>q. get_outbox_row e d' = Some q
       \<and> ob_status q = (if again then Retryable else Failed) \<and> ob_retry_count q = ob_retry_count r + 1
       \<and> ob_available_at q = (if again then now + retry_delay_seconds s base * 2 ^ nat (max (ob_retry_count r) 0) * MICROS else now)
       \<and> ob_lease_owner q = None \<and> ob_lease_expires_at q = None \<and> ob_payload q = ob_payload r)
    \<and> (\<exists>a \<in> set (t_attempts d'). at_outbox_id a = ob_id r \<and> at_attempt_number a = ob_retry_count r + 1
         \<and> \<not> at_success a \<and> at_error_message a = Some err)"
proof -
  have op: "op_mark_failed (store_ops b s) = settle_failed s"
    by (cases b) (simp_all add: store_ops_def sqlite_mark_outbox_failed_def [abs_def] pg_mark_outbox_failed_def [abs_def])
  have att: "\<exists>a \<in> set (t_attempts (settle_failed s now e pub err retryable mx base d)). at_outbox_id a = ob_id r
      \<and> at_attempt_number a = ob_retry_count r + 1 \<and> at_success a = False \<and> at_error_message a = Some err"
    unfolding settle_failed_def Let_def assms(2) option.case by (rule record_attempt_mem)
  show ?thesis
    unfolding op Let_def settle_failed_row [OF assms(1)]
    using assms(2) att
    by (simp add: failed_row_def settle_next_def settle_available_def backoff_seconds_power)
qed

theorem failed_retry_schedule_witness:
  "\<exists>q. get_outbox_row ''outbox:run:shop:1'' (op_mark_failed (store_ops Sqlite sample_settings) 20 ''outbox:run:shop:1''
       ''w'' ''boom'' True None None (sample_persisted Sqlite)) = Some q \<and> ob_status q = Retryable \<and> ob_available_at q = 5000020"
proof -
  obtain r where r: "get_outbox_row ''outbox:run:shop:1'' (sample_persisted Sqlite) = Some r" "ob_retry_count r = 0"
    using sample_persisted_facts(3) by blast
  from failed_retry_schedule [OF sample_persisted_facts(1) r(1), of Sqlite sample_settings 20 "''w''" "''boom''" True None None] r(2)
  show ?thesis by (auto simp: Let_def max_retry_count_def int_or_def sample_settings_def retry_delay_seconds_def MICROS_def)
qed

text \<open>A message that fails \<open>k\<close> times in a row.\<close>

fun fail_times :: "nat \<Rightarrow> backend \<Rightarrow> store_settings \<Rightarrow> time \<Rightarrow> pystr \<Rightarrow> pystr \<Rightarrow> pystr \<Rightarrow> int option \<Rightarrow> int option \<Rightarrow> db \<Rightarrow> db" where
  "fail_times 0 b s now e pub err mx base d = d"
| "fail_times (Suc k) b s now e pub err mx base d
    = op_mark_failed (store_ops b s) now e pub err True mx base (fail_times k b s now e pub err mx base d)"

text \<open>The number of delivery attempts is bounded: after the \<open>k\<close>-th transient failure of a fresh
  message it is retryable if and only if \<open>k\<close> is below the configured maximum.\<close>

theorem attempts_bounded:
  assumes "db_wf uuid5 d" "get_outbox_row e d = Some r" "ob_retry_count r = 0" "0 < k"
  shows "status_of e (fail_times k b s now e pub err mx base d)
    = Some (if int k < max_retry_count s mx then Retryable else Failed)"
proof -
  have op: "op_mark_failed (store_ops b s) = settle_failed s"
    by (cases b) (simp_all add: store_ops_def sqlite_mark_outbox_failed_def [abs_def] pg_mark_outbox_failed_def [abs_def])
  let ?d = "\<lambda>k. fail_times k b s now e pub err mx base d"
  have "db_wf uuid5 (?d k) \<and> (\<exists>q. get_outbox_row e (?d k) = Some q \<and> ob_retry_count q = int k
      \<and> (0 < k \<longrightarrow> ob_status q = (if int k < max_retry_count s mx then Retryable else Failed)))" for k
  proof (induction k)
    case 0
    then show ?case using assms(1-3) by simp
  next
    case (Suc k)
    then obtain q where wf: "db_wf uuid5 (?d k)" and q: "get_outbox_row e (?d k) = Some q" "ob_retry_count q = int k" by auto
    have "get_outbox_row e (?d (Suc k)) = Some (failed_row (settle_next s True mx q) (settle_available s now True mx base q) err now q)"
      using q by (simp add: op settle_failed_row [OF wf])
    then show ?case using settle_wf(2) [OF wf] q(2)
      by (simp add: op failed_row_def settle_next_def)
  qed
  then obtain q where "get_outbox_row e (?d k) = Some q"
    "ob_status q = (if int k < max_retry_count s mx then Retryable else Failed)" using assms(4) by blast
  then show ?thesis by (simp add: status_of_def)
qed

theorem attempts_bounded_witness:
  "status_of ''outbox:run:shop:1'' (fail_times 3 Postgres sample_settings 20 ''outbox:run:shop:1'' ''w'' ''e'' None None
     (sample_persisted Postgres)) = Some Failed"
proof -
  obtain r where r: "get_outbox_row ''outbox:run:shop:1'' (sample_persisted Postgres) = Some r" "ob_retry_count r = 0"
    using sample_persisted_facts(3) by blast
  from attempts_bounded [OF sample_persisted_facts(1) r, of 3 Postgres sample_settings 20 "''w''" "''e''" None None]
  show ?thesis by (simp add: max_retry_count_def int_or_def sample_settings_def)
qed

text \<open>A snapshot persisted again while its message is being delivered can be lost: when the
  delivery of the old event is then marked published, the row becomes published with
  the old payload, so no backend ever claims the new event.\<close>

theorem stale_publish_loses_snapshot:
  assumes "store_persist b s uuid5 dumps now et ex rk snap d = Inr (res, d1)" "db_wf uuid5 d"
    "event_id_unambiguous uuid5 (sn_scrape_run_id snap) (sn_identity_key snap) d"
    "pb_published_at (ev_publication old) = Some t"
  shows "let d2 = op_mark_published (store_ops b s) now2 (ps_event_id res) pub (Some old) d1 in
    status_of (ps_event_id res) d2 = Some Published
    \<and> map_option ob_payload (get_outbox_row (ps_event_id res) d2) = Some old
    \<and> ps_event_id res \<notin> cl_event_id ` set (fst (op_claim (store_ops b s) now3 n pub2 lease d2))"
proof -
  have wf1: "db_wf uuid5 d1" by (rule store_persist_wf [OF assms(1-3)])
  let ?d2 = "op_mark_published (store_ops b s) now2 (ps_event_id res) pub (Some old) d1"
  have wf2: "db_wf uuid5 ?d2" by (rule store.published_wf [OF wf1])
  from store_persist_lookup [OF assms(1)] obtain r where "get_outbox_row (ps_event_id res) d1 = Some r" by auto
  then have row: "get_outbox_row (ps_event_id res) ?d2 = Some (published_row (Some old) t r)"
    by (simp add: store.published_lookup [OF wf1 assms(4)])
  have "\<not> store_claimable b now3 (published_row (Some old) t r)"
    by (cases b) (simp_all add: store_claimable_def sqlite_claimable_def pg_claimable_def published_row_def)
  then have "ps_event_id res \<notin> cl_event_id ` set (fst (op_claim (store_ops b s) now3 n pub2 lease ?d2))"
    using claim_with_claimable [OF wf2, of _ "store_claimable b now3" "store_rank b" "held_status b" now3 n pub2 lease] row
    by (fastforce simp: store_claim_with)
  with row show ?thesis by (simp add: Let_def status_of_def published_row_def)
qed

theorem stale_publish_loses_snapshot_witness:
  "\<exists>res old. store_persist Sqlite sample_settings id sample_dumps 10 ''t'' ''ex'' ''rk'' sample_snapshot sample_registered
      = Inr (res, sample_persisted Sqlite)
    \<and> status_of (ps_event_id res) (op_mark_published (store_ops Sqlite sample_settings) 40 (ps_event_id res) ''w'' (Some old)
          (sample_persisted Sqlite)) = Some Published"
proof -
  obtain res where p: "store_persist Sqlite sample_settings id sample_dumps 10 ''t'' ''ex'' ''rk'' sample_snapshot sample_registered
     = Inr (res, sample_persisted Sqlite)" using sample_persist by blast
  let ?e = "snapshot_event sample_settings id 10 ''t'' ''ex'' ''rk'' sample_snapshot"
  let ?old = "?e\<lparr>ev_publication := (ev_publication ?e)\<lparr>pb_published_at := Some 30\<rparr>\<rparr>"
  have un: "event_id_unambiguous id (sn_scrape_run_id sample_snapshot) (sn_identity_key sample_snapshot) sample_registered"
    using sample_registered_facts(4) by (simp add: sample_snapshot_def)
  have "pb_published_at (ev_publication ?old) = Some 30" by simp
  from stale_publish_loses_snapshot [OF p sample_registered_facts(1) un this, of 40 "''w''" 50 9 "''v''" 60] p
  show ?thesis unfolding Let_def by blast
qed

text \<open>The text order of SQLite timestamps is the order of the instants except within one
  second: there a whole second, which has no fraction, sorts after every later instant.\<close>

theorem iso_order_differs:
  "iso_le a b \<longleftrightarrow> (if a div MICROS = b div MICROS \<and> (a mod MICROS = 0) \<noteq> (b mod MICROS = 0)
     then b mod MICROS = 0 else a \<le> b)"
proof -
  obtain qa ra where a: "a = 1000000 * qa + ra" "0 \<le> ra" "ra < 1000000" "a div 1000000 = qa" "a mod 1000000 = ra"
    using that [of "a div 1000000" "a mod 1000000"] by simp
  obtain qb rb where b: "b = 1000000 * qb + rb" "0 \<le> rb" "rb < 1000000" "b div 1000000 = qb" "b mod 1000000 = rb"
    using that [of "b div 1000000" "b mod 1000000"] by simp
  have "a \<le> b \<longleftrightarrow> qa < qb \<or> (qa = qb \<and> ra \<le> rb)" using a(1-3) b(1-3) by auto
  moreover have "iso_rank a \<le> iso_rank b \<longleftrightarrow> qa < qb \<or> (qa = qb \<and> (if ra = 0 then rb = 0 else rb = 0 \<or> ra \<le> rb))"
    unfolding iso_rank_def MICROS_def a(5) b(5) using a(1-3) b(1-3) by (auto split: if_splits)
  ultimately show ?thesis
    unfolding iso_le_rank MICROS_def a(4,5) b(4,5) using a(2) b(2) by auto
qed

end
