(* ===== verification/Publisher.thy ===== *)
theory Publisher imports Outbox_Lifecycle begin

text \<open>
  The publisher service (\<^verbatim>\<open>services/publisher/\<close>): the RabbitMQ transport with its lazily
  opened connection, channel and exchange, and the worker that claims messages, delivers
  them and settles them.  The broker and the clock are the environment: what the n-th
  call of the service observes is given by an oracle.
\<close>

record publisher_config =
  pc_exchange_name :: pystr
  pc_queue_name :: pystr
  pc_routing_key :: pystr
  pc_declare_topology :: bool
  pc_batch_size :: nat
  pc_lease_seconds :: int
  pc_max_retries :: int
  pc_retry_base_seconds :: int
  pc_publisher_service_name :: pystr

record env =
  en_now :: "nat \<Rightarrow> time"
  en_io :: "nat \<Rightarrow> exc option"
  en_is_closed :: "nat \<Rightarrow> bool"

text \<open>
  The transport: which of its four resources are set, the number of observations of the
  environment so far, and the events whose delivery the broker confirmed.
\<close>

record rabbit =
  rb_connection :: bool
  rb_channel :: bool
  rb_exchange :: bool
  rb_queue :: bool
  rb_tick :: nat
  rb_sent :: "event list"

definition tick :: "rabbit \<Rightarrow> rabbit" where
  "tick st = st\<lparr>rb_tick := Suc (rb_tick st)\<rparr>"

section \<open>RabbitMQPublisher\<close>

text \<open>\<open>await\<close> on a broker call: the exception it raises, if any.\<close>

definition await_io :: "env \<Rightarrow> rabbit \<Rightarrow> exc option \<times> rabbit" where
  "await_io env st = (en_io env (rb_tick st), tick st)"

definition connection_ready :: "env \<Rightarrow> rabbit \<Rightarrow> bool \<times> rabbit" where
  "connection_ready env st =
    (if rb_connection st then (\<not> en_is_closed env (rb_tick st), tick st) else (False, st))"

definition channel_ready :: "env \<Rightarrow> rabbit \<Rightarrow> bool \<times> rabbit" where
  "channel_ready env st =
    (if rb_channel st then (\<not> en_is_closed env (rb_tick st), tick st) else (False, st))"

definition close_safely :: "env \<Rightarrow> bool \<Rightarrow> rabbit \<Rightarrow> rabbit" where
  "close_safely env present st = (if present then snd (await_io env st) else st)"

definition invalidate_transport :: "env \<Rightarrow> rabbit \<Rightarrow> rabbit" where
  "invalidate_transport env st =
    (let channel = rb_channel st; connection = rb_connection st;
         st1 = st\<lparr>rb_exchange := False, rb_queue := False, rb_channel := False, rb_connection := False\<rparr>
     in close_safely env connection (close_safely env channel st1))"

definition ensure_topology :: "env \<Rightarrow> rabbit \<Rightarrow> exc option \<times> rabbit" where
  "ensure_topology env st =
    (case await_io env st of
       (Some x, st1) \<Rightarrow> (Some x, st1)
     | (None, st1) \<Rightarrow>
        (case await_io env (st1\<lparr>rb_exchange := True\<rparr>) of
           (Some x, st2) \<Rightarrow> (Some x, st2)
         | (None, st2) \<Rightarrow> await_io env (st2\<lparr>rb_queue := True\<rparr>)))"

definition resolve_exchange :: "publisher_config \<Rightarrow> env \<Rightarrow> rabbit \<Rightarrow> exc option \<times> rabbit" where
  "resolve_exchange c env st =
    (if pc_declare_topology c then ensure_topology env st
     else (case await_io env st of
             (Some x, st1) \<Rightarrow> (Some x, st1)
           | (None, st1) \<Rightarrow> (None, st1\<lparr>rb_exchange := True\<rparr>)))"

definition open_connection :: "env \<Rightarrow> rabbit \<Rightarrow> exc option \<times> rabbit" where
  "open_connection env st =
    (case connection_ready env st of
       (True, st1) \<Rightarrow> (None, st1)
     | (False, st1) \<Rightarrow>
        (case await_io env (invalidate_transport env st1) of
           (Some x, st2) \<Rightarrow> (Some x, st2)
         | (None, st2) \<Rightarrow> (None, st2\<lparr>rb_connection := True\<rparr>)))"

definition open_channel :: "env \<Rightarrow> rabbit \<Rightarrow> exc option \<times> rabbit" where
  "open_channel env st =
    (case channel_ready env st of
       (True, st1) \<Rightarrow> (None, st1)
     | (False, st1) \<Rightarrow>
        (case await_io env st1 of
           (Some x, st2) \<Rightarrow> (Some x, st2)
         | (None, st2) \<Rightarrow> (None, st2\<lparr>rb_channel := True, rb_exchange := False, rb_queue := False\<rparr>)))"

definition connect :: "publisher_config \<Rightarrow> env \<Rightarrow> rabbit \<Rightarrow> exc option \<times> rabbit" where
  "connect c env st =
    (case open_connection env st of
       (Some x, st1) \<Rightarrow> (Some x, st1)
     | (None, st1) \<Rightarrow>
        (case open_channel env st1 of
           (Some x, st2) \<Rightarrow> (Some x, st2)
         | (None, st2) \<Rightarrow> if rb_exchange st2 then (None, st2) else resolve_exchange c env st2))"

definition publish_once :: "publisher_config \<Rightarrow> env \<Rightarrow> event \<Rightarrow> rabbit \<Rightarrow> exc option \<times> rabbit" where
  "publish_once c env e st =
    (case (if rb_exchange st then (None, st) else connect c env st) of
       (Some x, st1) \<Rightarrow> (Some x, st1)
     | (None, st1) \<Rightarrow>
        (case assert_rabbit_publish_contract e of
           Inl x \<Rightarrow> (Some x, st1)
         | Inr _ \<Rightarrow>
            (case await_io env st1 of
               (Some x, st2) \<Rightarrow> (Some x, st2)
             | (None, st2) \<Rightarrow> (None, st2\<lparr>rb_sent := rb_sent st2 @ [e]\<rparr>))))"

fun recoverable :: "exc \<Rightarrow> bool" where
  "recoverable (AMQPConnectionError m) = True"
| "recoverable (ConnectionClosed m) = True"
| "recoverable (ChannelClosed m) = True"
| "recoverable (ChannelInvalidStateError m) = True"
| "recoverable (OSError m) = True"
| "recoverable (TimeoutError m) = True"
| "recoverable _ = False"

definition publish :: "publisher_config \<Rightarrow> env \<Rightarrow> event \<Rightarrow> rabbit \<Rightarrow> exc option \<times> rabbit" where
  "publish c env e st =
    (case publish_once c env e st of
       (None, st1) \<Rightarrow> (None, st1)
     | (Some x, st1) \<Rightarrow>
        if recoverable x
        then (case connect c env (invalidate_transport env st1) of
                (Some y, st2) \<Rightarrow> (Some y, st2)
              | (None, st2) \<Rightarrow> publish_once c env e st2)
        else (Some x, st1))"

section \<open>PublicationWorker\<close>

record run_result =
  res_claimed :: nat
  res_published :: nat
  res_failed :: nat

definition build_delivery_event :: "publisher_config \<Rightarrow> claimed \<Rightarrow> time \<Rightarrow> event" where
  "build_delivery_event c m published_at = (let e = cl_payload m in
    e\<lparr>ev_publication := (ev_publication e)\<lparr>
        pb_exchange_name := Some (pc_exchange_name c), pb_queue_name := Some (pc_queue_name c),
        pb_routing_key := Some (pc_routing_key c), pb_outbox_status := ''published'',
        pb_attempt_number := cl_attempt_count m + 1,
        pb_publisher_service := Some (pc_publisher_service_name c),
        pb_published_at := Some published_at\<rparr>\<rparr>)"

fun is_retryable :: "exc \<Rightarrow> bool" where
  "is_retryable (TypeError m) = False"
| "is_retryable (ValueError m) = False"
| "is_retryable _ = True"

definition read_clock :: "env \<Rightarrow> rabbit \<Rightarrow> time \<times> rabbit" where
  "read_clock env st = (en_now env (rb_tick st), tick st)"

text \<open>The reader (\<open>PersistenceOutboxReader\<close>) passes its configuration to the store.\<close>

definition reader_mark_published ::
    "'db outbox_ops \<Rightarrow> publisher_config \<Rightarrow> time \<Rightarrow> pystr \<Rightarrow> event \<Rightarrow> 'db \<Rightarrow> 'db" where
  "reader_mark_published ops c now event_id e d =
    op_mark_published ops now event_id (pc_publisher_service_name c) (Some e) d"

definition reader_mark_failed ::
    "'db outbox_ops \<Rightarrow> publisher_config \<Rightarrow> time \<Rightarrow> pystr \<Rightarrow> pystr \<Rightarrow> bool \<Rightarrow> 'db \<Rightarrow> 'db" where
  "reader_mark_failed ops c now event_id error_message retryable d =
    op_mark_failed ops now event_id (pc_publisher_service_name c) error_message retryable
      (Some (pc_max_retries c)) (Some (pc_retry_base_seconds c)) d"

definition reader_claim_batch :: "'db outbox_ops \<Rightarrow> publisher_config \<Rightarrow> time \<Rightarrow> 'db \<Rightarrow> claimed list \<times> 'db" where
  "reader_claim_batch ops c now d =
    op_claim ops now (pc_batch_size c) (pc_publisher_service_name c) (pc_lease_seconds c) d"

text \<open>One message: deliver it and settle it.\<close>

definition deliver ::
    "'db outbox_ops \<Rightarrow> publisher_config \<Rightarrow> env \<Rightarrow> claimed \<Rightarrow> run_result \<times> rabbit \<times> 'db \<Rightarrow> run_result \<times> rabbit \<times> 'db" where
  "deliver ops c env m w = (case w of (result, st, d) \<Rightarrow>
    (let (published_at, st1) = read_clock env st;
         delivery_event = build_delivery_event c m published_at
     in case publish c env delivery_event st1 of
          (Some x, st2) \<Rightarrow>
            (let (now, st3) = read_clock env st2 in
             (result\<lparr>res_failed := Suc (res_failed result)\<rparr>, st3,
              reader_mark_failed ops c now (cl_event_id m) (exc_text x) (is_retryable x) d))
        | (None, st2) \<Rightarrow>
            (let (now, st3) = read_clock env st2 in
             (result\<lparr>res_published := Suc (res_published result)\<rparr>, st3,
              reader_mark_published ops c now (cl_event_id m) delivery_event d))))"

fun deliver_all ::
    "'db outbox_ops \<Rightarrow> publisher_config \<Rightarrow> env \<Rightarrow> claimed list \<Rightarrow> run_result \<times> rabbit \<times> 'db \<Rightarrow> run_result \<times> rabbit \<times> 'db" where
  "deliver_all ops c env [] w = w"
| "deliver_all ops c env (m # ms) w = deliver_all ops c env ms (deliver ops c env m w)"

definition run_once ::
    "'db outbox_ops \<Rightarrow> publisher_config \<Rightarrow> env \<Rightarrow> rabbit \<times> 'db \<Rightarrow> (exc + run_result) \<times> rabbit \<times> 'db" where
  "run_once ops c env w = (case w of (st, d) \<Rightarrow>
    (let result = \<lparr> res_claimed = 0, res_published = 0, res_failed = 0 \<rparr>;
         (now0, st0) = read_clock env st
     in if \<not> op_has_claimable ops now0 d then (Inr result, st0, d)
        else (case connect c env st0 of
          (Some x, st1) \<Rightarrow> (Inl x, st1, d)
        | (None, st1) \<Rightarrow>
            (let (now1, st2) = read_clock env st1;
                 (messages, d1) = reader_claim_batch ops c now1 d;
                 (result', st3, d2) = deliver_all ops c env messages (result\<lparr>res_claimed := length messages\<rparr>, st2, d1)
             in (Inr result', st3, d2)))))"

text \<open>
  \<open>run_forever\<close> for \<open>n\<close> iterations: an exception of \<open>run_once\<close> is logged and the loop goes
  on; the pauses between iterations change no state.
\<close>

fun run_iterations ::
    "nat \<Rightarrow> 'db outbox_ops \<Rightarrow> publisher_config \<Rightarrow> env \<Rightarrow> rabbit \<times> 'db \<Rightarrow> (exc + run_result) list \<times> rabbit \<times> 'db" where
  "run_iterations 0 ops c env w = ([], w)"
| "run_iterations (Suc n) ops c env w =
    (let (r, w') = run_once ops c env w; (rs, w'') = run_iterations n ops c env w' in (r # rs, w''))"

section \<open>The transport\<close>

lemma tick_simps [simp]:
  "rb_sent (tick st) = rb_sent st" "rb_tick (tick st) = Suc (rb_tick st)" "rb_exchange (tick st) = rb_exchange st"
  "rb_connection (tick st) = rb_connection st" "rb_channel (tick st) = rb_channel st" "rb_queue (tick st) = rb_queue st"
  by (simp_all add: tick_def)

lemma await_io_simps [simp]:
  "fst (await_io env st) = en_io env (rb_tick st)" "snd (await_io env st) = tick st"
  by (simp_all add: await_io_def)

lemma sent_invalidate [simp]: "rb_sent (invalidate_transport env st) = rb_sent st"
  by (simp add: invalidate_transport_def close_safely_def Let_def)

lemma tick_invalidate: "rb_tick st \<le> rb_tick (invalidate_transport env st)"
  by (simp add: invalidate_transport_def close_safely_def Let_def)

lemma sent_open_connection: "open_connection env st = (r, st') \<Longrightarrow> rb_sent st' = rb_sent st \<and> rb_tick st \<le> rb_tick st'"
  using tick_invalidate [of "tick st" env] tick_invalidate [of st env]
  by (auto simp: open_connection_def connection_ready_def await_io_def split: option.splits if_splits prod.splits bool.splits)

lemma sent_open_channel: "open_channel env st = (r, st') \<Longrightarrow> rb_sent st' = rb_sent st \<and> rb_tick st \<le> rb_tick st'"
  by (auto simp: open_channel_def channel_ready_def await_io_def split: option.splits if_splits prod.splits bool.splits)

lemma sent_resolve_exchange: "resolve_exchange c env st = (r, st') \<Longrightarrow> rb_sent st' = rb_sent st \<and> rb_tick st \<le> rb_tick st'"
  by (auto simp: resolve_exchange_def ensure_topology_def await_io_def split: option.splits if_splits prod.splits)

lemma sent_connect:
  assumes "connect c env st = (r, st')" shows "rb_sent st' = rb_sent st \<and> rb_tick st \<le> rb_tick st'"
proof -
  obtain r1 st1 where 1: "open_connection env st = (r1, st1)" by fastforce
  obtain r2 st2 where 2: "open_channel env st1 = (r2, st2)" by fastforce
  show ?thesis
    using assms sent_open_connection [OF 1] sent_open_channel [OF 2] sent_resolve_exchange [of c env st2]
    by (fastforce simp: connect_def 1 2 split: option.splits if_splits)
qed

lemma connect_exchange:
  assumes "connect c env st = (None, st')" shows "rb_exchange st'"
  using assms
  by (auto simp: connect_def resolve_exchange_def ensure_topology_def await_io_def split: option.splits if_splits prod.splits)

lemma publish_once_outcome:
  assumes "publish_once c env e st = (r, st')"
  shows "case r of None \<Rightarrow> assert_rabbit_publish_contract e = Inr () \<and> rb_sent st' = rb_sent st @ [e]
    | Some x \<Rightarrow> rb_sent st' = rb_sent st"
proof -
  obtain r1 st1 where 1: "(if rb_exchange st then (None, st) else connect c env st) = (r1, st1)" by fastforce
  then have "rb_sent st1 = rb_sent st" using sent_connect [of c env st] by (auto split: if_splits)
  with assms show ?thesis
    unfolding publish_once_def 1 by (auto simp: await_io_def split: option.splits sum.splits)
qed

lemma publish_outcome:
  assumes "publish c env e st = (r, st')"
  shows "case r of None \<Rightarrow> assert_rabbit_publish_contract e = Inr () \<and> rb_sent st' = rb_sent st @ [e]
    | Some x \<Rightarrow> rb_sent st' = rb_sent st"
proof -
  obtain r1 st1 where 1: "publish_once c env e st = (r1, st1)" by fastforce
  note o1 = publish_once_outcome [OF 1]
  show ?thesis
  proof (cases r1)
    case None
    with assms 1 o1 show ?thesis by (simp add: publish_def)
  next
    case (Some x)
    obtain r2 st2 where 2: "connect c env (invalidate_transport env st1) = (r2, st2)" by fastforce
    with sent_connect [OF 2] o1 Some have "rb_sent st2 = rb_sent st" by simp
    then show ?thesis
      using assms 1 2 Some o1 publish_once_outcome [of c env e st2]
      by (cases r2; cases r) (auto simp: publish_def split: if_splits)
  qed
qed

section \<open>The worker over any store that meets the contract\<close>

context outbox_store begin

text \<open>What becomes of a claimed message: delivered and published, or recorded as failed.\<close>

definition settled :: "publisher_config \<Rightarrow> event list \<Rightarrow> claimed \<Rightarrow> outbox_row \<Rightarrow> bool" where
  "settled c new m q \<longleftrightarrow> ob_lease_expires_at q = None \<and> ob_lease_owner q = None \<and>
    (ob_status q = Published \<and> ob_payload q \<in> set new \<and> (\<exists>t. ob_payload q = build_delivery_event c m t)
     \<or> ob_status q = Retryable \<or> ob_status q = Failed)"

lemma deliver_outcome:
  assumes "well_formed d" "message (cl_event_id m) d = Some r"
    "deliver ops c env m (res, st, d) = (res', st', d')"
  shows "well_formed d' \<and> res_claimed res' = res_claimed res
    \<and> res_published res' + res_failed res' = Suc (res_published res + res_failed res)
    \<and> (\<exists>new q. rb_sent st' = rb_sent st @ new \<and> res_published res' = res_published res + length new
        \<and> (\<forall>x \<in> set new. assert_rabbit_publish_contract x = Inr ())
        \<and> message (cl_event_id m) d' = Some q \<and> settled c new m q)
    \<and> (\<forall>e. e \<noteq> cl_event_id m \<longrightarrow> message e d' = message e d)"
proof -
  let ?t = "en_now env (rb_tick st)"
  let ?e = "build_delivery_event c m ?t"
  obtain x st2 where pub: "publish c env ?e (tick st) = (x, st2)" by fastforce
  note out = publish_outcome [OF pub]
  show ?thesis
  proof (cases x)
    case None
    have t: "pb_published_at (ev_publication ?e) = Some ?t" by (simp add: build_delivery_event_def Let_def)
    have d': "d' = op_mark_published ops (en_now env (rb_tick st2)) (cl_event_id m) (pc_publisher_service_name c) (Some ?e) d"
      and st': "rb_sent st' = rb_sent st @ [?e]" and res': "res' = res\<lparr>res_published := Suc (res_published res)\<rparr>"
      using assms(3) None pub out
      by (auto simp: deliver_def read_clock_def Let_def reader_mark_published_def)
    have "settled c [?e] m (published_row (Some ?e) ?t r)"
      by (auto simp: settled_def published_row_def)
    then show ?thesis
      using published_lookup [OF assms(1) t] published_wf [OF assms(1)] assms(2) out None
      by (simp add: d' st' res' exI [of _ "[?e]"])
  next
    case (Some err)
    have d': "d' = op_mark_failed ops (en_now env (rb_tick st2)) (cl_event_id m) (pc_publisher_service_name c)
        (exc_text err) (is_retryable err) (Some (pc_max_retries c)) (Some (pc_retry_base_seconds c)) d"
      and st': "rb_sent st' = rb_sent st" and res': "res' = res\<lparr>res_failed := Suc (res_failed res)\<rparr>"
      using assms(3) Some pub out
      by (auto simp: deliver_def read_clock_def Let_def reader_mark_failed_def)
    note look = failed_lookup [OF assms(1), of "is_retryable err" _ "en_now env (rb_tick st2)" "cl_event_id m"
        "pc_publisher_service_name c" "exc_text err" "Some (pc_max_retries c)" "Some (pc_retry_base_seconds c)", folded d']
    from look [of "cl_event_id m"] obtain st av where "st = Retryable \<or> st = Failed"
      "message (cl_event_id m) d' = Some (failed_row st av (exc_text err) (en_now env (rb_tick st2)) r)"
      using assms(2) by auto
    then have "\<exists>q. message (cl_event_id m) d' = Some q \<and> settled c [] m q"
      by (auto simp: settled_def failed_row_def)
    moreover have "message e d' = message e d" if "e \<noteq> cl_event_id m" for e
      using look [of e] that by auto
    ultimately show ?thesis using failed_wf [OF assms(1)] d' st' res' by auto
  qed
qed

lemma deliver_all_outcome:
  assumes "well_formed d" "distinct (map cl_event_id ms)" "\<forall>m \<in> set ms. message (cl_event_id m) d \<noteq> None"
    "deliver_all ops c env ms (res, st, d) = (res', st', d')"
  shows "well_formed d' \<and> res_claimed res' = res_claimed res
    \<and> res_published res' + res_failed res' = res_published res + res_failed res + length ms
    \<and> (\<exists>new. rb_sent st' = rb_sent st @ new \<and> res_published res' = res_published res + length new
        \<and> (\<forall>x \<in> set new. assert_rabbit_publish_contract x = Inr ())
        \<and> (\<forall>m \<in> set ms. \<exists>q. message (cl_event_id m) d' = Some q \<and> settled c new m q))
    \<and> (\<forall>e. e \<notin> cl_event_id ` set ms \<longrightarrow> message e d' = message e d)"
  using assms
proof (induction ms arbitrary: res st d)
  case Nil
  then show ?case by (auto intro: exI [of _ "[]"])
next
  case (Cons m ms)
  obtain res1 st1 d1 where one: "deliver ops c env m (res, st, d) = (res1, st1, d1)" by (metis prod_cases3)
  from Cons.prems(3) obtain r where r: "message (cl_event_id m) d = Some r" by auto
  note o1 = deliver_outcome [OF Cons.prems(1) r one]
  then obtain new1 q1 where n1: "rb_sent st1 = rb_sent st @ new1" "res_published res1 = res_published res + length new1"
    "\<forall>x \<in> set new1. assert_rabbit_publish_contract x = Inr ()"
    "message (cl_event_id m) d1 = Some q1" "settled c new1 m q1" by auto
  have "\<forall>m' \<in> set ms. message (cl_event_id m') d1 \<noteq> None"
    using o1 Cons.prems(2,3) by (auto simp: image_iff)
  with Cons.IH [of d1 res1 st1] Cons.prems o1 one
  have o2: "well_formed d' \<and> res_claimed res' = res_claimed res1
    \<and> res_published res' + res_failed res' = res_published res1 + res_failed res1 + length ms
    \<and> (\<exists>new. rb_sent st' = rb_sent st1 @ new \<and> res_published res' = res_published res1 + length new
        \<and> (\<forall>x \<in> set new. assert_rabbit_publish_contract x = Inr ())
        \<and> (\<forall>m \<in> set ms. \<exists>q. message (cl_event_id m) d' = Some q \<and> settled c new m q))
    \<and> (\<forall>e. e \<notin> cl_event_id ` set ms \<longrightarrow> message e d' = message e d1)" by simp
  then obtain new2 where n2: "rb_sent st' = rb_sent st1 @ new2" "res_published res' = res_published res1 + length new2"
    "\<forall>x \<in> set new2. assert_rabbit_publish_contract x = Inr ()"
    "\<forall>m \<in> set ms. \<exists>q. message (cl_event_id m) d' = Some q \<and> settled c new2 m q" by auto
  have mono: "settled c new1 m' q \<Longrightarrow> settled c (new1 @ new2) m' q"
    "settled c new2 m' q \<Longrightarrow> settled c (new1 @ new2) m' q" for m' q
    by (auto simp: settled_def)
  have "cl_event_id m \<notin> cl_event_id ` set ms" using Cons.prems(2) by simp
  then have "message (cl_event_id m) d' = Some q1" using o2 n1(4) by simp
  then have "\<forall>m' \<in> set (m # ms). \<exists>q. message (cl_event_id m') d' = Some q \<and> settled c (new1 @ new2) m' q"
    using n1(5) n2(4) mono by fastforce
  moreover have "\<forall>e. e \<notin> cl_event_id ` set (m # ms) \<longrightarrow> message e d' = message e d"
    using o1 o2 by simp
  ultimately show ?case using o1 o2 n1 n2 by (intro conjI exI [of _ "new1 @ new2"]) auto
qed

lemma run_once_outcome:
  assumes "well_formed d" "run_once ops c env (st, d) = (Inr res, st', d')"
  shows "well_formed d' \<and> res_claimed res = res_published res + res_failed res \<and> res_claimed res \<le> pc_batch_size c
    \<and> (\<exists>new ms. rb_sent st' = rb_sent st @ new \<and> length new = res_published res \<and> length ms = res_claimed res
        \<and> distinct (map cl_event_id ms)
        \<and> (\<forall>x \<in> set new. assert_rabbit_publish_contract x = Inr ())
        \<and> (\<forall>m \<in> set ms. \<exists>r q. message (cl_event_id m) d = Some r \<and> m = claimed_of r
             \<and> message (cl_event_id m) d' = Some q \<and> settled c new m q)
        \<and> (\<forall>e. e \<notin> cl_event_id ` set ms \<longrightarrow> message e d' = message e d))"
proof (cases "op_has_claimable ops (en_now env (rb_tick st)) d")
  case False
  with assms show ?thesis
    by (auto simp: run_once_def read_clock_def Let_def intro!: exI [of _ "[]"])
next
  case True
  obtain x st1 where c: "connect c env (tick st) = (x, st1)" by fastforce
  have x: "x = None" using assms(2) True c by (cases x) (auto simp: run_once_def read_clock_def Let_def)
  let ?now = "en_now env (rb_tick st1)"
  obtain ms d1 where cl: "op_claim ops ?now (pc_batch_size c) (pc_publisher_service_name c) (pc_lease_seconds c) d = (ms, d1)"
    by fastforce
  have run: "deliver_all ops c env ms (\<lparr> res_claimed = length ms, res_published = 0, res_failed = 0 \<rparr>, tick st1, d1) = (res, st', d')"
    using assms(2) True c x cl
    by (auto simp: run_once_def read_clock_def Let_def reader_claim_batch_def split: prod.splits)
  have wf1: "well_formed d1" using claim_wf [OF assms(1)] cl by (metis snd_conv)
  have dist: "distinct (map cl_event_id ms)" by (rule claimed_messages_distinct [OF assms(1) cl])
  have held: "\<forall>m \<in> set ms. message (cl_event_id m) d1 \<noteq> None"
    using claim_marks_held [OF assms(1) cl] by blast
  have orig: "\<exists>r. message (cl_event_id m) d = Some r \<and> m = claimed_of r" if "m \<in> set ms" for m
    using claim_message [OF assms(1)] cl that by (metis fst_conv)
  have "length ms \<le> pc_batch_size c"
    using claim_bounded [OF assms(1), of ?now "pc_batch_size c" "pc_publisher_service_name c" "pc_lease_seconds c"] cl by simp
  moreover have "rb_sent st1 = rb_sent st" using sent_connect [OF c] by simp
  moreover have "message e d1 = message e d" if "e \<notin> cl_event_id ` set ms" for e
    by (rule claim_others [OF assms(1) cl that])
  ultimately show ?thesis
    using deliver_all_outcome [OF wf1 dist held run] orig dist
    by (fastforce intro!: exI [of _ ms])
qed

end

section \<open>Properties of the publisher\<close>

definition sample_config :: publisher_config where
  "sample_config = \<lparr> pc_exchange_name = ''ex'', pc_queue_name = ''q'', pc_routing_key = ''rk'',
     pc_declare_topology = True, pc_batch_size = 5, pc_lease_seconds = 60, pc_max_retries = 3,
     pc_retry_base_seconds = 5, pc_publisher_service_name = ''pub'' \<rparr>"

definition sample_rabbit :: rabbit where
  "sample_rabbit = \<lparr> rb_connection = False, rb_channel = False, rb_exchange = False, rb_queue = False,
     rb_tick = 0, rb_sent = [] \<rparr>"

text \<open>An environment without failures.\<close>

definition quiet_env :: env where
  "quiet_env = \<lparr> en_now = (\<lambda>n. 1000 + int n), en_io = (\<lambda>_. None), en_is_closed = (\<lambda>_. False) \<rparr>"

text \<open>C7. A run of the worker that returns accounts for every message it claimed: on either
  backend each claimed message ends published or failed, none stays held; it is published
  only if the broker confirmed exactly its delivery event; every confirmed event meets the
  publish contract; the counters add up, and no other message changes.\<close>

theorem run_once_settles_claimed:
  assumes "db_wf uuid5 d" "run_once (store_ops b s) c env (st, d) = (Inr res, st', d')"
  shows "db_wf uuid5 d' \<and> res_claimed res = res_published res + res_failed res \<and> res_claimed res \<le> pc_batch_size c
    \<and> (\<exists>new ms. rb_sent st' = rb_sent st @ new \<and> length new = res_published res \<and> length ms = res_claimed res
        \<and> distinct (map cl_event_id ms)
        \<and> (\<forall>x \<in> set new. assert_rabbit_publish_contract x = Inr ())
        \<and> (\<forall>m \<in> set ms. \<exists>r q. get_outbox_row (cl_event_id m) d = Some r \<and> m = claimed_of r
             \<and> get_outbox_row (cl_event_id m) d' = Some q \<and> ob_lease_expires_at q = None \<and> ob_lease_owner q = None
             \<and> (ob_status q = Published \<and> ob_payload q \<in> set new \<and> (\<exists>t. ob_payload q = build_delivery_event c m t)
                \<or> ob_status q = Retryable \<or> ob_status q = Failed))
        \<and> (\<forall>e. e \<notin> cl_event_id ` set ms \<longrightarrow> get_outbox_row e d' = get_outbox_row e d))"
  by (rule store.run_once_outcome [OF assms, unfolded store.settled_def])

theorem run_once_settles_claimed_witness:
  "\<exists>res st' d'. run_once (store_ops Postgres sample_settings) sample_config quiet_env (sample_rabbit, sample_persisted Postgres)
     = (Inr res, st', d') \<and> res_claimed res = res_published res + res_failed res"
proof -
  let ?r = "run_once (store_ops Postgres sample_settings) sample_config quiet_env (sample_rabbit, sample_persisted Postgres)"
  have "\<exists>st1. connect sample_config quiet_env (tick sample_rabbit) = (None, st1)"
    by (simp add: connect_def open_connection_def connection_ready_def sample_rabbit_def tick_def await_io_def quiet_env_def
        invalidate_transport_def close_safely_def Let_def open_channel_def channel_ready_def resolve_exchange_def
        sample_config_def ensure_topology_def)
  then have "\<exists>res st' d'. ?r = (Inr res, st', d')"
    by (auto simp: run_once_def read_clock_def Let_def split: prod.splits)
  then obtain res st' d' where r: "?r = (Inr res, st', d')" by blast
  with run_once_settles_claimed [OF sample_persisted_facts(1) r] show ?thesis by blast
qed

text \<open>When the broker cannot be reached, no message is claimed: \<open>run_once\<close> raises before it
  touches the store, so no lease is taken that nobody serves.\<close>

theorem run_once_connects_first:
  "run_once ops c env (st, d) = (Inl x, st', d') \<Longrightarrow> d' = d \<and> rb_sent st' = rb_sent st"
proof -
  assume r: "run_once ops c env (st, d) = (Inl x, st', d')"
  obtain y st1 where c: "connect c env (tick st) = (y, st1)" by fastforce
  show ?thesis
    using r sent_connect [OF c]
    by (cases y) (auto simp: run_once_def read_clock_def Let_def c split: if_splits prod.splits)
qed

theorem run_once_connects_first_witness:
  "snd (snd (run_once (store_ops Postgres sample_settings) sample_config (quiet_env\<lparr>en_io := \<lambda>_. Some (OSError ''down'')\<rparr>)
      (sample_rabbit, sample_persisted Postgres))) = sample_persisted Postgres"
proof -
  let ?env = "quiet_env\<lparr>en_io := \<lambda>_. Some (OSError ''down'')\<rparr>"
  have "\<exists>st1. connect sample_config ?env (tick sample_rabbit) = (Some (OSError ''down''), st1)"
    by (simp add: connect_def open_connection_def connection_ready_def sample_rabbit_def tick_def await_io_def quiet_env_def
        invalidate_transport_def close_safely_def Let_def)
  moreover have "op_has_claimable (store_ops Postgres sample_settings) 1000 (sample_persisted Postgres)"
    by (rule sample_has_claimable) simp
  ultimately obtain st' d' where
    "run_once (store_ops Postgres sample_settings) sample_config ?env (sample_rabbit, sample_persisted Postgres)
      = (Inl (OSError ''down''), st', d')"
    by (auto simp: run_once_def read_clock_def quiet_env_def sample_rabbit_def)
  from run_once_connects_first [OF this] this show ?thesis by simp
qed

lemma delivery_contract:
  "assert_rabbit_publish_contract (build_delivery_event c
      \<lparr> cl_event_id = eid, cl_exchange_name = x, cl_routing_key = y, cl_attempt_count = int n,
        cl_payload = snapshot_event s uuid5 now event_type ex rk snap \<rparr> t) = Inr ()
   \<longleftrightarrow> strip (outbox_event_id uuid5 (sn_scrape_run_id snap) (sn_identity_key snap)) \<noteq> []
     \<and> event_type = SCRAPER_PRODUCT_EVENT_TYPE \<and> MESSAGE_SCHEMA_VERSION s = SCRAPER_PRODUCT_SCHEMA_VERSION
     \<and> strip (sn_store_name snap) \<noteq> [] \<and> is_valid_http_url (Some (sn_source_url snap)) = Inr True
     \<and> strip (sn_scrape_run_id snap) \<noteq> [] \<and> strip (sn_payload_hash snap) \<noteq> []
     \<and> strip (sn_title snap) \<noteq> [] \<and> sn_in_stock snap \<noteq> None \<and> strip (sn_identity_key snap) \<noteq> []
     \<and> length (sn_image_urls snap) \<le> 100 \<and> list_all (\<lambda>u. is_valid_http_url (Some u) = Inr True) (sn_image_urls snap)
     \<and> strip (pc_exchange_name c) \<noteq> [] \<and> strip (pc_queue_name c) \<noteq> [] \<and> strip (pc_routing_key c) \<noteq> []
     \<and> strip (pc_publisher_service_name c) \<noteq> []"
  unfolding assert_contract_iff publishable_envelope_def publishable_payload_def publishable_metadata_def
    mirrors_payload_def build_delivery_event_def snapshot_event_def build_scraper_product_event_def Let_def
  by (simp add: is_non_empty_string_def SCRAPER_PRODUCT_SCHEMA_VERSION_def list_all_iff conj_ac cong: conj_cong)


lemma quiet_io:
  assumes "\<forall>n \<ge> rb_tick st. en_io env n = None" "rb_tick st \<le> rb_tick st'"
  shows "await_io env st' = (None, tick st')"
  using assms by (simp add: await_io_def)

lemma quiet_connect:
  assumes q: "\<forall>n \<ge> rb_tick st. en_io env n = None"
  shows "fst (connect c env st) = None"
proof -
  obtain r1 st1 where 1: "open_connection env st = (r1, st1)" by fastforce
  obtain r2 st2 where 2: "open_channel env st1 = (r2, st2)" by fastforce
  have t1: "rb_tick st \<le> rb_tick st1" using sent_open_connection [OF 1] by simp
  have t2: "rb_tick st \<le> rb_tick st2" using sent_open_channel [OF 2] t1 by simp
  have inv: "rb_tick st \<le> rb_tick (invalidate_transport env (tick st))" "rb_tick st \<le> rb_tick (invalidate_transport env st)"
    using tick_invalidate [of "tick st" env] tick_invalidate [of st env] by simp_all
  have "r1 = None" using 1 quiet_io [OF q] inv
    by (auto simp: open_connection_def connection_ready_def split: if_splits bool.splits)
  moreover have "r2 = None" using 2 t1 quiet_io [OF q]
    by (auto simp: open_channel_def channel_ready_def split: if_splits bool.splits)
  moreover have "fst (resolve_exchange c env st2) = None"
    using t2 quiet_io [OF q] by (simp add: resolve_exchange_def ensure_topology_def await_io_def q)
  ultimately show ?thesis by (simp add: connect_def 1 2)
qed

lemma quiet_publish_once:
  assumes "\<forall>n \<ge> rb_tick st. en_io env n = None" "assert_rabbit_publish_contract e = Inr ()"
  shows "fst (publish_once c env e st) = None"
proof -
  obtain r1 st1 where 1: "(if rb_exchange st then (None, st) else connect c env st) = (r1, st1)" by fastforce
  then have "r1 = None \<and> rb_tick st \<le> rb_tick st1"
    using quiet_connect [OF assms(1), of c] sent_connect [of c env st] by (auto split: if_splits)
  then show ?thesis unfolding publish_once_def 1 using assms by (simp add: await_io_def)
qed


definition sample_event :: event where
  "sample_event = build_delivery_event sample_config
     \<lparr> cl_event_id = ''e'', cl_exchange_name = ''ex'', cl_routing_key = ''rk'', cl_attempt_count = 0,
       cl_payload = snapshot_event sample_settings id 10 SCRAPER_PRODUCT_EVENT_TYPE ''ex'' ''rk'' sample_snapshot \<rparr> 30"

lemma sample_event_ok: "assert_rabbit_publish_contract sample_event = Inr ()"
  by code_simp


text \<open>A topology declaration that fails half-way is not repeated: the exchange is remembered
  before the queue is declared and bound, so when that fails and the channel stays open
  the next \<open>connect\<close> succeeds without a queue.\<close>

theorem half_declared_topology_kept:
  assumes "pc_declare_topology c" "rb_connection st" "rb_channel st" "\<not> rb_exchange st" "\<not> rb_queue st"
    and "\<forall>n. \<not> en_is_closed env n"
    and "en_io env (rb_tick st + 2) = None" "en_io env (rb_tick st + 3) = Some x"
  shows "\<exists>st1 st2. connect c env st = (Some x, st1) \<and> connect c env st1 = (None, st2) \<and> rb_exchange st2 \<and> \<not> rb_queue st2"
  using assms
  by (simp add: connect_def open_connection_def connection_ready_def open_channel_def channel_ready_def
      resolve_exchange_def ensure_topology_def await_io_def eval_nat_numeral)

theorem half_declared_topology_kept_witness:
  "\<exists>st1 st2. connect sample_config (quiet_env\<lparr>en_io := \<lambda>n. if n = 3 then Some (TimeoutError ''slow'') else None\<rparr>)
        (sample_rabbit\<lparr>rb_connection := True, rb_channel := True\<rparr>) = (Some (TimeoutError ''slow''), st1)
     \<and> connect sample_config (quiet_env\<lparr>en_io := \<lambda>n. if n = 3 then Some (TimeoutError ''slow'') else None\<rparr>) st1 = (None, st2)
     \<and> rb_exchange st2 \<and> \<not> rb_queue st2"
  by (rule half_declared_topology_kept) (simp_all add: sample_config_def sample_rabbit_def quiet_env_def)

end
