(* ===== verification/Sync_Domain.thy ===== *)
theory Sync_Domain imports Fingerprints begin

text \<open>
  The values of the CRM synchronisation contour: the sync item, its lifecycle event
  (\<^verbatim>\<open>domain/crm_sync.py\<close>, \<^verbatim>\<open>domain/parser_event.py\<close>, \<^verbatim>\<open>domain/crm_lifecycle.py\<close>), the result of applying
  it (\<^verbatim>\<open>domain/crm_apply_result.py\<close>), replay and reconciliation decisions
  (\<^verbatim>\<open>domain/crm_replay.py\<close>) and the settings the contour reads.
\<close>

section \<open>Events\<close>

datatype event_type = Product_found | Price_changed | Out_of_stock | Characteristic_added

definition event_type_text :: "event_type \<Rightarrow> pystr" where
  "event_type_text t = (case t of Product_found \<Rightarrow> ''product_found'' | Price_changed \<Rightarrow> ''price_changed''
     | Out_of_stock \<Rightarrow> ''out_of_stock'' | Characteristic_added \<Rightarrow> ''characteristic_added'')"

definition parse_event_type :: "pystr \<Rightarrow> event_type option" where
  "parse_event_type s = (if s = ''product_found'' then Some Product_found
     else if s = ''price_changed'' then Some Price_changed
     else if s = ''out_of_stock'' then Some Out_of_stock
     else if s = ''characteristic_added'' then Some Characteristic_added else None)"

lemma parse_event_type_text [simp]: "parse_event_type (event_type_text t) = Some t"
  by (cases t) (simp_all add: parse_event_type_def event_type_text_def)

datatype change_hint = New_product | Price_update | Stock_update | Spec_update

text \<open>
  \<open>CrmSyncItem\<close> without the four diagnostic dictionaries, the clock field \<open>scraped_at\<close> and
  the constant \<open>sync_mode\<close>, which nothing modelled here reads.
\<close>

record sync_item =
  si_schema_version :: int
  si_entity_key :: pystr
  si_payload_hash :: pystr
  si_source_name :: pystr
  si_source_url :: pystr
  si_source_id :: "pystr option"
  si_external_ids :: "(pystr, pystr) odict"
  si_title :: pystr
  si_brand :: "pystr option"
  si_category_hint :: "pystr option"
  si_price_value :: "int option"
  si_price_raw :: "pystr option"
  si_currency :: "pystr option"
  si_in_stock :: "bool option"
  si_raw_specs :: "(pystr, json) odict"
  si_normalized_spec_labels :: "(pystr, pystr) odict"
  si_compatibility_targets :: "pystr list"
  si_typed_specs :: "(pystr, json) odict"
  si_normalization_warnings :: "pystr list"
  si_description :: "pystr option"
  si_image_urls :: "pystr list"
  si_barcode :: "pystr option"
  si_model_name :: "pystr option"
  si_change_hint :: "change_hint option"
  si_request_idempotency_key :: "pystr option"

record runtime_ids =
  rt_listing_id :: "pystr option"
  rt_product_id :: "pystr option"

record identity_context =
  ic_entity_key :: pystr
  ic_external_ids :: "(pystr \<times> pystr) list"
  ic_barcode :: "pystr option"
  ic_source_name :: pystr
  ic_source_url :: pystr
  ic_source_id :: "pystr option"
  ic_crm_listing_id :: "pystr option"
  ic_crm_product_id :: "pystr option"

datatype replay_mode = Snapshot_upsert | Delta_if_possible | Reconcile_only

record 'n sync_event =
  se_event_id :: pystr
  se_event_type :: event_type
  se_identity :: identity_context
  se_data :: sync_item
  se_request_idempotency_key :: pystr
  se_replay_mode :: replay_mode
  se_original_intent :: "event_type option"
  se_normalized :: "'n option"

text \<open>What identifies a delivery: entity and payload.\<close>

definition fp :: "'n sync_event \<Rightarrow> pystr \<times> pystr" where
  "fp e = (si_entity_key (se_data e), si_payload_hash (se_data e))"

section \<open>Apply results\<close>

datatype apply_status = Applied | Matched | Created | Updated | Ignored | Rejected
  | Retryable_failure | Transport_failure

datatype reconcile_signal = Missing_ids | Ambiguous_action | Response_lost

record apply_result =
  ar_event_id :: pystr
  ar_entity_key :: pystr
  ar_payload_hash :: pystr
  ar_success :: bool
  ar_status :: apply_status
  ar_http_status :: "int option"
  ar_action :: "pystr option"
  ar_crm_listing_id :: "pystr option"
  ar_crm_product_id :: "pystr option"
  ar_retryable :: bool
  ar_error_code :: "pystr option"
  ar_error_message :: "pystr option"
  ar_signal :: "reconcile_signal option"

record batch_result =
  br_items :: "apply_result list"
  br_transport_ok :: bool
  br_http_status :: "int option"
  br_error_code :: "pystr option"
  br_error_message :: "pystr option"

record batch_summary =
  bs_total :: nat
  bs_succeeded :: nat
  bs_failed :: nat
  bs_retryable_failed :: nat
  bs_rejected :: nat
  bs_ignored :: nat

definition count_if :: "('a \<Rightarrow> bool) \<Rightarrow> 'a list \<Rightarrow> nat" where
  "count_if p xs = length (filter p xs)"

definition summarize_batch_result :: "batch_result \<Rightarrow> batch_summary" where
  "summarize_batch_result b = (let items = br_items b; total = length items; ok = count_if ar_success items in
     \<lparr> bs_total = total, bs_succeeded = ok, bs_failed = total - ok,
       bs_retryable_failed = count_if (\<lambda>i. \<not> ar_success i \<and> ar_retryable i) items,
       bs_rejected = count_if (\<lambda>i. ar_status i = Rejected) items,
       bs_ignored = count_if (\<lambda>i. ar_status i = Ignored) items \<rparr>)"

section \<open>Decisions\<close>

record replay_decision =
  rd_replay_mode :: replay_mode
  rd_request_idempotency_key :: pystr
  rd_selected_event_type :: event_type
  rd_fallback_to_product_found :: bool
  rd_reason :: "pystr option"
  rd_safe_to_resend :: bool

datatype reconcile_source = From_response | From_runtime | From_catalog_find | From_resend

record reconciliation_result =
  rc_resolved :: bool
  rc_crm_listing_id :: "pystr option"
  rc_crm_product_id :: "pystr option"
  rc_action :: "pystr option"
  rc_source :: reconcile_source
  rc_notes :: "pystr list"

datatype reconcile_via = Via_none | Via_catalog_find | Via_resend_product_found | Via_runtime_ids

record reconciliation_decision =
  rcd_should_reconcile :: bool
  rcd_via :: reconcile_via
  rcd_reason :: "pystr option"

section \<open>Settings\<close>

record sync_settings =
  SYNC_DEDUPE_IN_MEMORY :: bool
  SYNC_MAX_IN_MEMORY_CACHE :: int
  SYNC_BUFFER_FLUSH_SECONDS :: rat
  SYNC_ALLOW_PARTIAL_BATCH_SUCCESS :: bool
  TRANSPORT_FAIL_FAST :: bool
  CRM_RUNTIME_SKIP_SAME_ENTITY_SAME_PAYLOAD :: bool
  CRM_BATCH_SIZE :: int
  CRM_BATCH_MAX_RETRYABLE_ITEMS_PER_FLUSH :: int
  CRM_BATCH_REQUIRE_ITEM_RESULTS :: bool
  CRM_BATCH_STOP_ON_MALFORMED_RESPONSE :: bool
  CRM_BATCH_REQUEUE_RETRYABLE_ITEMS :: bool
  PARSER_REQUEUE_RETRYABLE_ONCE :: bool
  PARSER_MAX_EVENT_ATTEMPTS_PER_RUN :: int
  PARSER_MARK_IGNORED_AS_APPLIED :: bool
  PARSER_RECONCILE_ON_MISSING_IDS :: bool
  PARSER_RECONCILE_ON_AMBIGUOUS_RESULT :: bool
  PARSER_RECONCILE_MAX_ATTEMPTS_PER_RUN :: int
  PARSER_ENABLE_RESPONSE_LOSS_RECONCILIATION :: bool
  PARSER_ENABLE_RUNTIME_RECONCILIATION :: bool
  PARSER_ENABLE_CATALOG_FIND_RECONCILIATION :: bool
  PARSER_ALLOW_SAFE_RESEND_PRODUCT_FOUND :: bool
  PARSER_ALLOW_SAFE_RESEND_DELTA_EVENTS :: bool
  PARSER_REPLAY_MODE_DEFAULT :: pystr
  PARSER_IDEMPOTENCY_SCOPE_DEFAULT :: pystr
  PARSER_INCLUDE_IDEMPOTENCY_KEY_IN_PAYLOAD :: bool
  PARSER_LIFECYCLE_DEFAULT_EVENT :: pystr
  PARSER_ENABLE_DELTA_EVENTS :: bool
  PARSER_ENABLE_RUNTIME_DELTA_EVENTS :: bool
  PARSER_ENABLE_PRICE_CHANGED_EVENT :: bool
  PARSER_ENABLE_OUT_OF_STOCK_EVENT :: bool
  PARSER_ENABLE_CHARACTERISTIC_ADDED_EVENT :: bool
  PARSER_ALLOW_PRICE_CHANGED_WITH_RUNTIME_IDS :: bool
  PARSER_ALLOW_OUT_OF_STOCK_WITH_RUNTIME_IDS :: bool
  PARSER_ALLOW_CHARACTERISTIC_ADDED_WITH_RUNTIME_IDS :: bool
  PARSER_FORCE_PRODUCT_FOUND_FALLBACK :: bool
  ENABLE_DUAL_SHAPE_OUTPUTS :: bool
  DEFAULT_CURRENCY :: pystr
  MESSAGE_SCHEMA_VERSION :: int

lemma summary_adds_up:
  "bs_succeeded (summarize_batch_result b) + bs_failed (summarize_batch_result b) = length (br_items b)"
  "bs_retryable_failed (summarize_batch_result b) \<le> bs_failed (summarize_batch_result b)"
proof -
  have le: "count_if p xs \<le> length xs" for p :: "apply_result \<Rightarrow> bool" and xs by (simp add: count_if_def)
  then show "bs_succeeded (summarize_batch_result b) + bs_failed (summarize_batch_result b) = length (br_items b)"
    by (simp add: summarize_batch_result_def Let_def)
  have "count_if (\<lambda>i. \<not> ar_success i \<and> ar_retryable i) xs + count_if ar_success xs \<le> length xs" for xs
    by (induction xs) (auto simp: count_if_def)
  from this [of "br_items b"] show "bs_retryable_failed (summarize_batch_result b) \<le> bs_failed (summarize_batch_result b)"
    by (simp add: summarize_batch_result_def Let_def)
qed

end
