(* ===== verification/Bounded_Cache.thy ===== *)
theory Bounded_Cache imports Prelude begin

text \<open>
  The bounded memories of one spider run.  All of them are ordered dictionaries whose
  touched key is moved to the end and whose oldest keys are dropped when the cache limit
  is exceeded; a limit of zero or less means no limit.  The locale \<open>recent_memory\<close> is the
  contract the pipeline relies on: after remembering, what was just remembered is
  recalled, what is recalled was the last thing remembered for its key, and the keys
  kept are the most recent ones.
\<close>

definition od_limit :: "int \<Rightarrow> ('k, 'v) odict \<Rightarrow> ('k, 'v) odict" where
  "od_limit max_n d = (if max_n \<le> 0 then d else od_trim (nat max_n) d)"

definition od_touch :: "'k \<Rightarrow> 'v \<Rightarrow> ('k, 'v) odict \<Rightarrow> ('k, 'v) odict" where
  "od_touch k v d = od_move_to_end k (od_set k v d)"

text \<open>The keys kept of a sequence of touched keys: the last \<open>max_n\<close> distinct ones, by recency.\<close>

definition recent :: "int \<Rightarrow> 'k list \<Rightarrow> 'k list" where
  "recent max_n ks = (let u = remdups ks in if max_n \<le> 0 then u else drop (length u - nat max_n) u)"

section \<open>Touching a key\<close>

lemma od_get_touch [od_simps]: "od_get k' (od_touch k v d) = (if k' = k then Some v else od_get k' d)"
  by (simp add: od_touch_def od_get_move_to_end od_get_set)

lemma distinct_od_touch: "distinct (od_keys d) \<Longrightarrow> distinct (od_keys (od_touch k v d))"
  by (simp add: od_touch_def distinct_od_move_to_end distinct_od_set)

lemma od_keys_touch:
  assumes "distinct (od_keys d)"
  shows "od_keys (od_touch k v d) = filter (\<lambda>x. x \<noteq> k) (od_keys d) @ [k]"
proof -
  have "k \<in> set (od_keys (od_set k v d))" by (simp add: od_keys_set)
  with od_keys_move_to_end_last [OF distinct_od_set [OF assms]]
  show ?thesis by (auto simp: od_touch_def od_keys_set)
qed

lemma od_keys_trim: "od_keys (od_trim n d) = drop (length d - n) (od_keys d)"
  by (simp add: od_trim_drop od_keys_def drop_map)

lemma od_keys_limit:
  "od_keys (od_limit m d) = (if m \<le> 0 then od_keys d else drop (length (od_keys d) - nat m) (od_keys d))"
  by (simp add: od_limit_def od_keys_trim) (simp add: od_keys_def)

lemma distinct_od_limit: "distinct (od_keys d) \<Longrightarrow> distinct (od_keys (od_limit m d))"
  by (simp add: od_keys_limit)

lemma length_od_limit: "0 < m \<Longrightarrow> length (od_limit m d) \<le> nat m"
  by (simp add: od_limit_def)

lemma od_get_limit:
  assumes "distinct (od_keys d)"
  shows "od_get k (od_limit m d) = (if k \<in> set (od_keys (od_limit m d)) then od_get k d else None)"
proof (cases "od_get k (od_limit m d)")
  case None
  then show ?thesis by (simp add: set_od_keys)
next
  case (Some v)
  then have "od_get k d = Some v"
    by (auto simp: od_limit_def od_get_trim_Some [OF _ assms] split: if_splits)
  with Some show ?thesis by (simp add: set_od_keys)
qed

lemma od_get_limit_last:
  assumes "distinct (od_keys d)"
  shows "od_get k (od_limit m (od_touch k v d)) = Some v"
proof -
  let ?d = "od_touch k v d"
  have "k \<in> set (od_keys (od_limit m ?d))"
  proof (cases "m \<le> 0")
    case False
    have "k \<in> set (drop n (xs @ [k]))" if "n \<le> length xs" for n xs
      using that by simp
    with False show ?thesis by (simp add: od_keys_limit od_keys_touch [OF assms])
  qed (simp add: od_keys_limit od_keys_touch [OF assms])
  then show ?thesis by (simp add: od_get_limit [OF distinct_od_touch [OF assms]] od_get_touch)
qed

section \<open>Recency\<close>

lemma remdups_snoc: "remdups (ks @ [k]) = filter (\<lambda>x. x \<noteq> k) (remdups ks) @ [k]"
  by (induction ks) auto

lemma filter_neq_absent: "k \<notin> set xs \<Longrightarrow> filter (\<lambda>x. x \<noteq> k) xs = xs"
  by (induction xs) auto

lemma filter_neq_single: "distinct xs \<Longrightarrow> k \<in> set xs \<Longrightarrow> Suc (length (filter (\<lambda>x. x \<noteq> k) xs)) = length xs"
  by (induction xs) (auto simp: filter_neq_absent)

lemma recent_snoc:
  assumes "distinct u"
  shows "drop (length (filter (\<lambda>x. x \<noteq> k) (drop (length u - n) u) @ [k]) - n) (filter (\<lambda>x. x \<noteq> k) (drop (length u - n) u) @ [k])
    = drop (length (filter (\<lambda>x. x \<noteq> k) u @ [k]) - n) (filter (\<lambda>x. x \<noteq> k) u @ [k])"
proof -
  let ?f = "filter (\<lambda>x. x \<noteq> k)"
  define a b where "a = take (length u - n) u" and "b = drop (length u - n) u"
  have u: "u = a @ b" by (simp add: a_def b_def)
  have len: "length b = min n (length u)" by (simp add: b_def)
  have dis: "distinct b" "set a \<inter> set b = {}" using assms unfolding u by simp_all
  show ?thesis
  proof (cases "length u \<le> n")
    case True
    then show ?thesis by simp
  next
    case False
    then have nb: "length b = n" using len by simp
    have goal: "drop (length (?f b @ [k]) - n) (?f b @ [k]) = drop (length (?f a @ ?f b @ [k]) - n) (?f a @ ?f b @ [k])"
    proof (cases "k \<in> set b")
      case True
      then have fb: "Suc (length (?f b)) = n" using filter_neq_single [OF dis(1)] nb by simp
      then have "length (?f a @ ?f b @ [k]) - n = length (?f a)" by simp
      with fb show ?thesis by simp
    next
      case k: False
      then have fb: "?f b = b" by (rule filter_neq_absent)
      have "length (?f a @ b @ [k]) - n = length (?f a) + 1" using nb by simp
      then show ?thesis using fb nb by simp
    qed
    have "?f u = ?f a @ ?f b" by (simp add: u)
    then show ?thesis using goal by (simp only: b_def [symmetric] append.assoc)
  qed
qed

lemma recent_step:
  assumes "od_keys d = recent m ks"
  shows "od_keys (od_limit m (od_touch k v d)) = recent m (ks @ [k])"
proof -
  have dist: "distinct (od_keys d)" using assms by (simp add: recent_def Let_def)
  show ?thesis
    using recent_snoc [OF distinct_remdups [of ks], where k = k and n = "nat m"] assms
    by (auto simp: od_keys_limit od_keys_touch [OF dist] recent_def Let_def remdups_snoc)
qed

section \<open>The contract\<close>

locale recent_memory =
  fixes valid :: "'s \<Rightarrow> bool"
    and keys :: "'s \<Rightarrow> 'k list"
    and recall :: "'k \<Rightarrow> 's \<Rightarrow> 'v option"
    and remember :: "'k \<Rightarrow> 'v \<Rightarrow> 's \<Rightarrow> 's"
    and limit :: int
  assumes valid_remember: "valid s \<Longrightarrow> valid (remember k v s)"
    and keys_recall: "valid s \<Longrightarrow> k \<in> set (keys s) \<longleftrightarrow> recall k s \<noteq> None"
    and keys_distinct: "valid s \<Longrightarrow> distinct (keys s)"
    and keys_remember: "valid s \<Longrightarrow> keys s = recent limit ks \<Longrightarrow> keys (remember k v s) = recent limit (ks @ [k])"
    and recall_remember: "valid s \<Longrightarrow> recall k' (remember k v s)
        = (if k' \<notin> set (keys (remember k v s)) then None else if k' = k then Some v else recall k' s)"
begin

definition remember_all :: "('k \<times> 'v) list \<Rightarrow> 's \<Rightarrow> 's" where
  "remember_all kvs s = fold (\<lambda>(k, v). remember k v) kvs s"

lemma remember_all_snoc: "remember_all (kvs @ [(k, v)]) s = remember k v (remember_all kvs s)"
  by (simp add: remember_all_def)

text \<open>The memory after any history: the recent keys, each with the last value remembered for it.\<close>

theorem remember_all_recent:
  assumes "valid s" "keys s = []"
  shows "valid (remember_all kvs s) \<and> keys (remember_all kvs s) = recent limit (map fst kvs)
    \<and> (\<forall>k. recall k (remember_all kvs s)
        = (if k \<in> set (recent limit (map fst kvs)) then map_of (rev kvs) k else None))"
proof (induction kvs rule: rev_induct)
  case Nil
  have "recall k s = None" for k using keys_recall [OF assms(1), of k] assms(2) by simp
  with assms show ?case by (simp add: remember_all_def recent_def)
next
  case (snoc kv kvs)
  obtain k v where kv: "kv = (k, v)" by (cases kv)
  let ?s = "remember_all kvs s"
  from snoc have valid: "valid ?s" and keys: "keys ?s = recent limit (map fst kvs)"
    and rec: "\<And>k. recall k ?s = (if k \<in> set (recent limit (map fst kvs)) then map_of (rev kvs) k else None)" by auto
  have keys': "keys (remember k v ?s) = recent limit (map fst kvs @ [k])"
    by (rule keys_remember [OF valid keys])
  have kept: "k' \<in> set (recent limit (map fst kvs))"
    if "k' \<in> set (recent limit (map fst kvs @ [k]))" "k' \<noteq> k" for k'
  proof (rule ccontr)
    assume "k' \<notin> set (recent limit (map fst kvs))"
    then have "recall k' ?s = None" by (simp add: rec)
    moreover have "recall k' (remember k v ?s) \<noteq> None"
    proof -
      have "k' \<in> set (keys (remember k v ?s))" using that(1) keys' by simp
      then show ?thesis using keys_recall [OF valid_remember [OF valid]] by blast
    qed
    ultimately show False using recall_remember [OF valid, of k' k v] that(2) by (simp split: if_splits)
  qed
  show ?case
    using valid_remember [OF valid] keys' kept rec
    by (auto simp: kv remember_all_snoc recall_remember [OF valid] map_add_def)
qed

corollary remember_all_bounded:
  assumes "valid s" "keys s = []" "0 < limit"
  shows "length (keys (remember_all kvs s)) \<le> nat limit"
  using remember_all_recent [OF assms(1,2), of kvs] assms(3) by (simp add: recent_def Let_def)

corollary remember_all_last:
  assumes "valid s" "keys s = []"
  shows "recall k (remember_all (kvs @ [(k, v)]) s) = Some v"
proof -
  have "k \<in> set (recent limit (map fst kvs @ [k]))"
    by (auto simp: recent_def Let_def remdups_snoc)
  then show ?thesis using remember_all_recent [OF assms, of "kvs @ [(k, v)]"] by simp
qed

end

text \<open>The plain cache meets the contract.\<close>

interpretation lru: recent_memory "\<lambda>d. distinct (od_keys d)" od_keys od_get
  "\<lambda>k v d. od_limit m (od_touch k v d)" m for m
proof
  fix d :: "('a \<times> 'b) list" and k k' v ks
  assume d: "distinct (od_keys d)"
  show "distinct (od_keys (od_limit m (od_touch k v d)))" by (simp add: d distinct_od_limit distinct_od_touch)
  show "k \<in> set (od_keys d) \<longleftrightarrow> od_get k d \<noteq> None" by (rule set_od_keys)
  show "od_keys d = recent m ks \<Longrightarrow> od_keys (od_limit m (od_touch k v d)) = recent m (ks @ [k])" by (rule recent_step)
  show "od_get k' (od_limit m (od_touch k v d))
      = (if k' \<notin> set (od_keys (od_limit m (od_touch k v d))) then None else if k' = k then Some v else od_get k' d)"
    by (simp add: od_get_limit [OF distinct_od_touch [OF d]] od_get_touch)
qed

end
