(* ===== verification/Sync_State.thy ===== *)
theory Sync_State imports Sync_Domain Bounded_Cache "HOL-Library.Multiset" begin

text \<open>
  The in-memory state of a synchronisation run (\<^verbatim>\<open>infrastructure/sync/\<close>): the dedupe
  registry, the replay journal, the identity bridge and the batch coordinator.
\<close>

section \<open>RuntimeSyncRegistry\<close>

record registry =
  rg_hashes :: "(pystr, pystr) odict"
  rg_sent :: "(pystr \<times> pystr, bool) odict"
  rg_crm_ids :: "(pystr, pystr option \<times> pystr option) odict"
  rg_actions :: "(pystr, pystr option) odict"

definition new_registry :: registry where
  "new_registry = \<lparr> rg_hashes = [], rg_sent = [], rg_crm_ids = [], rg_actions = [] \<rparr>"

definition should_skip :: "sync_settings \<Rightarrow> pystr \<Rightarrow> pystr \<Rightarrow> registry \<Rightarrow> bool" where
  "should_skip c entity_key payload_hash r =
    (SYNC_DEDUPE_IN_MEMORY c \<and> od_get (entity_key, payload_hash) (rg_sent r) \<noteq> None)"

text \<open>The keys \<open>popitem(last=False)\<close> removes while the dictionary exceeds the limit.\<close>

definition od_dropped :: "int \<Rightarrow> ('k, 'v) odict \<Rightarrow> 'k list" where
  "od_dropped max_n d = (if max_n \<le> 0 then [] else take (length d - nat max_n) (od_keys d))"

definition od_pop_all :: "'k list \<Rightarrow> ('k, 'v) odict \<Rightarrow> ('k, 'v) odict" where
  "od_pop_all ks d = fold od_pop ks d"

definition trim_if_needed :: "sync_settings \<Rightarrow> registry \<Rightarrow> registry" where
  "trim_if_needed c r = (let max_n = SYNC_MAX_IN_MEMORY_CACHE c in
    if max_n \<le> 0 then r
    else r\<lparr>rg_sent := od_limit max_n (rg_sent r),
           rg_actions := od_pop_all (od_dropped max_n (rg_crm_ids r)) (rg_actions r),
           rg_crm_ids := od_limit max_n (rg_crm_ids r),
           rg_hashes := od_limit max_n (rg_hashes r)\<rparr>)"

definition remember_payload :: "sync_settings \<Rightarrow> pystr \<Rightarrow> pystr \<Rightarrow> registry \<Rightarrow> registry" where
  "remember_payload c entity_key payload_hash r =
    (let pair = (entity_key, payload_hash);
         sent = (if od_get pair (rg_sent r) \<noteq> None then od_move_to_end pair (rg_sent r)
                 else od_set pair True (rg_sent r))
     in trim_if_needed c (r\<lparr>rg_sent := sent, rg_hashes := od_touch entity_key payload_hash (rg_hashes r)\<rparr>))"

definition remember_crm_ids ::
    "sync_settings \<Rightarrow> pystr \<Rightarrow> pystr option \<Rightarrow> pystr option \<Rightarrow> pystr option \<Rightarrow> registry \<Rightarrow> registry" where
  "remember_crm_ids c entity_key listing product action r =
    trim_if_needed c (r\<lparr>rg_crm_ids := od_touch entity_key (listing, product) (rg_crm_ids r),
                        rg_actions := od_touch entity_key action (rg_actions r)\<rparr>)"

definition get_crm_ids :: "pystr \<Rightarrow> registry \<Rightarrow> pystr option \<times> pystr option" where
  "get_crm_ids entity_key r = (case od_get entity_key (rg_crm_ids r) of None \<Rightarrow> (None, None) | Some p \<Rightarrow> p)"

section \<open>RuntimeReplayJournal\<close>

record journal =
  rj_attempts :: "(pystr, int) odict"
  rj_event_types :: "(pystr, event_type) odict"
  rj_idempotency :: "(pystr, pystr) odict"
  rj_reconciliation :: "(pystr, reconciliation_result) odict"

definition new_journal :: journal where
  "new_journal = \<lparr> rj_attempts = [], rj_event_types = [], rj_idempotency = [], rj_reconciliation = [] \<rparr>"

definition send_attempt_count :: "pystr \<Rightarrow> journal \<Rightarrow> int" where
  "send_attempt_count key j = (let k = strip key in
    if k = [] then 0 else (case od_get k (rj_attempts j) of None \<Rightarrow> 0 | Some n \<Rightarrow> n))"

definition has_seen_idempotency_key :: "pystr \<Rightarrow> journal \<Rightarrow> bool" where
  "has_seen_idempotency_key key j = (let k = strip key in
    if k = [] then False else (case od_get k (rj_attempts j) of None \<Rightarrow> 0 | Some n \<Rightarrow> n) > 1)"

definition remember_send_attempt :: "sync_settings \<Rightarrow> pystr \<Rightarrow> journal \<Rightarrow> journal" where
  "remember_send_attempt c key j = (let k = strip key in
    if k = [] then j
    else j\<lparr>rj_attempts := od_limit (SYNC_MAX_IN_MEMORY_CACHE c)
             (od_touch k ((case od_get k (rj_attempts j) of None \<Rightarrow> 0 | Some n \<Rightarrow> n) + 1) (rj_attempts j))\<rparr>)"

definition trim_entity_maps :: "sync_settings \<Rightarrow> journal \<Rightarrow> journal" where
  "trim_entity_maps c j = (let max_n = SYNC_MAX_IN_MEMORY_CACHE c in
    if max_n \<le> 0 then j
    else let gone = od_dropped max_n (rj_event_types j) in
      j\<lparr>rj_event_types := od_limit max_n (rj_event_types j),
        rj_idempotency := od_pop_all gone (rj_idempotency j),
        rj_reconciliation := od_pop_all gone (rj_reconciliation j)\<rparr>)"

definition remember_entity_meta :: "sync_settings \<Rightarrow> pystr \<Rightarrow> event_type \<Rightarrow> pystr \<Rightarrow> journal \<Rightarrow> journal" where
  "remember_entity_meta c entity_key et idem j = (let ek = strip entity_key in
    if ek = [] then j
    else trim_entity_maps c (j\<lparr>rj_event_types := od_touch ek et (rj_event_types j),
                               rj_idempotency := od_touch ek idem (rj_idempotency j)\<rparr>))"

definition remember_reconciliation :: "sync_settings \<Rightarrow> pystr \<Rightarrow> reconciliation_result \<Rightarrow> journal \<Rightarrow> journal" where
  "remember_reconciliation c entity_key res j = (let ek = strip entity_key in
    if ek = [] then j
    else trim_entity_maps c (j\<lparr>rj_reconciliation := od_touch ek res (rj_reconciliation j)\<rparr>))"

section \<open>RuntimeIdentityBridge\<close>

record bridge_row =
  bw_listing :: "pystr option"
  bw_product :: "pystr option"
  bw_action :: "pystr option"
  bw_payload :: "pystr option"

type_synonym bridge = "(pystr, bridge_row) odict"

definition empty_row :: bridge_row where
  "empty_row = \<lparr> bw_listing = None, bw_product = None, bw_action = None, bw_payload = None \<rparr>"

definition bridge_row_of :: "pystr \<Rightarrow> bridge \<Rightarrow> bridge_row" where
  "bridge_row_of ek b = (case od_get ek b of None \<Rightarrow> empty_row | Some r \<Rightarrow> r)"

definition should_update_crm_ids_from_result :: "sync_settings \<Rightarrow> apply_result \<Rightarrow> bool" where
  "should_update_crm_ids_from_result c res =
    (if \<not> ar_success res then False
     else if ar_status res = Ignored \<and> \<not> PARSER_MARK_IGNORED_AS_APPLIED c then False
     else ar_status res \<in> {Applied, Matched, Created, Updated, Ignored})"

definition should_mark_payload_applied :: "sync_settings \<Rightarrow> apply_result \<Rightarrow> bool" where
  "should_mark_payload_applied c res =
    (if \<not> ar_success res then False
     else if ar_status res = Ignored then PARSER_MARK_IGNORED_AS_APPLIED c else True)"

definition remember_apply_result :: "sync_settings \<Rightarrow> apply_result \<Rightarrow> bridge \<Rightarrow> bridge" where
  "remember_apply_result c res b =
    (let ek = ar_entity_key res;
         prev = bridge_row_of ek b;
         row1 = (if should_update_crm_ids_from_result c res
                 then prev\<lparr>bw_listing := py_or (ar_crm_listing_id res) (bw_listing prev),
                           bw_product := py_or (ar_crm_product_id res) (bw_product prev),
                           bw_action := py_or (ar_action res) (bw_action prev)\<rparr>
                 else prev);
         row2 = (if should_mark_payload_applied c res then row1\<lparr>bw_payload := Some (ar_payload_hash res)\<rparr> else row1)
     in od_limit (SYNC_MAX_IN_MEMORY_CACHE c) (od_touch ek row2 b))"

definition as_str_or_none :: "pystr option \<Rightarrow> pystr option" where
  "as_str_or_none v = (case v of None \<Rightarrow> None | Some s \<Rightarrow> if strip s = [] then None else Some (strip s))"

definition get_runtime_ids :: "pystr \<Rightarrow> bridge \<Rightarrow> runtime_ids" where
  "get_runtime_ids ek b = (let row = bridge_row_of ek b in
     \<lparr> rt_listing_id = as_str_or_none (bw_listing row), rt_product_id = as_str_or_none (bw_product row) \<rparr>)"

definition get_last_successful_payload :: "pystr \<Rightarrow> bridge \<Rightarrow> pystr option" where
  "get_last_successful_payload ek b = bw_payload (bridge_row_of ek b)"

definition should_skip_event :: "sync_settings \<Rightarrow> pystr \<Rightarrow> pystr \<Rightarrow> bridge \<Rightarrow> bool" where
  "should_skip_event c ek payload_hash b =
    (CRM_RUNTIME_SKIP_SAME_ENTITY_SAME_PAYLOAD c \<and> get_last_successful_payload ek b = Some payload_hash)"

section \<open>BatchCoordinator\<close>

text \<open>
  The queues hold events with their enqueue time.  \<open>deque.popleft\<close> takes from the front,
  \<open>append\<close> adds at the back.
\<close>

record 'n coordinator =
  co_pending :: "('n sync_event \<times> rat) list"
  co_retry :: "('n sync_event \<times> rat) list"
  co_outstanding :: "(pystr \<times> pystr) set"
  co_last_flush :: rat
  co_requeue_count :: nat

definition new_coordinator :: "rat \<Rightarrow> 'n coordinator" where
  "new_coordinator now = \<lparr> co_pending = [], co_retry = [], co_outstanding = {}, co_last_flush = now, co_requeue_count = 0 \<rparr>"

definition add_event :: "rat \<Rightarrow> 'n sync_event \<Rightarrow> 'n coordinator \<Rightarrow> bool \<times> 'n coordinator" where
  "add_event now e q =
    (if fp e \<in> co_outstanding q then (False, q)
     else (True, q\<lparr>co_outstanding := insert (fp e) (co_outstanding q), co_pending := co_pending q @ [(e, now)]\<rparr>))"

definition mark_flushed :: "rat \<Rightarrow> 'n coordinator \<Rightarrow> 'n coordinator" where
  "mark_flushed now q = q\<lparr>co_last_flush := now\<rparr>"

definition pending_len :: "'n coordinator \<Rightarrow> nat" where
  "pending_len q = length (co_pending q) + length (co_retry q)"

definition should_flush :: "rat \<Rightarrow> rat \<Rightarrow> int \<Rightarrow> 'n coordinator \<Rightarrow> bool" where
  "should_flush now interval batch_size q = (let n = pending_len q in
     if n = 0 then False else if int n \<ge> batch_size then True else now - co_last_flush q \<ge> interval)"

definition queue_wait :: "rat \<Rightarrow> 'n sync_event \<times> rat \<Rightarrow> rat" where
  "queue_wait now q = max 0 ((now - snd q) * 1000)"

definition pop_flush_batch_with_waits ::
    "sync_settings \<Rightarrow> rat \<Rightarrow> 'n coordinator \<Rightarrow> ('n sync_event list \<times> rat list) \<times> 'n coordinator" where
  "pop_flush_batch_with_waits c now q =
    (let size = nat (CRM_BATCH_SIZE c);
         n_retry = min size (nat (CRM_BATCH_MAX_RETRYABLE_ITEMS_PER_FLUSH c));
         from_retry = take n_retry (co_retry q);
         n_pending = size - length from_retry;
         out = from_retry @ take n_pending (co_pending q)
     in ((map fst out, map (queue_wait now) out),
         q\<lparr>co_retry := drop n_retry (co_retry q), co_pending := drop n_pending (co_pending q)\<rparr>))"

definition requeue_retryable :: "rat \<Rightarrow> 'n sync_event list \<Rightarrow> 'n coordinator \<Rightarrow> 'n coordinator" where
  "requeue_retryable now es q = q\<lparr>co_requeue_count := co_requeue_count q + length es,
     co_retry := co_retry q @ map (\<lambda>e. (e, now)) es\<rparr>"

definition release_fingerprints :: "'n sync_event list \<Rightarrow> 'n coordinator \<Rightarrow> 'n coordinator" where
  "release_fingerprints es q = q\<lparr>co_outstanding := co_outstanding q - set (map fp es)\<rparr>"

definition flush_remaining :: "'n coordinator \<Rightarrow> 'n sync_event list \<times> 'n coordinator" where
  "flush_remaining q = (map fst (co_retry q @ co_pending q), q\<lparr>co_retry := [], co_pending := []\<rparr>)"

definition has_work :: "'n coordinator \<Rightarrow> bool" where
  "has_work q = (co_pending q \<noteq> [] \<or> co_retry q \<noteq> [])"

section \<open>Trimming\<close>

lemma od_get_pop_all: "od_get k (od_pop_all ks d) = (if k \<in> set ks then None else od_get k d)"
  unfolding od_pop_all_def by (induction ks arbitrary: d) (auto simp: od_get_pop)

lemma od_keys_pop: "od_keys (od_pop k d) = filter (\<lambda>x. x \<noteq> k) (od_keys d)"
  using od_keys_filter_key [of "\<lambda>x. x \<noteq> k" d] by (simp add: od_pop_def)

lemma od_keys_pop_all: "od_keys (od_pop_all ks d) = filter (\<lambda>x. x \<notin> set ks) (od_keys d)"
proof (induction ks arbitrary: d)
  case (Cons k ks)
  have "od_keys (od_pop_all (k # ks) d) = od_keys (od_pop_all ks (od_pop k d))" by (simp add: od_pop_all_def)
  also have "\<dots> = filter (\<lambda>x. x \<notin> set ks) (filter (\<lambda>x. x \<noteq> k) (od_keys d))" by (simp add: Cons od_keys_pop)
  also have "\<dots> = filter (\<lambda>x. x \<notin> set (k # ks)) (od_keys d)" by (auto intro: filter_cong)
  finally show ?case .
qed (simp add: od_pop_all_def)

text \<open>Popping the keys dropped from one map from a map with the same keys keeps them the same.\<close>

lemma pop_dropped_keys:
  assumes "od_keys e = od_keys d" "distinct (od_keys d)"
  shows "od_keys (od_pop_all (od_dropped m d) e) = od_keys (od_limit m d)"
proof (cases "m \<le> 0")
  case False
  let ?n = "length d - nat m"
  have "set (take ?n (od_keys d)) \<inter> set (drop ?n (od_keys d)) = {}"
    using assms(2) by (rule set_take_disj_set_drop_if_distinct) simp
  then have "filter (\<lambda>x. x \<notin> set (take ?n (od_keys d))) (drop ?n (od_keys d)) = drop ?n (od_keys d)"
    by (intro filter_True) auto
  moreover have "filter (\<lambda>x. x \<notin> set (take ?n (od_keys d))) (take ?n (od_keys d)) = []"
    by (auto simp: filter_empty_conv)
  ultimately have "filter (\<lambda>x. x \<notin> set (take ?n (od_keys d))) (take ?n (od_keys d) @ drop ?n (od_keys d)) = drop ?n (od_keys d)"
    unfolding filter_append by simp
  then have "filter (\<lambda>x. x \<notin> set (take ?n (od_keys d))) (od_keys d) = drop ?n (od_keys d)"
    by (simp only: append_take_drop_id)
  with False assms(1) show ?thesis
    by (simp add: od_keys_pop_all od_dropped_def od_limit_def od_keys_trim)
qed (simp add: od_keys_pop_all od_dropped_def od_limit_def assms(1))

section \<open>The registry keeps the recent pairs and identifiers\<close>

definition registry_wf :: "registry \<Rightarrow> bool" where
  "registry_wf r \<longleftrightarrow> distinct (od_keys (rg_sent r)) \<and> distinct (od_keys (rg_crm_ids r))
     \<and> od_keys (rg_actions r) = od_keys (rg_crm_ids r)"

definition sent_before :: "pystr \<times> pystr \<Rightarrow> registry \<Rightarrow> unit option" where
  "sent_before pair r = (if od_get pair (rg_sent r) \<noteq> None then Some () else None)"

definition known_ids :: "pystr \<Rightarrow> registry \<Rightarrow> (pystr option \<times> pystr option \<times> pystr option) option" where
  "known_ids ek r = (case (od_get ek (rg_crm_ids r), od_get ek (rg_actions r)) of
     (Some (l, p), Some a) \<Rightarrow> Some (l, p, a) | _ \<Rightarrow> None)"

lemma registry_wf_new [simp]: "registry_wf new_registry"
  by (simp add: registry_wf_def new_registry_def od_keys_def)

lemma trim_wf: "registry_wf r \<Longrightarrow> registry_wf (trim_if_needed c r)"
  by (simp add: trim_if_needed_def Let_def registry_wf_def distinct_od_limit pop_dropped_keys)

lemma sent_trim: "rg_sent (trim_if_needed c r) = od_limit (SYNC_MAX_IN_MEMORY_CACHE c) (rg_sent r)"
  by (simp add: trim_if_needed_def Let_def od_limit_def)

lemma ids_trim: "rg_crm_ids (trim_if_needed c r) = od_limit (SYNC_MAX_IN_MEMORY_CACHE c) (rg_crm_ids r)"
  by (simp add: trim_if_needed_def Let_def od_limit_def)

lemma od_touch_keys_present:
  assumes "distinct (od_keys d)"
  shows "od_keys (if od_get k d \<noteq> None then od_move_to_end k d else od_set k v d) = od_keys (od_touch k v d)"
proof (cases "od_get k d")
  case None
  then have k: "k \<notin> set (od_keys d)" by (simp add: set_od_keys)
  then show ?thesis using None by (simp add: od_keys_touch [OF assms] od_keys_set filter_neq_absent)
next
  case (Some w)
  then have "k \<in> set (od_keys d)" by (simp add: set_od_keys)
  with Some show ?thesis by (simp add: od_keys_touch [OF assms] od_keys_move_to_end_last [OF assms])
qed

lemma remember_payload_sent_keys:
  assumes "registry_wf r"
  shows "od_keys (rg_sent (remember_payload c ek ph r))
    = od_keys (od_limit (SYNC_MAX_IN_MEMORY_CACHE c) (od_touch (ek, ph) True (rg_sent r)))"
  using od_touch_keys_present [of "rg_sent r" "(ek, ph)" True] assms
  unfolding remember_payload_def Let_def sent_trim
  by (simp add: registry_wf_def od_keys_limit)

lemma remember_payload_wf: "registry_wf r \<Longrightarrow> registry_wf (remember_payload c ek ph r)"
  using od_touch_keys_present [of "rg_sent r" "(ek, ph)" True]
  unfolding remember_payload_def Let_def
  by (intro trim_wf) (simp add: registry_wf_def distinct_od_touch)

lemma remember_crm_ids_wf: "registry_wf r \<Longrightarrow> registry_wf (remember_crm_ids c ek l p a r)"
  unfolding remember_crm_ids_def
  by (intro trim_wf) (simp add: registry_wf_def distinct_od_touch od_keys_touch)

interpretation sent_pairs: recent_memory registry_wf "\<lambda>r. od_keys (rg_sent r)" sent_before
  "\<lambda>(ek, ph) u. remember_payload c ek ph" "SYNC_MAX_IN_MEMORY_CACHE c" for c
proof
  fix r :: registry and k k' :: "pystr \<times> pystr" and v :: unit and ks
  assume wf: "registry_wf r"
  obtain ek ph where k: "k = (ek, ph)" by (cases k)
  note keys = remember_payload_sent_keys [OF wf, of c ek ph]
  show "registry_wf ((case k of (ek, ph) \<Rightarrow> \<lambda>u. remember_payload c ek ph) v r)"
    by (simp add: k remember_payload_wf [OF wf])
  show "k \<in> set (od_keys (rg_sent r)) \<longleftrightarrow> sent_before k r \<noteq> None"
    by (simp add: sent_before_def set_od_keys)
  show "distinct (od_keys (rg_sent r))" using wf by (simp add: registry_wf_def)
  show "od_keys (rg_sent r) = recent (SYNC_MAX_IN_MEMORY_CACHE c) ks \<Longrightarrow>
      od_keys (rg_sent ((case k of (ek, ph) \<Rightarrow> \<lambda>u. remember_payload c ek ph) v r))
      = recent (SYNC_MAX_IN_MEMORY_CACHE c) (ks @ [k])"
    using recent_step [of "rg_sent r" "SYNC_MAX_IN_MEMORY_CACHE c" ks k True] by (simp add: k keys)
  show "sent_before k' ((case k of (ek, ph) \<Rightarrow> \<lambda>u. remember_payload c ek ph) v r)
      = (if k' \<notin> set (od_keys (rg_sent ((case k of (ek, ph) \<Rightarrow> \<lambda>u. remember_payload c ek ph) v r)))
         then None else if k' = k then Some v else sent_before k' r)"
  proof -
    let ?r = "remember_payload c ek ph r"
    have "k' \<in> set (od_keys (rg_sent ?r)) \<Longrightarrow> k' \<noteq> k \<Longrightarrow> sent_before k' r \<noteq> None"
      unfolding keys using wf set_od_keys [of k' "rg_sent r"]
      by (auto simp: k od_keys_limit od_keys_touch registry_wf_def sent_before_def
          split: if_splits dest!: in_set_dropD)
    then show ?thesis by (auto simp: k sent_before_def set_od_keys)
  qed
qed

interpretation crm_ids: recent_memory registry_wf "\<lambda>r. od_keys (rg_crm_ids r)" known_ids
  "\<lambda>ek (l, p, a). remember_crm_ids c ek l p a" "SYNC_MAX_IN_MEMORY_CACHE c" for c
proof
  fix r :: registry and k k' :: pystr and v :: "pystr option \<times> pystr option \<times> pystr option" and ks
  assume wf: "registry_wf r"
  let ?m = "SYNC_MAX_IN_MEMORY_CACHE c"
  obtain l p a where v: "v = (l, p, a)" by (cases v)
  let ?r = "remember_crm_ids c k l p a r"
  have ids: "rg_crm_ids ?r = od_limit ?m (od_touch k (l, p) (rg_crm_ids r))"
    by (simp add: remember_crm_ids_def ids_trim)
  show "registry_wf ((case v of (l, p, a) \<Rightarrow> remember_crm_ids c k l p a) r)"
    by (simp add: v remember_crm_ids_wf [OF wf])
  have known: "k \<in> set (od_keys (rg_crm_ids r)) \<longleftrightarrow> known_ids k r \<noteq> None" if "registry_wf r" for k r
  proof -
    have "od_get k (rg_actions r) = None \<longleftrightarrow> od_get k (rg_crm_ids r) = None"
      using that set_od_keys [of k "rg_actions r"] set_od_keys [of k "rg_crm_ids r"] by (auto simp: registry_wf_def)
    then show ?thesis by (auto simp: set_od_keys known_ids_def split: option.splits)
  qed
  show "k \<in> set (od_keys (rg_crm_ids r)) \<longleftrightarrow> known_ids k r \<noteq> None" by (rule known [OF wf])
  show "distinct (od_keys (rg_crm_ids r))" using wf by (simp add: registry_wf_def)
  show "od_keys (rg_crm_ids r) = recent ?m ks \<Longrightarrow>
      od_keys (rg_crm_ids ((case v of (l, p, a) \<Rightarrow> remember_crm_ids c k l p a) r)) = recent ?m (ks @ [k])"
    by (simp add: v ids recent_step)
  have dist: "distinct (od_keys (rg_crm_ids r))" "od_keys (rg_actions r) = od_keys (rg_crm_ids r)"
    using wf by (simp_all add: registry_wf_def)
  have acts: "rg_actions ?r = od_pop_all (od_dropped ?m (od_touch k (l, p) (rg_crm_ids r))) (od_touch k a (rg_actions r))"
    by (simp add: remember_crm_ids_def trim_if_needed_def Let_def od_dropped_def od_pop_all_def)
  have get_acts: "od_get k' (rg_actions ?r) = (if k' = k then Some a else od_get k' (rg_actions r))"
    if "k' \<in> set (od_keys (rg_crm_ids ?r))" for k'
  proof -
    have "k' \<notin> set (od_dropped ?m (od_touch k (l, p) (rg_crm_ids r)))"
    proof -
      have "od_keys (rg_actions ?r) = od_keys (rg_crm_ids ?r)"
        using remember_crm_ids_wf [OF wf, of c k l p a] by (simp add: registry_wf_def)
      with that have "od_get k' (rg_actions ?r) \<noteq> None" using set_od_keys [of k' "rg_actions ?r"] by simp
      then show ?thesis by (auto simp: acts od_get_pop_all)
    qed
    then show ?thesis by (simp add: acts od_get_pop_all od_get_touch)
  qed
  have get_ids: "od_get k' (rg_crm_ids ?r) = (if k' = k then Some (l, p) else od_get k' (rg_crm_ids r))"
    if "k' \<in> set (od_keys (rg_crm_ids ?r))" for k'
    using that unfolding ids by (simp add: od_get_limit [OF distinct_od_touch [OF dist(1)]] od_get_touch)
  show "known_ids k' ((case v of (l, p, a) \<Rightarrow> remember_crm_ids c k l p a) r)
      = (if k' \<notin> set (od_keys (rg_crm_ids ((case v of (l, p, a) \<Rightarrow> remember_crm_ids c k l p a) r)))
         then None else if k' = k then Some v else known_ids k' r)"
  proof (cases "k' \<in> set (od_keys (rg_crm_ids ?r))")
    case True
    then show ?thesis by (simp add: v known_ids_def get_acts get_ids)
  next
    case False
    then have "known_ids k' ?r = None" using known [OF remember_crm_ids_wf [OF wf, of c k l p a], of k'] by blast
    with False show ?thesis by (simp add: v)
  qed
qed

section \<open>Properties of the run state\<close>

definition sample_sync :: sync_settings where
  "sample_sync = \<lparr> SYNC_DEDUPE_IN_MEMORY = True, SYNC_MAX_IN_MEMORY_CACHE = 2, SYNC_BUFFER_FLUSH_SECONDS = 2,
     SYNC_ALLOW_PARTIAL_BATCH_SUCCESS = True, TRANSPORT_FAIL_FAST = False,
     CRM_RUNTIME_SKIP_SAME_ENTITY_SAME_PAYLOAD = True, CRM_BATCH_SIZE = 10, CRM_BATCH_MAX_RETRYABLE_ITEMS_PER_FLUSH = 5,
     CRM_BATCH_REQUIRE_ITEM_RESULTS = True, CRM_BATCH_STOP_ON_MALFORMED_RESPONSE = False,
     CRM_BATCH_REQUEUE_RETRYABLE_ITEMS = True, PARSER_REQUEUE_RETRYABLE_ONCE = True,
     PARSER_MAX_EVENT_ATTEMPTS_PER_RUN = 3, PARSER_MARK_IGNORED_AS_APPLIED = True,
     PARSER_RECONCILE_ON_MISSING_IDS = True, PARSER_RECONCILE_ON_AMBIGUOUS_RESULT = True,
     PARSER_RECONCILE_MAX_ATTEMPTS_PER_RUN = 1, PARSER_ENABLE_RESPONSE_LOSS_RECONCILIATION = True,
     PARSER_ENABLE_RUNTIME_RECONCILIATION = True, PARSER_ENABLE_CATALOG_FIND_RECONCILIATION = False,
     PARSER_ALLOW_SAFE_RESEND_PRODUCT_FOUND = True, PARSER_ALLOW_SAFE_RESEND_DELTA_EVENTS = False,
     PARSER_REPLAY_MODE_DEFAULT = ''snapshot_upsert'', PARSER_IDEMPOTENCY_SCOPE_DEFAULT = ''entity_payload'',
     PARSER_INCLUDE_IDEMPOTENCY_KEY_IN_PAYLOAD = True, PARSER_LIFECYCLE_DEFAULT_EVENT = ''product_found'',
     PARSER_ENABLE_DELTA_EVENTS = True, PARSER_ENABLE_RUNTIME_DELTA_EVENTS = True,
     PARSER_ENABLE_PRICE_CHANGED_EVENT = True, PARSER_ENABLE_OUT_OF_STOCK_EVENT = True,
     PARSER_ENABLE_CHARACTERISTIC_ADDED_EVENT = True, PARSER_ALLOW_PRICE_CHANGED_WITH_RUNTIME_IDS = True,
     PARSER_ALLOW_OUT_OF_STOCK_WITH_RUNTIME_IDS = True, PARSER_ALLOW_CHARACTERISTIC_ADDED_WITH_RUNTIME_IDS = True,
     PARSER_FORCE_PRODUCT_FOUND_FALLBACK = True, ENABLE_DUAL_SHAPE_OUTPUTS = False, DEFAULT_CURRENCY = ''UZS'',
     MESSAGE_SCHEMA_VERSION = 1 \<rparr>"

lemma sample_sync_simps [simp]:
  "SYNC_MAX_IN_MEMORY_CACHE sample_sync = 2" "CRM_BATCH_SIZE sample_sync = 10"
  "CRM_BATCH_MAX_RETRYABLE_ITEMS_PER_FLUSH sample_sync = 5" "PARSER_MAX_EVENT_ATTEMPTS_PER_RUN sample_sync = 3"
  "PARSER_RECONCILE_MAX_ATTEMPTS_PER_RUN sample_sync = 1" "PARSER_MARK_IGNORED_AS_APPLIED sample_sync"
  "CRM_BATCH_REQUIRE_ITEM_RESULTS sample_sync" "\<not> CRM_BATCH_STOP_ON_MALFORMED_RESPONSE sample_sync"
  by (simp_all add: sample_sync_def)

text \<open>The registry skips exactly the recent deliveries: after any sequence of remembered pairs a
  pair is skipped if and only if dedupe is on and the pair is among the last distinct
  pairs remembered, as many as the cache limit allows.\<close>

theorem registry_skips_recent:
  "should_skip c ek ph (fold (\<lambda>(ek, ph). remember_payload c ek ph) pairs new_registry)
    \<longleftrightarrow> SYNC_DEDUPE_IN_MEMORY c \<and> (ek, ph) \<in> set (recent (SYNC_MAX_IN_MEMORY_CACHE c) pairs)"
proof -
  let ?kvs = "map (\<lambda>p. (p, ())) pairs"
  have "fold (\<lambda>(ek, ph). remember_payload c ek ph) pairs new_registry = sent_pairs.remember_all c ?kvs new_registry"
    unfolding sent_pairs.remember_all_def fold_map comp_def by (simp add: case_prod_unfold)
  moreover have "od_keys (rg_sent new_registry) = []" by (simp add: new_registry_def od_keys_def)
  ultimately have "od_keys (rg_sent (fold (\<lambda>(ek, ph). remember_payload c ek ph) pairs new_registry))
      = recent (SYNC_MAX_IN_MEMORY_CACHE c) pairs"
    using sent_pairs.remember_all_recent [OF registry_wf_new, of c ?kvs] by (simp add: comp_def)
  then show ?thesis
    using set_od_keys [of "(ek, ph)" "rg_sent (fold (\<lambda>(ek, ph). remember_payload c ek ph) pairs new_registry)"]
    by (simp add: should_skip_def)
qed

text \<open>The registry's CRM identifiers and actions are evicted together: after any sequence of
  results an entity is known if and only if it is among the recent ones, and then with the
  identifiers and the action of its last result.\<close>

theorem registry_ids_recent:
  "known_ids ek (fold (\<lambda>(ek, l, p, a). remember_crm_ids c ek l p a) kvs new_registry)
    = (if ek \<in> set (recent (SYNC_MAX_IN_MEMORY_CACHE c) (map fst kvs)) then map_of (rev kvs) ek else None)"
proof -
  have "fold (\<lambda>(ek, l, p, a). remember_crm_ids c ek l p a) kvs new_registry = crm_ids.remember_all c kvs new_registry"
    unfolding crm_ids.remember_all_def by (simp add: case_prod_unfold)
  moreover have "od_keys (rg_crm_ids new_registry) = []" by (simp add: new_registry_def od_keys_def)
  ultimately show ?thesis
    using crm_ids.remember_all_recent [OF registry_wf_new, of c kvs] by simp
qed

text \<open>The journal does not bound its reconciliation results: they are dropped only together with
  an event type of the same entity, so a run that records reconciliations of entities
  whose event types were already evicted keeps every one of them, whatever the limit.\<close>

theorem reconciliations_unbounded:
  "distinct (map strip eks) \<Longrightarrow> [] \<notin> strip ` set eks \<Longrightarrow>
    od_keys (rj_reconciliation (fold (\<lambda>ek. remember_reconciliation c ek res) eks new_journal)) = map strip eks"
proof (induction eks rule: rev_induct)
  case Nil
  then show ?case by (simp add: new_journal_def od_keys_def)
next
  case (snoc ek eks)
  let ?j = "fold (\<lambda>ek. remember_reconciliation c ek res) eks new_journal"
  have none: "rj_event_types (fold (\<lambda>ek. remember_reconciliation c ek res) es new_journal) = []" for es
    by (induction es rule: rev_induct)
      (simp_all add: new_journal_def remember_reconciliation_def trim_entity_maps_def Let_def od_limit_def)
  have ih: "od_keys (rj_reconciliation ?j) = map strip eks" using snoc by simp
  have d: "distinct (od_keys (rj_reconciliation ?j))" using ih snoc.prems(1) by simp
  have ek: "strip ek \<noteq> []" "strip ek \<notin> set (map strip eks)" using snoc.prems by auto
  have "od_keys (rj_reconciliation (remember_reconciliation c ek res ?j)) = map strip eks @ [strip ek]"
    using ek none [of eks]
    by (simp add: remember_reconciliation_def trim_entity_maps_def Let_def od_dropped_def od_keys_def od_pop_all_def
        filter_neq_absent) (simp add: od_keys_touch [OF d, unfolded od_keys_def] ih [unfolded od_keys_def] filter_neq_absent [OF ek(2)])
  then show ?case by simp
qed

theorem reconciliations_unbounded_witness:
  "od_keys (rj_reconciliation (fold (\<lambda>ek. remember_reconciliation sample_sync ek
      \<lparr> rc_resolved = False, rc_crm_listing_id = None, rc_crm_product_id = None, rc_action = None,
        rc_source = From_resend, rc_notes = [] \<rparr>) [''a'', ''b'', ''c''] new_journal)) = [''a'', ''b'', ''c'']
   \<and> SYNC_MAX_IN_MEMORY_CACHE sample_sync = 2"
proof -
  have s: "strip ''a'' = ''a''" "strip ''b'' = ''b''" "strip ''c'' = ''c''"
    by (simp_all add: strip_def is_py_space_def Let_def)
  show ?thesis
    using reconciliations_unbounded [of "[''a'', ''b'', ''c'']"] by (simp add: s)
qed

text \<open>The bridge never forgets an identifier it can still use: a result updates the entity's
  identifiers only on a counted success and only with the values it carries, keeps the
  old ones otherwise, and records the payload exactly when the result counts as applied.\<close>

theorem bridge_after_result:
  assumes "distinct (od_keys b)"
  shows "let b' = remember_apply_result c res b; ek = ar_entity_key res; old = bridge_row_of ek b; new = bridge_row_of ek b' in
    (if should_update_crm_ids_from_result c res
     then bw_listing new = py_or (ar_crm_listing_id res) (bw_listing old)
       \<and> bw_product new = py_or (ar_crm_product_id res) (bw_product old)
     else bw_listing new = bw_listing old \<and> bw_product new = bw_product old)
    \<and> get_last_successful_payload ek b' = (if should_mark_payload_applied c res then Some (ar_payload_hash res)
         else get_last_successful_payload ek b)
    \<and> (should_skip_event c ek (ar_payload_hash res) b' \<longleftrightarrow> CRM_RUNTIME_SKIP_SAME_ENTITY_SAME_PAYLOAD c
         \<and> (should_mark_payload_applied c res \<or> get_last_successful_payload ek b = Some (ar_payload_hash res)))"
  unfolding Let_def
  by (simp add: remember_apply_result_def Let_def bridge_row_of_def [of _ "od_limit _ _"] od_get_limit_last [OF assms]
      get_last_successful_payload_def should_skip_event_def)

definition sample_result :: apply_result where
  "sample_result = \<lparr> ar_event_id = ''e1'', ar_entity_key = ''shop:1'', ar_payload_hash = ''h1'', ar_success = True,
     ar_status = Created, ar_http_status = Some 200, ar_action = Some ''created'', ar_crm_listing_id = Some ''L1'',
     ar_crm_product_id = None, ar_retryable = False, ar_error_code = None, ar_error_message = None, ar_signal = None \<rparr>"

theorem bridge_after_result_witness:
  "get_last_successful_payload ''shop:1'' (remember_apply_result sample_sync sample_result []) = Some ''h1''"
  using bridge_after_result [of "[]" sample_sync sample_result]
  by (simp add: Let_def od_keys_def sample_result_def should_mark_payload_applied_def)

section \<open>The coordinator's protocol\<close>

text \<open>The queues together with the events in flight, under the operations the pipeline uses.\<close>

inductive co_reach :: "'n sync_event list \<Rightarrow> 'n coordinator \<Rightarrow> bool" where
  co_new: "co_reach [] (new_coordinator now)"
| co_add: "co_reach fl q \<Longrightarrow> co_reach fl (snd (add_event now e q))"
| co_mark: "co_reach fl q \<Longrightarrow> co_reach fl (mark_flushed now q)"
| co_pop: "co_reach fl q \<Longrightarrow> pop_flush_batch_with_waits c now q = ((es, ws), q') \<Longrightarrow> co_reach (fl @ es) q'"
| co_requeue: "co_reach (fl1 @ e # fl2) q \<Longrightarrow> co_reach (fl1 @ fl2) (requeue_retryable now [e] q)"
| co_release: "co_reach (fl1 @ e # fl2) q \<Longrightarrow> co_reach (fl1 @ fl2) (release_fingerprints [e] q)"

definition queued :: "'n coordinator \<Rightarrow> 'n sync_event list" where
  "queued q = map fst (co_retry q) @ map fst (co_pending q)"

lemma pop_splits:
  assumes "pop_flush_batch_with_waits c now q = ((es, ws), q')"
  shows "\<exists>r p. co_retry q = r @ co_retry q' \<and> co_pending q = p @ co_pending q' \<and> es = map fst r @ map fst p
    \<and> co_outstanding q' = co_outstanding q \<and> co_last_flush q' = co_last_flush q"
proof -
  let ?nr = "min (nat (CRM_BATCH_SIZE c)) (nat (CRM_BATCH_MAX_RETRYABLE_ITEMS_PER_FLUSH c))"
  let ?np = "nat (CRM_BATCH_SIZE c) - length (take ?nr (co_retry q))"
  show ?thesis
    using assms by (intro exI [of _ "take ?nr (co_retry q)"] exI [of _ "take ?np (co_pending q)"])
      (auto simp: pop_flush_batch_with_waits_def Let_def)
qed

text \<open>
  The invariant behind it, for events \<open>fl\<close> in flight: every fingerprint is in flight or
  queued at most once, and the outstanding set is exactly the set of those.
\<close>

definition exclusive :: "'n sync_event list \<Rightarrow> 'n coordinator \<Rightarrow> bool" where
  "exclusive fl q \<longleftrightarrow> distinct (map fp (fl @ queued q)) \<and> co_outstanding q = set (map fp (fl @ queued q))"

lemma exclusive_new [simp]: "exclusive [] (new_coordinator now)"
  by (simp add: exclusive_def new_coordinator_def queued_def)

lemma exclusive_add: "exclusive fl q \<Longrightarrow> exclusive fl (snd (add_event now e q))"
  by (auto simp: exclusive_def add_event_def queued_def)

lemma exclusive_mark [simp]: "exclusive fl (mark_flushed now q) \<longleftrightarrow> exclusive fl q"
  by (simp add: exclusive_def mark_flushed_def queued_def)

lemma pop_mset:
  assumes "pop_flush_batch_with_waits c now q = ((es, ws), q')"
  shows "mset (es @ queued q') = mset (queued q)" and "co_outstanding q' = co_outstanding q"
  using pop_splits [OF assms] by (auto simp: queued_def)

lemma exclusive_pop:
  assumes "exclusive fl q" "pop_flush_batch_with_waits c now q = ((es, ws), q')"
  shows "exclusive (fl @ es) q'"
proof -
  have "mset (fl @ es @ queued q') = mset (fl @ queued q)" using pop_mset(1) [OF assms(2)] by simp
  then have m: "mset (map fp (fl @ es @ queued q')) = mset (map fp (fl @ queued q))" by (metis mset_map)
  with assms(1) pop_mset(2) [OF assms(2)] show ?thesis
    unfolding exclusive_def by (metis append.assoc mset_eq_imp_distinct_iff mset_eq_setD)
qed

lemma exclusive_requeue: "exclusive (fl1 @ e # fl2) q \<Longrightarrow> exclusive (fl1 @ fl2) (requeue_retryable now [e] q)"
  by (auto simp: exclusive_def requeue_retryable_def queued_def)

lemma exclusive_release: "exclusive (fl1 @ es @ fl2) q \<Longrightarrow> exclusive (fl1 @ fl2) (release_fingerprints es q)"
  by (auto simp: exclusive_def release_fingerprints_def queued_def)

lemma co_reach_exclusive: "co_reach fl q \<Longrightarrow> exclusive fl q"
proof (induction rule: co_reach.induct)
  case (co_release fl1 e fl2 q)
  then show ?case using exclusive_release [of fl1 "[e]" fl2 q] by simp
qed (auto intro: exclusive_add exclusive_pop exclusive_requeue)

text \<open>The coordinator delivers an entity's payload at most once at a time: whatever the pipeline
  does with it, every fingerprint is queued or in flight at most once, and the
  outstanding set is exactly the fingerprints that are.\<close>

theorem coordinator_exclusive:
  "co_reach fl q \<Longrightarrow> distinct (map fp (fl @ queued q)) \<and> co_outstanding q = set (map fp (fl @ queued q))"
  using co_reach_exclusive by (simp add: exclusive_def)

definition sample_item :: "pystr \<Rightarrow> sync_item" where
  "sample_item ph = \<lparr> si_schema_version = 1, si_entity_key = ''shop:1'', si_payload_hash = ph, si_source_name = ''shop'',
     si_source_url = ''https://shop.uz/1'', si_source_id = Some ''1'', si_external_ids = [], si_title = ''A'', si_brand = None,
     si_category_hint = None, si_price_value = None, si_price_raw = None, si_currency = Some ''UZS'', si_in_stock = None,
     si_raw_specs = [], si_normalized_spec_labels = [], si_compatibility_targets = [], si_typed_specs = [],
     si_normalization_warnings = [], si_description = None, si_image_urls = [], si_barcode = None, si_model_name = None,
     si_change_hint = None, si_request_idempotency_key = None \<rparr>"

lemma sample_item_simps [simp]:
  "si_entity_key (sample_item ph) = ''shop:1''" "si_payload_hash (sample_item ph) = ph"
  "si_source_name (sample_item ph) = ''shop''"
  by (simp_all add: sample_item_def)

definition sample_sync_event :: "pystr \<Rightarrow> pystr \<Rightarrow> unit sync_event" where
  "sample_sync_event eid ph = \<lparr> se_event_id = eid, se_event_type = Product_found,
     se_identity = \<lparr> ic_entity_key = ''shop:1'', ic_external_ids = [], ic_barcode = None, ic_source_name = ''shop'',
       ic_source_url = ''https://shop.uz/1'', ic_source_id = Some ''1'', ic_crm_listing_id = None, ic_crm_product_id = None \<rparr>,
     se_data = sample_item ph,
     se_request_idempotency_key = ''k'', se_replay_mode = Snapshot_upsert, se_original_intent = None, se_normalized = None \<rparr>"

theorem coordinator_exclusive_witness:
  "co_outstanding (snd (add_event 1 (sample_sync_event ''e1'' ''h1'') (new_coordinator 0))) = {(''shop:1'', ''h1'')}"
proof -
  have "co_reach [] (snd (add_event 1 (sample_sync_event ''e1'' ''h1'') (new_coordinator 0)))"
    by (rule co_add [OF co_new])
  from coordinator_exclusive [OF this] show ?thesis
    by (simp add: queued_def add_event_def new_coordinator_def fp_def sample_sync_event_def)
qed

text \<open>A flush takes at most a batch, at most the allowed share of it from the retry queue, loses
  and reorders nothing, and with a positive batch size and retry share shortens the
  queues whenever there is work, so draining them ends.\<close>

theorem pop_bounded_and_progress:
  assumes "pop_flush_batch_with_waits c now q = ((es, ws), q')"
  shows "length es \<le> nat (CRM_BATCH_SIZE c) \<and> length ws = length es \<and> list_all (\<lambda>w. 0 \<le> w) ws
    \<and> length (co_retry q) - length (co_retry q') \<le> nat (CRM_BATCH_MAX_RETRYABLE_ITEMS_PER_FLUSH c)
    \<and> (\<exists>r p. co_retry q = r @ co_retry q' \<and> co_pending q = p @ co_pending q' \<and> es = map fst r @ map fst p)
    \<and> pending_len q' + length es = pending_len q
    \<and> (0 < CRM_BATCH_SIZE c \<and> 0 < CRM_BATCH_MAX_RETRYABLE_ITEMS_PER_FLUSH c \<and> has_work q \<longrightarrow> pending_len q' < pending_len q)"
proof -
  from pop_splits [OF assms] obtain r p where
    s: "co_retry q = r @ co_retry q'" "co_pending q = p @ co_pending q'" "es = map fst r @ map fst p" by auto
  have len: "length es = length r + length p" using s(3) by simp
  have "length es \<le> nat (CRM_BATCH_SIZE c)"
  proof -
    let ?size = "nat (CRM_BATCH_SIZE c)"
    let ?a = "take (min ?size (nat (CRM_BATCH_MAX_RETRYABLE_ITEMS_PER_FLUSH c))) (co_retry q)"
    have "es = map fst (?a @ take (?size - length ?a) (co_pending q))"
      using assms by (simp add: pop_flush_batch_with_waits_def Let_def)
    then have "length es = length ?a + length (take (?size - length ?a) (co_pending q))"
      by (simp only: length_map length_append)
    moreover have "length ?a \<le> ?size" by simp
    moreover have "length (take (?size - length ?a) (co_pending q)) \<le> ?size - length ?a" by simp
    ultimately show ?thesis by linarith
  qed
  moreover have "length ws = length es \<and> list_all (\<lambda>w. 0 \<le> w) ws
      \<and> length (co_retry q) - length (co_retry q') \<le> nat (CRM_BATCH_MAX_RETRYABLE_ITEMS_PER_FLUSH c)"
    using assms by (auto simp: pop_flush_batch_with_waits_def Let_def list_all_iff queue_wait_def)
  moreover have total: "pending_len q' + length es = pending_len q"
    using s by (simp add: pending_len_def)
  moreover have progress: "0 < length es" if "0 < CRM_BATCH_SIZE c" "0 < CRM_BATCH_MAX_RETRYABLE_ITEMS_PER_FLUSH c" "has_work q"
    using assms that by (cases "co_retry q"; cases "co_pending q")
      (auto simp: pop_flush_batch_with_waits_def Let_def has_work_def)
  moreover have "pending_len q' < pending_len q"
    if "0 < CRM_BATCH_SIZE c" "0 < CRM_BATCH_MAX_RETRYABLE_ITEMS_PER_FLUSH c" "has_work q"
    using progress [OF that] total by linarith
  ultimately show ?thesis using s by blast
qed

theorem pop_bounded_and_progress_witness:
  "\<exists>es ws q'. pop_flush_batch_with_waits sample_sync 2 (snd (add_event 1 (sample_sync_event ''e1'' ''h1'') (new_coordinator 0)))
     = ((es, ws), q') \<and> pending_len q' = 0"
proof -
  let ?q = "snd (add_event 1 (sample_sync_event ''e1'' ''h1'') (new_coordinator 0))"
  obtain es ws q' where p: "pop_flush_batch_with_waits sample_sync 2 ?q = ((es, ws), q')" by (metis surj_pair)
  have "pending_len ?q = 1" "has_work ?q"
    by (simp_all add: pending_len_def add_event_def new_coordinator_def has_work_def)
  with pop_bounded_and_progress [OF p] p show ?thesis by auto
qed

end
