(* ===== verification/Apply_Classifier.thy ===== *)
theory Apply_Classifier imports Sync_State begin

text \<open>
  \<^verbatim>\<open>application/lifecycle/apply_result_classifier.py\<close>: how the HTTP status and the JSON body
  of a CRM response become one result per event.
\<close>

definition opt_str :: "json \<Rightarrow> pystr option" where
  "opt_str v = (if v = JNull then None else Some (py_str v))"

text \<open>\<open>str.upper\<close> on ASCII letters; the compared texts are ASCII.\<close>

definition upper_char :: "char \<Rightarrow> char" where
  "upper_char c = (let n = of_char c :: nat in if 97 \<le> n \<and> n \<le> 122 then char_of (n - 32) else c)"

definition upper :: "pystr \<Rightarrow> pystr" where
  "upper s = map upper_char s"

section \<open>One row\<close>

definition is_retryable_http_status :: "int option \<Rightarrow> bool" where
  "is_retryable_http_status status = (case status of None \<Rightarrow> False | Some s \<Rightarrow> s = 429 \<or> s \<ge> 500)"

definition is_business_rejection :: "int option \<Rightarrow> pystr option \<Rightarrow> bool" where
  "is_business_rejection status error_code =
    ((case status of None \<Rightarrow> False | Some s \<Rightarrow> s \<in> {400, 401, 403, 404, 422})
     \<or> upper (or_empty error_code) \<in> {''VALIDATION_ERROR'', ''REJECTED'', ''FORBIDDEN'', ''UNAUTHORIZED''})"

definition row_looks_success :: "json_row \<Rightarrow> bool" where
  "row_looks_success row =
    (if row_get ''success'' row = JBool True then True
     else (case row_get ''status'' row of
         JBool b \<Rightarrow> b
       | JStr s \<Rightarrow> lower s \<in> {''ok'', ''success'', ''synced'', ''created'', ''updated'', ''matched'', ''applied''}
       | JInt i \<Rightarrow> 200 \<le> i \<and> i < 300
       | _ \<Rightarrow> False))"

definition row_retryable_row :: "json_row \<Rightarrow> int \<Rightarrow> bool" where
  "row_retryable_row row http_status =
    (if row_get ''retryable'' row = JBool True then True
     else if upper (py_str (json_or (row_get ''error_code'' row) (JStr []))) \<in>
         {''RATE_LIMIT'', ''SERVICE_UNAVAILABLE'', ''TIMEOUT'', ''TEMPORARY''} then True
     else is_retryable_http_status (Some http_status))"

definition normalize_action :: "json \<Rightarrow> pystr option" where
  "normalize_action action = (if action = JNull then None
     else (let s = strip (py_str action) in if s = [] then None else Some s))"

definition status_from_action :: "pystr option \<Rightarrow> apply_status" where
  "status_from_action action = (let a = lower (or_empty action) in
     if a = ''created'' then Created else if a \<in> {''matched'', ''needs_review''} then Matched
     else if a = ''updated'' then Updated else if a = ''ignored'' then Ignored else Applied)"

fun as_row :: "json \<Rightarrow> json_row option" where
  "as_row (JObj d) = Some d"
| "as_row _ = None"

text \<open>The rows padded with \<open>None\<close> to \<open>n\<close> and cut to \<open>n\<close>.\<close>

definition fit_rows :: "json list \<Rightarrow> nat \<Rightarrow> json_row option list" where
  "fit_rows rs n = take n (map as_row rs @ replicate (n - length rs) None)"

definition extract_batch_rows :: "json \<Rightarrow> nat \<Rightarrow> json_row option list" where
  "extract_batch_rows response n =
    (case response of
       JArr rs \<Rightarrow> fit_rows rs n
     | JObj d \<Rightarrow> (case row_get ''results'' d of
          JArr rs \<Rightarrow> fit_rows rs n
        | _ \<Rightarrow> if n = 1 then [Some d] else replicate n None)
     | _ \<Rightarrow> replicate n None)"

text \<open>
  Building a \<open>CrmApplyResult\<close>: the model strips its text fields
  (\<open>ConfigDict(str_strip_whitespace=True)\<close>).
\<close>

definition strip_opt :: "pystr option \<Rightarrow> pystr option" where
  "strip_opt s = map_option strip s"

definition make_result ::
    "'n sync_event \<Rightarrow> bool \<Rightarrow> apply_status \<Rightarrow> int \<Rightarrow> pystr option \<Rightarrow> pystr option \<Rightarrow> pystr option \<Rightarrow> bool
      \<Rightarrow> pystr option \<Rightarrow> pystr option \<Rightarrow> reconcile_signal option \<Rightarrow> apply_result" where
  "make_result e success status http_status action listing product retryable code msg sig = \<lparr>
     ar_event_id = strip (se_event_id e), ar_entity_key = strip (si_entity_key (se_data e)),
     ar_payload_hash = strip (si_payload_hash (se_data e)), ar_success = success, ar_status = status,
     ar_http_status = Some http_status, ar_action = strip_opt action,
     ar_crm_listing_id = strip_opt listing, ar_crm_product_id = strip_opt product,
     ar_retryable = retryable, ar_error_code = strip_opt code, ar_error_message = strip_opt msg, ar_signal = sig \<rparr>"

definition success_signal ::
    "sync_settings \<Rightarrow> event_type \<Rightarrow> pystr option \<Rightarrow> json \<Rightarrow> json \<Rightarrow> reconcile_signal option" where
  "success_signal c evt action listing product =
    (let has_l = (listing \<noteq> JNull \<and> strip (py_str listing) \<noteq> []);
         has_p = (product \<noteq> JNull \<and> strip (py_str product) \<noteq> []);
         sig1 = (if evt = Product_found \<and> \<not> has_l \<and> \<not> has_p \<and> PARSER_RECONCILE_ON_MISSING_IDS c
                 then Some Missing_ids else None)
     in if lower (or_empty action) = ''needs_review'' \<and> PARSER_RECONCILE_ON_AMBIGUOUS_RESULT c
        then (case sig1 of None \<Rightarrow> Some Ambiguous_action | Some s \<Rightarrow> Some s) else sig1)"

definition missing_row_result :: "'n sync_event \<Rightarrow> int \<Rightarrow> apply_result" where
  "missing_row_result e http_status =
    (let retryable = is_retryable_http_status (Some http_status);
         st = (if http_status \<ge> 400 \<and> \<not> retryable
               then (if is_business_rejection (Some http_status) None then Rejected else Transport_failure)
               else if retryable then Retryable_failure else Transport_failure)
     in make_result e False st http_status None None None (retryable \<and> st = Retryable_failure)
          (Some (if http_status \<noteq> 0 then int_text http_status else ''http_error''))
          (Some (''http_'' @ int_text http_status)) None)"

definition forced_failure_result :: "'n sync_event \<Rightarrow> int \<Rightarrow> apply_result" where
  "forced_failure_result e http_status = make_result e False Transport_failure http_status None None None False
     (Some ''missing_item_result'') (Some ''missing_or_malformed_item_result'') None"

definition row_to_apply_result :: "sync_settings \<Rightarrow> 'n sync_event \<Rightarrow> int \<Rightarrow> json_row option \<Rightarrow> apply_result" where
  "row_to_apply_result c e http_status r =
    (case r of
       None \<Rightarrow> missing_row_result e http_status
     | Some row \<Rightarrow>
        (let listing = json_or (row_get ''crm_listing_id'' row) (row_get ''listing_id'' row);
             product = json_or (row_get ''crm_product_id'' row) (row_get ''product_id'' row);
             action = normalize_action (row_get ''action'' row);
             err_c = opt_str (row_get ''error_code'' row);
             err_m = opt_str (json_or (json_or (row_get ''error_message'' row) (row_get ''error'' row)) (row_get ''detail'' row))
         in if row_looks_success row
            then (let success = \<not> (lower (or_empty action) = ''ignored'' \<and> \<not> PARSER_MARK_IGNORED_AS_APPLIED c);
                      sig = (if success then success_signal c (se_event_type e) action listing product else None)
                  in make_result e success (status_from_action action) http_status action (opt_str listing)
                       (opt_str product) False err_c err_m sig)
            else (let retryable = row_retryable_row row http_status;
                      st = (if retryable then Retryable_failure
                            else if http_status \<ge> 400
                            then (if is_business_rejection (Some http_status) err_c then Rejected else Transport_failure)
                            else Rejected)
                  in make_result e False st http_status action (opt_str listing) (opt_str product) retryable err_c err_m None)))"

section \<open>Responses\<close>

definition http_error_result :: "pystr \<Rightarrow> int \<Rightarrow> 'n sync_event \<Rightarrow> apply_result" where
  "http_error_result prefix http_status e =
    (let retryable = is_retryable_http_status (Some http_status);
         st = (if http_status \<ge> 500 then Retryable_failure else if retryable then Retryable_failure else Rejected)
     in make_result e False st http_status None None None retryable (Some (int_text http_status))
          (Some (prefix @ int_text http_status)) None)"

definition classify_single_sync_response :: "sync_settings \<Rightarrow> 'n sync_event \<Rightarrow> int \<Rightarrow> json \<Rightarrow> apply_result" where
  "classify_single_sync_response c e http_status response =
    (if http_status \<ge> 400 then http_error_result ''http_'' http_status e
     else (let row = (case response of
         JArr (JObj d # _) \<Rightarrow> Some d
       | JObj d \<Rightarrow> (case row_get ''results'' d of
            JArr (JObj r # _) \<Rightarrow> Some r
          | JArr _ \<Rightarrow> None
          | _ \<Rightarrow> Some d)
       | _ \<Rightarrow> None)
       in row_to_apply_result c e http_status row))"

text \<open>\<^const>\<open>Inl\<close> is the batch carried by \<open>MalformedCrmBatchResponse\<close>.\<close>

definition classify_batch_sync_response ::
    "sync_settings \<Rightarrow> 'n sync_event list \<Rightarrow> int \<Rightarrow> json \<Rightarrow> batch_result + batch_result" where
  "classify_batch_sync_response c events http_status response =
    (let n = length events in
     if n = 0 then Inr \<lparr> br_items = [], br_transport_ok = True, br_http_status = Some http_status, br_error_code = None,
                  br_error_message = None \<rparr>
     else if http_status \<ge> 400
     then Inr \<lparr> br_items = map (http_error_result ''batch_http_'' http_status) events, br_transport_ok = False,
                br_http_status = Some http_status, br_error_code = Some (int_text http_status),
                br_error_message = Some (''batch_http_'' @ int_text http_status) \<rparr>
     else (let rows = extract_batch_rows response n in
       if CRM_BATCH_REQUIRE_ITEM_RESULTS c \<and> (length rows \<noteq> n \<or> list_ex (\<lambda>r. r = None) rows)
       then (let synth = \<lparr> br_items = map (\<lambda>e. forced_failure_result e http_status) events, br_transport_ok = False,
                 br_http_status = Some http_status, br_error_code = Some ''malformed_batch_response'',
                 br_error_message = Some ''missing_or_mismatched_item_results'' \<rparr>
             in if CRM_BATCH_STOP_ON_MALFORMED_RESPONSE c then Inl synth else Inr synth)
       else Inr \<lparr> br_items = map2 (\<lambda>e r. row_to_apply_result c e http_status r) events rows,
                  br_transport_ok = True, br_http_status = Some http_status, br_error_code = None,
                  br_error_message = None \<rparr>))"

section \<open>Facts\<close>

lemma make_result_simps [simp]:
  "ar_event_id (make_result e s st h a l p r cd m sg) = strip (se_event_id e)"
  "ar_entity_key (make_result e s st h a l p r cd m sg) = strip (si_entity_key (se_data e))"
  "ar_payload_hash (make_result e s st h a l p r cd m sg) = strip (si_payload_hash (se_data e))"
  "ar_success (make_result e s st h a l p r cd m sg) = s" "ar_status (make_result e s st h a l p r cd m sg) = st"
  "ar_retryable (make_result e s st h a l p r cd m sg) = r" "ar_signal (make_result e s st h a l p r cd m sg) = sg"
  "ar_http_status (make_result e s st h a l p r cd m sg) = Some h"
  "ar_crm_listing_id (make_result e s st h a l p r cd m sg) = strip_opt l"
  "ar_crm_product_id (make_result e s st h a l p r cd m sg) = strip_opt p"
  by (simp_all add: make_result_def)

text \<open>A result is consistent when success, status, retryability and signal fit together.\<close>

definition consistent_result :: "sync_settings \<Rightarrow> apply_result \<Rightarrow> bool" where
  "consistent_result c r \<longleftrightarrow>
    (ar_success r \<longrightarrow> ar_status r \<in> {Applied, Matched, Created, Updated, Ignored} \<and> \<not> ar_retryable r
       \<and> (ar_status r = Ignored \<longrightarrow> PARSER_MARK_IGNORED_AS_APPLIED c))
    \<and> (\<not> ar_success r \<longrightarrow> ar_signal r = None)
    \<and> (ar_retryable r \<longleftrightarrow> ar_status r = Retryable_failure)"

definition result_for :: "'n sync_event \<Rightarrow> apply_result \<Rightarrow> bool" where
  "result_for e r \<longleftrightarrow> ar_event_id r = strip (se_event_id e) \<and> ar_entity_key r = strip (si_entity_key (se_data e))
     \<and> ar_payload_hash r = strip (si_payload_hash (se_data e))"

lemma status_from_action_ignored: "status_from_action a = Ignored \<longleftrightarrow> lower (or_empty a) = ''ignored''"
  by (auto simp: status_from_action_def Let_def)

lemma status_from_action_success: "status_from_action a \<in> {Applied, Matched, Created, Updated, Ignored}"
  by (auto simp: status_from_action_def Let_def)

lemma status_from_action_no_failure [simp]:
  "status_from_action a \<noteq> Retryable_failure" "status_from_action a \<noteq> Rejected"
  "status_from_action a \<noteq> Transport_failure"
  by (simp_all add: status_from_action_def Let_def)

lemma row_result_ok:
  "consistent_result c (row_to_apply_result c e h r) \<and> result_for e (row_to_apply_result c e h r)"
proof (cases r)
  case None
  then show ?thesis
    by (auto simp: row_to_apply_result_def missing_row_result_def Let_def consistent_result_def result_for_def)
next
  case (Some row)
  show ?thesis
    using status_from_action_success [of "normalize_action (row_get ''action'' row)"]
    by (auto simp: Some row_to_apply_result_def Let_def consistent_result_def result_for_def status_from_action_ignored
        split: if_splits)
qed

lemma http_error_ok: "consistent_result c (http_error_result p h e) \<and> result_for e (http_error_result p h e)"
  by (auto simp: http_error_result_def Let_def consistent_result_def result_for_def is_retryable_http_status_def)

lemma forced_failure_ok: "consistent_result c (forced_failure_result e h) \<and> result_for e (forced_failure_result e h)"
  by (simp add: forced_failure_result_def consistent_result_def result_for_def)

lemma length_extract_rows [simp]: "length (extract_batch_rows response n) = n"
  by (auto simp: extract_batch_rows_def fit_rows_def split: json.splits)

lemma list_all2_map2:
  "length xs = length ys \<Longrightarrow> (\<And>x y. P x (f x y)) \<Longrightarrow> list_all2 P xs (map2 f xs ys)"
  by (induction xs ys rule: list_induct2) auto

lemma list_all2_map_self: "(\<And>x. P x (f x)) \<Longrightarrow> list_all2 P xs (map f xs)"
  by (induction xs) auto

lemma batch_items_cases:
  assumes "classify_batch_sync_response c events http_status response = r"
  obtains (rows) "r = Inr \<lparr> br_items = map2 (\<lambda>e r. row_to_apply_result c e http_status r) events
        (extract_batch_rows response (length events)), br_transport_ok = True, br_http_status = Some http_status,
        br_error_code = None,
                  br_error_message = None \<rparr>" "http_status < 400 \<or> events = []"
      "CRM_BATCH_REQUIRE_ITEM_RESULTS c \<Longrightarrow> events \<noteq> [] \<Longrightarrow> None \<notin> set (extract_batch_rows response (length events))"
    | (http) "r = Inr \<lparr> br_items = map (http_error_result ''batch_http_'' http_status) events, br_transport_ok = False,
        br_http_status = Some http_status, br_error_code = Some (int_text http_status),
                br_error_message = Some (''batch_http_'' @ int_text http_status) \<rparr>" "http_status \<ge> 400" "events \<noteq> []"
    | (malformed) inj where "inj = (if CRM_BATCH_STOP_ON_MALFORMED_RESPONSE c then Inl else Inr)"
        "r = inj \<lparr> br_items = map (\<lambda>e. forced_failure_result e http_status) events, br_transport_ok = False,
           br_http_status = Some http_status, br_error_code = Some ''malformed_batch_response'',
                 br_error_message = Some ''missing_or_mismatched_item_results'' \<rparr>"
        "http_status < 400" "events \<noteq> []" "CRM_BATCH_REQUIRE_ITEM_RESULTS c"
        "None \<in> set (extract_batch_rows response (length events))"
proof -
  have ex: "list_ex (\<lambda>r. r = None) xs \<longleftrightarrow> None \<in> set xs" for xs :: "json_row option list"
    by (auto simp: list_ex_iff)
  consider "events = []" | "events \<noteq> []" "http_status \<ge> 400"
    | "events \<noteq> []" "http_status < 400" "CRM_BATCH_REQUIRE_ITEM_RESULTS c" "None \<in> set (extract_batch_rows response (length events))"
    | "events \<noteq> []" "http_status < 400" "\<not> (CRM_BATCH_REQUIRE_ITEM_RESULTS c \<and> None \<in> set (extract_batch_rows response (length events)))"
    by fastforce
  then show thesis
  proof cases
    case 1
    with assms rows show thesis by (simp add: classify_batch_sync_response_def)
  next
    case 2
    with assms http show thesis by (simp add: classify_batch_sync_response_def)
  next
    case 3
    with assms malformed [OF refl] show thesis
      by (simp add: classify_batch_sync_response_def Let_def ex split: if_splits)
  next
    case 4
    with assms rows show thesis by (simp add: classify_batch_sync_response_def Let_def ex)
  qed
qed

lemma batch_items_ok:
  assumes "classify_batch_sync_response c events http_status response = r"
    and "b = (case r of Inl m \<Rightarrow> m | Inr m \<Rightarrow> m)"
  shows "list_all2 (\<lambda>e i. consistent_result c i \<and> result_for e i) events (br_items b)"
  using assms(1)
proof (cases rule: batch_items_cases)
  case rows
  show ?thesis
    unfolding assms(2) rows sum.case batch_result.select_convs
    by (rule list_all2_map2) (simp_all add: row_result_ok)
next
  case http
  show ?thesis
    unfolding assms(2) http sum.case batch_result.select_convs
    by (rule list_all2_map_self) (rule http_error_ok)
next
  case (malformed inj)
  have "br_items b = map (\<lambda>e. forced_failure_result e http_status) events"
    by (simp add: assms(2) malformed)
  then show ?thesis by (simp only:) (rule list_all2_map_self, rule forced_failure_ok)
qed

lemma forced_failure_no_success [simp]: "\<not> ar_success (forced_failure_result e h)"
  by (simp add: forced_failure_result_def)

lemma http_error_no_success [simp]: "\<not> ar_success (http_error_result p h e)"
  by (simp add: http_error_result_def Let_def)

section \<open>Properties\<close>

text \<open>C19. Whatever the CRM answers, the classification of a batch has exactly one result
  per event, in the order of the events and carrying their identifiers, and every result
  is consistent: a success is never retryable and is an ignored one only when ignored
  counts as applied, a failure carries no reconciliation signal, and retryable means
  exactly a retryable failure.  Items succeed only under a status below 400, and a
  malformed answer (raised or not) has no success at all.\<close>

theorem batch_one_result_per_event:
  assumes "classify_batch_sync_response c events http_status response = r"
    and "b = (case r of Inl m \<Rightarrow> m | Inr m \<Rightarrow> m)"
  shows "list_all2 (\<lambda>e i. consistent_result c i \<and> result_for e i) events (br_items b)
    \<and> (http_status \<ge> 400 \<or> \<not> br_transport_ok b \<longrightarrow> list_all (\<lambda>i. \<not> ar_success i) (br_items b))
    \<and> (isl r \<longleftrightarrow> events \<noteq> [] \<and> http_status < 400 \<and> CRM_BATCH_REQUIRE_ITEM_RESULTS c
           \<and> None \<in> set (extract_batch_rows response (length events)) \<and> CRM_BATCH_STOP_ON_MALFORMED_RESPONSE c)"
  using assms(1)
  by (intro conjI batch_items_ok [OF assms]; cases rule: batch_items_cases) (auto simp: assms(2) list_all_iff)

theorem batch_one_result_per_event_witness:
  "\<not> isl (classify_batch_sync_response sample_sync [sample_sync_event ''e1'' ''h1''] 200 (JArr [JObj [(''success'', JBool True)]]))"
  using batch_one_result_per_event [OF refl refl, where c = sample_sync and events = "[sample_sync_event ''e1'' ''h1'']"
      and http_status = 200 and response = "JArr [JObj [(''success'', JBool True)]]"]
  by simp

end
