(* ===== verification/Py_Number.thy ===== *)
theory Py_Number imports Prelude begin

text \<open>
  Reading numbers from text, as \<open>float(text)\<close> does: surrounding white space, a sign, decimal
  digits with an optional fraction and exponent.  The result is an exact rational; the
  spellings \<open>inf\<close> and \<open>nan\<close> and digits grouped by underscores are not represented and are
  refused.
\<close>

definition is_digit :: "char \<Rightarrow> bool" where
  "is_digit c = (let n = of_char c :: nat in 48 \<le> n \<and> n \<le> 57)"

definition digit_value :: "char \<Rightarrow> nat" where
  "digit_value c = of_char c - 48"

fun digits_value :: "nat \<Rightarrow> pystr \<Rightarrow> nat" where
  "digits_value acc [] = acc"
| "digits_value acc (c # s) = digits_value (10 * acc + digit_value c) s"

definition split_sign :: "pystr \<Rightarrow> bool \<times> pystr" where
  "split_sign s = (case s of [] \<Rightarrow> (False, [])
     | c # r \<Rightarrow> if c = CHR ''-'' then (True, r) else if c = CHR ''+'' then (False, r) else (False, s))"

text \<open>The exponent after the mantissa: nothing, or \<open>e\<close> with a signed run of digits.\<close>

definition exponent_of :: "pystr \<Rightarrow> int option" where
  "exponent_of s = (case s of [] \<Rightarrow> Some 0
     | c # r \<Rightarrow> if c = CHR ''e'' \<or> c = CHR ''E''
         then (let (neg, ds) = split_sign r in
           if ds = [] \<or> \<not> list_all is_digit ds then None
           else Some (if neg then - int (digits_value 0 ds) else int (digits_value 0 ds)))
         else None)"

definition scale10 :: "rat \<Rightarrow> int \<Rightarrow> rat" where
  "scale10 x e = (if e \<ge> 0 then x * 10 ^ nat e else x / 10 ^ nat (- e))"

definition py_float :: "pystr \<Rightarrow> rat option" where
  "py_float text =
    (let (neg, s) = split_sign (strip text);
         whole = takeWhile is_digit s; r = dropWhile is_digit s;
         (frac, tail) = (case r of [] \<Rightarrow> ([], [])
            | c # r' \<Rightarrow> if c = CHR ''.'' then (takeWhile is_digit r', dropWhile is_digit r') else ([], r))
     in if whole = [] \<and> frac = [] then None
        else (case exponent_of tail of None \<Rightarrow> None
          | Some e \<Rightarrow> (let v = scale10 (of_nat (digits_value 0 (whole @ frac))) (e - int (length frac)) in
              Some (if neg then - v else v))))"

lemma is_digit_char: "(n::nat) < 10 \<Longrightarrow> is_digit (char_of (48 + n))"
  by (simp add: is_digit_def Let_def)

lemma digit_value_char: "n < 10 \<Longrightarrow> digit_value (char_of (48 + n)) = n"
  by (simp add: digit_value_def)

lemma digits_value_append: "digits_value acc (s @ t) = digits_value (digits_value acc s) t"
  by (induction s arbitrary: acc) auto

lemma nat_text_digits: "list_all is_digit (nat_text n) \<and> nat_text n \<noteq> []"
  by (induction n rule: nat_text.induct) (subst nat_text.simps, auto simp: is_digit_char nat_text.simps)

text \<open>Printing a number and reading its digits back.\<close>

lemma digits_value_nat_text: "digits_value 0 (nat_text n) = n"
proof (induction n rule: nat_text.induct)
  case (1 n)
  then show ?case
    by (subst nat_text.simps) (auto simp: digits_value_append digit_value_char nat_text.simps)
qed

lemma nat_text_hd: "0 < n \<Longrightarrow> hd (nat_text n) \<noteq> CHR ''0''"
proof (induction n rule: nat_text.induct)
  case (1 n)
  show ?case
  proof (cases "n < 10")
    case True
    then have "(of_char (char_of (48 + n)) :: nat) \<noteq> of_char (CHR ''0'')" using 1(2) by simp
    then have "char_of (48 + n) \<noteq> CHR ''0''" by metis
    with True show ?thesis by (subst nat_text.simps) simp
  next
    case False
    then have "hd (nat_text (n div 10)) \<noteq> CHR ''0''" using 1 by simp
    with False show ?thesis using nat_text_digits [of "n div 10"] by (subst nat_text.simps) simp
  qed
qed

lemma nat_text_length: "n < 1000 \<Longrightarrow> length (nat_text n) \<le> 3"
  by (subst nat_text.simps, subst nat_text.simps, subst nat_text.simps) auto

lemma nat_text_0: "nat_text 0 = ''0''"
  by code_simp

end
