(* ===== verification/Crm_Transport.thy ===== *)
theory Crm_Transport imports Apply_Classifier Py_Number begin

text \<open>
  \<^verbatim>\<open>infrastructure/transports/crm_http.py\<close>: how events go to the CRM over HTTP.  The
  network answers the n-th request (\<open>tc_http\<close>); request signing, the start-up checks and
  the host policies are arguments too.  \<open>wr_log\<close> is the history of the requests made and
  \<open>wr_waits\<close> of the waits between them, which the code does not keep.  Logging, timing and
  the JSON encoding of a request are left out: a request carries its events.
\<close>

section \<open>Requests and responses\<close>

record crm_settings =
  CRM_SYNC_ENDPOINT :: pystr
  CRM_SYNC_BATCH_ENDPOINT :: pystr
  CRM_HTTP_RETRY_ATTEMPTS :: nat
  CRM_HTTP_RETRY_BACKOFF_SECONDS :: rat
  CRM_BATCH_RETRY_ONLY_RETRYABLE_ITEMS :: bool
  CRM_SEND_IDEMPOTENCY_KEY_HEADER :: bool

record 'n crm_request =
  rq_url :: pystr
  rq_events :: "'n sync_event list"
  rq_idempotency_key :: "pystr option"

text \<open>
  \<open>hr_history\<close> holds, for each redirect followed, the absolute URL its \<open>Location\<close> header
  points to, if it has one; \<open>hr_json\<close> is the parsed body, \<^const>\<open>None\<close> when it is not JSON.
\<close>

record http_response =
  hr_status :: int
  hr_retry_after :: "pystr option"
  hr_text :: pystr
  hr_json :: "json option"
  hr_history :: "pystr option list"
  hr_url :: pystr

text \<open>An answer, an \<open>httpx.TransportError\<close> with its message, or another exception of the client.\<close>

datatype http_answer = Answer http_response | Unreachable pystr | Client_error exc

text \<open>What leaves the transport as an exception.\<close>

datatype crm_exc = Business int pystr | Transport_exc pystr | Malformed_exc batch_result | Other_exc exc

record 'n transport_ctx =
  tc_settings :: sync_settings
  tc_crm :: crm_settings
  tc_client :: "exc option"
  tc_sign :: "'n crm_request \<Rightarrow> exc option"
  tc_absolute :: "pystr \<Rightarrow> pystr"
  tc_redirect_refused :: "pystr \<Rightarrow> pystr \<Rightarrow> pystr option"
  tc_crm_host :: "pystr \<Rightarrow> bool"
  tc_http :: "nat \<Rightarrow> 'n crm_request \<Rightarrow> http_answer"

record 'n wire =
  wr_log :: "'n crm_request list"
  wr_waits :: "rat list"
  wr_retries :: nat
  wr_batch_supported :: bool

definition new_wire :: "'n wire" where
  "new_wire = \<lparr> wr_log = [], wr_waits = [], wr_retries = 0, wr_batch_supported = True \<rparr>"

definition idempotency_headers_for :: "crm_settings \<Rightarrow> 'n sync_event list \<Rightarrow> pystr option" where
  "idempotency_headers_for c events =
    (if \<not> CRM_SEND_IDEMPOTENCY_KEY_HEADER c then None
     else (case events of
         [e] \<Rightarrow> (let key = strip (se_request_idempotency_key e) in if key = [] then None else Some key)
       | _ \<Rightarrow> None))"

section \<open>The redirect chain of a response\<close>

fun follow_chain :: "'n transport_ctx \<Rightarrow> pystr \<Rightarrow> pystr option list \<Rightarrow> pystr + pystr" where
  "follow_chain tc prev [] = Inr prev"
| "follow_chain tc prev (None # hops) = follow_chain tc prev hops"
| "follow_chain tc prev (Some nxt # hops) =
    (case tc_redirect_refused tc prev nxt of Some reason \<Rightarrow> Inl reason | None \<Rightarrow> follow_chain tc nxt hops)"

text \<open>The business error raised for a response that leaves the CRM hosts, if any.\<close>

definition validate_crm_http_response :: "'n transport_ctx \<Rightarrow> pystr \<Rightarrow> http_response \<Rightarrow> crm_exc option" where
  "validate_crm_http_response tc request_path r =
    (let blocked = (\<lambda>reason. Some (Business 400 (''redirect blocked: '' @ reason))) in
     case follow_chain tc (tc_absolute tc request_path) (hr_history r) of
       Inl reason \<Rightarrow> blocked reason
     | Inr prev \<Rightarrow>
        (case (if hr_url r \<noteq> prev then tc_redirect_refused tc prev (hr_url r) else None) of
           Some reason \<Rightarrow> blocked reason
         | None \<Rightarrow> if tc_crm_host tc (hr_url r) then None
             else Some (Business 502 ''CRM response host failed network policy'')))"

section \<open>One request with its retries\<close>

definition retry_after_seconds :: "crm_settings \<Rightarrow> http_response \<Rightarrow> rat option" where
  "retry_after_seconds c r = (case hr_retry_after r of None \<Rightarrow> Some (CRM_HTTP_RETRY_BACKOFF_SECONDS c) | Some h \<Rightarrow> py_float h)"

definition wait_and_count :: "rat \<Rightarrow> 'n wire \<Rightarrow> 'n wire" where
  "wait_and_count seconds w = w\<lparr>wr_waits := wr_waits w @ [seconds], wr_retries := wr_retries w + 1\<rparr>"

text \<open>
  How an attempt ends: for good, or with an exception to raise if it was the last attempt
  and the wait before the next one otherwise.
\<close>

datatype attempt_end = Finished "crm_exc + http_response" | Again crm_exc rat

definition attempt_outcome :: "'n transport_ctx \<Rightarrow> 'n crm_request \<Rightarrow> nat \<Rightarrow> http_answer \<Rightarrow> attempt_end" where
  "attempt_outcome tc rq attempt answer =
    (let c = tc_crm tc; backoff = CRM_HTTP_RETRY_BACKOFF_SECONDS c * 2 ^ attempt in
     case answer of
       Client_error x \<Rightarrow> Finished (Inl (Other_exc x))
     | Unreachable m \<Rightarrow> Again (Transport_exc m) backoff
     | Answer r \<Rightarrow>
        (if hr_status r < 400
         then Finished (case validate_crm_http_response tc (rq_url rq) r of Some x \<Rightarrow> Inl x | None \<Rightarrow> Inr r)
         else if hr_status r = 429
         then (case retry_after_seconds c r of
             None \<Rightarrow> Finished (Inl (Other_exc (ValueError ''could not convert string to float'')))
           | Some s \<Rightarrow> Again (Business 429 (hr_text r)) s)
         else if hr_status r \<ge> 500 then Again (Business (hr_status r) (hr_text r)) backoff
         else Finished (Inl (Business (hr_status r) (hr_text r)))))"

text \<open>\<open>left\<close> attempts remain after the current one, which has number \<open>attempt\<close>.\<close>

fun request_attempts :: "'n transport_ctx \<Rightarrow> 'n crm_request \<Rightarrow> nat \<Rightarrow> nat \<Rightarrow> 'n wire \<Rightarrow> (crm_exc + http_response) \<times> 'n wire" where
  "request_attempts tc rq attempt left w =
    (case tc_sign tc rq of
       Some x \<Rightarrow> (Inl (Other_exc x), w)
     | None \<Rightarrow>
        (let w1 = w\<lparr>wr_log := wr_log w @ [rq]\<rparr> in
         case attempt_outcome tc rq attempt (tc_http tc (length (wr_log w)) rq) of
           Finished res \<Rightarrow> (res, w1)
         | Again x seconds \<Rightarrow>
            (case left of 0 \<Rightarrow> (Inl x, w1)
               | Suc n \<Rightarrow> request_attempts tc rq (Suc attempt) n (wait_and_count seconds w1))))"

declare request_attempts.simps [simp del]

definition request_with_retry :: "'n transport_ctx \<Rightarrow> 'n crm_request \<Rightarrow> 'n wire \<Rightarrow> (crm_exc + http_response) \<times> 'n wire" where
  "request_with_retry tc rq w = request_attempts tc rq 0 (CRM_HTTP_RETRY_ATTEMPTS (tc_crm tc)) w"

section \<open>Sending events\<close>

definition business_result :: "nat \<Rightarrow> int \<Rightarrow> pystr \<Rightarrow> 'n sync_event \<Rightarrow> apply_result" where
  "business_result limit status body e =
    (let retryable = (status = 429 \<or> status \<ge> 500) in
     make_result e False (if retryable then Retryable_failure else Rejected) status None None None retryable
       (Some (int_text status)) (Some (take limit body)) None)"

definition apply_from_crm_business_error :: "'n sync_event \<Rightarrow> int \<Rightarrow> pystr \<Rightarrow> apply_result" where
  "apply_from_crm_business_error e status body = business_result 500 status body e"

text \<open>A list body is read as the rows of \<open>results\<close>, anything but an object as no body.\<close>

definition single_body :: "json option \<Rightarrow> json" where
  "single_body parsed = (case parsed of
       Some (JObj d) \<Rightarrow> JObj d
     | Some (JArr rs) \<Rightarrow> JObj [(''results'', JArr rs)]
     | _ \<Rightarrow> JNull)"

definition send_one_event :: "'n transport_ctx \<Rightarrow> 'n sync_event \<Rightarrow> 'n wire \<Rightarrow> (crm_exc + apply_result) \<times> 'n wire" where
  "send_one_event tc e w =
    (case tc_client tc of
       Some x \<Rightarrow> (Inl (Other_exc x), w)
     | None \<Rightarrow>
        (case request_with_retry tc \<lparr> rq_url = CRM_SYNC_ENDPOINT (tc_crm tc), rq_events = [e], rq_idempotency_key = None \<rparr> w of
           (Inr r, w1) \<Rightarrow> (Inr (classify_single_sync_response (tc_settings tc) e (hr_status r) (single_body (hr_json r))), w1)
         | (Inl (Business status body), w1) \<Rightarrow> (Inr (apply_from_crm_business_error e status body), w1)
         | (Inl x, w1) \<Rightarrow> (Inl x, w1)))"

fun send_each :: "'n transport_ctx \<Rightarrow> 'n sync_event list \<Rightarrow> 'n wire \<Rightarrow> (crm_exc + apply_result list) \<times> 'n wire" where
  "send_each tc [] w = (Inr [], w)"
| "send_each tc (e # es) w =
    (case send_one_event tc e w of
       (Inl x, w1) \<Rightarrow> (Inl x, w1)
     | (Inr i, w1) \<Rightarrow>
        (case send_each tc es w1 of
           (Inl x, w2) \<Rightarrow> (Inl x, w2)
         | (Inr is, w2) \<Rightarrow> (Inr (i # is), w2)))"

fun resend_retryable :: "'n transport_ctx \<Rightarrow> ('n sync_event \<times> apply_result) list \<Rightarrow> 'n wire \<Rightarrow> (crm_exc + apply_result list) \<times> 'n wire" where
  "resend_retryable tc [] w = (Inr [], w)"
| "resend_retryable tc ((e, i) # rest) w =
    (case (if ar_success i \<or> \<not> ar_retryable i then (Inr i, w) else send_one_event tc e w) of
       (Inl x, w1) \<Rightarrow> (Inl x, w1)
     | (Inr i', w1) \<Rightarrow>
        (case resend_retryable tc rest w1 of
           (Inl x, w2) \<Rightarrow> (Inl x, w2)
         | (Inr is, w2) \<Rightarrow> (Inr (i' # is), w2)))"

definition retry_retryable_items_in_batch ::
    "'n transport_ctx \<Rightarrow> 'n sync_event list \<Rightarrow> batch_result \<Rightarrow> 'n wire \<Rightarrow> (crm_exc + batch_result) \<times> 'n wire" where
  "retry_retryable_items_in_batch tc events b w =
    (if \<not> CRM_BATCH_RETRY_ONLY_RETRYABLE_ITEMS (tc_crm tc) then (Inr b, w)
     else (case resend_retryable tc (zip events (br_items b)) w of
         (Inl x, w1) \<Rightarrow> (Inl x, w1)
       | (Inr is, w1) \<Rightarrow> (Inr (b\<lparr>br_items := is\<rparr>), w1)))"

text \<open>Item by item, then once more for the retryable ones; \<open>finish\<close> builds the batch result.\<close>

definition send_per_item ::
    "'n transport_ctx \<Rightarrow> 'n sync_event list \<Rightarrow> (apply_result list \<Rightarrow> batch_result) \<Rightarrow> 'n wire \<Rightarrow> (crm_exc + batch_result) \<times> 'n wire" where
  "send_per_item tc events finish w =
    (case send_each tc events w of
       (Inl x, w1) \<Rightarrow> (Inl x, w1)
     | (Inr is, w1) \<Rightarrow> retry_retryable_items_in_batch tc events (finish is) w1)"

definition batch_request :: "'n transport_ctx \<Rightarrow> 'n sync_event list \<Rightarrow> 'n crm_request" where
  "batch_request tc events = \<lparr> rq_url = CRM_SYNC_BATCH_ENDPOINT (tc_crm tc), rq_events = events,
     rq_idempotency_key = idempotency_headers_for (tc_crm tc) events \<rparr>"

definition batch_answer :: "'n transport_ctx \<Rightarrow> 'n sync_event list \<Rightarrow> http_response \<Rightarrow> batch_result + batch_result" where
  "batch_answer tc events r = classify_batch_sync_response (tc_settings tc) events (hr_status r)
     (case hr_json r of None \<Rightarrow> JNull | Some j \<Rightarrow> j)"

definition send_batch_events :: "'n transport_ctx \<Rightarrow> 'n sync_event list \<Rightarrow> 'n wire \<Rightarrow> (crm_exc + batch_result) \<times> 'n wire" where
  "send_batch_events tc events w =
    (if events = []
     then (Inr \<lparr> br_items = [], br_transport_ok = True, br_http_status = None, br_error_code = None, br_error_message = None \<rparr>, w)
     else if \<not> wr_batch_supported w
     then send_per_item tc events
        (\<lambda>is. \<lparr> br_items = is, br_transport_ok = list_all ar_success is, br_http_status = ar_http_status (last is),
               br_error_code = None, br_error_message = None \<rparr>) w
     else
      (case tc_client tc of
         Some x \<Rightarrow> (Inl (Other_exc x), w)
       | None \<Rightarrow>
          (case request_with_retry tc (batch_request tc events) w of
             (Inr r, w1) \<Rightarrow>
              (case batch_answer tc events r of
                 Inl synth \<Rightarrow> (Inl (Malformed_exc synth), w1)
               | Inr b \<Rightarrow> retry_retryable_items_in_batch tc events b w1)
           | (Inl (Business status body), w1) \<Rightarrow>
              (if status = 404 \<or> status = 501
               then send_per_item tc events
                 (\<lambda>is. \<lparr> br_items = is, br_transport_ok = list_all ar_success is, br_http_status = Some status,
                        br_error_code = Some (strip (int_text status)), br_error_message = Some (strip (take 300 body)) \<rparr>)
                 (w1\<lparr>wr_batch_supported := False\<rparr>)
               else (Inr \<lparr> br_items = map (business_result 300 status body) events, br_transport_ok = False,
                          br_http_status = Some status, br_error_code = Some (strip (int_text status)),
                          br_error_message = Some (strip (take 300 body)) \<rparr>, w1))
           | (Inl x, w1) \<Rightarrow> (Inl x, w1))))"

section \<open>Facts\<close>

text \<open>At most \<open>n\<close> more requests were made, and the batch mode was not switched on again.\<close>

definition sent_up_to :: "nat \<Rightarrow> 'n wire \<Rightarrow> 'n wire \<Rightarrow> bool" where
  "sent_up_to n w w' \<longleftrightarrow> (\<exists>rs. wr_log w' = wr_log w @ rs \<and> length rs \<le> n)
     \<and> (wr_batch_supported w' \<longrightarrow> wr_batch_supported w)"

lemma sent_up_to_same [simp]: "sent_up_to n w w"
  by (auto simp: sent_up_to_def)

lemma sent_up_to_trans: "sent_up_to m w w1 \<Longrightarrow> sent_up_to n w1 w2 \<Longrightarrow> sent_up_to (m + n) w w2"
  by (fastforce simp: sent_up_to_def)

lemma sent_up_to_mono: "sent_up_to m w w' \<Longrightarrow> m \<le> n \<Longrightarrow> sent_up_to n w w'"
  by (fastforce simp: sent_up_to_def)

lemma sent_up_to_views [simp]:
  "sent_up_to n (wait_and_count s w) w' = sent_up_to n w w'"
  "sent_up_to n w (wait_and_count s w') = sent_up_to n w w'"
  by (auto simp: sent_up_to_def wait_and_count_def)

lemma sent_up_to_unsupported: "sent_up_to n (w\<lparr>wr_batch_supported := False\<rparr>) w' \<Longrightarrow> sent_up_to n w w'"
  by (auto simp: sent_up_to_def)

lemma sent_up_to_next: "sent_up_to n (w\<lparr>wr_log := wr_log w @ [rq]\<rparr>) w' \<Longrightarrow> sent_up_to (Suc n) w w'"
  by (auto simp: sent_up_to_def)

definition answered :: "'n transport_ctx \<Rightarrow> crm_exc + http_response \<Rightarrow> bool" where
  "answered tc res \<longleftrightarrow> (case res of Inr r \<Rightarrow> hr_status r < 400 \<and> tc_crm_host tc (hr_url r) | Inl x \<Rightarrow> (\<forall>b. x \<noteq> Malformed_exc b))"

lemma validate_ok:
  "validate_crm_http_response tc u r = None \<Longrightarrow> tc_crm_host tc (hr_url r)"
  "validate_crm_http_response tc u r \<noteq> Some (Malformed_exc b)"
  by (auto simp: validate_crm_http_response_def Let_def split: sum.splits option.splits if_splits)

lemma attempt_finished: "attempt_outcome tc rq a answer = Finished res \<Longrightarrow> answered tc res"
  by (auto simp: attempt_outcome_def answered_def validate_ok Let_def dest: validate_ok(1)
      split: http_answer.splits option.splits if_splits)

lemma attempt_again: "attempt_outcome tc rq a answer = Again x s \<Longrightarrow> answered tc (Inl x)"
  by (auto simp: attempt_outcome_def answered_def Let_def split: http_answer.splits option.splits if_splits)

lemmas attempt_answered = attempt_finished attempt_again

lemma request_attempts_bound:
  "request_attempts tc rq a left w = (res, w') \<Longrightarrow> sent_up_to (Suc left) w w' \<and> answered tc res"
proof (induction left arbitrary: a w w')
  case 0
  then show ?case
    using attempt_answered
    by (fastforce simp: request_attempts.simps [of _ _ _ 0] Let_def answered_def sent_up_to_def
        split: option.splits attempt_end.splits)
next
  case (Suc left)
  let ?w = "w\<lparr>wr_log := wr_log w @ [rq]\<rparr>"
  show ?case
  proof (cases "tc_sign tc rq")
    case (Some x)
    with Suc.prems show ?thesis by (auto simp: request_attempts.simps [of _ _ _ "Suc left"] answered_def)
  next
    case None
    show ?thesis
    proof (cases "attempt_outcome tc rq a (tc_http tc (length (wr_log w)) rq)")
      case (Finished r)
      with Suc.prems None have "res = r" "w' = ?w" by (simp_all add: request_attempts.simps [of _ _ _ "Suc left"])
      with attempt_answered(1) [OF Finished] show ?thesis by (simp add: sent_up_to_def)
    next
      case (Again x s)
      with Suc.prems None have "request_attempts tc rq (Suc a) left (wait_and_count s ?w) = (res, w')"
        by (simp add: request_attempts.simps [of _ _ _ "Suc left"])
      from Suc.IH [OF this] show ?thesis by (auto intro: sent_up_to_next)
    qed
  qed
qed

definition attempts_per_request :: "'n transport_ctx \<Rightarrow> nat" where
  "attempts_per_request tc = Suc (CRM_HTTP_RETRY_ATTEMPTS (tc_crm tc))"

lemma request_bound:
  assumes "request_with_retry tc rq w = (res, w')"
  shows "sent_up_to (attempts_per_request tc) w w' \<and> answered tc res"
  using request_attempts_bound assms by (simp add: request_with_retry_def attempts_per_request_def)

lemma business_ok: "consistent_result c (business_result n st body e) \<and> result_for e (business_result n st body e)"
  by (simp add: business_result_def consistent_result_def result_for_def Let_def)

lemma classify_single_ok:
  "consistent_result c (classify_single_sync_response c e h j) \<and> result_for e (classify_single_sync_response c e h j)"
  by (simp add: classify_single_sync_response_def http_error_ok row_result_ok Let_def)

text \<open>What a result for \<open>e\<close> has to be, and which exceptions a send can end with.\<close>

definition fits_event :: "'n transport_ctx \<Rightarrow> 'n sync_event \<Rightarrow> apply_result \<Rightarrow> bool" where
  "fits_event tc e i \<longleftrightarrow> consistent_result (tc_settings tc) i \<and> result_for e i"

definition escapes :: "crm_exc \<Rightarrow> bool" where
  "escapes x \<longleftrightarrow> (case x of Business st b \<Rightarrow> False | Transport_exc m \<Rightarrow> True | Malformed_exc b \<Rightarrow> False | Other_exc y \<Rightarrow> True)"

lemma send_one_ok:
  assumes "send_one_event tc e w = (res, w')"
  shows "sent_up_to (attempts_per_request tc) w w' \<and> (case res of Inl x \<Rightarrow> escapes x | Inr i \<Rightarrow> fits_event tc e i)"
proof (cases "tc_client tc")
  case (Some x)
  with assms show ?thesis by (auto simp: send_one_event_def escapes_def)
next
  case None
  obtain r w1 where rw: "request_with_retry tc \<lparr> rq_url = CRM_SYNC_ENDPOINT (tc_crm tc), rq_events = [e], rq_idempotency_key = None \<rparr> w = (r, w1)"
    by force
  show ?thesis
    using assms request_bound [OF rw] None
    by (auto simp: send_one_event_def rw answered_def escapes_def fits_event_def apply_from_crm_business_error_def
        business_ok classify_single_ok split: sum.splits crm_exc.splits)
qed

lemma send_each_ok:
  assumes "send_each tc es w = (res, w')"
  shows "sent_up_to (length es * attempts_per_request tc) w w'
    \<and> (case res of Inl x \<Rightarrow> escapes x | Inr is \<Rightarrow> list_all2 (fits_event tc) es is)"
  using assms
proof (induction es arbitrary: w res w')
  case Nil
  then show ?case by auto
next
  case (Cons e es)
  obtain r w1 where one: "send_one_event tc e w = (r, w1)" by force
  note first = send_one_ok [OF one]
  show ?case
  proof (cases r)
    case (Inl x)
    with Cons.prems one first show ?thesis by (auto intro: sent_up_to_mono)
  next
    case (Inr i)
    obtain r2 w2 where rest: "send_each tc es w1 = (r2, w2)" by force
    from Cons.prems one rest Inr have "w' = w2" "res = (case r2 of Inl x \<Rightarrow> Inl x | Inr is \<Rightarrow> Inr (i # is))"
      by (auto split: sum.splits)
    with Cons.IH [OF rest] first Inr show ?thesis
      using sent_up_to_trans [of "attempts_per_request tc" w w1 "length es * attempts_per_request tc" w2]
      by (auto split: sum.splits)
  qed
qed

lemma resend_ok:
  assumes "resend_retryable tc (zip es is) w = (res, w')" and "list_all2 (fits_event tc) es is"
  shows "sent_up_to (length es * attempts_per_request tc) w w'
    \<and> (case res of Inl x \<Rightarrow> escapes x | Inr js \<Rightarrow> list_all2 (fits_event tc) es js)"
  using assms(2,1)
proof (induction es "is" arbitrary: w res w' rule: list_all2_induct)
  case Nil
  then show ?case by auto
next
  case (Cons e es i "is")
  obtain r w1 where one: "(if ar_success i \<or> \<not> ar_retryable i then (Inr i, w) else send_one_event tc e w) = (r, w1)" by force
  then have first: "sent_up_to (attempts_per_request tc) w w1 \<and> (case r of Inl x \<Rightarrow> escapes x | Inr j \<Rightarrow> fits_event tc e j)"
    using Cons.hyps(1) send_one_ok [of tc e w r w1] by (auto split: if_splits)
  show ?case
  proof (cases r)
    case (Inl x)
    with Cons.prems one first show ?thesis by (auto intro: sent_up_to_mono)
  next
    case (Inr j)
    obtain r2 w2 where rest: "resend_retryable tc (zip es is) w1 = (r2, w2)" by force
    from Cons.prems one rest Inr have "w' = w2" "res = (case r2 of Inl x \<Rightarrow> Inl x | Inr js \<Rightarrow> Inr (j # js))"
      by (auto split: sum.splits)
    with Cons.IH [OF rest] first Inr show ?thesis
      using sent_up_to_trans [of "attempts_per_request tc" w w1 "length es * attempts_per_request tc" w2]
      by (auto split: sum.splits)
  qed
qed

lemma retry_items_ok:
  assumes "retry_retryable_items_in_batch tc es b w = (res, w')" and "list_all2 (fits_event tc) es (br_items b)"
  shows "sent_up_to (length es * attempts_per_request tc) w w'
    \<and> (case res of Inl x \<Rightarrow> escapes x | Inr b' \<Rightarrow> list_all2 (fits_event tc) es (br_items b'))"
proof -
  obtain r w1 where again: "resend_retryable tc (zip es (br_items b)) w = (r, w1)" by force
  from resend_ok [OF again assms(2)] assms show ?thesis
    by (auto simp: retry_retryable_items_in_batch_def again split: sum.splits if_splits)
qed

lemma send_per_item_ok:
  assumes "send_per_item tc es finish w = (res, w')" and "\<And>is. br_items (finish is) = is"
  shows "sent_up_to (2 * length es * attempts_per_request tc) w w'
    \<and> (case res of Inl x \<Rightarrow> escapes x | Inr b \<Rightarrow> list_all2 (fits_event tc) es (br_items b))"
proof -
  obtain r w1 where each: "send_each tc es w = (r, w1)" by force
  note first = send_each_ok [OF each]
  have two: "2 * length es * attempts_per_request tc = length es * attempts_per_request tc + length es * attempts_per_request tc"
    by simp
  show ?thesis
  proof (cases r)
    case (Inl x)
    with assms(1) each first show ?thesis by (auto simp: send_per_item_def intro: sent_up_to_mono)
  next
    case (Inr "is")
    with assms(1) each have "retry_retryable_items_in_batch tc es (finish is) w1 = (res, w')" by (simp add: send_per_item_def)
    from retry_items_ok [OF this] first Inr assms(2) show ?thesis
      using sent_up_to_trans [of "length es * attempts_per_request tc" w w1 _ w'] unfolding two by auto
  qed
qed

text \<open>The exceptions of \<^const>\<open>send_batch_events\<close>: a malformed answer carries a result for every event.\<close>

definition batch_ends :: "'n transport_ctx \<Rightarrow> 'n sync_event list \<Rightarrow> crm_exc + batch_result \<Rightarrow> bool" where
  "batch_ends tc es res \<longleftrightarrow> (case res of
       Inr b \<Rightarrow> list_all2 (fits_event tc) es (br_items b)
     | Inl (Malformed_exc b) \<Rightarrow> list_all2 (fits_event tc) es (br_items b) \<and> list_all (\<lambda>i. \<not> ar_success i) (br_items b)
     | Inl (Business st body) \<Rightarrow> False
     | Inl x \<Rightarrow> True)"

lemma escapes_ends: "escapes x \<Longrightarrow> batch_ends tc es (Inl x)"
  by (cases x) (simp_all add: escapes_def batch_ends_def)

lemma classify_batch_fits:
  "classify_batch_sync_response (tc_settings tc) es h j = r \<Longrightarrow> (case r of
       Inr b \<Rightarrow> list_all2 (fits_event tc) es (br_items b)
     | Inl b \<Rightarrow> list_all2 (fits_event tc) es (br_items b) \<and> list_all (\<lambda>i. \<not> ar_success i) (br_items b))"
  using batch_items_ok [of "tc_settings tc" es h j r, OF _ refl]
  by (auto simp: fits_event_def [abs_def] list_all_iff split: sum.splits if_splits elim!: batch_items_cases)

lemma send_batch_ok:
  assumes "send_batch_events tc es w = (res, w')"
  shows "sent_up_to ((2 * length es + 1) * attempts_per_request tc) w w' \<and> batch_ends tc es res"
proof -
  let ?A = "attempts_per_request tc"
  have arith: "(2 * length es + 1) * ?A = ?A + 2 * length es * ?A" "length es * ?A \<le> 2 * length es * ?A" by simp_all
  have per_item: "sent_up_to (2 * length es * ?A) w1 w' \<and> batch_ends tc es res"
    if "send_per_item tc es f w1 = (res, w')" "\<And>is. br_items (f is) = is" for f w1
    using send_per_item_ok [OF that] escapes_ends [of _ tc es] by (auto simp: batch_ends_def split: sum.splits)
  consider "es = []" | "es \<noteq> []" "\<not> wr_batch_supported w"
    | x where "es \<noteq> []" "wr_batch_supported w" "tc_client tc = Some x"
    | "es \<noteq> []" "wr_batch_supported w" "tc_client tc = None"
    by fastforce
  then show ?thesis
  proof cases
    case 1
    with assms show ?thesis by (auto simp: send_batch_events_def batch_ends_def)
  next
    case 2
    with assms have "sent_up_to (2 * length es * ?A) w w' \<and> batch_ends tc es res"
      by (intro per_item) (auto simp: send_batch_events_def)
    then show ?thesis by (auto intro: sent_up_to_mono)
  next
    case 3
    with assms show ?thesis by (auto simp: send_batch_events_def batch_ends_def)
  next
    case 4
    obtain r w1 where rw: "request_with_retry tc (batch_request tc es) w = (r, w1)" by force
    note first = request_bound [OF rw]
    have after: "sent_up_to (?A + 2 * length es * ?A) w w'" if "sent_up_to n w1 w'" "n \<le> 2 * length es * ?A" for n
      using first sent_up_to_trans [of ?A w w1 "2 * length es * ?A" w'] sent_up_to_mono [OF that] by blast
    show ?thesis
    proof (cases r)
      case (Inr a)
      note fit = classify_batch_fits [OF batch_answer_def [symmetric], of tc es a]
      show ?thesis
      proof (cases "batch_answer tc es a")
        case (Inl b)
        with assms 4 rw Inr fit after [of 0] show ?thesis
          by (auto simp: send_batch_events_def batch_ends_def arith(1))
      next
        case (Inr b)
        with assms 4 rw \<open>r = Inr a\<close> have "retry_retryable_items_in_batch tc es b w1 = (res, w')"
          by (simp add: send_batch_events_def)
        from retry_items_ok [OF this] fit Inr after arith escapes_ends [of _ tc es] show ?thesis
          by (auto simp: batch_ends_def split: sum.splits)
      qed
    next
      case (Inl x)
      show ?thesis
      proof (cases x)
        case (Business st body)
        show ?thesis
        proof (cases "st = 404 \<or> st = 501")
          case True
          with assms 4 rw Inl Business
          have "sent_up_to (2 * length es * ?A) (w1\<lparr>wr_batch_supported := False\<rparr>) w' \<and> batch_ends tc es res"
            by (intro per_item) (auto simp: send_batch_events_def)
          then show ?thesis using after [OF sent_up_to_unsupported] unfolding arith(1) by blast
        next
          case False
          with assms 4 rw Inl Business after [of 0] show ?thesis
            by (auto simp: send_batch_events_def batch_ends_def arith(1) fits_event_def business_ok list_all2_conv_all_nth)
        qed
      qed (use assms 4 rw Inl first after [of 0] arith(1) in
          \<open>auto simp: send_batch_events_def batch_ends_def answered_def\<close>)
    qed
  qed
qed

text \<open>
  A rate limit announced with an HTTP date, which \<open>float\<close> does not read, ends the request at
  once with a \<open>ValueError\<close>, however many attempts are left.
\<close>

theorem unreadable_retry_after_raises:
  assumes "tc_sign tc rq = None" and "tc_http tc (length (wr_log w)) rq = Answer r" and "hr_status r = 429"
    and "hr_retry_after r = Some h" and "py_float h = None"
  shows "\<exists>m w'. request_with_retry tc rq w = (Inl (Other_exc (ValueError m)), w')"
  using assms
  by (auto simp: request_with_retry_def request_attempts.simps attempt_outcome_def retry_after_seconds_def Let_def)

end
