(* ===== verification/Crm_Builder.thy ===== *)
theory Crm_Builder imports Sync_Domain "HOL-Library.List_Lexorder" "HOL-Library.Multiset" begin

text \<open>
  \<^verbatim>\<open>application/crm_sync_builder.py\<close>: the entity key, the payload hash and the sync item of a
  normalised product.  The record \<open>tools\<close> carries what lies outside: SHA-256 (as
  hexadecimal digest), the JSON encoder, and the two text-mining functions for
  specification labels and compatibility targets.
\<close>

section \<open>Inputs\<close>

text \<open>The \<open>_normalized\<close> dictionary of an item, its values at the types the pipeline fills them with.\<close>

record normalized =
  nm_store :: pystr
  nm_url :: pystr
  nm_title_clean :: "pystr option"
  nm_title :: "pystr option"
  nm_source_id :: "pystr option"
  nm_external_ids :: "(pystr, pystr) odict"
  nm_barcode :: "pystr option"
  nm_model_name :: "pystr option"
  nm_category_hint :: "pystr option"
  nm_price_raw :: "pystr option"
  nm_price_value :: "int option"
  nm_price :: "rat option"
  nm_currency :: "pystr option"
  nm_in_stock :: "bool option"
  nm_brand :: "pystr option"
  nm_raw_specs :: "(pystr, json) odict"
  nm_typed_specs :: "(pystr, json) odict"
  nm_normalization_warnings :: "pystr list"
  nm_description :: "pystr option"
  nm_image_urls :: "pystr list"
  nm_lifecycle_spec_update :: bool
  nm_payload_hash :: pystr

record tools =
  tl_sha256 :: "pystr \<Rightarrow> pystr"
  tl_dumps :: "json \<Rightarrow> pystr"
  tl_label :: "pystr \<Rightarrow> pystr"
  tl_targets :: "pystr \<Rightarrow> pystr option \<Rightarrow> (pystr, json) odict \<Rightarrow> pystr list"

section \<open>Keys\<close>

text \<open>\<open>urlparse\<close> moves what follows a semicolon of the last path segment to \<open>params\<close>, for these schemes.\<close>

definition uses_params :: "pystr list" where
  "uses_params = ['''', ''ftp'', ''hdl'', ''prospero'', ''http'', ''https'', ''shttp'', ''rtsp'', ''rtsps'', ''rtspu'',
     ''sip'', ''sips'', ''mms'', ''sftp'', ''tel'']"

definition drop_params :: "pystr \<Rightarrow> pystr" where
  "drop_params path =
    (let last_segment = rev (takeWhile (\<lambda>c. c \<noteq> CHR ''/'') (rev path));
         before = take (length path - length last_segment) path
     in before @ takeWhile (\<lambda>c. c \<noteq> CHR '';'') last_segment)"

definition canonicalize_url :: "pystr \<Rightarrow> exc + pystr" where
  "canonicalize_url url =
    (case urlsplit (strip url) of
       Inl e \<Rightarrow> Inl e
     | Inr (scheme, netloc, path) \<Rightarrow>
        (let p = (if scheme \<in> set uses_params then drop_params path else path)
         in Inr (scheme @ ''://'' @ lower netloc @ (if p = [] then ''/'' else p))))"

definition build_entity_key :: "tools \<Rightarrow> pystr \<Rightarrow> pystr option \<Rightarrow> pystr \<Rightarrow> exc + pystr" where
  "build_entity_key t store source_id url =
    (let sid = strip (or_empty source_id) in
     if sid \<noteq> [] then Inr (store @ '':'' @ sid)
     else (case canonicalize_url url of
        Inl e \<Rightarrow> Inl e
      | Inr u \<Rightarrow> Inr (store @ '':'' @ take 16 (tl_sha256 t u))))"

definition normalize_title :: "pystr \<Rightarrow> pystr" where
  "normalize_title title = collapse_ws (strip title)"

fun build_normalized_spec_labels :: "tools \<Rightarrow> (pystr, pystr) odict \<Rightarrow> pystr list \<Rightarrow> (pystr, pystr) odict" where
  "build_normalized_spec_labels t out [] = out"
| "build_normalized_spec_labels t out (raw_label # rest) =
    (let label = strip raw_label; n = tl_label t label in
     if label = [] \<or> n = [] then build_normalized_spec_labels t out rest
     else build_normalized_spec_labels t (od_set label n out) rest)"

section \<open>Payload hash\<close>

definition payload_blob ::
    "tools \<Rightarrow> int \<Rightarrow> pystr \<Rightarrow> pystr \<Rightarrow> pystr \<Rightarrow> pystr option \<Rightarrow> (pystr, pystr) odict \<Rightarrow> normalized
      \<Rightarrow> pystr option \<Rightarrow> int option \<Rightarrow> pystr option \<Rightarrow> (pystr, json) odict \<Rightarrow> pystr list \<Rightarrow> json" where
  "payload_blob t schema_version store canonical title source_id external_ids nm category_hint price_value currency raw_specs warnings =
    JObj
      [(''schema_version'', JInt schema_version), (''store'', JStr store), (''url'', JStr canonical),
       (''title'', JStr (normalize_title title)),
       (''source_id'', if truthy source_id then jopt source_id else JNull),
       (''external_ids'', jtexts (sort_key fst external_ids)),
       (''barcode'', jopt (nm_barcode nm)), (''model_name'', jopt (nm_model_name nm)), (''category_hint'', jopt category_hint),
       (''price_raw'', jopt (nm_price_raw nm)),
       (''price_value'', case price_value of None \<Rightarrow> JNull | Some v \<Rightarrow> JInt v),
       (''currency'', jopt currency),
       (''in_stock'', case nm_in_stock nm of None \<Rightarrow> JNull | Some b \<Rightarrow> JBool b),
       (''brand'', jopt (nm_brand nm)), (''raw_specs'', JObj raw_specs),
       (''normalized_spec_labels'', jtexts (sort_key fst (build_normalized_spec_labels t [] (map fst raw_specs)))),
       (''compatibility_targets'', JArr (map JStr (tl_targets t title category_hint raw_specs))),
       (''typed_specs'', JObj (sort_key fst (nm_typed_specs nm))),
       (''normalization_warnings'', JArr (map JStr (sort (filter (\<lambda>w. strip w \<noteq> []) warnings)))),
       (''description'', jopt (nm_description nm)),
       (''image_urls'', JArr (map JStr (sorted_list_of_set (set (nm_image_urls nm)))))]"

definition build_payload_hash :: "tools \<Rightarrow> json \<Rightarrow> pystr" where
  "build_payload_hash t blob = ''sha256:'' @ tl_sha256 t (tl_dumps t (sort_keys blob))"

section \<open>The sync item\<close>

definition compute_change_hint :: "int option \<Rightarrow> bool option \<Rightarrow> (pystr, json) odict \<Rightarrow> change_hint option" where
  "compute_change_hint price_value in_stock raw_specs =
    (if in_stock = Some False then Some Stock_update
     else if price_value \<noteq> None then Some Price_update
     else if raw_specs = [] then Some New_product else None)"

definition blank_to_none :: "pystr option \<Rightarrow> pystr option" where
  "blank_to_none s = (case s of None \<Rightarrow> None | Some x \<Rightarrow> if strip x = [] then None else Some x)"

definition item_title :: "normalized \<Rightarrow> pystr" where
  "item_title nm = (let title_clean = strip (or_empty (py_or (nm_title_clean nm) (nm_title nm)))
     in if title_clean \<noteq> [] then title_clean else or_empty (nm_title nm))"

definition item_external_ids :: "normalized \<Rightarrow> (pystr, pystr) odict" where
  "item_external_ids nm = (case blank_to_none (nm_source_id nm) of
      Some sid \<Rightarrow> if nm_external_ids nm = [] \<and> nm_store nm \<noteq> [] then [(nm_store nm, sid)] else nm_external_ids nm
    | None \<Rightarrow> nm_external_ids nm)"

definition item_price :: "normalized \<Rightarrow> int option" where
  "item_price nm = (case nm_price_value nm of Some v \<Rightarrow> Some v | None \<Rightarrow> map_option py_round (nm_price nm))"

definition item_raw_specs :: "normalized \<Rightarrow> (pystr, json) odict" where
  "item_raw_specs nm = od_pop ''_category_hint'' (nm_raw_specs nm)"

definition build_crm_sync_item :: "tools \<Rightarrow> sync_settings \<Rightarrow> normalized \<Rightarrow> exc + sync_item" where
  "build_crm_sync_item t c nm0 =
    (let nm = nm0\<lparr>nm_barcode := blank_to_none (nm_barcode nm0), nm_model_name := blank_to_none (nm_model_name nm0)\<rparr>;
         store = nm_store nm; url = nm_url nm; title = item_title nm;
         source_id = blank_to_none (nm_source_id nm);
         external_ids = item_external_ids nm;
         category_hint = blank_to_none (nm_category_hint nm);
         price_value = item_price nm;
         currency = py_or (nm_currency nm) (Some (DEFAULT_CURRENCY c));
         raw_specs = item_raw_specs nm;
         warnings = filter (\<lambda>w. w \<noteq> []) (map strip (nm_normalization_warnings nm))
     in case build_entity_key t store source_id url of
          Inl e \<Rightarrow> Inl e
        | Inr entity_key \<Rightarrow>
         (case canonicalize_url url of
            Inl e \<Rightarrow> Inl e
          | Inr canonical \<Rightarrow> Inr \<lparr>
              si_schema_version = MESSAGE_SCHEMA_VERSION c, si_entity_key = entity_key,
              si_payload_hash = build_payload_hash t (payload_blob t (MESSAGE_SCHEMA_VERSION c) store canonical title
                source_id external_ids nm category_hint price_value currency raw_specs warnings),
              si_source_name = store, si_source_url = strip url, si_source_id = source_id, si_external_ids = external_ids,
              si_title = normalize_title title, si_brand = nm_brand nm, si_category_hint = category_hint,
              si_price_value = price_value, si_price_raw = nm_price_raw nm, si_currency = currency,
              si_in_stock = nm_in_stock nm, si_raw_specs = raw_specs,
              si_normalized_spec_labels = build_normalized_spec_labels t [] (map fst raw_specs),
              si_compatibility_targets = tl_targets t title category_hint raw_specs,
              si_typed_specs = nm_typed_specs nm, si_normalization_warnings = warnings,
              si_description = nm_description nm, si_image_urls = nm_image_urls nm,
              si_barcode = nm_barcode nm, si_model_name = nm_model_name nm,
              si_change_hint = compute_change_hint price_value (nm_in_stock nm) raw_specs,
              si_request_idempotency_key = None \<rparr>))"

section \<open>Facts\<close>

lemma build_item_entity:
  assumes "build_crm_sync_item t c nm = Inr i"
  shows "build_entity_key t (nm_store nm) (blank_to_none (nm_source_id nm)) (nm_url nm) = Inr (si_entity_key i)"
    and "si_source_name i = nm_store nm" and "si_request_idempotency_key i = None"
  using assms by (auto simp: build_crm_sync_item_def Let_def split: sum.splits)

lemma build_item_succeeds_iff:
  "(\<exists>i. build_crm_sync_item t c nm = Inr i) \<longleftrightarrow> (\<exists>u. canonicalize_url (nm_url nm) = Inr u)"
  by (auto simp: build_crm_sync_item_def build_entity_key_def Let_def split: sum.splits)

lemma sort_key_same_set:
  assumes "distinct (map fst d)" "distinct (map fst e)" "set d = set e"
  shows "sort_key fst d = sort_key fst e"
proof (rule map_sorted_distinct_set_unique [where f = fst])
  show "inj_on fst (set (sort_key fst d) \<union> set (sort_key fst e))"
    using assms by (simp add: distinct_map)
  show "sorted (map fst (sort_key fst d))" "sorted (map fst (sort_key fst e))" by simp_all
  have "mset (map fst (sort_key fst d)) = mset (map fst d)" "mset (map fst (sort_key fst e)) = mset (map fst e)"
    by (simp_all add: mset_map)
  with assms(1,2) show "distinct (map fst (sort_key fst d))" "distinct (map fst (sort_key fst e))"
    using mset_eq_imp_distinct_iff by blast+
  show "set (sort_key fst d) = set (sort_key fst e)" using assms(3) by simp
qed

lemma sort_filter_same_mset: "mset xs = mset ys \<Longrightarrow> sort (filter P xs) = sort (filter P ys)"
  by (metis mset_filter properties_for_sort mset_sort sorted_sort)

text \<open>The parts of a normalised product that identify it, up to the orders the hash does not see.\<close>

definition same_business :: "normalized \<Rightarrow> normalized \<Rightarrow> bool" where
  "same_business nm nm' \<longleftrightarrow>
    canonicalize_url (nm_url nm') = canonicalize_url (nm_url nm)
    \<and> set (nm_image_urls nm') = set (nm_image_urls nm)
    \<and> set (nm_external_ids nm') = set (nm_external_ids nm)
    \<and> set (nm_typed_specs nm') = set (nm_typed_specs nm)
    \<and> mset (nm_normalization_warnings nm') = mset (nm_normalization_warnings nm)
    \<and> nm' = nm\<lparr>nm_url := nm_url nm', nm_image_urls := nm_image_urls nm', nm_external_ids := nm_external_ids nm',
             nm_typed_specs := nm_typed_specs nm', nm_normalization_warnings := nm_normalization_warnings nm',
             nm_lifecycle_spec_update := nm_lifecycle_spec_update nm', nm_payload_hash := nm_payload_hash nm'\<rparr>"

definition keys_distinct :: "normalized \<Rightarrow> bool" where
  "keys_distinct nm \<longleftrightarrow> distinct (map fst (nm_external_ids nm)) \<and> distinct (map fst (nm_typed_specs nm))"

definition delivery_key :: "sync_item \<Rightarrow> pystr \<times> pystr" where
  "delivery_key i = (si_entity_key i, si_payload_hash i)"

definition sample_normalized :: normalized where
  "sample_normalized = \<lparr> nm_store = ''shop'', nm_url = ''https://shop.uz/p/1?ref=a'', nm_title_clean = Some ''Phone'', nm_title = None,
     nm_source_id = Some ''1'', nm_external_ids = [(''a'', ''1''), (''b'', ''2'')], nm_barcode = None, nm_model_name = None,
     nm_category_hint = None, nm_price_raw = None, nm_price_value = Some 100, nm_price = None, nm_currency = None,
     nm_in_stock = Some True, nm_brand = None, nm_raw_specs = [], nm_typed_specs = [], nm_normalization_warnings = [],
     nm_description = None, nm_image_urls = [''x'', ''y''], nm_lifecycle_spec_update = False, nm_payload_hash = [] \<rparr>"

definition sample_tools :: tools where
  "sample_tools = \<lparr> tl_sha256 = (\<lambda>s. replicate 64 (CHR ''0'')), tl_dumps = py_repr, tl_label = lower, tl_targets = (\<lambda>t c s. []) \<rparr>"

text \<open>The delivery key (entity key and payload hash) of a product depends on its business
  content only: not on the query or fragment of the URL, not on the order or repetition
  of image URLs, nor on the order of the external identifiers, the typed specifications
  and the warnings, so a page scraped again unchanged is recognised as the same delivery.\<close>

theorem delivery_key_stable:
  assumes "same_business nm nm'" and "keys_distinct nm" and "keys_distinct nm'"
  shows "map_sum id delivery_key (build_crm_sync_item t c nm') = map_sum id delivery_key (build_crm_sync_item t c nm)"
proof -
  let ?b = "\<lambda>m. m\<lparr>nm_barcode := blank_to_none (nm_barcode m), nm_model_name := blank_to_none (nm_model_name m)\<rparr>"
  define url imgs ext ts ws up ph where
    "url = nm_url nm'" and "imgs = nm_image_urls nm'" and "ext = nm_external_ids nm'" and "ts = nm_typed_specs nm'"
    and "ws = nm_normalization_warnings nm'" and "up = nm_lifecycle_spec_update nm'" and "ph = nm_payload_hash nm'"
  have nm': "nm' = nm\<lparr>nm_url := url, nm_image_urls := imgs, nm_external_ids := ext, nm_typed_specs := ts,
      nm_normalization_warnings := ws, nm_lifecycle_spec_update := up, nm_payload_hash := ph\<rparr>"
    and url: "canonicalize_url url = canonicalize_url (nm_url nm)" and imgs: "set imgs = set (nm_image_urls nm)"
    and ext: "set ext = set (nm_external_ids nm)" and ts: "set ts = set (nm_typed_specs nm)"
    and ws: "mset ws = mset (nm_normalization_warnings nm)"
    using assms(1) unfolding same_business_def url_def imgs_def ext_def ts_def ws_def up_def ph_def by blast+
  have dist: "distinct (map fst ext)" "distinct (map fst ts)"
    "distinct (map fst (nm_external_ids nm))" "distinct (map fst (nm_typed_specs nm))"
    using assms(2,3) by (simp_all add: keys_distinct_def ext_def ts_def)
  have sorted: "sort_key fst ext = sort_key fst (nm_external_ids nm)" "sort_key fst ts = sort_key fst (nm_typed_specs nm)"
    using dist ext ts by (auto intro: sort_key_same_set)
  have empty: "ext = [] \<longleftrightarrow> nm_external_ids nm = []"
    using ext by (metis set_empty2)
  have ids: "sort_key fst (item_external_ids (?b nm')) = sort_key fst (item_external_ids (?b nm))"
    using sorted(1) empty by (auto simp: item_external_ids_def nm' split: option.splits)
  have warn: "sort (filter (\<lambda>w. strip w \<noteq> []) (filter (\<lambda>w. w \<noteq> []) (map strip ws)))
      = sort (filter (\<lambda>w. strip w \<noteq> []) (filter (\<lambda>w. w \<noteq> []) (map strip (nm_normalization_warnings nm))))"
    by (intro sort_filter_same_mset) (simp add: ws)
  have same: "item_title (?b nm') = item_title (?b nm)" "item_price (?b nm') = item_price (?b nm)"
    "item_raw_specs (?b nm') = item_raw_specs (?b nm)"
    by (simp_all add: nm' item_title_def item_price_def item_raw_specs_def Let_def split: option.splits)
  have blob: "payload_blob t v (nm_store nm) u (item_title (?b nm)) sid (item_external_ids (?b nm')) (?b nm') cat pv cur rs
        (filter (\<lambda>w. w \<noteq> []) (map strip ws))
      = payload_blob t v (nm_store nm) u (item_title (?b nm)) sid (item_external_ids (?b nm)) (?b nm) cat pv cur rs
        (filter (\<lambda>w. w \<noteq> []) (map strip (nm_normalization_warnings nm)))" for v u sid cat pv cur rs
    unfolding payload_blob_def ids warn by (simp add: nm' sorted imgs)
  have entity: "build_entity_key t (nm_store nm) sid url = build_entity_key t (nm_store nm) sid (nm_url nm)" for sid
    by (simp add: build_entity_key_def Let_def url)
  have fields: "nm_store (?b nm') = nm_store nm" "nm_url (?b nm') = url" "nm_source_id (?b nm') = nm_source_id nm"
    "nm_category_hint (?b nm') = nm_category_hint nm" "nm_currency (?b nm') = nm_currency nm"
    "nm_normalization_warnings (?b nm') = ws"
    "nm_store (?b nm) = nm_store nm" "nm_url (?b nm) = nm_url nm" "nm_source_id (?b nm) = nm_source_id nm"
    "nm_category_hint (?b nm) = nm_category_hint nm" "nm_currency (?b nm) = nm_currency nm"
    "nm_normalization_warnings (?b nm) = nm_normalization_warnings nm"
    by (simp_all add: nm')
  show ?thesis
    unfolding build_crm_sync_item_def Let_def fields same blob entity url
    by (simp add: delivery_key_def split: sum.splits)
qed

theorem delivery_key_stable_witness:
  "\<forall>c. map_sum id delivery_key (build_crm_sync_item sample_tools c
     (sample_normalized\<lparr>nm_url := ''https://SHOP.uz/p/1'', nm_image_urls := [''y'', ''x'', ''y''],
        nm_external_ids := [(''b'', ''2''), (''a'', ''1'')]\<rparr>))
   = map_sum id delivery_key (build_crm_sync_item sample_tools c sample_normalized)"
proof (intro allI, rule delivery_key_stable)
  have "canonicalize_url ''https://SHOP.uz/p/1'' = canonicalize_url ''https://shop.uz/p/1?ref=a''" by code_simp
  then show "same_business sample_normalized (sample_normalized\<lparr>nm_url := ''https://SHOP.uz/p/1'',
      nm_image_urls := [''y'', ''x'', ''y''], nm_external_ids := [(''b'', ''2''), (''a'', ''1'')]\<rparr>)"
    by (auto simp: same_business_def sample_normalized_def)
qed (simp_all add: keys_distinct_def sample_normalized_def)

end
