(* ===== verification/Rollout.thy ===== *)
theory Rollout imports Prelude begin

text \<open>
  Progressive rollout (\<^verbatim>\<open>application/release/\<close>, \<^verbatim>\<open>config/feature_flags.py\<close>): the stage of a
  store and of a feature, the health guard and the deterministic canary bucket decide
  whether a feature is on for a store and an entity.  SHA-256 is a parameter that yields
  the hexadecimal digest.  Logging is left out.
\<close>

section \<open>Stages\<close>

datatype rollout_stage = Disabled | Canary | Partial | Full

definition STAGE_RANK :: "rollout_stage \<Rightarrow> nat" where
  "STAGE_RANK s = (case s of Disabled \<Rightarrow> 0 | Canary \<Rightarrow> 1 | Partial \<Rightarrow> 2 | Full \<Rightarrow> 3)"

lemma STAGE_RANK_eq [simp]: "STAGE_RANK a = STAGE_RANK b \<longleftrightarrow> a = b"
  by (cases a; cases b) (simp_all add: STAGE_RANK_def)

text \<open>The rank is a linear order; narrowing is its minimum.\<close>

instantiation rollout_stage :: linorder
begin

definition less_eq_rollout_stage :: "rollout_stage \<Rightarrow> rollout_stage \<Rightarrow> bool" where
  "less_eq_rollout_stage a b \<longleftrightarrow> STAGE_RANK a \<le> STAGE_RANK b"

definition less_rollout_stage :: "rollout_stage \<Rightarrow> rollout_stage \<Rightarrow> bool" where
  "less_rollout_stage a b \<longleftrightarrow> STAGE_RANK a < STAGE_RANK b"

instance
  by standard (auto simp: less_eq_rollout_stage_def less_rollout_stage_def dest: antisym)

end

definition parse_stage :: "pystr \<Rightarrow> rollout_stage" where
  "parse_stage s = (let v = lower (strip (if s = [] then ''disabled'' else s)) in
     if v = ''canary'' then Canary else if v = ''partial'' then Partial else if v = ''full'' then Full else Disabled)"

definition narrow :: "rollout_stage \<Rightarrow> rollout_stage \<Rightarrow> rollout_stage" where
  "narrow a b = (if STAGE_RANK a \<le> STAGE_RANK b then a else b)"

lemma narrow_min: "narrow a b = min a b"
  by (simp add: narrow_def min_def less_eq_rollout_stage_def)

section \<open>Settings and registry\<close>

record rollout_settings =
  ENABLE_FEATURE_FLAGS :: bool
  ENABLE_STORE_ROLLOUT_POLICY :: bool
  ENABLE_CANARY_ROLLOUT :: bool
  ENABLE_PROGRESSIVE_STORE_ENABLEMENT :: bool
  ROLLOUT_DEFAULT_STAGE :: pystr
  ROLLOUT_CANARY_PERCENTAGE :: int
  ROLLOUT_PARTIAL_PERCENTAGE :: int
  ROLLOUT_HASH_BASED_SELECTION :: bool
  ENABLE_ROLLOUT_GUARD_BY_STATUS :: bool
  ROLLOUT_BLOCK_ON_FAILING_STATUS :: bool
  ROLLOUT_ALLOW_DEGRADED_CANARY :: bool
  ROLLOUT_DISABLED_STORES :: "pystr list"
  ROLLOUT_CANARY_STORES :: "pystr list"
  ROLLOUT_PARTIAL_STORES :: "pystr list"

record feature_spec =
  fs_feature_name :: pystr
  fs_default_stage :: rollout_stage
  fs_default_enabled :: bool
  fs_allowed_stores :: "pystr list"
  fs_supports_canary :: bool

definition registered :: "pystr \<Rightarrow> bool \<Rightarrow> feature_spec" where
  "registered name canary = \<lparr> fs_feature_name = name, fs_default_stage = Full, fs_default_enabled = True,
     fs_allowed_stores = [], fs_supports_canary = canary \<rparr>"

definition FEATURE_FLAG_REGISTRY :: "feature_spec list" where
  "FEATURE_FLAG_REGISTRY =
    map (\<lambda>n. registered n True)
      [''crm_http_transport'', ''lifecycle_delta_events'', ''typed_specs_mapping'', ''normalization_quality_metadata'',
       ''spec_coverage_export'', ''observability_export''] @
    [registered ''store_acceptance_enforced'' False] @
    map (\<lambda>n. registered n True)
      [''replay_reconciliation'', ''browser_escalation_policy'', ''store_profile_runtime_control'',
       ''access_delay_jitter'', ''header_profile_rotation'', ''proxy_policy_hardening'', ''captcha_hooks'',
       ''honeypot_link_filter'', ''ban_signal_monitoring'', ''explicit_backoff_engine'',
       ''explicit_backoff_enforcement'']"

definition get_feature_spec :: "pystr \<Rightarrow> feature_spec option" where
  "get_feature_spec name = List.find (\<lambda>f. fs_feature_name f = strip name) FEATURE_FLAG_REGISTRY"

section \<open>Stores and features\<close>

record store_state =
  ss_store_name :: pystr
  ss_enabled :: bool
  ss_stage :: rollout_stage
  ss_canary :: bool
  ss_feature_overrides :: "(pystr, rollout_stage) odict"

definition listed :: "pystr \<Rightarrow> pystr list \<Rightarrow> bool" where
  "listed key xs = (key \<in> set (map (\<lambda>s. lower (strip s)) xs))"

definition store_state_of :: "pystr \<Rightarrow> bool \<Rightarrow> rollout_stage \<Rightarrow> bool \<Rightarrow> store_state" where
  "store_state_of key enabled stage canary = \<lparr> ss_store_name = key, ss_enabled = enabled, ss_stage = stage,
     ss_canary = canary, ss_feature_overrides = [] \<rparr>"

definition get_store_rollout_state :: "rollout_settings \<Rightarrow> pystr \<Rightarrow> store_state" where
  "get_store_rollout_state c store_name = (let key = lower (strip store_name) in
     if \<not> ENABLE_STORE_ROLLOUT_POLICY c \<or> \<not> ENABLE_PROGRESSIVE_STORE_ENABLEMENT c then store_state_of key True Full False
     else if listed key (ROLLOUT_DISABLED_STORES c) then store_state_of key False Disabled False
     else if listed key (ROLLOUT_CANARY_STORES c) then store_state_of key True Canary True
     else if listed key (ROLLOUT_PARTIAL_STORES c) then store_state_of key True Partial False
     else store_state_of key True Full False)"

record flag_state =
  ff_feature_name :: pystr
  ff_stage :: rollout_stage
  ff_enabled :: bool
  ff_rollout_percentage :: "int option"
  ff_allowed_stores :: "pystr list"

definition get_feature_flag_state :: "rollout_settings \<Rightarrow> pystr \<Rightarrow> pystr option \<Rightarrow> flag_state" where
  "get_feature_flag_state c feature_name store_name =
    (let fn = strip feature_name in
     if \<not> ENABLE_FEATURE_FLAGS c
     then \<lparr> ff_feature_name = fn, ff_stage = Full, ff_enabled = True, ff_rollout_percentage = None, ff_allowed_stores = [] \<rparr>
     else (case get_feature_spec fn of
        None \<Rightarrow> (let st = parse_stage (ROLLOUT_DEFAULT_STAGE c) in
          \<lparr> ff_feature_name = fn, ff_stage = st, ff_enabled = (st \<noteq> Disabled), ff_rollout_percentage = None, ff_allowed_stores = [] \<rparr>)
      | Some spec \<Rightarrow>
          (let ov = (if truthy store_name
                     then (case od_get fn (ss_feature_overrides (get_store_rollout_state c (or_empty store_name))) of
                        None \<Rightarrow> fs_default_stage spec | Some s \<Rightarrow> s)
                     else fs_default_stage spec)
           in \<lparr> ff_feature_name = fn, ff_stage = ov, ff_enabled = fs_default_enabled spec,
                ff_rollout_percentage = (if ov = Canary then Some (ROLLOUT_CANARY_PERCENTAGE c)
                  else if ov = Partial then Some (ROLLOUT_PARTIAL_PERCENTAGE c) else None),
                ff_allowed_stores = fs_allowed_stores spec \<rparr>)))"

section \<open>Health guard\<close>

text \<open>A health status is its text; \<^const>\<open>None\<close> is no status object.\<close>

type_synonym health = "pystr option"

definition is_status :: "pystr \<Rightarrow> health \<Rightarrow> bool" where
  "is_status s h = (map_option lower h = Some s)"

definition should_block_rollout_due_to_health :: "rollout_settings \<Rightarrow> health \<Rightarrow> health \<Rightarrow> bool" where
  "should_block_rollout_due_to_health c store run =
    (if \<not> ENABLE_ROLLOUT_GUARD_BY_STATUS c then False
     else if \<not> ROLLOUT_BLOCK_ON_FAILING_STATUS c then False
     else is_status ''failing'' store \<or> is_status ''failing'' run)"

definition can_enable_feature_based_on_status :: "rollout_settings \<Rightarrow> pystr \<Rightarrow> health \<Rightarrow> health \<Rightarrow> bool" where
  "can_enable_feature_based_on_status c feature_name store run =
    (if \<not> ENABLE_ROLLOUT_GUARD_BY_STATUS c then True
     else if should_block_rollout_due_to_health c store run then False
     else if is_status ''degraded'' store \<or> is_status ''degraded'' run
     then \<not> (feature_name \<in> {''lifecycle_delta_events'', ''replay_reconciliation'', ''browser_escalation_policy''}
              \<and> \<not> ROLLOUT_ALLOW_DEGRADED_CANARY c)
     else True)"

definition can_promote_stage :: "rollout_settings \<Rightarrow> pystr \<Rightarrow> health \<Rightarrow> bool" where
  "can_promote_stage c current_stage store =
    (if \<not> ENABLE_ROLLOUT_GUARD_BY_STATUS c then True
     else \<not> (is_status ''failing'' store \<or> is_status ''degraded'' store))"

section \<open>Canary buckets\<close>

definition build_rollout_key :: "pystr \<Rightarrow> pystr option \<Rightarrow> pystr option \<Rightarrow> pystr" where
  "build_rollout_key store_name entity_key feature_name =
    (let has_entity = (strip (or_empty entity_key) \<noteq> []);
         second = (if has_entity then strip (or_empty entity_key)
                   else if truthy feature_name then ''feature:'' @ strip (or_empty feature_name)
                   else ''nostore'')
     in join_text ''|'' ([lower (strip store_name), second] @
          (if truthy feature_name \<and> has_entity then [strip (or_empty feature_name)] else [])))"

text \<open>\<open>int.from_bytes(digest[:4], "big")\<close> is the number of the first eight hexadecimal digits.\<close>

definition hex_value :: "char \<Rightarrow> nat" where
  "hex_value c = (let n = of_char c :: nat in if n \<ge> 97 then n - 87 else n - 48)"

definition first_word :: "pystr \<Rightarrow> nat" where
  "first_word hex = foldl (\<lambda>a c. 16 * a + hex_value c) 0 (take 8 hex)"

definition select_canary_bucket :: "(pystr \<Rightarrow> pystr) \<Rightarrow> pystr \<Rightarrow> int \<Rightarrow> bool" where
  "select_canary_bucket sha256 key percentage =
    (if percentage \<le> 0 then False else if percentage \<ge> 100 then True
     else int (first_word (sha256 key) mod 100) < percentage)"

section \<open>Decision\<close>

datatype rollout_scope = Scope_global | Scope_store | Scope_feature | Scope_store_feature

record rollout_decision =
  ro_feature_name :: pystr
  ro_store_name :: "pystr option"
  ro_stage :: rollout_stage
  ro_enabled :: bool
  ro_reason :: "pystr option"
  ro_canary_selected :: bool
  ro_scope :: rollout_scope

definition decided :: "pystr \<Rightarrow> pystr option \<Rightarrow> rollout_stage \<Rightarrow> bool \<Rightarrow> pystr option \<Rightarrow> bool \<Rightarrow> rollout_scope \<Rightarrow> rollout_decision" where
  "decided feature store stage enabled reason selected scope = \<lparr> ro_feature_name = strip feature,
     ro_store_name = map_option strip store, ro_stage = stage, ro_enabled = enabled, ro_reason = reason,
     ro_canary_selected = selected, ro_scope = scope \<rparr>"

definition rollout_percentage_for :: "rollout_settings \<Rightarrow> pystr \<Rightarrow> rollout_stage \<Rightarrow> int" where
  "rollout_percentage_for c feature_name feat_stage =
    (let pct = (if \<not> ENABLE_CANARY_ROLLOUT c then 100
                else (case get_feature_spec feature_name of
                   Some spec \<Rightarrow> if \<not> fs_supports_canary spec then 100
                     else if feat_stage = Canary then ROLLOUT_CANARY_PERCENTAGE c else ROLLOUT_PARTIAL_PERCENTAGE c
                 | None \<Rightarrow> if feat_stage = Canary then ROLLOUT_CANARY_PERCENTAGE c else ROLLOUT_PARTIAL_PERCENTAGE c))
     in if \<not> ROLLOUT_HASH_BASED_SELECTION c then 100 else pct)"

definition decide_feature_rollout ::
    "(pystr \<Rightarrow> pystr) \<Rightarrow> rollout_settings \<Rightarrow> pystr \<Rightarrow> pystr option \<Rightarrow> pystr option \<Rightarrow> health \<Rightarrow> health \<Rightarrow> rollout_decision" where
  "decide_feature_rollout sha256 c feature_name store_name entity_key store_status run_status =
    (if \<not> ENABLE_FEATURE_FLAGS c
     then decided feature_name store_name Full True (Some ''feature_flags_disabled'') False Scope_global
     else if get_feature_spec feature_name = None \<and> parse_stage (ROLLOUT_DEFAULT_STAGE c) = Disabled
     then decided feature_name store_name Disabled False (Some ''unknown_feature_and_default_stage_disabled'') False Scope_feature
     else
      (let st_name = (let s = strip (or_empty store_name) in if s = [] then None else Some s);
           srs = map_option (get_store_rollout_state c) st_name;
           off = (\<lambda>reason scope. decided feature_name st_name Disabled False (Some reason) False scope)
       in if (case srs of Some s \<Rightarrow> \<not> ss_enabled s | None \<Rightarrow> False)
          then off ''store_rollout_disabled'' Scope_store
          else
           (let fs = get_feature_flag_state c feature_name st_name in
            if \<not> ff_enabled fs then off ''feature_flag_disabled_in_registry'' Scope_feature
            else if ff_allowed_stores fs \<noteq> [] \<and> st_name \<noteq> None
                 \<and> \<not> listed (lower (or_empty st_name)) (ff_allowed_stores fs)
            then off ''store_not_in_feature_allowed_stores'' Scope_store_feature
            else
             (let stage1 = (case srs of None \<Rightarrow> ff_stage fs | Some s \<Rightarrow> narrow (ff_stage fs) (ss_stage s));
                  stage2 = (if should_block_rollout_due_to_health c store_status run_status \<and> stage1 \<in> {Full, Partial}
                            then Canary else stage1)
              in if \<not> can_enable_feature_based_on_status c feature_name store_status run_status
                 then off ''rollout_guard_status'' Scope_store_feature
                 else if stage2 = Disabled then off ''effective_stage_disabled'' Scope_store_feature
                 else if stage2 = Full
                 then decided feature_name st_name Full True None False
                        (if st_name \<noteq> None then Scope_store_feature else Scope_global)
                 else
                  (let pct = rollout_percentage_for c feature_name stage2;
                       rk = build_rollout_key (case st_name of None \<Rightarrow> ''global'' | Some s \<Rightarrow> s) entity_key (Some feature_name);
                       selected = select_canary_bucket sha256 rk pct
                   in decided feature_name st_name stage2 selected
                        (if selected then None else Some (''canary_or_partial_bucket_miss pct='' @ int_text pct)) selected
                        (if st_name \<noteq> None then Scope_store_feature else Scope_feature))))))"

definition is_feature_enabled ::
    "(pystr \<Rightarrow> pystr) \<Rightarrow> rollout_settings \<Rightarrow> pystr \<Rightarrow> pystr option \<Rightarrow> pystr option \<Rightarrow> bool" where
  "is_feature_enabled sha256 c feature_name store_name entity_key =
    ro_enabled (decide_feature_rollout sha256 c feature_name store_name entity_key None None)"

definition can_store_run :: "rollout_settings \<Rightarrow> pystr \<Rightarrow> health \<Rightarrow> bool" where
  "can_store_run c store_name store_status =
    (if \<not> ss_enabled (get_store_rollout_state c (lower (strip store_name))) then False
     else \<not> (is_status ''failing'' store_status \<and> ROLLOUT_BLOCK_ON_FAILING_STATUS c))"

section \<open>Facts\<close>

lemma store_state_overrides [simp]: "ss_feature_overrides (get_store_rollout_state c s) = []"
  by (simp add: get_store_rollout_state_def store_state_of_def Let_def)

lemma store_state_enabled: "ss_enabled (get_store_rollout_state c s) \<longleftrightarrow> ss_stage (get_store_rollout_state c s) \<noteq> Disabled"
  by (simp add: get_store_rollout_state_def store_state_of_def Let_def)

lemma registry_full:
  assumes "get_feature_spec f = Some spec"
  shows "fs_default_stage spec = Full" "fs_default_enabled spec" "fs_allowed_stores spec = []"
proof -
  have "spec \<in> set FEATURE_FLAG_REGISTRY" using assms by (auto simp: get_feature_spec_def dest: find_SomeD)
  then show "fs_default_stage spec = Full" "fs_default_enabled spec" "fs_allowed_stores spec = []"
    by (auto simp: FEATURE_FLAG_REGISTRY_def registered_def)
qed

lemma get_feature_spec_strip [simp]: "get_feature_spec (strip f) = get_feature_spec f"
  by (simp add: get_feature_spec_def)

text \<open>The stage of a feature on its own: a registered one is full, an unknown one has the default stage.\<close>

definition feature_stage :: "rollout_settings \<Rightarrow> pystr \<Rightarrow> rollout_stage" where
  "feature_stage c f = (if get_feature_spec f = None then parse_stage (ROLLOUT_DEFAULT_STAGE c) else Full)"

definition store_stage :: "rollout_settings \<Rightarrow> pystr option \<Rightarrow> rollout_stage" where
  "store_stage c store = (let s = strip (or_empty store) in
     if s = [] then Full else ss_stage (get_store_rollout_state c s))"

definition bucket_key :: "pystr \<Rightarrow> pystr option \<Rightarrow> pystr option \<Rightarrow> pystr" where
  "bucket_key f store entity = (let s = strip (or_empty store) in
     build_rollout_key (if s = [] then ''global'' else s) entity (Some f))"

lemma flag_state_eq:
  assumes "ENABLE_FEATURE_FLAGS c"
  shows "ff_stage (get_feature_flag_state c f store) = feature_stage c f"
    and "ff_enabled (get_feature_flag_state c f store) \<longleftrightarrow> feature_stage c f \<noteq> Disabled"
    and "ff_allowed_stores (get_feature_flag_state c f store) = []"
  using assms registry_full [of f]
  by (auto simp: get_feature_flag_state_def feature_stage_def Let_def od_get_def split: option.splits)

lemma narrow_cases: "narrow a b = a \<or> narrow a b = b"
  by (simp add: narrow_def)

lemma narrow_Disabled [simp]: "narrow a b = Disabled \<longleftrightarrow> a = Disabled \<or> b = Disabled"
  by (cases a; cases b) (simp_all add: narrow_def STAGE_RANK_def)

lemma narrow_Full [simp]: "narrow a Full = a"
  by (cases a) (simp_all add: narrow_def STAGE_RANK_def)

lemma decided_simps [simp]:
  "ro_enabled (decided f s st e r sel sc) = e" "ro_stage (decided f s st e r sel sc) = st"
  "ro_reason (decided f s st e r sel sc) = r" "ro_canary_selected (decided f s st e r sel sc) = sel"
  by (simp_all add: decided_def)

lemma guard_blocks: "should_block_rollout_due_to_health c s r \<Longrightarrow> \<not> can_enable_feature_based_on_status c f s r"
proof -
  assume b: "should_block_rollout_due_to_health c s r"
  then have "ENABLE_ROLLOUT_GUARD_BY_STATUS c" by (simp add: should_block_rollout_due_to_health_def split: if_splits)
  with b show ?thesis by (simp add: can_enable_feature_based_on_status_def)
qed

text \<open>Once the flags are on and no earlier refusal applies, stage and bucket decide.\<close>

lemma decision_core:
  assumes "ENABLE_FEATURE_FLAGS c" "feature_stage c f \<noteq> Disabled" "store_stage c store \<noteq> Disabled"
    "can_enable_feature_based_on_status c f hs hr"
  shows "decide_feature_rollout sha256 c f store entity hs hr =
    (let st_name = (if strip (or_empty store) = [] then None else Some (strip (or_empty store)));
         stage = narrow (feature_stage c f) (store_stage c store);
         pct = rollout_percentage_for c f stage;
         selected = select_canary_bucket sha256 (bucket_key f store entity) pct
     in if stage = Full then decided f st_name Full True None False
          (if st_name \<noteq> None then Scope_store_feature else Scope_global)
        else decided f st_name stage selected
          (if selected then None else Some (''canary_or_partial_bucket_miss pct='' @ int_text pct)) selected
          (if st_name \<noteq> None then Scope_store_feature else Scope_feature))"
proof -
  have nb: "\<not> should_block_rollout_due_to_health c hs hr" using assms(4) guard_blocks by blast
  have known: "\<not> (get_feature_spec f = None \<and> parse_stage (ROLLOUT_DEFAULT_STAGE c) = Disabled)"
    using assms(2) by (auto simp: feature_stage_def)
  show ?thesis
  proof (cases "strip (or_empty store) = []")
    case True
    with assms(2) show ?thesis
      unfolding decide_feature_rollout_def Let_def
      by (simp add: assms(1,4) nb known flag_state_eq [OF assms(1)] store_stage_def bucket_key_def)
  next
    case False
    then have "store_stage c store = ss_stage (get_store_rollout_state c (strip (or_empty store)))"
      by (simp add: store_stage_def)
    with False assms(2,3) show ?thesis
      unfolding decide_feature_rollout_def Let_def
      by (simp add: assms(1,4) nb known flag_state_eq [OF assms(1)] store_state_enabled bucket_key_def)
  qed
qed

text \<open>Otherwise the first refusal decides; the guard's is the last of them.\<close>

lemma decision_guard:
  assumes "ENABLE_FEATURE_FLAGS c" "feature_stage c f \<noteq> Disabled" "store_stage c store \<noteq> Disabled"
    "\<not> can_enable_feature_based_on_status c f hs hr"
  shows "decide_feature_rollout sha256 c f store entity hs hr =
    decided f (if strip (or_empty store) = [] then None else Some (strip (or_empty store))) Disabled False
      (Some ''rollout_guard_status'') False Scope_store_feature"
proof -
  have known: "\<not> (get_feature_spec f = None \<and> parse_stage (ROLLOUT_DEFAULT_STAGE c) = Disabled)"
    using assms(2) by (auto simp: feature_stage_def)
  show ?thesis
    using assms(2,3)
    unfolding decide_feature_rollout_def Let_def
    by (auto simp: assms(1,4) known flag_state_eq [OF assms(1)] store_state_enabled store_stage_def Let_def split: if_splits)
qed

lemma decision_refused:
  assumes "ENABLE_FEATURE_FLAGS c" "feature_stage c f = Disabled \<or> store_stage c store = Disabled"
  shows "\<exists>st reason scope. decide_feature_rollout sha256 c f store entity hs hr = decided f st Disabled False (Some reason) False scope"
proof (cases "get_feature_spec f = None \<and> parse_stage (ROLLOUT_DEFAULT_STAGE c) = Disabled")
  case True
  then have "decide_feature_rollout sha256 c f store entity hs hr =
      decided f store Disabled False (Some ''unknown_feature_and_default_stage_disabled'') False Scope_feature"
    by (simp add: decide_feature_rollout_def assms(1))
  then show ?thesis by blast
next
  case False
  then have feature: "feature_stage c f \<noteq> Disabled" by (auto simp: feature_stage_def)
  with assms(2) have "store_stage c store = Disabled" by simp
  then have "strip (or_empty store) \<noteq> []" "\<not> ss_enabled (get_store_rollout_state c (strip (or_empty store)))"
    by (auto simp: store_stage_def Let_def store_state_enabled split: if_splits)
  with False have "decide_feature_rollout sha256 c f store entity hs hr =
      decided f (Some (strip (or_empty store))) Disabled False (Some ''store_rollout_disabled'') False Scope_store"
    unfolding decide_feature_rollout_def Let_def by (simp only: assms(1) False if_False if_True not_True_eq_False option.simps simp_thms)
  then show ?thesis by blast
qed

lemma decision_off:
  assumes "ENABLE_FEATURE_FLAGS c"
    "feature_stage c f = Disabled \<or> store_stage c store = Disabled \<or> \<not> can_enable_feature_based_on_status c f hs hr"
  shows "ro_stage (decide_feature_rollout sha256 c f store entity hs hr) = Disabled
    \<and> \<not> ro_enabled (decide_feature_rollout sha256 c f store entity hs hr)"
proof (cases "feature_stage c f = Disabled \<or> store_stage c store = Disabled")
  case True
  from decision_refused [OF assms(1) True, of sha256 entity hs hr] show ?thesis by (auto simp: decided_def)
next
  case False
  with assms(2) show ?thesis by (simp add: decision_guard [OF assms(1)])
qed

section \<open>Properties\<close>

definition sample_rollout :: rollout_settings where
  "sample_rollout = \<lparr> ENABLE_FEATURE_FLAGS = True, ENABLE_STORE_ROLLOUT_POLICY = True, ENABLE_CANARY_ROLLOUT = True,
     ENABLE_PROGRESSIVE_STORE_ENABLEMENT = True, ROLLOUT_DEFAULT_STAGE = ''disabled'', ROLLOUT_CANARY_PERCENTAGE = 10,
     ROLLOUT_PARTIAL_PERCENTAGE = 30, ROLLOUT_HASH_BASED_SELECTION = True, ENABLE_ROLLOUT_GUARD_BY_STATUS = True,
     ROLLOUT_BLOCK_ON_FAILING_STATUS = True, ROLLOUT_ALLOW_DEGRADED_CANARY = False, ROLLOUT_DISABLED_STORES = [],
     ROLLOUT_CANARY_STORES = [], ROLLOUT_PARTIAL_STORES = [] \<rparr>"

text \<open>The rollout decision in closed form.  With the flags on, a feature is on for a store
  and an entity exactly when the health guard allows it, the narrower of the feature's
  and the store's stage is not disabled, and that stage is full or the bucket of the
  entity is below the stage's percentage; the stage reported is that narrower stage, or
  disabled when the guard refuses, so it never exceeds the store's.\<close>

theorem feature_on_iff:
  assumes "ENABLE_FEATURE_FLAGS c"
  shows "let d = decide_feature_rollout sha256 c f store entity hs hr;
             stage = min (feature_stage c f) (store_stage c store);
             guard = can_enable_feature_based_on_status c f hs hr
    in (ro_enabled d \<longleftrightarrow> guard \<and> stage \<noteq> Disabled
          \<and> (stage = Full \<or> select_canary_bucket sha256 (bucket_key f store entity) (rollout_percentage_for c f stage)))
     \<and> ro_stage d = (if guard then stage else Disabled) \<and> ro_stage d \<le> store_stage c store"
proof -
  have le: "Disabled \<le> s" for s by (simp add: less_eq_rollout_stage_def STAGE_RANK_def)
  show ?thesis
  proof (cases "feature_stage c f = Disabled \<or> store_stage c store = Disabled \<or> \<not> can_enable_feature_based_on_status c f hs hr")
    case True
    with decision_off [OF assms True, of sha256 entity] narrow_Disabled [of "feature_stage c f" "store_stage c store"] le
    show ?thesis by (auto simp: Let_def narrow_min)
  next
    case False
    then have core: "feature_stage c f \<noteq> Disabled" "store_stage c store \<noteq> Disabled"
      "can_enable_feature_based_on_status c f hs hr" by auto
    have "narrow (feature_stage c f) (store_stage c store) \<noteq> Disabled" using core by simp
    with core(3) show ?thesis
      using min.cobounded2 [of "feature_stage c f" "store_stage c store"]
      by (auto simp: decision_core [OF assms core] Let_def narrow_min simp del: min.cobounded2)
  qed
qed

theorem feature_on_iff_witness:
  "ro_enabled (decide_feature_rollout (\<lambda>x. ''0a'') sample_rollout ''replay_reconciliation'' (Some ''uzum'') (Some ''uzum:1'') None None)"
proof -
  have "ENABLE_FEATURE_FLAGS sample_rollout" by (simp add: sample_rollout_def)
  moreover have "feature_stage sample_rollout ''replay_reconciliation'' = Full"
    by code_simp
  moreover have "store_stage sample_rollout (Some ''uzum'') = Full" by code_simp
  moreover have "can_enable_feature_based_on_status sample_rollout ''replay_reconciliation'' None None" by code_simp
  ultimately show ?thesis
    using feature_on_iff [of sample_rollout "\<lambda>x. ''0a''" "''replay_reconciliation''" "Some ''uzum''" "Some ''uzum:1''" None None]
    by (simp add: Let_def)
qed

lemma bucket_monotone: "select_canary_bucket sha256 k p \<Longrightarrow> p \<le> q \<Longrightarrow> select_canary_bucket sha256 k q"
  by (auto simp: select_canary_bucket_def split: if_splits)

text \<open>Widening is monotone: raising the canary and partial percentages never turns a feature
  off for a store and entity for which it was on, because the bucket depends on neither.\<close>

theorem widening_keeps_features_on:
  assumes "ro_enabled (decide_feature_rollout sha256 c f store entity hs hr)"
    and "ROLLOUT_CANARY_PERCENTAGE c \<le> p" and "ROLLOUT_PARTIAL_PERCENTAGE c \<le> q"
  shows "ro_enabled (decide_feature_rollout sha256
    (c\<lparr>ROLLOUT_CANARY_PERCENTAGE := p, ROLLOUT_PARTIAL_PERCENTAGE := q\<rparr>) f store entity hs hr)"
proof (cases "ENABLE_FEATURE_FLAGS c")
  case False
  then show ?thesis by (simp add: decide_feature_rollout_def)
next
  case True
  let ?c = "c\<lparr>ROLLOUT_CANARY_PERCENTAGE := p, ROLLOUT_PARTIAL_PERCENTAGE := q\<rparr>"
  have "get_store_rollout_state ?c s = get_store_rollout_state c s" for s
    by (simp add: get_store_rollout_state_def Let_def)
  then have same: "feature_stage ?c f = feature_stage c f" "store_stage ?c store = store_stage c store"
    "can_enable_feature_based_on_status ?c f hs hr = can_enable_feature_based_on_status c f hs hr"
    by (simp_all add: feature_stage_def store_stage_def Let_def
        can_enable_feature_based_on_status_def should_block_rollout_due_to_health_def)
  have pct: "rollout_percentage_for c f stage \<le> rollout_percentage_for ?c f stage" for stage
    using assms(2,3) by (auto simp: rollout_percentage_for_def Let_def split: option.splits)
  have "ENABLE_FEATURE_FLAGS ?c" using True by simp
  from feature_on_iff [OF this, of sha256 f store entity hs hr] feature_on_iff [OF True, of sha256 f store entity hs hr]
    assms(1) bucket_monotone [OF _ pct]
  show ?thesis unfolding Let_def same by blast
qed

theorem widening_keeps_features_on_witness:
  "ro_enabled (decide_feature_rollout (\<lambda>x. ''0a'')
     (sample_rollout\<lparr>ROLLOUT_CANARY_STORES := [''uzum''], ROLLOUT_CANARY_PERCENTAGE := 50, ROLLOUT_PARTIAL_PERCENTAGE := 60\<rparr>)
     ''replay_reconciliation'' (Some ''uzum'') (Some ''uzum:1'') None None)"
proof -
  let ?c = "sample_rollout\<lparr>ROLLOUT_CANARY_STORES := [''uzum''], ROLLOUT_CANARY_PERCENTAGE := 20\<rparr>"
  have "ro_enabled (decide_feature_rollout (\<lambda>x. ''0a'') ?c ''replay_reconciliation'' (Some ''uzum'') (Some ''uzum:1'') None None)"
    by code_simp
  from widening_keeps_features_on [OF this, of 50 60] show ?thesis
    by (simp add: sample_rollout_def)
qed

text \<open>A failing status never narrows a feature to its canary stage, although that is what the
  code sets and logs: the guard that follows refuses every blocked feature, so under a
  failing store or run the decision is always off with the reason of the guard or of an
  earlier refusal.\<close>

theorem failing_is_off_not_canary:
  assumes "ENABLE_FEATURE_FLAGS c" and "should_block_rollout_due_to_health c hs hr"
  shows "\<not> ro_enabled (decide_feature_rollout sha256 c f store entity hs hr)
    \<and> ro_stage (decide_feature_rollout sha256 c f store entity hs hr) = Disabled
    \<and> (feature_stage c f \<noteq> Disabled \<longrightarrow> store_stage c store \<noteq> Disabled \<longrightarrow>
        ro_reason (decide_feature_rollout sha256 c f store entity hs hr) = Some ''rollout_guard_status'')"
proof -
  note blocked = guard_blocks [OF assms(2), of f]
  have "ro_reason (decide_feature_rollout sha256 c f store entity hs hr) = Some ''rollout_guard_status''"
    if "feature_stage c f \<noteq> Disabled" "store_stage c store \<noteq> Disabled"
    by (simp add: decision_guard [OF assms(1) that blocked])
  with decision_off [OF assms(1)] blocked show ?thesis by blast
qed

theorem failing_is_off_not_canary_witness:
  "\<not> ro_enabled (decide_feature_rollout (\<lambda>x. ''0a'') sample_rollout ''typed_specs_mapping'' (Some ''uzum'') None (Some ''Failing'') None)"
proof -
  have "ENABLE_FEATURE_FLAGS sample_rollout" by (simp add: sample_rollout_def)
  moreover have "should_block_rollout_due_to_health sample_rollout (Some ''Failing'') None" by code_simp
  ultimately show ?thesis using failing_is_off_not_canary by blast
qed

end
