(* ===== verification/Lifecycle.thy ===== *)
theory Lifecycle imports Crm_Builder Sync_State Rollout begin

text \<open>
  \<^verbatim>\<open>application/lifecycle/\<close>: which lifecycle event a product is delivered as, its idempotency
  key and replay mode, and what to do when the CRM's answer leaves identifiers open.
\<close>

section \<open>Idempotency keys\<close>

definition build_request_idempotency_key ::
    "tools \<Rightarrow> sync_settings \<Rightarrow> pystr \<Rightarrow> pystr \<Rightarrow> pystr \<Rightarrow> pystr \<Rightarrow> exc + pystr" where
  "build_request_idempotency_key t c entity_key payload_hash event_type scope0 =
    (let scope = (if scope0 = [] then PARSER_IDEMPOTENCY_SCOPE_DEFAULT c else scope0);
         et = strip (if event_type = [] then ''product_found'' else event_type);
         ek = strip entity_key; ph = strip payload_hash
     in if scope = ''event_only''
        then Inl (ValueError ''event_only scope requires explicit event_id'')
        else (let raw = (if scope = ''entity_only'' then ek @ ''|'' @ et else ek @ ''|'' @ ph @ ''|'' @ et)
              in Inr (''idemp:v1:'' @ scope @ '':'' @ take 48 (tl_sha256 t raw))))"

definition is_replay_safe_event_type :: "sync_settings \<Rightarrow> pystr \<Rightarrow> bool" where
  "is_replay_safe_event_type c event_type = (let et = lower (strip event_type) in
     et = ''product_found'' \<or> (PARSER_ALLOW_SAFE_RESEND_DELTA_EVENTS c
       \<and> et \<in> {''price_changed'', ''out_of_stock'', ''characteristic_added''}))"

section \<open>Replay policy\<close>

definition parse_replay_mode :: "sync_settings \<Rightarrow> replay_mode" where
  "parse_replay_mode c = (let m = lower (strip (if PARSER_REPLAY_MODE_DEFAULT c = [] then ''snapshot_upsert'' else PARSER_REPLAY_MODE_DEFAULT c)) in
     if m = ''delta_if_possible'' then Delta_if_possible else if m = ''reconcile_only'' then Reconcile_only else Snapshot_upsert)"

definition parse_idempotency_scope :: "sync_settings \<Rightarrow> pystr" where
  "parse_idempotency_scope c =
    (let s = lower (strip (if PARSER_IDEMPOTENCY_SCOPE_DEFAULT c = [] then ''entity_payload'' else PARSER_IDEMPOTENCY_SCOPE_DEFAULT c)) in
     if s \<in> {''entity_payload'', ''entity_only'', ''event_only''} then s else ''entity_payload'')"

definition has_trusted_runtime_ids :: "runtime_ids \<Rightarrow> bool" where
  "has_trusted_runtime_ids rt = (strip (or_empty (rt_listing_id rt)) \<noteq> [])"

definition can_safely_resend :: "sync_settings \<Rightarrow> pystr \<Rightarrow> runtime_ids \<Rightarrow> bool" where
  "can_safely_resend c event_type rt = (let et = lower (strip event_type) in
     if et = ''product_found'' then PARSER_ALLOW_SAFE_RESEND_PRODUCT_FOUND c
     else if PARSER_ALLOW_SAFE_RESEND_DELTA_EVENTS c \<and> is_replay_safe_event_type c et then has_trusted_runtime_ids rt
     else False)"

definition should_downgrade_replay_to_product_found :: "sync_settings \<Rightarrow> pystr \<Rightarrow> runtime_ids \<Rightarrow> bool" where
  "should_downgrade_replay_to_product_found c event_type rt = (let et = lower (strip event_type) in
     if et = ''product_found'' then False
     else if is_replay_safe_event_type c et \<and> PARSER_ALLOW_SAFE_RESEND_DELTA_EVENTS c then False
     else \<not> has_trusted_runtime_ids rt)"

definition choose_replay_mode ::
    "tools \<Rightarrow> sync_settings \<Rightarrow> normalized \<Rightarrow> event_type \<Rightarrow> runtime_ids \<Rightarrow> exc + replay_decision" where
  "choose_replay_mode t c nm selected rt =
    (case build_entity_key t (nm_store nm) (blank_to_none (nm_source_id nm)) (nm_url nm) of
       Inl e \<Rightarrow> Inl e
     | Inr entity_key \<Rightarrow>
      (case (if nm_payload_hash nm \<noteq> [] then Inr (nm_payload_hash nm)
             else map_sum id si_payload_hash (build_crm_sync_item t c nm)) of
         Inl e \<Rightarrow> Inl e
       | Inr payload_hash \<Rightarrow>
        (let scope = parse_idempotency_scope c in
         if scope = ''event_only''
         then Inl (ValueError ''PARSER_IDEMPOTENCY_SCOPE_DEFAULT=event_only is invalid for lifecycle build'')
         else
          (let mode = parse_replay_mode c;
               et = strip (event_type_text selected);
               fallback = (et \<noteq> ''product_found'' \<and> \<not> is_replay_safe_event_type c et
                 \<and> mode = Delta_if_possible \<and> \<not> has_trusted_runtime_ids rt)
           in case build_request_idempotency_key t c entity_key payload_hash et scope of
                Inl e \<Rightarrow> Inl e
              | Inr key \<Rightarrow> Inr \<lparr> rd_replay_mode = (if fallback then Snapshot_upsert else mode),
                  rd_request_idempotency_key = strip key, rd_selected_event_type = selected,
                  rd_fallback_to_product_found = fallback,
                  rd_reason = (if fallback then Some ''delta_requires_runtime_ids'' else None),
                  rd_safe_to_resend = can_safely_resend c et rt \<rparr>))))"

section \<open>Downgrading a delta event\<close>

definition downgrade_reason :: "event_type \<Rightarrow> runtime_ids \<Rightarrow> replay_decision \<Rightarrow> pystr" where
  "downgrade_reason original rt rd = join_text '';''
    ([''from_'' @ event_type_text original @ ''_to_product_found''] @
     (if \<not> has_trusted_runtime_ids rt then [''missing_runtime_listing_id''] else []) @
     (if \<not> rd_safe_to_resend rd then [''not_safe_to_resend_delta''] else []) @
     (if rd_replay_mode rd = Reconcile_only then [''reconcile_only_mode''] else []))"

definition should_downgrade_delta_event_to_product_found ::
    "sync_settings \<Rightarrow> event_type \<Rightarrow> runtime_ids \<Rightarrow> replay_decision \<Rightarrow> bool" where
  "should_downgrade_delta_event_to_product_found c event_type rt rd =
    (let et = lower (strip (event_type_text event_type)) in
     if et = ''product_found'' then False
     else if has_trusted_runtime_ids rt then False
     else if should_downgrade_replay_to_product_found c et rt then True
     else rd_replay_mode rd = Reconcile_only)"

section \<open>Identity\<close>

definition clean_id :: "pystr option \<Rightarrow> pystr option" where
  "clean_id v = (case v of None \<Rightarrow> None | Some s \<Rightarrow> let t = strip s in if t = [] then None else Some t)"

definition strip_pairs :: "(pystr, pystr) odict \<Rightarrow> (pystr, pystr) odict" where
  "strip_pairs d = fold (\<lambda>(k, v). od_set (strip k) (strip v)) d []"

definition build_identity_context :: "tools \<Rightarrow> normalized \<Rightarrow> runtime_ids \<Rightarrow> exc + identity_context" where
  "build_identity_context t nm rt =
    (let source_id = blank_to_none (nm_source_id nm) in
     case build_entity_key t (nm_store nm) source_id (nm_url nm) of
       Inl e \<Rightarrow> Inl e
     | Inr entity_key \<Rightarrow> Inr \<lparr>
         ic_entity_key = strip entity_key, ic_external_ids = strip_pairs (item_external_ids nm),
         ic_barcode = map_option strip (blank_to_none (nm_barcode nm)), ic_source_name = strip (nm_store nm),
         ic_source_url = strip (nm_url nm), ic_source_id = map_option strip source_id,
         ic_crm_listing_id = clean_id (rt_listing_id rt), ic_crm_product_id = clean_id (rt_product_id rt) \<rparr>)"

section \<open>Lifecycle policy\<close>

record lifecycle_decision =
  ld_selected_event_type :: event_type
  ld_allowed :: bool
  ld_fallback_applied :: bool
  ld_fallback_reason :: "pystr option"
  ld_required_ids :: "pystr list"
  ld_notes :: "pystr list"

definition ld :: "event_type \<Rightarrow> bool \<Rightarrow> bool \<Rightarrow> pystr option \<Rightarrow> pystr list \<Rightarrow> pystr list \<Rightarrow> lifecycle_decision" where
  "ld et allowed fallback reason required notes = \<lparr> ld_selected_event_type = et, ld_allowed = allowed,
     ld_fallback_applied = fallback, ld_fallback_reason = reason, ld_required_ids = required, ld_notes = notes \<rparr>"

definition default_event_type :: "sync_settings \<Rightarrow> event_type" where
  "default_event_type c =
    (let d = strip (if PARSER_LIFECYCLE_DEFAULT_EVENT c = [] then ''product_found'' else PARSER_LIFECYCLE_DEFAULT_EVENT c)
     in case parse_event_type d of None \<Rightarrow> Product_found | Some et \<Rightarrow> et)"

definition runtime_deltas_enabled :: "sync_settings \<Rightarrow> bool" where
  "runtime_deltas_enabled c = (PARSER_ENABLE_RUNTIME_DELTA_EVENTS c \<and> PARSER_ENABLE_DELTA_EVENTS c)"

definition infer_requested_event_type :: "sync_settings \<Rightarrow> sync_item \<Rightarrow> event_type" where
  "infer_requested_event_type c i =
    (if \<not> PARSER_ENABLE_DELTA_EVENTS c then default_event_type c
     else if PARSER_ENABLE_PRICE_CHANGED_EVENT c \<and> si_change_hint i = Some Price_update then Price_changed
     else if PARSER_ENABLE_OUT_OF_STOCK_EVENT c \<and> si_change_hint i = Some Stock_update then Out_of_stock
     else if PARSER_ENABLE_CHARACTERISTIC_ADDED_EVENT c \<and> si_change_hint i = Some Spec_update then Characteristic_added
     else default_event_type c)"

definition has_spec_change_signal :: "normalized \<Rightarrow> sync_item \<Rightarrow> bool" where
  "has_spec_change_signal nm i = (nm_lifecycle_spec_update nm \<or> si_change_hint i = Some Spec_update)"

definition can_emit_event ::
    "sync_settings \<Rightarrow> pystr \<Rightarrow> identity_context \<Rightarrow> normalized \<Rightarrow> sync_item \<Rightarrow> lifecycle_decision" where
  "can_emit_event c event_type ident nm i =
    (let et = (case parse_event_type event_type of None \<Rightarrow> Product_found | Some et \<Rightarrow> et) in
     if et = Product_found then ld Product_found True False None [] [''product_found_always_safe'']
     else if \<not> runtime_deltas_enabled c
     then ld et False False (Some ''runtime_delta_events_disabled'') []
            [''PARSER_ENABLE_RUNTIME_DELTA_EVENTS_or_PARSER_ENABLE_DELTA_EVENTS_off'']
     else (case et of
        Price_changed \<Rightarrow>
          if \<not> PARSER_ALLOW_PRICE_CHANGED_WITH_RUNTIME_IDS c
          then ld et False False (Some ''price_changed_disabled_by_policy'') [] []
          else if \<not> truthy (ic_crm_listing_id ident)
          then ld et False False (Some ''missing_crm_listing_id'') [''crm_listing_id''] [''price_changed_requires_runtime_listing_id'']
          else ld Price_changed True False None [] [''listing_id_present'']
      | Out_of_stock \<Rightarrow>
          if \<not> PARSER_ALLOW_OUT_OF_STOCK_WITH_RUNTIME_IDS c
          then ld et False False (Some ''out_of_stock_disabled_by_policy'') [] []
          else if \<not> truthy (ic_crm_listing_id ident)
          then ld et False False (Some ''missing_crm_listing_id'') [''crm_listing_id''] [''out_of_stock_requires_runtime_listing_id'']
          else ld Out_of_stock True False None [] [''listing_id_present'']
      | Characteristic_added \<Rightarrow>
          if \<not> PARSER_ALLOW_CHARACTERISTIC_ADDED_WITH_RUNTIME_IDS c
          then ld et False False (Some ''characteristic_added_disabled_by_policy'') [] []
          else if \<not> truthy (ic_crm_product_id ident)
          then ld et False False (Some ''missing_crm_product_id'') [''crm_product_id''] [''characteristic_added_requires_runtime_product_id'']
          else if \<not> has_spec_change_signal nm i
          then ld et False False (Some ''insufficient_spec_change_signal'') [] [''need_lifecycle_spec_update_or_change_hint_spec_update'']
          else ld Characteristic_added True False None [] [''product_id_and_spec_signal_present'']
      | _ \<Rightarrow> ld Product_found True False None [] [''unknown_type_defaulted'']))"

definition choose_lifecycle_event_type ::
    "tools \<Rightarrow> rollout_settings \<Rightarrow> sync_settings \<Rightarrow> normalized \<Rightarrow> runtime_ids \<Rightarrow> pystr option \<Rightarrow> exc + lifecycle_decision" where
  "choose_lifecycle_event_type t ro c nm rt requested_event_type =
    (case build_crm_sync_item t c nm of
       Inl e \<Rightarrow> Inl e
     | Inr i \<Rightarrow>
       if \<not> is_feature_enabled (tl_sha256 t) ro ''lifecycle_delta_events'' (Some (si_source_name i)) (Some (si_entity_key i))
       then Inr (ld Product_found True False None [] [''lifecycle_delta_events_disabled_by_rollout''])
       else
        (case build_identity_context t nm rt of
           Inl e \<Rightarrow> Inl e
         | Inr ident0 \<Rightarrow>
           (let ident = ident0\<lparr>ic_entity_key := si_entity_key i\<rparr>;
                requested = (case requested_event_type of
                    None \<Rightarrow> infer_requested_event_type c i
                  | Some r \<Rightarrow> if strip r = [] then infer_requested_event_type c i
                      else (case parse_event_type (strip r) of None \<Rightarrow> Product_found | Some et \<Rightarrow> et))
            in if requested = Product_found
               then Inr (ld Product_found True False None [] [''explicit_or_default_product_found''])
               else (let probe = can_emit_event c (event_type_text requested) ident nm i in
                 if ld_allowed probe
                 then Inr (ld (ld_selected_event_type probe) True False None (ld_required_ids probe) (ld_notes probe))
                 else if PARSER_FORCE_PRODUCT_FOUND_FALLBACK c
                 then Inr (ld Product_found True True (ld_fallback_reason probe) (ld_required_ids probe)
                        (ld_notes probe @ [''forced_product_found_fallback'']))
                 else Inr (ld Product_found True True (py_or (ld_fallback_reason probe) (Some ''policy_denied_delta''))
                        (ld_required_ids probe) (ld_notes probe @ [''default_safe_product_found'']))))))"

section \<open>Lifecycle events\<close>

text \<open>
  The exported payload: the item itself, or with \<open>ENABLE_DUAL_SHAPE_OUTPUTS\<close> the item
  nested under \<open>primary\<close> and \<open>legacy_shape\<close>.  The deprecation registry is empty for this
  surface, so no field is removed or shadowed.
\<close>

datatype export_data = Plain sync_item | Dual_shape sync_item

definition apply_export_compatibility :: "sync_settings \<Rightarrow> sync_item \<Rightarrow> export_data" where
  "apply_export_compatibility c i = (if ENABLE_DUAL_SHAPE_OUTPUTS c then Dual_shape i else Plain i)"

record lifecycle_event =
  le_event_id :: pystr
  le_event_type :: event_type
  le_identity :: identity_context
  le_payload_hash :: pystr
  le_data :: export_data
  le_request_idempotency_key :: pystr
  le_replay_mode :: replay_mode
  le_original_intent :: "event_type option"

text \<open>\<open>uid\<close> is the fresh \<open>uuid4\<close> of the event.\<close>

definition build_lifecycle_event ::
    "tools \<Rightarrow> rollout_settings \<Rightarrow> sync_settings \<Rightarrow> pystr \<Rightarrow> normalized \<Rightarrow> runtime_ids \<Rightarrow> pystr option
      \<Rightarrow> exc + (lifecycle_event \<times> lifecycle_decision)" where
  "build_lifecycle_event t ro c uid nm rt requested_event_type =
    (case build_crm_sync_item t c nm of Inl e \<Rightarrow> Inl e | Inr i0 \<Rightarrow>
    (case choose_lifecycle_event_type t ro c nm rt requested_event_type of Inl e \<Rightarrow> Inl e | Inr decision \<Rightarrow>
    (case build_identity_context t nm rt of Inl e \<Rightarrow> Inl e | Inr ident0 \<Rightarrow>
    (let intent = ld_selected_event_type decision in
     case choose_replay_mode t c nm intent rt of Inl e \<Rightarrow> Inl e | Inr rd_intent \<Rightarrow>
     (let down = should_downgrade_delta_event_to_product_found c intent rt rd_intent in
      case (if down
            then map_sum id (\<lambda>d. d\<lparr>rd_fallback_to_product_found := True,
                    rd_reason := Some (downgrade_reason intent rt rd_intent), rd_safe_to_resend := True\<rparr>)
                  (choose_replay_mode t c nm Product_found rt)
            else Inr rd_intent) of
        Inl e \<Rightarrow> Inl e
      | Inr rd \<Rightarrow>
        (let i1 = (if down then i0\<lparr>si_change_hint := Some New_product\<rparr> else i0);
             i2 = (if PARSER_INCLUDE_IDEMPOTENCY_KEY_IN_PAYLOAD c \<and> rd_request_idempotency_key rd \<noteq> []
                   then i1\<lparr>si_request_idempotency_key := Some (rd_request_idempotency_key rd)\<rparr> else i1)
         in Inr (\<lparr> le_event_id = strip uid, le_event_type = (if down then Product_found else intent),
              le_identity = ident0\<lparr>ic_entity_key := si_entity_key i0\<rparr>, le_payload_hash = strip (si_payload_hash i2),
              le_data = apply_export_compatibility c i2,
              le_request_idempotency_key = strip (rd_request_idempotency_key rd),
              le_replay_mode = rd_replay_mode rd, le_original_intent = (if down then Some intent else None) \<rparr>,
            decision)))))))"

definition parser_sync_event_from_lifecycle :: "normalized \<Rightarrow> lifecycle_event \<Rightarrow> exc + normalized sync_event" where
  "parser_sync_event_from_lifecycle nm e =
    (case le_data e of
       Dual_shape i \<Rightarrow> Inl (ValueError ''validation error for CrmSyncItem: entity_key Field required'')
     | Plain i \<Rightarrow>
        if si_payload_hash i \<noteq> le_payload_hash e
        then Inl (ValueError ''lifecycle payload_hash mismatch vs CrmSyncItem'')
        else Inr \<lparr> se_event_id = le_event_id e, se_event_type = le_event_type e, se_identity = le_identity e, se_data = i,
               se_request_idempotency_key = le_request_idempotency_key e, se_replay_mode = le_replay_mode e,
               se_original_intent = le_original_intent e, se_normalized = Some nm \<rparr>)"

text \<open>The two calls as the pipeline makes them.\<close>

definition build_event ::
    "tools \<Rightarrow> rollout_settings \<Rightarrow> sync_settings \<Rightarrow> pystr \<Rightarrow> normalized \<Rightarrow> runtime_ids \<Rightarrow> pystr option \<Rightarrow> exc + normalized sync_event" where
  "build_event t ro c uid nm rt requested =
    (case build_lifecycle_event t ro c uid nm rt requested of
       Inl e \<Rightarrow> Inl e | Inr (e, d) \<Rightarrow> parser_sync_event_from_lifecycle nm e)"

section \<open>Reconciliation\<close>

definition no_reconcile :: reconciliation_decision where
  "no_reconcile = \<lparr> rcd_should_reconcile = False, rcd_via = Via_none, rcd_reason = None \<rparr>"

definition decide_reconciliation :: "sync_settings \<Rightarrow> apply_result option \<Rightarrow> reconciliation_decision" where
  "decide_reconciliation c res =
    (let do = (\<lambda>via reason. \<lparr> rcd_should_reconcile = True, rcd_via = via, rcd_reason = Some reason \<rparr>) in
     case res of
       None \<Rightarrow> if PARSER_ENABLE_RESPONSE_LOSS_RECONCILIATION c then do Via_resend_product_found ''response_lost'' else no_reconcile
     | Some r \<Rightarrow>
        if ar_signal r = Some Missing_ids \<and> PARSER_RECONCILE_ON_MISSING_IDS c then do Via_runtime_ids ''success_missing_crm_ids''
        else if ar_signal r = Some Ambiguous_action \<and> PARSER_RECONCILE_ON_AMBIGUOUS_RESULT c then do Via_runtime_ids ''ambiguous_sync_result''
        else if ar_signal r = Some Response_lost \<and> PARSER_ENABLE_RESPONSE_LOSS_RECONCILIATION c
        then do Via_resend_product_found ''response_lost''
        else no_reconcile)"

definition reconciled :: "bool \<Rightarrow> pystr option \<Rightarrow> pystr option \<Rightarrow> pystr option \<Rightarrow> reconcile_source \<Rightarrow> pystr list \<Rightarrow> reconciliation_result" where
  "reconciled resolved listing product action src notes = \<lparr> rc_resolved = resolved, rc_crm_listing_id = map_option strip listing,
     rc_crm_product_id = map_option strip product, rc_action = map_option strip action, rc_source = src, rc_notes = notes \<rparr>"

text \<open>What \<open>reconcile_missing_ids\<close> does once the response itself has no identifier.\<close>

definition reconcile_without_response :: "sync_settings \<Rightarrow> runtime_ids \<Rightarrow> reconciliation_result" where
  "reconcile_without_response c rt =
    (let lid = clean_id (rt_listing_id rt); pid = clean_id (rt_product_id rt) in
     if PARSER_ENABLE_RUNTIME_RECONCILIATION c \<and> (truthy lid \<or> truthy pid)
     then reconciled True lid pid None From_runtime [''used_runtime_bridge'']
     else if PARSER_ENABLE_CATALOG_FIND_RECONCILIATION c
     then reconciled False None None None From_catalog_find [''catalog_find_enabled_but_not_implemented_in_parser_transport'']
     else if PARSER_ALLOW_SAFE_RESEND_PRODUCT_FOUND c
     then reconciled False None None None From_resend [''recommend_safe_resend_product_found_if_policy_allows'']
     else reconciled False None None None From_response [''unresolved''])"

definition reconcile_missing_ids :: "sync_settings \<Rightarrow> runtime_ids \<Rightarrow> apply_result option \<Rightarrow> reconciliation_result" where
  "reconcile_missing_ids c rt res =
    (case res of
       None \<Rightarrow> reconcile_without_response c rt
     | Some r \<Rightarrow>
        if ar_success r \<and> (truthy (ar_crm_listing_id r) \<or> truthy (ar_crm_product_id r))
        then reconciled True (ar_crm_listing_id r) (ar_crm_product_id r) (ar_action r) From_response []
        else reconcile_without_response c rt)"

definition reconcile_after_ambiguous_response :: "sync_settings \<Rightarrow> runtime_ids \<Rightarrow> reconciliation_result" where
  "reconcile_after_ambiguous_response c rt =
    (let base = reconcile_missing_ids c rt None
     in base\<lparr>rc_notes := dict_fromkeys (rc_notes base @ [''ambiguous_action''])\<rparr>)"

section \<open>Facts\<close>

text \<open>\<open>hexdigest()\<close> is 64 hexadecimal digits.\<close>

definition is_hex :: "char \<Rightarrow> bool" where
  "is_hex c = (c \<in> set ''0123456789abcdef'')"

definition hex_digest :: "tools \<Rightarrow> bool" where
  "hex_digest t \<longleftrightarrow> (\<forall>s. length (tl_sha256 t s) = 64 \<and> list_all is_hex (tl_sha256 t s))"

lemma hex_not_space: "is_hex c \<Longrightarrow> \<not> is_py_space c"
  by (auto simp: is_hex_def is_py_space_def)

lemma strip_id: "s \<noteq> [] \<Longrightarrow> \<not> is_py_space (hd s) \<Longrightarrow> \<not> is_py_space (last s) \<Longrightarrow> strip s = s"
  by (simp add: strip_def dropWhile_eq_self hd_rev)

lemma strip_payload_hash:
  assumes "hex_digest t" shows "strip (build_payload_hash t b) = build_payload_hash t b"
proof (rule strip_id)
  let ?h = "tl_sha256 t (tl_dumps t (sort_keys b))"
  have "length ?h = 64" and hex: "list_all is_hex ?h" using assms by (simp_all add: hex_digest_def)
  then have "?h \<noteq> []" by auto
  with hex have "is_hex (last ?h)" by (simp add: list_all_iff)
  with \<open>?h \<noteq> []\<close> show "\<not> is_py_space (last (build_payload_hash t b))" by (simp add: build_payload_hash_def hex_not_space)
qed (simp_all add: build_payload_hash_def is_py_space_def)

lemma parse_strip_text [simp]: "strip (event_type_text et) = event_type_text et"
  by (rule strip_id; cases et) (simp_all add: event_type_text_def is_py_space_def)

lemma event_text_inject [simp]: "event_type_text a = event_type_text b \<longleftrightarrow> a = b"
  using parse_event_type_text by (metis option.inject)

lemma event_text_found [simp]:
  "event_type_text et = ''product_found'' \<longleftrightarrow> et = Product_found" "lower (event_type_text et) = event_type_text et"
  by (cases et; simp add: event_type_text_def lower_def lower_char_def)+

definition request_key :: "tools \<Rightarrow> sync_settings \<Rightarrow> normalized \<Rightarrow> pystr \<Rightarrow> pystr \<Rightarrow> event_type \<Rightarrow> pystr" where
  "request_key t c nm entity_key item_hash et =
    (let ph = (if nm_payload_hash nm \<noteq> [] then nm_payload_hash nm else item_hash);
         ek = strip entity_key; scope = parse_idempotency_scope c
     in strip (''idemp:v1:'' @ scope @ '':'' @ take 48 (tl_sha256 t
          (if scope = ''entity_only'' then ek @ ''|'' @ event_type_text et
           else ek @ ''|'' @ strip ph @ ''|'' @ event_type_text et))))"

lemma parse_scope_nonempty [simp]: "parse_idempotency_scope c \<noteq> []"
  by (simp add: parse_idempotency_scope_def Let_def)

lemma event_text_nonempty [simp]: "event_type_text et \<noteq> []"
  by (cases et) (simp_all add: event_type_text_def)

text \<open>Choosing the replay mode fails only for an unusable URL or the event-only scope.\<close>

lemma choose_replay_eq:
  assumes "build_crm_sync_item t c nm = Inr i"
  shows "choose_replay_mode t c nm et rt =
    (if parse_idempotency_scope c = ''event_only''
     then Inl (ValueError ''PARSER_IDEMPOTENCY_SCOPE_DEFAULT=event_only is invalid for lifecycle build'')
     else (let fallback = (et \<noteq> Product_found \<and> \<not> is_replay_safe_event_type c (event_type_text et)
              \<and> parse_replay_mode c = Delta_if_possible \<and> \<not> has_trusted_runtime_ids rt)
       in Inr \<lparr> rd_replay_mode = (if fallback then Snapshot_upsert else parse_replay_mode c),
            rd_request_idempotency_key = request_key t c nm (si_entity_key i) (si_payload_hash i) et,
            rd_selected_event_type = et, rd_fallback_to_product_found = fallback,
            rd_reason = (if fallback then Some ''delta_requires_runtime_ids'' else None),
            rd_safe_to_resend = can_safely_resend c (event_type_text et) rt \<rparr>))"
  unfolding choose_replay_mode_def build_item_entity(1) [OF assms] assms
  by (simp add: build_request_idempotency_key_def request_key_def Let_def)

text \<open>What a chosen delta event presupposes.\<close>

definition delta_justified :: "sync_settings \<Rightarrow> normalized \<Rightarrow> sync_item \<Rightarrow> runtime_ids \<Rightarrow> event_type \<Rightarrow> bool" where
  "delta_justified c nm i rt et =
    (runtime_deltas_enabled c
     \<and> (case et of
          Price_changed \<Rightarrow> PARSER_ALLOW_PRICE_CHANGED_WITH_RUNTIME_IDS c \<and> truthy (clean_id (rt_listing_id rt))
        | Out_of_stock \<Rightarrow> PARSER_ALLOW_OUT_OF_STOCK_WITH_RUNTIME_IDS c \<and> truthy (clean_id (rt_listing_id rt))
        | Characteristic_added \<Rightarrow> PARSER_ALLOW_CHARACTERISTIC_ADDED_WITH_RUNTIME_IDS c
            \<and> truthy (clean_id (rt_product_id rt)) \<and> has_spec_change_signal nm i
        | Product_found \<Rightarrow> True))"

lemma can_emit_justified:
  assumes "ld_allowed (can_emit_event c (event_type_text et) ident nm i)" "et \<noteq> Product_found"
    "ic_crm_listing_id ident = clean_id (rt_listing_id rt)" "ic_crm_product_id ident = clean_id (rt_product_id rt)"
  shows "delta_justified c nm i rt et \<and> ld_selected_event_type (can_emit_event c (event_type_text et) ident nm i) = et"
  using assms
  by (cases et) (auto simp: can_emit_event_def ld_def delta_justified_def split: if_splits)

lemma build_identity_eq:
  assumes "build_crm_sync_item t c nm = Inr i"
  obtains ident where "build_identity_context t nm rt = Inr ident"
    "ic_crm_listing_id ident = clean_id (rt_listing_id rt)" "ic_crm_product_id ident = clean_id (rt_product_id rt)"
  using build_item_entity(1) [OF assms] by (simp add: build_identity_context_def Let_def)

definition delta_feature_on :: "tools \<Rightarrow> rollout_settings \<Rightarrow> sync_item \<Rightarrow> bool" where
  "delta_feature_on t ro i =
    is_feature_enabled (tl_sha256 t) ro ''lifecycle_delta_events'' (Some (si_source_name i)) (Some (si_entity_key i))"

lemma choose_lifecycle_cases:
  assumes item: "build_crm_sync_item t c nm = Inr i"
  obtains d where "choose_lifecycle_event_type t ro c nm rt req = Inr d" "ld_allowed d"
    "ld_selected_event_type d \<noteq> Product_found \<longrightarrow>
       delta_feature_on t ro i \<and> delta_justified c nm i rt (ld_selected_event_type d)"
proof -
  obtain ident where ident: "build_identity_context t nm rt = Inr ident"
    "ic_crm_listing_id ident = clean_id (rt_listing_id rt)" "ic_crm_product_id ident = clean_id (rt_product_id rt)"
    by (rule build_identity_eq [OF item])
  define requested where "requested = (case req of
      None \<Rightarrow> infer_requested_event_type c i
    | Some r \<Rightarrow> if strip r = [] then infer_requested_event_type c i
        else (case parse_event_type (strip r) of None \<Rightarrow> Product_found | Some et \<Rightarrow> et))"
  define probe where "probe = can_emit_event c (event_type_text requested) (ident\<lparr>ic_entity_key := si_entity_key i\<rparr>) nm i"
  have ids: "ic_crm_listing_id (ident\<lparr>ic_entity_key := si_entity_key i\<rparr>) = clean_id (rt_listing_id rt)"
    "ic_crm_product_id (ident\<lparr>ic_entity_key := si_entity_key i\<rparr>) = clean_id (rt_product_id rt)"
    by (simp_all add: ident)
  have eq: "choose_lifecycle_event_type t ro c nm rt req =
     (if \<not> delta_feature_on t ro i
      then Inr (ld Product_found True False None [] [''lifecycle_delta_events_disabled_by_rollout''])
      else if requested = Product_found
      then Inr (ld Product_found True False None [] [''explicit_or_default_product_found''])
      else if ld_allowed probe
      then Inr (ld (ld_selected_event_type probe) True False None (ld_required_ids probe) (ld_notes probe))
      else if PARSER_FORCE_PRODUCT_FOUND_FALLBACK c
      then Inr (ld Product_found True True (ld_fallback_reason probe) (ld_required_ids probe)
             (ld_notes probe @ [''forced_product_found_fallback'']))
      else Inr (ld Product_found True True (py_or (ld_fallback_reason probe) (Some ''policy_denied_delta''))
             (ld_required_ids probe) (ld_notes probe @ [''default_safe_product_found''])))"
    unfolding choose_lifecycle_event_type_def item ident sum.case Let_def delta_feature_on_def requested_def [symmetric]
      probe_def [symmetric] by simp
  have "delta_justified c nm i rt requested \<and> ld_selected_event_type probe = requested"
    if "ld_allowed probe" "requested \<noteq> Product_found"
    using can_emit_justified [OF _ _ ids] that unfolding probe_def by blast
  then have "\<exists>d. choose_lifecycle_event_type t ro c nm rt req = Inr d \<and> ld_allowed d \<and> (ld_selected_event_type d \<noteq> Product_found
      \<longrightarrow> delta_feature_on t ro i \<and> delta_justified c nm i rt (ld_selected_event_type d))"
    by (simp add: eq ld_def)
  with that show thesis by blast
qed

lemma request_key_nonempty [simp]: "request_key t c nm ek ph et \<noteq> []"
proof -
  have "strip (CHR ''i'' # s) \<noteq> []" for s
  proof
    assume "strip (CHR ''i'' # s) = []"
    then have "list_all is_py_space (CHR ''i'' # s)"
      by (auto simp: strip_def list_all_iff dropWhile_eq_Nil_conv is_py_space_def split: if_splits dest: set_dropWhileD)
    then show False by (simp add: is_py_space_def)
  qed
  then show ?thesis by (simp add: request_key_def Let_def)
qed

lemma request_key_strip [simp]: "strip (request_key t c nm ek ph et) = request_key t c nm ek ph et"
  by (simp add: request_key_def Let_def)

text \<open>What the pipeline gets back for a product: everything of the event that matters.\<close>

definition event_built_from :: "tools \<Rightarrow> rollout_settings \<Rightarrow> sync_settings \<Rightarrow> pystr \<Rightarrow> normalized \<Rightarrow> runtime_ids \<Rightarrow> sync_item
    \<Rightarrow> event_type \<Rightarrow> normalized sync_event \<Rightarrow> bool" where
  "event_built_from t ro c uid nm rt i intent e \<longleftrightarrow>
    se_event_id e = strip uid \<and> se_normalized e = Some nm
    \<and> fp e = (si_entity_key i, si_payload_hash i) \<and> si_source_name (se_data e) = nm_store nm
    \<and> ic_entity_key (se_identity e) = si_entity_key i
    \<and> ic_crm_listing_id (se_identity e) = clean_id (rt_listing_id rt)
    \<and> ic_crm_product_id (se_identity e) = clean_id (rt_product_id rt)
    \<and> se_request_idempotency_key e = request_key t c nm (si_entity_key i) (si_payload_hash i) (se_event_type e)
    \<and> si_request_idempotency_key (se_data e)
        = (if PARSER_INCLUDE_IDEMPOTENCY_KEY_IN_PAYLOAD c then Some (se_request_idempotency_key e) else None)
    \<and> (intent \<noteq> Product_found \<longrightarrow> delta_feature_on t ro i \<and> delta_justified c nm i rt intent)
    \<and> (if se_original_intent e = None then se_event_type e = intent
         \<and> (intent \<noteq> Product_found \<longrightarrow> has_trusted_runtime_ids rt \<or> PARSER_ALLOW_SAFE_RESEND_DELTA_EVENTS c)
       else se_original_intent e = Some intent \<and> intent \<noteq> Product_found \<and> se_event_type e = Product_found
         \<and> \<not> has_trusted_runtime_ids rt \<and> si_change_hint (se_data e) = Some New_product)"

lemma downgrade_cases:
  assumes "\<not> should_downgrade_delta_event_to_product_found c et rt rd" "et \<noteq> Product_found"
  shows "has_trusted_runtime_ids rt \<or> PARSER_ALLOW_SAFE_RESEND_DELTA_EVENTS c"
  using assms
  by (auto simp: should_downgrade_delta_event_to_product_found_def should_downgrade_replay_to_product_found_def Let_def
      split: if_splits)

lemma downgrade_only:
  assumes "should_downgrade_delta_event_to_product_found c et rt rd"
  shows "et \<noteq> Product_found \<and> \<not> has_trusted_runtime_ids rt"
  using assms
  by (simp add: should_downgrade_delta_event_to_product_found_def Let_def split: if_splits)

lemma build_event_built:
  assumes item: "build_crm_sync_item t c nm = Inr i" and scope: "parse_idempotency_scope c \<noteq> ''event_only''"
    and hex: "hex_digest t" and plain: "\<not> ENABLE_DUAL_SHAPE_OUTPUTS c"
  obtains e intent where "build_event t ro c uid nm rt req = Inr e" "event_built_from t ro c uid nm rt i intent e"
proof -
  obtain ident where ident: "build_identity_context t nm rt = Inr ident"
    "ic_crm_listing_id ident = clean_id (rt_listing_id rt)" "ic_crm_product_id ident = clean_id (rt_product_id rt)"
    by (rule build_identity_eq [OF item])
  obtain d where d: "choose_lifecycle_event_type t ro c nm rt req = Inr d" "ld_allowed d"
    "ld_selected_event_type d \<noteq> Product_found \<longrightarrow> delta_feature_on t ro i \<and> delta_justified c nm i rt (ld_selected_event_type d)"
    by (rule choose_lifecycle_cases [OF item, where ro = ro and rt = rt and req = req])
  let ?intent = "ld_selected_event_type d"
  let ?key = "request_key t c nm (si_entity_key i) (si_payload_hash i)"
  obtain rd where rd: "choose_replay_mode t c nm ?intent rt = Inr rd" "rd_request_idempotency_key rd = ?key ?intent"
    by (simp add: choose_replay_eq [OF item] scope Let_def)
  obtain rd0 where rd0: "choose_replay_mode t c nm Product_found rt = Inr rd0"
    "rd_request_idempotency_key rd0 = ?key Product_found"
    by (simp add: choose_replay_eq [OF item] scope Let_def)
  have hash: "strip (si_payload_hash i) = si_payload_hash i"
    using item strip_payload_hash [OF hex] by (auto simp: build_crm_sync_item_def Let_def split: sum.splits)
  note facts = build_item_entity [OF item]
  show thesis
  proof (cases "should_downgrade_delta_event_to_product_found c ?intent rt rd")
    case True
    then have "\<exists>e. build_event t ro c uid nm rt req = Inr e \<and> event_built_from t ro c uid nm rt i ?intent e"
      using downgrade_only [OF True] d(3) plain
      by (simp add: build_event_def build_lifecycle_event_def item d(1) ident rd(1) rd0 Let_def hash
          parser_sync_event_from_lifecycle_def apply_export_compatibility_def event_built_from_def fp_def facts(2,3))
    with that show thesis by blast
  next
    case False
    then have "\<exists>e. build_event t ro c uid nm rt req = Inr e \<and> event_built_from t ro c uid nm rt i ?intent e"
      using downgrade_cases [OF False] d(3) plain
      by (simp add: build_event_def build_lifecycle_event_def item d(1) ident rd Let_def hash
          parser_sync_event_from_lifecycle_def apply_export_compatibility_def event_built_from_def fp_def facts(2,3))
    with that show thesis by blast
  qed
qed

section \<open>Properties\<close>

text \<open>Building an event fails for these reasons only.\<close>

lemma build_event_fails:
  assumes "hex_digest t"
    and "(\<nexists>u. canonicalize_url (nm_url nm) = Inr u) \<or> parse_idempotency_scope c = ''event_only'' \<or> ENABLE_DUAL_SHAPE_OUTPUTS c"
  shows "isl (build_event t ro c uid nm rt req)"
proof (cases "build_crm_sync_item t c nm")
  case (Inl e)
  then show ?thesis by (simp add: build_event_def build_lifecycle_event_def)
next
  case item: (Inr i)
  then have "\<exists>u. canonicalize_url (nm_url nm) = Inr u" using build_item_succeeds_iff by blast
  with assms(2) have bad: "parse_idempotency_scope c = ''event_only'' \<or> ENABLE_DUAL_SHAPE_OUTPUTS c" by blast
  show ?thesis
  proof (cases "parse_idempotency_scope c = ''event_only''")
    case True
    then show ?thesis
      by (simp add: build_event_def build_lifecycle_event_def item choose_replay_eq [OF item] Let_def split: sum.split)
  next
    case False
    with bad show ?thesis
      by (simp add: build_event_def build_lifecycle_event_def item parser_sync_event_from_lifecycle_def
          apply_export_compatibility_def Let_def split: sum.split)
  qed
qed

text \<open>A product built once can be built again, and it is the same delivery.\<close>

lemma build_event_inv:
  assumes "hex_digest t" "build_event t ro c uid nm rt req = Inr e"
  obtains i intent where "build_crm_sync_item t c nm = Inr i" "event_built_from t ro c uid nm rt i intent e"
    "parse_idempotency_scope c \<noteq> ''event_only''" "\<not> ENABLE_DUAL_SHAPE_OUTPUTS c"
proof -
  have ok: "parse_idempotency_scope c \<noteq> ''event_only''" "\<not> ENABLE_DUAL_SHAPE_OUTPUTS c" "\<exists>u. canonicalize_url (nm_url nm) = Inr u"
    using build_event_fails [OF assms(1), of nm c ro uid rt req] assms(2) by auto
  then obtain i where i: "build_crm_sync_item t c nm = Inr i" using build_item_succeeds_iff by blast
  from build_event_built [OF i ok(1) assms(1) ok(2), where ro = ro and uid = uid and rt = rt and req = req]
  show thesis using that [OF i _ ok(1,2)] assms(2) by force
qed

lemma build_event_again:
  assumes "hex_digest t" "build_event t ro c uid nm rt req = Inr e"
  obtains e' where "build_event t ro' c uid' nm rt' req' = Inr e'" "fp e' = fp e"
proof (rule build_event_inv [OF assms])
  fix i intent assume i: "build_crm_sync_item t c nm = Inr i" and e: "event_built_from t ro c uid nm rt i intent e"
    and ok: "parse_idempotency_scope c \<noteq> ''event_only''" "\<not> ENABLE_DUAL_SHAPE_OUTPUTS c"
  from build_event_built [OF i ok(1) assms(1) ok(2), where ro = ro' and uid = uid' and rt = rt' and req = req']
  obtain e' intent' where "build_event t ro' c uid' nm rt' req' = Inr e'" "event_built_from t ro' c uid' nm rt' i intent' e'" by blast
  with e that show thesis by (simp add: event_built_from_def)
qed


lemma sample_hex: "hex_digest sample_tools"
  by (simp add: hex_digest_def sample_tools_def is_hex_def list_all_iff)

definition no_ids :: runtime_ids where
  "no_ids = \<lparr> rt_listing_id = None, rt_product_id = None \<rparr>"

lemma sample_scope [simp]: "parse_idempotency_scope sample_sync = ''entity_payload''" "\<not> ENABLE_DUAL_SHAPE_OUTPUTS sample_sync"
  by code_simp+

lemma sample_url: "canonicalize_url (nm_url sample_normalized) = Inr ''https://shop.uz/p/1''"
  by code_simp



definition listing_known :: runtime_ids where
  "listing_known = \<lparr> rt_listing_id = Some ''L1'', rt_product_id = None \<rparr>"

lemma sample_delta:
  "map_sum id se_event_type (build_event sample_tools sample_rollout sample_sync ''u1'' sample_normalized listing_known None)
   = Inr Price_changed"
  by code_simp


text \<open>C18. Replays are recognisable: two builds for the same product, whatever the event
  identifiers, runtime identifiers, rollout settings and requested types, are the same
  delivery, and when they end in the same event type they carry the same idempotency
  key, which is also the key inside the payload when it is included there.\<close>

theorem idempotency_key_stable:
  assumes "hex_digest t"
    and "build_event t ro1 c uid1 nm rt1 req1 = Inr e1" and "build_event t ro2 c uid2 nm rt2 req2 = Inr e2"
  shows "fp e1 = fp e2
    \<and> (se_event_type e1 = se_event_type e2 \<longrightarrow> se_request_idempotency_key e1 = se_request_idempotency_key e2)
    \<and> se_request_idempotency_key e1 \<noteq> []
    \<and> (PARSER_INCLUDE_IDEMPOTENCY_KEY_IN_PAYLOAD c \<longrightarrow>
         si_request_idempotency_key (se_data e1) = Some (se_request_idempotency_key e1))"
proof -
  obtain i n1 where i: "build_crm_sync_item t c nm = Inr i" and n1: "event_built_from t ro1 c uid1 nm rt1 i n1 e1"
    by (rule build_event_inv [OF assms(1,2)])
  obtain n2 where n2: "event_built_from t ro2 c uid2 nm rt2 i n2 e2"
    using build_event_inv [OF assms(1,3)] i by force
  have "fp e1 = fp e2" using n1 n2 by (simp add: event_built_from_def)
  moreover have "se_request_idempotency_key e1 = request_key t c nm (si_entity_key i) (si_payload_hash i) (se_event_type e1)"
    "se_request_idempotency_key e2 = request_key t c nm (si_entity_key i) (si_payload_hash i) (se_event_type e2)"
    "si_request_idempotency_key (se_data e1)
       = (if PARSER_INCLUDE_IDEMPOTENCY_KEY_IN_PAYLOAD c then Some (se_request_idempotency_key e1) else None)"
    using n1 n2 by (simp_all add: event_built_from_def)
  ultimately show ?thesis by simp
qed

theorem idempotency_key_stable_witness:
  "\<exists>e1 e2. build_event sample_tools sample_rollout sample_sync ''u1'' sample_normalized no_ids None = Inr e1
     \<and> build_event sample_tools sample_rollout sample_sync ''u2'' sample_normalized no_ids (Some ''product_found'') = Inr e2
     \<and> fp e1 = fp e2"
proof -
  obtain i where i: "build_crm_sync_item sample_tools sample_sync sample_normalized = Inr i"
    using build_item_succeeds_iff sample_url by blast
  obtain e1 n1 where e1: "build_event sample_tools sample_rollout sample_sync ''u1'' sample_normalized no_ids None = Inr e1"
    by (rule build_event_built [OF i _ sample_hex, where ro = sample_rollout and uid = "''u1''" and rt = no_ids and req = None]) simp_all
  obtain e2 n2 where e2: "build_event sample_tools sample_rollout sample_sync ''u2'' sample_normalized no_ids (Some ''product_found'') = Inr e2"
    by (rule build_event_built [OF i _ sample_hex, where ro = sample_rollout and uid = "''u2''" and rt = no_ids
          and req = "Some ''product_found''"]) simp_all
  from idempotency_key_stable [OF sample_hex e1 e2] e1 e2 show ?thesis by blast
qed

end
