(* ===== verification/Sync_Pipeline.thy ===== *)
theory Sync_Pipeline imports Lifecycle Apply_Classifier begin

text \<open>
  \<^verbatim>\<open>infrastructure/pipelines/sync_pipeline.py\<close>: the pipeline that turns scraped items into
  lifecycle events, batches them, sends the batches to the CRM and applies the results.
  The transport is an oracle that answers the n-th batch; a handler returns the exception
  it raises, if any, together with the state it leaves.  Logging, tracing and performance
  snapshots are left out.  A handler reads the clock once (\<open>now\<close>).
\<close>

section \<open>State\<close>

record sync_metrics =
  mt_items_seen :: nat
  mt_items_deduped :: nat
  mt_items_sent :: nat
  mt_items_synced :: nat
  mt_items_failed :: nat
  mt_duplicate_payload_skips :: nat
  mt_batch_flushes :: nat
  mt_batch_requests :: nat
  mt_batch_items :: nat
  mt_batch_items_applied :: nat
  mt_batch_items_rejected :: nat
  mt_batch_items_retryable :: nat
  mt_batch_items_requeued :: nat
  mt_batch_partial_failures :: nat
  mt_batch_transport_failures :: nat
  mt_malformed_batch_responses :: nat
  mt_runtime_id_updates :: nat

definition no_metrics :: sync_metrics where
  "no_metrics = \<lparr> mt_items_seen = 0, mt_items_deduped = 0, mt_items_sent = 0, mt_items_synced = 0, mt_items_failed = 0,
     mt_duplicate_payload_skips = 0, mt_batch_flushes = 0, mt_batch_requests = 0, mt_batch_items = 0,
     mt_batch_items_applied = 0, mt_batch_items_rejected = 0, mt_batch_items_retryable = 0, mt_batch_items_requeued = 0,
     mt_batch_partial_failures = 0, mt_batch_transport_failures = 0, mt_malformed_batch_responses = 0,
     mt_runtime_id_updates = 0 \<rparr>"

type_synonym event = "normalized sync_event"

text \<open>
  \<open>sp_sent\<close> is the history of the batches handed to the transport and \<open>sp_uids\<close> the number
  of event identifiers drawn so far; the code keeps neither.
\<close>

record pipeline =
  sp_registry :: registry
  sp_bridge :: bridge
  sp_journal :: journal
  sp_coordinator :: "normalized coordinator"
  sp_attempts :: "(pystr, int) odict"
  sp_requeued :: "pystr set"
  sp_resends :: "(pystr, int) odict"
  sp_metrics :: sync_metrics
  sp_sent :: "event list list"
  sp_uids :: nat

text \<open>What \<open>send_batch_events\<close> does: return, raise one of its two known exceptions, or another one.\<close>

datatype outcome =
    Responded batch_result
  | Malformed_response "batch_result option"
  | Transport_error exc
  | Send_error exc

record sync_ctx =
  cx_tools :: tools
  cx_rollout :: rollout_settings
  cx_settings :: sync_settings
  cx_uid :: "nat \<Rightarrow> pystr"
  cx_send :: "nat \<Rightarrow> event list \<Rightarrow> outcome"

definition open_spider :: "rat \<Rightarrow> pipeline" where
  "open_spider now = \<lparr> sp_registry = new_registry, sp_bridge = [], sp_journal = new_journal,
     sp_coordinator = mark_flushed now (new_coordinator now), sp_attempts = [], sp_requeued = {}, sp_resends = [],
     sp_metrics = no_metrics, sp_sent = [], sp_uids = 0 \<rparr>"

definition release :: "event list \<Rightarrow> pipeline \<Rightarrow> pipeline" where
  "release es p = p\<lparr>sp_coordinator := release_fingerprints es (sp_coordinator p)\<rparr>"

section \<open>Reconciliation\<close>

definition maybe_enqueue_product_found_resend ::
    "sync_ctx \<Rightarrow> rat \<Rightarrow> event \<Rightarrow> normalized \<Rightarrow> pipeline \<Rightarrow> (exc + bool) \<times> pipeline" where
  "maybe_enqueue_product_found_resend k now event nm p =
    (let c = cx_settings k; ek = si_entity_key (se_data event);
         n = (case od_get ek (sp_resends p) of None \<Rightarrow> 0 | Some n \<Rightarrow> n)
     in if n \<ge> PARSER_RECONCILE_MAX_ATTEMPTS_PER_RUN c then (Inr False, p)
        else if \<not> PARSER_ALLOW_SAFE_RESEND_PRODUCT_FOUND c then (Inr False, p)
        else
         (let p1 = p\<lparr>sp_resends := od_set ek (n + 1) (sp_resends p), sp_uids := Suc (sp_uids p)\<rparr>;
              rt = get_runtime_ids ek (sp_bridge p1)
          in case build_event (cx_tools k) (cx_rollout k) c (cx_uid k (sp_uids p)) nm rt (Some ''product_found'') of
               Inl x \<Rightarrow> (Inl x, p1)
             | Inr ev2 \<Rightarrow>
                (let journal = (if se_request_idempotency_key ev2 \<noteq> []
                       then remember_send_attempt c (se_request_idempotency_key ev2) (sp_journal p1) else sp_journal p1)
                 in (Inr True, p1\<lparr>sp_journal := journal, sp_coordinator := snd (add_event now ev2 (sp_coordinator p1))\<rparr>))))"

definition empty_normalized :: normalized where
  "empty_normalized = \<lparr> nm_store = [], nm_url = [], nm_title_clean = None, nm_title = None, nm_source_id = None,
     nm_external_ids = [], nm_barcode = None, nm_model_name = None, nm_category_hint = None, nm_price_raw = None,
     nm_price_value = None, nm_price = None, nm_currency = None, nm_in_stock = None, nm_brand = None, nm_raw_specs = [],
     nm_typed_specs = [], nm_normalization_warnings = [], nm_description = None, nm_image_urls = [],
     nm_lifecycle_spec_update = False, nm_payload_hash = [] \<rparr>"

text \<open>The merged result, or \<^const>\<open>None\<close> when the success stays unresolved.\<close>

definition reconcile_success_apply ::
    "sync_ctx \<Rightarrow> rat \<Rightarrow> event \<Rightarrow> apply_result \<Rightarrow> pipeline \<Rightarrow> (exc + apply_result option) \<times> pipeline" where
  "reconcile_success_apply k now event res p =
    (let c = cx_settings k; ek = si_entity_key (se_data event) in
     if \<not> is_feature_enabled (tl_sha256 (cx_tools k)) (cx_rollout k) ''replay_reconciliation''
          (Some (si_source_name (se_data event))) (Some ek)
     then (Inr (Some (res\<lparr>ar_signal := None\<rparr>)), p)
     else if ar_signal res = None then (Inr (Some res), p)
     else
      (let nm = (case se_normalized event of None \<Rightarrow> empty_normalized | Some nm \<Rightarrow> nm);
           rt = get_runtime_ids ek (sp_bridge p);
           r = (if ar_signal res = Some Ambiguous_action then reconcile_after_ambiguous_response c rt
                else reconcile_missing_ids c rt (Some res));
           p1 = p\<lparr>sp_journal := remember_reconciliation c ek r (sp_journal p)\<rparr>
       in if rc_resolved r \<and> (truthy (rc_crm_listing_id r) \<or> truthy (rc_crm_product_id r))
          then (Inr (Some (res\<lparr>ar_crm_listing_id := py_or (rc_crm_listing_id r) (ar_crm_listing_id res),
                               ar_crm_product_id := py_or (rc_crm_product_id r) (ar_crm_product_id res),
                               ar_signal := None\<rparr>)), p1)
          else (case maybe_enqueue_product_found_resend k now event nm p1 of
                  (Inl x, p2) \<Rightarrow> (Inl x, p2)
                | (Inr b, p2) \<Rightarrow> (Inr None, p2))))"

section \<open>Applying results\<close>

definition bump_synced :: "sync_metrics \<Rightarrow> sync_metrics" where
  "bump_synced m = m\<lparr>mt_items_synced := mt_items_synced m + 1, mt_batch_items_applied := mt_batch_items_applied m + 1,
     mt_runtime_id_updates := mt_runtime_id_updates m + 1\<rparr>"

definition record_success :: "sync_settings \<Rightarrow> event \<Rightarrow> apply_result \<Rightarrow> pipeline \<Rightarrow> pipeline" where
  "record_success c event res p =
    (let ek = si_entity_key (se_data event); ph = si_payload_hash (se_data event) in
     release [event]
      (p\<lparr>sp_metrics := bump_synced (sp_metrics p),
         sp_registry := remember_crm_ids c ek (ar_crm_listing_id res) (ar_crm_product_id res) (ar_action res)
           (remember_payload c ek ph (sp_registry p)),
         sp_bridge := remember_apply_result c res (sp_bridge p)\<rparr>))"

definition requeue_event :: "rat \<Rightarrow> event \<Rightarrow> pipeline \<Rightarrow> pipeline" where
  "requeue_event now event p =
    p\<lparr>sp_metrics := (sp_metrics p)\<lparr>mt_batch_items_requeued := mt_batch_items_requeued (sp_metrics p) + 1\<rparr>,
      sp_coordinator := requeue_retryable now [event] (sp_coordinator p)\<rparr>"

definition apply_item_failure :: "sync_settings \<Rightarrow> rat \<Rightarrow> event \<Rightarrow> apply_result \<Rightarrow> pipeline \<Rightarrow> pipeline" where
  "apply_item_failure c now event res p0 =
    (let m = sp_metrics p0;
         p = p0\<lparr>sp_metrics := m\<lparr>mt_items_failed := mt_items_failed m + 1,
               mt_batch_items_retryable := mt_batch_items_retryable m + (if ar_retryable res then 1 else 0)\<rparr>\<rparr>
     in if ar_status res = Rejected \<or> \<not> ar_retryable res
        then release [event] (p\<lparr>sp_metrics :=
               (sp_metrics p)\<lparr>mt_batch_items_rejected := mt_batch_items_rejected (sp_metrics p) + 1\<rparr>\<rparr>)
        else if ar_retryable res \<and> CRM_BATCH_REQUEUE_RETRYABLE_ITEMS c \<and> PARSER_REQUEUE_RETRYABLE_ONCE c
             \<and> se_event_id event \<notin> sp_requeued p
        then requeue_event now event (p\<lparr>sp_requeued := insert (se_event_id event) (sp_requeued p)\<rparr>)
        else if ar_retryable res \<and> CRM_BATCH_REQUEUE_RETRYABLE_ITEMS c \<and> \<not> PARSER_REQUEUE_RETRYABLE_ONCE c
        then requeue_event now event p
        else release [event] p)"

definition apply_item_result :: "sync_ctx \<Rightarrow> rat \<Rightarrow> event \<Rightarrow> apply_result \<Rightarrow> pipeline \<Rightarrow> exc option \<times> pipeline" where
  "apply_item_result k now event res p =
    (if ar_success res
     then (case reconcile_success_apply k now event res p of
             (Inl x, p1) \<Rightarrow> (Some x, p1)
           | (Inr None, p1) \<Rightarrow> (if ar_signal res \<noteq> None then (None, release [event] p1)
                                else (None, record_success (cx_settings k) event res p1))
           | (Inr (Some merged), p1) \<Rightarrow> (None, record_success (cx_settings k) event merged p1))
     else (None, apply_item_failure (cx_settings k) now event res p))"

fun apply_all :: "sync_ctx \<Rightarrow> rat \<Rightarrow> (event \<times> apply_result) list \<Rightarrow> pipeline \<Rightarrow> exc option \<times> pipeline" where
  "apply_all k now [] p = (None, p)"
| "apply_all k now ((event, res) # rest) p =
    (case apply_item_result k now event res p of
       (Some x, p1) \<Rightarrow> (Some x, p1)
     | (None, p1) \<Rightarrow> apply_all k now rest p1)"

definition finalize_batch_results :: "sync_ctx \<Rightarrow> rat \<Rightarrow> event list \<Rightarrow> batch_result \<Rightarrow> pipeline \<Rightarrow> exc option \<times> pipeline" where
  "finalize_batch_results k now to_send b p =
    (let c = cx_settings k; m = sp_metrics p in
     if length (br_items b) \<noteq> length to_send
     then (let p1 = release to_send (p\<lparr>sp_metrics := m\<lparr>mt_malformed_batch_responses := mt_malformed_batch_responses m + 1\<rparr>\<rparr>)
           in if TRANSPORT_FAIL_FAST c then (Some (RuntimeError ''CRM batch item count mismatch''), p1) else (None, p1))
     else
      (let s = summarize_batch_result b;
           p1 = (if bs_failed s > 0 \<and> bs_succeeded s > 0
                 then p\<lparr>sp_metrics := m\<lparr>mt_batch_partial_failures := mt_batch_partial_failures m + 1\<rparr>\<rparr> else p)
       in if \<not> SYNC_ALLOW_PARTIAL_BATCH_SUCCESS c \<and> bs_failed s > 0
          then (Some (RuntimeError ''batch had failures and SYNC_ALLOW_PARTIAL_BATCH_SUCCESS is false''), release to_send p1)
          else apply_all k now (zip to_send (br_items b)) p1))"

section \<open>Sending a batch\<close>

fun remember_attempts :: "sync_settings \<Rightarrow> event list \<Rightarrow> journal \<Rightarrow> journal" where
  "remember_attempts c [] j = j"
| "remember_attempts c (ev # evs) j =
    (let key = se_request_idempotency_key ev in
     remember_attempts c evs
      (if key \<noteq> [] then remember_entity_meta c (si_entity_key (se_data ev)) (se_event_type ev) key
          (remember_send_attempt c key j) else j))"

definition execute_batch_send :: "sync_ctx \<Rightarrow> rat \<Rightarrow> event list \<Rightarrow> pipeline \<Rightarrow> exc option \<times> pipeline" where
  "execute_batch_send k now to_send p0 =
    (let c = cx_settings k; m0 = sp_metrics p0; n = length to_send;
         p = p0\<lparr>sp_metrics := m0\<lparr>mt_batch_flushes := mt_batch_flushes m0 + 1, mt_batch_requests := mt_batch_requests m0 + 1,
                 mt_items_sent := mt_items_sent m0 + n, mt_batch_items := mt_batch_items m0 + n\<rparr>,
               sp_coordinator := mark_flushed now (sp_coordinator p0),
               sp_journal := remember_attempts c to_send (sp_journal p0),
               sp_sent := sp_sent p0 @ [to_send]\<rparr>;
         m = sp_metrics p
     in case cx_send k (length (sp_sent p0)) to_send of
          Responded b \<Rightarrow> finalize_batch_results k now to_send b p
        | Malformed_response b \<Rightarrow>
           (let p1 = p\<lparr>sp_metrics := m\<lparr>mt_malformed_batch_responses := mt_malformed_batch_responses m + 1\<rparr>\<rparr> in
            if CRM_BATCH_STOP_ON_MALFORMED_RESPONSE c
            then (Some (OtherError ''batch response missing per-item results''), release to_send p1)
            else (case b of
                None \<Rightarrow> (None, release to_send p1)
              | Some b' \<Rightarrow> if length (br_items b') \<noteq> n then (None, release to_send p1)
                  else finalize_batch_results k now to_send b' p1))
        | Transport_error x \<Rightarrow>
           (let p1 = release to_send (p\<lparr>sp_metrics := m\<lparr>mt_batch_transport_failures := mt_batch_transport_failures m + 1,
                       mt_items_failed := mt_items_failed m + n\<rparr>\<rparr>)
            in (if TRANSPORT_FAIL_FAST c then Some x else None, p1))
        | Send_error x \<Rightarrow>
           (let p1 = release to_send (p\<lparr>sp_metrics := m\<lparr>mt_items_failed := mt_items_failed m + n\<rparr>\<rparr>)
            in (if TRANSPORT_FAIL_FAST c then Some x else None, p1)))"

text \<open>The events still allowed another attempt, those dropped, and the attempts counted.\<close>

fun attempt_split :: "int \<Rightarrow> event list \<Rightarrow> (pystr, int) odict \<Rightarrow> event list \<times> event list \<times> (pystr, int) odict" where
  "attempt_split max_n [] attempts = ([], [], attempts)"
| "attempt_split max_n (ev # evs) attempts =
    (let nxt = (case od_get (se_event_id ev) attempts of None \<Rightarrow> 0 | Some n \<Rightarrow> n) + 1 in
     if nxt > max_n
     then (let (s, d, a) = attempt_split max_n evs attempts in (s, ev # d, a))
     else (let (s, d, a) = attempt_split max_n evs (od_set (se_event_id ev) nxt attempts) in (ev # s, d, a)))"

text \<open>\<open>admitted\<close> is the verdict of the resource governance of \<^verbatim>\<open>application/performance\<close> on this flush.\<close>

definition flush_one_round :: "sync_ctx \<Rightarrow> bool \<Rightarrow> bool \<Rightarrow> rat \<Rightarrow> pipeline \<Rightarrow> exc option \<times> pipeline" where
  "flush_one_round k force admitted now p =
    (if \<not> force \<and> \<not> admitted then (None, p)
     else
      (let c = cx_settings k; ((batch, waits), q) = pop_flush_batch_with_waits c now (sp_coordinator p) in
       if batch = [] then (None, p\<lparr>sp_coordinator := q\<rparr>)
       else
        (let (to_send, dropped, attempts) = attempt_split (PARSER_MAX_EVENT_ATTEMPTS_PER_RUN c) batch (sp_attempts p);
             p1 = release dropped (p\<lparr>sp_coordinator := q, sp_attempts := od_pop_all (map se_event_id dropped) attempts\<rparr>)
         in if to_send = [] then (None, p1) else execute_batch_send k now to_send p1)))"

section \<open>Handlers\<close>

definition process_item :: "sync_ctx \<Rightarrow> bool \<Rightarrow> rat \<Rightarrow> normalized option \<Rightarrow> pipeline \<Rightarrow> exc option \<times> pipeline" where
  "process_item k admitted now item p0 =
    (let c = cx_settings k; m0 = sp_metrics p0;
         p = p0\<lparr>sp_metrics := m0\<lparr>mt_items_seen := mt_items_seen m0 + 1\<rparr>\<rparr>; m = sp_metrics p
     in case item of
          None \<Rightarrow> (None, p)
        | Some nm \<Rightarrow>
         (case build_entity_key (cx_tools k) (nm_store nm) (blank_to_none (nm_source_id nm)) (nm_url nm) of
            Inl x \<Rightarrow> (Some x, p)
          | Inr ek \<Rightarrow>
           (let p1 = p\<lparr>sp_uids := Suc (sp_uids p)\<rparr> in
            case build_event (cx_tools k) (cx_rollout k) c (cx_uid k (sp_uids p)) nm (get_runtime_ids ek (sp_bridge p)) None of
              Inl x \<Rightarrow> (Some x, p1)
            | Inr ev \<Rightarrow>
             (let dup = p1\<lparr>sp_metrics := m\<lparr>mt_duplicate_payload_skips := mt_duplicate_payload_skips m + 1\<rparr>\<rparr> in
              if should_skip_event c (fst (fp ev)) (snd (fp ev)) (sp_bridge p1) then (None, dup)
              else if should_skip c (fst (fp ev)) (snd (fp ev)) (sp_registry p1)
              then (None, p1\<lparr>sp_metrics := m\<lparr>mt_items_deduped := mt_items_deduped m + 1\<rparr>\<rparr>)
              else
               (let (added, q) = add_event now ev (sp_coordinator p1) in
                if \<not> added then (None, dup)
                else (let p2 = p1\<lparr>sp_coordinator := q\<rparr> in
                  if should_flush now (SYNC_BUFFER_FLUSH_SECONDS c) (min (CRM_BATCH_SIZE c) 100) q
                  then flush_one_round k False admitted now p2
                  else (None, p2)))))))"

text \<open>The drain of \<open>close_spider\<close>: at most \<open>rounds\<close> forced flushes while there is work.\<close>

fun drain :: "sync_ctx \<Rightarrow> rat \<Rightarrow> nat \<Rightarrow> pipeline \<Rightarrow> exc option \<times> pipeline" where
  "drain k now 0 p = (None, p)"
| "drain k now (Suc rounds) p =
    (if has_work (sp_coordinator p)
     then (case flush_one_round k True True now p of
             (Some x, p1) \<Rightarrow> (Some x, p1)
           | (None, p1) \<Rightarrow> drain k now rounds p1)
     else (None, p))"

definition close_spider :: "sync_ctx \<Rightarrow> rat \<Rightarrow> pipeline \<Rightarrow> exc option \<times> pipeline" where
  "close_spider k now p = drain k now 2000 p"

end
