(* ===== verification/Sync_Delivery.thy ===== *)
theory Sync_Delivery imports Sync_Pipeline begin

text \<open>
  What the synchronisation pipeline guarantees between its calls: no fingerprint leaks, no
  event is sent more often than allowed, and closing the spider drains the queues.
\<close>

section \<open>Events the builder made\<close>

definition tracked :: "sync_ctx \<Rightarrow> event \<Rightarrow> bool" where
  "tracked k e \<longleftrightarrow> (\<exists>uid nm rt req. se_normalized e = Some nm
     \<and> build_event (cx_tools k) (cx_rollout k) (cx_settings k) uid nm rt req = Inr e)"

lemma tracked_built:
  assumes "hex_digest (cx_tools k)" "build_event (cx_tools k) (cx_rollout k) (cx_settings k) uid nm rt req = Inr e"
  shows "tracked k e" and "se_event_id e = strip uid"
  by (rule build_event_inv [OF assms]; use assms(2) in \<open>auto simp: tracked_def event_built_from_def\<close>)+

text \<open>
  Reconciliation only ever touches the journal, the resend budget and the identifiers
  drawn: the event it rebuilds is the delivery in flight, so the coordinator refuses it.
\<close>

definition side_state :: "pipeline \<Rightarrow> pipeline \<Rightarrow> bool" where
  "side_state p p' \<longleftrightarrow> sp_uids p \<le> sp_uids p'
    \<and> p' = p\<lparr>sp_resends := sp_resends p', sp_uids := sp_uids p', sp_journal := sp_journal p'\<rparr>"

lemma side_state_refl [simp]: "side_state p p"
  by (simp add: side_state_def)

lemma side_state_keeps:
  assumes "side_state p p'"
  shows "sp_coordinator p' = sp_coordinator p" "sp_registry p' = sp_registry p" "sp_bridge p' = sp_bridge p"
    "sp_attempts p' = sp_attempts p" "sp_requeued p' = sp_requeued p" "sp_sent p' = sp_sent p"
    "sp_metrics p' = sp_metrics p" "sp_uids p \<le> sp_uids p'"
proof -
  have le: "sp_uids p \<le> sp_uids p'"
    and eq: "p' = p\<lparr>sp_resends := sp_resends p', sp_uids := sp_uids p', sp_journal := sp_journal p'\<rparr>"
    using assms by (simp_all add: side_state_def)
  show "sp_coordinator p' = sp_coordinator p" "sp_registry p' = sp_registry p" "sp_bridge p' = sp_bridge p"
    "sp_attempts p' = sp_attempts p" "sp_requeued p' = sp_requeued p" "sp_sent p' = sp_sent p"
    "sp_metrics p' = sp_metrics p" "sp_uids p \<le> sp_uids p'"
    using le by (subst eq, simp)+
qed

lemma resend_refused:
  assumes hex: "hex_digest (cx_tools k)"
    and built: "build_event (cx_tools k) (cx_rollout k) (cx_settings k) uid nm rt req = Inr e"
    and flying: "fp e \<in> co_outstanding (sp_coordinator p)"
  obtains b p' where "maybe_enqueue_product_found_resend k now e nm p = (Inr b, p')" "side_state p p'"
proof -
  obtain e2 where e2: "build_event (cx_tools k) (cx_rollout k) (cx_settings k) (cx_uid k (sp_uids p)) nm
      (get_runtime_ids (si_entity_key (se_data e)) (sp_bridge p)) (Some ''product_found'') = Inr e2" "fp e2 = fp e"
    by (rule build_event_again [OF hex built, where ro' = "cx_rollout k" and uid' = "cx_uid k (sp_uids p)"
        and rt' = "get_runtime_ids (si_entity_key (se_data e)) (sp_bridge p)" and req' = "Some ''product_found''"])
  have refused: "snd (add_event now e2 (sp_coordinator p)) = sp_coordinator p"
    using flying e2(2) by (simp add: add_event_def)
  have "\<exists>b p'. maybe_enqueue_product_found_resend k now e nm p = (Inr b, p') \<and> side_state p p'"
    by (auto simp: maybe_enqueue_product_found_resend_def Let_def e2(1) refused side_state_def)
  with that show thesis by blast
qed

lemma reconcile_outcome:
  assumes hex: "hex_digest (cx_tools k)" and "tracked k e" and flying: "fp e \<in> co_outstanding (sp_coordinator p)"
  obtains m p' where "reconcile_success_apply k now e res p = (Inr m, p')" "side_state p p'"
    "m = None \<longrightarrow> ar_signal res \<noteq> None"
proof -
  from assms(2) obtain uid nm rt req where nm: "se_normalized e = Some nm"
    "build_event (cx_tools k) (cx_rollout k) (cx_settings k) uid nm rt req = Inr e" by (auto simp: tracked_def)
  define r where "r = (if ar_signal res = Some Ambiguous_action
      then reconcile_after_ambiguous_response (cx_settings k) (get_runtime_ids (si_entity_key (se_data e)) (sp_bridge p))
      else reconcile_missing_ids (cx_settings k) (get_runtime_ids (si_entity_key (se_data e)) (sp_bridge p)) (Some res))"
  define p1 where "p1 = p\<lparr>sp_journal := remember_reconciliation (cx_settings k) (si_entity_key (se_data e)) r (sp_journal p)\<rparr>"
  have "fp e \<in> co_outstanding (sp_coordinator p1)" using flying by (simp add: p1_def)
  from resend_refused [OF hex nm(2) this] obtain b p2 where
    resend: "maybe_enqueue_product_found_resend k now e nm p1 = (Inr b, p2)" "side_state p1 p2" by blast
  have s: "side_state p p1" by (simp add: p1_def side_state_def)
  have s2: "side_state p p2" using resend(2) by (auto simp: side_state_def p1_def)
  have "\<exists>m p'. reconcile_success_apply k now e res p = (Inr m, p') \<and> side_state p p' \<and> (m = None \<longrightarrow> ar_signal res \<noteq> None)"
    unfolding reconcile_success_apply_def Let_def nm(1) option.case r_def [symmetric] p1_def [symmetric] resend(1) prod.case sum.case
    using s s2 by simp
  with that show thesis by blast
qed

section \<open>Applying one result\<close>

lemma release_fields [simp]:
  "sp_coordinator (release es p) = release_fingerprints es (sp_coordinator p)" "sp_requeued (release es p) = sp_requeued p"
  "sp_attempts (release es p) = sp_attempts p" "sp_sent (release es p) = sp_sent p" "sp_uids (release es p) = sp_uids p"
  "sp_registry (release es p) = sp_registry p" "sp_bridge (release es p) = sp_bridge p"
  "sp_metrics (release es p) = sp_metrics p"
  by (simp_all add: release_def)

lemma record_success_fields [simp]:
  "sp_coordinator (record_success c e res p) = release_fingerprints [e] (sp_coordinator p)"
  "sp_requeued (record_success c e res p) = sp_requeued p" "sp_attempts (record_success c e res p) = sp_attempts p"
  "sp_sent (record_success c e res p) = sp_sent p" "sp_uids (record_success c e res p) = sp_uids p"
  by (simp_all add: record_success_def Let_def)

lemma requeue_event_fields [simp]:
  "sp_coordinator (requeue_event now e p) = requeue_retryable now [e] (sp_coordinator p)"
  "sp_requeued (requeue_event now e p) = sp_requeued p" "sp_attempts (requeue_event now e p) = sp_attempts p"
  "sp_sent (requeue_event now e p) = sp_sent p" "sp_uids (requeue_event now e p) = sp_uids p"
  by (simp_all add: requeue_event_def)

lemma failure_cases:
  obtains (released) "sp_coordinator (apply_item_failure c now e res p) = release_fingerprints [e] (sp_coordinator p)"
      "sp_requeued (apply_item_failure c now e res p) = sp_requeued p"
    | (requeued) "sp_coordinator (apply_item_failure c now e res p) = requeue_retryable now [e] (sp_coordinator p)"
      "if PARSER_REQUEUE_RETRYABLE_ONCE c
       then se_event_id e \<notin> sp_requeued p \<and> sp_requeued (apply_item_failure c now e res p) = insert (se_event_id e) (sp_requeued p)
       else sp_requeued (apply_item_failure c now e res p) = sp_requeued p"
  by (cases "ar_retryable res"; cases "CRM_BATCH_REQUEUE_RETRYABLE_ITEMS c"; cases "PARSER_REQUEUE_RETRYABLE_ONCE c";
      cases "ar_status res = Rejected"; cases "se_event_id e \<in> sp_requeued p") (simp_all add: apply_item_failure_def Let_def)

lemma failure_fields [simp]:
  "sp_attempts (apply_item_failure c now e res p) = sp_attempts p" "sp_sent (apply_item_failure c now e res p) = sp_sent p"
  "sp_uids (apply_item_failure c now e res p) = sp_uids p"
  by (simp_all add: apply_item_failure_def Let_def)

text \<open>The events in flight or queued, and how many more rounds they can cost.\<close>

definition load :: "event list \<Rightarrow> pipeline \<Rightarrow> event multiset" where
  "load fl p = mset fl + mset (queued (sp_coordinator p))"

definition weight :: "pystr set \<Rightarrow> event multiset \<Rightarrow> nat" where
  "weight R es = (\<Sum>e\<in>#es. if se_event_id e \<in> R then 1 else 2)"

lemma weight_simps [simp]:
  "weight R {#} = 0" "weight R (add_mset e es) = (if se_event_id e \<in> R then 1 else 2) + weight R es"
  "weight R (es + es') = weight R es + weight R es'"
  by (simp_all add: weight_def)

lemma weight_mono: "R \<subseteq> R' \<Longrightarrow> weight R' es \<le> weight R es"
  by (induction es) (auto simp: add_mono)

lemma weight_size: "size es \<le> weight R es" "weight R es \<le> 2 * size es"
  by (induction es) auto

lemma queued_release [simp]: "queued (release_fingerprints es q) = queued q"
  by (simp add: queued_def release_fingerprints_def)

lemma mset_queued_requeue: "mset (queued (requeue_retryable now [e] q)) = add_mset e (mset (queued q))"
  by (simp add: queued_def requeue_retryable_def)

definition settles :: "sync_ctx \<Rightarrow> event list \<Rightarrow> event list \<Rightarrow> pipeline \<Rightarrow> pipeline \<Rightarrow> bool" where
  "settles k es fl p p' \<longleftrightarrow> exclusive fl (sp_coordinator p') \<and> load fl p' \<subseteq># load (es @ fl) p
    \<and> sp_attempts p' = sp_attempts p \<and> sp_sent p' = sp_sent p \<and> sp_uids p \<le> sp_uids p'
    \<and> (PARSER_REQUEUE_RETRYABLE_ONCE (cx_settings k) \<longrightarrow>
         weight (sp_requeued p') (load fl p') + length es \<le> weight (sp_requeued p) (load (es @ fl) p))"

lemma settles_released:
  assumes "exclusive (es @ fl) (sp_coordinator p)" "sp_coordinator p' = release_fingerprints es (sp_coordinator p)"
    "sp_requeued p' = sp_requeued p" "sp_attempts p' = sp_attempts p" "sp_sent p' = sp_sent p" "sp_uids p \<le> sp_uids p'"
  shows "settles k es fl p p'"
  using exclusive_release [of "[]" es fl "sp_coordinator p"] assms weight_size(1) [of "mset es" "sp_requeued p"]
  by (simp add: settles_def load_def)

lemma settles_requeued:
  assumes "exclusive (e # fl) (sp_coordinator p)" "sp_coordinator p' = requeue_retryable now [e] (sp_coordinator p)"
    "if PARSER_REQUEUE_RETRYABLE_ONCE (cx_settings k)
     then se_event_id e \<notin> sp_requeued p \<and> sp_requeued p' = insert (se_event_id e) (sp_requeued p)
     else sp_requeued p' = sp_requeued p"
    "sp_attempts p' = sp_attempts p" "sp_sent p' = sp_sent p" "sp_uids p \<le> sp_uids p'"
  shows "settles k [e] fl p p'"
proof -
  have "exclusive fl (sp_coordinator p')" using exclusive_requeue [of "[]" e fl] assms(1,2) by simp
  moreover have l: "load fl p' = load ([e] @ fl) p" by (simp add: load_def assms(2) mset_queued_requeue)
  moreover have "weight (sp_requeued p') (load fl p') + 1 \<le> weight (sp_requeued p) (load ([e] @ fl) p)"
    if "PARSER_REQUEUE_RETRYABLE_ONCE (cx_settings k)"
    using that assms(3) weight_mono [of "sp_requeued p" "insert (se_event_id e) (sp_requeued p)" "load fl p"]
    by (auto simp: l) (auto simp: load_def)
  ultimately show ?thesis using assms(4-6) by (simp add: settles_def)
qed

lemma apply_item_settles:
  assumes "hex_digest (cx_tools k)" "tracked k e" "exclusive (e # fl) (sp_coordinator p)"
  obtains p' where "apply_item_result k now e res p = (None, p')" "settles k [e] fl p p'"
proof (cases "ar_success res")
  case True
  have "fp e \<in> co_outstanding (sp_coordinator p)" using assms(3) by (simp add: exclusive_def)
  from reconcile_outcome [OF assms(1,2) this, of now res] obtain m p1 where
    m: "reconcile_success_apply k now e res p = (Inr m, p1)" "side_state p p1" "m = None \<longrightarrow> ar_signal res \<noteq> None" by blast
  note keeps = side_state_keeps [OF m(2)]
  have "settles k [e] fl p (release [e] p1)" "settles k [e] fl p (record_success (cx_settings k) e r p1)" for r
    by (rule settles_released; use assms(3) in \<open>simp add: keeps\<close>)+
  then show thesis
    using that True m(1,3) by (cases m) (simp_all add: apply_item_result_def)
next
  case False
  have "settles k [e] fl p (apply_item_failure (cx_settings k) now e res p)"
    by (rule failure_cases [of "cx_settings k" now e res p])
      (rule settles_released settles_requeued; use assms(3) in simp)+
  with that False show thesis by (simp add: apply_item_result_def)
qed

section \<open>Applying and sending a batch\<close>

lemma settles_same: "exclusive fl (sp_coordinator p) \<Longrightarrow> settles k [] fl p p"
  by (simp add: settles_def)

lemma settles_trans:
  assumes "settles k es1 (es2 @ fl) p p1" "settles k es2 fl p1 p2"
  shows "settles k (es1 @ es2) fl p p2"
proof -
  have "load (es2 @ fl) p1 \<subseteq># load (es1 @ es2 @ fl) p" "load fl p2 \<subseteq># load (es2 @ fl) p1"
    using assms by (simp_all add: settles_def)
  then have "load fl p2 \<subseteq># load ((es1 @ es2) @ fl) p" by (metis append.assoc subset_mset.trans)
  with assms show ?thesis by (auto simp: settles_def)
qed

lemma apply_all_settles:
  assumes "hex_digest (cx_tools k)" "list_all (tracked k) (map fst ers)" "exclusive (map fst ers @ fl) (sp_coordinator p)"
  obtains p' where "apply_all k now ers p = (None, p')" "settles k (map fst ers) fl p p'"
proof -
  have "\<exists>p'. apply_all k now ers p = (None, p') \<and> settles k (map fst ers) fl p p'"
    using assms(2,3)
  proof (induction ers arbitrary: p)
    case Nil
    then show ?case by (simp add: settles_same)
  next
    case (Cons er ers)
    obtain e res where er: "er = (e, res)" by (cases er)
    from Cons.prems have "tracked k e" "exclusive (e # map fst ers @ fl) (sp_coordinator p)" by (simp_all add: er)
    from apply_item_settles [OF assms(1) this, of now res] obtain p1 where
      p1: "apply_item_result k now e res p = (None, p1)" "settles k [e] (map fst ers @ fl) p p1" by blast
    then have "exclusive (map fst ers @ fl) (sp_coordinator p1)" by (simp add: settles_def)
    with Cons.IH Cons.prems(1) obtain p2 where
      p2: "apply_all k now ers p1 = (None, p2)" "settles k (map fst ers) fl p1 p2" by auto
    from settles_trans [OF p1(2) p2(2)] p1(1) p2(1) show ?case by (simp add: er)
  qed
  with that show thesis by blast
qed

lemma finalize_settles:
  assumes "hex_digest (cx_tools k)" "list_all (tracked k) es" "exclusive es (sp_coordinator p)"
    "finalize_batch_results k now es b p = (x, p')"
  shows "settles k es [] p p'"
proof -
  define p1 where "p1 = (if bs_failed (summarize_batch_result b) > 0 \<and> bs_succeeded (summarize_batch_result b) > 0
     then p\<lparr>sp_metrics := (sp_metrics p)\<lparr>mt_batch_partial_failures := mt_batch_partial_failures (sp_metrics p) + 1\<rparr>\<rparr> else p)"
  have fields: "sp_coordinator p1 = sp_coordinator p" "sp_requeued p1 = sp_requeued p" "sp_attempts p1 = sp_attempts p"
    "sp_sent p1 = sp_sent p" "sp_uids p1 = sp_uids p"
    by (simp_all add: p1_def)
  then have same: "settles k es [] p1 p' \<longleftrightarrow> settles k es [] p p'" for p'
    by (simp add: settles_def load_def)
  consider "length (br_items b) \<noteq> length es"
    | "length (br_items b) = length es" "\<not> SYNC_ALLOW_PARTIAL_BATCH_SUCCESS (cx_settings k) \<and> bs_failed (summarize_batch_result b) > 0"
    | "length (br_items b) = length es" "\<not> (\<not> SYNC_ALLOW_PARTIAL_BATCH_SUCCESS (cx_settings k) \<and> bs_failed (summarize_batch_result b) > 0)"
    by blast
  then show ?thesis
  proof cases
    case 1
    with assms(4) have "p' = release es (p\<lparr>sp_metrics := (sp_metrics p)\<lparr>mt_malformed_batch_responses
        := mt_malformed_batch_responses (sp_metrics p) + 1\<rparr>\<rparr>)"
      by (auto simp: finalize_batch_results_def Let_def split: if_splits)
    with assms(3) show ?thesis by (intro settles_released) simp_all
  next
    case 2
    with assms(4) have "p' = release es p1"
      by (simp add: finalize_batch_results_def Let_def p1_def)
    with assms(3) show ?thesis by (intro settles_released) (simp_all add: fields)
  next
    case 3
    with assms(4) have run: "apply_all k now (zip es (br_items b)) p1 = (x, p')"
      by (simp add: finalize_batch_results_def Let_def p1_def)
    have zip: "map fst (zip es (br_items b)) = es" using 3(1) by simp
    have "exclusive (map fst (zip es (br_items b)) @ []) (sp_coordinator p1)" using assms(3) by (simp add: zip fields)
    from apply_all_settles [OF assms(1) _ this, of now] assms(2) run show ?thesis by (auto simp: zip same)
  qed
qed

lemma execute_settles:
  assumes "hex_digest (cx_tools k)" "list_all (tracked k) es" "exclusive es (sp_coordinator p)"
    "execute_batch_send k now es p = (x, p')"
  shows "settles k es [] (p\<lparr>sp_sent := sp_sent p @ [es]\<rparr>) p'"
proof -
  define p1 where "p1 = p\<lparr>sp_metrics := (sp_metrics p)\<lparr>mt_batch_flushes := mt_batch_flushes (sp_metrics p) + 1,
        mt_batch_requests := mt_batch_requests (sp_metrics p) + 1, mt_items_sent := mt_items_sent (sp_metrics p) + length es,
        mt_batch_items := mt_batch_items (sp_metrics p) + length es\<rparr>,
      sp_coordinator := mark_flushed now (sp_coordinator p), sp_journal := remember_attempts (cx_settings k) es (sp_journal p),
      sp_sent := sp_sent p @ [es]\<rparr>"
  have start: "settles k es [] q p' \<longleftrightarrow> settles k es [] (p\<lparr>sp_sent := sp_sent p @ [es]\<rparr>) p'"
    if "sp_coordinator q = mark_flushed now (sp_coordinator p)" "sp_requeued q = sp_requeued p" "sp_attempts q = sp_attempts p"
      "sp_sent q = sp_sent p @ [es]" "sp_uids q = sp_uids p" for q
    by (simp add: settles_def load_def that mark_flushed_def queued_def)
  have ex: "exclusive es (mark_flushed now (sp_coordinator p))" using assms(3) by simp
  have rel: "settles k es [] (p\<lparr>sp_sent := sp_sent p @ [es]\<rparr>) (release es q)"
    if "sp_coordinator q = mark_flushed now (sp_coordinator p)" "sp_requeued q = sp_requeued p" "sp_attempts q = sp_attempts p"
      "sp_sent q = sp_sent p @ [es]" "sp_uids q = sp_uids p" for q
  proof -
    have "settles k es [] q (release es q)" using ex by (intro settles_released) (simp_all add: that)
    then show ?thesis by (simp add: settles_def load_def that mark_flushed_def queued_def release_fingerprints_def)
  qed
  have fin: "settles k es [] (p\<lparr>sp_sent := sp_sent p @ [es]\<rparr>) p'"
    if "finalize_batch_results k now es b q = (x, p')" "sp_coordinator q = mark_flushed now (sp_coordinator p)"
      "sp_requeued q = sp_requeued p" "sp_attempts q = sp_attempts p" "sp_sent q = sp_sent p @ [es]" "sp_uids q = sp_uids p" for b q
    using finalize_settles [OF assms(1,2) _ that(1)] ex start [OF that(2-)] by (simp add: that(2))
  show ?thesis
  proof (cases "cx_send k (length (sp_sent p)) es")
    case (Responded b)
    with assms(4) have "finalize_batch_results k now es b p1 = (x, p')" by (simp add: execute_batch_send_def Let_def p1_def)
    then show ?thesis by (rule fin) (simp_all add: p1_def)
  next
    case (Malformed_response ob)
    define p2 where "p2 = p1\<lparr>sp_metrics := (sp_metrics p1)\<lparr>mt_malformed_batch_responses
        := mt_malformed_batch_responses (sp_metrics p1) + 1\<rparr>\<rparr>"
    have f2: "sp_coordinator p2 = mark_flushed now (sp_coordinator p)" "sp_requeued p2 = sp_requeued p"
      "sp_attempts p2 = sp_attempts p" "sp_sent p2 = sp_sent p @ [es]" "sp_uids p2 = sp_uids p"
      by (simp_all add: p2_def p1_def)
    have "p' = release es p2 \<or> (\<exists>b. finalize_batch_results k now es b p2 = (x, p'))"
      using assms(4) Malformed_response
      by (auto simp: execute_batch_send_def Let_def p1_def p2_def split: if_splits option.splits)
    then show ?thesis using rel [OF f2] fin [OF _ f2] by blast
  next
    case (Transport_error y)
    with assms(4) have "p' = release es (p1\<lparr>sp_metrics := (sp_metrics p1)\<lparr>mt_batch_transport_failures :=
        mt_batch_transport_failures (sp_metrics p1) + 1, mt_items_failed := mt_items_failed (sp_metrics p1) + length es\<rparr>\<rparr>)"
      by (simp add: execute_batch_send_def Let_def p1_def)
    then show ?thesis using rel by (simp add: p1_def)
  next
    case (Send_error y)
    with assms(4) have "p' = release es (p1\<lparr>sp_metrics := (sp_metrics p1)\<lparr>mt_items_failed :=
        mt_items_failed (sp_metrics p1) + length es\<rparr>\<rparr>)"
      by (simp add: execute_batch_send_def Let_def p1_def)
    then show ?thesis using rel by (simp add: p1_def)
  qed
qed

section \<open>A flush\<close>

lemma attempt_split_mset: "attempt_split m evs a = (s, d, a') \<Longrightarrow> mset s + mset d = mset evs"
  by (induction evs arbitrary: s d a a') (fastforce simp: Let_def split: if_splits prod.splits)+

definition attempts_of :: "pystr \<Rightarrow> (pystr, int) odict \<Rightarrow> int" where
  "attempts_of i a = (case od_get i a of None \<Rightarrow> 0 | Some n \<Rightarrow> n)"

lemma attempts_of_set [simp]: "attempts_of i (od_set j n a) = (if i = j then n else attempts_of i a)"
  by (simp add: attempts_of_def od_get_set)

lemma attempts_of_pop_all: "attempts_of i (od_pop_all js a) = (if i \<in> set js then 0 else attempts_of i a)"
  by (simp add: attempts_of_def od_get_pop_all)

lemma attempt_split_counts:
  assumes "attempt_split m evs a = (s, d, a')" "distinct (map se_event_id evs)"
  shows "\<forall>i. attempts_of i a' = attempts_of i a + (if i \<in> se_event_id ` set s then 1 else 0)"
    and "\<forall>e\<in>set s. attempts_of (se_event_id e) a + 1 \<le> m"
proof -
  have "(\<forall>i. attempts_of i a' = attempts_of i a + (if i \<in> se_event_id ` set s then 1 else 0))
      \<and> (\<forall>e\<in>set s. attempts_of (se_event_id e) a + 1 \<le> m)"
    using assms
  proof (induction evs arbitrary: s d a a')
    case Nil
    then show ?case by simp
  next
    case (Cons ev evs)
    let ?n = "attempts_of (se_event_id ev) a + 1"
    have dist: "distinct (map se_event_id evs)" "se_event_id ev \<notin> se_event_id ` set evs" using Cons.prems(2) by auto
    show ?case
    proof (cases "?n > m")
      case True
      with Cons.prems(1) obtain d1 where "attempt_split m evs a = (s, d1, a')"
        by (auto simp: attempts_of_def Let_def split: prod.splits)
      with Cons.IH dist(1) show ?thesis by blast
    next
      case False
      with Cons.prems(1) obtain s1 where s1: "attempt_split m evs (od_set (se_event_id ev) ?n a) = (s1, d, a')" "s = ev # s1"
        by (auto simp: attempts_of_def Let_def split: prod.splits)
      have "set s1 \<subseteq> set evs" using attempt_split_mset [OF s1(1)] by (metis Un_upper1 set_mset_mset set_mset_union)
      then have "se_event_id ev \<notin> se_event_id ` set s1" using dist(2) by blast
      then have other: "se_event_id e \<noteq> se_event_id ev" if "e \<in> set s1" for e using that by (metis imageI)
      with Cons.IH [OF s1(1) dist(1)] False show ?thesis
        using \<open>se_event_id ev \<notin> se_event_id ` set s1\<close> by (auto simp: s1(2))
    qed
  qed
  then show "\<forall>i. attempts_of i a' = attempts_of i a + (if i \<in> se_event_id ` set s then 1 else 0)"
    and "\<forall>e\<in>set s. attempts_of (se_event_id e) a + 1 \<le> m" by blast+
qed

definition ready :: "sync_ctx \<Rightarrow> pipeline \<Rightarrow> bool" where
  "ready k p \<longleftrightarrow> exclusive [] (sp_coordinator p) \<and> (\<forall>e\<in>#load [] p. tracked k e)"

text \<open>A flush that takes events either sends some of them, after dropping the exhausted ones, or only drops.\<close>

lemma flush_cases:
  assumes "hex_digest (cx_tools k)" "ready k p" "flush_one_round k force admitted now p = (x, p')"
  obtains (idle) "p' = p" "x = None"
      "\<not> (force \<or> admitted) \<or> fst (fst (pop_flush_batch_with_waits (cx_settings k) now (sp_coordinator p))) = []"
    | (busy) es ws q s d a where "pop_flush_batch_with_waits (cx_settings k) now (sp_coordinator p) = ((es, ws), q)" "es \<noteq> []"
        "attempt_split (PARSER_MAX_EVENT_ATTEMPTS_PER_RUN (cx_settings k)) es (sp_attempts p) = (s, d, a)"
        "settles k s [] (p\<lparr>sp_coordinator := release_fingerprints d q, sp_attempts := od_pop_all (map se_event_id d) a,
            sp_sent := sp_sent p @ (if s = [] then [] else [s])\<rparr>) p'"
        "s = [] \<longrightarrow> x = None"
proof -
  obtain es ws q where pop: "pop_flush_batch_with_waits (cx_settings k) now (sp_coordinator p) = ((es, ws), q)"
    by (metis surj_pair)
  show thesis
  proof (cases "\<not> (force \<or> admitted) \<or> es = []")
    case True
    have "q = sp_coordinator p" if "es = []"
      using pop that by (auto simp: pop_flush_batch_with_waits_def Let_def)
    with True assms(3) pop have "p' = p \<and> x = None"
      by (cases force; cases admitted) (auto simp: flush_one_round_def Let_def)
    with True pop show thesis by (intro idle) auto
  next
    case False
    obtain s d a where split: "attempt_split (PARSER_MAX_EVENT_ATTEMPTS_PER_RUN (cx_settings k)) es (sp_attempts p) = (s, d, a)"
      by (metis surj_pair)
    define p1 where "p1 = release d (p\<lparr>sp_coordinator := q, sp_attempts := od_pop_all (map se_event_id d) a\<rparr>)"
    have p1: "p1 = p\<lparr>sp_coordinator := release_fingerprints d q, sp_attempts := od_pop_all (map se_event_id d) a\<rparr>"
      by (simp add: p1_def release_def)
    have parts: "mset s + mset d = mset es" by (rule attempt_split_mset [OF split])
    have "exclusive ([] @ es) q" by (rule exclusive_pop [OF _ pop]) (use assms(2) in \<open>simp add: ready_def\<close>)
    then have "exclusive (s @ d) q"
    proof -
      have "mset (map fp (s @ d @ queued q)) = mset (map fp (es @ queued q))" using parts by (metis append.assoc mset_append mset_map)
      then have "distinct (map fp (s @ d @ queued q)) = distinct (map fp (es @ queued q))"
        "set (map fp (s @ d @ queued q)) = set (map fp (es @ queued q))"
        by (metis mset_eq_imp_distinct_iff, metis mset_eq_setD)
      with \<open>exclusive ([] @ es) q\<close> show ?thesis by (simp add: exclusive_def)
    qed
    then have ex: "exclusive s (release_fingerprints d q)" using exclusive_release [of s d "[]" q] by simp
    have run: "(if s = [] then (None, p1) else execute_batch_send k now s p1) = (x, p')"
      using assms(3) False pop split by (auto simp: flush_one_round_def Let_def p1_def)
    have "settles k s [] (p\<lparr>sp_coordinator := release_fingerprints d q, sp_attempts := od_pop_all (map se_event_id d) a,
            sp_sent := sp_sent p @ (if s = [] then [] else [s])\<rparr>) p'"
    proof (cases "s = []")
      case True
      with run ex show ?thesis by (auto simp: p1 intro!: settles_same)
    next
      case nonempty: False
      have "set s \<subseteq> set es" using parts by (metis Un_upper1 set_mset_mset set_mset_union)
      moreover have "set es \<subseteq> set (queued (sp_coordinator p))"
        using pop_mset(1) [OF pop] by (metis Un_upper1 mset_append set_append set_mset_mset)
      ultimately have "list_all (tracked k) s" using assms(2) by (auto simp: list_all_iff ready_def load_def)
      moreover have "exclusive s (sp_coordinator p1)" using ex by (simp add: p1)
      ultimately have "settles k s [] (p1\<lparr>sp_sent := sp_sent p1 @ [s]\<rparr>) p'"
        using execute_settles [OF assms(1)] run nonempty by auto
      then show ?thesis using nonempty by (simp add: p1)
    qed
    moreover have "s = [] \<longrightarrow> x = None" using run by auto
    ultimately show thesis using busy [OF pop _ split] False by blast
  qed
qed

lemma flush_load:
  assumes "hex_digest (cx_tools k)" "ready k p" "flush_one_round k force admitted now p = (x, p')"
  shows "load [] p' \<subseteq># load [] p" and "exclusive [] (sp_coordinator p')"
proof -
  have "load [] p' \<subseteq># load [] p \<and> exclusive [] (sp_coordinator p')"
  proof (rule flush_cases [OF assms])
    assume "p' = p"
    with assms(2) show ?thesis by (simp add: ready_def)
  next
    fix es ws q s d a
    assume pop: "pop_flush_batch_with_waits (cx_settings k) now (sp_coordinator p) = ((es, ws), q)"
      and split: "attempt_split (PARSER_MAX_EVENT_ATTEMPTS_PER_RUN (cx_settings k)) es (sp_attempts p) = (s, d, a)"
      and st: "settles k s [] (p\<lparr>sp_coordinator := release_fingerprints d q, sp_attempts := od_pop_all (map se_event_id d) a,
            sp_sent := sp_sent p @ (if s = [] then [] else [s])\<rparr>) p'"
    have "load [] p = (mset s + mset (queued q)) + mset d"
      using pop_mset(1) [OF pop] attempt_split_mset [OF split, symmetric] by (simp add: load_def add_ac)
    then have "mset s + mset (queued q) \<subseteq># load [] p" by (simp only: mset_subset_eq_add_left)
    moreover have "load [] p' \<subseteq># mset s + mset (queued q)" using st by (simp add: settles_def load_def)
    ultimately have "load [] p' \<subseteq># load [] p" by (metis subset_mset.trans)
    with st show ?thesis by (simp add: settles_def)
  qed
  then show "load [] p' \<subseteq># load [] p" and "exclusive [] (sp_coordinator p')" by blast+
qed

lemma flush_ready:
  assumes "hex_digest (cx_tools k)" "ready k p" "flush_one_round k force admitted now p = (x, p')"
  shows "ready k p'"
  using flush_load [OF assms] assms(2) by (auto simp: ready_def dest: mset_subset_eqD)

section \<open>Runs\<close>

text \<open>
  The states between the calls Scrapy makes: an item may raise, and the next one is
  processed all the same; closing is a sequence of forced rounds.
\<close>

inductive sync_reach :: "sync_ctx \<Rightarrow> pipeline \<Rightarrow> bool" for k where
  sr_open: "sync_reach k (open_spider now)"
| sr_item: "sync_reach k p \<Longrightarrow> process_item k admitted now item p = (x, p') \<Longrightarrow> sync_reach k p'"
| sr_flush: "sync_reach k p \<Longrightarrow> flush_one_round k True True now p = (x, p') \<Longrightarrow> sync_reach k p'"

inductive_cases sync_reachE: "sync_reach k p"

lemma drain_reach: "sync_reach k p \<Longrightarrow> drain k now n p = (x, p') \<Longrightarrow> sync_reach k p'"
proof (induction n arbitrary: p)
  case (Suc n)
  obtain y p1 where f: "flush_one_round k True True now p = (y, p1)" by (metis surj_pair)
  then have "sync_reach k p1" by (rule sr_flush [OF Suc.prems(1)])
  with Suc f show ?case by (cases y) (auto split: if_splits)
qed simp

text \<open>Processing an item changes the counters, adds at most one event, and may then flush.\<close>

lemma process_item_cases:
  assumes "hex_digest (cx_tools k)" "process_item k admitted now item p = (x, p')"
  obtains (same) "sp_coordinator p' = sp_coordinator p" "sp_attempts p' = sp_attempts p" "sp_sent p' = sp_sent p"
      "sp_requeued p' = sp_requeued p" "sp_uids p \<le> sp_uids p'"
    | (queued) ev p1 where "tracked k ev" "se_event_id ev = strip (cx_uid k (sp_uids p))"
        "fp ev \<notin> co_outstanding (sp_coordinator p)" "sp_coordinator p1 = snd (add_event now ev (sp_coordinator p))"
        "sp_attempts p1 = sp_attempts p" "sp_sent p1 = sp_sent p" "sp_requeued p1 = sp_requeued p"
        "sp_uids p1 = Suc (sp_uids p)" "p' = p1 \<and> x = None \<or> flush_one_round k False admitted now p1 = (x, p')"
proof -
  define p0 where "p0 = p\<lparr>sp_metrics := (sp_metrics p)\<lparr>mt_items_seen := mt_items_seen (sp_metrics p) + 1\<rparr>\<rparr>"
  define p1 where "p1 = p0\<lparr>sp_uids := Suc (sp_uids p0)\<rparr>"
  show thesis
  proof (cases item)
    case None
    with assms(2) show thesis by (intro same) (auto simp: process_item_def Let_def)
  next
    case item: (Some nm)
    show thesis
    proof (cases "build_entity_key (cx_tools k) (nm_store nm) (blank_to_none (nm_source_id nm)) (nm_url nm)")
      case (Inl e)
      with assms(2) item show thesis by (intro same) (auto simp: process_item_def Let_def)
    next
      case ek: (Inr ek)
      show thesis
      proof (cases "build_event (cx_tools k) (cx_rollout k) (cx_settings k) (cx_uid k (sp_uids p)) nm
          (get_runtime_ids ek (sp_bridge p)) None")
        case (Inl e)
        with assms(2) item ek show thesis by (intro same) (auto simp: process_item_def Let_def)
      next
        case ev: (Inr ev)
        note built = tracked_built [OF assms(1) ev]
        let ?q = "snd (add_event now ev (sp_coordinator p))"
        show thesis
        proof (cases "should_skip_event (cx_settings k) (fst (fp ev)) (snd (fp ev)) (sp_bridge p)
            \<or> should_skip (cx_settings k) (fst (fp ev)) (snd (fp ev)) (sp_registry p) \<or> fp ev \<in> co_outstanding (sp_coordinator p)")
          case True
          with assms(2) item ek ev show thesis
            by (intro same) (auto simp: process_item_def Let_def add_event_def split: if_splits)
        next
          case False
          then have fresh: "fp ev \<notin> co_outstanding (sp_coordinator p)" by blast
          define p2 where "p2 = p1\<lparr>sp_coordinator := ?q\<rparr>"
          have "p' = p2 \<and> x = None \<or> flush_one_round k False admitted now p2 = (x, p')"
            using assms(2) item ek ev False
            by (auto simp: process_item_def Let_def add_event_def p2_def p1_def p0_def split: if_splits)
          with built fresh show thesis by (intro queued [of ev p2]) (simp_all add: p2_def p1_def p0_def)
        qed
      qed
    qed
  qed
qed

lemma load_add:
  "fp ev \<notin> co_outstanding q \<Longrightarrow> mset (queued (snd (add_event now ev q))) = add_mset ev (mset (queued q))"
  by (simp add: add_event_def queued_def)

lemma ready_add:
  assumes "ready k p" "tracked k ev" "fp ev \<notin> co_outstanding (sp_coordinator p)"
    "sp_coordinator p1 = snd (add_event now ev (sp_coordinator p))"
  shows "ready k p1"
  using assms exclusive_add [of "[]" "sp_coordinator p" now ev]
  by (auto simp: ready_def load_def load_add)

lemma reach_ready:
  assumes "hex_digest (cx_tools k)" "sync_reach k p"
  shows "ready k p"
  using assms(2)
proof induction
  case (sr_open now)
  then show ?case by (simp add: ready_def open_spider_def load_def queued_def mark_flushed_def new_coordinator_def exclusive_def)
next
  case (sr_item p admitted now item x p')
  from assms(1) sr_item.hyps(2) show ?case
  proof (cases rule: process_item_cases)
    case same
    with sr_item.IH show ?thesis by (simp add: ready_def load_def)
  next
    case (queued ev p1)
    from ready_add [OF sr_item.IH queued(1,3,4)] have "ready k p1" .
    with queued(9) flush_ready [OF assms(1)] show ?thesis by blast
  qed
next
  case (sr_flush p now x p')
  with flush_ready [OF assms(1)] show ?case by blast
qed

section \<open>How often an event is sent\<close>

lemma distinct_map_submset:
  assumes "mset xs \<subseteq># mset ys" "distinct (map f ys)" shows "distinct (map f xs)"
proof -
  have "mset (map f xs) \<subseteq># mset (map f ys)" using image_mset_subseteq_mono [OF assms(1)] by simp
  moreover have "count (mset (map f ys)) i \<le> 1" for i using assms(2) by (simp add: distinct_count_atmost_1)
  ultimately have "count (mset (map f xs)) i \<le> 1" for i by (meson mset_subset_eq_count order.trans)
  then have "count (mset (map f xs)) i = (if i \<in> set (map f xs) then 1 else 0)" for i
    by (metis One_nat_def count_mset_0_iff le_0_eq le_SucE)
  then show ?thesis by (simp only: distinct_count_atmost_1) blast
qed

lemma filter_distinct_key:
  "distinct (map f xs) \<Longrightarrow> length (filter (\<lambda>x. f x = i) xs) = (if i \<in> f ` set xs then 1 else 0)"
  by (induction xs) (auto simp: filter_empty_conv)


definition sends :: "pystr \<Rightarrow> pipeline \<Rightarrow> nat" where
  "sends i p = length (filter (\<lambda>e. se_event_id e = i) (concat (sp_sent p)))"

definition distinct_uids :: "sync_ctx \<Rightarrow> bool" where
  "distinct_uids k \<longleftrightarrow> inj (\<lambda>n. strip (cx_uid k n))"

definition drawn :: "sync_ctx \<Rightarrow> pipeline \<Rightarrow> pystr \<Rightarrow> bool" where
  "drawn k p i \<longleftrightarrow> (\<exists>n < sp_uids p. i = strip (cx_uid k n))"

text \<open>
  Attempts count the sends of the events still queued, identifiers are not shared, and an
  identifier not yet drawn has never been sent or counted.
\<close>

definition counted :: "sync_ctx \<Rightarrow> pipeline \<Rightarrow> bool" where
  "counted k p \<longleftrightarrow>
    (\<forall>i. sends i p \<le> nat (PARSER_MAX_EVENT_ATTEMPTS_PER_RUN (cx_settings k)))
    \<and> (\<forall>e\<in>#load [] p. attempts_of (se_event_id e) (sp_attempts p) = int (sends (se_event_id e) p))
    \<and> (\<forall>i. \<not> drawn k p i \<longrightarrow> sends i p = 0 \<and> attempts_of i (sp_attempts p) = 0)
    \<and> (\<forall>e\<in>#load [] p. drawn k p (se_event_id e))
    \<and> distinct (map se_event_id (queued (sp_coordinator p)))"

lemma drawn_mono: "sp_uids p \<le> sp_uids p' \<Longrightarrow> drawn k p i \<Longrightarrow> drawn k p' i"
  by (auto simp: drawn_def intro: less_le_trans)

lemma sends_append: "sp_sent p' = sp_sent p @ b \<Longrightarrow> sends i p' = sends i p + length (filter (\<lambda>e. se_event_id e = i) (concat b))"
  by (simp add: sends_def)

lemma counted_flush:
  assumes "hex_digest (cx_tools k)" "ready k p" "counted k p" "flush_one_round k force admitted now p = (x, p')"
  shows "counted k p'"
  using assms(1,2,4)
proof (cases rule: flush_cases)
  case idle
  with assms(3) show ?thesis by simp
next
  case (busy es ws q s d a)
  let ?m = "PARSER_MAX_EVENT_ATTEMPTS_PER_RUN (cx_settings k)"
  have p': "sp_attempts p' = od_pop_all (map se_event_id d) a" "sp_sent p' = sp_sent p @ (if s = [] then [] else [s])"
    "sp_uids p \<le> sp_uids p'" "load [] p' \<subseteq># mset s + mset (queued q)"
    using busy(4) by (simp_all add: settles_def load_def)
  have loads: "load [] p = mset s + mset d + mset (queued q)"
    using pop_mset(1) [OF busy(1)] attempt_split_mset [OF busy(3), symmetric] by (simp add: load_def add_ac)
  have d_all: "distinct (map se_event_id (s @ d @ queued q))"
  proof (rule distinct_map_submset)
    show "mset (s @ d @ queued q) \<subseteq># mset (queued (sp_coordinator p))" using loads by (simp add: load_def add_ac)
    show "distinct (map se_event_id (queued (sp_coordinator p)))" using assms(3) by (simp add: counted_def)
  qed
  have "distinct (map se_event_id es)"
    by (rule distinct_map_submset [of _ "s @ d"]) (use attempt_split_mset [OF busy(3)] d_all in auto)
  note split = attempt_split_counts [OF busy(3) this]
  have sent: "sends i p' = sends i p + (if i \<in> se_event_id ` set s then 1 else 0)" for i
  proof -
    have "length (filter (\<lambda>e. se_event_id e = i) s) = (if i \<in> se_event_id ` set s then 1 else 0)"
      by (rule filter_distinct_key) (use d_all in simp)
    then show ?thesis by (cases "s = []") (simp_all add: sends_append [OF p'(2)] del: filter_empty_conv)
  qed
  have att: "attempts_of i (sp_attempts p')
      = (if i \<in> se_event_id ` set d then 0 else attempts_of i (sp_attempts p) + (if i \<in> se_event_id ` set s then 1 else 0))" for i
    using split(1) by (simp add: p'(1) attempts_of_pop_all)
  have old: "attempts_of (se_event_id e) (sp_attempts p) = int (sends (se_event_id e) p)" "drawn k p (se_event_id e)"
    if "e \<in># load [] p" for e
    using assms(3) that by (simp_all add: counted_def)
  have "sends i p' \<le> nat ?m" for i
  proof (cases "i \<in> se_event_id ` set s")
    case True
    then obtain e where e: "e \<in> set s" "i = se_event_id e" by blast
    then have "e \<in># load [] p" by (simp add: loads)
    with split(2) e old(1) have "int (sends i p) + 1 \<le> ?m" by fastforce
    with True show ?thesis by (simp add: sent)
  next
    case False
    with assms(3) show ?thesis by (simp add: sent counted_def)
  qed
  moreover have "attempts_of (se_event_id e) (sp_attempts p') = int (sends (se_event_id e) p')" "drawn k p' (se_event_id e)"
    if e: "e \<in># load [] p'" for e
  proof -
    have in_sq: "e \<in> set s \<union> set (queued q)" using mset_subset_eqD [OF p'(4) e] by simp
    then have "e \<in># load [] p" by (auto simp: loads)
    moreover have "se_event_id e \<notin> se_event_id ` set d" using in_sq d_all by auto
    ultimately show "attempts_of (se_event_id e) (sp_attempts p') = int (sends (se_event_id e) p')"
      and "drawn k p' (se_event_id e)"
      using old [of e] drawn_mono [OF p'(3)] by (simp_all add: att sent)
  qed
  moreover have "sends i p' = 0 \<and> attempts_of i (sp_attempts p') = 0" if "\<not> drawn k p' i" for i
  proof -
    have nd: "\<not> drawn k p i" using that drawn_mono [OF p'(3)] by blast
    have "i \<notin> se_event_id ` set s" using nd old(2) by (auto simp: loads)
    with nd assms(3) show ?thesis by (simp add: sent att counted_def)
  qed
  moreover have "distinct (map se_event_id (queued (sp_coordinator p')))"
    by (rule distinct_map_submset [of _ "s @ queued q"]) (use p'(4) d_all in \<open>auto simp: load_def\<close>)
  ultimately show ?thesis by (simp add: counted_def)
qed

lemma counted_reach:
  assumes "hex_digest (cx_tools k)" "distinct_uids k" "sync_reach k p"
  shows "counted k p"
  using assms(3)
proof induction
  case (sr_open now)
  then show ?case
    by (simp add: counted_def open_spider_def load_def queued_def mark_flushed_def new_coordinator_def sends_def
        attempts_of_def od_get_def)
next
  case (sr_item p admitted now item x p')
  from assms(1) sr_item.hyps(2) show ?case
  proof (cases rule: process_item_cases)
    case same
    have "drawn k p i \<Longrightarrow> drawn k p' i" for i by (rule drawn_mono [OF same(5)])
    then have "\<not> drawn k p' i \<Longrightarrow> \<not> drawn k p i" for i by blast
    with same sr_item.IH \<open>\<And>i. drawn k p i \<Longrightarrow> drawn k p' i\<close> show ?thesis
      unfolding counted_def load_def sends_def same(1-3) by blast
  next
    case (queued ev p1)
    let ?i = "strip (cx_uid k (sp_uids p))"
    have fresh: "\<not> drawn k p ?i" "drawn k p1 ?i"
      using assms(2) by (auto simp: drawn_def distinct_uids_def queued(8) dest: injD)
    have mono: "drawn k p i \<Longrightarrow> drawn k p1 i" for i by (rule drawn_mono [of p]) (simp_all add: queued(8))
    have q: "set (Sync_State.queued (sp_coordinator p1)) = insert ev (set (Sync_State.queued (sp_coordinator p)))"
      "map se_event_id (Sync_State.queued (sp_coordinator p1)) = map se_event_id (Sync_State.queued (sp_coordinator p)) @ [?i]"
      using queued(2,3) by (auto simp: queued(4) add_event_def Sync_State.queued_def)
    have "?i \<notin> se_event_id ` set (Sync_State.queued (sp_coordinator p))"
      using fresh(1) sr_item.IH by (auto simp: counted_def load_def)
    moreover have "sends i p1 = sends i p" for i by (simp add: sends_def queued(6))
    moreover have "sends ?i p = 0 \<and> attempts_of ?i (sp_attempts p) = 0" using fresh(1) sr_item.IH by (simp add: counted_def)
    moreover have "\<not> drawn k p1 i \<Longrightarrow> \<not> drawn k p i" for i using mono by blast
    ultimately have c1: "counted k p1"
      using sr_item.IH fresh(2) mono queued(2) unfolding counted_def load_def q(2) by (simp add: q(1) queued(5))
    from ready_add [OF reach_ready [OF assms(1) sr_item.hyps(1)] queued(1,3,4)] have "ready k p1" .
    with queued(9) c1 counted_flush [OF assms(1)] show ?thesis by blast
  qed
next
  case (sr_flush p now x p')
  with counted_flush [OF assms(1) reach_ready [OF assms(1)]] show ?case by blast
qed

section \<open>Draining\<close>

text \<open>
  What a forced round costs: with room for an event and for a retry, a round with work
  takes some, and each taken event is settled or has used up its requeue.
\<close>

lemma pop_takes:
  assumes "pop_flush_batch_with_waits c now q = ((es, ws), q')" "has_work q"
    "0 < CRM_BATCH_SIZE c" "0 < CRM_BATCH_MAX_RETRYABLE_ITEMS_PER_FLUSH c"
  shows "es \<noteq> []"
  using assms by (cases "co_retry q"; cases "co_pending q") (auto simp: pop_flush_batch_with_waits_def Let_def has_work_def)

lemma forced_flush_progress:
  assumes "hex_digest (cx_tools k)" "ready k p" "flush_one_round k True True now p = (x, p')"
    and "has_work (sp_coordinator p)" "PARSER_REQUEUE_RETRYABLE_ONCE (cx_settings k)"
    "0 < CRM_BATCH_SIZE (cx_settings k)" "0 < CRM_BATCH_MAX_RETRYABLE_ITEMS_PER_FLUSH (cx_settings k)"
  shows "weight (sp_requeued p') (load [] p') < weight (sp_requeued p) (load [] p)"
  using assms(1-3)
proof (cases rule: flush_cases)
  case idle
  obtain es ws q where "pop_flush_batch_with_waits (cx_settings k) now (sp_coordinator p) = ((es, ws), q)" by (metis surj_pair)
  with pop_takes [OF this assms(4,6,7)] idle(3) show ?thesis by simp
next
  case (busy es ws q s d a)
  let ?R = "sp_requeued p"
  have "weight (sp_requeued p') (load [] p') + length s \<le> weight ?R (mset s + mset (queued q))"
    using busy(4) assms(5) by (simp add: settles_def load_def)
  moreover have "weight ?R (load [] p) = weight ?R (mset s + mset (queued q)) + weight ?R (mset d)"
    using pop_mset(1) [OF busy(1)] attempt_split_mset [OF busy(3), symmetric] by (simp add: load_def add_ac flip: weight_simps(3))
  moreover have "length s + length d > 0"
    using attempt_split_mset [OF busy(3)] busy(2) by (metis add_is_0 length_greater_0_conv size_mset size_union neq0_conv)
  moreover have "length d \<le> weight ?R (mset d)" using weight_size(1) [of "mset d" ?R] by simp
  ultimately show ?thesis by linarith
qed

lemma no_work_load: "\<not> has_work (sp_coordinator p) \<longleftrightarrow> load [] p = {#}"
  by (auto simp: has_work_def load_def queued_def)

lemma drain_empties:
  assumes "hex_digest (cx_tools k)" "PARSER_REQUEUE_RETRYABLE_ONCE (cx_settings k)"
    "0 < CRM_BATCH_SIZE (cx_settings k)" "0 < CRM_BATCH_MAX_RETRYABLE_ITEMS_PER_FLUSH (cx_settings k)"
  shows "ready k p \<Longrightarrow> drain k now n p = (None, p') \<Longrightarrow> weight (sp_requeued p) (load [] p) \<le> n
    \<Longrightarrow> load [] p' = {#} \<and> ready k p'"
proof (induction n arbitrary: p)
  case 0
  then show ?case using weight_size(1) [of "load [] p" "sp_requeued p"] by simp
next
  case (Suc n)
  show ?case
  proof (cases "has_work (sp_coordinator p)")
    case False
    with Suc.prems show ?thesis by (simp add: no_work_load)
  next
    case True
    obtain y p1 where f: "flush_one_round k True True now p = (y, p1)" by (metis surj_pair)
    with Suc.prems(2) True have y: "y = None" "drain k now n p1 = (None, p')" by (cases y; simp)+
    have "weight (sp_requeued p1) (load [] p1) \<le> n"
      using forced_flush_progress [OF assms(1) Suc.prems(1) f True assms(2-4)] Suc.prems(3) by simp
    with Suc.IH [OF flush_ready [OF assms(1) Suc.prems(1) f] y(2)] show ?thesis .
  qed
qed

section \<open>Properties\<close>

definition sample_ctx :: sync_ctx where
  "sample_ctx = \<lparr> cx_tools = sample_tools, cx_rollout = sample_rollout, cx_settings = sample_sync,
     cx_uid = (\<lambda>n. replicate n (CHR ''u'')), cx_send = (\<lambda>n es. Send_error (OtherError ''x'')) \<rparr>"

lemma sample_ctx_simps [simp]:
  "cx_tools sample_ctx = sample_tools" "cx_settings sample_ctx = sample_sync" "cx_rollout sample_ctx = sample_rollout"
  "cx_uid sample_ctx n = replicate n (CHR ''u'')" "cx_send sample_ctx n es = Send_error (OtherError ''x'')"
  by (simp_all add: sample_ctx_def)

lemma sample_distinct_uids: "distinct_uids sample_ctx"
proof -
  have "strip (replicate n (CHR ''u'')) = replicate n (CHR ''u'')" for n
    by (cases n) (simp_all add: strip_id is_py_space_def)
  then show ?thesis by (simp add: distinct_uids_def inj_def)
qed

definition after_item :: pipeline where
  "after_item = snd (process_item sample_ctx True 1 (Some sample_normalized) (open_spider 0))"

lemma after_item_reach: "sync_reach sample_ctx after_item"
  unfolding after_item_def by (rule sr_item [OF sr_open]) (rule surjective_pairing)

lemma after_item_queued:
  "map fp (queued (sp_coordinator after_item)) = [(''shop:1'', ''sha256:'' @ replicate 64 (CHR ''0''))]"
  by code_simp

text \<open>C12. No delivery leaks: whatever the transport answers and whatever is raised, between two
  calls of the pipeline the outstanding set is exactly the fingerprints of the queued
  events, each queued once, so a delivery settled in any way (applied, rejected, dropped,
  lost with its batch) can be enqueued again and one still queued cannot.\<close>

theorem no_fingerprint_leaks:
  assumes "hex_digest (cx_tools k)" and "sync_reach k p"
  shows "distinct (map fp (queued (sp_coordinator p)))
    \<and> co_outstanding (sp_coordinator p) = set (map fp (queued (sp_coordinator p)))"
  using reach_ready [OF assms] by (simp add: ready_def exclusive_def)

theorem no_fingerprint_leaks_witness:
  "co_outstanding (sp_coordinator after_item) = {(''shop:1'', ''sha256:'' @ replicate 64 (CHR ''0''))}"
proof -
  have "hex_digest (cx_tools sample_ctx)" by (simp add: sample_hex)
  from no_fingerprint_leaks [OF this after_item_reach] show ?thesis by (simp only: after_item_queued list.simps)
qed

text \<open>C13. Sending is bounded: when the event identifiers drawn are distinct, no event is handed to
  the transport more often than the allowed attempts per run, in all batches together,
  and the attempts counted for a queued event are exactly its sends so far.\<close>

theorem sends_bounded:
  assumes "hex_digest (cx_tools k)" and "distinct_uids k" and "sync_reach k p"
  shows "sends i p \<le> nat (PARSER_MAX_EVENT_ATTEMPTS_PER_RUN (cx_settings k))
    \<and> list_all (\<lambda>e. attempts_of (se_event_id e) (sp_attempts p) = int (sends (se_event_id e) p)) (queued (sp_coordinator p))"
  using counted_reach [OF assms] by (simp add: counted_def load_def list_all_iff)

theorem sends_bounded_witness: "sends ''u'' after_item \<le> 3"
proof -
  have "hex_digest (cx_tools sample_ctx)" by (simp add: sample_hex)
  from sends_bounded [OF this sample_distinct_uids after_item_reach, of "''u''"] show ?thesis by simp
qed

text \<open>C14. Closing the spider drains the queues: with requeueing once, room in a batch and room for
  retries, and at most a thousand events queued, the two thousand rounds of the close
  end, unless one of them raises, with nothing queued and nothing outstanding.\<close>

theorem close_drains:
  assumes "hex_digest (cx_tools k)" and "sync_reach k p" and "PARSER_REQUEUE_RETRYABLE_ONCE (cx_settings k)"
    and "0 < CRM_BATCH_SIZE (cx_settings k)" and "0 < CRM_BATCH_MAX_RETRYABLE_ITEMS_PER_FLUSH (cx_settings k)"
    and "pending_len (sp_coordinator p) \<le> 1000" and "close_spider k now p = (None, p')"
  shows "\<not> has_work (sp_coordinator p') \<and> co_outstanding (sp_coordinator p') = {}"
proof -
  have ready: "ready k p" by (rule reach_ready [OF assms(1,2)])
  have "size (load [] p) = pending_len (sp_coordinator p)" by (simp add: load_def queued_def pending_len_def)
  then have "weight (sp_requeued p) (load [] p) \<le> 2000"
    using weight_size(2) [of "sp_requeued p" "load [] p"] assms(6) by simp
  with drain_empties [OF assms(1,3-5) ready] assms(7)
  have "load [] p' = {#}" "ready k p'" by (simp_all add: close_spider_def)
  then show ?thesis by (simp add: no_work_load ready_def exclusive_def load_def)
qed

theorem close_drains_witness:
  "co_outstanding (sp_coordinator (snd (close_spider sample_ctx 2 after_item))) = {}"
proof -
  have h: "hex_digest (cx_tools sample_ctx)" by (simp add: sample_hex)
  have s: "PARSER_REQUEUE_RETRYABLE_ONCE (cx_settings sample_ctx)" "0 < CRM_BATCH_SIZE (cx_settings sample_ctx)"
    "0 < CRM_BATCH_MAX_RETRYABLE_ITEMS_PER_FLUSH (cx_settings sample_ctx)"
    by (simp_all add: sample_sync_def)
  have l: "pending_len (sp_coordinator after_item) \<le> 1000" by code_simp
  have "fst (drain sample_ctx 2 (Suc (Suc 1998)) after_item) = None"
    by code_simp
  then have "close_spider sample_ctx 2 after_item = (None, snd (close_spider sample_ctx 2 after_item))"
    unfolding close_spider_def by (simp add: prod_eq_iff numeral_eq_Suc)
  from close_drains [OF h after_item_reach s l this] show ?thesis by simp
qed

text \<open>Nothing resolves: neither the answer nor the bridge knows an identifier.\<close>

definition ids_unknown :: "pipeline \<Rightarrow> event \<Rightarrow> apply_result \<Rightarrow> bool" where
  "ids_unknown p e res \<longleftrightarrow> \<not> truthy (ar_crm_listing_id res) \<and> \<not> truthy (ar_crm_product_id res)
     \<and> get_runtime_ids (si_entity_key (se_data e)) (sp_bridge p) = no_ids"

definition reconciliation_on :: "sync_ctx \<Rightarrow> event \<Rightarrow> bool" where
  "reconciliation_on k e = is_feature_enabled (tl_sha256 (cx_tools k)) (cx_rollout k) ''replay_reconciliation''
     (Some (si_source_name (se_data e))) (Some (si_entity_key (se_data e)))"

lemma unresolved:
  assumes "\<not> truthy (ar_crm_listing_id res)" "\<not> truthy (ar_crm_product_id res)"
  shows "\<not> rc_resolved (reconcile_missing_ids c no_ids (Some res))"
    and "\<not> rc_resolved (reconcile_after_ambiguous_response c no_ids)"
  using assms
  by (simp_all add: reconcile_missing_ids_def reconcile_after_ambiguous_response_def reconcile_without_response_def
      no_ids_def clean_id_def truthy_def reconciled_def Let_def)

text \<open>C15. The resend of an unresolved success never happens.  When the CRM accepts an event but
  neither its answer nor the bridge has an identifier, the rebuilt product_found event is
  the delivery still in flight, so the coordinator refuses it: nothing is queued, neither
  registry nor bridge learns of the success, no counter moves, and the resend budget of
  the entity is spent all the same.\<close>

theorem unresolved_success_is_lost:
  assumes "hex_digest (cx_tools k)" and "tracked k e" and "exclusive (e # fl) (sp_coordinator p)"
    and "ar_success res" and "ar_signal res \<noteq> None" and "reconciliation_on k e" and "ids_unknown p e res"
  shows "\<exists>p'. apply_item_result k now e res p = (None, p') \<and> queued (sp_coordinator p') = queued (sp_coordinator p)
    \<and> fp e \<notin> co_outstanding (sp_coordinator p')
    \<and> sp_registry p' = sp_registry p \<and> sp_bridge p' = sp_bridge p \<and> sp_metrics p' = sp_metrics p
    \<and> (let n = attempts_of (si_entity_key (se_data e)) (sp_resends p) in
         attempts_of (si_entity_key (se_data e)) (sp_resends p')
         = (if n < PARSER_RECONCILE_MAX_ATTEMPTS_PER_RUN (cx_settings k)
               \<and> PARSER_ALLOW_SAFE_RESEND_PRODUCT_FOUND (cx_settings k) then n + 1 else n))"
proof -
  let ?ek = "si_entity_key (se_data e)"
  from assms(2) obtain uid nm rt req where nm: "se_normalized e = Some nm"
    "build_event (cx_tools k) (cx_rollout k) (cx_settings k) uid nm rt req = Inr e" by (auto simp: tracked_def)
  define r where "r = (if ar_signal res = Some Ambiguous_action then reconcile_after_ambiguous_response (cx_settings k) no_ids
      else reconcile_missing_ids (cx_settings k) no_ids (Some res))"
  have r: "\<not> rc_resolved r" using assms(7) unresolved [of res "cx_settings k"] by (simp add: r_def ids_unknown_def)
  have ids: "get_runtime_ids ?ek (sp_bridge p) = no_ids" using assms(7) by (simp add: ids_unknown_def)
  define p1 where "p1 = p\<lparr>sp_journal := remember_reconciliation (cx_settings k) ?ek r (sp_journal p)\<rparr>"
  have "fp e \<in> co_outstanding (sp_coordinator p1)" using assms(3) by (simp add: p1_def exclusive_def)
  from resend_refused [OF assms(1) nm(2) this] obtain b p2 where
    resend: "maybe_enqueue_product_found_resend k now e nm p1 = (Inr b, p2)" "side_state p1 p2" by blast
  note keeps = side_state_keeps [OF resend(2)]
  have budget: "attempts_of ?ek (sp_resends p2)
      = (if attempts_of ?ek (sp_resends p) < PARSER_RECONCILE_MAX_ATTEMPTS_PER_RUN (cx_settings k)
            \<and> PARSER_ALLOW_SAFE_RESEND_PRODUCT_FOUND (cx_settings k)
         then attempts_of ?ek (sp_resends p) + 1 else attempts_of ?ek (sp_resends p))"
    using resend(1)
    by (auto simp: maybe_enqueue_product_found_resend_def Let_def p1_def attempts_of_def od_get_set
        split: if_splits sum.splits option.splits)
  have "reconcile_success_apply k now e res p = (Inr None, p2)"
    using assms(5,6) r
    by (simp add: reconcile_success_apply_def Let_def nm(1) ids flip: r_def p1_def)
       (simp add: reconciliation_on_def resend(1))
  then have "apply_item_result k now e res p = (None, release [e] p2)"
    using assms(4,5) by (simp add: apply_item_result_def)
  moreover have "queued (sp_coordinator (release [e] p2)) = queued (sp_coordinator p)" by (simp add: keeps p1_def)
  moreover have "fp e \<notin> co_outstanding (sp_coordinator (release [e] p2))" by (simp add: release_fingerprints_def)
  moreover have "sp_resends (release [e] p2) = sp_resends p2" by (simp add: release_def)
  ultimately show ?thesis using keeps budget by (simp add: p1_def Let_def)
qed

definition in_flight :: "event list \<times> pipeline" where
  "in_flight = (let ((es, ws), q) = pop_flush_batch_with_waits sample_sync 2 (sp_coordinator after_item)
     in (es, after_item\<lparr>sp_coordinator := q\<rparr>))"

lemma in_flight_values:
  "map (\<lambda>e. (fp e, si_source_name (se_data e))) (fst in_flight)
      = [((''shop:1'', ''sha256:'' @ replicate 64 (CHR ''0'')), ''shop'')]"
  by code_simp

lemma in_flight_fresh: "sp_bridge after_item = []" "sp_resends after_item = []"
  by code_simp+

lemma in_flight_ok:
  obtains e where "fst in_flight = [e]" "tracked sample_ctx e" "exclusive [e] (sp_coordinator (snd in_flight))"
    "fp e = (''shop:1'', ''sha256:'' @ replicate 64 (CHR ''0''))" "si_source_name (se_data e) = ''shop''"
    "sp_bridge (snd in_flight) = []" "sp_resends (snd in_flight) = []"
proof -
  obtain es ws q where pop: "pop_flush_batch_with_waits sample_sync 2 (sp_coordinator after_item) = ((es, ws), q)" by (metis surj_pair)
  have ready: "ready sample_ctx after_item"
    by (rule reach_ready [OF _ after_item_reach]) (simp add: sample_hex)
  have ex: "exclusive es q" using exclusive_pop [OF _ pop, of "[]"] ready by (simp add: ready_def)
  have eqs: "fst in_flight = es" "snd in_flight = after_item\<lparr>sp_coordinator := q\<rparr>" by (simp_all add: in_flight_def pop)
  note one = in_flight_values
  then obtain e where e: "es = [e]" by (auto simp: eqs)
  have "e \<in># load [] after_item"
    using pop_mset(1) [OF pop, unfolded e] by (simp add: load_def) (metis union_single_eq_member set_mset_mset)
  then have "tracked sample_ctx e" using ready by (simp add: ready_def)
  with that [of e] ex one in_flight_fresh show thesis by (simp add: eqs e)
qed

theorem unresolved_success_is_lost_witness:
  "\<exists>p'. apply_item_result sample_ctx 2 (hd (fst in_flight))
      (sample_result\<lparr>ar_crm_listing_id := None, ar_signal := Some Missing_ids\<rparr>) (snd in_flight) = (None, p')
    \<and> attempts_of ''shop:1'' (sp_resends p') = 1 \<and> sp_registry p' = sp_registry (snd in_flight)"
proof (rule in_flight_ok)
  fix e
  assume e: "fst in_flight = [e]" "tracked sample_ctx e" "exclusive [e] (sp_coordinator (snd in_flight))"
    "fp e = (''shop:1'', ''sha256:'' @ replicate 64 (CHR ''0''))" "si_source_name (se_data e) = ''shop''"
    "sp_bridge (snd in_flight) = []" "sp_resends (snd in_flight) = []"
  have ek: "si_entity_key (se_data e) = ''shop:1''" using e(4) by (simp add: fp_def)
  have h: "hex_digest (cx_tools sample_ctx)" by (simp add: sample_hex)
  let ?res = "sample_result\<lparr>ar_crm_listing_id := None, ar_signal := Some Missing_ids\<rparr>"
  have "is_feature_enabled (tl_sha256 sample_tools) sample_rollout ''replay_reconciliation'' (Some ''shop'') (Some ''shop:1'')"
    by code_simp
  then have on: "reconciliation_on sample_ctx e" by (simp add: reconciliation_on_def e(5) ek)
  have unknown: "ids_unknown (snd in_flight) e ?res"
    by (simp add: ids_unknown_def e(6) ek truthy_def sample_result_def get_runtime_ids_def bridge_row_of_def od_get_def
        empty_row_def as_str_or_none_def no_ids_def)
  have budget: "PARSER_RECONCILE_MAX_ATTEMPTS_PER_RUN sample_sync = 1" "PARSER_ALLOW_SAFE_RESEND_PRODUCT_FOUND sample_sync"
    "attempts_of ''shop:1'' (sp_resends (snd in_flight)) = 0"
    by (simp_all add: sample_sync_def attempts_of_def od_get_def e(7))
  have "ar_success ?res" "ar_signal ?res \<noteq> None" by (simp_all add: sample_result_def)
  from unresolved_success_is_lost [OF h e(2,3) this on unknown, of 2] show ?thesis
    by (auto simp: e(1) ek budget Let_def split: if_splits)
qed

text \<open>How an applied result is routed.  A success without open questions (or with the
  reconciliation feature off) is remembered as sent, its identifiers go to registry and
  bridge, its fingerprint is released and it counts as synced.  A failure is requeued
  exactly when it is retryable, not a rejection, requeueing is on and, with requeue-once,
  the event was not requeued before; otherwise its fingerprint is released; it never
  touches registry or bridge.\<close>

theorem results_routed:
  assumes "fp e \<in> co_outstanding (sp_coordinator p)"
    and "ar_success res \<Longrightarrow> ar_signal res = None \<or> \<not> reconciliation_on k e"
  shows "let c = cx_settings k; (x, p') = apply_item_result k now e res p; ek = si_entity_key (se_data e) in x = None
    \<and> (if ar_success res
       then sp_registry p' = remember_crm_ids c ek (ar_crm_listing_id res) (ar_crm_product_id res) (ar_action res)
              (remember_payload c ek (si_payload_hash (se_data e)) (sp_registry p))
         \<and> sp_bridge p' = remember_apply_result c (res\<lparr>ar_signal := None\<rparr>) (sp_bridge p)
         \<and> mt_items_synced (sp_metrics p') = mt_items_synced (sp_metrics p) + 1
         \<and> co_outstanding (sp_coordinator p') = co_outstanding (sp_coordinator p) - {fp e}
       else sp_registry p' = sp_registry p \<and> sp_bridge p' = sp_bridge p
         \<and> mt_items_failed (sp_metrics p') = mt_items_failed (sp_metrics p) + 1
         \<and> (if ar_retryable res \<and> ar_status res \<noteq> Rejected \<and> CRM_BATCH_REQUEUE_RETRYABLE_ITEMS c
                \<and> (PARSER_REQUEUE_RETRYABLE_ONCE c \<longrightarrow> se_event_id e \<notin> sp_requeued p)
            then co_retry (sp_coordinator p') = co_retry (sp_coordinator p) @ [(e, now)]
              \<and> co_outstanding (sp_coordinator p') = co_outstanding (sp_coordinator p)
            else co_retry (sp_coordinator p') = co_retry (sp_coordinator p)
              \<and> co_outstanding (sp_coordinator p') = co_outstanding (sp_coordinator p) - {fp e}))"
proof (cases "ar_success res")
  case True
  have "reconcile_success_apply k now e res p = (Inr (Some (res\<lparr>ar_signal := None\<rparr>)), p)"
    using assms(2) [OF True]
    by (auto simp: reconcile_success_apply_def reconciliation_on_def Let_def)
  then show ?thesis
    using True
    by (simp add: apply_item_result_def record_success_def release_def release_fingerprints_def bump_synced_def Let_def)
next
  case False
  then show ?thesis
    by (simp add: apply_item_result_def apply_item_failure_def requeue_event_def requeue_retryable_def
        release_def release_fingerprints_def Let_def)
qed

theorem results_routed_witness:
  "\<exists>e p'. apply_item_result sample_ctx 2 e sample_result (snd in_flight) = (None, p')
    \<and> mt_items_synced (sp_metrics p') = mt_items_synced (sp_metrics (snd in_flight)) + 1"
proof (rule in_flight_ok)
  fix e
  assume e: "exclusive [e] (sp_coordinator (snd in_flight))"
  then have "fp e \<in> co_outstanding (sp_coordinator (snd in_flight))" by (simp add: exclusive_def)
  moreover have "ar_signal sample_result = None" "ar_success sample_result" by (simp_all add: sample_result_def)
  ultimately show ?thesis
    using results_routed [of e "snd in_flight" sample_result sample_ctx 2]
    by (cases "apply_item_result sample_ctx 2 e sample_result (snd in_flight)") (auto simp: Let_def)
qed

lemma starved_round:
  assumes "CRM_BATCH_MAX_RETRYABLE_ITEMS_PER_FLUSH (cx_settings k) \<le> 0" and "co_pending (sp_coordinator p) = []"
  shows "flush_one_round k True True now p = (None, p)"
  using assms by (simp add: flush_one_round_def pop_flush_batch_with_waits_def Let_def)

text \<open>With no room for retries in a flush, which the settings allow, a requeued event is never
  sent again: while nothing else is pending a forced round changes nothing, so closing
  the spider spends its rounds and leaves the event queued and outstanding.\<close>

theorem retries_starve:
  assumes "CRM_BATCH_MAX_RETRYABLE_ITEMS_PER_FLUSH (cx_settings k) \<le> 0" and "co_pending (sp_coordinator p) = []"
  shows "close_spider k now p = (None, p)"
proof -
  have "drain k now n p = (None, p)" for n
    by (induction n) (simp_all add: starved_round [OF assms])
  then show ?thesis by (simp add: close_spider_def)
qed

theorem retries_starve_witness:
  "\<exists>p. co_retry (sp_coordinator p) \<noteq> []
    \<and> close_spider (sample_ctx\<lparr>cx_settings := sample_sync\<lparr>CRM_BATCH_MAX_RETRYABLE_ITEMS_PER_FLUSH := 0\<rparr>\<rparr>) 2 p = (None, p)"
proof (rule in_flight_ok)
  fix e
  assume "tracked sample_ctx e"
  define p where "p = (open_spider 0)\<lparr>sp_coordinator := requeue_retryable 1 [e] (new_coordinator 0)\<rparr>"
  have "co_pending (sp_coordinator p) = []" "co_retry (sp_coordinator p) \<noteq> []"
    by (simp_all add: p_def requeue_retryable_def new_coordinator_def)
  moreover have "CRM_BATCH_MAX_RETRYABLE_ITEMS_PER_FLUSH (cx_settings
      (sample_ctx\<lparr>cx_settings := sample_sync\<lparr>CRM_BATCH_MAX_RETRYABLE_ITEMS_PER_FLUSH := 0\<rparr>\<rparr>)) \<le> 0"
    by simp
  ultimately show ?thesis using retries_starve by blast
qed

end
