(* ===== verification/Resource_Governance.thy ===== *)
theory Resource_Governance imports Prelude begin

text \<open>
  The resource governance of a crawl: \<^verbatim>\<open>config/store_resource_budgets.py\<close> (budgets),
  \<^verbatim>\<open>infrastructure/performance/resource_tracker.py\<close> (the process-wide counters),
  \<^verbatim>\<open>application/performance\<close> (admission, backpressure and degradation policies) and
  \<^verbatim>\<open>infrastructure/access/resource_governance.py\<close> (the guard around every scheduled
  request).  Counters are \<^verbatim>\<open>int\<close>, memory is an exact rational; logging and cost tracking
  are left out.
\<close>

section \<open>Settings, budgets and decisions\<close>

record gov_settings =
  ENABLE_RESOURCE_GOVERNANCE :: bool
  ENABLE_STORE_RESOURCE_BUDGETS :: bool
  ENABLE_BACKPRESSURE_POLICY :: bool
  ENABLE_BATCH_BACKPRESSURE :: bool
  ENABLE_BROWSER_BUDGETS :: bool
  ENABLE_PROXY_BUDGETS :: bool
  ENABLE_MEMORY_GUARD :: bool
  GLOBAL_MAX_CONCURRENT_REQUESTS :: int
  GLOBAL_MAX_INFLIGHT_BATCHES :: int
  GLOBAL_MAX_BROWSER_PAGES :: int
  GLOBAL_MAX_PROXY_REQUESTS :: int
  GLOBAL_MAX_RETRYABLE_QUEUE :: int
  GLOBAL_MAX_MEMORY_MB :: rat
  SCRAPY_RESOURCE_GOV_BYPASS_STORES :: "pystr list"
  BACKPRESSURE_MEMORY_WARNING_MB :: rat
  BACKPRESSURE_MEMORY_CRITICAL_MB :: rat
  BACKPRESSURE_RETRYABLE_QUEUE_WARNING :: int
  BACKPRESSURE_RETRYABLE_QUEUE_CRITICAL :: int
  BACKPRESSURE_BATCH_INFLIGHT_WARNING :: int
  BACKPRESSURE_BATCH_INFLIGHT_CRITICAL :: int

datatype resource_mode = Http_mode | Proxy_mode | Browser_mode

record budget =
  bg_store_name :: pystr
  max_concurrent_requests :: int
  max_listing_requests :: int
  max_product_requests :: int
  max_batch_inflight :: int
  max_retryable_queue :: int
  max_browser_pages :: int
  max_proxy_requests :: int
  max_memory_mb :: "int option"

record runtime_state =
  rs_store_name :: pystr
  inflight_requests :: int
  inflight_listing_requests :: int
  inflight_product_requests :: int
  inflight_batches :: int
  queued_retryable_items :: int
  active_browser_pages :: int
  active_proxy_requests :: int
  memory_mb :: "rat option"

record concurrency_decision =
  cd_allowed :: bool
  cd_store_name :: pystr
  cd_reason :: pystr
  cd_selected_limit :: int
  cd_mode :: resource_mode

datatype severity = Warning | High | Critical

datatype pressure_action = Slow_down | Pause_batches | Reduce_browser | Reduce_proxy | Degrade_store

record backpressure_decision =
  bp_apply :: bool
  bp_store_name :: pystr
  bp_reason :: pystr
  bp_severity :: severity
  bp_suggested_action :: pressure_action

record throttle_decision =
  th_throttle :: bool
  th_store_name :: pystr
  th_mode :: resource_mode
  th_new_limit :: "int option"
  th_reason :: pystr

text \<open>\<open>(store_name or "").strip() or "unknown"\<close>\<close>

definition store_key :: "pystr \<Rightarrow> pystr" where
  "store_key name = (let s = strip name in if s = [] then ''unknown'' else s)"

definition default_budget :: budget where
  "default_budget = \<lparr> bg_store_name = ''*'', max_concurrent_requests = 8, max_listing_requests = 5,
     max_product_requests = 6, max_batch_inflight = 2, max_retryable_queue = 80, max_browser_pages = 1,
     max_proxy_requests = 4, max_memory_mb = Some 384 \<rparr>"

definition mediapark_budget :: budget where
  "mediapark_budget = \<lparr> bg_store_name = ''mediapark'', max_concurrent_requests = 14, max_listing_requests = 8,
     max_product_requests = 10, max_batch_inflight = 3, max_retryable_queue = 150, max_browser_pages = 3,
     max_proxy_requests = 8, max_memory_mb = Some 480 \<rparr>"

definition uzum_budget :: budget where
  "uzum_budget = \<lparr> bg_store_name = ''uzum'', max_concurrent_requests = 12, max_listing_requests = 4,
     max_product_requests = 12, max_batch_inflight = 2, max_retryable_queue = 80, max_browser_pages = 3,
     max_proxy_requests = 4, max_memory_mb = Some 448 \<rparr>"

definition texnomart_budget :: budget where
  "texnomart_budget = \<lparr> bg_store_name = ''texnomart'', max_concurrent_requests = 20, max_listing_requests = 4,
     max_product_requests = 16, max_batch_inflight = 3, max_retryable_queue = 140, max_browser_pages = 2,
     max_proxy_requests = 4, max_memory_mb = Some 448 \<rparr>"

definition alifshop_budget :: budget where
  "alifshop_budget = \<lparr> bg_store_name = ''alifshop'', max_concurrent_requests = 24, max_listing_requests = 12,
     max_product_requests = 20, max_batch_inflight = 2, max_retryable_queue = 120, max_browser_pages = 0,
     max_proxy_requests = 4, max_memory_mb = Some 384 \<rparr>"

definition store_budgets :: "(pystr, budget) odict" where
  "store_budgets = [(''mediapark'', mediapark_budget), (''uzum'', uzum_budget),
     (''texnomart'', texnomart_budget), (''alifshop'', alifshop_budget)]"

definition get_store_budget :: "pystr \<Rightarrow> budget" where
  "get_store_budget name =
    (let key = lower (strip name) in
     case od_get key store_budgets of
       Some b \<Rightarrow> b\<lparr>bg_store_name := (if strip name = [] then key else strip name)\<rparr>
     | None \<Rightarrow> default_budget\<lparr>bg_store_name := store_key name\<rparr>)"

section \<open>The counters\<close>

text \<open>The \<open>defaultdict(int)\<close> counters of the process, one per store and resource.\<close>

record tracker =
  tk_inflight_total :: "(pystr, int) odict"
  tk_inflight_listing :: "(pystr, int) odict"
  tk_inflight_product :: "(pystr, int) odict"
  tk_inflight_batches :: "(pystr, int) odict"
  tk_retryable_queue :: "(pystr, int) odict"
  tk_browser_pages :: "(pystr, int) odict"
  tk_proxy_requests :: "(pystr, int) odict"

definition new_tracker :: tracker where
  "new_tracker = \<lparr> tk_inflight_total = [], tk_inflight_listing = [], tk_inflight_product = [],
     tk_inflight_batches = [], tk_retryable_queue = [], tk_browser_pages = [], tk_proxy_requests = [] \<rparr>"

definition count_of :: "pystr \<Rightarrow> (pystr, int) odict \<Rightarrow> int" where
  "count_of k d = (case od_get k d of None \<Rightarrow> 0 | Some n \<Rightarrow> n)"

definition clamp :: "int \<Rightarrow> int" where
  "clamp n = max 0 n"

definition bump :: "pystr \<Rightarrow> (pystr, int) odict \<Rightarrow> (pystr, int) odict" where
  "bump k d = od_set k (count_of k d + 1) d"

definition unbump :: "pystr \<Rightarrow> (pystr, int) odict \<Rightarrow> (pystr, int) odict" where
  "unbump k d = od_set k (clamp (count_of k d - 1)) d"

definition counter_total :: "(pystr, int) odict \<Rightarrow> int" where
  "counter_total d = sum_list (map snd d)"

text \<open>Whether a purpose is counted as a product request; \<open>"listing"\<close>, \<open>"api"\<close> and any other text is a listing.\<close>

definition counts_as_product :: "pystr \<Rightarrow> bool" where
  "counts_as_product purpose \<longleftrightarrow> lower purpose = ''product''"

definition increment_inflight_request :: "gov_settings \<Rightarrow> pystr \<Rightarrow> pystr \<Rightarrow> tracker \<Rightarrow> tracker" where
  "increment_inflight_request g name purpose t =
    (if \<not> ENABLE_RESOURCE_GOVERNANCE g then t
     else
      (let st = store_key name; t1 = t\<lparr>tk_inflight_total := bump st (tk_inflight_total t)\<rparr> in
       if counts_as_product purpose then t1\<lparr>tk_inflight_product := bump st (tk_inflight_product t)\<rparr>
       else t1\<lparr>tk_inflight_listing := bump st (tk_inflight_listing t)\<rparr>))"

definition decrement_inflight_request :: "gov_settings \<Rightarrow> pystr \<Rightarrow> pystr \<Rightarrow> tracker \<Rightarrow> tracker" where
  "decrement_inflight_request g name purpose t =
    (if \<not> ENABLE_RESOURCE_GOVERNANCE g then t
     else
      (let st = store_key name; t1 = t\<lparr>tk_inflight_total := unbump st (tk_inflight_total t)\<rparr> in
       if counts_as_product purpose then t1\<lparr>tk_inflight_product := unbump st (tk_inflight_product t)\<rparr>
       else t1\<lparr>tk_inflight_listing := unbump st (tk_inflight_listing t)\<rparr>))"

definition increment_inflight_batch :: "gov_settings \<Rightarrow> pystr \<Rightarrow> tracker \<Rightarrow> tracker" where
  "increment_inflight_batch g name t =
    (if \<not> ENABLE_RESOURCE_GOVERNANCE g then t
     else t\<lparr>tk_inflight_batches := bump (store_key name) (tk_inflight_batches t)\<rparr>)"

definition decrement_inflight_batch :: "gov_settings \<Rightarrow> pystr \<Rightarrow> tracker \<Rightarrow> tracker" where
  "decrement_inflight_batch g name t =
    (if \<not> ENABLE_RESOURCE_GOVERNANCE g then t
     else t\<lparr>tk_inflight_batches := unbump (store_key name) (tk_inflight_batches t)\<rparr>)"

definition increment_browser_pages :: "gov_settings \<Rightarrow> pystr \<Rightarrow> tracker \<Rightarrow> tracker" where
  "increment_browser_pages g name t =
    (if \<not> ENABLE_RESOURCE_GOVERNANCE g then t
     else t\<lparr>tk_browser_pages := bump (store_key name) (tk_browser_pages t)\<rparr>)"

definition decrement_browser_pages :: "gov_settings \<Rightarrow> pystr \<Rightarrow> tracker \<Rightarrow> tracker" where
  "decrement_browser_pages g name t =
    (if \<not> ENABLE_RESOURCE_GOVERNANCE g then t
     else t\<lparr>tk_browser_pages := unbump (store_key name) (tk_browser_pages t)\<rparr>)"

definition increment_proxy_requests :: "gov_settings \<Rightarrow> pystr \<Rightarrow> tracker \<Rightarrow> tracker" where
  "increment_proxy_requests g name t =
    (if \<not> ENABLE_RESOURCE_GOVERNANCE g then t
     else t\<lparr>tk_proxy_requests := bump (store_key name) (tk_proxy_requests t)\<rparr>)"

definition decrement_proxy_requests :: "gov_settings \<Rightarrow> pystr \<Rightarrow> tracker \<Rightarrow> tracker" where
  "decrement_proxy_requests g name t =
    (if \<not> ENABLE_RESOURCE_GOVERNANCE g then t
     else t\<lparr>tk_proxy_requests := unbump (store_key name) (tk_proxy_requests t)\<rparr>)"

definition set_retryable_queue_size :: "gov_settings \<Rightarrow> pystr \<Rightarrow> int \<Rightarrow> tracker \<Rightarrow> tracker" where
  "set_retryable_queue_size g name n t =
    (if \<not> ENABLE_RESOURCE_GOVERNANCE g then t
     else t\<lparr>tk_retryable_queue := od_set (store_key name) (max 0 n) (tk_retryable_queue t)\<rparr>)"

definition get_global_inflight_requests_total :: "tracker \<Rightarrow> int" where
  "get_global_inflight_requests_total t = counter_total (tk_inflight_total t)"

definition get_global_browser_pages_total :: "tracker \<Rightarrow> int" where
  "get_global_browser_pages_total t = counter_total (tk_browser_pages t)"

definition get_global_proxy_requests_total :: "tracker \<Rightarrow> int" where
  "get_global_proxy_requests_total t = counter_total (tk_proxy_requests t)"

definition get_global_inflight_batches_total :: "tracker \<Rightarrow> int" where
  "get_global_inflight_batches_total t = counter_total (tk_inflight_batches t)"

text \<open>\<open>mem\<close> is what \<open>get_process_memory_mb\<close> reads from the operating system.\<close>

definition build_runtime_state :: "gov_settings \<Rightarrow> rat option \<Rightarrow> pystr \<Rightarrow> tracker \<Rightarrow> runtime_state" where
  "build_runtime_state g mem name t =
    (let st = store_key name in
     \<lparr> rs_store_name = st, inflight_requests = count_of st (tk_inflight_total t),
       inflight_listing_requests = count_of st (tk_inflight_listing t),
       inflight_product_requests = count_of st (tk_inflight_product t),
       inflight_batches = count_of st (tk_inflight_batches t),
       queued_retryable_items = count_of st (tk_retryable_queue t),
       active_browser_pages = count_of st (tk_browser_pages t),
       active_proxy_requests = count_of st (tk_proxy_requests t),
       memory_mb = (if ENABLE_MEMORY_GUARD g then mem else None) \<rparr>)"

section \<open>Admission\<close>

definition cap :: "int \<Rightarrow> int \<Rightarrow> int" where
  "cap a b = max 0 (min a b)"

definition verdict :: "bool \<Rightarrow> pystr \<Rightarrow> pystr \<Rightarrow> int \<Rightarrow> resource_mode \<Rightarrow> concurrency_decision" where
  "verdict ok st reason limit mode =
    \<lparr> cd_allowed = ok, cd_store_name = st, cd_reason = reason, cd_selected_limit = limit, cd_mode = mode \<rparr>"

lemma verdict_simps [simp]:
  "cd_allowed (verdict ok st reason limit mode) = ok"
  "cd_store_name (verdict ok st reason limit mode) = st"
  "cd_reason (verdict ok st reason limit mode) = reason"
  "cd_selected_limit (verdict ok st reason limit mode) = limit"
  "cd_mode (verdict ok st reason limit mode) = mode"
  by (simp_all add: verdict_def)

definition decide_browser_admission :: "gov_settings \<Rightarrow> tracker \<Rightarrow> pystr \<Rightarrow> runtime_state \<Rightarrow> budget \<Rightarrow> concurrency_decision" where
  "decide_browser_admission g t name state bg =
    (let st = store_key name; gl = GLOBAL_MAX_BROWSER_PAGES g; c = cap (max_browser_pages bg) gl in
     if \<not> ENABLE_RESOURCE_GOVERNANCE g \<or> \<not> ENABLE_BROWSER_BUDGETS g
     then verdict True st ''browser_budgets_disabled'' (max_browser_pages bg) Browser_mode
     else if get_global_browser_pages_total t \<ge> gl then verdict False st ''global_browser_pages_cap'' gl Browser_mode
     else if active_browser_pages state \<ge> c then verdict False st ''store_browser_pages_cap'' c Browser_mode
     else verdict True st ''browser_admitted'' c Browser_mode)"

definition decide_proxy_admission :: "gov_settings \<Rightarrow> tracker \<Rightarrow> pystr \<Rightarrow> runtime_state \<Rightarrow> budget \<Rightarrow> concurrency_decision" where
  "decide_proxy_admission g t name state bg =
    (let st = store_key name; gl = GLOBAL_MAX_PROXY_REQUESTS g; c = cap (max_proxy_requests bg) gl in
     if \<not> ENABLE_RESOURCE_GOVERNANCE g \<or> \<not> ENABLE_PROXY_BUDGETS g
     then verdict True st ''proxy_budgets_disabled'' (max_proxy_requests bg) Proxy_mode
     else if get_global_proxy_requests_total t \<ge> gl then verdict False st ''global_proxy_cap'' gl Proxy_mode
     else if active_proxy_requests state \<ge> c then verdict False st ''store_proxy_cap'' c Proxy_mode
     else verdict True st ''proxy_admitted'' c Proxy_mode)"

definition decide_batch_admission :: "gov_settings \<Rightarrow> tracker \<Rightarrow> pystr \<Rightarrow> runtime_state \<Rightarrow> budget \<Rightarrow> concurrency_decision" where
  "decide_batch_admission g t name state bg =
    (let st = store_key name; gl = GLOBAL_MAX_INFLIGHT_BATCHES g; c = cap (max_batch_inflight bg) gl in
     if \<not> ENABLE_RESOURCE_GOVERNANCE g then verdict True st ''governance_disabled'' (max_batch_inflight bg) Http_mode
     else if get_global_inflight_batches_total t \<ge> gl then verdict False st ''global_batch_inflight_cap'' gl Http_mode
     else if inflight_batches state \<ge> c then verdict False st ''store_batch_inflight_cap'' c Http_mode
     else verdict True st ''batch_admitted'' c Http_mode)"

definition decide_request_admission ::
    "gov_settings \<Rightarrow> tracker \<Rightarrow> pystr \<Rightarrow> pystr \<Rightarrow> resource_mode \<Rightarrow> runtime_state \<Rightarrow> budget \<Rightarrow> concurrency_decision" where
  "decide_request_admission g t name purpose mode state bg =
    (let st = store_key name; g_total = GLOBAL_MAX_CONCURRENT_REQUESTS g;
         cap_all = cap (max_concurrent_requests bg) g_total;
         l_lim = cap (max_listing_requests bg) cap_all; p_lim = cap (max_product_requests bg) cap_all;
         br = decide_browser_admission g t st state bg; pr = decide_proxy_admission g t st state bg
     in if \<not> ENABLE_RESOURCE_GOVERNANCE g then verdict True st ''governance_disabled'' (max_concurrent_requests bg) mode
     else if queued_retryable_items state
         \<ge> min (BACKPRESSURE_RETRYABLE_QUEUE_CRITICAL g) (min (GLOBAL_MAX_RETRYABLE_QUEUE g) (max_retryable_queue bg))
     then verdict False st ''retryable_queue_pressure_blocks_new_requests'' 0 mode
     else if get_global_inflight_requests_total t \<ge> g_total
     then verdict False st ''global_concurrent_request_cap'' g_total mode
     else if inflight_requests state \<ge> cap_all then verdict False st ''store_concurrent_request_cap'' cap_all mode
     else if purpose = ''listing'' \<and> inflight_listing_requests state \<ge> l_lim
     then verdict False st ''store_listing_concurrent_cap'' l_lim mode
     else if purpose \<noteq> ''listing'' \<and> inflight_product_requests state \<ge> p_lim
     then verdict False st ''store_product_concurrent_cap'' p_lim mode
     else if mode = Browser_mode \<and> \<not> cd_allowed br then br
     else if mode = Proxy_mode \<and> \<not> cd_allowed pr then pr
     else verdict True st ''admitted'' cap_all mode)"

section \<open>Backpressure, throttling and degradation\<close>

definition pressure :: "bool \<Rightarrow> pystr \<Rightarrow> pystr \<Rightarrow> severity \<Rightarrow> pressure_action \<Rightarrow> backpressure_decision" where
  "pressure apply st reason sev act =
    \<lparr> bp_apply = apply, bp_store_name = st, bp_reason = reason, bp_severity = sev, bp_suggested_action = act \<rparr>"

lemma pressure_simps [simp]:
  "bp_apply (pressure apply st reason sev act) = apply"
  "bp_store_name (pressure apply st reason sev act) = st"
  "bp_reason (pressure apply st reason sev act) = reason"
  "bp_severity (pressure apply st reason sev act) = sev"
  "bp_suggested_action (pressure apply st reason sev act) = act"
  by (simp_all add: pressure_def)

text \<open>\<open>mem is not None and mem >= limit\<close>\<close>

definition mem_at_least :: "rat option \<Rightarrow> rat \<Rightarrow> bool" where
  "mem_at_least mem limit = (case mem of None \<Rightarrow> False | Some m \<Rightarrow> m \<ge> limit)"

definition decide_backpressure :: "gov_settings \<Rightarrow> pystr \<Rightarrow> runtime_state \<Rightarrow> budget \<Rightarrow> backpressure_decision" where
  "decide_backpressure g name state bg =
    (let st = store_key name; mem = memory_mb state; rq = queued_retryable_items state; bi = inflight_batches state in
     if \<not> ENABLE_BACKPRESSURE_POLICY g then pressure False st ''backpressure_disabled'' Warning Slow_down
     else if mem_at_least mem (min (BACKPRESSURE_MEMORY_CRITICAL_MB g) (GLOBAL_MAX_MEMORY_MB g))
     then pressure True st ''memory_critical'' Critical Degrade_store
     else if rq \<ge> min (BACKPRESSURE_RETRYABLE_QUEUE_CRITICAL g) (max_retryable_queue bg)
     then pressure True st ''retryable_queue_critical'' Critical Pause_batches
     else if rq \<ge> BACKPRESSURE_RETRYABLE_QUEUE_WARNING g
     then pressure True st ''retryable_queue_elevated'' High Slow_down
     else if bi \<ge> BACKPRESSURE_BATCH_INFLIGHT_CRITICAL g
     then pressure True st ''batch_inflight_critical'' Critical Pause_batches
     else if bi \<ge> BACKPRESSURE_BATCH_INFLIGHT_WARNING g
     then pressure True st ''batch_inflight_elevated'' Warning Slow_down
     else if mem_at_least mem (BACKPRESSURE_MEMORY_WARNING_MB g)
     then pressure True st ''memory_warning'' Warning Reduce_browser
     else pressure False st ''nominal'' Warning Slow_down)"

definition throttle :: "bool \<Rightarrow> pystr \<Rightarrow> resource_mode \<Rightarrow> int option \<Rightarrow> pystr \<Rightarrow> throttle_decision" where
  "throttle on st mode limit reason =
    \<lparr> th_throttle = on, th_store_name = st, th_mode = mode, th_new_limit = limit, th_reason = reason \<rparr>"

definition decide_throttle_adjustment :: "gov_settings \<Rightarrow> pystr \<Rightarrow> runtime_state \<Rightarrow> budget \<Rightarrow> throttle_decision" where
  "decide_throttle_adjustment g name state bg =
    (let st = store_key name; b_lim = min (max_browser_pages bg) (GLOBAL_MAX_BROWSER_PAGES g);
         p_lim = min (max_proxy_requests bg) (GLOBAL_MAX_PROXY_REQUESTS g) in
     if \<not> ENABLE_RESOURCE_GOVERNANCE g then throttle False st Http_mode None ''governance_disabled''
     else if active_browser_pages state \<ge> b_lim
     then throttle True st Browser_mode (Some (max 0 (b_lim - 1))) ''browser_pages_saturated''
     else if active_proxy_requests state \<ge> p_lim
     then throttle True st Proxy_mode (Some (max 0 (p_lim - 1))) ''proxy_requests_saturated''
     else throttle False st Http_mode None ''no_throttle'')"

datatype degradation = No_degradation | Deg_reduce_browser | Deg_disable_browser | Deg_reduce_proxy | Deg_reduce_crawl | Deg_pause_store

definition suggest_degradation_mode :: "runtime_state \<Rightarrow> backpressure_decision \<Rightarrow> degradation" where
  "suggest_degradation_mode state d =
    (let act = bp_suggested_action d in
     if \<not> bp_apply d then No_degradation
     else if bp_severity d = Critical \<and> starts_with ''memory'' (bp_reason d) then Deg_pause_store
     else if bp_severity d = Critical \<and> (contains ''retryable'' (bp_reason d) \<or> contains ''batch_inflight'' (bp_reason d))
     then Deg_reduce_crawl
     else if act = Reduce_browser then (if active_browser_pages state > 0 then Deg_reduce_browser else No_degradation)
     else if act = Reduce_proxy then (if active_proxy_requests state > 0 then Deg_reduce_proxy else No_degradation)
     else if active_browser_pages state > 0 \<and> bp_severity d \<in> {High, Critical} then Deg_disable_browser
     else if act = Slow_down then Deg_reduce_crawl
     else No_degradation)"

section \<open>The guard around a request\<close>

text \<open>
  The entries of a request's \<open>meta\<close> that the guard reads or writes.  The three
  \<open>playwright\<close> entries are the flag and whether the two hooks are present;
  \<open>rm_ticket\<close> is the \<open>_resource_gov\<close> entry.
\<close>

record gov_ticket =
  gt_purpose :: pystr
  gt_mode :: pystr
  gt_bypass :: bool

record request_meta =
  rm_access_mode_selected :: "pystr option"
  rm_playwright :: "bool option"
  rm_page_goto_kwargs :: bool
  rm_page_init_callback :: bool
  rm_proxy :: "pystr option"
  rm_bypass :: bool
  rm_ticket :: "gov_ticket option"

text \<open>\<open>str(meta.get("access_mode_selected") or "plain").lower()\<close>\<close>

definition selected_mode :: "request_meta \<Rightarrow> pystr" where
  "selected_mode m = (if truthy (rm_access_mode_selected m) then lower (or_empty (rm_access_mode_selected m)) else ''plain'')"

definition meta_to_resource_mode :: "request_meta \<Rightarrow> resource_mode" where
  "meta_to_resource_mode m =
    (if selected_mode m = ''browser'' then Browser_mode else if selected_mode m = ''proxy'' then Proxy_mode else Http_mode)"

definition strip_browser_from_meta :: "request_meta \<Rightarrow> request_meta" where
  "strip_browser_from_meta m = m\<lparr>rm_playwright := None, rm_page_goto_kwargs := False, rm_page_init_callback := False,
     rm_access_mode_selected := Some ''plain''\<rparr>"

definition strip_proxy_from_meta :: "request_meta \<Rightarrow> request_meta" where
  "strip_proxy_from_meta m =
    (let m1 = m\<lparr>rm_proxy := None\<rparr> in
     if or_empty (rm_access_mode_selected m1) = ''proxy'' then m1\<lparr>rm_access_mode_selected := Some ''plain''\<rparr> else m1)"

definition purpose_to_literal :: "pystr \<Rightarrow> pystr" where
  "purpose_to_literal purpose = (if lower purpose = ''product'' then ''product'' else ''listing'')"

definition is_store_bypassed :: "gov_settings \<Rightarrow> pystr \<Rightarrow> bool" where
  "is_store_bypassed g name =
    (let st = lower (strip name) in
     st \<noteq> [] \<and> st \<in> set (map (\<lambda>v. lower (strip v)) (filter (\<lambda>v. strip v \<noteq> []) (SCRAPY_RESOURCE_GOV_BYPASS_STORES g))))"

text \<open>The downgrade rounds: an over-budget browser or proxy mode is stripped, then looked at again.\<close>

fun downgrade :: "nat \<Rightarrow> gov_settings \<Rightarrow> rat option \<Rightarrow> tracker \<Rightarrow> pystr \<Rightarrow> budget \<Rightarrow> request_meta \<Rightarrow> request_meta" where
  "downgrade 0 g mem t st bg m = m"
| "downgrade (Suc n) g mem t st bg m =
    (let mode = meta_to_resource_mode m; state = build_runtime_state g mem st t in
     if mode = Browser_mode \<and> ENABLE_BROWSER_BUDGETS g \<and> \<not> cd_allowed (decide_browser_admission g t st state bg)
     then downgrade n g mem t st bg (strip_browser_from_meta m)
     else if mode = Proxy_mode \<and> ENABLE_PROXY_BUDGETS g \<and> \<not> cd_allowed (decide_proxy_admission g t st state bg)
     then downgrade n g mem t st bg (strip_proxy_from_meta m)
     else m)"

definition apply_governance_to_request_meta ::
    "gov_settings \<Rightarrow> rat option \<Rightarrow> tracker \<Rightarrow> pystr \<Rightarrow> pystr \<Rightarrow> request_meta \<Rightarrow> request_meta \<times> bool" where
  "apply_governance_to_request_meta g mem t name purpose m =
    (if \<not> ENABLE_RESOURCE_GOVERNANCE g \<or> \<not> ENABLE_STORE_RESOURCE_BUDGETS g then (m, True)
     else
      (let bg = get_store_budget name; st = store_key name; plit = purpose_to_literal purpose in
       if is_store_bypassed g st then (m\<lparr>rm_bypass := True\<rparr>, True)
       else
        (let m1 = downgrade 3 g mem t st bg m;
             dec = decide_request_admission g t st plit (meta_to_resource_mode m1) (build_runtime_state g mem st t) bg
         in (m1, cd_allowed dec))))"

definition record_request_scheduled_governance ::
    "gov_settings \<Rightarrow> pystr \<Rightarrow> pystr \<Rightarrow> request_meta \<Rightarrow> tracker \<Rightarrow> request_meta \<times> tracker" where
  "record_request_scheduled_governance g name purpose m t =
    (if \<not> ENABLE_RESOURCE_GOVERNANCE g then (m, t)
     else
      (let st = store_key name; plit = purpose_to_literal purpose; sel = selected_mode m in
       if rm_bypass m
       then (m\<lparr>rm_ticket := Some \<lparr> gt_purpose = plit, gt_mode = sel, gt_bypass = True \<rparr>\<rparr>, t)
       else
        (let t1 = increment_inflight_request g st plit t;
             t2 = (if sel = ''browser'' then increment_browser_pages g st t1
                   else if sel = ''proxy'' then increment_proxy_requests g st t1 else t1)
         in (m\<lparr>rm_ticket := Some \<lparr> gt_purpose = plit, gt_mode = sel, gt_bypass = False \<rparr>\<rparr>, t2))))"

text \<open>
  \<open>purpose\<close> and \<open>mode\<close> of a ticket are the texts \<^const>\<open>record_request_scheduled_governance\<close>
  wrote; an empty one is read as \<open>"listing"\<close> and \<open>"plain"\<close>.
\<close>

definition release_request_governance_counters ::
    "gov_settings \<Rightarrow> request_meta \<Rightarrow> pystr \<Rightarrow> tracker \<Rightarrow> tracker" where
  "release_request_governance_counters g m name t =
    (if \<not> ENABLE_RESOURCE_GOVERNANCE g then t
     else (case rm_ticket m of
         None \<Rightarrow> t
       | Some gov \<Rightarrow>
          (if gt_bypass gov then t
           else
            (let st = store_key name;
                 purpose = (if gt_purpose gov = [] then ''listing'' else gt_purpose gov);
                 mode = (if gt_mode gov = [] then ''plain'' else lower (gt_mode gov));
                 t1 = decrement_inflight_request g st purpose t
             in if mode = ''browser'' then decrement_browser_pages g st t1
                else if mode = ''proxy'' then decrement_proxy_requests g st t1 else t1))))"

text \<open>The end of \<open>BaseProductSpider.schedule_safe_request\<close>: a request leaves with its ticket, or not at all.\<close>

definition schedule_governed ::
    "gov_settings \<Rightarrow> rat option \<Rightarrow> pystr \<Rightarrow> pystr \<Rightarrow> request_meta \<Rightarrow> tracker \<Rightarrow> request_meta option \<times> tracker" where
  "schedule_governed g mem store purpose m t =
    (let (m1, admitted) = apply_governance_to_request_meta g mem t store purpose m in
     if \<not> admitted then (None, t)
     else (let (m2, t1) = record_request_scheduled_governance g store purpose m1 t in (Some m2, t1)))"

end
