(* ===== verification/Governance_Invariant.thy ===== *)
theory Governance_Invariant imports Resource_Governance "HOL-Library.Multiset" begin

text \<open>
  What the counters of \<^verbatim>\<open>resource_tracker.py\<close> mean and what the guard of
  \<^verbatim>\<open>resource_governance.py\<close> guarantees: as long as every scheduled request is released
  at most once, a counter is the number of requests still out, and the admission caps bound
  the requests, browser pages and proxy connections in flight.
\<close>

section \<open>A pool of slots\<close>

text \<open>At most \<open>bound k\<close> slots for each key and \<open>all\<close> together.\<close>

definition fits :: "('k \<Rightarrow> int) \<Rightarrow> int \<Rightarrow> 'k multiset \<Rightarrow> bool" where
  "fits bound all M \<longleftrightarrow> (\<forall>k. int (count M k) \<le> bound k) \<and> int (size M) \<le> all"

locale slot_pool =
  fixes holds :: "'d \<Rightarrow> 'k multiset \<Rightarrow> bool"
    and acquire :: "'k \<Rightarrow> 'd \<Rightarrow> 'd"
    and give_back :: "'k \<Rightarrow> 'd \<Rightarrow> 'd"
    and used :: "'k \<Rightarrow> 'd \<Rightarrow> int"
    and used_all :: "'d \<Rightarrow> int"
  assumes used: "holds d M \<Longrightarrow> used k d = int (count M k)"
    and used_all: "holds d M \<Longrightarrow> used_all d = int (size M)"
    and acquire: "holds d M \<Longrightarrow> holds (acquire k d) (add_mset k M)"
    and give_back: "holds d M \<Longrightarrow> k \<in># M \<Longrightarrow> holds (give_back k d) (M - {#k#})"
begin

text \<open>A slot handed out below both limits keeps them; a slot given back always does.\<close>

lemma acquire_fits:
  assumes "holds d M" and "fits bound all M" and "used k d < bound k" and "used_all d < all"
  shows "holds (acquire k d) (add_mset k M) \<and> fits bound all (add_mset k M)"
  using assms by (auto simp: fits_def acquire used used_all)

lemma give_back_fits:
  assumes "holds d M" and "fits bound all M" and "k \<in># M"
  shows "holds (give_back k d) (M - {#k#}) \<and> fits bound all (M - {#k#})"
proof -
  have "int (count (M - {#k#}) k') \<le> bound k'" for k'
    using assms(2) by (auto simp: fits_def intro: order_trans [rotated])
  moreover have "int (size (M - {#k#})) \<le> all"
    using assms(2) size_mset_mono [OF diff_subset_eq_self, of M "{#k#}"] by (simp add: fits_def)
  ultimately show ?thesis using assms give_back by (simp add: fits_def)
qed

lemma used_fits: "holds d M \<Longrightarrow> fits bound all M \<Longrightarrow> used k d \<le> bound k \<and> used_all d \<le> all"
  by (simp add: fits_def used used_all)

lemma give_back_inverts:
  assumes "holds d M" shows "holds (give_back k (acquire k d)) M"
  using give_back [OF acquire [OF assms], of k k] by simp

end

text \<open>The counters of the code are such a pool.\<close>

definition mirrors :: "(pystr, int) odict \<Rightarrow> pystr multiset \<Rightarrow> bool" where
  "mirrors d M \<longleftrightarrow> distinct (od_keys d) \<and> (\<forall>k. count_of k d = int (count M k))"

lemma count_of_simps [simp]:
  "count_of k [] = 0"
  "count_of k (od_set k' v d) = (if k = k' then v else count_of k d)"
  by (simp_all add: count_of_def od_get_set) (simp add: od_get_def)

lemma size_split_key: "size M = count M k + size (filter_mset (\<lambda>x. x \<noteq> k) M)"
  by (induction M) auto

lemma total_counts:
  assumes "distinct (od_keys d)" and "\<forall>k. count_of k d = int (count M k)"
  shows "counter_total d = int (size M)"
  using assms
proof (induction d arbitrary: M)
  case Nil
  then have "M = {#}" by (simp add: multiset_eq_iff)
  then show ?case by (simp add: counter_total_def)
next
  case (Cons e d)
  obtain k v where e: "e = (k, v)" by force
  have v: "v = int (count M k)"
    using Cons.prems(2) e by (auto simp: count_of_def od_get_def dest: spec [of _ k])
  have k: "k \<notin> set (od_keys d)" and dist: "distinct (od_keys d)"
    using Cons.prems(1) e by (simp_all add: od_keys_def)
  have "\<forall>j. count_of j d = int (count (filter_mset (\<lambda>x. x \<noteq> k) M) j)"
  proof
    fix j
    show "count_of j d = int (count (filter_mset (\<lambda>x. x \<noteq> k) M) j)"
    proof (cases "j = k")
      case True
      with k show ?thesis by (auto simp: count_of_def set_od_keys)
    next
      case False
      then have "count_of j d = count_of j (e # d)" by (simp add: e count_of_def od_get_def)
      with Cons.prems(2) False show ?thesis by simp
    qed
  qed
  from Cons.IH [OF dist this] have "counter_total d = int (size (filter_mset (\<lambda>x. x \<noteq> k) M))" .
  then show ?case using size_split_key [of M k] v by (simp add: e counter_total_def)
qed

interpretation slots: slot_pool mirrors bump unbump count_of counter_total
proof unfold_locales
  fix d M k
  assume m: "mirrors d M"
  then show "count_of k d = int (count M k)" by (simp add: mirrors_def)
  from m show "counter_total d = int (size M)" by (simp add: mirrors_def total_counts)
  from m show "mirrors (bump k d) (add_mset k M)"
    by (simp add: mirrors_def bump_def distinct_od_set)
  assume "k \<in># M"
  then have "count M k > 0" by simp
  with m show "mirrors (unbump k d) (M - {#k#})"
    by (auto simp: mirrors_def unbump_def distinct_od_set clamp_def)
qed

lemma mirrors_empty [simp]: "mirrors [] {#}"
  by (simp add: mirrors_def od_keys_def)

section \<open>The requests in flight\<close>

type_synonym open_requests = "(pystr \<times> request_meta) multiset"

definition holds_ticket :: "pystr \<times> request_meta \<Rightarrow> bool" where
  "holds_ticket x \<longleftrightarrow> (case rm_ticket (snd x) of None \<Rightarrow> False | Some t \<Rightarrow> \<not> gt_bypass t)"

definition ticket_purpose :: "pystr \<times> request_meta \<Rightarrow> pystr" where
  "ticket_purpose x = (case rm_ticket (snd x) of None \<Rightarrow> [] | Some t \<Rightarrow> gt_purpose t)"

definition ticket_mode :: "pystr \<times> request_meta \<Rightarrow> pystr" where
  "ticket_mode x = (case rm_ticket (snd x) of None \<Rightarrow> [] | Some t \<Rightarrow> gt_mode t)"

text \<open>The stores of the requests holding a ticket that satisfy \<open>P\<close>.\<close>

definition stores_of :: "(pystr \<times> request_meta \<Rightarrow> bool) \<Rightarrow> open_requests \<Rightarrow> pystr multiset" where
  "stores_of P out = image_mset (\<lambda>x. store_key (fst x)) (filter_mset (\<lambda>x. holds_ticket x \<and> P x) out)"

abbreviation "any_request \<equiv> (\<lambda>x. True)"
abbreviation "product_request \<equiv> (\<lambda>x. ticket_purpose x = ''product'')"
abbreviation "listing_request \<equiv> (\<lambda>x. ticket_purpose x = ''listing'')"
abbreviation "browser_request \<equiv> (\<lambda>x. ticket_mode x = ''browser'')"
abbreviation "proxy_request \<equiv> (\<lambda>x. ticket_mode x = ''proxy'')"

lemma stores_of_add: "stores_of P (add_mset x out)
    = (if holds_ticket x \<and> P x then add_mset (store_key (fst x)) (stores_of P out) else stores_of P out)"
  by (simp add: stores_of_def)

lemma stores_of_remove:
  assumes "x \<in># out"
  shows "stores_of P (out - {#x#})
    = (if holds_ticket x \<and> P x then stores_of P out - {#store_key (fst x)#} else stores_of P out)"
proof -
  from assms obtain rest where "out = add_mset x rest" by (meson multi_member_split)
  then show ?thesis by (simp add: stores_of_add)
qed

lemma stores_of_member: "x \<in># out \<Longrightarrow> holds_ticket x \<Longrightarrow> P x \<Longrightarrow> store_key (fst x) \<in># stores_of P out"
  by (auto simp: stores_of_def)

text \<open>Every counter is the number of open requests of its kind.\<close>

definition tracks :: "tracker \<Rightarrow> open_requests \<Rightarrow> bool" where
  "tracks t out \<longleftrightarrow>
     mirrors (tk_inflight_total t) (stores_of any_request out) \<and>
     mirrors (tk_inflight_listing t) (stores_of listing_request out) \<and>
     mirrors (tk_inflight_product t) (stores_of product_request out) \<and>
     mirrors (tk_browser_pages t) (stores_of browser_request out) \<and>
     mirrors (tk_proxy_requests t) (stores_of proxy_request out)"

definition ticket_ok :: "pystr \<times> request_meta \<Rightarrow> bool" where
  "ticket_ok x \<longleftrightarrow> holds_ticket x \<longrightarrow>
     ticket_purpose x \<in> {''listing'', ''product''} \<and> ticket_mode x \<noteq> [] \<and> lower (ticket_mode x) = ticket_mode x"

section \<open>Steps\<close>

text \<open>
  A spider schedules a request, which is admitted or refused; a response or an error
  releases a request that is out; the pipeline reports the length of its retry queue.
\<close>

inductive gov_step :: "gov_settings \<Rightarrow> tracker \<times> open_requests \<Rightarrow> tracker \<times> open_requests \<Rightarrow> bool" for g where
  admit: "schedule_governed g mem store purpose m t = (Some m', t') \<Longrightarrow>
    gov_step g (t, out) (t', add_mset (store, m') out)"
| refuse: "schedule_governed g mem store purpose m t = (None, t') \<Longrightarrow> gov_step g (t, out) (t', out)"
| settle: "(store, m) \<in># out \<Longrightarrow>
    gov_step g (t, out) (release_request_governance_counters g m store t, out - {#(store, m)#})"
| queue: "gov_step g (t, out) (set_retryable_queue_size g name n t, out)"

inductive gov_reachable :: "gov_settings \<Rightarrow> tracker \<times> open_requests \<Rightarrow> bool" for g where
  start: "gov_reachable g (new_tracker, {#})"
| step: "gov_reachable g w \<Longrightarrow> gov_step g w w' \<Longrightarrow> gov_reachable g w'"

inductive_cases gov_stepE: "gov_step g (t, out) w"

section \<open>What a step does\<close>

lemma store_key_nonempty [simp]: "store_key s \<noteq> []"
  by (simp add: store_key_def Let_def)

lemma strip_store_key [simp]: "strip (store_key s) = store_key s"
  by (simp add: store_key_def Let_def) code_simp

lemma store_key_idem [simp]: "store_key (store_key s) = store_key s"
  by (simp add: store_key_def [of "store_key s"] Let_def)

lemma budget_of_key: "\<exists>x. get_store_budget (store_key name) = (get_store_budget name)\<lparr>bg_store_name := x\<rparr>"
proof (cases "strip name = []")
  case True
  then have "get_store_budget name = default_budget\<lparr>bg_store_name := store_key name\<rparr>"
    by (simp add: get_store_budget_def Let_def store_budgets_def od_get_def)
  moreover have "get_store_budget ''unknown'' = default_budget\<lparr>bg_store_name := store_key ''unknown''\<rparr>" by code_simp
  moreover have "store_key name = ''unknown''" using True by (simp add: store_key_def Let_def)
  ultimately show ?thesis by auto
next
  case False
  then have "store_key name = strip name" by (simp add: store_key_def Let_def)
  then show ?thesis using False by (cases "od_get (lower (strip name)) store_budgets") (auto simp: get_store_budget_def Let_def)
qed

lemma budget_of_key_simps [simp]:
  "max_concurrent_requests (get_store_budget (store_key name)) = max_concurrent_requests (get_store_budget name)"
  "max_listing_requests (get_store_budget (store_key name)) = max_listing_requests (get_store_budget name)"
  "max_product_requests (get_store_budget (store_key name)) = max_product_requests (get_store_budget name)"
  "max_browser_pages (get_store_budget (store_key name)) = max_browser_pages (get_store_budget name)"
  "max_proxy_requests (get_store_budget (store_key name)) = max_proxy_requests (get_store_budget name)"
  "max_retryable_queue (get_store_budget (store_key name)) = max_retryable_queue (get_store_budget name)"
  using budget_of_key [of name] by auto

text \<open>The caps of a store, as the admission reads them.\<close>

definition request_limit :: "gov_settings \<Rightarrow> pystr \<Rightarrow> int" where
  "request_limit g k = cap (max_concurrent_requests (get_store_budget k)) (GLOBAL_MAX_CONCURRENT_REQUESTS g)"

definition purpose_limit :: "gov_settings \<Rightarrow> pystr \<Rightarrow> pystr \<Rightarrow> int" where
  "purpose_limit g purpose k = cap (if purpose = ''listing'' then max_listing_requests (get_store_budget k)
     else max_product_requests (get_store_budget k)) (request_limit g k)"

definition browser_limit :: "gov_settings \<Rightarrow> pystr \<Rightarrow> int" where
  "browser_limit g k = cap (max_browser_pages (get_store_budget k)) (GLOBAL_MAX_BROWSER_PAGES g)"

definition proxy_limit :: "gov_settings \<Rightarrow> pystr \<Rightarrow> int" where
  "proxy_limit g k = cap (max_proxy_requests (get_store_budget k)) (GLOBAL_MAX_PROXY_REQUESTS g)"

lemma limit_of_key [simp]:
  "request_limit g (store_key s) = request_limit g s"
  "purpose_limit g p (store_key s) = purpose_limit g p s"
  "browser_limit g (store_key s) = browser_limit g s"
  "proxy_limit g (store_key s) = proxy_limit g s"
  by (simp_all add: request_limit_def purpose_limit_def browser_limit_def proxy_limit_def)

lemma cap_nonneg [simp]: "0 \<le> cap a b"
  by (simp add: cap_def)

text \<open>Every budget is enforced.\<close>

definition all_budgets_on :: "gov_settings \<Rightarrow> bool" where
  "all_budgets_on g \<longleftrightarrow> ENABLE_RESOURCE_GOVERNANCE g \<and> ENABLE_STORE_RESOURCE_BUDGETS g
     \<and> ENABLE_BROWSER_BUDGETS g \<and> ENABLE_PROXY_BUDGETS g"

text \<open>What an admission has checked.\<close>

definition admissible :: "gov_settings \<Rightarrow> tracker \<Rightarrow> pystr \<Rightarrow> pystr \<Rightarrow> resource_mode \<Rightarrow> bool" where
  "admissible g t k purpose mode \<longleftrightarrow>
     counter_total (tk_inflight_total t) < GLOBAL_MAX_CONCURRENT_REQUESTS g \<and>
     count_of k (tk_inflight_total t) < request_limit g k \<and>
     count_of k (if purpose = ''listing'' then tk_inflight_listing t else tk_inflight_product t) < purpose_limit g purpose k \<and>
     (mode = Browser_mode \<longrightarrow> counter_total (tk_browser_pages t) < GLOBAL_MAX_BROWSER_PAGES g \<and> count_of k (tk_browser_pages t) < browser_limit g k) \<and>
     (mode = Proxy_mode \<longrightarrow> counter_total (tk_proxy_requests t) < GLOBAL_MAX_PROXY_REQUESTS g \<and> count_of k (tk_proxy_requests t) < proxy_limit g k)"

lemmas admission_defs = decide_request_admission_def decide_browser_admission_def decide_proxy_admission_def
  build_runtime_state_def get_global_inflight_requests_total_def get_global_browser_pages_total_def
  get_global_proxy_requests_total_def

lemma admission_checks:
  assumes "all_budgets_on g"
    and "cd_allowed (decide_request_admission g t (store_key name) purpose mode
           (build_runtime_state g mem (store_key name) t) (get_store_budget name))"
  shows "admissible g t (store_key name) purpose mode"
  using assms
  by (auto simp: all_budgets_on_def admissible_def admission_defs request_limit_def purpose_limit_def
      browser_limit_def proxy_limit_def Let_def split: if_splits)

definition new_ticket :: "pystr \<Rightarrow> request_meta \<Rightarrow> request_meta" where
  "new_ticket purpose m = m\<lparr>rm_ticket := Some \<lparr> gt_purpose = purpose_to_literal purpose, gt_mode = selected_mode m,
     gt_bypass = rm_bypass m \<rparr>\<rparr>"

definition count_request :: "gov_settings \<Rightarrow> pystr \<Rightarrow> pystr \<Rightarrow> pystr \<Rightarrow> tracker \<Rightarrow> tracker" where
  "count_request g k purpose mode t =
    (let t1 = increment_inflight_request g k purpose t in
     if mode = ''browser'' then increment_browser_pages g k t1
     else if mode = ''proxy'' then increment_proxy_requests g k t1 else t1)"

lemma scheduled:
  assumes on: "all_budgets_on g" and "schedule_governed g mem store purpose m t = (r, t')"
  shows "(r = None \<and> t' = t) \<or>
    (\<exists>m1. r = Some (new_ticket purpose m1) \<and>
       (if rm_bypass m1 then t' = t
        else admissible g t (store_key store) (purpose_to_literal purpose) (meta_to_resource_mode m1) \<and>
          t' = count_request g (store_key store) (purpose_to_literal purpose) (selected_mode m1) t))"
proof -
  obtain m1 ok where ap: "apply_governance_to_request_meta g mem t store purpose m = (m1, ok)" by force
  from on have en: "ENABLE_RESOURCE_GOVERNANCE g" "ENABLE_STORE_RESOURCE_BUDGETS g" by (simp_all add: all_budgets_on_def)
  show ?thesis
  proof (cases ok)
    case False
    with assms(2) ap show ?thesis by (simp add: schedule_governed_def)
  next
    case True
    with assms(2) ap en have r: "r = Some (new_ticket purpose m1)"
      and t': "t' = (if rm_bypass m1 then t
          else count_request g (store_key store) (purpose_to_literal purpose) (selected_mode m1) t)"
      by (auto simp: schedule_governed_def record_request_scheduled_governance_def new_ticket_def count_request_def
          Let_def split: if_splits)
    have "rm_bypass m1 \<or> admissible g t (store_key store) (purpose_to_literal purpose) (meta_to_resource_mode m1)"
      using ap True en admission_checks [OF on]
      by (auto simp: apply_governance_to_request_meta_def Let_def split: if_splits)
    with r t' show ?thesis by auto
  qed
qed

section \<open>The invariant\<close>

definition caps_hold :: "gov_settings \<Rightarrow> open_requests \<Rightarrow> bool" where
  "caps_hold g out \<longleftrightarrow>
     fits (request_limit g) (GLOBAL_MAX_CONCURRENT_REQUESTS g) (stores_of any_request out) \<and>
     fits (purpose_limit g ''listing'') (GLOBAL_MAX_CONCURRENT_REQUESTS g) (stores_of listing_request out) \<and>
     fits (purpose_limit g ''product'') (GLOBAL_MAX_CONCURRENT_REQUESTS g) (stores_of product_request out) \<and>
     fits (browser_limit g) (GLOBAL_MAX_BROWSER_PAGES g) (stores_of browser_request out) \<and>
     fits (proxy_limit g) (GLOBAL_MAX_PROXY_REQUESTS g) (stores_of proxy_request out)"

definition gov_ok :: "gov_settings \<Rightarrow> tracker \<times> open_requests \<Rightarrow> bool" where
  "gov_ok g w \<longleftrightarrow> tracks (fst w) (snd w) \<and> (\<forall>x\<in>#snd w. ticket_ok x) \<and> caps_hold g (snd w)"

lemma size_stores_of: "size (stores_of P out) \<le> size (stores_of any_request out)"
proof -
  have "filter_mset (\<lambda>x. holds_ticket x \<and> P x) out = filter_mset P (filter_mset holds_ticket out)"
    by (simp add: filter_filter_mset conj_commute)
  then show ?thesis by (simp add: stores_of_def size_filter_mset_lesseq)
qed

lemma new_ticket_views [simp]:
  "holds_ticket (st, new_ticket purpose m) \<longleftrightarrow> \<not> rm_bypass m"
  "ticket_purpose (st, new_ticket purpose m) = purpose_to_literal purpose"
  "ticket_mode (st, new_ticket purpose m) = selected_mode m"
  by (simp_all add: holds_ticket_def ticket_purpose_def ticket_mode_def new_ticket_def)

lemma purpose_to_literal_cases: "purpose_to_literal p = ''listing'' \<or> purpose_to_literal p = ''product''"
  by (simp add: purpose_to_literal_def)

lemma counts_as_product_simps [simp]: "counts_as_product ''product''" "\<not> counts_as_product ''listing''"
  by code_simp+

lemma selected_mode_ok [simp]: "selected_mode m \<noteq> []" "lower (selected_mode m) = selected_mode m"
proof -
  show "selected_mode m \<noteq> []"
    by (auto simp: selected_mode_def truthy_def or_empty_def lower_def split: option.splits)
  have "lower ''plain'' = ''plain''" by code_simp
  then show "lower (selected_mode m) = selected_mode m" by (simp add: selected_mode_def)
qed

lemma meta_mode_simps [simp]:
  "meta_to_resource_mode m = Browser_mode \<longleftrightarrow> selected_mode m = ''browser''"
  "meta_to_resource_mode m = Proxy_mode \<longleftrightarrow> selected_mode m = ''proxy''"
  by (simp_all add: meta_to_resource_mode_def)

lemma admit_ok:
  assumes on: "all_budgets_on g" and ok: "gov_ok g (t, out)" and nb: "\<not> rm_bypass m"
    and adm: "admissible g t (store_key store) (purpose_to_literal purpose) (meta_to_resource_mode m)"
  shows "gov_ok g (count_request g (store_key store) (purpose_to_literal purpose) (selected_mode m) t,
    add_mset (store, new_ticket purpose m) out)"
proof -
  let ?k = "store_key store" and ?p = "purpose_to_literal purpose"
  have en: "ENABLE_RESOURCE_GOVERNANCE g" using on by (simp add: all_budgets_on_def)
  from ok have tr: "tracks t out" and caps: "caps_hold g out" by (simp_all add: gov_ok_def)
  have sub: "counter_total (tk_inflight_listing t) < GLOBAL_MAX_CONCURRENT_REQUESTS g \<and>
             counter_total (tk_inflight_product t) < GLOBAL_MAX_CONCURRENT_REQUESTS g"
    using tr adm size_stores_of [of listing_request out] size_stores_of [of product_request out]
    by (auto simp: tracks_def admissible_def slots.used_all)
  note pool = slots.acquire_fits [of _ _ _ _ ?k]
  have a: "mirrors (bump ?k (tk_inflight_total t)) (add_mset ?k (stores_of any_request out)) \<and>
    fits (request_limit g) (GLOBAL_MAX_CONCURRENT_REQUESTS g) (add_mset ?k (stores_of any_request out))"
    by (rule pool) (use tr caps adm in \<open>simp_all add: tracks_def caps_hold_def admissible_def\<close>)
  have l: "mirrors (bump ?k (tk_inflight_listing t)) (add_mset ?k (stores_of listing_request out)) \<and>
    fits (purpose_limit g ''listing'') (GLOBAL_MAX_CONCURRENT_REQUESTS g) (add_mset ?k (stores_of listing_request out))"
    if "?p = ''listing''"
    by (rule pool) (use tr caps adm sub that in \<open>simp_all add: tracks_def caps_hold_def admissible_def\<close>)
  have r: "mirrors (bump ?k (tk_inflight_product t)) (add_mset ?k (stores_of product_request out)) \<and>
    fits (purpose_limit g ''product'') (GLOBAL_MAX_CONCURRENT_REQUESTS g) (add_mset ?k (stores_of product_request out))"
    if "?p = ''product''"
    by (rule pool) (use tr caps adm sub that in \<open>simp_all add: tracks_def caps_hold_def admissible_def\<close>)
  have b: "mirrors (bump ?k (tk_browser_pages t)) (add_mset ?k (stores_of browser_request out)) \<and>
    fits (browser_limit g) (GLOBAL_MAX_BROWSER_PAGES g) (add_mset ?k (stores_of browser_request out))"
    if "selected_mode m = ''browser''"
    by (rule pool) (use tr caps adm that in \<open>simp_all add: tracks_def caps_hold_def admissible_def\<close>)
  have x: "mirrors (bump ?k (tk_proxy_requests t)) (add_mset ?k (stores_of proxy_request out)) \<and>
    fits (proxy_limit g) (GLOBAL_MAX_PROXY_REQUESTS g) (add_mset ?k (stores_of proxy_request out))"
    if "selected_mode m = ''proxy''"
    by (rule pool) (use tr caps adm that in \<open>simp_all add: tracks_def caps_hold_def admissible_def\<close>)
  note count_defs = count_request_def increment_inflight_request_def increment_browser_pages_def
    increment_proxy_requests_def
  have "tracks (count_request g ?k ?p (selected_mode m) t) (add_mset (store, new_ticket purpose m) out)"
    using tr a l r b x purpose_to_literal_cases [of purpose] nb en
    by (auto simp: tracks_def count_defs stores_of_add Let_def)
  moreover have "caps_hold g (add_mset (store, new_ticket purpose m) out)"
    using caps a l r b x purpose_to_literal_cases [of purpose] nb by (auto simp: caps_hold_def stores_of_add)
  moreover have "\<forall>y\<in>#add_mset (store, new_ticket purpose m) out. ticket_ok y"
    using ok purpose_to_literal_cases [of purpose] by (auto simp: gov_ok_def ticket_ok_def)
  ultimately show ?thesis by (simp add: gov_ok_def)
qed

lemma bypass_ok:
  assumes "gov_ok g (t, out)" and "rm_bypass m"
  shows "gov_ok g (t, add_mset (store, new_ticket purpose m) out)"
  using assms by (auto simp: gov_ok_def tracks_def caps_hold_def stores_of_add ticket_ok_def)

lemma settle_ok:
  assumes en: "ENABLE_RESOURCE_GOVERNANCE g" and ok: "gov_ok g (t, out)" and x: "(store, m) \<in># out"
  shows "gov_ok g (release_request_governance_counters g m store t, out - {#(store, m)#})"
proof (cases "holds_ticket (store, m)")
  case False
  then have "release_request_governance_counters g m store t = t"
    by (auto simp: holds_ticket_def release_request_governance_counters_def split: option.splits)
  with False ok x show ?thesis
    by (auto simp: gov_ok_def tracks_def caps_hold_def stores_of_remove dest: in_diffD)
next
  case True
  let ?k = "store_key store" and ?x = "(store, m)"
  from True obtain tk where tk: "rm_ticket m = Some tk" "\<not> gt_bypass tk" by (auto simp: holds_ticket_def split: option.splits)
  have views: "ticket_purpose ?x = gt_purpose tk" "ticket_mode ?x = gt_mode tk"
    by (simp_all add: ticket_purpose_def ticket_mode_def tk)
  have tok: "gt_purpose tk \<in> {''listing'', ''product''}" "gt_mode tk \<noteq> []" "lower (gt_mode tk) = gt_mode tk"
    using ok x True by (auto simp: gov_ok_def ticket_ok_def views)
  from ok have tr: "tracks t out" and caps: "caps_hold g out" by (simp_all add: gov_ok_def)
  have give: "mirrors (unbump ?k d) (stores_of P out - {#?k#}) \<and> fits b all (stores_of P out - {#?k#})"
    if "mirrors d (stores_of P out)" "fits b all (stores_of P out)" "P ?x" for d P b all
    by (rule slots.give_back_fits [OF that(1,2)]) (use stores_of_member [of ?x out P, OF x True] that(3) in simp)
  have rel: "release_request_governance_counters g m store t =
    (let t1 = decrement_inflight_request g ?k (gt_purpose tk) t in
     if gt_mode tk = ''browser'' then decrement_browser_pages g ?k t1
     else if gt_mode tk = ''proxy'' then decrement_proxy_requests g ?k t1 else t1)"
    using en tk tok by (auto simp: release_request_governance_counters_def Let_def)
  note dec_defs = decrement_inflight_request_def decrement_browser_pages_def decrement_proxy_requests_def
  have "tracks (release_request_governance_counters g m store t) (out - {#?x#})"
    using tr caps tok(1) give True en
    by (auto simp: rel tracks_def caps_hold_def dec_defs stores_of_remove [OF x] views Let_def)
  moreover have "caps_hold g (out - {#?x#})"
    using tr caps give True by (auto simp: tracks_def caps_hold_def stores_of_remove [OF x] views)
  moreover have "\<forall>y\<in>#out - {#?x#}. ticket_ok y" using ok by (auto simp: gov_ok_def dest: in_diffD)
  ultimately show ?thesis by (simp add: gov_ok_def)
qed

lemma queue_ok: "gov_ok g (t, out) \<Longrightarrow> gov_ok g (set_retryable_queue_size g name n t, out)"
  by (simp add: gov_ok_def tracks_def set_retryable_queue_size_def)

lemma gov_step_ok:
  assumes on: "all_budgets_on g" and "gov_step g w w'" and "gov_ok g w"
  shows "gov_ok g w'"
  using assms(2,3)
proof cases
  case (admit mem store purpose m t m' t' out)
  from scheduled [OF on admit(3)] obtain m1 where m': "m' = new_ticket purpose m1"
    and t': "if rm_bypass m1 then t' = t
        else admissible g t (store_key store) (purpose_to_literal purpose) (meta_to_resource_mode m1) \<and>
          t' = count_request g (store_key store) (purpose_to_literal purpose) (selected_mode m1) t"
    by auto
  show ?thesis
  proof (cases "rm_bypass m1")
    case True
    with t' admit assms(3) show ?thesis by (simp add: m' bypass_ok)
  next
    case False
    with t' admit assms(3) show ?thesis
      using admit_ok [OF on, of t out m1 store purpose] by (simp add: m')
  qed
next
  case (refuse mem store purpose m t t' out)
  then show ?thesis using scheduled [OF on refuse(3)] assms(3) by auto
next
  case (settle store m out t)
  then show ?thesis using settle_ok on assms(3) by (auto simp: all_budgets_on_def)
next
  case (queue t out name n)
  then show ?thesis using queue_ok assms(3) by simp
qed

text \<open>The ranges that the settings are validated against.\<close>

definition caps_valid :: "gov_settings \<Rightarrow> bool" where
  "caps_valid g \<longleftrightarrow> 0 \<le> GLOBAL_MAX_CONCURRENT_REQUESTS g \<and> 0 \<le> GLOBAL_MAX_BROWSER_PAGES g \<and> 0 \<le> GLOBAL_MAX_PROXY_REQUESTS g"

lemma gov_reachable_ok:
  assumes on: "all_budgets_on g" and "caps_valid g" and "gov_reachable g w"
  shows "gov_ok g w"
  using assms(3)
proof induction
  case start
  have "0 \<le> purpose_limit g p k" "0 \<le> request_limit g k" "0 \<le> browser_limit g k" "0 \<le> proxy_limit g k" for p k
    by (simp_all add: purpose_limit_def request_limit_def browser_limit_def proxy_limit_def)
  with assms(2) show ?case
    by (simp add: gov_ok_def tracks_def caps_hold_def new_tracker_def stores_of_def fits_def caps_valid_def)
next
  case (step w w')
  then show ?case using gov_step_ok [OF on] by blast
qed

section \<open>Properties\<close>

lemma count_stores_of:
  "count (stores_of P out) k = size {#x \<in># out. holds_ticket x \<and> P x \<and> store_key (fst x) = k#}"
  by (induction out) (auto simp: stores_of_add stores_of_def)

lemma size_stores_of_eq: "size (stores_of P out) = size {#x \<in># out. holds_ticket x \<and> P x#}"
  by (simp add: stores_of_def)

lemma budget_caps_nonneg:
  "0 \<le> max_concurrent_requests (get_store_budget s)" "0 \<le> max_listing_requests (get_store_budget s)"
  "0 \<le> max_product_requests (get_store_budget s)" "0 \<le> max_browser_pages (get_store_budget s)"
  "0 \<le> max_proxy_requests (get_store_budget s)"
  by (simp_all add: get_store_budget_def store_budgets_def od_get_def default_budget_def mediapark_budget_def
      uzum_budget_def texnomart_budget_def alifshop_budget_def Let_def)

text \<open>The settings' defaults.\<close>

definition default_gov :: gov_settings where
  "default_gov = \<lparr> ENABLE_RESOURCE_GOVERNANCE = True, ENABLE_STORE_RESOURCE_BUDGETS = True,
     ENABLE_BACKPRESSURE_POLICY = True, ENABLE_BATCH_BACKPRESSURE = True, ENABLE_BROWSER_BUDGETS = True,
     ENABLE_PROXY_BUDGETS = True, ENABLE_MEMORY_GUARD = True, GLOBAL_MAX_CONCURRENT_REQUESTS = 16,
     GLOBAL_MAX_INFLIGHT_BATCHES = 4, GLOBAL_MAX_BROWSER_PAGES = 2, GLOBAL_MAX_PROXY_REQUESTS = 8,
     GLOBAL_MAX_RETRYABLE_QUEUE = 200, GLOBAL_MAX_MEMORY_MB = 512, SCRAPY_RESOURCE_GOV_BYPASS_STORES = [],
     BACKPRESSURE_MEMORY_WARNING_MB = 384, BACKPRESSURE_MEMORY_CRITICAL_MB = 512,
     BACKPRESSURE_RETRYABLE_QUEUE_WARNING = 100, BACKPRESSURE_RETRYABLE_QUEUE_CRITICAL = 200,
     BACKPRESSURE_BATCH_INFLIGHT_WARNING = 3, BACKPRESSURE_BATCH_INFLIGHT_CRITICAL = 4 \<rparr>"

definition sample_meta :: request_meta where
  "sample_meta = \<lparr> rm_access_mode_selected = Some ''browser'', rm_playwright = Some True, rm_page_goto_kwargs = True,
     rm_page_init_callback = True, rm_proxy = None, rm_bypass = False, rm_ticket = None \<rparr>"

lemma default_gov_ok: "all_budgets_on default_gov" "caps_valid default_gov"
  by (simp_all add: all_budgets_on_def caps_valid_def default_gov_def)

text \<open>C20. The counters are exact and the budgets hold.  In every state reached by scheduling
  requests through the guard, releasing each at most once and reporting the retry queue,
  the counter of a store is the number of its requests still out, the process
  never has more of them out than the global cap, a store never more than its own budget,
  in total, per purpose, in browser pages and in proxy connections.
\<close>

theorem inflight_within_budgets:
  assumes "all_budgets_on g" and "caps_valid g" and "gov_reachable g (t, out)"
  shows "get_global_inflight_requests_total t = int (size {#x \<in># out. holds_ticket x#})
    \<and> get_global_inflight_requests_total t \<le> GLOBAL_MAX_CONCURRENT_REQUESTS g
    \<and> get_global_browser_pages_total t = int (size {#x \<in># out. holds_ticket x \<and> ticket_mode x = ''browser''#})
    \<and> get_global_browser_pages_total t \<le> GLOBAL_MAX_BROWSER_PAGES g
    \<and> get_global_proxy_requests_total t \<le> GLOBAL_MAX_PROXY_REQUESTS g
    \<and> (\<forall>store mem. let s = build_runtime_state g mem store t; b = get_store_budget store in
         inflight_requests s = int (size {#x \<in># out. holds_ticket x \<and> store_key (fst x) = store_key store#})
         \<and> inflight_requests s \<le> max_concurrent_requests b
         \<and> inflight_listing_requests s \<le> max_listing_requests b
         \<and> inflight_product_requests s \<le> max_product_requests b
         \<and> active_browser_pages s \<le> max_browser_pages b
         \<and> active_proxy_requests s \<le> max_proxy_requests b)"
proof -
  from gov_reachable_ok [OF assms] have tr: "tracks t out" and caps: "caps_hold g out" by (simp_all add: gov_ok_def)
  have store: "let s = build_runtime_state g mem store t; b = get_store_budget store in
      inflight_requests s = int (size {#x \<in># out. holds_ticket x \<and> store_key (fst x) = store_key store#})
      \<and> inflight_requests s \<le> max_concurrent_requests b \<and> inflight_listing_requests s \<le> max_listing_requests b
      \<and> inflight_product_requests s \<le> max_product_requests b \<and> active_browser_pages s \<le> max_browser_pages b
      \<and> active_proxy_requests s \<le> max_proxy_requests b" for store mem
  proof -
    let ?k = "store_key store"
    note held = tr [unfolded tracks_def] and limits = caps [unfolded caps_hold_def]
    note below = slots.used_fits [of _ "stores_of any_request out"] slots.used_fits [of _ "stores_of listing_request out"]
      slots.used_fits [of _ "stores_of product_request out"] slots.used_fits [of _ "stores_of browser_request out"]
      slots.used_fits [of _ "stores_of proxy_request out"]
    have "count_of ?k (tk_inflight_total t) = int (count (stores_of any_request out) ?k)"
      using held by (intro slots.used) simp
    moreover have "count_of ?k (tk_inflight_total t) \<le> request_limit g ?k" using held limits below(1) by blast
    moreover have "count_of ?k (tk_inflight_listing t) \<le> purpose_limit g ''listing'' ?k" using held limits below(2) by blast
    moreover have "count_of ?k (tk_inflight_product t) \<le> purpose_limit g ''product'' ?k" using held limits below(3) by blast
    moreover have "count_of ?k (tk_browser_pages t) \<le> browser_limit g ?k" using held limits below(4) by blast
    moreover have "count_of ?k (tk_proxy_requests t) \<le> proxy_limit g ?k" using held limits below(5) by blast
    moreover have "purpose_limit g ''listing'' store \<le> max_listing_requests (get_store_budget store)"
      "purpose_limit g ''product'' store \<le> max_product_requests (get_store_budget store)"
      "browser_limit g store \<le> max_browser_pages (get_store_budget store)"
      "proxy_limit g store \<le> max_proxy_requests (get_store_budget store)"
      "request_limit g store \<le> max_concurrent_requests (get_store_budget store)"
      using budget_caps_nonneg [of store]
      by (simp_all add: purpose_limit_def browser_limit_def proxy_limit_def request_limit_def cap_def)
    ultimately show ?thesis
      by (simp add: build_runtime_state_def Let_def count_stores_of)
  qed
  have "mirrors (tk_inflight_total t) (stores_of any_request out)" "mirrors (tk_browser_pages t) (stores_of browser_request out)"
    "mirrors (tk_proxy_requests t) (stores_of proxy_request out)" using tr by (simp_all add: tracks_def)
  note totals = this [THEN slots.used_all, unfolded size_stores_of_eq]
  have "counter_total (tk_inflight_total t) \<le> GLOBAL_MAX_CONCURRENT_REQUESTS g"
    "counter_total (tk_browser_pages t) \<le> GLOBAL_MAX_BROWSER_PAGES g"
    "counter_total (tk_proxy_requests t) \<le> GLOBAL_MAX_PROXY_REQUESTS g"
    using tr caps slots.used_fits unfolding tracks_def caps_hold_def by blast+
  with totals store show ?thesis
    by (simp add: get_global_inflight_requests_total_def get_global_browser_pages_total_def
        get_global_proxy_requests_total_def)
qed

theorem inflight_within_budgets_witness:
  "\<exists>t out. gov_reachable default_gov (t, out) \<and> size out = 1 \<and> get_global_browser_pages_total t = 1
     \<and> get_global_browser_pages_total t \<le> GLOBAL_MAX_BROWSER_PAGES default_gov"
proof -
  let ?r = "schedule_governed default_gov None ''uzum'' ''listing'' sample_meta new_tracker"
  have "fst ?r \<noteq> None" and one: "get_global_browser_pages_total (snd ?r) = 1" by code_simp+
  then obtain m where "?r = (Some m, snd ?r)" by (metis option.exhaust prod.collapse)
  then have "gov_step default_gov (new_tracker, {#}) (snd ?r, add_mset (''uzum'', m) {#})"
    by (rule gov_step.admit)
  with gov_reachable.start have reach: "gov_reachable default_gov (snd ?r, add_mset (''uzum'', m) {#})"
    by (rule gov_reachable.step)
  from inflight_within_budgets [OF default_gov_ok reach]
  have "get_global_browser_pages_total (snd ?r) \<le> GLOBAL_MAX_BROWSER_PAGES default_gov" by blast
  with reach one show ?thesis by (intro exI [of _ "snd ?r"] exI [of _ "add_mset (''uzum'', m) {#}"]) simp
qed

section \<open>Downgrading\<close>

text \<open>The values \<open>build_request_meta\<close> writes, and an absent entry.\<close>

definition literal_mode :: "request_meta \<Rightarrow> bool" where
  "literal_mode m \<longleftrightarrow> rm_access_mode_selected m \<in> {None, Some ''plain'', Some ''browser'', Some ''proxy''}"

definition as_plain :: "request_meta \<Rightarrow> request_meta" where
  "as_plain m = m\<lparr>rm_access_mode_selected := Some ''plain''\<rparr>"

lemma selected_literal:
  "rm_access_mode_selected m = None \<Longrightarrow> selected_mode m = ''plain''"
  "rm_access_mode_selected m = Some ''plain'' \<Longrightarrow> selected_mode m = ''plain''"
  "rm_access_mode_selected m = Some ''browser'' \<Longrightarrow> selected_mode m = ''browser''"
  "rm_access_mode_selected m = Some ''proxy'' \<Longrightarrow> selected_mode m = ''proxy''"
proof -
  have "lower ''plain'' = ''plain''" "lower ''browser'' = ''browser''" "lower ''proxy'' = ''proxy''" by code_simp+
  then show "rm_access_mode_selected m = None \<Longrightarrow> selected_mode m = ''plain''"
    "rm_access_mode_selected m = Some ''plain'' \<Longrightarrow> selected_mode m = ''plain''"
    "rm_access_mode_selected m = Some ''browser'' \<Longrightarrow> selected_mode m = ''browser''"
    "rm_access_mode_selected m = Some ''proxy'' \<Longrightarrow> selected_mode m = ''proxy''"
    by (simp_all add: selected_mode_def truthy_def or_empty_def)
qed

lemma downgrade_plain: "selected_mode m = ''plain'' \<Longrightarrow> downgrade n g mem t st bg m = m"
  by (cases n) (simp_all add: Let_def)

lemma stripped_plain:
  "selected_mode (strip_browser_from_meta m) = ''plain''"
  "rm_access_mode_selected m = Some ''proxy'' \<Longrightarrow> selected_mode (strip_proxy_from_meta m) = ''plain''"
  by (simp_all add: strip_browser_from_meta_def strip_proxy_from_meta_def selected_literal or_empty_def)

lemma downgraded:
  assumes "literal_mode m" and m': "m' = downgrade (Suc n) g mem t st bg m"
  shows "(selected_mode m' = ''browser'' \<longrightarrow> selected_mode m = ''browser'' \<and>
      (ENABLE_BROWSER_BUDGETS g \<longrightarrow> cd_allowed (decide_browser_admission g t st (build_runtime_state g mem st t) bg)))
    \<and> (selected_mode m' = ''proxy'' \<longrightarrow> selected_mode m = ''proxy'' \<and>
      (ENABLE_PROXY_BUDGETS g \<longrightarrow> cd_allowed (decide_proxy_admission g t st (build_runtime_state g mem st t) bg)))"
proof -
  from assms(1) consider "selected_mode m = ''plain''" | "selected_mode m = ''browser''"
    | "selected_mode m = ''proxy''" "rm_access_mode_selected m = Some ''proxy''"
    by (auto simp: literal_mode_def selected_literal)
  then show ?thesis
  proof cases
    case 1
    then show ?thesis by (simp add: m' downgrade_plain)
  next
    case 2
    then show ?thesis by (simp add: m' downgrade_plain stripped_plain Let_def)
  next
    case 3
    then show ?thesis by (simp add: m' downgrade_plain stripped_plain Let_def)
  qed
qed

lemma admission_ignores_mode:
  assumes "mode = Browser_mode \<longrightarrow> cd_allowed (decide_browser_admission g t (store_key name) state bg)"
    and "mode = Proxy_mode \<longrightarrow> cd_allowed (decide_proxy_admission g t (store_key name) state bg)"
  shows "cd_allowed (decide_request_admission g t (store_key name) purpose mode state bg)
    = cd_allowed (decide_request_admission g t (store_key name) purpose Http_mode state bg)"
  using assms by (cases mode) (simp_all add: decide_request_admission_def Let_def)

text \<open>A scarce browser or proxy never costs a request: the guard admits a request with a
  browser or proxy intent exactly when it admits the same request over plain HTTP, and a
  request that leaves with browser or proxy mode asked for it and found room in the budget.
\<close>

theorem intent_never_refused:
  assumes on: "all_budgets_on g" and lit: "literal_mode m"
  shows "snd (apply_governance_to_request_meta g mem t name purpose m)
      = snd (apply_governance_to_request_meta g mem t name purpose (as_plain m))
    \<and> (let m' = fst (apply_governance_to_request_meta g mem t name purpose m); k = store_key name;
           room = (\<lambda>decide. cd_allowed (decide g t k (build_runtime_state g mem k t) (get_store_budget name))) in
       \<not> is_store_bypassed g k \<longrightarrow>
         (selected_mode m' = ''browser'' \<longrightarrow> selected_mode m = ''browser'' \<and> room decide_browser_admission) \<and>
         (selected_mode m' = ''proxy'' \<longrightarrow> selected_mode m = ''proxy'' \<and> room decide_proxy_admission))"
proof -
  let ?k = "store_key name" and ?bg = "get_store_budget name"
  let ?s = "build_runtime_state g mem ?k t" and ?m1 = "downgrade 3 g mem t ?k ?bg m"
  have en: "ENABLE_RESOURCE_GOVERNANCE g" "ENABLE_STORE_RESOURCE_BUDGETS g" using on by (simp_all add: all_budgets_on_def)
  have three: "(3::nat) = Suc 2" by simp
  note down = downgraded [OF lit, of ?m1 2 g mem t ?k ?bg, folded three, OF refl]
  have plain: "selected_mode (as_plain m) = ''plain''" by (simp add: as_plain_def selected_literal)
  have "cd_allowed (decide_request_admission g t ?k p (meta_to_resource_mode ?m1) ?s ?bg)
      = cd_allowed (decide_request_admission g t ?k p Http_mode ?s ?bg)" for p
    by (rule admission_ignores_mode) (use down on in \<open>simp_all add: all_budgets_on_def\<close>)
  moreover have "meta_to_resource_mode (as_plain m) = Http_mode"
    using plain by (simp add: meta_to_resource_mode_def)
  ultimately show ?thesis
    using down on by (simp add: apply_governance_to_request_meta_def en downgrade_plain [OF plain] Let_def all_budgets_on_def)
qed

theorem intent_never_refused_witness:
  "let full = count_request default_gov ''uzum'' ''listing'' ''browser''
       (count_request default_gov ''uzum'' ''listing'' ''browser'' new_tracker);
     r = apply_governance_to_request_meta default_gov None full ''uzum'' ''product'' sample_meta in
   snd r \<and> selected_mode (fst r) = ''plain''"
proof -
  let ?full = "count_request default_gov ''uzum'' ''listing'' ''browser''
    (count_request default_gov ''uzum'' ''listing'' ''browser'' new_tracker)"
  have lit: "literal_mode sample_meta" by (simp add: literal_mode_def sample_meta_def)
  have "snd (apply_governance_to_request_meta default_gov None ?full ''uzum'' ''product'' (as_plain sample_meta))"
    by code_simp
  moreover have "selected_mode (fst (apply_governance_to_request_meta default_gov None ?full ''uzum'' ''product'' sample_meta))
      = ''plain''" by code_simp
  ultimately show ?thesis
    using intent_never_refused [OF default_gov_ok(1) lit, of None ?full "''uzum''" "''product''"] by (simp add: Let_def)
qed

text \<open>
  Which labels \<^const>\<open>suggest_degradation_mode\<close> can give to a decision of \<^const>\<open>decide_backpressure\<close>:
  never the one for proxies, and a pause exactly when memory is critical.
\<close>

theorem degradation_labels:
  "suggest_degradation_mode state (decide_backpressure g name state bg) \<noteq> Deg_reduce_proxy
    \<and> (suggest_degradation_mode state (decide_backpressure g name state bg) = Deg_pause_store
       \<longleftrightarrow> bp_reason (decide_backpressure g name state bg) = ''memory_critical'')"
proof -
  have t: "starts_with ''memory'' ''memory_critical''" "contains ''retryable'' ''retryable_queue_critical''"
    "contains ''batch_inflight'' ''batch_inflight_critical''" "\<not> starts_with ''memory'' ''retryable_queue_critical''"
    "\<not> starts_with ''memory'' ''batch_inflight_critical''"
    by code_simp+
  show ?thesis
    by (simp add: suggest_degradation_mode_def decide_backpressure_def Let_def t)
qed

end
