(* ===== verification/Sync_Governance.thy ===== *)
theory Sync_Governance imports Sync_Delivery Governance_Invariant begin

text \<open>
  The synchronisation pipeline under the resource governance: the guard that
  \<^verbatim>\<open>sync_pipeline.py\<close> puts before every flush that is not forced, and what it does to a
  crawl whose retry queue has grown to its critical size.
\<close>

section \<open>The guard before a flush\<close>

definition sync_retry_queue_tracker :: "gov_settings \<Rightarrow> pystr \<Rightarrow> pipeline \<Rightarrow> tracker \<Rightarrow> tracker" where
  "sync_retry_queue_tracker g name p t =
    set_retryable_queue_size g name (int (length (co_retry (sp_coordinator p)))) t"

text \<open>Whether a flush that is not forced goes on; \<open>slow_down\<close> and the milder actions only sleep.\<close>

definition batch_verdict :: "gov_settings \<Rightarrow> rat option \<Rightarrow> pystr \<Rightarrow> tracker \<Rightarrow> bool" where
  "batch_verdict g mem name t =
    (if \<not> ENABLE_RESOURCE_GOVERNANCE g then True
     else
      (let bg = get_store_budget name; state = build_runtime_state g mem name t; bp = decide_backpressure g name state bg in
       if \<not> cd_allowed (decide_batch_admission g t name state bg) then False
       else \<not> (bp_apply bp \<and> ENABLE_BATCH_BACKPRESSURE g \<and> bp_suggested_action bp = Pause_batches)))"

text \<open>
  \<open>process_item\<close> with the verdict the guard reaches.  The retry queue is not touched before
  the flush, so the length reported on entry is the one the guard reads.
\<close>

definition governed_process_item ::
    "gov_settings \<Rightarrow> sync_ctx \<Rightarrow> pystr \<Rightarrow> tracker \<Rightarrow> rat option \<Rightarrow> rat \<Rightarrow> normalized option \<Rightarrow> pipeline \<Rightarrow> exc option \<times> pipeline" where
  "governed_process_item g k name t mem now item p =
    process_item k (batch_verdict g mem name (sync_retry_queue_tracker g name p t)) now item p"

text \<open>What the rest of the process does between two items: the counters, the memory and the clock it leaves.\<close>

type_synonym arrival = "tracker \<times> rat option \<times> rat \<times> normalized option"

fun run_items :: "gov_settings \<Rightarrow> sync_ctx \<Rightarrow> pystr \<Rightarrow> arrival list \<Rightarrow> pipeline \<Rightarrow> pipeline" where
  "run_items g k name [] p = p"
| "run_items g k name ((t, mem, now, item) # rest) p =
    run_items g k name rest (snd (governed_process_item g k name t mem now item p))"

section \<open>A critical retry queue is never relieved\<close>

definition retry_critical :: "gov_settings \<Rightarrow> pystr \<Rightarrow> pipeline \<Rightarrow> bool" where
  "retry_critical g name p \<longleftrightarrow> ENABLE_RESOURCE_GOVERNANCE g \<and> ENABLE_BACKPRESSURE_POLICY g \<and> ENABLE_BATCH_BACKPRESSURE g
     \<and> int (length (co_retry (sp_coordinator p)))
         \<ge> min (BACKPRESSURE_RETRYABLE_QUEUE_CRITICAL g) (max_retryable_queue (get_store_budget name))"

definition memory_critical :: "gov_settings \<Rightarrow> rat option \<Rightarrow> bool" where
  "memory_critical g mem \<longleftrightarrow> mem_at_least mem (min (BACKPRESSURE_MEMORY_CRITICAL_MB g) (GLOBAL_MAX_MEMORY_MB g))"

lemma critical_pauses:
  assumes "retry_critical g name p" and "\<not> memory_critical g mem"
  shows "\<not> batch_verdict g mem name (sync_retry_queue_tracker g name p t)"
  using assms
  by (auto simp: retry_critical_def memory_critical_def batch_verdict_def sync_retry_queue_tracker_def
      set_retryable_queue_size_def build_runtime_state_def decide_backpressure_def mem_at_least_def Let_def
      split: option.splits)

lemma paused_item_keeps:
  assumes "process_item k False now item p = (x, p')"
  shows "sp_sent p' = sp_sent p \<and> co_retry (sp_coordinator p') = co_retry (sp_coordinator p)"
  using assms
  by (auto simp: process_item_def flush_one_round_def add_event_def Let_def split: option.splits sum.splits if_splits)

lemma critical_keeps:
  assumes "retry_critical g name p" and "\<not> memory_critical g mem"
    and "p' = snd (governed_process_item g k name t mem now item p)"
  shows "sp_sent p' = sp_sent p \<and> co_retry (sp_coordinator p') = co_retry (sp_coordinator p) \<and> retry_critical g name p'"
proof -
  have "process_item k False now item p = (fst (process_item k False now item p), p')"
    using assms(3) critical_pauses [OF assms(1,2)] by (simp add: governed_process_item_def)
  from paused_item_keeps [OF this] show ?thesis using assms(1) by (simp add: retry_critical_def)
qed

lemma critical_run:
  assumes "retry_critical g name p" and "list_all (\<lambda>(t, mem, now, item). \<not> memory_critical g mem) arrivals"
  shows "sp_sent (run_items g k name arrivals p) = sp_sent p
    \<and> co_retry (sp_coordinator (run_items g k name arrivals p)) = co_retry (sp_coordinator p)
    \<and> retry_critical g name (run_items g k name arrivals p)"
  using assms
proof (induction g k name arrivals p rule: run_items.induct)
  case (1 g k name p)
  then show ?case by simp
next
  case (2 g k name t mem now item rest p)
  then have "\<not> memory_critical g mem" by simp
  note kept = critical_keeps [OF 2(2) this, of _ k t now item, OF refl]
  with 2 show ?case by simp
qed

lemma critical_refuses_requests:
  assumes "retry_critical g name p" and "ENABLE_STORE_RESOURCE_BUDGETS g" and "\<not> is_store_bypassed g (store_key name)"
  shows "schedule_governed g mem name purpose m (sync_retry_queue_tracker g name p t)
    = (None, sync_retry_queue_tracker g name p t)"
proof -
  have en: "ENABLE_RESOURCE_GOVERNANCE g" using assms(1) by (simp add: retry_critical_def)
  have "min (BACKPRESSURE_RETRYABLE_QUEUE_CRITICAL g) (min (GLOBAL_MAX_RETRYABLE_QUEUE g) (max_retryable_queue (get_store_budget name)))
      \<le> int (length (co_retry (sp_coordinator p)))"
    using assms(1) by (auto simp: retry_critical_def)
  then have "\<not> cd_allowed (decide_request_admission g (sync_retry_queue_tracker g name p t) (store_key name) pl mode
      (build_runtime_state g mem (store_key name) (sync_retry_queue_tracker g name p t)) (get_store_budget name))" for pl mode
    by (simp add: decide_request_admission_def build_runtime_state_def sync_retry_queue_tracker_def
        set_retryable_queue_size_def en Let_def)
  then show ?thesis
    using assms(2,3) by (simp add: schedule_governed_def apply_governance_to_request_meta_def en Let_def)
qed

text \<open>C23. A critical retry queue stalls the crawl until it ends.  Once as many events wait for a
  retry as the store's budget (or the critical setting) allows, then whatever items arrive,
  whenever, and whatever the other counters say, no batch is sent and no retry leaves the
  queue, so the queue never falls below the limit again, and every further request of the
  store is refused; only memory pressure or the forced drain at the close gets past the guard.
\<close>

theorem retry_pressure_stalls:
  assumes "retry_critical g name p" and "list_all (\<lambda>(t, mem, now, item). \<not> memory_critical g mem) arrivals"
    and "p' = run_items g k name arrivals p"
  shows "sp_sent p' = sp_sent p \<and> co_retry (sp_coordinator p') = co_retry (sp_coordinator p)
    \<and> (ENABLE_STORE_RESOURCE_BUDGETS g \<and> \<not> is_store_bypassed g (store_key name) \<longrightarrow>
        (\<forall>mem purpose m t. fst (schedule_governed g mem name purpose m (sync_retry_queue_tracker g name p' t)) = None))"
  using critical_run [OF assms(1,2), of k] critical_refuses_requests [of g name p'] assms(3) by simp

definition plain_item :: sync_item where
  "plain_item = \<lparr> si_schema_version = 1, si_entity_key = ''shop:1'', si_payload_hash = ''h1'', si_source_name = ''shop'',
     si_source_url = ''https://shop.uz/p/1'', si_source_id = Some ''1'', si_external_ids = [], si_title = ''Phone'',
     si_brand = None, si_category_hint = None, si_price_value = None, si_price_raw = None, si_currency = None,
     si_in_stock = None, si_raw_specs = [], si_normalized_spec_labels = [], si_compatibility_targets = [],
     si_typed_specs = [], si_normalization_warnings = [], si_description = None, si_image_urls = [], si_barcode = None,
     si_model_name = None, si_change_hint = None, si_request_idempotency_key = None \<rparr>"

definition plain_event :: "pystr \<Rightarrow> event" where
  "plain_event i = \<lparr> se_event_id = i, se_event_type = Product_found, se_identity = \<lparr> ic_entity_key = ''shop:1'', ic_external_ids = [], ic_barcode = None,
     ic_source_name = ''shop'', ic_source_url = ''https://shop.uz/p/1'', ic_source_id = Some ''1'', ic_crm_listing_id = None,
     ic_crm_product_id = None \<rparr>,
     se_data = plain_item, se_request_idempotency_key = [], se_replay_mode = Snapshot_upsert, se_original_intent = None,
     se_normalized = None \<rparr>"

text \<open>A pipeline with one event to retry, under settings that allow none.\<close>

definition stalling_gov :: gov_settings where
  "stalling_gov = default_gov\<lparr>BACKPRESSURE_RETRYABLE_QUEUE_CRITICAL := 1\<rparr>"

definition stalled :: pipeline where
  "stalled = (open_spider 0)\<lparr>sp_coordinator := requeue_retryable 1 [plain_event ''e''] (new_coordinator 0)\<rparr>"

theorem retry_pressure_stalls_witness:
  "let p' = run_items stalling_gov sample_ctx ''shop'' [(new_tracker, None, 2, Some sample_normalized)] stalled in
     sp_sent p' = [] \<and> length (co_retry (sp_coordinator p')) = 1
     \<and> fst (schedule_governed stalling_gov None ''shop'' ''listing'' sample_meta
           (sync_retry_queue_tracker stalling_gov ''shop'' p' new_tracker)) = None"
proof -
  have one: "sp_sent stalled = []" "length (co_retry (sp_coordinator stalled)) = 1"
    by (simp_all add: stalled_def open_spider_def requeue_retryable_def new_coordinator_def)
  have "max_retryable_queue (get_store_budget ''shop'') = 80" by code_simp
  then have crit: "retry_critical stalling_gov ''shop'' stalled"
    using one by (simp add: retry_critical_def stalling_gov_def default_gov_def)
  have "\<not> is_store_bypassed stalling_gov (store_key ''shop'')" "ENABLE_STORE_RESOURCE_BUDGETS stalling_gov"
    by (simp_all add: is_store_bypassed_def stalling_gov_def default_gov_def Let_def)
  then show ?thesis
    using retry_pressure_stalls [OF crit, of "[(new_tracker, None, 2, Some sample_normalized)]" _ sample_ctx, OF _ refl] one
    by (simp add: memory_critical_def mem_at_least_def Let_def)
qed

end
