(* ===== verification/Crm_Delivery.thy ===== *)
theory Crm_Delivery imports Crm_Transport Sync_Governance begin

text \<open>
  The synchronisation pipeline over the HTTP transport: which clause of
  \<^verbatim>\<open>_execute_batch_send\<close> catches what the transport raises, and what becomes of the batch.
\<close>

text \<open>The \<open>except\<close> clause that an exception of the transport meets.\<close>

definition outcome_of :: "crm_exc + batch_result \<Rightarrow> outcome" where
  "outcome_of res = (case res of
       Inr b \<Rightarrow> Responded b
     | Inl x \<Rightarrow> (case x of
         Malformed_exc b \<Rightarrow> Malformed_response (Some b)
       | Transport_exc m \<Rightarrow> Transport_error (OtherError m)
       | Business status body \<Rightarrow> Send_error (OtherError body)
       | Other_exc y \<Rightarrow> Send_error y))"

section \<open>A sample network\<close>

definition two_events :: "event list" where
  "two_events = [plain_event ''e'', plain_event ''f'']"

definition sample_crm :: crm_settings where
  "sample_crm = \<lparr> CRM_SYNC_ENDPOINT = ''/sync'', CRM_SYNC_BATCH_ENDPOINT = ''/sync/batch'', CRM_HTTP_RETRY_ATTEMPTS = 3,
     CRM_HTTP_RETRY_BACKOFF_SECONDS = 3 / 2, CRM_BATCH_RETRY_ONLY_RETRYABLE_ITEMS = True, CRM_SEND_IDEMPOTENCY_KEY_HEADER = True \<rparr>"

text \<open>The batch answer: the first event created, the second to be retried.\<close>

definition half_done :: http_response where
  "half_done = \<lparr> hr_status = 200, hr_retry_after = None, hr_text = [],
     hr_json = Some (JArr [JObj [(''success'', JBool True), (''action'', JStr ''created''), (''crm_listing_id'', JStr ''L1'')],
       JObj [(''success'', JBool False), (''retryable'', JBool True)]]),
     hr_history = [], hr_url = ''/sync/batch'' \<rparr>"

definition sample_tc :: "(nat \<Rightarrow> http_answer) \<Rightarrow> normalized transport_ctx" where
  "sample_tc net = \<lparr> tc_settings = sample_sync, tc_crm = sample_crm, tc_client = None, tc_sign = (\<lambda>rq. None),
     tc_absolute = id, tc_redirect_refused = (\<lambda>u v. None), tc_crm_host = (\<lambda>u. True), tc_http = (\<lambda>n rq. net n) \<rparr>"

definition dying_network :: "nat \<Rightarrow> http_answer" where
  "dying_network n = (if n = 0 then Answer half_done else Unreachable ''refused'')"

section \<open>Properties\<close>

text \<open>C24. The contract of a batch send, whatever the network answers: at most one request for the
  batch and two for each event, each tried no more often than the retries allow; a result
  that is returned has exactly one consistent result per event, in order and carrying the
  event's identifiers, so the item count of a batch can never mismatch; and a business
  error of the CRM never leaves as an exception, it is turned into results.\<close>

theorem batch_send_contract:
  assumes "send_batch_events tc events w = (res, w')"
  shows "length (wr_log w') \<le> length (wr_log w) + (2 * length events + 1) * (CRM_HTTP_RETRY_ATTEMPTS (tc_crm tc) + 1)
    \<and> (case res of
         Inr b \<Rightarrow> list_all2 (\<lambda>e i. consistent_result (tc_settings tc) i \<and> result_for e i) events (br_items b)
       | Inl x \<Rightarrow> (\<forall>status body. x \<noteq> Business status body))"
  using send_batch_ok [OF assms]
  by (auto simp: sent_up_to_def batch_ends_def fits_event_def [abs_def] attempts_per_request_def split: sum.splits crm_exc.splits)

lemma sample_tc_simps [simp]:
  "tc_crm (sample_tc net) = sample_crm" "tc_client (sample_tc net) = None" "tc_sign (sample_tc net) rq = None"
  "tc_http (sample_tc net) n rq = net n" "CRM_HTTP_RETRY_ATTEMPTS sample_crm = 3" "CRM_BATCH_RETRY_ONLY_RETRYABLE_ITEMS sample_crm"
  "wr_log new_wire = []" "wr_batch_supported new_wire" "length two_events = 2" "two_events \<noteq> []"
  by (simp_all add: sample_tc_def sample_crm_def new_wire_def two_events_def)

lemma half_done_sent: "length (wr_log (snd (send_batch_events (sample_tc dying_network) two_events new_wire))) = 5"
  by code_simp

theorem batch_send_contract_witness:
  "\<exists>res w'. send_batch_events (sample_tc dying_network) two_events new_wire = (res, w')
     \<and> length (wr_log w') = 5 \<and> length (wr_log w') \<le> 20"
proof -
  obtain res w' where s: "send_batch_events (sample_tc dying_network) two_events new_wire = (res, w')" by force
  from batch_send_contract [OF s] have "length (wr_log w') \<le> 20" by simp
  with s half_done_sent show ?thesis by simp
qed

section \<open>A failed retry discards the batch\<close>

text \<open>From the request after the batch request on, the network is gone.\<close>

definition network_gone :: "'n transport_ctx \<Rightarrow> 'n wire \<Rightarrow> pystr \<Rightarrow> bool" where
  "network_gone tc w m \<longleftrightarrow> (\<forall>n rq. length (wr_log w) \<le> n \<longrightarrow> tc_http tc n rq = Unreachable m)
     \<and> (\<forall>rq. tc_sign tc rq = None) \<and> tc_client tc = None"

lemma attempts_gone: "network_gone tc w m \<Longrightarrow> fst (request_attempts tc rq a left w) = Inl (Transport_exc m)"
proof (induction left arbitrary: a w)
  case 0
  then show ?case by (simp add: request_attempts.simps network_gone_def attempt_outcome_def Let_def)
next
  case (Suc left)
  let ?w = "w\<lparr>wr_log := wr_log w @ [rq]\<rparr>"
  have "network_gone tc (wait_and_count s ?w) m" for s
    using Suc.prems by (simp add: network_gone_def wait_and_count_def)
  from Suc.IH [OF this] Suc.prems show ?case
    by (simp add: request_attempts.simps [of _ _ _ "Suc left"] network_gone_def attempt_outcome_def Let_def)
qed

lemma send_one_gone:
  assumes "network_gone tc w m"
  shows "fst (send_one_event tc e w) = Inl (Transport_exc m)"
proof -
  obtain r w1 where rw: "request_with_retry tc \<lparr> rq_url = CRM_SYNC_ENDPOINT (tc_crm tc), rq_events = [e], rq_idempotency_key = None \<rparr> w = (r, w1)"
    by force
  then have "r = Inl (Transport_exc m)"
    using attempts_gone [OF assms] by (simp add: request_with_retry_def) (metis fst_conv)
  with rw assms show ?thesis by (simp add: send_one_event_def network_gone_def)
qed

lemma resend_gone:
  assumes "network_gone tc w m" and "(e, i) \<in> set eis" and "\<not> ar_success i" and "ar_retryable i"
  shows "fst (resend_retryable tc eis w) = Inl (Transport_exc m)"
  using assms(2)
proof (induction eis)
  case Nil
  then show ?case by simp
next
  case (Cons x eis)
  obtain e' i' where x: "x = (e', i')" by force
  show ?case
  proof (cases "ar_success i' \<or> \<not> ar_retryable i'")
    case True
    with Cons assms(3,4) x have "fst (resend_retryable tc eis w) = Inl (Transport_exc m)" by auto
    with True x show ?thesis by (auto split: sum.splits prod.splits)
  next
    case False
    obtain r w1 where one: "send_one_event tc e' w = (r, w1)" by force
    with send_one_gone [OF assms(1), of e'] have "r = Inl (Transport_exc m)" by simp
    with False x one show ?thesis by simp
  qed
qed

lemma batch_gone:
  assumes "events \<noteq> []" and "wr_batch_supported w" and "CRM_BATCH_RETRY_ONLY_RETRYABLE_ITEMS (tc_crm tc)"
    and "request_with_retry tc (batch_request tc events) w = (Inr r, w1)" and "batch_answer tc events r = Inr b"
    and "(e, i) \<in> set (zip events (br_items b))" and "\<not> ar_success i" and "ar_retryable i"
    and "network_gone tc w1 m"
  shows "fst (send_batch_events tc events w) = Inl (Transport_exc m)"
proof -
  obtain res w2 where re: "resend_retryable tc (zip events (br_items b)) w1 = (res, w2)" by force
  with resend_gone [OF assms(9,6-8)] have "res = Inl (Transport_exc m)" by simp
  with re assms show ?thesis
    by (simp add: send_batch_events_def retry_retryable_items_in_batch_def network_gone_def)
qed

text \<open>C25. A retry that fails on the network discards what the batch had achieved.  The CRM has
  answered the batch; one event is to be retried, and its retries find the network gone.
  Then, whatever the answer says of the other events, also that they were created, the
  pipeline records none of them: registry and bridge stay as they were, every event of the
  batch counts as failed, none as synced, and their fingerprints are released.\<close>

theorem failed_retry_discards_batch:
  assumes "events \<noteq> []" and "wr_batch_supported w" and "CRM_BATCH_RETRY_ONLY_RETRYABLE_ITEMS (tc_crm tc)"
    and "request_with_retry tc (batch_request tc events) w = (Inr r, w1)" and "batch_answer tc events r = Inr b"
    and "(e, i) \<in> set (zip events (br_items b))" and "\<not> ar_success i" and "ar_retryable i"
    and "network_gone tc w1 m"
    and "cx_send k (length (sp_sent p)) events = outcome_of (fst (send_batch_events tc events w))"
    and "execute_batch_send k now events p = (x, p')"
  shows "sp_registry p' = sp_registry p \<and> sp_bridge p' = sp_bridge p
    \<and> mt_items_synced (sp_metrics p') = mt_items_synced (sp_metrics p)
    \<and> mt_items_failed (sp_metrics p') = mt_items_failed (sp_metrics p) + length events
    \<and> co_outstanding (sp_coordinator p') = co_outstanding (sp_coordinator p) - set (map fp events)"
proof -
  have "fst (send_batch_events tc events w) = Inl (Transport_exc m)" by (rule batch_gone [OF assms(1-9)])
  with assms(10) have "cx_send k (length (sp_sent p)) events = Transport_error (OtherError m)" by (simp add: outcome_of_def)
  with assms(11) show ?thesis
    by (auto simp: execute_batch_send_def release_def release_fingerprints_def mark_flushed_def Let_def)
qed

text \<open>The pipeline while the two events are on the wire.\<close>

definition waiting :: pipeline where
  "waiting = (open_spider 0)\<lparr>sp_coordinator := (new_coordinator 0)\<lparr>co_outstanding := set (map fp two_events)\<rparr>\<rparr>"

theorem failed_retry_discards_batch_witness:
  "\<exists>x p'. execute_batch_send (sample_ctx\<lparr>cx_send := \<lambda>n es. outcome_of (fst (send_batch_events (sample_tc dying_network) es new_wire))\<rparr>)
        2 two_events waiting = (x, p')
     \<and> mt_items_failed (sp_metrics p') = mt_items_failed (sp_metrics waiting) + 2
     \<and> sp_registry p' = sp_registry waiting"
proof -
  let ?tc = "sample_tc dying_network"
  let ?k = "sample_ctx\<lparr>cx_send := \<lambda>n es. outcome_of (fst (send_batch_events (sample_tc dying_network) es new_wire))\<rparr>"
  define w1 where "w1 = new_wire\<lparr>wr_log := [batch_request ?tc two_events]\<rparr>"
  have "validate_crm_http_response ?tc ''/sync/batch'' half_done = None"
    by (simp add: validate_crm_http_response_def half_done_def sample_tc_def)
  moreover have "hr_status half_done = 200" "rq_url (batch_request ?tc two_events) = ''/sync/batch''"
    by (simp_all add: half_done_def batch_request_def sample_crm_def)
  ultimately have req: "request_with_retry ?tc (batch_request ?tc two_events) new_wire = (Inr half_done, w1)"
    by (simp add: request_with_retry_def request_attempts.simps attempt_outcome_def dying_network_def w1_def Let_def)
  have "(case batch_answer ?tc two_events half_done of Inl b \<Rightarrow> False
      | Inr b \<Rightarrow> map (\<lambda>i. (ar_success i, ar_retryable i)) (br_items b) = [(True, False), (False, True)])" by code_simp
  then obtain b where ans: "batch_answer ?tc two_events half_done = Inr b"
    and flags: "map (\<lambda>i. (ar_success i, ar_retryable i)) (br_items b) = [(True, False), (False, True)]"
    by (auto split: sum.splits)
  then obtain i1 i2 where items: "br_items b = [i1, i2]" "\<not> ar_success i2" "ar_retryable i2" by auto
  have last: "(plain_event ''f'', i2) \<in> set (zip two_events (br_items b))" by (simp add: items two_events_def)
  have gone: "network_gone ?tc w1 ''refused''" by (auto simp: network_gone_def w1_def dying_network_def)
  obtain x p' where run: "execute_batch_send ?k 2 two_events waiting = (x, p')" by force
  have "cx_send ?k (length (sp_sent waiting)) two_events = outcome_of (fst (send_batch_events ?tc two_events new_wire))" by simp
  from failed_retry_discards_batch [OF _ _ _ req ans last items(2,3) gone this run] run show ?thesis by simp
qed

end
