(* ===== verification/Ip_Address.thy ===== *)
theory Ip_Address imports Py_Number "HOL-Library.Word" begin

text \<open>
  IPv4 addresses as 32-bit words: the dotted form that \<open>ipaddress.ip_address\<close> reads and
  writes, and the ranges that \<open>is_private\<close>, \<open>is_loopback\<close>, \<open>is_link_local\<close> and
  \<open>is_reserved\<close> cover.
\<close>

section \<open>Splitting\<close>

text \<open>\<open>s.split(sep)\<close> for one character.\<close>

fun split_on :: "char \<Rightarrow> pystr \<Rightarrow> pystr list" where
  "split_on sep [] = [[]]"
| "split_on sep (c # s) =
    (if c = sep then [] # split_on sep s
     else (case split_on sep s of [] \<Rightarrow> [[c]] | w # ws \<Rightarrow> (c # w) # ws))"

lemma split_on_not_Nil [simp]: "split_on sep s \<noteq> []"
  by (induction s) (auto split: list.splits)

lemma split_on_free: "sep \<notin> set w \<Longrightarrow> split_on sep w = [w]"
  by (induction w) auto

lemma split_on_first: "sep \<notin> set w \<Longrightarrow> split_on sep (w @ sep # s) = w # split_on sep s"
  by (induction w) auto

section \<open>The dotted form\<close>

text \<open>An octet has one to three digits, no leading zero and a value of at most 255.\<close>

definition octet_of :: "pystr \<Rightarrow> nat option" where
  "octet_of s =
    (if s = [] \<or> \<not> list_all is_digit s \<or> length s > 3 \<or> (s \<noteq> ''0'' \<and> hd s = CHR ''0'') then None
     else (let n = digits_value 0 s in if n > 255 then None else Some n))"

definition of_octets :: "nat \<Rightarrow> nat \<Rightarrow> nat \<Rightarrow> nat \<Rightarrow> 32 word" where
  "of_octets a b c d = of_nat (((a * 256 + b) * 256 + c) * 256 + d)"

definition ip4_of :: "pystr \<Rightarrow> 32 word option" where
  "ip4_of s = (case map octet_of (split_on (CHR ''.'') s) of
       [Some a, Some b, Some c, Some d] \<Rightarrow> Some (of_octets a b c d)
     | _ \<Rightarrow> None)"

definition octet :: "nat \<Rightarrow> 32 word \<Rightarrow> nat" where
  "octet i w = unat (take_bit 8 (drop_bit (8 * i) w))"

definition ip4_text :: "32 word \<Rightarrow> pystr" where
  "ip4_text w = nat_text (octet 3 w) @ ''.'' @ nat_text (octet 2 w) @ ''.'' @ nat_text (octet 1 w) @ ''.'' @ nat_text (octet 0 w)"

section \<open>Ranges\<close>

text \<open>\<open>w\<close> lies in the network of \<open>n\<close> leading bits whose value is \<open>prefix\<close>.\<close>

definition in_net :: "nat \<Rightarrow> 32 word \<Rightarrow> 32 word \<Rightarrow> bool" where
  "in_net n prefix w \<longleftrightarrow> drop_bit (32 - n) w = prefix"

definition ip4_loopback :: "32 word \<Rightarrow> bool" where
  "ip4_loopback w = in_net 8 127 w"

definition ip4_link_local :: "32 word \<Rightarrow> bool" where
  "ip4_link_local w = in_net 16 0xA9FE w"

definition ip4_reserved :: "32 word \<Rightarrow> bool" where
  "ip4_reserved w = in_net 4 0xF w"

text \<open>
  The private networks 0/8, 10/8, 127/8, 169.254/16, 172.16/12, 192.0.0/24 (but for
  192.0.0.9 and 192.0.0.10), 192.0.2/24, 192.168/16, 198.18/15, 198.51.100/24,
  203.0.113/24 and 240/4.
\<close>

definition ip4_private :: "32 word \<Rightarrow> bool" where
  "ip4_private w \<longleftrightarrow>
    (in_net 8 0 w \<or> in_net 8 10 w \<or> in_net 8 127 w \<or> in_net 16 0xA9FE w \<or> in_net 12 0xAC1 w \<or> in_net 24 0xC00000 w
     \<or> in_net 24 0xC00002 w \<or> in_net 16 0xC0A8 w \<or> in_net 15 0x6309 w \<or> in_net 24 0xC63364 w \<or> in_net 24 0xCB0071 w
     \<or> in_net 4 0xF w)
    \<and> w \<noteq> 0xC0000009 \<and> w \<noteq> 0xC000000A"

definition ip4_internal :: "32 word \<Rightarrow> bool" where
  "ip4_internal w \<longleftrightarrow> ip4_loopback w \<or> ip4_private w \<or> ip4_link_local w \<or> ip4_reserved w"

section \<open>Round trip\<close>

lemma octet_nat: "octet i w = unat w div 2 ^ (8 * i) mod 256"
proof -
  have "take_bit 32 (unat w) = unat w"
    by (rule take_bit_nat_eq_self) (use unsigned_less [of w] in simp)
  then have "octet i w = take_bit 8 (drop_bit (8 * i) (unat w))"
    by (simp add: octet_def unsigned_take_bit_eq unsigned_drop_bit_eq)
  then show ?thesis by (simp add: take_bit_eq_mod drop_bit_eq_div)
qed

lemma octet_lt: "octet i w < 256"
  by (simp add: octet_nat)

lemma octets_value:
  "((octet 3 w * 256 + octet 2 w) * 256 + octet 1 w) * 256 + octet 0 w = unat w"
proof -
  have "unat w < 2 ^ 32" using unsigned_less [of w] by simp
  then have top: "unat w div 256 div 256 div 256 < 256" by (simp flip: div_mult2_eq)
  have parts: "octet 3 w = unat w div 256 div 256 div 256 mod 256" "octet 2 w = unat w div 256 div 256 mod 256"
    "octet 1 w = unat w div 256 mod 256" "octet 0 w = unat w mod 256"
    by (simp_all add: octet_nat flip: div_mult2_eq)
  from top show ?thesis unfolding parts by (simp add: div_mult_mod_eq)
qed

lemma of_octets_octets: "of_octets (octet 3 w) (octet 2 w) (octet 1 w) (octet 0 w) = w"
  unfolding of_octets_def octets_value by simp

lemma octet_of_text:
  assumes "n < 256" shows "octet_of (nat_text n) = Some n"
proof -
  have "length (nat_text n) \<le> 3" using assms nat_text_length by simp
  moreover have "nat_text n = ''0'' \<or> hd (nat_text n) \<noteq> CHR ''0''"
    using nat_text_0 nat_text_hd by (cases "n = 0") auto
  ultimately show ?thesis
    using assms nat_text_digits [of n] by (auto simp: octet_of_def digits_value_nat_text Let_def)
qed

lemma nat_text_no_dot: "CHR ''.'' \<notin> set (nat_text n)"
proof -
  have "\<not> is_digit (CHR ''.'')" by code_simp
  then show ?thesis using nat_text_digits [of n] by (auto simp: list_all_iff)
qed

lemma ip4_of_text: "ip4_of (ip4_text w) = Some w"
  by (simp add: ip4_of_def ip4_text_def split_on_first split_on_free nat_text_no_dot octet_of_text octet_lt
      of_octets_octets del: One_nat_def)

end
