(* ===== verification/Url_Query.thy ===== *)
theory Url_Query imports Ip_Address Fingerprints begin

text \<open>
  The parts of \<^verbatim>\<open>urllib.parse\<close> the crawler's URL functions rest on: splitting and joining
  URLs with query and fragment, and reading and writing query strings.  What a query
  string decodes to is kept as its UTF-8 bytes, one \<^verbatim>\<open>char\<close> each, so that no code
  point is lost on the way through \<open>parse_qsl\<close> and \<open>urlencode\<close>.
\<close>

section \<open>Splitting and joining\<close>

text \<open>Text before and after the first \<open>c\<close>; all of it and nothing when there is none.\<close>

definition cut_at :: "char \<Rightarrow> pystr \<Rightarrow> pystr \<times> pystr" where
  "cut_at c s = (takeWhile (\<lambda>x. x \<noteq> c) s, tl (dropWhile (\<lambda>x. x \<noteq> c) s))"

definition clean_url :: "pystr \<Rightarrow> pystr" where
  "clean_url raw = filter (\<lambda>c. c \<noteq> CHR 0x09 \<and> c \<noteq> CHR 0x0A \<and> c \<noteq> CHR 0x0D) (dropWhile (\<lambda>c. (of_char c :: nat) \<le> 32) raw)"

record url_parts =
  up_scheme :: pystr
  up_netloc :: pystr
  up_path :: pystr
  up_query :: pystr
  up_fragment :: pystr

definition urlsplit5 :: "pystr \<Rightarrow> exc + url_parts" where
  "urlsplit5 raw =
    (let (scheme, rest) = url_scheme_rest (clean_url raw);
         (netloc, rest') = (if take 2 rest = ''//''
            then (takeWhile is_netloc_char (drop 2 rest), dropWhile is_netloc_char (drop 2 rest))
            else ([], rest));
         (before_fragment, fragment) = cut_at (CHR ''#'') rest';
         (path, query) = cut_at (CHR ''?'') before_fragment
     in if (CHR ''['' \<in> set netloc) \<noteq> (CHR '']'' \<in> set netloc)
        then Inl (ValueError ''Invalid IPv6 URL'')
        else Inr \<lparr> up_scheme = scheme, up_netloc = netloc, up_path = path, up_query = query, up_fragment = fragment \<rparr>)"

definition urlunsplit5 :: "url_parts \<Rightarrow> pystr" where
  "urlunsplit5 u = urlunsplit3 (up_scheme u) (up_netloc u) (up_path u)
     @ (if up_query u \<noteq> [] then CHR ''?'' # up_query u else [])
     @ (if up_fragment u \<noteq> [] then CHR ''#'' # up_fragment u else [])"

section \<open>Query strings\<close>

text \<open>UTF-8 of a code point below 256.\<close>

definition utf8 :: "pystr \<Rightarrow> string" where
  "utf8 s = concat (map (\<lambda>c. let n = of_char c :: nat in
     if n < 128 then [c] else [char_of (192 + n div 64), char_of (128 + n mod 64)]) s)"

definition hex_nibble :: "char \<Rightarrow> nat option" where
  "hex_nibble c = (let n = of_char c :: nat in
     if 48 \<le> n \<and> n \<le> 57 then Some (n - 48)
     else if 65 \<le> n \<and> n \<le> 70 then Some (n - 55)
     else if 97 \<le> n \<and> n \<le> 102 then Some (n - 87) else None)"

text \<open>\<open>unquote_to_bytes(s.replace("+", " "))\<close>\<close>

fun unquote_plus_bytes :: "string \<Rightarrow> string" where
  "unquote_plus_bytes [] = []"
| "unquote_plus_bytes (c # s) =
    (if c = CHR ''+'' then CHR '' '' # unquote_plus_bytes s
     else (case s of
         a # b # t \<Rightarrow>
           (case (if c = CHR ''%'' then (hex_nibble a, hex_nibble b) else (None, None)) of
              (Some x, Some y) \<Rightarrow> char_of (16 * x + y) # unquote_plus_bytes t
            | _ \<Rightarrow> c # unquote_plus_bytes s)
       | _ \<Rightarrow> c # unquote_plus_bytes s))"

text \<open>
  Decoding with \<open>errors="replace"\<close> and encoding again: a valid sequence stays, the
  longest start of one that breaks off becomes U+FFFD.
\<close>

definition in_range :: "nat \<Rightarrow> nat \<Rightarrow> char \<Rightarrow> bool" where
  "in_range a b c = (let n = of_char c :: nat in a \<le> n \<and> n \<le> b)"

definition REPLACEMENT :: string where
  "REPLACEMENT = [CHR 0xEF, CHR 0xBF, CHR 0xBD]"

text \<open>The ranges of the bytes that may follow a leading byte; \<^const>\<open>None\<close> for a byte that leads nothing.\<close>

definition followers :: "char \<Rightarrow> (nat \<times> nat) list option" where
  "followers c = (let n = of_char c :: nat; k = (128, 191) in
     if n < 128 then Some []
     else if 194 \<le> n \<and> n \<le> 223 then Some [k]
     else if n = 224 then Some [(160, 191), k]
     else if n = 237 then Some [(128, 159), k]
     else if 225 \<le> n \<and> n \<le> 239 then Some [k, k]
     else if n = 240 then Some [(144, 191), k, k]
     else if 241 \<le> n \<and> n \<le> 243 then Some [k, k, k]
     else if n = 244 then Some [(128, 143), k, k]
     else None)"

fun matching :: "(nat \<times> nat) list \<Rightarrow> string \<Rightarrow> nat" where
  "matching [] s = 0"
| "matching ((a, b) # rs) [] = 0"
| "matching ((a, b) # rs) (c # s) = (if in_range a b c then Suc (matching rs s) else 0)"

function decode_replace :: "string \<Rightarrow> string" where
  "decode_replace [] = []"
| "decode_replace (c # s) = (case followers c of
       None \<Rightarrow> REPLACEMENT @ decode_replace s
     | Some rs \<Rightarrow> (let n = matching rs s in
         (if n = length rs then c # take n s else REPLACEMENT) @ decode_replace (drop n s)))"
  by pat_completeness auto
termination
  by (relation "measure length") auto

definition unquote_plus :: "pystr \<Rightarrow> string" where
  "unquote_plus s = decode_replace (unquote_plus_bytes (utf8 s))"

text \<open>The code points of valid UTF-8, and which of them are white space.\<close>

fun code_points :: "string \<Rightarrow> nat list" where
  "code_points [] = []"
| "code_points (c # s) =
    (let n = of_char c :: nat; low = (\<lambda>d. of_char d - 128) in
     if n < 128 then n # code_points s
     else (case s of
         [] \<Rightarrow> [n]
       | d # t \<Rightarrow>
          (if n < 224 then (64 * (n - 192) + low d) # code_points t
           else (case t of
               [] \<Rightarrow> [n]
             | e # r \<Rightarrow>
                (if n < 240 then (4096 * (n - 224) + 64 * low d + low e) # code_points r
                 else (case r of
                     [] \<Rightarrow> [n]
                   | f # q \<Rightarrow> (262144 * (n - 240) + 4096 * low d + 64 * low e + low f) # code_points q))))))"

definition is_space_point :: "nat \<Rightarrow> bool" where
  "is_space_point n = ((9 \<le> n \<and> n \<le> 13) \<or> (28 \<le> n \<and> n \<le> 32) \<or> n = 133 \<or> n = 160 \<or> n = 5760 \<or> (8192 \<le> n \<and> n \<le> 8202)
     \<or> n = 8232 \<or> n = 8233 \<or> n = 8239 \<or> n = 8287 \<or> n = 12288)"

definition strip_points :: "nat list \<Rightarrow> nat list" where
  "strip_points ps = rev (dropWhile is_space_point (rev (dropWhile is_space_point ps)))"

text \<open>\<open>quote_plus\<close> on the bytes of a text.\<close>

definition is_unreserved :: "char \<Rightarrow> bool" where
  "is_unreserved c = (let n = of_char c :: nat in
     (48 \<le> n \<and> n \<le> 57) \<or> (65 \<le> n \<and> n \<le> 90) \<or> (97 \<le> n \<and> n \<le> 122) \<or> n = 95 \<or> n = 46 \<or> n = 45 \<or> n = 126)"

definition upper_hex :: "nat \<Rightarrow> char" where
  "upper_hex n = char_of (if n < 10 then 48 + n else 55 + n)"

definition quote_byte :: "char \<Rightarrow> pystr" where
  "quote_byte c = (if is_unreserved c then [c] else if c = CHR '' '' then ''+''
     else [CHR ''%'', upper_hex (of_char c div 16), upper_hex (of_char c mod 16)])"

definition quote_plus :: "string \<Rightarrow> pystr" where
  "quote_plus s = concat (map quote_byte s)"

text \<open>\<open>parse_qsl(q, keep_blank_values=True)\<close> and \<open>urlencode\<close> of a list of pairs.\<close>

definition parse_field :: "pystr \<Rightarrow> string \<times> string" where
  "parse_field f = (case cut_at (CHR ''='') f of (name, v) \<Rightarrow> (unquote_plus name, unquote_plus v))"

definition parse_qsl :: "pystr \<Rightarrow> (string \<times> string) list" where
  "parse_qsl q = map parse_field (filter (\<lambda>f. f \<noteq> []) (split_on (CHR ''&'') q))"

definition urlencode :: "(string \<times> string) list \<Rightarrow> pystr" where
  "urlencode kvs = join_text ''&'' (map (\<lambda>(k, v). quote_plus k @ CHR ''='' # quote_plus v) kvs)"

end
