(* ===== verification/Url_Tools.thy ===== *)
theory Url_Tools imports Url_Query Crm_Builder begin

text \<open>
  \<^verbatim>\<open>infrastructure/spiders/url_tools.py\<close>: the canonical form of a URL, by which the crawler
  recognises what it has seen; and the page numbers of \<^verbatim>\<open>spiders/base.py\<close>.
\<close>

section \<open>Tracking parameters\<close>

definition TRACKING_EXACT :: "pystr list" where
  "TRACKING_EXACT = [''fbclid'', ''gclid'', ''yclid'', ''openstat'', ''_openstat'', ''igshid'', ''mc_cid'', ''mc_eid'', ''mkt_tok'',
     ''si'', ''spm'', ''ved'', ''gs_lcp'', ''ref'', ''referrer'', ''fb_action_ids'', ''fb_action_types'', ''fb_source'']"

definition TRACKING_PREFIXES :: "pystr list" where
  "TRACKING_PREFIXES = [''utm_'', ''openstat_'']"

text \<open>
  \<open>key.lower()\<close> on UTF-8 bytes, as far as it can yield ASCII letters: those of ASCII, and
  the Kelvin sign, whose lower case is \<open>k\<close>.
\<close>

fun key_lower :: "string \<Rightarrow> string" where
  "key_lower [] = []"
| "key_lower (c # s) =
    (if take 3 (c # s) = [CHR 0xE2, CHR 0x84, CHR 0xAA] then CHR ''k'' # key_lower (drop 2 s)
     else (let n = of_char c :: nat in if 65 \<le> n \<and> n \<le> 90 then char_of (n + 32) else c) # key_lower s)"

definition should_drop_query_key :: "string \<Rightarrow> bool" where
  "should_drop_query_key key =
    (let lk = key_lower key in lk \<in> set TRACKING_EXACT \<or> list_ex (\<lambda>p. starts_with p lk) TRACKING_PREFIXES)"

definition kept_query :: "pystr \<Rightarrow> pystr" where
  "kept_query q = urlencode (filter (\<lambda>(k, v). k \<noteq> [] \<and> \<not> should_drop_query_key k) (parse_qsl q))"

section \<open>Parameters of the path\<close>

text \<open>\<open>urlparse\<close> and \<open>urlunparse\<close> set the parameters of the last path segment apart and put them back.\<close>

definition params_of :: "url_parts \<Rightarrow> pystr" where
  "params_of u = (if up_scheme u \<in> set uses_params \<and> CHR '';'' \<in> set (up_path u)
     then drop (Suc (length (drop_params (up_path u)))) (up_path u) else [])"

definition path_of :: "url_parts \<Rightarrow> pystr" where
  "path_of u = (if up_scheme u \<in> set uses_params then drop_params (up_path u) else up_path u)"

definition urlunparse :: "url_parts \<Rightarrow> pystr \<Rightarrow> pystr" where
  "urlunparse u params = urlunsplit5 (if params \<noteq> [] then u\<lparr>up_path := up_path u @ CHR '';'' # params\<rparr> else u)"

section \<open>The steps of the canonical form\<close>

definition strip_tracking_params :: "pystr \<Rightarrow> exc + pystr" where
  "strip_tracking_params url = (case urlsplit5 (strip url) of
       Inl x \<Rightarrow> Inl x
     | Inr u \<Rightarrow> (if up_query u = [] then Inr (strip url)
         else Inr (urlunparse (u\<lparr>up_path := path_of u, up_query := kept_query (up_query u)\<rparr>) (params_of u))))"

definition normalize_trailing_slash :: "pystr \<Rightarrow> exc + pystr" where
  "normalize_trailing_slash url = (case urlsplit5 url of
       Inl x \<Rightarrow> Inl x
     | Inr u \<Rightarrow>
        (let path = path_of u;
             path' = (if length path > 1 \<and> last path = CHR ''/'' then rstrip_slash path else path)
         in Inr (urlunparse (u\<lparr>up_path := path'\<rparr>) (params_of u))))"

text \<open>
  The second test of the code, \<open>host.startswith("m.")\<close> with two dots, never holds where
  the first one fails.
\<close>

definition normalize_mobile_host :: "pystr \<Rightarrow> exc + pystr" where
  "normalize_mobile_host url = (case urlsplit5 url of
       Inl x \<Rightarrow> Inl x
     | Inr u \<Rightarrow>
        (let host = lower (up_netloc u); parts = split_on (CHR ''.'') host;
             moved = (\<lambda>h. Inr (urlunparse (u\<lparr>up_netloc := h, up_path := path_of u\<rparr>) (params_of u)))
         in if host = [] then Inr url
            else if length parts \<ge> 3 \<and> hd parts \<in> {''m'', ''mobile'', ''touch''} then moved (join_text ''.'' (tl parts))
            else if starts_with ''m.'' host \<and> length (filter (\<lambda>c. c = CHR ''.'') host) \<ge> 2 then moved (drop 2 host)
            else Inr url))"

definition canonicalize_crawl_url :: "pystr \<Rightarrow> exc + pystr" where
  "canonicalize_crawl_url url = (case normalize_mobile_host (strip url) of
       Inl x \<Rightarrow> Inl x
     | Inr w \<Rightarrow>
        (case urlsplit5 w of
           Inl x \<Rightarrow> Inl x
         | Inr u \<Rightarrow>
            (let v = u\<lparr>up_scheme := (if up_scheme u = [] then ''https'' else lower (up_scheme u)), up_netloc := lower (up_netloc u),
                     up_path := (if path_of u = [] then ''/'' else path_of u)\<rparr>
             in case strip_tracking_params (urlunsplit5 v) of
                  Inl x \<Rightarrow> Inl x
                | Inr w' \<Rightarrow> normalize_trailing_slash w')))"

definition is_same_product_url :: "pystr \<Rightarrow> pystr \<Rightarrow> exc + bool" where
  "is_same_product_url a b = (case canonicalize_crawl_url a of
       Inl x \<Rightarrow> Inl x
     | Inr ca \<Rightarrow> (case canonicalize_crawl_url b of Inl x \<Rightarrow> Inl x | Inr cb \<Rightarrow> Inr (ca = cb)))"

section \<open>Page numbers\<close>

text \<open>
  \<open>dict\<close> of the pairs, \<open>raw.isdigit()\<close> and \<open>int(raw)\<close>.  A superscript digit is a digit
  for the former and none for the latter, which raises; other digits than those of ASCII
  lie above the code points of the model and count as no digits.
\<close>

definition query_dict :: "pystr \<Rightarrow> (string, string) odict" where
  "query_dict q = foldl (\<lambda>d (k, v). od_set k v d) [] (parse_qsl q)"

definition point_digit :: "nat \<Rightarrow> bool" where
  "point_digit n = ((48 \<le> n \<and> n \<le> 57) \<or> n = 178 \<or> n = 179 \<or> n = 185)"

definition int_of_points :: "nat list \<Rightarrow> exc + int" where
  "int_of_points ps = (if \<exists>n\<in>set ps. n > 57 then Inl (ValueError ''invalid literal for int() with base 10'')
     else Inr (int (foldl (\<lambda>acc n. 10 * acc + (n - 48)) 0 ps)))"

definition common_page_number :: "pystr \<Rightarrow> pystr \<Rightarrow> exc + int" where
  "common_page_number page_param url = (case urlsplit5 url of
       Inl x \<Rightarrow> Inl x
     | Inr u \<Rightarrow>
        (let raw = strip_points (code_points (case od_get (utf8 page_param) (query_dict (up_query u)) of None \<Rightarrow> [] | Some v \<Rightarrow> v))
         in if raw \<noteq> [] \<and> list_all point_digit raw then int_of_points raw else Inr 1))"

definition build_common_paginated_url :: "pystr \<Rightarrow> pystr \<Rightarrow> int \<Rightarrow> exc + pystr" where
  "build_common_paginated_url page_param url page = (case urlsplit5 url of
       Inl x \<Rightarrow> Inl x
     | Inr u \<Rightarrow> Inr (urlunsplit5 (u\<lparr>up_query := urlencode (od_set (utf8 page_param) (int_text page) (query_dict (up_query u)))\<rparr>)))"

end
