(* ===== verification/Crawl_Registry.thy ===== *)
theory Crawl_Registry imports Bounded_Cache Url_Tools begin

text \<open>
  \<^verbatim>\<open>infrastructure/spiders/runtime_crawl_registry.py\<close>: what one spider run remembers of the pages
  and products it has met, in bounded ordered dictionaries, and its counters.
\<close>

record crawl_registry =
  cr_store :: pystr
  cr_products :: "(pystr, bool) odict"
  cr_source_ids :: "(pystr, bool) odict"
  cr_signatures :: "(pystr, bool) odict"
  cr_listing_urls :: "(pystr, bool) odict"
  cr_zero_categories :: "pystr set"
  cr_categories_with_results :: "pystr set"
  cr_listing_counts :: "(pystr, nat) odict"
  categories_started_total :: nat
  listing_cards_seen_total :: nat
  categories_zero_result_total :: nat
  listing_pages_seen_total :: nat
  listing_pages_duplicated_total :: nat
  product_urls_seen_total :: nat
  product_urls_deduped_total :: nat
  product_pages_seen_total :: nat
  product_parse_partial_total :: nat
  product_parse_failed_total :: nat
  product_items_yielded_total :: nat
  pagination_depth_max :: int
  products_with_specs_total :: nat
  products_without_specs_total :: nat
  products_with_images_total :: nat
  products_without_images_total :: nat
  edge_case_counts :: "(pystr, nat) odict"
  banned_responses_total :: nat
  pagination_loops_detected :: nat
  required_field_presence_hits :: nat
  required_field_presence_misses :: nat

definition new_crawl_registry :: "pystr \<Rightarrow> crawl_registry" where
  "new_crawl_registry store = \<lparr> cr_store = store, cr_products = [], cr_source_ids = [], cr_signatures = [], cr_listing_urls = [],
     cr_zero_categories = {}, cr_categories_with_results = {}, cr_listing_counts = [], categories_started_total = 0,
     listing_cards_seen_total = 0, categories_zero_result_total = 0, listing_pages_seen_total = 0,
     listing_pages_duplicated_total = 0, product_urls_seen_total = 0, product_urls_deduped_total = 0,
     product_pages_seen_total = 0, product_parse_partial_total = 0, product_parse_failed_total = 0,
     product_items_yielded_total = 0, pagination_depth_max = 0, products_with_specs_total = 0,
     products_without_specs_total = 0, products_with_images_total = 0, products_without_images_total = 0,
     edge_case_counts = [], banned_responses_total = 0, pagination_loops_detected = 0,
     required_field_presence_hits = 0, required_field_presence_misses = 0 \<rparr>"

text \<open>Seen: moved to the end if known, added otherwise, then trimmed to the limit.\<close>

definition od_seen :: "int \<Rightarrow> pystr \<Rightarrow> (pystr, bool) odict \<Rightarrow> (pystr, bool) odict" where
  "od_seen max_n u d = od_limit max_n (if od_get u d \<noteq> None then od_move_to_end u d else od_set u True d)"

definition remember_product_url :: "int \<Rightarrow> pystr \<Rightarrow> crawl_registry \<Rightarrow> crawl_registry" where
  "remember_product_url max_n u r = r\<lparr>cr_products := od_seen max_n u (cr_products r)\<rparr>"

definition has_product_url :: "pystr \<Rightarrow> crawl_registry \<Rightarrow> bool" where
  "has_product_url u r = (od_get u (cr_products r) \<noteq> None)"

definition source_key :: "crawl_registry \<Rightarrow> pystr \<Rightarrow> pystr" where
  "source_key r source_id = cr_store r @ '':'' @ source_id"

definition remember_source_id :: "int \<Rightarrow> pystr \<Rightarrow> crawl_registry \<Rightarrow> crawl_registry" where
  "remember_source_id max_n source_id r =
    (if source_id = [] then r else r\<lparr>cr_source_ids := od_seen max_n (source_key r source_id) (cr_source_ids r)\<rparr>)"

definition has_source_id :: "pystr \<Rightarrow> crawl_registry \<Rightarrow> bool" where
  "has_source_id source_id r = (source_id \<noteq> [] \<and> od_get (source_key r source_id) (cr_source_ids r) \<noteq> None)"

definition remember_listing_signature :: "int \<Rightarrow> pystr \<Rightarrow> crawl_registry \<Rightarrow> crawl_registry" where
  "remember_listing_signature max_n sig r = r\<lparr>cr_signatures := od_seen max_n sig (cr_signatures r)\<rparr>"

definition has_listing_signature :: "pystr \<Rightarrow> crawl_registry \<Rightarrow> bool" where
  "has_listing_signature sig r = (od_get sig (cr_signatures r) \<noteq> None)"

definition remember_listing_page_url :: "int \<Rightarrow> pystr \<Rightarrow> crawl_registry \<Rightarrow> crawl_registry" where
  "remember_listing_page_url max_n u r = r\<lparr>cr_listing_urls := od_seen max_n u (cr_listing_urls r)\<rparr>"

definition has_listing_page_url :: "pystr \<Rightarrow> crawl_registry \<Rightarrow> bool" where
  "has_listing_page_url u r = (od_get u (cr_listing_urls r) \<noteq> None)"

definition record_zero_result_category :: "pystr \<Rightarrow> crawl_registry \<Rightarrow> crawl_registry" where
  "record_zero_result_category u r = r\<lparr>cr_zero_categories := insert u (cr_zero_categories r),
     categories_zero_result_total := categories_zero_result_total r + 1\<rparr>"

definition record_category_with_results :: "pystr \<Rightarrow> crawl_registry \<Rightarrow> crawl_registry" where
  "record_category_with_results u r = (if u = [] then r else r\<lparr>cr_categories_with_results := insert u (cr_categories_with_results r)\<rparr>)"

definition record_listing_stats :: "int \<Rightarrow> pystr \<Rightarrow> nat \<Rightarrow> crawl_registry \<Rightarrow> crawl_registry" where
  "record_listing_stats max_n u found r = r\<lparr>cr_listing_counts := od_limit max_n (od_move_to_end u (od_set u found (cr_listing_counts r)))\<rparr>"

definition note_pagination_depth :: "int \<Rightarrow> crawl_registry \<Rightarrow> crawl_registry" where
  "note_pagination_depth page r = (if page > pagination_depth_max r then r\<lparr>pagination_depth_max := page\<rparr> else r)"

definition note_edge_cases :: "pystr list \<Rightarrow> crawl_registry \<Rightarrow> crawl_registry" where
  "note_edge_cases tags r = r\<lparr>edge_case_counts := foldl (\<lambda>d t. if t = [] then d
       else od_set t ((case od_get t d of None \<Rightarrow> 0 | Some n \<Rightarrow> n) + 1) d) (edge_case_counts r) tags\<rparr>"

definition note_banned_response :: "crawl_registry \<Rightarrow> crawl_registry" where
  "note_banned_response r = r\<lparr>banned_responses_total := banned_responses_total r + 1\<rparr>"

definition note_pagination_loop :: "crawl_registry \<Rightarrow> crawl_registry" where
  "note_pagination_loop r = r\<lparr>pagination_loops_detected := pagination_loops_detected r + 1\<rparr>"

definition note_product_asset_coverage :: "bool \<Rightarrow> bool \<Rightarrow> crawl_registry \<Rightarrow> crawl_registry" where
  "note_product_asset_coverage has_specs has_images r =
    (let r1 = (if has_specs then r\<lparr>products_with_specs_total := products_with_specs_total r + 1\<rparr>
               else r\<lparr>products_without_specs_total := products_without_specs_total r + 1\<rparr>)
     in if has_images then r1\<lparr>products_with_images_total := products_with_images_total r1 + 1\<rparr>
        else r1\<lparr>products_without_images_total := products_without_images_total r1 + 1\<rparr>)"

text \<open>The derived figures of \<open>snapshot_metrics\<close>; the others are the counters themselves.\<close>

record crawl_figures =
  fg_categories_with_results_total :: nat
  fg_pages_visited_total :: nat
  fg_zero_result_categories_count :: nat
  fg_spec_coverage_ratio :: rat
  fg_image_coverage_ratio :: rat

definition ratio :: "nat \<Rightarrow> nat \<Rightarrow> rat" where
  "ratio part whole = (if whole = 0 then 0 else of_nat part / of_nat whole)"

definition snapshot_figures :: "crawl_registry \<Rightarrow> crawl_figures" where
  "snapshot_figures r = \<lparr> fg_categories_with_results_total = card (cr_categories_with_results r),
     fg_pages_visited_total = listing_pages_seen_total r + product_pages_seen_total r,
     fg_zero_result_categories_count = card (cr_zero_categories r),
     fg_spec_coverage_ratio = ratio (products_with_specs_total r) (products_with_specs_total r + products_without_specs_total r),
     fg_image_coverage_ratio = ratio (products_with_images_total r) (products_with_images_total r + products_without_images_total r) \<rparr>"

section \<open>Memory\<close>

text \<open>Remembering is touching: the bounded memory keeps the most recent keys.\<close>

lemma od_set_absent: "od_get k d = None \<Longrightarrow> od_set k v d = d @ [(k, v)]"
  by (induction d) (auto simp: od_get_def)

lemma od_keys_seen:
  assumes "od_keys d = recent m ks"
  shows "od_keys (od_seen m u d) = recent m (ks @ [u])"
proof -
  have dist: "distinct (od_keys d)" using assms by (simp add: recent_def Let_def)
  have "od_keys (if od_get u d \<noteq> None then od_move_to_end u d else od_set u True d) = od_keys (od_touch u True d)"
  proof (cases "od_get u d")
    case None
    then have "u \<notin> set (od_keys d)" by (simp add: set_od_keys)
    with None show ?thesis by (simp add: od_keys_touch [OF dist] od_set_absent filter_neq_absent) (simp add: od_keys_def)
  next
    case (Some v)
    then have "u \<in> set (od_keys d)" by (simp add: set_od_keys)
    with Some show ?thesis by (simp add: od_keys_touch [OF dist] od_keys_move_to_end_last [OF dist])
  qed
  then have "od_keys (od_seen m u d) = od_keys (od_limit m (od_touch u True d))" by (simp add: od_seen_def od_keys_limit)
  with recent_step [OF assms] show ?thesis by simp
qed

lemma ratio_bounds: "0 \<le> ratio a (a + b) \<and> ratio a (a + b) \<le> 1"
  by (simp add: ratio_def)

end
