(* ===== verification/Network_Policy.thy ===== *)
theory Network_Policy imports Fingerprints Ip_Address begin

text \<open>
  \<^verbatim>\<open>infrastructure/security\<close>: which hosts the program may talk to
  (\<^verbatim>\<open>outbound_policy.py\<close>), the guard against forged requests (\<^verbatim>\<open>ssrf_guard.py\<close>), redirects
  (\<^verbatim>\<open>redirect_guard.py\<close>) and proxies (\<^verbatim>\<open>proxy_security.py\<close>).  Resolving a relative redirect
  (\<open>urljoin\<close>) and classifying an IPv6 literal are arguments of the model.
\<close>

section \<open>Settings and decisions\<close>

text \<open>
  \<open>np_ip6\<close> says of a text whether \<open>ipaddress\<close> reads it as an IPv6 address and, if so,
  whether that is a loopback, private, link-local or reserved one.
\<close>

record net_settings =
  NETWORK_SECURITY_MODE :: pystr
  ENABLE_OUTBOUND_HOST_ALLOWLIST :: bool
  ENABLE_PRIVATE_IP_BLOCK :: bool
  ENABLE_LOCALHOST_BLOCK :: bool
  ENABLE_FILE_SCHEME_BLOCK :: bool
  ENABLE_UNSAFE_SCHEME_BLOCK :: bool
  ENABLE_REDIRECT_HOST_VALIDATION :: bool
  MAX_REDIRECT_HOPS :: int
  ENABLE_BROWSER_SAME_ORIGIN_GUARD :: bool
  ENABLE_PROXY_HOST_VALIDATION :: bool
  ENABLE_STORE_HOST_PINNING :: bool
  ENABLE_CRM_HOST_PINNING :: bool
  ALLOWED_STORE_HOSTS :: "pystr list"
  ALLOWED_CRM_HOSTS :: "pystr list"
  ALLOWED_PROXY_HOSTS :: "pystr list"
  BLOCK_PRIVATE_NETWORK_RANGES :: bool
  BLOCK_METADATA_IPS :: bool
  CRM_BASE_URL :: pystr
  np_ip6 :: "pystr \<Rightarrow> bool option"
  np_urljoin :: "pystr \<Rightarrow> pystr \<Rightarrow> pystr"

datatype target_type = Store_target | Crm_target | Proxy_target | Unknown_target

record host_decision =
  hv_allowed :: bool
  hv_target_type :: target_type
  hv_host :: pystr
  hv_reason :: "pystr option"
  hv_matched_rule :: "pystr option"

record redirect_decision =
  re_allowed :: bool
  re_from_url :: pystr
  re_to_url :: pystr
  re_reason :: "pystr option"
  re_same_site :: bool

record proxy_decision =
  px_allowed :: bool
  px_masked :: "pystr option"
  px_reason :: "pystr option"

definition UNSAFE_SCHEMES :: "pystr list" where
  "UNSAFE_SCHEMES = [''file'', ''ftp'', ''ftps'', ''gopher'', ''ws'', ''wss'', ''javascript'', ''data'', ''vbscript'']"

definition LOCAL_HOSTNAMES :: "pystr list" where
  "LOCAL_HOSTNAMES = [''localhost'', ''127.0.0.1'', ''0.0.0.0'', ''::1'', ''0000:0000:0000:0000:0000:0000:0000:0001'']"

definition METADATA_IPV4 :: "pystr list" where
  "METADATA_IPV4 = [''169.254.169.254'']"

definition METADATA_HOSTS :: "pystr list" where
  "METADATA_HOSTS = [''metadata.google.internal'', ''metadata.goog'']"

definition SUSPICIOUS_HOST_SUFFIXES :: "pystr list" where
  "SUSPICIOUS_HOST_SUFFIXES = [''.local'', ''.internal'', ''.corp'', ''.lan'']"

section \<open>URLs\<close>

text \<open>\<open>s.rpartition(c)\<close> as what precedes the last \<open>c\<close>, if there is one, and what follows it.\<close>

definition rpartition :: "char \<Rightarrow> pystr \<Rightarrow> pystr option \<times> pystr" where
  "rpartition c s = (let r = rev s; tail = rev (takeWhile (\<lambda>x. x \<noteq> c) r) in
     case dropWhile (\<lambda>x. x \<noteq> c) r of [] \<Rightarrow> (None, tail) | x # h \<Rightarrow> (Some (rev h), tail))"

definition before :: "char \<Rightarrow> pystr \<Rightarrow> pystr" where
  "before c s = takeWhile (\<lambda>x. x \<noteq> c) s"

definition after :: "char \<Rightarrow> pystr \<Rightarrow> pystr" where
  "after c s = tl (dropWhile (\<lambda>x. x \<noteq> c) s)"

text \<open>The \<open>hostname\<close> of a location: without user, port and brackets, in lower case; empty for none.\<close>

definition hostname_of :: "pystr \<Rightarrow> pystr" where
  "hostname_of netloc =
    (let hostinfo = snd (rpartition (CHR ''@'') netloc) in
     lower (if CHR ''['' \<in> set hostinfo then before (CHR '']'') (after (CHR ''['') hostinfo)
            else before (CHR '':'') hostinfo))"

text \<open>Whether the location names a user or a password.\<close>

definition has_userinfo :: "pystr \<Rightarrow> bool" where
  "has_userinfo netloc = (case fst (rpartition (CHR ''@'') netloc) of None \<Rightarrow> False
     | Some u \<Rightarrow> before (CHR '':'') u \<noteq> [] \<or> after (CHR '':'') u \<noteq> [])"

text \<open>
  \<open>urlparse\<close>: scheme and location, or \<^const>\<open>None\<close> where it raises, which it also does for
  brackets around anything but an IPv6 address.
\<close>

definition urlparse :: "net_settings \<Rightarrow> pystr \<Rightarrow> (pystr \<times> pystr) option" where
  "urlparse c url = (case urlsplit url of
       Inl x \<Rightarrow> None
     | Inr (scheme, netloc, path) \<Rightarrow>
        (if CHR ''['' \<in> set netloc \<and> np_ip6 c (before (CHR '']'') (after (CHR ''['') netloc)) = None then None
         else Some (scheme, netloc)))"

text \<open>\<open>url if "://" in url else f"https://{url}"\<close>\<close>

definition with_scheme :: "pystr \<Rightarrow> pystr" where
  "with_scheme url = (if contains ''://'' url then url else ''https://'' @ url)"

section \<open>Hosts\<close>

definition rstrip_dot :: "pystr \<Rightarrow> pystr" where
  "rstrip_dot s = rev (dropWhile (\<lambda>c. c = CHR ''.'') (rev s))"

definition norm_host :: "pystr \<Rightarrow> pystr" where
  "norm_host host = rstrip_dot (lower (strip host))"

definition network_mode :: "net_settings \<Rightarrow> pystr" where
  "network_mode c = (if NETWORK_SECURITY_MODE c = [] then ''restricted'' else lower (strip (NETWORK_SECURITY_MODE c)))"

definition is_host_allowed :: "pystr \<Rightarrow> pystr list \<Rightarrow> bool" where
  "is_host_allowed host allowed =
    (let h = norm_host host in
     h \<noteq> [] \<and> list_ex (\<lambda>raw. let a = norm_host raw in a \<noteq> [] \<and> (h = a \<or> ends_with (''.'' @ a) h)) allowed)"

definition url_host :: "net_settings \<Rightarrow> pystr \<Rightarrow> pystr option" where
  "url_host c url = map_option (\<lambda>(scheme, netloc). norm_host (hostname_of netloc)) (urlparse c (with_scheme url))"

definition crm_configured_hosts :: "net_settings \<Rightarrow> pystr list" where
  "crm_configured_hosts c =
    (if ALLOWED_CRM_HOSTS c \<noteq> [] then filter (\<lambda>h. h \<noteq> []) (map strip (ALLOWED_CRM_HOSTS c))
     else if ENABLE_CRM_HOST_PINNING c
     then (case url_host c (CRM_BASE_URL c) of None \<Rightarrow> [] | Some h \<Rightarrow> if h = [] then [] else [h])
     else [])"

text \<open>The text of four runs of at most three digits, which need not be an address.\<close>

definition looks_like_ip4 :: "pystr \<Rightarrow> bool" where
  "looks_like_ip4 h = (let parts = split_on (CHR ''.'') h in
     length parts = 4 \<and> list_all (\<lambda>p. p \<noteq> [] \<and> length p \<le> 3 \<and> list_all is_digit p) parts)"

definition is_private_or_local_address :: "net_settings \<Rightarrow> pystr \<Rightarrow> bool" where
  "is_private_or_local_address c host =
    (let h = norm_host host in
     if h = [] then True
     else if h \<in> set LOCAL_HOSTNAMES then True
     else if h \<in> set METADATA_HOSTS \<or> h \<in> set METADATA_IPV4 then True
     else if (case ip4_of h of
           Some w \<Rightarrow> ip4_internal w \<or> (BLOCK_METADATA_IPS c \<and> ip4_text w \<in> set METADATA_IPV4)
         | None \<Rightarrow> np_ip6 c h = Some True)
     then True
     else if BLOCK_PRIVATE_NETWORK_RANGES c \<and> looks_like_ip4 h
     then (case ip4_of h of Some w \<Rightarrow> ip4_private w \<or> ip4_loopback w \<or> ip4_link_local w | None \<Rightarrow> False)
     else False)"

definition is_blocked_scheme :: "net_settings \<Rightarrow> pystr \<Rightarrow> bool" where
  "is_blocked_scheme c url = (case urlparse c (strip url) of
       None \<Rightarrow> True
     | Some (s, netloc) \<Rightarrow>
        (let scheme = strip (lower s) in
         if scheme = [] then False
         else if scheme = ''http'' \<or> scheme = ''https'' then False
         else if ENABLE_FILE_SCHEME_BLOCK c \<and> scheme = ''file'' then True
         else if ENABLE_UNSAFE_SCHEME_BLOCK c \<and> scheme \<in> set UNSAFE_SCHEMES then True
         else scheme \<noteq> ''http'' \<and> scheme \<noteq> ''https''))"

definition classify_target_type :: "net_settings \<Rightarrow> pystr \<Rightarrow> target_type" where
  "classify_target_type c url = (case url_host c url of
       None \<Rightarrow> Unknown_target
     | Some host \<Rightarrow>
        (if host = [] then Unknown_target
         else if is_host_allowed host (crm_configured_hosts c) then Crm_target
         else if is_host_allowed host (ALLOWED_STORE_HOSTS c) then Store_target
         else if is_host_allowed host (ALLOWED_PROXY_HOSTS c) then Proxy_target
         else Unknown_target))"

definition decided_host :: "bool \<Rightarrow> target_type \<Rightarrow> pystr \<Rightarrow> pystr option \<Rightarrow> pystr option \<Rightarrow> host_decision" where
  "decided_host ok t host reason rule =
    \<lparr> hv_allowed = ok, hv_target_type = t, hv_host = host, hv_reason = reason, hv_matched_rule = rule \<rparr>"

definition validate_outbound_url :: "net_settings \<Rightarrow> pystr \<Rightarrow> host_decision" where
  "validate_outbound_url c url =
    (let raw = strip url; no = (\<lambda>host reason rule. decided_host False Unknown_target host (Some reason) (Some rule)) in
     if raw = [] then no [] ''empty_url'' ''empty''
     else if is_blocked_scheme c raw then no [] ''blocked_or_unsafe_scheme'' ''scheme_block''
     else (case url_host c raw of
       None \<Rightarrow> no [] ''malformed_url'' ''parse_error''
     | Some host \<Rightarrow>
        (if host = [] then no [] ''missing_host'' ''no_host''
         else if ENABLE_LOCALHOST_BLOCK c \<and> (host \<in> set LOCAL_HOSTNAMES \<or> starts_with ''127.'' host \<or> host = ''0.0.0.0'')
         then no host ''localhost_blocked'' ''localhost''
         else if ENABLE_PRIVATE_IP_BLOCK c \<and> is_private_or_local_address c host
         then no host ''private_or_metadata_host'' ''private_ip''
         else if list_ex (\<lambda>suf. ends_with suf host) SUSPICIOUS_HOST_SUFFIXES \<and> NETWORK_SECURITY_MODE c = ''restricted''
         then no host ''suspicious_internal_suffix'' ''internal_suffix''
         else (case classify_target_type c raw of
           Crm_target \<Rightarrow>
             (if ENABLE_CRM_HOST_PINNING c
              then (let ok = is_host_allowed host (crm_configured_hosts c) in
                decided_host ok Crm_target host (if ok then None else Some ''crm_host_not_pinned'')
                  (if ok then Some ''crm_allowlist'' else None))
              else decided_host True Crm_target host None (Some ''crm_open''))
         | Store_target \<Rightarrow>
             (if ENABLE_STORE_HOST_PINNING c \<and> ENABLE_OUTBOUND_HOST_ALLOWLIST c
              then (let ok = is_host_allowed host (ALLOWED_STORE_HOSTS c) in
                decided_host ok Store_target host (if ok then None else Some ''store_host_not_allowlisted'')
                  (if ok then Some ''store_allowlist'' else None))
              else decided_host True Store_target host None (Some ''store_open''))
         | Proxy_target \<Rightarrow> decided_host True Proxy_target host None (Some ''proxy_allowlist'')
         | Unknown_target \<Rightarrow>
             (if network_mode c = ''open'' then decided_host True Unknown_target host None (Some ''open_mode'')
              else no host ''unknown_host_restricted_mode'' ''restricted_unknown'')))))"

definition validate_store_crawl_url :: "net_settings \<Rightarrow> pystr \<Rightarrow> host_decision" where
  "validate_store_crawl_url c url =
    (let d = validate_outbound_url c url in
     if \<not> hv_allowed d then d
     else if hv_target_type d = Store_target then d
     else if hv_target_type d = Unknown_target \<and> network_mode c = ''open'' then d
     else if hv_target_type d = Crm_target \<or> hv_target_type d = Proxy_target
     then decided_host False (hv_target_type d) (hv_host d) (Some ''store_crawl_target_must_be_store_host'') (Some ''wrong_target_type'')
     else d)"

section \<open>Forged requests\<close>

definition is_control :: "char \<Rightarrow> bool" where
  "is_control c = (let n = of_char c :: nat in n < 32 \<or> n = 127)"

definition reject_if_suspicious_url :: "net_settings \<Rightarrow> pystr \<Rightarrow> bool" where
  "reject_if_suspicious_url c url =
    (let raw = strip url in
     if raw = [] then True
     else if contains [CHR 0x5C, CHR 0x5C] raw then True
     else if starts_with ''//'' raw then True
     else if list_ex is_control raw then True
     else (case urlparse c (with_scheme raw) of
         None \<Rightarrow> True
       | Some (scheme, netloc) \<Rightarrow> has_userinfo netloc \<or> contains ''%00'' (lower raw)))"

definition reject_if_internal_target :: "net_settings \<Rightarrow> pystr \<Rightarrow> bool" where
  "reject_if_internal_target c url = (case url_host c url of
       None \<Rightarrow> True
     | Some host \<Rightarrow> host = [] \<or> is_private_or_local_address c host)"

text \<open>The host reported with a rejection is parsed once more, outside any \<open>try\<close>.\<close>

definition normalize_and_validate_url :: "net_settings \<Rightarrow> pystr \<Rightarrow> exc + host_decision" where
  "normalize_and_validate_url c url =
    (if reject_if_suspicious_url c url
     then (case (if url = [] then Some ([], []) else urlparse c url) of
         None \<Rightarrow> Inl (ValueError ''Invalid URL'')
       | Some (scheme, netloc) \<Rightarrow> Inr (decided_host False Unknown_target (norm_host (hostname_of netloc))
           (Some ''suspicious_or_malformed_url'') (Some ''ssrf_suspicious'')))
     else if is_blocked_scheme c url
     then Inr (decided_host False Unknown_target [] (Some ''blocked_scheme'') (Some ''ssrf_scheme''))
     else if reject_if_internal_target c url
     then (case url_host c url of
         None \<Rightarrow> Inl (ValueError ''Invalid URL'')
       | Some host \<Rightarrow> Inr (decided_host False Unknown_target host (Some ''internal_target'') (Some ''ssrf_internal'')))
     else Inr (validate_outbound_url c url))"

section \<open>Redirects\<close>

definition redirect :: "bool \<Rightarrow> pystr \<Rightarrow> pystr \<Rightarrow> pystr option \<Rightarrow> bool \<Rightarrow> redirect_decision" where
  "redirect ok f t reason same =
    \<lparr> re_allowed = ok, re_from_url = f, re_to_url = t, re_reason = reason, re_same_site = same \<rparr>"

definition count_redirect_hops :: "pystr list \<Rightarrow> int" where
  "count_redirect_hops chain = max 0 (int (length chain) - 1)"

definition can_follow_redirect :: "net_settings \<Rightarrow> pystr \<Rightarrow> pystr \<Rightarrow> redirect_decision" where
  "can_follow_redirect c from_url to_url =
    (if \<not> ENABLE_REDIRECT_HOST_VALIDATION c
     then (let same = (case (urlparse c from_url, urlparse c to_url) of
           (Some (s1, n1), Some (s2, n2)) \<Rightarrow> norm_host n1 = norm_host n2 | _ \<Rightarrow> False)
       in redirect True from_url to_url None same)
     else
      (let resolved = (if to_url \<noteq> [] then np_urljoin c from_url to_url else from_url) in
       case (urlparse c from_url, urlparse c resolved) of
         (Some (s1, n1), Some (s2, n2)) \<Rightarrow>
          (let h_from = norm_host (hostname_of n1); h_to = norm_host (hostname_of n2);
               same = (h_from = h_to \<or> ends_with (''.'' @ h_from) h_to \<or> ends_with (''.'' @ h_to) h_from);
               d_to = validate_outbound_url c resolved; d_from = validate_outbound_url c from_url;
               refuse = (\<lambda>reason. redirect False from_url resolved (Some reason) same)
           in if is_private_or_local_address c h_to
              then redirect False from_url resolved (Some ''redirect_to_private_or_local'') False
              else if \<not> hv_allowed d_to
              then refuse (if truthy (hv_reason d_to) then or_empty (hv_reason d_to) else ''redirect_target_rejected'')
              else if hv_target_type d_from = Crm_target \<and> hv_target_type d_to \<noteq> Crm_target
              then refuse ''crm_redirect_to_non_crm_host''
              else if hv_target_type d_from = Store_target \<and> hv_target_type d_to \<notin> {Store_target, Unknown_target}
              then refuse ''store_redirect_to_non_store''
              else if hv_target_type d_from = Store_target \<and> hv_target_type d_to = Unknown_target \<and> network_mode c = ''restricted''
              then refuse ''store_redirect_to_unknown_in_restricted_mode''
              else redirect True from_url resolved None same)
       | _ \<Rightarrow> redirect False from_url to_url (Some ''redirect_parse_error'') False))"

text \<open>A setting of 0 hops is read as 5 (\<open>int(getattr(...) or 5)\<close>).\<close>

definition validate_redirect_chain :: "net_settings \<Rightarrow> pystr list \<Rightarrow> redirect_decision list" where
  "validate_redirect_chain c urls =
    (let max_hops = (if MAX_REDIRECT_HOPS c = 0 then 5 else MAX_REDIRECT_HOPS c) in
     if count_redirect_hops urls > max_hops
     then (if urls = [] then [] else [redirect False (hd urls) (last urls) (Some (''too_many_redirects>'' @ int_text max_hops)) False])
     else map2 (can_follow_redirect c) (butlast urls) (tl urls))"

section \<open>Proxies\<close>

text \<open>The port of a location; one that is not a number up to 65535 raises.\<close>

definition port_of :: "pystr \<Rightarrow> exc + int option" where
  "port_of netloc =
    (let hostinfo = snd (rpartition (CHR ''@'') netloc);
         rest = (if CHR ''['' \<in> set hostinfo then after (CHR '']'') (after (CHR ''['') hostinfo) else hostinfo);
         port = after (CHR '':'') rest
     in if port = [] then Inr None
        else if \<not> list_all is_digit port then Inl (ValueError ''Port could not be cast to integer value'')
        else (let n = digits_value 0 port in
          if n > 65535 then Inl (ValueError ''Port out of range 0-65535'') else Inr (Some (int n))))"

definition proxy_with_scheme :: "pystr \<Rightarrow> pystr" where
  "proxy_with_scheme raw = (if contains ''://'' raw then raw else ''http://'' @ raw)"

definition mask_proxy_url :: "net_settings \<Rightarrow> pystr \<Rightarrow> exc + pystr" where
  "mask_proxy_url c proxy_url =
    (let raw = strip proxy_url in
     if raw = [] then Inr []
     else (case urlparse c (proxy_with_scheme raw) of
       None \<Rightarrow> Inr ''[invalid_proxy]''
     | Some (s, netloc) \<Rightarrow>
        (case port_of netloc of
           Inl x \<Rightarrow> Inl x
         | Inr p \<Rightarrow>
            (let port = (case p of None \<Rightarrow> [] | Some n \<Rightarrow> if n = 0 then [] else '':'' @ int_text n);
                 scheme = (if s = [] then ''http'' else s)
             in Inr (scheme @ ''://'' @ (if has_userinfo netloc then ''*:*@'' else []) @ hostname_of netloc @ port)))))"

definition is_proxy_host_allowed :: "net_settings \<Rightarrow> pystr \<Rightarrow> bool" where
  "is_proxy_host_allowed c proxy_url =
    (if \<not> ENABLE_PROXY_HOST_VALIDATION c then True
     else
      (let raw0 = strip proxy_url;
           raw = (if starts_with ''http://'' raw0 \<or> starts_with ''https://'' raw0 then raw0 else ''http://'' @ raw0) in
       if raw0 = [] then False
       else if is_blocked_scheme c raw then False
       else (case urlparse c raw of
           None \<Rightarrow> False
         | Some (s, netloc) \<Rightarrow>
            (let host = hostname_of netloc in
             if host = [] then False
             else if is_private_or_local_address c host then False
             else if ALLOWED_PROXY_HOSTS c = [] then True
             else is_host_allowed host (ALLOWED_PROXY_HOSTS c)))))"

definition validate_proxy_url :: "net_settings \<Rightarrow> pystr \<Rightarrow> exc + proxy_decision" where
  "validate_proxy_url c proxy_url =
    (let raw = strip proxy_url in
     if raw = [] then Inr \<lparr> px_allowed = False, px_masked = None, px_reason = Some ''empty_proxy_url'' \<rparr>
     else (case mask_proxy_url c raw of
       Inl x \<Rightarrow> Inl x
     | Inr masked \<Rightarrow>
        Inr (if is_proxy_host_allowed c raw then \<lparr> px_allowed = True, px_masked = Some masked, px_reason = None \<rparr>
             else \<lparr> px_allowed = False, px_masked = Some masked, px_reason = Some ''proxy_host_not_allowed'' \<rparr>)))"

definition should_allow_proxy_for_target :: "net_settings \<Rightarrow> pystr \<Rightarrow> pystr \<Rightarrow> exc + bool" where
  "should_allow_proxy_for_target c proxy_url target_url =
    (case validate_proxy_url c proxy_url of
       Inl x \<Rightarrow> Inl x
     | Inr pv \<Rightarrow>
        (let td = validate_outbound_url c target_url in
         Inr (px_allowed pv \<and> hv_allowed td \<and> hv_target_type td \<in> {Store_target, Unknown_target})))"

end
