(* ===== verification/Store_Profile.thy ===== *)
theory Store_Profile imports Rollout Network_Policy begin

text \<open>
  \<^verbatim>\<open>infrastructure/access/store_profiles.py\<close>: how each store may be fetched.  Also here: the
  settings of the access layer, and the context its functions share.
\<close>

section \<open>Profiles\<close>

datatype access_mode = Http_only | Http_with_proxy | Browser_required | Browser_fallback

datatype proxy_mode = Rotating | Sticky

record store_profile =
  sp_store_name :: pystr
  sp_mode :: access_mode
  sp_requires_proxy :: bool
  sp_supports_browser :: bool
  sp_ban_signals :: "pystr list"
  sp_empty_body_threshold :: nat
  sp_fallback_to_browser :: bool
  sp_fallback_to_proxy :: bool
  sp_jitter_enabled :: "bool option"
  sp_jitter_min_seconds :: "rat option"
  sp_jitter_max_seconds :: "rat option"
  sp_header_rotation_enabled :: "bool option"
  sp_header_profile_ids :: "pystr list option"
  sp_proxy_enabled :: "bool option"
  sp_proxy_pool_path :: "pystr option"
  sp_proxy_mode :: "proxy_mode option"
  sp_proxy_sticky_requests :: "int option"
  sp_proxy_cooldown_seconds :: "int option"
  sp_proxy_ban_score_threshold :: "int option"
  sp_proxy_max_consecutive_failures :: "int option"
  sp_honeypot_filter_enabled :: "bool option"

definition COMMON_BAN_SIGNALS :: "pystr list" where
  "COMMON_BAN_SIGNALS = [''captcha'', ''cloudflare_challenge'', ''access_denied'', ''js_shell'', ''empty_shell'',
     ''transport_like_error_page'']"

definition DEFAULT_PROFILE :: store_profile where
  "DEFAULT_PROFILE = \<lparr> sp_store_name = ''_default'', sp_mode = Browser_fallback, sp_requires_proxy = False,
     sp_supports_browser = True, sp_ban_signals = COMMON_BAN_SIGNALS, sp_empty_body_threshold = 256,
     sp_fallback_to_browser = True, sp_fallback_to_proxy = True, sp_jitter_enabled = None, sp_jitter_min_seconds = None,
     sp_jitter_max_seconds = None, sp_header_rotation_enabled = None, sp_header_profile_ids = None, sp_proxy_enabled = None, sp_proxy_pool_path = None, sp_proxy_mode = None,
     sp_proxy_sticky_requests = None, sp_proxy_cooldown_seconds = None, sp_proxy_ban_score_threshold = None,
     sp_proxy_max_consecutive_failures = None, sp_honeypot_filter_enabled = None \<rparr>"

definition PROFILES :: "(pystr, store_profile) odict" where
  "PROFILES =
    [(''mediapark'', DEFAULT_PROFILE\<lparr>sp_store_name := ''mediapark'', sp_empty_body_threshold := 400\<rparr>),
     (''uzum'', DEFAULT_PROFILE\<lparr>sp_store_name := ''uzum'', sp_fallback_to_proxy := False\<rparr>),
     (''texnomart'', DEFAULT_PROFILE\<lparr>sp_store_name := ''texnomart'', sp_empty_body_threshold := 320\<rparr>),
     (''alifshop'', DEFAULT_PROFILE\<lparr>sp_store_name := ''alifshop'', sp_mode := Http_only, sp_supports_browser := False,
        sp_empty_body_threshold := 320, sp_fallback_to_browser := False\<rparr>)]"

definition get_store_profile :: "pystr \<Rightarrow> store_profile" where
  "get_store_profile name =
    (let key = lower (strip name) in
     case od_get key PROFILES of
       Some p \<Rightarrow> p
     | None \<Rightarrow> DEFAULT_PROFILE\<lparr>sp_store_name := (if name \<noteq> [] then name else if key \<noteq> [] then key else ''unknown'')\<rparr>)"

section \<open>Settings and context\<close>

record access_settings =
  PROXY_LIST_PATH :: pystr
  SCRAPY_ROTATING_PROXY_ENABLED :: bool
  SCRAPY_ACCESS_SHELL_ESCALATE_AFTER :: int
  SCRAPY_BROWSER_FALLBACK_FAILURE_THRESHOLD :: int
  SCRAPY_PROXY_FALLBACK_FAILURE_THRESHOLD :: int
  SCRAPY_PROXY_POLICY_HARDENING_ENABLED :: bool
  SCRAPY_PROXY_POLICY_DEFAULT_MODE :: pystr
  SCRAPY_PROXY_STICKY_REQUESTS_DEFAULT :: int
  SCRAPY_PROXY_COOLDOWN_SECONDS_DEFAULT :: int
  SCRAPY_PROXY_BAN_SCORE_THRESHOLD :: int
  SCRAPY_PROXY_MAX_CONSECUTIVE_FAILURES :: int
  SCRAPY_CAPTCHA_HOOKS_ENABLED :: bool
  SCRAPY_CAPTCHA_SOLVER_BACKEND :: pystr
  SCRAPY_CAPTCHA_MAX_SOLVE_ATTEMPTS :: int
  SCRAPY_CAPTCHA_SUSPICIOUS_REDIRECT_ENABLED :: bool
  SCRAPY_HEADER_PROFILE_ROTATION_ENABLED :: bool
  SCRAPY_BAN_SIGNAL_MONITORING_ENABLED :: bool
  SCRAPY_BAN_SPIKE_WINDOW_SECONDS :: rat
  SCRAPY_BAN_SPIKE_THRESHOLD :: int
  SCRAPY_HONEYPOT_FILTER_ENABLED :: bool
  SCRAPY_HONEYPOT_FILTER_MAX_FILTER_RATIO :: rat
  SCRAPY_RANDOMIZED_DELAY_ENABLED :: bool
  SCRAPY_RANDOMIZED_DELAY_MIN_SECONDS :: rat
  SCRAPY_RANDOMIZED_DELAY_MAX_SECONDS :: rat
  SCRAPY_EXPLICIT_BACKOFF_ENABLED :: bool
  SCRAPY_EXPLICIT_BACKOFF_ENFORCE :: bool
  SCRAPY_EXPLICIT_BACKOFF_ENFORCE_STORES :: "pystr list"
  SCRAPY_RATE_LIMIT_HEADER_INTELLIGENCE_ENABLED :: bool
  SCRAPY_BACKOFF_BASE_SECONDS :: rat
  SCRAPY_BACKOFF_MAX_SECONDS :: rat
  SCRAPY_BACKOFF_COOLDOWN_MAX_SECONDS :: rat
  SCRAPY_BACKOFF_RESPECT_RETRY_AFTER :: bool
  SCRAPY_BACKOFF_429_STRICT :: bool

text \<open>What a path of a proxy list leads to: modification time and lines, as far as they can be read.\<close>

datatype proxy_file = No_file | Not_statable | Not_readable rat | Proxy_lines rat "pystr list"

record access_ctx =
  ax_settings :: access_settings
  ax_rollout :: rollout_settings
  ax_sha256 :: "pystr \<Rightarrow> pystr"
  ax_net :: net_settings
  ax_file :: "pystr \<Rightarrow> proxy_file"

definition feature_on :: "access_ctx \<Rightarrow> pystr \<Rightarrow> pystr \<Rightarrow> bool" where
  "feature_on k feature store = is_feature_enabled (ax_sha256 k) (ax_rollout k) feature (Some store) None"

lemma profile_of_store:
  "get_store_profile name \<in> set (map snd PROFILES) \<or> (\<exists>n. get_store_profile name = DEFAULT_PROFILE\<lparr>sp_store_name := n\<rparr>)"
proof (cases "od_get (lower (strip name)) PROFILES")
  case (Some p)
  then have "p \<in> snd ` set PROFILES" by (force simp: od_get_def dest: map_of_SomeD)
  with Some show ?thesis by (simp add: get_store_profile_def Let_def)
next
  case None
  then show ?thesis by (simp add: get_store_profile_def Let_def) blast
qed

lemma profile_facts [simp]:
  "sp_requires_proxy (get_store_profile name) = False"
  "sp_proxy_enabled (get_store_profile name) = None"
  "sp_mode (get_store_profile name) \<noteq> Browser_required"
  "sp_mode (get_store_profile name) \<noteq> Http_with_proxy"
  using profile_of_store [of name] by (auto simp: PROFILES_def DEFAULT_PROFILE_def)

end
