(* ===== verification/Honeypot_Filter.thy ===== *)
theory Honeypot_Filter imports Store_Profile Url_Query begin

text \<open>
  \<^verbatim>\<open>infrastructure/spiders/honeypot_filter.py\<close>: links that a page shows only to crawlers are
  dropped, unless that would drop most of them.  An anchor comes with its address and
  whether it or an element around it is hidden; \<open>response.urljoin\<close> is an argument.
\<close>

text \<open>A function that may raise, along a list.\<close>

fun map_exc :: "('a \<Rightarrow> exc + 'b) \<Rightarrow> 'a list \<Rightarrow> exc + 'b list" where
  "map_exc f [] = Inr []"
| "map_exc f (x # xs) = (case f x of
       Inl e \<Rightarrow> Inl e
     | Inr y \<Rightarrow> (case map_exc f xs of Inl e \<Rightarrow> Inl e | Inr ys \<Rightarrow> Inr (y # ys)))"

lemma map_exc_length: "map_exc f xs = Inr ys \<Longrightarrow> length ys = length xs"
  by (induction xs arbitrary: ys) (auto split: sum.splits)

record honeypot_result =
  hp_original_count :: nat
  hp_kept_count :: nat
  hp_dropped :: "pystr list"
  hp_bypassed :: bool

definition normalize_link :: "pystr \<Rightarrow> exc + pystr" where
  "normalize_link url = (case urlsplit5 url of Inl x \<Rightarrow> Inl x | Inr u \<Rightarrow> Inr (urlunsplit5 (u\<lparr>up_fragment := []\<rparr>)))"

definition is_filter_enabled :: "access_ctx \<Rightarrow> pystr \<Rightarrow> bool" where
  "is_filter_enabled k store = (case sp_honeypot_filter_enabled (get_store_profile store) of
       Some b \<Rightarrow> b
     | None \<Rightarrow> SCRAPY_HONEYPOT_FILTER_ENABLED (ax_settings k) \<and> feature_on k ''honeypot_link_filter'' store)"

text \<open>The links of the page that point to one of the candidates: normalised, with their visibility.\<close>

fun relevant_anchors :: "(pystr \<Rightarrow> pystr) \<Rightarrow> pystr set \<Rightarrow> (pystr \<times> bool) list \<Rightarrow> exc + (pystr \<times> bool) list" where
  "relevant_anchors join cands [] = Inr []"
| "relevant_anchors join cands ((href, hidden) # rest) =
    (if strip href = [] then relevant_anchors join cands rest
     else (case normalize_link (join (strip href)) of
         Inl x \<Rightarrow> Inl x
       | Inr u \<Rightarrow> (case relevant_anchors join cands rest of
             Inl x \<Rightarrow> Inl x
           | Inr as \<Rightarrow> Inr (if u \<in> cands then (u, hidden) # as else as))))"

definition only_hidden :: "(pystr \<times> bool) list \<Rightarrow> pystr \<Rightarrow> bool" where
  "only_hidden anchors u = ((u, True) \<in> set anchors \<and> (u, False) \<notin> set anchors)"

definition filter_honeypot_links ::
    "access_ctx \<Rightarrow> pystr \<Rightarrow> (pystr \<Rightarrow> pystr) \<Rightarrow> (pystr \<times> bool) list \<Rightarrow> pystr list \<Rightarrow> exc + (pystr list \<times> honeypot_result)" where
  "filter_honeypot_links k store join anchors original =
    (let n = length original;
         res = (\<lambda>kept dropped bypassed. \<lparr> hp_original_count = n, hp_kept_count = kept, hp_dropped = dropped, hp_bypassed = bypassed \<rparr>)
     in if original = [] then Inr ([], res 0 [] False)
        else if \<not> is_filter_enabled k store then Inr (original, res n [] False)
        else (case map_exc (\<lambda>u. normalize_link (join u)) original of
            Inl x \<Rightarrow> Inl x
          | Inr ns \<Rightarrow>
             (case relevant_anchors join (set ns) anchors of
                Inl x \<Rightarrow> Inl x
              | Inr as \<Rightarrow>
                 (let marked = zip original ns;
                      kept = map fst (filter (\<lambda>(u, v). \<not> only_hidden as v) marked);
                      dropped = map fst (filter (\<lambda>(u, v). only_hidden as v) marked)
                  in if dropped = [] then Inr (kept, res (length kept) [] False)
                     else if n \<ge> 3 \<and> (of_nat (length dropped) / of_nat n :: rat) > SCRAPY_HONEYPOT_FILTER_MAX_FILTER_RATIO (ax_settings k)
                     then Inr (original, res n [] True)
                     else Inr (kept, res (length kept) dropped False)))))"

section \<open>Facts\<close>

text \<open>What is kept is part of the page, in its order; what is dropped is hidden wherever the page shows it.\<close>

lemma filter_split_lengths: "length (filter P xs) + length (filter (\<lambda>x. \<not> P x) xs) = length xs"
  by (induction xs) auto

lemma honeypot_kept:
  assumes "filter_honeypot_links k store join anchors original = Inr (kept, r)"
  shows "set kept \<subseteq> set original \<and> length kept \<le> length original"
proof -
  have part: "set (map fst (filter P (zip original ns))) \<subseteq> set original \<and> length (map fst (filter P (zip original ns))) \<le> length original"
    for P and ns :: "pystr list"
    using length_filter_le [of P "zip original ns"] by (auto intro: set_zip_leftD)
  from assms have "kept = original \<or> (\<exists>as ns. kept = map fst (filter (\<lambda>(u, v). \<not> only_hidden as v) (zip original ns)))"
    by (auto simp: filter_honeypot_links_def Let_def split: if_splits sum.splits)
  then show ?thesis
  proof
    assume "\<exists>as ns. kept = map fst (filter (\<lambda>(u, v). \<not> only_hidden as v) (zip original ns))"
    then show ?thesis by (elim exE) (simp only: part)
  qed simp
qed

text \<open>The guard against over-filtering: of three links or more, at least the share above the maximum stays.\<close>

lemma honeypot_keeps_share:
  assumes "filter_honeypot_links k store join anchors original = Inr (kept, r)" and "length original \<ge> 3"
    and "0 \<le> SCRAPY_HONEYPOT_FILTER_MAX_FILTER_RATIO (ax_settings k)"
  shows "of_nat (length original - length kept) \<le> SCRAPY_HONEYPOT_FILTER_MAX_FILTER_RATIO (ax_settings k) * of_nat (length original)"
proof (cases "kept = original")
  case True
  with assms(3) show ?thesis by simp
next
  case False
  from assms(1,2) False obtain ns as where ns: "map_exc (\<lambda>u. normalize_link (join u)) original = Inr ns"
    and kept: "kept = map fst (filter (\<lambda>(u, v). \<not> only_hidden as v) (zip original ns))"
    and few: "map fst (filter (\<lambda>(u, v). only_hidden as v) (zip original ns)) = []
      \<or> (of_nat (length (filter (\<lambda>(u, v). only_hidden as v) (zip original ns))) / of_nat (length original) :: rat)
        \<le> SCRAPY_HONEYPOT_FILTER_MAX_FILTER_RATIO (ax_settings k)"
    by (auto simp: filter_honeypot_links_def Let_def split: if_splits sum.splits)
  let ?d = "filter (\<lambda>(u, v). only_hidden as v) (zip original ns)"
  have "length ?d + length (filter (\<lambda>x. \<not> (case x of (u, v) \<Rightarrow> only_hidden as v)) (zip original ns)) = length original"
    using filter_split_lengths [of "\<lambda>(u, v). only_hidden as v" "zip original ns"] map_exc_length [OF ns] by simp
  then have "length original - length kept = length ?d" by (simp add: kept case_prod_unfold)
  moreover have "of_nat (length ?d) \<le> SCRAPY_HONEYPOT_FILTER_MAX_FILTER_RATIO (ax_settings k) * of_nat (length original)"
  proof (cases "?d = []")
    case True
    with assms(3) show ?thesis by simp
  next
    case False
    moreover have "(0 :: rat) < of_nat (length original)" using assms(2) by (cases original) simp_all
    ultimately show ?thesis using few by (simp add: divide_le_eq)
  qed
  ultimately show ?thesis by simp
qed

end
