(* ===== verification/Ban_Detector.thy ===== *)
theory Ban_Detector imports Fingerprints Ip_Address begin

text \<open>
  \<^verbatim>\<open>infrastructure/access/ban_detector.py\<close>: whether a response is a block page, a challenge
  or an empty shell.  A body is a list of bytes, one \<^verbatim>\<open>char\<close> each; headers are read as
  Latin-1 and found by their lower-case name.
\<close>

section \<open>Responses\<close>

record response =
  rs_url :: pystr
  rs_status :: int
  rs_headers :: "(pystr, pystr) odict"
  rs_body :: string

definition header :: "pystr \<Rightarrow> response \<Rightarrow> pystr option" where
  "header name r = od_get (lower name) (rs_headers r)"

text \<open>\<open>bytes.lower\<close> changes ASCII letters only; white space of bytes.\<close>

definition ascii_lower :: "string \<Rightarrow> string" where
  "ascii_lower s = map (\<lambda>c. let n = of_char c :: nat in if 65 \<le> n \<and> n \<le> 90 then char_of (n + 32) else c) s"

definition is_byte_space :: "char \<Rightarrow> bool" where
  "is_byte_space c = (let n = of_char c :: nat in (9 \<le> n \<and> n \<le> 13) \<or> n = 32)"

text \<open>\<open><[^>]+>\<close> replaced by a blank, scanning from the left.\<close>

function strip_tags :: "string \<Rightarrow> string" where
  "strip_tags [] = []"
| "strip_tags (c # s) =
    (let inner = takeWhile (\<lambda>x. x \<noteq> CHR ''>'') s; rest = dropWhile (\<lambda>x. x \<noteq> CHR ''>'') s in
     if c = CHR ''<'' \<and> inner \<noteq> [] \<and> rest \<noteq> [] then CHR '' '' # strip_tags (tl rest) else c # strip_tags s)"
  by pat_completeness auto
termination
proof (relation "measure length")
  fix c s x xa
  assume "xa = dropWhile (\<lambda>x. x \<noteq> CHR ''>'') s"
  then have "length xa \<le> length s" by (simp add: length_dropWhile_le)
  then show "(tl xa, c # s) \<in> measure length" by simp
qed simp_all

fun squeeze_bytes :: "string \<Rightarrow> string" where
  "squeeze_bytes [] = []"
| "squeeze_bytes (c # s) =
    (if is_byte_space c then (case s of [] \<Rightarrow> [CHR '' ''] | d # t \<Rightarrow> if is_byte_space d then squeeze_bytes s else CHR '' '' # squeeze_bytes s)
     else c # squeeze_bytes s)"

definition strip_bytes :: "string \<Rightarrow> string" where
  "strip_bytes s = rev (dropWhile is_byte_space (rev (dropWhile is_byte_space s)))"

definition visible_text_len :: "response \<Rightarrow> nat" where
  "visible_text_len r = length (strip_bytes (squeeze_bytes (strip_tags (rs_body r))))"

definition body_lower :: "response \<Rightarrow> string" where
  "body_lower r = ascii_lower (rs_body r)"

definition content_type :: "response \<Rightarrow> pystr" where
  "content_type r = lower (strip (takeWhile (\<lambda>c. c \<noteq> CHR '';'') (or_empty (header ''Content-Type'' r))))"

definition has_marker :: "string list \<Rightarrow> string \<Rightarrow> bool" where
  "has_marker markers body = list_ex (\<lambda>m. contains m body) markers"

text \<open>\<open>low.count(pat)\<close>: occurrences that do not overlap.\<close>

function count_bytes :: "string \<Rightarrow> string \<Rightarrow> nat" where
  "count_bytes pat [] = 0"
| "count_bytes pat (c # s) =
    (if starts_with pat (c # s) then 1 + count_bytes pat (drop (length pat - 1) s) else count_bytes pat s)"
  by pat_completeness auto
termination
  by (relation "measure (\<lambda>(pat, s). length s)") simp_all

section \<open>Signals\<close>

definition CF_MARKERS :: "string list" where
  "CF_MARKERS = [''cf-browser-verification'', ''checking your browser'', ''just a moment'', ''cloudflare'', ''cf-ray'']"

definition CAPTCHA_MARKERS :: "string list" where
  "CAPTCHA_MARKERS = [''recaptcha'', ''hcaptcha'', ''g-recaptcha'', ''captcha'', ''showcaptcha'']"

definition DENIED_MARKERS :: "string list" where
  "DENIED_MARKERS = [''access denied'', ''403 forbidden'', ''forbidden'', ''blocked'', ''request blocked'']"

definition is_captcha_page :: "response \<Rightarrow> bool" where
  "is_captcha_page r = has_marker CAPTCHA_MARKERS (body_lower r)"

definition is_block_page :: "response \<Rightarrow> bool" where
  "is_block_page r = (rs_status r = 401 \<or> rs_status r = 403 \<or> rs_status r \<ge> 500 \<or> has_marker DENIED_MARKERS (body_lower r))"

definition is_js_shell :: "response \<Rightarrow> bool" where
  "is_js_shell r =
    (let raw = rs_body r; low = ascii_lower raw in
     rs_status r = 200 \<and> \<not> contains ''json'' (content_type r) \<and> length raw \<ge> 80
     \<and> (contains ''<html'' low \<or> contains ''<!doctype'' low)
     \<and> ((count_bytes ''<script'' low \<ge> 3 \<and> visible_text_len r < 120
          \<and> (contains ''__next'' low \<or> contains ''react'' low \<or> contains ''webpack'' low \<or> contains ''__nuxt'' low))
        \<or> contains ''enable javascript'' low \<or> contains ''javascript is required'' low))"

definition is_empty_shell :: "nat \<Rightarrow> response \<Rightarrow> bool" where
  "is_empty_shell empty_body_threshold r =
    (let raw = rs_body r; low = ascii_lower raw in
     rs_status r = 200 \<and> \<not> contains ''json'' (content_type r) \<and> length raw < empty_body_threshold
     \<and> (raw = []
        \<or> ((contains ''<html'' low \<or> contains ''<!doctype'' low) \<and> visible_text_len r < 40
           \<and> \<not> contains ''refresh'' low \<and> \<not> contains ''location'' low)))"

text \<open>\<open>url.split("/")[2] if "/" in url else ""\<close>; the index error of a short URL is caught.\<close>

definition third_part :: "pystr \<Rightarrow> pystr option" where
  "third_part url = (if CHR ''/'' \<notin> set url then Some []
     else (case split_on (CHR ''/'') url of a # b # c # rest \<Rightarrow> Some c | _ \<Rightarrow> None))"

definition is_mobile_trap :: "pystr \<Rightarrow> response \<Rightarrow> bool" where
  "is_mobile_trap request_url r = (case (third_part (rs_url r), third_part request_url) of
       (Some rh, Some qh) \<Rightarrow> starts_with ''m.'' (lower rh) \<and> \<not> starts_with ''m.'' (lower qh)
     | _ \<Rightarrow> False)"

definition is_transport_like_error_page :: "response \<Rightarrow> bool" where
  "is_transport_like_error_page r =
    (let ct = content_type r in
     rs_status r = 502 \<or> rs_status r = 503 \<or> rs_status r = 504
     \<or> (rs_status r = 200 \<and> (contains ''html'' ct \<or> ct = [] \<or> ct = ''text/plain'')
        \<and> has_marker [''bad gateway'', ''service unavailable'', ''gateway time''] (body_lower r)))"

text \<open>A single signal; the first test that fits decides.\<close>

definition detect_ban_signal :: "response \<Rightarrow> pystr option \<Rightarrow> nat \<Rightarrow> pystr option" where
  "detect_ban_signal r request_url empty_body_threshold =
    (if (case request_url of Some u \<Rightarrow> is_mobile_trap u r | None \<Rightarrow> False) then Some ''mobile_redirect''
     else if rs_status r = 403 \<and> is_captcha_page r then Some ''captcha''
     else if has_marker CF_MARKERS (body_lower r) \<and> rs_status r \<in> {200, 403, 503} then Some ''cloudflare_challenge''
     else if is_captcha_page r then Some ''captcha''
     else if rs_status r = 403 \<and> \<not> is_captcha_page r then Some ''access_denied''
     else if is_transport_like_error_page r then Some ''transport_like_error_page''
     else if is_js_shell r then Some ''js_shell''
     else if is_empty_shell empty_body_threshold r then Some ''empty_shell''
     else None)"

section \<open>Facts\<close>

definition BAN_SIGNALS :: "pystr list" where
  "BAN_SIGNALS = [''mobile_redirect'', ''captcha'', ''cloudflare_challenge'', ''access_denied'', ''transport_like_error_page'',
     ''js_shell'', ''empty_shell'']"

lemma ban_signal_known: "detect_ban_signal r u n = Some s \<Longrightarrow> s \<in> set BAN_SIGNALS"
  by (auto simp: detect_ban_signal_def BAN_SIGNALS_def split: if_splits)

text \<open>A mention of the name of the protection service is a challenge, whatever page mentions it.\<close>

lemma mention_is_challenge:
  assumes "contains ''cloudflare'' (ascii_lower (rs_body r))" and "rs_status r = 200"
  shows "detect_ban_signal r None n = Some ''cloudflare_challenge''"
  using assms by (simp add: detect_ban_signal_def has_marker_def CF_MARKERS_def body_lower_def)

end
