(* ===== verification/Page_Guard.thy ===== *)
theory Page_Guard imports Ban_Detector Network_Policy begin

text \<open>
  \<^verbatim>\<open>infrastructure/security/browser_navigation_guard.py\<close> and \<^verbatim>\<open>download_guard.py\<close>: which page may
  be opened from which, and which responses are pages at all.
\<close>

section \<open>Navigation\<close>

record navigation =
  nv_allowed :: bool
  nv_url :: pystr
  nv_reason :: "pystr option"
  nv_requires_same_origin :: bool

definition refused_navigation :: "pystr \<Rightarrow> pystr option \<Rightarrow> navigation" where
  "refused_navigation url reason = \<lparr> nv_allowed = False, nv_url = url, nv_reason = reason, nv_requires_same_origin = True \<rparr>"

definition allowed_navigation :: "pystr \<Rightarrow> navigation" where
  "allowed_navigation url = \<lparr> nv_allowed = True, nv_url = url, nv_reason = None, nv_requires_same_origin = False \<rparr>"

definition should_block_cross_origin_navigation :: "net_settings \<Rightarrow> pystr option \<Rightarrow> pystr \<Rightarrow> bool" where
  "should_block_cross_origin_navigation c parent_url next_url =
    (if \<not> ENABLE_BROWSER_SAME_ORIGIN_GUARD c then False
     else if \<not> truthy parent_url then False
     else (case (urlparse c (or_empty parent_url), urlparse c next_url) of
         (Some (s1, n1), Some (s2, n2)) \<Rightarrow>
           (let a = norm_host (hostname_of n1); b = norm_host (hostname_of n2) in
            if a = b then False
            else if ends_with (''.'' @ a) b \<or> ends_with (''.'' @ b) a then False
            else \<not> is_host_allowed b (ALLOWED_STORE_HOSTS c))
       | _ \<Rightarrow> True))"

definition can_open_new_page :: "net_settings \<Rightarrow> pystr \<Rightarrow> pystr option \<Rightarrow> exc + navigation" where
  "can_open_new_page c url parent_url =
    (let raw = strip url in
     if is_blocked_scheme c raw \<or> starts_with ''file:'' (lower raw)
     then Inr (refused_navigation raw (Some ''blocked_scheme_or_file_navigation''))
     else (case urlparse c raw of
         None \<Rightarrow> Inl (ValueError ''Invalid URL'')
       | Some (s, netloc) \<Rightarrow>
          Inr (if is_private_or_local_address c (norm_host (hostname_of netloc))
               then refused_navigation raw (Some ''private_target'')
               else if should_block_cross_origin_navigation c parent_url raw
               then refused_navigation raw (Some ''cross_origin_not_allowlisted'')
               else allowed_navigation raw)))"

definition validate_browser_navigation :: "net_settings \<Rightarrow> pystr \<Rightarrow> navigation" where
  "validate_browser_navigation c url =
    (let d = validate_store_crawl_url c url; du = validate_outbound_url c url in
     if \<not> hv_allowed d then refused_navigation url (hv_reason d)
     else if is_blocked_scheme c url then refused_navigation url (Some ''unsafe_scheme'')
     else if \<not> hv_allowed du then refused_navigation url (hv_reason du)
     else allowed_navigation url)"

section \<open>Downloads\<close>

definition SUSPICIOUS_CT_PREFIXES :: "pystr list" where
  "SUSPICIOUS_CT_PREFIXES = [''application/octet-stream'', ''application/x-msdownload'', ''application/zip'', ''application/x-zip'',
     ''application/pdf'', ''application/x-tar'', ''application/gzip'', ''application/java-archive'', ''application/vnd.'',
     ''audio/'', ''video/'']"

definition base_type :: "pystr \<Rightarrow> pystr" where
  "base_type ct = lower (strip (takeWhile (\<lambda>c. c \<noteq> CHR '';'') ct))"

definition is_suspicious_content_type :: "pystr option \<Rightarrow> bool" where
  "is_suspicious_content_type ct = (truthy ct \<and> list_ex (\<lambda>p. starts_with p (base_type (or_empty ct))) SUSPICIOUS_CT_PREFIXES)"

definition is_unexpected_attachment :: "response \<Rightarrow> bool" where
  "is_unexpected_attachment r =
    (let cd = lower (or_empty (header ''Content-Disposition'' r)); ct = or_empty (header ''Content-Type'' r) in
     contains ''attachment'' cd
     \<and> (ct = [] \<or> base_type ct \<notin> {''text/html'', ''application/xhtml+xml'', ''text/xml'', ''application/xml''}))"

definition should_download_response :: "response \<Rightarrow> bool" where
  "should_download_response r =
    (let ct = or_empty (header ''Content-Type'' r); base = (if ct = [] then [] else base_type ct) in
     if is_suspicious_content_type (Some ct) then False
     else if is_unexpected_attachment r then False
     else base = [] \<or> base \<in> {''text/html'', ''application/xhtml+xml''} \<or> starts_with ''text/'' base)"

section \<open>Facts\<close>

text \<open>An answer in JSON is not taken for a page, whatever its status and body.\<close>

lemma json_not_downloaded:
  assumes "header ''Content-Type'' r = Some ''application/json''"
  shows "\<not> should_download_response r"
proof -
  have "base_type ''application/json'' = ''application/json''" by code_simp
  then show ?thesis
    using assms by (simp add: should_download_response_def starts_with_def or_empty_def Let_def)
qed

end
