(* ===== verification/Proxy_Policy.thy ===== *)
theory Proxy_Policy imports Store_Profile "HOL-Library.Product_Lexorder" begin

text \<open>
  \<^verbatim>\<open>infrastructure/access/proxy_policy.py\<close>: the pool of proxies, their health and cooldown,
  and which proxy a request gets.  The module's dictionaries are the record
  \<open>proxy_state\<close>; \<open>time.monotonic\<close> is an argument; locks and logging are left out.
\<close>

section \<open>State\<close>

record proxy_health =
  ph_health_score :: rat
  ph_ban_score :: int
  ph_consecutive_failures :: int
  ph_cooldown_until :: rat
  ph_last_reason :: "pystr option"

definition fresh_health :: proxy_health where
  "fresh_health = \<lparr> ph_health_score = 100, ph_ban_score = 0, ph_consecutive_failures = 0, ph_cooldown_until = 0, ph_last_reason = None \<rparr>"

record sticky_lease =
  sl_proxy_url :: pystr
  sl_uses_left :: int

record proxy_state =
  ps_cache :: "(pystr, rat \<times> pystr list) odict"
  ps_rotation :: "(pystr \<times> pystr \<times> pystr, nat) odict"
  ps_sticky :: "(pystr \<times> pystr, sticky_lease) odict"
  ps_health :: "(pystr, proxy_health) odict"

definition new_proxy_state :: proxy_state where
  "new_proxy_state = \<lparr> ps_cache = [], ps_rotation = [], ps_sticky = [], ps_health = [] \<rparr>"

definition BAN_LIKE_REASONS :: "pystr list" where
  "BAN_LIKE_REASONS = [''captcha'', ''access_denied'', ''transport_like_error_page'', ''cloudflare_challenge'',
     ''proxy_rejected'', ''http_403'', ''http_429'']"

section \<open>The pool\<close>

definition pool_path_available :: "access_ctx \<Rightarrow> pystr \<Rightarrow> bool" where
  "pool_path_available k path = (path \<noteq> [] \<and> ax_file k path \<noteq> No_file)"

definition is_proxy_available :: "access_ctx \<Rightarrow> bool" where
  "is_proxy_available k = pool_path_available k (strip (PROXY_LIST_PATH (ax_settings k)))"

definition normalize_proxy_url :: "pystr \<Rightarrow> pystr option" where
  "normalize_proxy_url url =
    (let clean = strip url in
     if clean = [] \<or> starts_with ''#'' clean then None
     else Some (if starts_with ''http://'' clean \<or> starts_with ''https://'' clean then clean else ''http://'' @ clean))"

fun collect_proxy_urls :: "pystr list \<Rightarrow> pystr list \<Rightarrow> pystr list" where
  "collect_proxy_urls urls [] = urls"
| "collect_proxy_urls urls (line # rest) =
    (case normalize_proxy_url line of
       None \<Rightarrow> collect_proxy_urls urls rest
     | Some u \<Rightarrow> collect_proxy_urls (if u \<in> set urls then urls else urls @ [u]) rest)"

text \<open>The cache holds the list of a path for as long as the file's modification time is the same.\<close>

definition read_proxy_urls :: "access_ctx \<Rightarrow> pystr \<Rightarrow> proxy_state \<Rightarrow> pystr list \<times> proxy_state" where
  "read_proxy_urls k path s =
    (let cached = (\<lambda>mtime. case od_get path (ps_cache s) of
           Some (m, urls) \<Rightarrow> if m = mtime then Some urls else None
         | None \<Rightarrow> None)
     in if path = [] then ([], s)
        else (case ax_file k path of
          No_file \<Rightarrow> ([], s)
        | Not_statable \<Rightarrow> ([], s)
        | Not_readable mtime \<Rightarrow> (case cached mtime of Some urls \<Rightarrow> (urls, s) | None \<Rightarrow> ([], s))
        | Proxy_lines mtime lines \<Rightarrow>
           (case cached mtime of
              Some urls \<Rightarrow> (urls, s)
            | None \<Rightarrow> (let urls = collect_proxy_urls [] lines in
                (urls, s\<lparr>ps_cache := od_set path (mtime, urls) (ps_cache s)\<rparr>)))))"

definition should_install_rotating_proxy_middleware :: "access_ctx \<Rightarrow> bool" where
  "should_install_rotating_proxy_middleware k = (SCRAPY_ROTATING_PROXY_ENABLED (ax_settings k) \<and> is_proxy_available k)"

definition should_enable_rotating_proxies :: "access_ctx \<Rightarrow> pystr \<Rightarrow> bool" where
  "should_enable_rotating_proxies k store =
    (let profile = get_store_profile store in
     SCRAPY_ROTATING_PROXY_ENABLED (ax_settings k) \<and> is_proxy_available k \<and> sp_proxy_enabled profile \<noteq> Some False
     \<and> (sp_requires_proxy profile \<or> sp_mode profile = Http_with_proxy))"

section \<open>What the profile says\<close>

definition hardening_enabled :: "access_ctx \<Rightarrow> pystr \<Rightarrow> bool" where
  "hardening_enabled k store =
    (SCRAPY_PROXY_POLICY_HARDENING_ENABLED (ax_settings k) \<and> feature_on k ''proxy_policy_hardening'' store)"

definition resolve_pool_path :: "access_ctx \<Rightarrow> pystr \<Rightarrow> store_profile \<Rightarrow> pystr" where
  "resolve_pool_path k store profile =
    (let per_store = strip (or_empty (sp_proxy_pool_path profile)) in
     if hardening_enabled k store \<and> per_store \<noteq> [] then per_store else strip (PROXY_LIST_PATH (ax_settings k)))"

definition resolve_mode :: "access_ctx \<Rightarrow> store_profile \<Rightarrow> proxy_mode" where
  "resolve_mode k profile = (case sp_proxy_mode profile of
       Some m \<Rightarrow> m
     | None \<Rightarrow> if lower (strip (SCRAPY_PROXY_POLICY_DEFAULT_MODE (ax_settings k))) = ''sticky'' then Sticky else Rotating)"

definition at_least_one :: "int option \<Rightarrow> int \<Rightarrow> int" where
  "at_least_one x standard = (case x of Some n \<Rightarrow> max 1 n | None \<Rightarrow> standard)"

definition resolve_sticky_requests :: "access_ctx \<Rightarrow> store_profile \<Rightarrow> int" where
  "resolve_sticky_requests k p = at_least_one (sp_proxy_sticky_requests p) (SCRAPY_PROXY_STICKY_REQUESTS_DEFAULT (ax_settings k))"

definition resolve_cooldown_seconds :: "access_ctx \<Rightarrow> store_profile \<Rightarrow> int" where
  "resolve_cooldown_seconds k p = at_least_one (sp_proxy_cooldown_seconds p) (SCRAPY_PROXY_COOLDOWN_SECONDS_DEFAULT (ax_settings k))"

definition resolve_ban_score_threshold :: "access_ctx \<Rightarrow> store_profile \<Rightarrow> int" where
  "resolve_ban_score_threshold k p = at_least_one (sp_proxy_ban_score_threshold p) (SCRAPY_PROXY_BAN_SCORE_THRESHOLD (ax_settings k))"

definition resolve_max_consecutive_failures :: "access_ctx \<Rightarrow> store_profile \<Rightarrow> int" where
  "resolve_max_consecutive_failures k p =
    at_least_one (sp_proxy_max_consecutive_failures p) (SCRAPY_PROXY_MAX_CONSECUTIVE_FAILURES (ax_settings k))"

section \<open>Selection\<close>

definition extract_domain :: "pystr option \<Rightarrow> exc + pystr" where
  "extract_domain url =
    (if \<not> truthy url then Inr ''unknown-domain''
     else (case urlsplit (or_empty url) of
         Inl x \<Rightarrow> Inl x
       | Inr (scheme, netloc, path) \<Rightarrow> (let d = lower (strip netloc) in Inr (if d = [] then ''unknown-domain'' else d))))"

definition is_in_cooldown :: "proxy_state \<Rightarrow> rat \<Rightarrow> pystr \<Rightarrow> bool" where
  "is_in_cooldown s now url = (case od_get url (ps_health s) of None \<Rightarrow> False | Some h \<Rightarrow> ph_cooldown_until h > now)"

definition health_rank :: "proxy_state \<Rightarrow> pystr \<Rightarrow> int \<times> rat \<times> int" where
  "health_rank s url = (case od_get url (ps_health s) of
       None \<Rightarrow> (0, -100, 0)
     | Some h \<Rightarrow> (ph_ban_score h, - ph_health_score h, ph_consecutive_failures h))"

definition select_rotating_proxy :: "pystr list \<Rightarrow> pystr \<Rightarrow> pystr \<Rightarrow> pystr \<Rightarrow> proxy_state \<Rightarrow> pystr \<times> proxy_state" where
  "select_rotating_proxy candidates store purpose pool_key s =
    (let ranked = sort_key (health_rank s) candidates;
         key = (store, purpose, pool_key);
         counter = (case od_get key (ps_rotation s) of None \<Rightarrow> 0 | Some n \<Rightarrow> n)
     in (ranked ! (counter mod length ranked), s\<lparr>ps_rotation := od_set key (counter + 1) (ps_rotation s)\<rparr>))"

definition select_sticky_proxy ::
    "pystr list \<Rightarrow> pystr \<Rightarrow> pystr \<Rightarrow> pystr \<Rightarrow> pystr \<Rightarrow> int \<Rightarrow> proxy_state \<Rightarrow> pystr \<times> proxy_state" where
  "select_sticky_proxy candidates store purpose pool_key domain sticky_requests s =
    (let key = (store, domain);
         fresh = (let (selected, s1) = select_rotating_proxy candidates store (purpose @ '':sticky'') pool_key s in
           (selected, s1\<lparr>ps_sticky := od_set key \<lparr> sl_proxy_url = selected, sl_uses_left = max 0 (sticky_requests - 1) \<rparr> (ps_sticky s1)\<rparr>))
     in case od_get key (ps_sticky s) of
       None \<Rightarrow> fresh
     | Some l \<Rightarrow>
        (if sl_proxy_url l \<in> set candidates \<and> sl_uses_left l > 0
         then (sl_proxy_url l, s\<lparr>ps_sticky := od_set key (l\<lparr>sl_uses_left := sl_uses_left l - 1\<rparr>) (ps_sticky s)\<rparr>)
         else fresh))"

definition select_proxy_by_policy ::
    "access_ctx \<Rightarrow> rat \<Rightarrow> pystr \<Rightarrow> pystr \<Rightarrow> pystr option \<Rightarrow> pystr \<Rightarrow> store_profile \<Rightarrow> pystr list \<Rightarrow> proxy_state
      \<Rightarrow> (exc + pystr option) \<times> proxy_state" where
  "select_proxy_by_policy k now store purpose target pool_path profile urls s =
    (let selectable = filter (\<lambda>u. \<not> is_in_cooldown s now u) urls in
     if selectable = [] then (Inr None, s)
     else (case resolve_mode k profile of
         Sticky \<Rightarrow>
           (case extract_domain target of
              Inl x \<Rightarrow> (Inl x, s)
            | Inr domain \<Rightarrow>
               (let (u, s1) = select_sticky_proxy selectable store purpose pool_path domain (resolve_sticky_requests k profile) s
                in (Inr (Some u), s1)))
       | Rotating \<Rightarrow> (let (u, s1) = select_rotating_proxy selectable store purpose pool_path s in (Inr (Some u), s1))))"

section \<open>Outcomes\<close>

definition after_success :: "rat \<Rightarrow> pystr option \<Rightarrow> proxy_health \<Rightarrow> proxy_health" where
  "after_success now reason h =
    h\<lparr>ph_consecutive_failures := 0, ph_ban_score := max 0 (ph_ban_score h - 1), ph_health_score := min 100 (ph_health_score h + 3),
      ph_last_reason := py_or reason (Some ''success''),
      ph_cooldown_until := (if ph_cooldown_until h \<le> now then 0 else ph_cooldown_until h)\<rparr>"

definition after_failure :: "int \<Rightarrow> int \<Rightarrow> int \<Rightarrow> rat \<Rightarrow> pystr option \<Rightarrow> proxy_health \<Rightarrow> proxy_health" where
  "after_failure ban_threshold max_failures cooldown_seconds now reason h =
    (let ban_like = lower (strip (or_empty reason)) \<in> set BAN_LIKE_REASONS;
         h1 = h\<lparr>ph_consecutive_failures := ph_consecutive_failures h + 1,
                ph_ban_score := ph_ban_score h + (if ban_like then 2 else 1),
                ph_health_score := max 0 (ph_health_score h - (if ban_like then 20 else 10)),
                ph_last_reason := py_or reason (Some ''failure'')\<rparr>
     in if ph_ban_score h1 \<ge> ban_threshold \<or> ph_consecutive_failures h1 \<ge> max_failures
        then h1\<lparr>ph_cooldown_until := max (ph_cooldown_until h1) (now + of_int cooldown_seconds)\<rparr> else h1)"

text \<open>\<open>store_name\<close> is optional; an empty one skips the feature check.\<close>

definition mark_proxy_result ::
    "access_ctx \<Rightarrow> rat \<Rightarrow> pystr \<Rightarrow> bool \<Rightarrow> pystr option \<Rightarrow> pystr option \<Rightarrow> proxy_state \<Rightarrow> proxy_state" where
  "mark_proxy_result k now proxy_url success reason store s =
    (case normalize_proxy_url proxy_url of
       None \<Rightarrow> s
     | Some u \<Rightarrow>
        (if \<not> SCRAPY_PROXY_POLICY_HARDENING_ENABLED (ax_settings k) then s
         else if truthy store \<and> \<not> feature_on k ''proxy_policy_hardening'' (or_empty store) then s
         else
          (let profile = get_store_profile (or_empty store);
               h = (case od_get u (ps_health s) of None \<Rightarrow> fresh_health | Some h \<Rightarrow> h);
               h' = (if success then after_success now reason h
                     else after_failure (resolve_ban_score_threshold k profile) (resolve_max_consecutive_failures k profile)
                       (resolve_cooldown_seconds k profile) now reason h)
           in s\<lparr>ps_health := od_set u h' (ps_health s)\<rparr>)))"

section \<open>The proxy of a request\<close>

record proxy_choice =
  pc_proxy :: pystr
  pc_mode :: "proxy_mode option"

text \<open>\<open>pc_mode\<close> is \<^const>\<open>None\<close> for \<open>"legacy"\<close>; no choice is the empty dictionary.\<close>

definition build_proxy_meta ::
    "access_ctx \<Rightarrow> rat \<Rightarrow> pystr \<Rightarrow> pystr \<Rightarrow> pystr option \<Rightarrow> proxy_state \<Rightarrow> (exc + proxy_choice option) \<times> proxy_state" where
  "build_proxy_meta k now store purpose target s =
    (let profile = get_store_profile store; pool_path = resolve_pool_path k store profile in
     if sp_proxy_enabled profile = Some False then (Inr None, s)
     else if \<not> sp_fallback_to_proxy profile \<and> \<not> sp_requires_proxy profile then (Inr None, s)
     else if \<not> pool_path_available k pool_path then (Inr None, s)
     else
      (let (urls, s1) = read_proxy_urls k pool_path s; hardened = hardening_enabled k store in
       if urls = [] then (Inr None, s1)
       else
        (case (if hardened then select_proxy_by_policy k now store purpose target pool_path profile urls s1
               else (Inr (Some (hd urls)), s1)) of
           (Inl x, s2) \<Rightarrow> (Inl x, s2)
         | (Inr None, s2) \<Rightarrow> (Inr None, s2)
         | (Inr (Some selected), s2) \<Rightarrow>
            (case validate_proxy_url (ax_net k) selected of
               Inl x \<Rightarrow> (Inl x, s2)
             | Inr d \<Rightarrow>
                (if px_allowed d
                 then (Inr (Some \<lparr> pc_proxy = selected, pc_mode = (if hardened then Some (resolve_mode k profile) else None) \<rparr>), s2)
                 else (Inr None, mark_proxy_result k now selected False (py_or (px_reason d) (Some ''proxy_rejected'')) (Some store) s2))))))"

end
