(* ===== verification/Request_Strategy.thy ===== *)
theory Request_Strategy imports Proxy_Policy Ban_Detector Resource_Governance begin

text \<open>
  \<^verbatim>\<open>infrastructure/access/request_strategy.py\<close>: plain HTTP first, then a proxy or a browser, as the
  profile of the store, the failures so far and the last signal say.  Counters and
  logging are left out.
\<close>

section \<open>The parts of a request's meta\<close>

text \<open>
  The \<open>meta\<close> dictionary of a request: what the guard of the resource budgets reads is
  \<open>cm_gov\<close>, the rest is the state the spider and the middlewares carry from request to
  request.  An absent number is \<^const>\<open>None\<close>.
\<close>

record crawl_meta =
  cm_gov :: request_meta
  cm_store_name :: "pystr option"
  cm_access_purpose :: "pystr option"
  cm_category_url :: "pystr option"
  cm_from_listing :: "pystr option"
  cm_access_referer :: "pystr option"
  cm_page :: "int option"
  cm_empty_streak :: "int option"
  cm_dup_sig_streak :: "int option"
  cm_prior_failures :: "int option"
  cm_force_browser :: bool
  cm_force_proxy :: bool
  cm_access_last_signal :: "pystr option"
  cm_shell_strikes :: "int option"
  cm_mw_retry :: "int option"
  cm_retry_times :: "int option"

definition or_zero :: "int option \<Rightarrow> int" where
  "or_zero x = (case x of None \<Rightarrow> 0 | Some n \<Rightarrow> n)"

section \<open>Decisions\<close>

definition should_use_proxy :: "access_ctx \<Rightarrow> pystr \<Rightarrow> int \<Rightarrow> bool \<Rightarrow> bool" where
  "should_use_proxy k store prior_failures force_proxy =
    (let profile = get_store_profile store in
     if sp_proxy_enabled profile = Some False then False
     else if force_proxy then is_proxy_available k \<and> (sp_fallback_to_proxy profile \<or> sp_requires_proxy profile)
     else if sp_requires_proxy profile then is_proxy_available k
     else if sp_mode profile = Http_with_proxy \<and> prior_failures \<ge> SCRAPY_PROXY_FALLBACK_FAILURE_THRESHOLD (ax_settings k)
     then is_proxy_available k
     else False)"

definition should_escalate_to_browser :: "access_ctx \<Rightarrow> pystr \<Rightarrow> pystr option \<Rightarrow> int \<Rightarrow> bool \<Rightarrow> bool" where
  "should_escalate_to_browser k store signal failure_count supports =
    (let profile = get_store_profile store in
     if \<not> supports then False
     else if \<not> feature_on k ''store_profile_runtime_control'' store then False
     else if \<not> feature_on k ''browser_escalation_policy'' store then False
     else if sp_mode profile = Http_only then False
     else if \<not> sp_supports_browser profile then False
     else if sp_mode profile = Browser_required then False
     else if \<not> sp_fallback_to_browser profile then False
     else if signal = Some ''cloudflare_challenge'' \<and> failure_count \<ge> 1 then True
     else if signal \<in> {Some ''js_shell'', Some ''empty_shell'', Some ''cloudflare_challenge''}
       \<and> failure_count \<ge> SCRAPY_ACCESS_SHELL_ESCALATE_AFTER (ax_settings k) then True
     else if signal \<in> Some ` set (sp_ban_signals profile)
       \<and> failure_count \<ge> SCRAPY_BROWSER_FALLBACK_FAILURE_THRESHOLD (ax_settings k) then True
     else False)"

definition should_escalate_to_proxy :: "access_ctx \<Rightarrow> pystr \<Rightarrow> pystr option \<Rightarrow> int \<Rightarrow> bool" where
  "should_escalate_to_proxy k store signal failure_count =
    (let profile = get_store_profile store in
     if \<not> is_proxy_available k then False
     else if sp_proxy_enabled profile = Some False then False
     else if sp_mode profile = Http_only then False
     else if \<not> sp_fallback_to_proxy profile \<and> \<not> sp_requires_proxy profile then False
     else if sp_requires_proxy profile then False
     else if signal \<in> {Some ''access_denied'', Some ''transport_like_error_page'', Some ''empty_shell'', Some ''captcha''}
       \<and> failure_count \<ge> SCRAPY_PROXY_FALLBACK_FAILURE_THRESHOLD (ax_settings k) then True
     else sp_mode profile = Http_with_proxy \<and> failure_count \<ge> 1)"

definition should_use_browser :: "access_ctx \<Rightarrow> pystr \<Rightarrow> int \<Rightarrow> pystr option \<Rightarrow> bool \<Rightarrow> bool \<Rightarrow> bool" where
  "should_use_browser k store prior_failures signal force_browser supports =
    (let profile = get_store_profile store in
     if \<not> feature_on k ''store_profile_runtime_control'' store then supports \<and> sp_mode profile = Browser_required
     else if \<not> feature_on k ''browser_escalation_policy'' store then supports \<and> sp_mode profile = Browser_required
     else if sp_mode profile = Browser_required then supports
     else if force_browser \<and> supports \<and> sp_supports_browser profile then True
     else if sp_mode profile = Http_only then False
     else if \<not> sp_supports_browser profile then False
     else should_escalate_to_browser k store signal prior_failures supports)"

section \<open>The access part of the meta\<close>

text \<open>
  What \<open>build_request_meta\<close> returns, as the update it makes.  The entries a mode does not
  name keep the value they had.
\<close>

record access_part =
  ap_prior_failures :: int
  ap_playwright :: bool
  ap_proxy :: "proxy_choice option"
  ap_mode :: pystr

definition browser_request_meta :: "pystr \<Rightarrow> bool" where
  "browser_request_meta store = (let profile = get_store_profile store in sp_supports_browser profile \<or> sp_mode profile = Browser_required)"

definition build_request_meta ::
    "access_ctx \<Rightarrow> rat \<Rightarrow> pystr \<Rightarrow> pystr \<Rightarrow> int \<Rightarrow> bool \<Rightarrow> bool \<Rightarrow> pystr option \<Rightarrow> bool \<Rightarrow> pystr option \<Rightarrow> proxy_state
      \<Rightarrow> (exc + access_part) \<times> proxy_state" where
  "build_request_meta k now store purpose prior_failures force_browser force_proxy signal supports target s =
    (let profile = get_store_profile store;
         part = (\<lambda>browser proxy mode. \<lparr> ap_prior_failures = prior_failures, ap_playwright = browser, ap_proxy = proxy, ap_mode = mode \<rparr>);
         plain = part False None ''plain'';
         browser = part (browser_request_meta store) None ''browser'';
         use_browser = should_use_browser k store prior_failures signal force_browser supports;
         use_proxy = should_use_proxy k store prior_failures force_proxy
     in if sp_mode profile = Browser_required then (Inr (if supports then browser else plain), s)
        else if use_browser \<and> supports then (Inr browser, s)
        else if use_proxy \<or> (sp_requires_proxy profile \<and> sp_proxy_enabled profile \<noteq> Some False \<and> is_proxy_available k)
        then (case build_proxy_meta k now store purpose target s of
            (Inl x, s1) \<Rightarrow> (Inl x, s1)
          | (Inr None, s1) \<Rightarrow> (Inr plain, s1)
          | (Inr (Some c), s1) \<Rightarrow>
             (if truthy target
              then (case should_allow_proxy_for_target (ax_net k) (pc_proxy c) (or_empty target) of
                  Inl x \<Rightarrow> (Inl x, s1)
                | Inr ok \<Rightarrow> (Inr (if ok then part False (Some c) ''proxy'' else plain), s1))
              else (Inr (part False (Some c) ''proxy''), s1)))
        else (Inr plain, s))"

definition update_access :: "pystr \<Rightarrow> pystr \<Rightarrow> access_part \<Rightarrow> crawl_meta \<Rightarrow> crawl_meta" where
  "update_access store purpose p m =
    (let g = cm_gov m;
         g1 = (if ap_playwright p then g\<lparr>rm_playwright := Some True, rm_page_goto_kwargs := True, rm_page_init_callback := True\<rparr> else g);
         g2 = (case ap_proxy p of Some c \<Rightarrow> g1\<lparr>rm_proxy := Some (pc_proxy c)\<rparr> | None \<Rightarrow> g1)
     in m\<lparr>cm_store_name := Some store, cm_access_purpose := Some purpose, cm_prior_failures := Some (ap_prior_failures p),
          cm_gov := g2\<lparr>rm_access_mode_selected := Some (ap_mode p)\<rparr>\<rparr>)"

section \<open>Facts\<close>

text \<open>The modes, and what each carries.\<close>

lemma build_request_meta_modes:
  assumes "build_request_meta k now store purpose prior fb fp signal supports target s = (Inr p, s')"
  shows "(ap_mode p = ''plain'' \<and> \<not> ap_playwright p \<and> ap_proxy p = None)
    \<or> (ap_mode p = ''browser'' \<and> supports \<and> ap_playwright p = browser_request_meta store \<and> ap_proxy p = None)
    \<or> (ap_mode p = ''proxy'' \<and> \<not> ap_playwright p \<and> ap_proxy p \<noteq> None)"
  using assms by (auto simp: build_request_meta_def Let_def split: if_splits prod.splits sum.splits option.splits)

text \<open>The plain mode does not take a browser or a proxy away that the dictionary already had.\<close>

lemma plain_keeps_leftovers:
  assumes "ap_mode p = ''plain''" and "\<not> ap_playwright p" and "ap_proxy p = None"
  shows "rm_playwright (cm_gov (update_access store purpose p m)) = rm_playwright (cm_gov m)
    \<and> rm_proxy (cm_gov (update_access store purpose p m)) = rm_proxy (cm_gov m)
    \<and> meta_to_resource_mode (cm_gov (update_access store purpose p m)) = Http_mode"
proof -
  have "lower ''plain'' = ''plain''" by code_simp
  with assms show ?thesis
    by (simp add: update_access_def meta_to_resource_mode_def selected_mode_def truthy_def or_empty_def Let_def)
qed

end
