(* ===== verification/Crawl.thy ===== *)
theory Crawl imports Crawl_Registry Honeypot_Filter Page_Guard Request_Strategy "HOL-Library.List_Lexorder" begin

text \<open>
  \<^verbatim>\<open>infrastructure/spiders/base.py\<close>: how the framework spider walks from categories to listing pages
  to products.  What a store's spider overrides or reads from a page (links, next page,
  canonical product URL, source id) is a field of \<open>crawl_ctx\<close>; so are the clock, the memory
  reading, \<open>response.urljoin\<close>, SHA-256 and the JSON encoder.  Logging is left out.
\<close>

section \<open>Context and state\<close>

record crawl_settings =
  SCRAPY_MAX_PAGES_PER_CATEGORY :: int
  SCRAPY_MAX_EMPTY_LISTING_REPEATS :: int
  SCRAPY_MAX_DUPLICATE_LISTING_REPEATS :: int
  SCRAPY_LISTING_SIGNATURE_N :: nat
  SCRAPY_CRAWL_REGISTRY_MAX_ENTRIES :: int

text \<open>A page: the response, the URL of its request, and the meta it carries.\<close>

record page =
  pg_response :: response
  pg_request_url :: pystr
  pg_meta :: crawl_meta

record crawl_request =
  cq_url :: pystr
  cq_purpose :: pystr
  cq_meta :: crawl_meta

record crawl_ctx =
  cw_access :: access_ctx
  cw_gov :: gov_settings
  cw_settings :: crawl_settings
  cw_store :: pystr
  cw_supports_playwright :: bool
  cw_clock :: "nat \<Rightarrow> rat"
  cw_mem :: "nat \<Rightarrow> rat option"
  cw_start_urls :: "pystr list"
  cw_is_product_page :: "page \<Rightarrow> bool"
  cw_product_urls :: "page \<Rightarrow> pystr list"
  cw_category_urls :: "page \<Rightarrow> pystr list"
  cw_next_url :: "page \<Rightarrow> pystr option"
  cw_anchors :: "page \<Rightarrow> (pystr \<times> bool) list"
  cw_canonical_product :: "pystr \<Rightarrow> exc + pystr"
  cw_source_id :: "pystr \<Rightarrow> pystr option"
  cw_signature :: "page \<Rightarrow> pystr list \<Rightarrow> int \<Rightarrow> pystr"
  cw_extra :: "crawl_meta \<Rightarrow> crawl_meta"
  cw_product_meta :: "crawl_meta \<Rightarrow> crawl_meta"
  cw_urljoin :: "pystr \<Rightarrow> pystr \<Rightarrow> pystr"

record crawl_state =
  cs_registry :: crawl_registry
  cs_pending :: "(pystr \<times> crawl_meta) list"
  cs_pending_seen :: "pystr set"
  cs_tracker :: tracker
  cs_proxy :: proxy_state
  cs_tick :: nat

definition new_crawl :: "crawl_ctx \<Rightarrow> crawl_state" where
  "new_crawl k = \<lparr> cs_registry = new_crawl_registry (cw_store k), cs_pending = [], cs_pending_seen = {},
     cs_tracker = new_tracker, cs_proxy = new_proxy_state, cs_tick = 0 \<rparr>"

definition max_entries :: "crawl_ctx \<Rightarrow> int" where
  "max_entries k = SCRAPY_CRAWL_REGISTRY_MAX_ENTRIES (cw_settings k)"

definition on_registry :: "(crawl_registry \<Rightarrow> crawl_registry) \<Rightarrow> crawl_state \<Rightarrow> crawl_state" where
  "on_registry f st = st\<lparr>cs_registry := f (cs_registry st)\<rparr>"

text \<open>A generator: the requests it yields, the exception that ends it, if any, and the state it leaves.\<close>

type_synonym crawl_out = "crawl_request list \<times> exc option \<times> crawl_state"

definition then_yield :: "crawl_out \<Rightarrow> (crawl_state \<Rightarrow> crawl_out) \<Rightarrow> crawl_out" where
  "then_yield out f = (case out of
       (rs, Some x, st) \<Rightarrow> (rs, Some x, st)
     | (rs, None, st) \<Rightarrow> (case f st of (rs', x, st') \<Rightarrow> (rs @ rs', x, st')))"

section \<open>Scheduling\<close>

definition referer_of :: "crawl_meta \<Rightarrow> pystr option" where
  "referer_of m = py_or (cm_from_listing m) (cm_access_referer m)"

text \<open>
  Every request passes the guards against forged URLs, the outbound policy and the
  navigation guard, gets its access mode, and then needs room in the resource budgets.
\<close>

definition schedule_safe_request ::
    "crawl_ctx \<Rightarrow> pystr \<Rightarrow> pystr \<Rightarrow> crawl_meta \<Rightarrow> crawl_state \<Rightarrow> (exc + crawl_request option) \<times> crawl_state" where
  "schedule_safe_request k url purpose m st =
    (let net = ax_net (cw_access k); now = cw_clock k (cs_tick st); mem = cw_mem k (cs_tick st);
         st1 = st\<lparr>cs_tick := Suc (cs_tick st)\<rparr>
     in if reject_if_suspicious_url net url then (Inr None, st1)
        else if \<not> hv_allowed (validate_store_crawl_url net url) then (Inr None, st1)
        else (case can_open_new_page net url (referer_of m) of
            Inl x \<Rightarrow> (Inl x, st1)
          | Inr nav \<Rightarrow>
             (if \<not> nv_allowed nav then (Inr None, st1)
              else (case build_request_meta (cw_access k) now (cw_store k) purpose (or_zero (cm_prior_failures m))
                      (cm_force_browser m) (cm_force_proxy m) (cm_access_last_signal m) (cw_supports_playwright k) (Some url) (cs_proxy st1) of
                  (Inl x, px) \<Rightarrow> (Inl x, st1\<lparr>cs_proxy := px\<rparr>)
                | (Inr part, px) \<Rightarrow>
                   (let m1 = cw_extra k (update_access (cw_store k) purpose part m) in
                    case schedule_governed (cw_gov k) mem (cw_store k) purpose (cm_gov m1) (cs_tracker st1) of
                      (None, t) \<Rightarrow> (Inr None, st1\<lparr>cs_proxy := px, cs_tracker := t\<rparr>)
                    | (Some g, t) \<Rightarrow>
                       (Inr (Some \<lparr> cq_url = url, cq_purpose = purpose, cq_meta = m1\<lparr>cm_gov := g\<rparr> \<rparr>),
                        st1\<lparr>cs_proxy := px, cs_tracker := t\<rparr>))))))"

text \<open>The meta of the first page of a category.\<close>

definition no_gov_meta :: request_meta where
  "no_gov_meta = \<lparr> rm_access_mode_selected = None, rm_playwright = None, rm_page_goto_kwargs = False, rm_page_init_callback = False,
     rm_proxy = None, rm_bypass = False, rm_ticket = None \<rparr>"

definition category_meta :: "pystr \<Rightarrow> crawl_meta" where
  "category_meta url = \<lparr> cm_gov = no_gov_meta, cm_store_name = None, cm_access_purpose = None, cm_category_url = Some url,
     cm_from_listing = None, cm_access_referer = None, cm_page = Some 1, cm_empty_streak = Some 0, cm_dup_sig_streak = Some 0,
     cm_prior_failures = None, cm_force_browser = False, cm_force_proxy = False, cm_access_last_signal = None,
     cm_shell_strikes = None, cm_mw_retry = None, cm_retry_times = None \<rparr>"

definition yielded :: "(exc + crawl_request option) \<times> crawl_state \<Rightarrow> crawl_out" where
  "yielded r = (case r of
       (Inl x, st) \<Rightarrow> ([], Some x, st)
     | (Inr None, st) \<Rightarrow> ([], None, st)
     | (Inr (Some q), st) \<Rightarrow> ([q], None, st))"

fun start_requests :: "crawl_ctx \<Rightarrow> pystr list \<Rightarrow> crawl_state \<Rightarrow> crawl_out" where
  "start_requests k [] st = ([], None, st)"
| "start_requests k (url # urls) st =
    then_yield (yielded (schedule_safe_request k url ''listing'' (category_meta url)
        (on_registry (\<lambda>r. r\<lparr>categories_started_total := categories_started_total r + 1\<rparr>) st)))
      (start_requests k urls)"

definition schedule_product_request ::
    "crawl_ctx \<Rightarrow> pystr \<Rightarrow> pystr \<Rightarrow> crawl_meta \<Rightarrow> crawl_state \<Rightarrow> (exc + crawl_request option) \<times> crawl_state" where
  "schedule_product_request k url page_url m st =
    (case cw_canonical_product k (cw_urljoin k page_url (strip url)) of
       Inl x \<Rightarrow> (Inl x, st)
     | Inr canon \<Rightarrow>
        (let m1 = cw_product_meta k m in
         schedule_safe_request k canon ''product''
           (m1\<lparr>cm_from_listing := py_or (cm_from_listing m1) (Some page_url)\<rparr>) st))"

section \<open>Listing pages\<close>

text \<open>The signature of a listing in the framework, and the one Uzum's spider puts in its place.\<close>

definition signature_blob :: "pystr \<Rightarrow> int option \<Rightarrow> pystr list \<Rightarrow> nat \<Rightarrow> json" where
  "signature_blob path page head links = JObj
    ([(''head_urls'', JArr (map JStr head))] @ (case page of Some p \<Rightarrow> [(''page'', JInt p)] | None \<Rightarrow> [])
     @ [(''path'', JStr path), (''total_links'', JInt (int links))])"

definition url_path :: "pystr \<Rightarrow> pystr" where
  "url_path url = (case urlsplit5 url of Inl x \<Rightarrow> [] | Inr u \<Rightarrow> path_of u)"

definition build_listing_signature ::
    "(pystr \<Rightarrow> pystr) \<Rightarrow> (json \<Rightarrow> pystr) \<Rightarrow> nat \<Rightarrow> page \<Rightarrow> pystr list \<Rightarrow> int \<Rightarrow> pystr" where
  "build_listing_signature sha256 dumps n pg canon page =
    sha256 (dumps (signature_blob (url_path (rs_url (pg_response pg))) (Some page) (sort (take n canon)) (length canon)))"

definition uzum_listing_signature :: "(pystr \<Rightarrow> pystr) \<Rightarrow> (json \<Rightarrow> pystr) \<Rightarrow> page \<Rightarrow> pystr list \<Rightarrow> int \<Rightarrow> pystr" where
  "uzum_listing_signature sha256 dumps pg canon page =
    sha256 (dumps (signature_blob (rstrip_slash (url_path (rs_url (pg_response pg)))) None (sort (take 24 canon)) (length canon)))"

definition should_skip_product_url :: "crawl_ctx \<Rightarrow> pystr \<Rightarrow> crawl_registry \<Rightarrow> bool" where
  "should_skip_product_url k canon reg =
    (has_product_url canon reg \<or> (case cw_source_id k canon of Some sid \<Rightarrow> sid \<noteq> [] \<and> has_source_id sid reg | None \<Rightarrow> False))"

definition should_stop_pagination :: "crawl_settings \<Rightarrow> pystr option \<Rightarrow> int \<Rightarrow> int \<Rightarrow> int \<Rightarrow> pystr option" where
  "should_stop_pagination c next_url page empty_streak dup_sig_streak =
    (if \<not> truthy next_url then Some ''no_next_url''
     else if page \<ge> SCRAPY_MAX_PAGES_PER_CATEGORY c then Some ''max_pages''
     else if empty_streak \<ge> SCRAPY_MAX_EMPTY_LISTING_REPEATS c then Some ''empty_repeats''
     else if dup_sig_streak \<ge> SCRAPY_MAX_DUPLICATE_LISTING_REPEATS c then Some ''duplicate_listing_repeats''
     else None)"

text \<open>\<open>edge_cases.classify_listing_edge_case\<close>\<close>

definition classify_listing_edge_case :: "response \<Rightarrow> pystr list \<Rightarrow> nat \<Rightarrow> bool \<Rightarrow> bool \<Rightarrow> exc + pystr list" where
  "classify_listing_edge_case r urls threshold duplicate exhausted =
    (case map_exc canonicalize_crawl_url urls of
       Inl x \<Rightarrow> Inl x
     | Inr canon \<Rightarrow>
        (let ban = detect_ban_signal r None threshold; tag = (\<lambda>b t. if b then [t] else []) in
         Inr (tag (urls = []) ''listing_without_pdp'' @ tag (\<not> distinct canon) ''duplicate_pdp_urls''
           @ tag (ban = Some ''empty_shell'') ''empty_listing_shell'' @ tag (ban = Some ''js_shell'') ''js_shell_listing''
           @ tag (ban = Some ''mobile_redirect'') ''mobile_redirect'' @ tag duplicate ''listing_repeat''
           @ tag exhausted ''infinite_pagination'')))"

text \<open>Absolute URLs of the links that are not blank.\<close>

definition absolute_urls :: "crawl_ctx \<Rightarrow> pystr \<Rightarrow> pystr list \<Rightarrow> pystr list" where
  "absolute_urls k base urls = map (\<lambda>u. cw_urljoin k base (strip u)) (filter (\<lambda>u. strip u \<noteq> []) urls)"

section \<open>Products of a listing\<close>

definition enqueue_pending_listing_product ::
    "crawl_ctx \<Rightarrow> pystr \<Rightarrow> crawl_meta \<Rightarrow> pystr \<Rightarrow> int \<Rightarrow> pystr \<Rightarrow> crawl_state \<Rightarrow> exc option \<times> crawl_state" where
  "enqueue_pending_listing_product k abs_url m category_url page from_listing st =
    (case cw_canonical_product k abs_url of
       Inl x \<Rightarrow> (Some x, st)
     | Inr canon \<Rightarrow>
        (if should_skip_product_url k canon (cs_registry st) then (None, st)
         else if canon \<in> cs_pending_seen st then (None, st)
         else
          (let m1 = m\<lparr>cm_category_url := (case cm_category_url m of None \<Rightarrow> Some category_url | s \<Rightarrow> s),
                      cm_page := (case cm_page m of None \<Rightarrow> Some page | s \<Rightarrow> s),
                      cm_from_listing := (case cm_from_listing m of None \<Rightarrow> Some from_listing | s \<Rightarrow> s)\<rparr>
           in (None, st\<lparr>cs_pending := cs_pending st @ [(abs_url, m1)], cs_pending_seen := insert canon (cs_pending_seen st)\<rparr>))))"

text \<open>What the loop over the links of one page has met: canonical URLs and source ids.\<close>

type_synonym page_seen = "pystr set \<times> pystr set"

definition source_ids_of :: "crawl_ctx \<Rightarrow> pystr \<Rightarrow> pystr set" where
  "source_ids_of k canon = (case cw_source_id k canon of Some sid \<Rightarrow> if sid = [] then {} else {sid} | None \<Rightarrow> {})"

definition remember_product :: "crawl_ctx \<Rightarrow> pystr \<Rightarrow> crawl_registry \<Rightarrow> crawl_registry" where
  "remember_product k canon reg =
    (let reg1 = remember_product_url (max_entries k) canon reg in
     case cw_source_id k canon of Some sid \<Rightarrow> remember_source_id (max_entries k) sid reg1 | None \<Rightarrow> reg1)"

definition listing_product ::
    "crawl_ctx \<Rightarrow> page \<Rightarrow> pystr \<Rightarrow> int \<Rightarrow> pystr \<Rightarrow> page_seen \<Rightarrow> crawl_state \<Rightarrow> page_seen \<times> crawl_out" where
  "listing_product k pg category_url page u seen st =
    (case cw_canonical_product k u of
       Inl x \<Rightarrow> (seen, [], Some x, st)
     | Inr c \<Rightarrow>
        (let sids = source_ids_of k c;
             st1 = on_registry (\<lambda>r. r\<lparr>product_urls_seen_total := product_urls_seen_total r + 1\<rparr>) st;
             deduped = on_registry (\<lambda>r. r\<lparr>product_urls_deduped_total := product_urls_deduped_total r + 1\<rparr>) st1;
             seen' = (insert c (fst seen), snd seen \<union> sids)
         in if c \<in> fst seen \<or> sids \<inter> snd seen \<noteq> {} then (seen, [], None, deduped)
            else if should_skip_product_url k c (cs_registry st1) then (seen, [], None, deduped)
            else (case schedule_product_request k u (rs_url (pg_response pg)) (pg_meta pg) st1 of
                (Inl x, st2) \<Rightarrow> (seen, [], Some x, st2)
              | (Inr None, st2) \<Rightarrow>
                 (case enqueue_pending_listing_product k u (pg_meta pg) category_url page (rs_url (pg_response pg)) st2 of
                    (x, st3) \<Rightarrow> (seen', [], x, st3))
              | (Inr (Some q), st2) \<Rightarrow> (seen', [q], None, on_registry (remember_product k c) st2))))"

fun listing_products :: "crawl_ctx \<Rightarrow> page \<Rightarrow> pystr \<Rightarrow> int \<Rightarrow> pystr list \<Rightarrow> page_seen \<Rightarrow> crawl_state \<Rightarrow> crawl_out" where
  "listing_products k pg category_url page [] seen st = ([], None, st)"
| "listing_products k pg category_url page (u # us) seen st =
    (case listing_product k pg category_url page u seen st of
       (seen', out) \<Rightarrow> then_yield out (listing_products k pg category_url page us seen'))"

fun listing_categories :: "crawl_ctx \<Rightarrow> pystr list \<Rightarrow> crawl_state \<Rightarrow> crawl_out" where
  "listing_categories k [] st = ([], None, st)"
| "listing_categories k (cu # cus) st =
    (case canonicalize_crawl_url cu of
       Inl x \<Rightarrow> ([], Some x, st)
     | Inr ccu \<Rightarrow>
        (if has_listing_page_url ccu (cs_registry st) then listing_categories k cus st
         else then_yield (yielded (schedule_safe_request k cu ''listing'' (category_meta cu)
             (on_registry (remember_listing_page_url (max_entries k) ccu) st)))
           (listing_categories k cus)))"

section \<open>The next page\<close>

definition next_page :: "crawl_ctx \<Rightarrow> page \<Rightarrow> int \<Rightarrow> int \<Rightarrow> int \<Rightarrow> crawl_state \<Rightarrow> crawl_out" where
  "next_page k pg page empty_streak dup_sig_streak st =
    (let next_url = cw_next_url k pg in
     case should_stop_pagination (cw_settings k) next_url page empty_streak dup_sig_streak of
       Some reason \<Rightarrow> ([], None, if reason = ''duplicate_listing_repeats'' then on_registry note_pagination_loop st else st)
     | None \<Rightarrow>
        (let next_abs = cw_urljoin k (rs_url (pg_response pg)) (or_empty next_url) in
         case canonicalize_crawl_url next_abs of
           Inl x \<Rightarrow> ([], Some x, st)
         | Inr canon \<Rightarrow>
            (if has_listing_page_url canon (cs_registry st) then ([], None, on_registry note_pagination_loop st)
             else yielded (schedule_safe_request k next_abs ''listing''
               ((pg_meta pg)\<lparr>cm_page := Some (page + 1), cm_empty_streak := Some empty_streak, cm_dup_sig_streak := Some dup_sig_streak\<rparr>)
               st))))"

section \<open>A listing page\<close>

definition or_one :: "int option \<Rightarrow> int" where
  "or_one x = (case x of None \<Rightarrow> 1 | Some n \<Rightarrow> if n = 0 then 1 else n)"

text \<open>The product and category URLs of a page, and the canonical form of the former.\<close>

definition listing_links :: "crawl_ctx \<Rightarrow> page \<Rightarrow> exc + (pystr list \<times> pystr list \<times> pystr list)" where
  "listing_links k pg =
    (let base = rs_url (pg_response pg);
         pure_filter = filter_honeypot_links (cw_access k) (cw_store k) (cw_urljoin k base) (cw_anchors k pg)
     in case pure_filter (absolute_urls k base (cw_product_urls k pg)) of
          Inl x \<Rightarrow> Inl x
        | Inr (products, r1) \<Rightarrow>
           (case pure_filter (absolute_urls k base (cw_category_urls k pg)) of
              Inl x \<Rightarrow> Inl x
            | Inr (categories, r2) \<Rightarrow>
               (case map_exc (cw_canonical_product k) products of
                  Inl x \<Rightarrow> Inl x
                | Inr canon \<Rightarrow> Inr (products, categories, canon))))"

definition dup_streak :: "crawl_ctx \<Rightarrow> page \<Rightarrow> pystr list \<Rightarrow> int \<Rightarrow> crawl_registry \<Rightarrow> int" where
  "dup_streak k pg canon page reg =
    (if has_listing_signature (cw_signature k pg canon page) reg then or_zero (cm_dup_sig_streak (pg_meta pg)) + 1 else 0)"

definition empty_streak_of :: "page \<Rightarrow> pystr list \<Rightarrow> int" where
  "empty_streak_of pg canon = (if canon = [] then or_zero (cm_empty_streak (pg_meta pg)) + 1 else 0)"

definition note_signature :: "crawl_ctx \<Rightarrow> page \<Rightarrow> pystr list \<Rightarrow> int \<Rightarrow> crawl_registry \<Rightarrow> crawl_registry" where
  "note_signature k pg canon page reg =
    (let sig = cw_signature k pg canon page in
     if has_listing_signature sig reg then reg\<lparr>listing_pages_duplicated_total := listing_pages_duplicated_total reg + 1\<rparr>
     else remember_listing_signature (max_entries k) sig reg)"

definition note_results :: "crawl_ctx \<Rightarrow> page \<Rightarrow> pystr \<Rightarrow> int \<Rightarrow> pystr list \<Rightarrow> crawl_registry \<Rightarrow> crawl_registry" where
  "note_results k pg category_url page canon reg =
    (let reg1 = (if canon = [] then (if page = 1 then record_zero_result_category category_url reg else reg)
                 else record_category_with_results category_url reg);
         reg2 = reg1\<lparr>listing_cards_seen_total := listing_cards_seen_total reg1 + length canon\<rparr>
     in record_listing_stats (max_entries k) (rs_url (pg_response pg)) (length canon) reg2)"

definition parse_listing :: "crawl_ctx \<Rightarrow> page \<Rightarrow> crawl_state \<Rightarrow> crawl_out" where
  "parse_listing k pg st0 =
    (let r = pg_response pg; m = pg_meta pg;
         category_url = (if truthy (cm_category_url m) then or_empty (cm_category_url m) else rs_url r);
         page = or_one (cm_page m);
         st1 = on_registry (note_pagination_depth page) st0
     in case canonicalize_crawl_url (rs_url r) of
          Inl x \<Rightarrow> ([], Some x, st1)
        | Inr listing_canon \<Rightarrow>
           (let st2 = on_registry (\<lambda>reg. let reg1 = remember_listing_page_url (max_entries k) listing_canon reg in
                  reg1\<lparr>listing_pages_seen_total := listing_pages_seen_total reg1 + 1\<rparr>) st1
            in case listing_links k pg of
                 Inl x \<Rightarrow> ([], Some x, st2)
               | Inr (products, categories, canon) \<Rightarrow>
                  (let dup = has_listing_signature (cw_signature k pg canon page) (cs_registry st2);
                       dups = dup_streak k pg canon page (cs_registry st2);
                       threshold = sp_empty_body_threshold (get_store_profile (cw_store k));
                       st3 = on_registry (note_signature k pg canon page) st2;
                       st4 = (if detect_ban_signal r (Some (pg_request_url pg)) threshold \<noteq> None then on_registry note_banned_response st3 else st3)
                   in case classify_listing_edge_case r products threshold dup (dups \<ge> SCRAPY_MAX_DUPLICATE_LISTING_REPEATS (cw_settings k)) of
                        Inl x \<Rightarrow> ([], Some x, st4)
                      | Inr tags \<Rightarrow>
                         then_yield
                           (then_yield
                             (listing_products k pg category_url page products ({}, {})
                               (on_registry (\<lambda>reg. note_results k pg category_url page canon (note_edge_cases tags reg)) st4))
                             (listing_categories k categories))
                           (next_page k pg page (empty_streak_of pg canon) dups))))"

section \<open>Deferred products\<close>

definition PENDING_PRODUCT_DRAIN_LIMIT :: nat where
  "PENDING_PRODUCT_DRAIN_LIMIT = 12"

text \<open>
  One round of the loop on the head of the queue: how many requests it made, if the loop
  goes on (a skipped entry makes none), or \<^const>\<open>None\<close> when a refused request ends it.
\<close>

definition drain_one :: "crawl_ctx \<Rightarrow> pystr \<Rightarrow> crawl_state \<Rightarrow> nat option \<times> crawl_out" where
  "drain_one k page_url st = (case cs_pending st of
       [] \<Rightarrow> (None, [], None, st)
     | (abs_url, m) # queue \<Rightarrow>
        (case cw_canonical_product k abs_url of
           Inl x \<Rightarrow> (None, [], Some x, st)
         | Inr canon \<Rightarrow>
            (let popped = (\<lambda>s. s\<lparr>cs_pending := queue, cs_pending_seen := cs_pending_seen s - {canon}\<rparr>) in
             if should_skip_product_url k canon (cs_registry st) then (Some 0, [], None, popped st)
             else (case schedule_product_request k abs_url page_url m st of
                 (Inl x, st1) \<Rightarrow> (None, [], Some x, st1)
               | (Inr None, st1) \<Rightarrow> (None, [], None, st1)
               | (Inr (Some q), st1) \<Rightarrow> (Some 1, [q], None, on_registry (remember_product k canon) (popped st1))))))"

text \<open>
  \<open>n\<close> requests may still be made.  A round that goes on takes an entry off the queue, so
  as many rounds as the queue is long are enough.
\<close>

fun drain_loop :: "nat \<Rightarrow> nat \<Rightarrow> crawl_ctx \<Rightarrow> pystr \<Rightarrow> crawl_state \<Rightarrow> crawl_out" where
  "drain_loop 0 n k page_url st = ([], None, st)"
| "drain_loop (Suc rounds) n k page_url st =
    (if n = 0 \<or> cs_pending st = [] then ([], None, st)
     else (case drain_one k page_url st of
         (None, out) \<Rightarrow> out
       | (Some made, out) \<Rightarrow> then_yield out (drain_loop rounds (n - made) k page_url)))"

definition drain_pending_listing_products :: "crawl_ctx \<Rightarrow> page \<Rightarrow> crawl_state \<Rightarrow> crawl_out" where
  "drain_pending_listing_products k pg st =
    drain_loop (length (cs_pending st)) PENDING_PRODUCT_DRAIN_LIMIT k (rs_url (pg_response pg)) st"

section \<open>A response\<close>

text \<open>
  \<open>parse\<close> as far as requests go: the items of a product page are the business of
  \<open>parse_product\<close>, given as \<open>items\<close>, which changes counters only.
\<close>

definition parse :: "crawl_ctx \<Rightarrow> (page \<Rightarrow> crawl_registry \<Rightarrow> exc option \<times> crawl_registry) \<Rightarrow> page \<Rightarrow> crawl_state \<Rightarrow> crawl_out" where
  "parse k items pg st =
    (let st1 = st\<lparr>cs_tracker := release_request_governance_counters (cw_gov k) (cm_gov (pg_meta pg)) (cw_store k) (cs_tracker st)\<rparr> in
     if \<not> should_download_response (pg_response pg) then ([], None, st1)
     else if cw_is_product_page k pg
     then (case items pg (cs_registry st1) of
         (x, reg) \<Rightarrow> then_yield ([], x, st1\<lparr>cs_registry := reg\<rparr>) (drain_pending_listing_products k pg))
     else parse_listing k pg st1)"

definition errback_default :: "crawl_ctx \<Rightarrow> crawl_meta \<Rightarrow> crawl_state \<Rightarrow> crawl_state" where
  "errback_default k m st =
    st\<lparr>cs_tracker := release_request_governance_counters (cw_gov k) (cm_gov m) (cw_store k) (cs_tracker st)\<rparr>"

end
