(* ===== verification/Crawl_Invariant.thy ===== *)
theory Crawl_Invariant imports Crawl begin

text \<open>
  What holds in every state of a crawl.  The callbacks of the spider are generators, which
  Scrapy may interleave at their yields, so the step relation has one step per round of
  their loops; \<open>parse_steps\<close> shows that a callback is a sequence of such steps.
\<close>

section \<open>Schedules\<close>

lemma schedule_keeps:
  assumes "schedule_safe_request k url purpose m st = (r, st')"
  shows "cs_registry st' = cs_registry st \<and> cs_pending st' = cs_pending st \<and> cs_pending_seen st' = cs_pending_seen st
    \<and> (\<forall>q. r = Inr (Some q) \<longrightarrow> cq_url q = url \<and> cq_purpose q = purpose)"
  using assms
  by (auto simp: schedule_safe_request_def Let_def split: if_splits sum.splits prod.splits option.splits)

lemma schedule_product_keeps:
  assumes "schedule_product_request k url page_url m st = (r, st')"
  shows "cs_registry st' = cs_registry st \<and> cs_pending st' = cs_pending st \<and> cs_pending_seen st' = cs_pending_seen st
    \<and> (\<forall>q. r = Inr (Some q) \<longrightarrow> Inr (cq_url q) = cw_canonical_product k (cw_urljoin k page_url (strip url)) \<and> cq_purpose q = ''product'')"
proof (cases "cw_canonical_product k (cw_urljoin k page_url (strip url))")
  case (Inl x)
  with assms show ?thesis by (auto simp: schedule_product_request_def)
next
  case (Inr canon)
  with assms have "schedule_safe_request k canon ''product''
      ((cw_product_meta k m)\<lparr>cm_from_listing := py_or (cm_from_listing (cw_product_meta k m)) (Some page_url)\<rparr>) st = (r, st')"
    by (simp add: schedule_product_request_def Let_def)
  from schedule_keeps [OF this] Inr show ?thesis by auto
qed

section \<open>Steps\<close>

text \<open>What \<open>urljoin\<close> yields is absolute: joining it again does not change its canonical form.\<close>

definition join_stable :: "crawl_ctx \<Rightarrow> bool" where
  "join_stable k \<longleftrightarrow> (\<forall>base base' u. cw_canonical_product k (cw_urljoin k base (strip (cw_urljoin k base' u)))
     = cw_canonical_product k (cw_urljoin k base' u))"

definition same_memory :: "crawl_state \<Rightarrow> crawl_state \<Rightarrow> bool" where
  "same_memory st st' \<longleftrightarrow> cr_products (cs_registry st') = cr_products (cs_registry st)
     \<and> cs_pending st' = cs_pending st \<and> cs_pending_seen st' = cs_pending_seen st"

definition product_urls :: "crawl_request list \<Rightarrow> pystr list" where
  "product_urls rs = map cq_url (filter (\<lambda>q. cq_purpose q = ''product'') rs)"

text \<open>A state comes with the canonical URLs of the product requests made so far.\<close>

inductive crawl_step :: "crawl_ctx \<Rightarrow> crawl_state \<times> pystr list \<Rightarrow> crawl_state \<times> pystr list \<Rightarrow> bool" for k where
  link: "listing_product k pg category_url page (cw_urljoin k base u) seen st = (seen', rs, x, st') \<Longrightarrow>
    crawl_step k (st, made) (st', made @ product_urls rs)"
| drain: "drain_one k page_url st = (c, rs, x, st') \<Longrightarrow> crawl_step k (st, made) (st', made @ product_urls rs)"
| other: "same_memory st st' \<Longrightarrow> crawl_step k (st, made) (st', made)"

inductive crawl_reach :: "crawl_ctx \<Rightarrow> crawl_state \<times> pystr list \<Rightarrow> crawl_state \<times> pystr list \<Rightarrow> bool" for k where
  none: "crawl_reach k w w"
| more: "crawl_reach k w w1 \<Longrightarrow> crawl_step k w1 w2 \<Longrightarrow> crawl_reach k w w2"

inductive_cases crawl_stepE: "crawl_step k (st, made) w"

lemma crawl_reach_trans: "crawl_reach k w1 w2 \<Longrightarrow> crawl_reach k w w1 \<Longrightarrow> crawl_reach k w w2"
  by (induction rule: crawl_reach.induct) (auto intro: crawl_reach.intros)

lemma crawl_reach_one: "crawl_step k w w' \<Longrightarrow> crawl_reach k w w'"
  by (blast intro: crawl_reach.intros)

lemma reach_other: "same_memory st st' \<Longrightarrow> crawl_reach k (st, made) (st', made)"
  by (blast intro: crawl_reach_one crawl_step.other)

lemma product_urls_simps [simp]:
  "product_urls [] = []" "product_urls (rs @ rs') = product_urls rs @ product_urls rs'"
  by (simp_all add: product_urls_def)

text \<open>A generator runs in steps.\<close>

definition runs :: "crawl_ctx \<Rightarrow> crawl_state \<Rightarrow> crawl_out \<Rightarrow> bool" where
  "runs k st out \<longleftrightarrow> (\<forall>made. crawl_reach k (st, made) (snd (snd out), made @ product_urls (fst out)))"

lemma runs_then: "runs k st out \<Longrightarrow> (\<And>st1. runs k st1 (f st1)) \<Longrightarrow> runs k st (then_yield out f)"
  unfolding runs_def then_yield_def
  by (cases out) (auto split: option.splits prod.splits intro: crawl_reach_trans,
      metis append.assoc crawl_reach_trans fst_conv snd_conv)

lemma runs_other: "same_memory st st' \<Longrightarrow> product_urls rs = [] \<Longrightarrow> runs k st (rs, x, st')"
  by (simp add: runs_def reach_other)

lemma runs_after: "same_memory st st' \<Longrightarrow> runs k st' out \<Longrightarrow> runs k st out"
  unfolding runs_def using crawl_reach_trans reach_other by blast

lemma same_memory_refl [simp]: "same_memory st st"
  by (simp add: same_memory_def)

section \<open>Callbacks are sequences of steps\<close>

lemma runs_listing_request: "same_memory st st' \<Longrightarrow> runs k st (yielded (schedule_safe_request k url ''listing'' m st'))"
  using schedule_keeps [of k url "''listing''" m st']
  by (auto simp: yielded_def same_memory_def product_urls_def split: prod.splits sum.splits option.splits intro!: runs_other)

lemma listing_product_seen:
  "listing_product k pg category_url page u seen st = (seen', out) \<Longrightarrow> \<exists>rs x st'. out = (rs, x, st')"
  by (cases out) auto

lemma runs_listing_products:
  "(\<forall>u\<in>set us. \<exists>base v. u = cw_urljoin k base v) \<Longrightarrow> runs k st (listing_products k pg category_url page us seen st)"
proof (induction us arbitrary: seen st)
  case Nil
  then show ?case by (simp add: runs_other)
next
  case (Cons u us)
  then obtain base v where u: "u = cw_urljoin k base v" by auto
  obtain seen' rs x st1 where lp: "listing_product k pg category_url page u seen st = (seen', rs, x, st1)"
    by (metis prod_cases4)
  then have "runs k st (rs, x, st1)"
    unfolding runs_def u by (auto intro: crawl_reach_one crawl_step.link)
  then have "runs k st (then_yield (rs, x, st1) (listing_products k pg category_url page us seen'))"
    by (rule runs_then) (use Cons in simp)
  with lp show ?case by simp
qed

lemma runs_listing_categories: "runs k st (listing_categories k cus st)"
proof (induction cus arbitrary: st)
  case Nil
  then show ?case by (simp add: runs_other)
next
  case (Cons cu cus)
  have mem: "same_memory st (on_registry (remember_listing_page_url n c) st)" for n c
    by (simp add: same_memory_def on_registry_def remember_listing_page_url_def)
  show ?case
  proof (cases "canonicalize_crawl_url cu")
    case (Inl x)
    then show ?thesis by (simp add: runs_other product_urls_simps)
  next
    case (Inr c)
    have "runs k st (then_yield (yielded (schedule_safe_request k cu ''listing'' (category_meta cu)
        (on_registry (remember_listing_page_url (max_entries k) c) st))) (listing_categories k cus))"
      by (rule runs_then [OF runs_listing_request [OF mem]]) (rule Cons.IH)
    with Inr Cons.IH show ?thesis by simp
  qed
qed

lemma runs_next_page: "runs k st (next_page k pg page e d st)"
  by (auto simp: next_page_def Let_def same_memory_def on_registry_def note_pagination_loop_def
      split: option.split sum.split intro!: runs_other runs_listing_request)

lemma absolute_urls_joined: "u \<in> set (absolute_urls k base urls) \<Longrightarrow> \<exists>v. u = cw_urljoin k base v"
  by (auto simp: absolute_urls_def)

lemma listing_links_joined:
  assumes "listing_links k pg = Inr (products, categories, canon)"
  shows "\<forall>u\<in>set products. \<exists>base v. u = cw_urljoin k base v"
proof -
  let ?base = "rs_url (pg_response pg)"
  from assms obtain r where "filter_honeypot_links (cw_access k) (cw_store k) (cw_urljoin k ?base) (cw_anchors k pg)
      (absolute_urls k ?base (cw_product_urls k pg)) = Inr (products, r)"
    by (auto simp: listing_links_def Let_def split: sum.splits)
  from honeypot_kept [OF this] absolute_urls_joined show ?thesis by blast
qed

text \<open>The notes a listing page takes before its links are followed.\<close>

lemma note_products [simp]:
  "cr_products (note_pagination_depth p reg) = cr_products reg"
  "cr_products (remember_listing_page_url n u reg) = cr_products reg"
  "cr_products (note_signature k pg canon page reg) = cr_products reg"
  "cr_products (note_banned_response reg) = cr_products reg"
  "cr_products (note_edge_cases tags reg) = cr_products reg"
  "cr_products (note_results k pg cat page canon reg) = cr_products reg"
  by (simp_all add: note_pagination_depth_def remember_listing_page_url_def note_signature_def remember_listing_signature_def
      note_banned_response_def note_edge_cases_def note_results_def record_zero_result_category_def record_category_with_results_def
      record_listing_stats_def Let_def)

lemma same_memory_registry: "(\<And>reg. cr_products (f reg) = cr_products reg) \<Longrightarrow> same_memory st (on_registry f st)"
  by (simp add: same_memory_def on_registry_def)

lemma same_memory_trans: "same_memory st st1 \<Longrightarrow> same_memory st1 st2 \<Longrightarrow> same_memory st st2"
  by (simp add: same_memory_def)

lemma runs_parse_listing: "runs k st (parse_listing k pg st)"
proof -
  let ?r = "pg_response pg" and ?page = "or_one (cm_page (pg_meta pg))"
  define st1 where "st1 = on_registry (note_pagination_depth ?page) st"
  have s1: "same_memory st st1" by (simp add: st1_def same_memory_registry)
  show ?thesis
  proof (cases "canonicalize_crawl_url (rs_url ?r)")
    case (Inl x)
    with s1 show ?thesis by (auto simp: parse_listing_def Let_def st1_def intro: runs_other)
  next
    case (Inr listing_canon)
    note canonical = Inr
    define st2 where "st2 = on_registry (\<lambda>reg. let reg1 = remember_listing_page_url (max_entries k) listing_canon reg in
        reg1\<lparr>listing_pages_seen_total := listing_pages_seen_total reg1 + 1\<rparr>) st1"
    have s2: "same_memory st st2"
      unfolding st2_def by (rule same_memory_trans [OF s1]) (simp add: same_memory_registry Let_def)
    show ?thesis
    proof (cases "listing_links k pg")
      case (Inl x)
      with s2 Inr show ?thesis by (auto simp: parse_listing_def Let_def st1_def st2_def intro: runs_other)
    next
      case (Inr l)
      then obtain products categories canon where links: "listing_links k pg = Inr (products, categories, canon)"
        by (cases l) auto
      define st4 where "st4 = (if detect_ban_signal ?r (Some (pg_request_url pg)) (sp_empty_body_threshold (get_store_profile (cw_store k))) \<noteq> None
        then on_registry note_banned_response (on_registry (note_signature k pg canon ?page) st2)
        else on_registry (note_signature k pg canon ?page) st2)"
      have "same_memory st2 (on_registry (note_signature k pg canon ?page) st2)" by (rule same_memory_registry) simp
      moreover have "same_memory w (on_registry note_banned_response w)" for w by (rule same_memory_registry) simp
      ultimately have s4: "same_memory st st4" unfolding st4_def using s2 by (auto intro: same_memory_trans)
      have s5: "same_memory st (on_registry (\<lambda>reg. note_results k pg cat ?page canon (note_edge_cases tags reg)) st4)" for cat tags
        by (rule same_memory_trans [OF s4], rule same_memory_registry) simp
      let ?cat = "if truthy (cm_category_url (pg_meta pg)) then or_empty (cm_category_url (pg_meta pg)) else rs_url ?r"
        and ?dups = "dup_streak k pg canon ?page (cs_registry st2)"
      have eq: "parse_listing k pg st = (case classify_listing_edge_case ?r products (sp_empty_body_threshold (get_store_profile (cw_store k)))
              (has_listing_signature (cw_signature k pg canon ?page) (cs_registry st2))
              (SCRAPY_MAX_DUPLICATE_LISTING_REPEATS (cw_settings k) \<le> ?dups) of
           Inl x \<Rightarrow> ([], Some x, st4)
         | Inr tags \<Rightarrow> then_yield (then_yield (listing_products k pg ?cat ?page products ({}, {})
               (on_registry (\<lambda>reg. note_results k pg ?cat ?page canon (note_edge_cases tags reg)) st4)) (listing_categories k categories))
             (next_page k pg ?page (empty_streak_of pg canon) ?dups))"
        unfolding parse_listing_def Let_def canonical links st1_def st2_def st4_def sum.case prod.case by (rule refl)
      have "runs k w (then_yield (then_yield (listing_products k pg ?cat ?page products ({}, {}) w) (listing_categories k categories))
             (next_page k pg ?page (empty_streak_of pg canon) ?dups))" for w
        by (intro runs_then runs_listing_products [OF listing_links_joined [OF links]] runs_listing_categories runs_next_page)
      note fin = runs_after [OF s5 this]
      show ?thesis unfolding eq
        by (split sum.split) (intro conjI allI impI; (rule fin | rule runs_other [OF s4 product_urls_simps(1)]))
    qed
  qed
qed

lemma runs_drain_loop: "runs k st (drain_loop rounds n k page_url st)"
proof (induction rounds arbitrary: n st)
  case 0
  then show ?case by (simp add: runs_other)
next
  case (Suc rounds)
  obtain c rs x st1 where one: "drain_one k page_url st = (c, rs, x, st1)" by (metis prod_cases4)
  then have "runs k st (rs, x, st1)" unfolding runs_def by (auto intro: crawl_reach_one crawl_step.drain)
  with Suc one show ?case by (auto split: option.split intro: runs_then runs_other)
qed

lemma parse_steps:
  assumes "\<And>reg. cr_products (snd (items pg reg)) = cr_products reg"
  shows "runs k st (parse k items pg st)"
proof -
  let ?st = "st\<lparr>cs_tracker := release_request_governance_counters (cw_gov k) (cm_gov (pg_meta pg)) (cw_store k) (cs_tracker st)\<rparr>"
  have s: "same_memory st ?st" by (simp add: same_memory_def)
  obtain x reg where it: "items pg (cs_registry ?st) = (x, reg)" by force
  then have "same_memory st (?st\<lparr>cs_registry := reg\<rparr>)" using assms [of "cs_registry ?st"] by (simp add: same_memory_def)
  then have reg: "same_memory st (?st\<lparr>cs_registry := reg\<rparr>)" by simp
  have drain: "runs k st1 (drain_pending_listing_products k pg st1)" for st1
    by (simp add: drain_pending_listing_products_def runs_drain_loop)
  consider "\<not> should_download_response (pg_response pg)" | "should_download_response (pg_response pg)" "cw_is_product_page k pg"
    | "should_download_response (pg_response pg)" "\<not> cw_is_product_page k pg" by blast
  then show ?thesis
  proof cases
    case 1
    with s show ?thesis by (simp add: parse_def Let_def runs_other)
  next
    case 2
    have "runs k st (then_yield ([], x, ?st\<lparr>cs_registry := reg\<rparr>) (drain_pending_listing_products k pg))"
      by (rule runs_then [OF runs_other [OF reg] drain]) simp
    with 2 it show ?thesis by (simp add: parse_def Let_def)
  next
    case 3
    with runs_after [OF s runs_parse_listing] show ?thesis by (simp add: parse_def Let_def)
  qed
qed

section \<open>The invariant\<close>

text \<open>A request is made only for a product that is not among the last ones remembered.\<close>

definition spaced :: "int \<Rightarrow> pystr list \<Rightarrow> bool" where
  "spaced m made \<longleftrightarrow> (\<forall>xs u ys. made = xs @ u # ys \<longrightarrow> u \<notin> set (recent m xs))"

lemma spaced_snoc: "spaced m made \<Longrightarrow> u \<notin> set (recent m made) \<Longrightarrow> spaced m (made @ [u])"
  by (fastforce simp: spaced_def append_eq_append_conv2 Cons_eq_append_conv append_eq_Cons_conv)

definition pending_ok :: "crawl_ctx \<Rightarrow> crawl_state \<Rightarrow> bool" where
  "pending_ok k st \<longleftrightarrow> (\<exists>cs. map (cw_canonical_product k \<circ> fst) (cs_pending st) = map Inr cs \<and> distinct cs \<and> set cs = cs_pending_seen st)
     \<and> (\<forall>x\<in>set (cs_pending st). \<exists>base v. fst x = cw_urljoin k base v)"

definition crawl_ok :: "crawl_ctx \<Rightarrow> crawl_state \<times> pystr list \<Rightarrow> bool" where
  "crawl_ok k w \<longleftrightarrow> od_keys (cr_products (cs_registry (fst w))) = recent (max_entries k) (snd w)
     \<and> spaced (max_entries k) (snd w) \<and> pending_ok k (fst w)"

lemma crawl_ok_new: "crawl_ok k (new_crawl k, [])"
  by (simp add: crawl_ok_def new_crawl_def new_crawl_registry_def recent_def spaced_def pending_ok_def od_keys_def)

lemma has_product_iff: "has_product_url u reg \<longleftrightarrow> u \<in> set (od_keys (cr_products reg))"
  by (simp add: has_product_url_def set_od_keys)

lemma remember_product_keys:
  "od_keys (cr_products reg) = recent (max_entries k) made \<Longrightarrow> od_keys (cr_products (remember_product k c reg)) = recent (max_entries k) (made @ [c])"
  by (auto simp: remember_product_def remember_product_url_def remember_source_id_def od_keys_seen Let_def split: option.split)

lemma ok_same: "crawl_ok k (st, made) \<Longrightarrow> same_memory st st' \<Longrightarrow> crawl_ok k (st', made)"
  by (simp add: crawl_ok_def same_memory_def pending_ok_def)

lemma ok_request:
  assumes "crawl_ok k (st, made)" and "same_memory st st'" and "\<not> has_product_url c (cs_registry st)"
  shows "crawl_ok k (on_registry (remember_product k c) st', made @ [c])"
proof -
  from ok_same [OF assms(1,2)] have ok: "crawl_ok k (st', made)" .
  have "c \<notin> set (recent (max_entries k) made)"
    using assms(1,3) by (simp add: crawl_ok_def has_product_iff)
  with ok show ?thesis
    by (auto simp: crawl_ok_def on_registry_def remember_product_keys spaced_snoc pending_ok_def)
qed

lemma enqueue_cases:
  assumes "enqueue_pending_listing_product k u m cat page from_listing st = (x, st')"
  shows "st' = st \<or> (\<exists>c m1. cw_canonical_product k u = Inr c \<and> c \<notin> cs_pending_seen st
      \<and> st' = st\<lparr>cs_pending := cs_pending st @ [(u, m1)], cs_pending_seen := insert c (cs_pending_seen st)\<rparr>)"
proof (cases "cw_canonical_product k u")
  case (Inl y)
  with assms show ?thesis by (simp add: enqueue_pending_listing_product_def)
next
  case (Inr c)
  show ?thesis
  proof (cases "should_skip_product_url k c (cs_registry st) \<or> c \<in> cs_pending_seen st")
    case True
    with assms Inr show ?thesis by (auto simp: enqueue_pending_listing_product_def split: if_splits)
  next
    case False
    with assms Inr show ?thesis by (simp add: enqueue_pending_listing_product_def Let_def) blast
  qed
qed

text \<open>What one link of a listing page does to the memory of the crawl.\<close>

lemma listing_product_cases:
  assumes "listing_product k pg category_url page u seen st = (seen', rs, x, st')"
  obtains (kept) "rs = []" "same_memory st st'"
  | (queued) st2 x' where "rs = []" "same_memory st st2"
      "enqueue_pending_listing_product k u (pg_meta pg) category_url page (rs_url (pg_response pg)) st2 = (x', st')"
  | (made) c q st1 st2 where "cw_canonical_product k u = Inr c" "\<not> should_skip_product_url k c (cs_registry st1)"
      "same_memory st st1" "schedule_product_request k u (rs_url (pg_response pg)) (pg_meta pg) st1 = (Inr (Some q), st2)"
      "rs = [q]" "st' = on_registry (remember_product k c) st2"
proof (cases "cw_canonical_product k u")
  case (Inl y)
  with assms kept show thesis by (simp add: listing_product_def)
next
  case (Inr c)
  let ?purl = "rs_url (pg_response pg)"
  define st1 where "st1 = on_registry (\<lambda>r. r\<lparr>product_urls_seen_total := product_urls_seen_total r + 1\<rparr>) st"
  have s1: "same_memory st st1" by (simp add: st1_def same_memory_registry)
  have dd: "same_memory st (on_registry (\<lambda>r. r\<lparr>product_urls_deduped_total := product_urls_deduped_total r + 1\<rparr>) st1)"
    by (rule same_memory_trans [OF s1]) (simp add: same_memory_registry)
  show thesis
  proof (cases "c \<in> fst seen \<or> source_ids_of k c \<inter> snd seen \<noteq> {} \<or> should_skip_product_url k c (cs_registry st1)")
    case True
    then have "rs = []" "st' = on_registry (\<lambda>r. r\<lparr>product_urls_deduped_total := product_urls_deduped_total r + 1\<rparr>) st1"
      using assms Inr by (auto simp: listing_product_def Let_def st1_def split: if_splits)
    with dd kept show thesis by simp
  next
    case False
    obtain r st2 where sp: "schedule_product_request k u ?purl (pg_meta pg) st1 = (r, st2)" by force
    have s2: "same_memory st st2" using s1 schedule_product_keeps [OF sp] by (simp add: same_memory_def)
    have step: "(case (r, st2) of
          (Inl x, st2) \<Rightarrow> (seen, [], Some x, st2)
        | (Inr None, st2) \<Rightarrow>
           (case enqueue_pending_listing_product k u (pg_meta pg) category_url page ?purl st2 of
              (x, st3) \<Rightarrow> ((insert c (fst seen), snd seen \<union> source_ids_of k c), [], x, st3))
        | (Inr (Some q), st2) \<Rightarrow> ((insert c (fst seen), snd seen \<union> source_ids_of k c), [q], None, on_registry (remember_product k c) st2))
        = (seen', rs, x, st')"
      using assms Inr False sp unfolding st1_def by (simp add: listing_product_def Let_def)
    show thesis
    proof (cases r)
      case (Inl y)
      with step s2 kept show thesis by simp
    next
      case r: (Inr o')
      show thesis
      proof (cases o')
        case None
        obtain x' st3 where "enqueue_pending_listing_product k u (pg_meta pg) category_url page ?purl st2 = (x', st3)" by force
        with step r None s2 queued show thesis by simp
      next
        case (Some q)
        with step r have req: "rs = [q]" and st': "st' = on_registry (remember_product k c) st2" by auto
        show thesis by (rule made [OF Inr _ s1 _ req st']) (use False sp r Some in auto)
      qed
    qed
  qed
qed

text \<open>And one round on the queue.\<close>

lemma drain_one_cases:
  assumes "drain_one k page_url st = (n, rs, x, st')"
  obtains (kept) "rs = []" "same_memory st st'"
  | (dropped) u m queue c where "cs_pending st = (u, m) # queue" "cw_canonical_product k u = Inr c" "rs = []"
      "st' = st\<lparr>cs_pending := queue, cs_pending_seen := cs_pending_seen st - {c}\<rparr>"
  | (made) u m queue c q st2 where "cs_pending st = (u, m) # queue" "cw_canonical_product k u = Inr c"
      "\<not> should_skip_product_url k c (cs_registry st)"
      "schedule_product_request k u page_url m st = (Inr (Some q), st2)" "rs = [q]"
      "st' = on_registry (remember_product k c) (st2\<lparr>cs_pending := queue, cs_pending_seen := cs_pending_seen st2 - {c}\<rparr>)"
proof (cases "cs_pending st")
  case Nil
  with assms kept show thesis by (simp add: drain_one_def)
next
  case (Cons e queue)
  then obtain u m where pend: "cs_pending st = (u, m) # queue" by (cases e) auto
  show thesis
  proof (cases "cw_canonical_product k u")
    case (Inl y)
    with assms pend kept show thesis by (simp add: drain_one_def)
  next
    case (Inr c)
    show thesis
    proof (cases "should_skip_product_url k c (cs_registry st)")
      case True
      with assms pend Inr have "rs = []" "st' = st\<lparr>cs_pending := queue, cs_pending_seen := cs_pending_seen st - {c}\<rparr>"
        by (simp_all add: drain_one_def Let_def)
      with pend Inr dropped show thesis by blast
    next
      case False
      obtain r st2 where sp: "schedule_product_request k u page_url m st = (r, st2)" by force
      have s2: "same_memory st st2" using schedule_product_keeps [OF sp] by (simp add: same_memory_def)
      show thesis
      proof (cases r)
        case (Inl y)
        with assms pend Inr False sp s2 kept show thesis by (simp add: drain_one_def Let_def)
      next
        case r: (Inr o')
        show thesis
        proof (cases o')
          case None
          with assms pend Inr False sp r s2 kept show thesis by (simp add: drain_one_def Let_def)
        next
          case (Some q)
          from assms pend Inr False sp r Some have "rs = [q]"
            "st' = on_registry (remember_product k c) (st2\<lparr>cs_pending := queue, cs_pending_seen := cs_pending_seen st2 - {c}\<rparr>)"
            by (simp_all add: drain_one_def Let_def)
          with pend Inr False sp r Some made show thesis by blast
        qed
      qed
    qed
  qed
qed

lemma ok_enqueue:
  assumes "crawl_ok k (st, made)" and "enqueue_pending_listing_product k (cw_urljoin k base u) m cat page from_listing st = (x, st')"
  shows "crawl_ok k (st', made)"
proof -
  let ?u = "cw_urljoin k base u"
  have "st' = st \<or> (\<exists>c m1. cw_canonical_product k ?u = Inr c \<and> c \<notin> cs_pending_seen st
      \<and> st' = st\<lparr>cs_pending := cs_pending st @ [(?u, m1)], cs_pending_seen := insert c (cs_pending_seen st)\<rparr>)"
    by (rule enqueue_cases [OF assms(2)])
  then consider "st' = st" | c m1 where "cw_canonical_product k ?u = Inr c" "c \<notin> cs_pending_seen st"
      "st' = st\<lparr>cs_pending := cs_pending st @ [(?u, m1)], cs_pending_seen := insert c (cs_pending_seen st)\<rparr>"
    by blast
  then show ?thesis
  proof cases
    case 1
    with assms(1) show ?thesis by simp
  next
    case (2 c m1)
    from assms(1) obtain cs where cs: "map (cw_canonical_product k \<circ> fst) (cs_pending st) = map Inr cs" "distinct cs" "set cs = cs_pending_seen st"
      by (auto simp: crawl_ok_def pending_ok_def)
    have "map (cw_canonical_product k \<circ> fst) (cs_pending st') = map Inr (cs @ [c])" "distinct (cs @ [c])" "set (cs @ [c]) = cs_pending_seen st'"
      using 2 cs by auto
    then have "\<exists>cs. map (cw_canonical_product k \<circ> fst) (cs_pending st') = map Inr cs \<and> distinct cs \<and> set cs = cs_pending_seen st'" by blast
    moreover have "\<forall>y\<in>set (cs_pending st'). \<exists>base v. fst y = cw_urljoin k base v"
      using assms(1) 2 by (auto simp: crawl_ok_def pending_ok_def)
    ultimately show ?thesis using assms(1) 2 by (simp add: crawl_ok_def pending_ok_def)
  qed
qed

lemma ok_popped:
  assumes "crawl_ok k (st, made)" and "cs_pending st = (u, m) # queue" and "cw_canonical_product k u = Inr c"
    and "same_memory st st'"
  shows "crawl_ok k (st'\<lparr>cs_pending := queue, cs_pending_seen := cs_pending_seen st' - {c}\<rparr>, made)"
proof -
  from assms obtain cs where cs: "map Inr (c # cs) = map (cw_canonical_product k \<circ> fst) (cs_pending st)" "distinct (c # cs)" "set (c # cs) = cs_pending_seen st"
    by (auto simp: crawl_ok_def pending_ok_def Cons_eq_map_conv map_eq_Cons_conv)
  then have "map (cw_canonical_product k \<circ> fst) queue = map Inr cs \<and> distinct cs \<and> set cs = cs_pending_seen st - {c}"
    using assms(2) by auto
  with assms show ?thesis by (auto simp: crawl_ok_def pending_ok_def same_memory_def)
qed

lemma step_ok:
  assumes "join_stable k" and ok: "crawl_ok k (st, made)" and "crawl_step k (st, made) (st', made')"
  shows "crawl_ok k (st', made')"
  using assms(3)
proof cases
  case (link pg category_url page base u seen seen' rs x)
  from link(2) show ?thesis
  proof (cases rule: listing_product_cases)
    case kept
    with ok link(1) show ?thesis by (simp add: ok_same)
  next
    case (queued st2 x')
    with ok_enqueue [OF ok_same [OF ok] queued(3)] link(1) show ?thesis by simp
  next
    case (made c q st1 st2)
    have s2: "same_memory st st2" using made(3) schedule_product_keeps [OF made(4)] by (simp add: same_memory_def)
    have "cw_canonical_product k (cw_urljoin k (rs_url (pg_response pg)) (strip (cw_urljoin k base u))) = Inr c"
      using assms(1) made(1) by (simp add: join_stable_def)
    with schedule_product_keeps [OF made(4)] have "product_urls [q] = [c]" by (simp add: product_urls_def)
    moreover have "\<not> has_product_url c (cs_registry st)"
      using made(2,3) by (simp add: should_skip_product_url_def has_product_url_def same_memory_def)
    ultimately show ?thesis using ok_request [OF ok s2, of c] made(5,6) link(1) by simp
  qed
next
  case (drain page_url n rs x)
  from drain(2) show ?thesis
  proof (cases rule: drain_one_cases)
    case kept
    with ok drain(1) show ?thesis by (simp add: ok_same)
  next
    case (dropped u m queue c)
    with ok_popped [OF ok dropped(1,2) same_memory_refl] drain(1) show ?thesis by simp
  next
    case (made u m queue c q st2)
    note keeps = schedule_product_keeps [OF made(4)]
    have s2: "same_memory st st2" using keeps by (simp add: same_memory_def)
    obtain base v where "u = cw_urljoin k base v"
      using ok made(1) by (fastforce simp: crawl_ok_def pending_ok_def)
    then have "cw_canonical_product k (cw_urljoin k page_url (strip u)) = Inr c"
      using assms(1) made(2) by (simp add: join_stable_def)
    with keeps have url: "product_urls [q] = [c]" by (simp add: product_urls_def)
    let ?st2 = "st2\<lparr>cs_pending := queue, cs_pending_seen := cs_pending_seen st2 - {c}\<rparr>"
    have "crawl_ok k (?st2, made')" if "made' = made" for made' using ok_popped [OF ok made(1,2) s2] that by simp
    moreover have "\<not> has_product_url c (cs_registry ?st2)"
      using made(3) keeps by (simp add: should_skip_product_url_def)
    ultimately show ?thesis using ok_request [OF _ same_memory_refl] made(5,6) url drain(1) by simp
  qed
next
  case other
  with ok show ?thesis by (auto intro: ok_same)
qed

lemma reach_ok: "crawl_reach k w w' \<Longrightarrow> join_stable k \<Longrightarrow> crawl_ok k w \<Longrightarrow> crawl_ok k w'"
proof (induction rule: crawl_reach.induct)
  case (none w)
  then show ?case by simp
next
  case (more w w1 w2)
  then have "crawl_ok k w1" by simp
  with more(1,2,4) step_ok [of k "fst w1" "snd w1" "fst w2" "snd w2"] show ?case by simp
qed

end
