(* ===== verification/Network_Properties.thy ===== *)
theory Network_Properties imports Network_Policy begin

text \<open>
  What the network policy guarantees: the closed form of the outbound decision, the
  refusal of every internal IPv4 address however the mode is set, and the alternate
  spellings it does not see.
\<close>

section \<open>The decision in closed form\<close>

text \<open>A host the lists name, or any host in open mode.\<close>

definition listed_host :: "net_settings \<Rightarrow> pystr \<Rightarrow> bool" where
  "listed_host c host \<longleftrightarrow> is_host_allowed host (crm_configured_hosts c) \<or> is_host_allowed host (ALLOWED_STORE_HOSTS c)
     \<or> is_host_allowed host (ALLOWED_PROXY_HOSTS c)"

definition barred_host :: "net_settings \<Rightarrow> pystr \<Rightarrow> bool" where
  "barred_host c host \<longleftrightarrow>
     (ENABLE_LOCALHOST_BLOCK c \<and> (host \<in> set LOCAL_HOSTNAMES \<or> starts_with ''127.'' host))
     \<or> (ENABLE_PRIVATE_IP_BLOCK c \<and> is_private_or_local_address c host)
     \<or> (NETWORK_SECURITY_MODE c = ''restricted'' \<and> list_ex (\<lambda>suf. ends_with suf host) SUSPICIOUS_HOST_SUFFIXES)"

lemma decided_host_simps [simp]:
  "hv_allowed (decided_host ok t h r m) = ok" "hv_target_type (decided_host ok t h r m) = t"
  "hv_host (decided_host ok t h r m) = h" "hv_reason (decided_host ok t h r m) = r"
  by (simp_all add: decided_host_def)

lemma outbound_cases:
  "hv_allowed (validate_outbound_url c url) \<longleftrightarrow> strip url \<noteq> [] \<and> \<not> is_blocked_scheme c (strip url)
    \<and> (\<exists>host. url_host c (strip url) = Some host \<and> host \<noteq> [] \<and> \<not> barred_host c host
        \<and> (listed_host c host \<or> network_mode c = ''open''))"
proof (cases "strip url = [] \<or> is_blocked_scheme c (strip url)")
  case True
  then show ?thesis by (auto simp: validate_outbound_url_def Let_def)
next
  case False
  have local: "''0.0.0.0'' \<in> set LOCAL_HOSTNAMES" by (simp add: LOCAL_HOSTNAMES_def)
  show ?thesis
  proof (cases "url_host c (strip url)")
    case None
    with False show ?thesis by (simp add: validate_outbound_url_def Let_def)
  next
    case (Some host)
    show ?thesis
    proof (cases "host = [] \<or> barred_host c host")
      case True
      with False Some show ?thesis by (auto simp: validate_outbound_url_def barred_host_def Let_def)
    next
      case ok: False
      then have "validate_outbound_url c url = (case classify_target_type c (strip url) of
           Crm_target \<Rightarrow>
             (if ENABLE_CRM_HOST_PINNING c
              then (let ok = is_host_allowed host (crm_configured_hosts c) in
                decided_host ok Crm_target host (if ok then None else Some ''crm_host_not_pinned'')
                  (if ok then Some ''crm_allowlist'' else None))
              else decided_host True Crm_target host None (Some ''crm_open''))
         | Store_target \<Rightarrow>
             (if ENABLE_STORE_HOST_PINNING c \<and> ENABLE_OUTBOUND_HOST_ALLOWLIST c
              then (let ok = is_host_allowed host (ALLOWED_STORE_HOSTS c) in
                decided_host ok Store_target host (if ok then None else Some ''store_host_not_allowlisted'')
                  (if ok then Some ''store_allowlist'' else None))
              else decided_host True Store_target host None (Some ''store_open''))
         | Proxy_target \<Rightarrow> decided_host True Proxy_target host None (Some ''proxy_allowlist'')
         | Unknown_target \<Rightarrow>
             (if network_mode c = ''open'' then decided_host True Unknown_target host None (Some ''open_mode'')
              else decided_host False Unknown_target host (Some ''unknown_host_restricted_mode'') (Some ''restricted_unknown'')))"
        using False Some local by (auto simp: validate_outbound_url_def barred_host_def Let_def)
      with False Some ok show ?thesis
        by (auto simp: classify_target_type_def listed_host_def Let_def split: target_type.splits if_splits)
    qed
  qed
qed

section \<open>Internal addresses\<close>

definition addr_char :: "char \<Rightarrow> bool" where
  "addr_char ch \<longleftrightarrow> is_digit ch \<or> ch = CHR ''.''"

lemma addr_char_code: "addr_char ch \<Longrightarrow> 46 \<le> (of_char ch :: nat) \<and> (of_char ch :: nat) \<le> 57"
  by (auto simp: addr_char_def is_digit_def Let_def)

lemma addr_char_plain:
  assumes "addr_char ch" shows "lower_char ch = ch" "\<not> is_py_space ch"
  using addr_char_code [OF assms] by (simp_all add: lower_char_def is_py_space_def Let_def)

lemma not_addr_char:
  "\<not> addr_char (CHR '':'')" "\<not> addr_char (CHR ''@'')" "\<not> addr_char (CHR ''['')" "\<not> addr_char (CHR '']'')"
  "\<not> addr_char (CHR ''?'')" "\<not> addr_char (CHR ''#'')" "\<not> addr_char (CHR ''/'')" "\<not> addr_char (CHR 0x09)"
  "\<not> addr_char (CHR 0x0A)" "\<not> addr_char (CHR 0x0D)"
  by code_simp+

lemma addr_text_free: "list_all addr_char s \<Longrightarrow> \<not> addr_char c \<Longrightarrow> c \<notin> set s"
  by (auto simp: list_all_iff)

lemma ip4_text_chars: "list_all addr_char (ip4_text w)"
  using nat_text_digits by (auto simp: ip4_text_def addr_char_def list_all_iff)

lemma ip4_text_last: "ip4_text w \<noteq> []" "is_digit (last (ip4_text w))"
proof -
  have "is_digit (last (nat_text n))" for n
    using nat_text_digits [of n] by (simp add: list_all_iff)
  then show "ip4_text w \<noteq> []" "is_digit (last (ip4_text w))"
    using nat_text_digits by (simp_all add: ip4_text_def)
qed

lemma strip_noop: "s \<noteq> [] \<Longrightarrow> \<not> is_py_space (hd s) \<Longrightarrow> \<not> is_py_space (last s) \<Longrightarrow> strip s = s"
  by (simp add: strip_def dropWhile_eq_self hd_rev)

lemma addr_text:
  assumes "list_all addr_char s"
  shows "lower s = s" "filter (\<lambda>c. c \<noteq> CHR 0x09 \<and> c \<noteq> CHR 0x0A \<and> c \<noteq> CHR 0x0D) s = s"
    "CHR ''['' \<notin> set s" "CHR '']'' \<notin> set s" "CHR ''@'' \<notin> set s" "before (CHR '':'') s = s"
    "takeWhile is_netloc_char s = s" "dropWhile is_netloc_char s = []"
proof -
  note free = not_addr_char [THEN addr_text_free [OF assms]]
  show "CHR ''['' \<notin> set s" "CHR '']'' \<notin> set s" "CHR ''@'' \<notin> set s" by (fact free)+
  show "lower s = s" using assms by (auto simp: lower_def list_all_iff addr_char_plain intro: map_idI)
  show "filter (\<lambda>c. c \<noteq> CHR 0x09 \<and> c \<noteq> CHR 0x0A \<and> c \<noteq> CHR 0x0D) s = s"
    unfolding filter_id_conv using free by metis
  show "before (CHR '':'') s = s" unfolding before_def takeWhile_eq_all_conv using free by metis
  have "\<forall>ch\<in>set s. is_netloc_char ch" unfolding is_netloc_char_def using free by metis
  then show "takeWhile is_netloc_char s = s" "dropWhile is_netloc_char s = []"
    by (auto simp: takeWhile_eq_all_conv)
qed

lemma rpartition_free: "c \<notin> set s \<Longrightarrow> rpartition c s = (None, s)"
proof -
  assume "c \<notin> set s"
  then have all: "\<forall>x\<in>set (rev s). x \<noteq> c" by auto
  have t: "takeWhile (\<lambda>x. x \<noteq> c) (rev s) = rev s" unfolding takeWhile_eq_all_conv by (rule all)
  have d: "dropWhile (\<lambda>x. x \<noteq> c) (rev s) = []" unfolding dropWhile_eq_Nil_conv by (rule all)
  show "rpartition c s = (None, s)" by (simp add: rpartition_def Let_def t d)
qed

lemma norm_host_addr:
  assumes "list_all addr_char s" and "s \<noteq> []" and "is_digit (last s)"
  shows "norm_host (hostname_of s) = s"
proof -
  have "addr_char (hd s)" "addr_char (last s)" using assms(1,2) by (simp_all add: list_all_iff)
  then have "strip s = s" using assms(2) addr_char_plain(2) by (intro strip_noop) auto
  moreover have "rstrip_dot s = s"
  proof -
    have "\<not> is_digit (CHR ''.'')" by code_simp
    with assms(3) have "last s \<noteq> CHR ''.''" by metis
    then show ?thesis by (simp add: rstrip_dot_def dropWhile_eq_self hd_rev)
  qed
  ultimately show ?thesis
    using addr_text [OF assms(1)] by (simp add: norm_host_def hostname_of_def rpartition_free Let_def)
qed

lemma url_host_of_ip4: "url_host c (strip (''http://'' @ ip4_text w)) = Some (ip4_text w)"
proof -
  let ?t = "ip4_text w" and ?u = "''http://'' @ ip4_text w"
  note chars = addr_text [OF ip4_text_chars [of w]]
  have "addr_char (last ?t)" using ip4_text_chars [of w] ip4_text_last(1) [of w] by (simp add: list_all_iff)
  then have strip: "strip ?u = ?u"
    using addr_char_plain(2) ip4_text_last(1) [of w] by (intro strip_noop) (auto simp: is_py_space_def)
  have "contains ''://'' ?u" by simp
  then have ws: "with_scheme ?u = ?u" by (simp add: with_scheme_def)
  have "url_scheme_rest ?u = (''http'', ''//'' @ ?t)"
    by (simp add: url_scheme_rest_def is_ascii_alpha_def is_scheme_char_def lower_def lower_char_def Let_def)
  then have "urlsplit ?u = Inr (''http'', ?t, [])"
    by (simp add: urlsplit_def chars Let_def)
  then have "urlparse c ?u = Some (''http'', ?t)" by (simp add: urlparse_def chars)
  then show ?thesis
    unfolding url_host_def strip ws
    by (simp add: norm_host_addr [OF ip4_text_chars ip4_text_last])
qed

lemma internal_barred:
  assumes "ENABLE_PRIVATE_IP_BLOCK c" and "ip4_of host = Some w" and "ip4_internal w" and "norm_host host = host"
  shows "barred_host c host"
  using assms by (simp add: barred_host_def is_private_or_local_address_def Let_def)

lemma norm_host_ip4: "norm_host (ip4_text w) = ip4_text w"
proof -
  have "hostname_of (ip4_text w) = ip4_text w"
    by (simp add: hostname_of_def rpartition_free addr_text [OF ip4_text_chars] Let_def)
  with norm_host_addr [OF ip4_text_chars ip4_text_last, of w] show ?thesis by simp
qed

section \<open>Properties\<close>


text \<open>C27. No internal address is reachable by its dotted form, whatever the mode and the lists.
  A 32-bit address is read back from its text, the URL built from it has it as host, and if
  the address is private, loopback, link-local or reserved the URL is refused, as a target,
  as a store page, and as a redirect from anywhere, as long as private addresses are blocked.\<close>

theorem internal_address_refused:
  assumes "ENABLE_PRIVATE_IP_BLOCK c" and "ip4_internal w"
  shows "ip4_of (ip4_text w) = Some w
    \<and> (let url = ''http://'' @ ip4_text w in
        url_host c (strip url) = Some (ip4_text w)
        \<and> \<not> hv_allowed (validate_outbound_url c url)
        \<and> \<not> hv_allowed (validate_store_crawl_url c url)
        \<and> (ENABLE_REDIRECT_HOST_VALIDATION c \<and> np_urljoin c from_url url = url \<longrightarrow> \<not> re_allowed (can_follow_redirect c from_url url)))"
proof -
  let ?url = "''http://'' @ ip4_text w"
  have host: "url_host c (strip ?url) = Some (ip4_text w)" by (rule url_host_of_ip4)
  have "barred_host c (ip4_text w)" by (rule internal_barred [OF assms(1) ip4_of_text assms(2) norm_host_ip4])
  with host have no: "\<not> hv_allowed (validate_outbound_url c ?url)" unfolding outbound_cases by simp
  then have "\<not> hv_allowed (validate_store_crawl_url c ?url)" by (simp add: validate_store_crawl_url_def)
  moreover have "\<not> re_allowed (can_follow_redirect c from_url ?url)"
    if "ENABLE_REDIRECT_HOST_VALIDATION c" "np_urljoin c from_url ?url = ?url"
    using that no by (auto simp: can_follow_redirect_def redirect_def Let_def split: option.splits)
  ultimately show ?thesis using ip4_of_text host no by simp
qed

text \<open>The settings' defaults, with one CRM host.\<close>

definition default_net :: net_settings where
  "default_net = \<lparr> NETWORK_SECURITY_MODE = ''restricted'', ENABLE_OUTBOUND_HOST_ALLOWLIST = True, ENABLE_PRIVATE_IP_BLOCK = True,
     ENABLE_LOCALHOST_BLOCK = True, ENABLE_FILE_SCHEME_BLOCK = True, ENABLE_UNSAFE_SCHEME_BLOCK = True,
     ENABLE_REDIRECT_HOST_VALIDATION = True, MAX_REDIRECT_HOPS = 5, ENABLE_BROWSER_SAME_ORIGIN_GUARD = True,
     ENABLE_PROXY_HOST_VALIDATION = True,
     ENABLE_STORE_HOST_PINNING = True, ENABLE_CRM_HOST_PINNING = True, ALLOWED_STORE_HOSTS = [''uzum.uz'', ''www.uzum.uz''],
     ALLOWED_CRM_HOSTS = [''crm.uz''], ALLOWED_PROXY_HOSTS = [], BLOCK_PRIVATE_NETWORK_RANGES = True, BLOCK_METADATA_IPS = True,
     CRM_BASE_URL = ''https://crm.uz'', np_ip6 = (\<lambda>s. None), np_urljoin = (\<lambda>f t. t) \<rparr>"

theorem internal_address_refused_witness:
  "\<not> hv_allowed (validate_outbound_url default_net ''http://10.0.0.7'')"
proof -
  have "ip4_internal 0x0A000007" by code_simp
  moreover have "ip4_text 0x0A000007 = ''10.0.0.7''" by code_simp
  moreover have "ENABLE_PRIVATE_IP_BLOCK default_net" by (simp add: default_net_def)
  ultimately show ?thesis using internal_address_refused [of default_net "0x0A000007"] by (simp add: Let_def)
qed


text \<open>
  The block knows the dotted form only: in open mode another spelling of the loopback
  address, which the resolver accepts, is let through.
\<close>

theorem decimal_loopback_allowed_in_open_mode:
  "hv_allowed (validate_outbound_url (default_net\<lparr>NETWORK_SECURITY_MODE := ''open''\<rparr>) ''http://2130706433/'')"
  by code_simp

lemma is_blocked_scheme_iff:
  "is_blocked_scheme c url = (case urlparse c (strip url) of None \<Rightarrow> True
     | Some (s, netloc) \<Rightarrow> strip (lower s) \<notin> {[], ''http'', ''https''})"
  by (auto simp: is_blocked_scheme_def UNSAFE_SCHEMES_def Let_def split: option.split)

text \<open>The two switches for schemes decide nothing: whatever they say, only HTTP schemes pass.\<close>

theorem scheme_switches_idle:
  "is_blocked_scheme (c\<lparr>ENABLE_FILE_SCHEME_BLOCK := f, ENABLE_UNSAFE_SCHEME_BLOCK := u\<rparr>) url = is_blocked_scheme c url"
proof -
  have "urlparse (c\<lparr>ENABLE_FILE_SCHEME_BLOCK := f, ENABLE_UNSAFE_SCHEME_BLOCK := u\<rparr>) s = urlparse c s" for s
    by (simp add: urlparse_def split: sum.split)
  then show ?thesis by (simp only: is_blocked_scheme_iff)
qed

text \<open>A proxy whose port is not a number raises instead of being refused.\<close>

theorem bad_proxy_port_raises:
  "validate_proxy_url default_net ''http://p.uz:x'' = Inl (ValueError ''Port could not be cast to integer value'')"
  by code_simp

end
