(* ===== verification/Proxy_Properties.thy ===== *)
theory Proxy_Properties imports Proxy_Policy Network_Properties "HOL-Library.Multiset" begin

text \<open>
  What the proxy policy guarantees: which proxy a request may get, that a punished proxy
  stays out for its whole cooldown whatever happens meanwhile, and that rotation is fair.
\<close>

section \<open>A selection comes from the candidates\<close>

lemma select_rotating_facts:
  assumes "select_rotating_proxy candidates store purpose key s = (u, s')" and "candidates \<noteq> []"
  shows "u \<in> set candidates \<and> ps_health s' = ps_health s"
proof -
  let ?r = "sort_key (health_rank s) candidates"
  from assms(1) obtain n where u: "u = ?r ! (n mod length ?r)" and h: "ps_health s' = ps_health s"
    by (auto simp: select_rotating_proxy_def Let_def)
  have "n mod length ?r < length ?r" using assms(2) by simp
  then have "u \<in> set ?r" unfolding u by (rule nth_mem)
  with h show ?thesis by simp
qed

lemma select_sticky_facts:
  assumes "select_sticky_proxy candidates store purpose key domain n s = (u, s')" and "candidates \<noteq> []"
  shows "u \<in> set candidates \<and> ps_health s' = ps_health s"
  using assms select_rotating_facts [OF _ assms(2)]
  by (fastforce simp: select_sticky_proxy_def Let_def split: option.splits if_splits prod.splits)

lemma select_by_policy_facts:
  assumes "select_proxy_by_policy k now store purpose target path profile urls s = (r, s')"
  shows "ps_health s' = ps_health s \<and> (\<forall>u. r = Inr (Some u) \<longrightarrow> u \<in> set urls \<and> \<not> is_in_cooldown s now u)"
proof -
  let ?c = "filter (\<lambda>u. \<not> is_in_cooldown s now u) urls"
  consider "r = Inr None" "s' = s" | x where "r = Inl x" "s' = s"
    | u d n where "?c \<noteq> []" "select_sticky_proxy ?c store purpose path d n s = (u, s')" "r = Inr (Some u)"
    | u where "?c \<noteq> []" "select_rotating_proxy ?c store purpose path s = (u, s')" "r = Inr (Some u)"
    using assms by (auto simp: select_proxy_by_policy_def Let_def split: if_splits proxy_mode.splits sum.splits prod.splits)
  then show ?thesis
  proof cases
    case (3 u d n)
    from select_sticky_facts [OF 3(2,1)] 3(3) show ?thesis by auto
  next
    case (4 u)
    from select_rotating_facts [OF 4(2,1)] 4(3) show ?thesis by auto
  qed auto
qed

lemma read_urls_health [simp]: "ps_health (snd (read_proxy_urls k path s)) = ps_health s"
  by (auto simp: read_proxy_urls_def Let_def split: proxy_file.split option.split)

definition pool_of :: "access_ctx \<Rightarrow> pystr \<Rightarrow> proxy_state \<Rightarrow> pystr list" where
  "pool_of k store s = fst (read_proxy_urls k (resolve_pool_path k store (get_store_profile store)) s)"

text \<open>What a choice of a proxy rests on, and what choosing changes of the proxies' health.\<close>

lemma build_meta_cases:
  assumes "build_proxy_meta k now store purpose target s = (r, s')"
  obtains (chosen) c where "r = Inr (Some c)" "ps_health s' = ps_health s" "pc_proxy c \<in> set (pool_of k store s)"
      "hardening_enabled k store \<longrightarrow> \<not> is_in_cooldown s now (pc_proxy c)"
      "\<exists>d. validate_proxy_url (ax_net k) (pc_proxy c) = Inr d \<and> px_allowed d"
      "pc_mode c = None \<longleftrightarrow> \<not> hardening_enabled k store"
    | (rejected) u reason s1 where "r = Inr None" "ps_health s1 = ps_health s" "s' = mark_proxy_result k now u False reason (Some store) s1"
    | (nothing) "r = Inr None \<or> (\<exists>x. r = Inl x)" "ps_health s' = ps_health s"
proof -
  let ?path = "resolve_pool_path k store (get_store_profile store)"
  obtain urls s1 where rd: "read_proxy_urls k ?path s = (urls, s1)" by force
  then have urls: "urls = pool_of k store s" and h1: "ps_health s1 = ps_health s"
    using read_urls_health [of k ?path s] by (simp_all add: pool_of_def)
  have cool: "is_in_cooldown s1 now = is_in_cooldown s now" by (simp add: is_in_cooldown_def h1 fun_eq_iff)
  obtain sel s2 where sel: "(if hardening_enabled k store then select_proxy_by_policy k now store purpose target ?path (get_store_profile store) urls s1
       else (Inr (Some (hd urls)), s1)) = (sel, s2)" by force
  have h2: "ps_health s2 = ps_health s"
    using sel select_by_policy_facts h1 by (auto split: if_splits)
  consider "r = Inr None \<or> (\<exists>x. r = Inl x)" "ps_health s' = ps_health s"
    | u where "urls \<noteq> []" "sel = Inr (Some u)" "(r, s') = (case validate_proxy_url (ax_net k) u of
               Inl x \<Rightarrow> (Inl x, s2)
             | Inr d \<Rightarrow>
                (if px_allowed d
                 then (Inr (Some \<lparr> pc_proxy = u, pc_mode = (if hardening_enabled k store then Some (resolve_mode k (get_store_profile store)) else None) \<rparr>), s2)
                 else (Inr None, mark_proxy_result k now u False (py_or (px_reason d) (Some ''proxy_rejected'')) (Some store) s2)))"
    using assms h1 h2 unfolding build_proxy_meta_def Let_def rd prod.case sel
    by (auto split: if_splits sum.splits option.splits)
  then show thesis
  proof cases
    case 1
    then show thesis by (rule nothing)
  next
    case (2 u)
    have u: "u \<in> set urls \<and> (hardening_enabled k store \<longrightarrow> \<not> is_in_cooldown s1 now u)"
      using sel 2(1,2) select_by_policy_facts by (auto split: if_splits)
    show thesis
    proof (cases "validate_proxy_url (ax_net k) u")
      case (Inl x)
      with 2 h2 have "r = Inl x" "ps_health s' = ps_health s" by simp_all
      from this(1) have "r = Inr None \<or> (\<exists>x. r = Inl x)" by (intro disjI2 exI)
      then show thesis using \<open>ps_health s' = ps_health s\<close> by (rule nothing)
    next
      case (Inr d)
      show thesis
      proof (cases "px_allowed d")
        case True
        let ?c = "\<lparr> pc_proxy = u, pc_mode = (if hardening_enabled k store then Some (resolve_mode k (get_store_profile store)) else None) \<rparr>"
        from True Inr 2 have "r = Inr (Some ?c)" "s' = s2" by simp_all
        then show thesis using Inr True u h2 by (intro chosen [of ?c]) (auto simp: urls cool)
      next
        case False
        with Inr 2 have "r = Inr None" "s' = mark_proxy_result k now u False (py_or (px_reason d) (Some ''proxy_rejected'')) (Some store) s2"
          by simp_all
        then show thesis using h2 by (intro rejected [of s2])
      qed
    qed
  qed
qed

section \<open>Health over a run\<close>

datatype proxy_op =
    Choose_proxy pystr pystr "pystr option"
  | Report_proxy pystr bool "pystr option" "pystr option"

text \<open>One call at a time: the proxy it hands out, if any, and the state after it.\<close>

definition proxy_step :: "access_ctx \<Rightarrow> rat \<times> proxy_op \<Rightarrow> proxy_state \<Rightarrow> pystr list \<times> proxy_state" where
  "proxy_step k op s = (case op of
       (now, Choose_proxy store purpose target) \<Rightarrow>
         (case build_proxy_meta k now store purpose target s of
            (Inr (Some c), s') \<Rightarrow> ([pc_proxy c], s')
          | (_, s') \<Rightarrow> ([], s'))
     | (now, Report_proxy u success reason store) \<Rightarrow> ([], mark_proxy_result k now u success reason store s))"

fun proxy_run :: "access_ctx \<Rightarrow> (rat \<times> proxy_op) list \<Rightarrow> proxy_state \<Rightarrow> pystr list \<times> proxy_state" where
  "proxy_run k [] s = ([], s)"
| "proxy_run k (op # ops) s = (let (us, s1) = proxy_step k op s; (vs, s2) = proxy_run k ops s1 in (us @ vs, s2))"

definition resting_until :: "proxy_state \<Rightarrow> pystr \<Rightarrow> rat \<Rightarrow> bool" where
  "resting_until s u until \<longleftrightarrow> (\<exists>h. od_get u (ps_health s) = Some h \<and> until \<le> ph_cooldown_until h)"

lemma resting_cooldown: "resting_until s u until \<Longrightarrow> now < until \<Longrightarrow> is_in_cooldown s now u"
  by (auto simp: resting_until_def is_in_cooldown_def)

lemma mark_keeps_resting:
  assumes "resting_until s u until" and "now < until"
  shows "resting_until (mark_proxy_result k now v success reason store s) u until"
  using assms
  by (auto simp: mark_proxy_result_def resting_until_def after_success_def after_failure_def od_get_set Let_def
      split: option.split)

lemma step_keeps_resting:
  assumes "resting_until s u until" and "fst op < until" and "proxy_step k op s = (us, s')"
    and "\<And>store purpose target. snd op = Choose_proxy store purpose target \<Longrightarrow> hardening_enabled k store"
  shows "resting_until s' u until \<and> u \<notin> set us"
proof -
  obtain now c where op: "op = (now, c)" by force
  show ?thesis
  proof (cases c)
    case (Report_proxy v success reason store)
    with assms op show ?thesis by (auto simp: proxy_step_def intro: mark_keeps_resting)
  next
    case (Choose_proxy store purpose target)
    obtain r s1 where b: "build_proxy_meta k now store purpose target s = (r, s1)" by force
    have us: "us = (case r of Inr (Some c) \<Rightarrow> [pc_proxy c] | _ \<Rightarrow> [])" "s' = s1"
      using assms(3) by (auto simp: proxy_step_def op Choose_proxy b split: sum.splits option.splits)
    from b show ?thesis
    proof (cases rule: build_meta_cases)
      case (chosen c)
      have "is_in_cooldown s now u" using assms(1,2) op by (intro resting_cooldown [of s u until]) auto
      moreover have "hardening_enabled k store" using assms(4) op Choose_proxy by simp
      ultimately show ?thesis using chosen us assms(1) by (auto simp: resting_until_def)
    next
      case (rejected v reason s2)
      then have "resting_until s2 u until" using assms(1) by (simp add: resting_until_def)
      with rejected us assms(2) op show ?thesis by (auto intro: mark_keeps_resting)
    next
      case nothing
      with us assms(1) show ?thesis by (auto simp: resting_until_def)
    qed
  qed
qed

lemma run_keeps_resting:
  assumes "resting_until s u until" and "\<forall>op\<in>set ops. fst op < until"
    and "\<forall>op\<in>set ops. \<forall>store purpose target. snd op = Choose_proxy store purpose target \<longrightarrow> hardening_enabled k store"
    and "proxy_run k ops s = (us, s')"
  shows "u \<notin> set us"
  using assms
proof (induction ops arbitrary: s us)
  case Nil
  then show ?case by simp
next
  case (Cons op ops)
  obtain us1 s1 where st: "proxy_step k op s = (us1, s1)" by force
  obtain us2 s2 where rn: "proxy_run k ops s1 = (us2, s2)" by force
  from Cons.prems st rn have us: "us = us1 @ us2" "s' = s2" by simp_all
  have one: "resting_until s1 u until \<and> u \<notin> set us1"
    by (rule step_keeps_resting [OF Cons.prems(1) _ st]) (use Cons.prems in auto)
  with Cons.IH [of s1 us2] Cons.prems rn us show ?case by auto
qed

text \<open>Health stays on its scale.\<close>

definition health_ok :: "proxy_health \<Rightarrow> bool" where
  "health_ok h \<longleftrightarrow> 0 \<le> ph_health_score h \<and> ph_health_score h \<le> 100 \<and> 0 \<le> ph_ban_score h \<and> 0 \<le> ph_consecutive_failures h"

definition all_healthy :: "proxy_state \<Rightarrow> bool" where
  "all_healthy s \<longleftrightarrow> (\<forall>u h. od_get u (ps_health s) = Some h \<longrightarrow> health_ok h)"

lemma health_ok_steps:
  "health_ok fresh_health"
  "health_ok h \<Longrightarrow> health_ok (after_success now reason h)"
  "health_ok h \<Longrightarrow> health_ok (after_failure a b c now reason h)"
  by (auto simp: health_ok_def fresh_health_def after_success_def after_failure_def Let_def)

lemma mark_healthy: "all_healthy s \<Longrightarrow> all_healthy (mark_proxy_result k now u success reason store s)"
  by (auto simp: mark_proxy_result_def all_healthy_def od_get_set health_ok_steps Let_def split: option.split)

lemma step_healthy:
  assumes "all_healthy s" and "proxy_step k op s = (us, s')" shows "all_healthy s'"
proof -
  obtain now c where op: "op = (now, c)" by force
  show ?thesis
  proof (cases c)
    case (Report_proxy v success reason store)
    with assms op show ?thesis by (auto simp: proxy_step_def intro: mark_healthy)
  next
    case (Choose_proxy store purpose target)
    obtain r s1 where b: "build_proxy_meta k now store purpose target s = (r, s1)" by force
    then have s': "s' = s1" using assms(2) by (auto simp: proxy_step_def op Choose_proxy split: sum.splits option.splits)
    from b show ?thesis
    proof (cases rule: build_meta_cases)
      case (rejected v reason s2)
      then have "all_healthy s2" using assms(1) by (simp add: all_healthy_def)
      with rejected s' show ?thesis by (simp add: mark_healthy)
    qed (use assms(1) s' in \<open>simp_all add: all_healthy_def\<close>)
  qed
qed

lemma run_healthy: "all_healthy s \<Longrightarrow> proxy_run k ops s = (us, s') \<Longrightarrow> all_healthy s'"
  by (induction ops arbitrary: s us) (auto split: prod.splits dest: step_healthy)

section \<open>Rotation\<close>

fun rotation_run :: "nat \<Rightarrow> pystr list \<Rightarrow> pystr \<Rightarrow> pystr \<Rightarrow> pystr \<Rightarrow> proxy_state \<Rightarrow> pystr list" where
  "rotation_run 0 candidates store purpose key s = []"
| "rotation_run (Suc n) candidates store purpose key s =
    (let (u, s1) = select_rotating_proxy candidates store purpose key s in u # rotation_run n candidates store purpose key s1)"

definition rotation_count :: "pystr \<times> pystr \<times> pystr \<Rightarrow> proxy_state \<Rightarrow> nat" where
  "rotation_count key s = (case od_get key (ps_rotation s) of None \<Rightarrow> 0 | Some n \<Rightarrow> n)"

lemma rotation_run_nth:
  "rotation_run n candidates store purpose key s =
    map (\<lambda>i. let r = sort_key (health_rank s) candidates in r ! ((rotation_count (store, purpose, key) s + i) mod length r)) [0..<n]"
proof (induction n arbitrary: s)
  case 0
  then show ?case by simp
next
  case (Suc n)
  let ?k = "(store, purpose, key)" and ?r = "sort_key (health_rank s) candidates"
  let ?s1 = "s\<lparr>ps_rotation := od_set ?k (rotation_count ?k s + 1) (ps_rotation s)\<rparr>"
  have sel: "select_rotating_proxy candidates store purpose key s = (?r ! (rotation_count ?k s mod length ?r), ?s1)"
    by (simp add: select_rotating_proxy_def rotation_count_def Let_def)
  have "rotation_count ?k ?s1 = Suc (rotation_count ?k s)" by (simp add: rotation_count_def od_get_set)
  moreover have "health_rank ?s1 = health_rank s" by (simp add: health_rank_def fun_eq_iff)
  ultimately show ?case
    using Suc.IH [of ?s1] by (simp add: sel upt_conv_Cons map_Suc_upt [symmetric] Let_def comp_def del: upt_Suc)
qed

lemma mset_rotate: "mset (rotate n xs) = mset xs"
proof (induction n)
  case (Suc n)
  have "mset (rotate1 ys) = mset ys" for ys :: "'a list" by (cases ys) simp_all
  with Suc show ?case by simp
qed simp

lemma rotated_list: "map (\<lambda>i. xs ! ((c + i) mod length xs)) [0..<length xs] = rotate c xs"
  by (rule nth_equalityI) (simp_all add: nth_rotate)

section \<open>Properties\<close>

text \<open>C32. A proxy handed out for a request is one of the pool the store is given, the network
  policy allows it, and under the hardened policy it is not cooling down; handing it out
  leaves the health of every proxy as it was.\<close>

theorem proxy_choice_contract:
  assumes "build_proxy_meta k now store purpose target s = (Inr (Some c), s')"
  shows "pc_proxy c \<in> set (pool_of k store s) \<and> is_proxy_host_allowed (ax_net k) (strip (pc_proxy c))
    \<and> (pc_mode c \<noteq> None \<longleftrightarrow> hardening_enabled k store)
    \<and> (hardening_enabled k store \<longrightarrow> \<not> is_in_cooldown s now (pc_proxy c))
    \<and> ps_health s' = ps_health s"
  using assms
proof (cases rule: build_meta_cases)
  case (chosen c')
  moreover have "is_proxy_host_allowed (ax_net k) (strip u)" if "validate_proxy_url (ax_net k) u = Inr d" "px_allowed d" for u d
    using that by (auto simp: validate_proxy_url_def Let_def split: sum.splits if_splits)
  ultimately show ?thesis by auto
qed auto

text \<open>C33. A punished proxy rests for its whole cooldown.  Once a failure has brought the ban
  score or the row of failures of a proxy to its limit, no request of a store under the
  hardened policy gets that proxy until the cooldown is over, whatever else is requested or
  reported meanwhile, later successes of the proxy included.\<close>

theorem punished_proxy_rests:
  assumes "normalize_proxy_url url = Some u" and "hardening_enabled k store" and "store \<noteq> []"
    and "mark_proxy_result k now url False reason (Some store) s = s1"
    and "od_get u (ps_health s1) = Some h"
    and "ph_ban_score h \<ge> resolve_ban_score_threshold k (get_store_profile store)
      \<or> ph_consecutive_failures h \<ge> resolve_max_consecutive_failures k (get_store_profile store)"
    and "\<forall>op\<in>set ops. fst op < now + of_int (resolve_cooldown_seconds k (get_store_profile store))"
    and "\<forall>op\<in>set ops. \<forall>st purpose target. snd op = Choose_proxy st purpose target \<longrightarrow> hardening_enabled k st"
  shows "u \<notin> set (fst (proxy_run k ops s1))"
proof -
  let ?until = "now + of_int (resolve_cooldown_seconds k (get_store_profile store))"
  have "ph_cooldown_until h \<ge> ?until"
    using assms(1-6) by (auto simp: mark_proxy_result_def hardening_enabled_def after_failure_def truthy_def or_empty_def od_get_set Let_def
        split: option.splits if_splits)
  then have "resting_until s1 u ?until" using assms(5) by (auto simp: resting_until_def)
  from run_keeps_resting [OF this assms(7,8)] show ?thesis by (metis prod.collapse)
qed

text \<open>Rotation is fair: as long as no outcome is reported, as many requests of a store and
  purpose as there are candidates get every candidate once, wherever the rotation stands.\<close>

theorem rotation_is_fair:
  "mset (rotation_run (length candidates) candidates store purpose key s) = mset candidates"
proof -
  let ?r = "sort_key (health_rank s) candidates"
  have "rotation_run (length candidates) candidates store purpose key s
      = map (\<lambda>i. ?r ! ((rotation_count (store, purpose, key) s + i) mod length ?r)) [0..<length ?r]"
    by (simp add: rotation_run_nth Let_def)
  also have "\<dots> = rotate (rotation_count (store, purpose, key) s) ?r" by (rule rotated_list)
  finally show ?thesis by (simp add: mset_rotate)
qed

section \<open>A sample pool\<close>

definition open_rollout :: rollout_settings where
  "open_rollout = \<lparr> ENABLE_FEATURE_FLAGS = False, ENABLE_STORE_ROLLOUT_POLICY = False, ENABLE_CANARY_ROLLOUT = False,
     ENABLE_PROGRESSIVE_STORE_ENABLEMENT = False, ROLLOUT_DEFAULT_STAGE = ''full'', ROLLOUT_CANARY_PERCENTAGE = 10,
     ROLLOUT_PARTIAL_PERCENTAGE = 50, ROLLOUT_HASH_BASED_SELECTION = True, ENABLE_ROLLOUT_GUARD_BY_STATUS = False,
     ROLLOUT_BLOCK_ON_FAILING_STATUS = False, ROLLOUT_ALLOW_DEGRADED_CANARY = True, ROLLOUT_DISABLED_STORES = [],
     ROLLOUT_CANARY_STORES = [], ROLLOUT_PARTIAL_STORES = [] \<rparr>"

definition sample_access_settings :: access_settings where
  "sample_access_settings = \<lparr> PROXY_LIST_PATH = ''proxies.txt'', SCRAPY_ROTATING_PROXY_ENABLED = False,
     SCRAPY_ACCESS_SHELL_ESCALATE_AFTER = 2, SCRAPY_BROWSER_FALLBACK_FAILURE_THRESHOLD = 2,
     SCRAPY_PROXY_FALLBACK_FAILURE_THRESHOLD = 1, SCRAPY_PROXY_POLICY_HARDENING_ENABLED = True,
     SCRAPY_PROXY_POLICY_DEFAULT_MODE = ''rotating'', SCRAPY_PROXY_STICKY_REQUESTS_DEFAULT = 20,
     SCRAPY_PROXY_COOLDOWN_SECONDS_DEFAULT = 300, SCRAPY_PROXY_BAN_SCORE_THRESHOLD = 3,
     SCRAPY_PROXY_MAX_CONSECUTIVE_FAILURES = 2, SCRAPY_CAPTCHA_HOOKS_ENABLED = False, SCRAPY_CAPTCHA_SOLVER_BACKEND = ''noop'',
     SCRAPY_CAPTCHA_MAX_SOLVE_ATTEMPTS = 1, SCRAPY_CAPTCHA_SUSPICIOUS_REDIRECT_ENABLED = True,
     SCRAPY_HEADER_PROFILE_ROTATION_ENABLED = False, SCRAPY_BAN_SIGNAL_MONITORING_ENABLED = False,
     SCRAPY_BAN_SPIKE_WINDOW_SECONDS = 120, SCRAPY_BAN_SPIKE_THRESHOLD = 5, SCRAPY_HONEYPOT_FILTER_ENABLED = False,
     SCRAPY_HONEYPOT_FILTER_MAX_FILTER_RATIO = 4 / 5, SCRAPY_RANDOMIZED_DELAY_ENABLED = False,
     SCRAPY_RANDOMIZED_DELAY_MIN_SECONDS = 1 / 20, SCRAPY_RANDOMIZED_DELAY_MAX_SECONDS = 7 / 20,
     SCRAPY_EXPLICIT_BACKOFF_ENABLED = False, SCRAPY_EXPLICIT_BACKOFF_ENFORCE = False,
     SCRAPY_EXPLICIT_BACKOFF_ENFORCE_STORES = [], SCRAPY_RATE_LIMIT_HEADER_INTELLIGENCE_ENABLED = True,
     SCRAPY_BACKOFF_BASE_SECONDS = 1, SCRAPY_BACKOFF_MAX_SECONDS = 90, SCRAPY_BACKOFF_COOLDOWN_MAX_SECONDS = 300,
     SCRAPY_BACKOFF_RESPECT_RETRY_AFTER = True, SCRAPY_BACKOFF_429_STRICT = True \<rparr>"

definition sample_access :: access_ctx where
  "sample_access = \<lparr> ax_settings = sample_access_settings, ax_rollout = open_rollout, ax_sha256 = (\<lambda>s. ''00000000''), ax_net = default_net,
     ax_file = (\<lambda>p. if p = ''proxies.txt'' then Proxy_lines 1 [''# pool'', ''p1.uz'', ''http://p2.uz''] else No_file) \<rparr>"

lemma sample_hardened: "hardening_enabled sample_access ''texnomart''"
  by code_simp

lemma sample_pool_path: "resolve_pool_path sample_access ''texnomart'' (get_store_profile ''texnomart'') = ''proxies.txt''"
  by code_simp

lemma sample_pool_urls:
  "fst (read_proxy_urls sample_access ''proxies.txt'' new_proxy_state) = [''http://p1.uz'', ''http://p2.uz'']"
  by code_simp

lemma sample_pool_there: "pool_path_available sample_access ''proxies.txt''"
  by code_simp

lemma sample_fallback: "sp_fallback_to_proxy (get_store_profile ''texnomart'')"
  by code_simp

lemma sample_rotating: "resolve_mode sample_access (get_store_profile ''texnomart'') = Rotating"
  by code_simp

lemma sample_proxy_allowed: "\<exists>d. validate_proxy_url (ax_net sample_access) ''http://p1.uz'' = Inr d \<and> px_allowed d"
proof -
  have "(case validate_proxy_url default_net ''http://p1.uz'' of Inr d \<Rightarrow> px_allowed d | _ \<Rightarrow> False)" by code_simp
  moreover have "ax_net sample_access = default_net" by (simp add: sample_access_def)
  ultimately have "(case validate_proxy_url (ax_net sample_access) ''http://p1.uz'' of Inr d \<Rightarrow> px_allowed d | _ \<Rightarrow> False)" by simp
  then show ?thesis by (auto split: sum.splits)
qed

lemma sample_proxy_chosen:
  "\<exists>c s'. build_proxy_meta sample_access 7 ''texnomart'' ''listing'' None new_proxy_state = (Inr (Some c), s') \<and> pc_proxy c = ''http://p1.uz''"
proof -
  obtain s1 where rd: "read_proxy_urls sample_access ''proxies.txt'' new_proxy_state = ([''http://p1.uz'', ''http://p2.uz''], s1)"
    using sample_pool_urls by (metis prod.collapse)
  have "ps_health s1 = ps_health new_proxy_state"
    using read_urls_health [of sample_access "''proxies.txt''" new_proxy_state] by (simp only: rd snd_conv)
  then have empty: "ps_health s1 = []" by (simp add: new_proxy_state_def)
  have rank: "health_rank s1 = (\<lambda>u. (0, -100, 0))" "is_in_cooldown s1 t = (\<lambda>u. False)" for t
    by (simp_all add: health_rank_def is_in_cooldown_def empty od_get_def fun_eq_iff)
  have "ps_rotation (snd (read_proxy_urls k p s)) = ps_rotation s" for k p s
    by (auto simp: read_proxy_urls_def Let_def split: proxy_file.split option.split)
  from this [of sample_access "''proxies.txt''" new_proxy_state] have rotation: "ps_rotation s1 = []"
    by (simp only: rd snd_conv) (simp add: new_proxy_state_def)
  obtain d where "validate_proxy_url (ax_net sample_access) ''http://p1.uz'' = Inr d" "px_allowed d" using sample_proxy_allowed by auto
  then show ?thesis
    by (simp add: build_proxy_meta_def sample_hardened sample_pool_path sample_pool_there sample_fallback sample_rotating rd select_proxy_by_policy_def select_rotating_proxy_def rank rotation
        sort_key_const od_get_def Let_def)
qed

theorem proxy_choice_contract_witness:
  "\<exists>c s'. build_proxy_meta sample_access 7 ''texnomart'' ''listing'' None new_proxy_state = (Inr (Some c), s')
    \<and> pc_proxy c = ''http://p1.uz'' \<and> pc_proxy c \<in> set (pool_of sample_access ''texnomart'' new_proxy_state)"
  using sample_proxy_chosen proxy_choice_contract by blast

definition banned_state :: proxy_state where
  "banned_state = mark_proxy_result sample_access 7 ''p1.uz'' False (Some ''captcha'') (Some ''texnomart'')
     (mark_proxy_result sample_access 6 ''p1.uz'' False (Some ''http_403'') (Some ''texnomart'') new_proxy_state)"

theorem punished_proxy_rests_witness:
  "''http://p1.uz'' \<notin> set (fst (proxy_run sample_access
      [(8, Report_proxy ''http://p1.uz'' True None (Some ''texnomart'')), (306, Choose_proxy ''texnomart'' ''listing'' None)] banned_state))"
proof -
  let ?s = "mark_proxy_result sample_access 6 ''p1.uz'' False (Some ''http_403'') (Some ''texnomart'') new_proxy_state"
  have norm: "normalize_proxy_url ''p1.uz'' = Some ''http://p1.uz''" by code_simp
  have hard: "hardening_enabled sample_access ''texnomart''" by code_simp
  have marked: "mark_proxy_result sample_access 7 ''p1.uz'' False (Some ''captcha'') (Some ''texnomart'') ?s = banned_state"
    by (simp add: banned_state_def)
  have "(case od_get ''http://p1.uz'' (ps_health banned_state) of Some h \<Rightarrow> ph_ban_score h = 4 | None \<Rightarrow> False)" by code_simp
  then obtain h where h: "od_get ''http://p1.uz'' (ps_health banned_state) = Some h" "ph_ban_score h = 4"
    by (auto split: option.splits)
  have limit: "resolve_ban_score_threshold sample_access (get_store_profile ''texnomart'') = 3" by code_simp
  have rest: "resolve_cooldown_seconds sample_access (get_store_profile ''texnomart'') = 300" by code_simp
  show ?thesis
    by (rule punished_proxy_rests [OF norm hard _ marked h(1)]) (auto simp: h(2) limit rest hard)
qed

end
