(* ===== verification/Crawl_Properties.thy ===== *)
theory Crawl_Properties imports Crawl_Invariant Governance_Invariant Proxy_Properties begin

text \<open>
  What the crawl promises: the spacing of product requests, the bound on the pages of a
  category, and the ends of its queue and of its guards.
\<close>

section \<open>A sample spider\<close>

definition sample_page :: page where
  "sample_page = \<lparr> pg_response = \<lparr> rs_url = ''https://uzum.uz/c'', rs_status = 200, rs_headers = [], rs_body = ''<html></html>'' \<rparr>,
     pg_request_url = ''https://uzum.uz/c'', pg_meta = category_meta ''https://uzum.uz/c'' \<rparr>"

definition sample_crawl :: crawl_ctx where
  "sample_crawl = \<lparr> cw_access = sample_access, cw_gov = default_gov,
     cw_settings = \<lparr> SCRAPY_MAX_PAGES_PER_CATEGORY = 3, SCRAPY_MAX_EMPTY_LISTING_REPEATS = 2, SCRAPY_MAX_DUPLICATE_LISTING_REPEATS = 2,
       SCRAPY_LISTING_SIGNATURE_N = 12, SCRAPY_CRAWL_REGISTRY_MAX_ENTRIES = 50 \<rparr>,
     cw_store = ''uzum'', cw_supports_playwright = False, cw_clock = rat_of_nat, cw_mem = (\<lambda>i. None), cw_start_urls = [''https://uzum.uz/c''],
     cw_is_product_page = (\<lambda>pg. False), cw_product_urls = (\<lambda>pg. [''https://uzum.uz/p1'', ''https://uzum.uz/p2'', ''https://uzum.uz/p1'']),
     cw_category_urls = (\<lambda>pg. []), cw_next_url = (\<lambda>pg. Some ''https://uzum.uz/c?page=2''), cw_anchors = (\<lambda>pg. []),
     cw_canonical_product = (\<lambda>u. Inr (strip u)), cw_source_id = (\<lambda>u. None), cw_signature = (\<lambda>pg canon page. concat canon),
     cw_extra = id, cw_product_meta = id, cw_urljoin = (\<lambda>base u. u) \<rparr>"

section \<open>No product is requested twice in a row\<close>


lemma sample_links:
  "product_urls (fst (listing_products sample_crawl sample_page ''c'' 1 (cw_product_urls sample_crawl sample_page) ({}, {}) (new_crawl sample_crawl)))
    = [''https://uzum.uz/p1'', ''https://uzum.uz/p2'']"
  by code_simp

lemma sample_join: "join_stable sample_crawl"
  by (simp add: join_stable_def sample_crawl_def)


section \<open>The pages of a category\<close>

lemma then_yield_requests:
  assumes "q \<in> set (fst (then_yield out f))"
  shows "q \<in> set (fst out) \<or> (\<exists>st. q \<in> set (fst (f st)))"
proof -
  obtain rs x st where out: "out = (rs, x, st)" by (cases out)
  show ?thesis
  proof (cases x)
    case None
    obtain rs' x' st' where "f st = (rs', x', st')" by (cases "f st")
    with assms out None show ?thesis by (auto simp: then_yield_def intro!: exI [of _ st])
  next
    case (Some y)
    with assms out show ?thesis by (simp add: then_yield_def)
  qed
qed

lemma schedule_page:
  assumes "schedule_safe_request k url purpose m st = (Inr (Some q), st')" and "\<And>m. cm_page (cw_extra k m) = cm_page m"
  shows "cm_page (cq_meta q) = cm_page m \<and> cq_purpose q = purpose \<and> cq_url q = url"
  using assms
  by (auto simp: schedule_safe_request_def update_access_def Let_def split: if_splits sum.splits prod.splits option.splits)

lemma yielded_request: "q \<in> set (fst (yielded r)) \<Longrightarrow> \<exists>st. r = (Inr (Some q), st)"
  by (auto simp: yielded_def split: prod.splits sum.splits option.splits)

definition first_page :: "crawl_request \<Rightarrow> bool" where
  "first_page q \<longleftrightarrow> cq_purpose q = ''listing'' \<and> cm_page (cq_meta q) = Some 1"

lemma first_request:
  assumes "q \<in> set (fst (yielded (schedule_safe_request k url ''listing'' (category_meta url) st)))" and "\<And>m. cm_page (cw_extra k m) = cm_page m"
  shows "first_page q"
proof -
  from yielded_request [OF assms(1)] obtain st' where "schedule_safe_request k url ''listing'' (category_meta url) st = (Inr (Some q), st')" by blast
  from schedule_page [OF this assms(2)] show ?thesis by (simp add: first_page_def category_meta_def)
qed

lemma start_first_pages:
  assumes "\<And>m. cm_page (cw_extra k m) = cm_page m"
  shows "q \<in> set (fst (start_requests k urls st)) \<Longrightarrow> first_page q"
proof (induction urls arbitrary: st)
  case (Cons url urls)
  then show ?case by (auto dest!: then_yield_requests intro: first_request [OF _ assms])
qed simp

lemma category_first_pages:
  assumes "\<And>m. cm_page (cw_extra k m) = cm_page m"
  shows "q \<in> set (fst (listing_categories k cus st)) \<Longrightarrow> first_page q"
proof (induction cus arbitrary: st)
  case (Cons cu cus)
  then show ?case
    by (auto dest!: then_yield_requests intro: first_request [OF _ assms] split: sum.splits if_splits)
qed simp

lemma product_request_purpose: "schedule_product_request k u base m st = (Inr (Some q), st') \<Longrightarrow> cq_purpose q = ''product''"
  using schedule_product_keeps by blast

lemma listing_product_purpose:
  assumes "listing_product k pg cat page u seen st = (seen', rs, x, st')" and "q \<in> set rs"
  shows "cq_purpose q = ''product''"
  using assms(1)
proof (cases rule: listing_product_cases)
  case (made c q' st1 st2)
  with assms(2) show ?thesis by (auto dest: product_request_purpose)
qed (use assms(2) in auto)

lemma listing_products_purpose: "q \<in> set (fst (listing_products k pg cat page us seen st)) \<Longrightarrow> cq_purpose q = ''product''"
proof (induction us arbitrary: seen st)
  case (Cons u us)
  obtain seen' rs x st1 where one: "listing_product k pg cat page u seen st = (seen', rs, x, st1)" by (metis prod_cases4)
  with Cons.prems have mem: "q \<in> set (fst (then_yield (rs, x, st1) (listing_products k pg cat page us seen')))" by simp
  from then_yield_requests [OF mem] show ?case by (auto dest: listing_product_purpose [OF one] Cons.IH)
qed simp

lemma drain_purpose: "q \<in> set (fst (drain_loop rounds n k page_url st)) \<Longrightarrow> cq_purpose q = ''product''"
proof (induction rounds arbitrary: n st)
  case (Suc rounds)
  obtain c rs x st1 where one: "drain_one k page_url st = (c, rs, x, st1)" by (metis prod_cases4)
  have rs: "cq_purpose q = ''product''" if "q \<in> set rs" for q
    using one
  proof (cases rule: drain_one_cases)
    case (made u m queue c q st2)
    with that show ?thesis by (auto dest: product_request_purpose)
  qed (use that in auto)
  show ?case
  proof (cases "n = 0 \<or> cs_pending st = []")
    case True
    with Suc.prems show ?thesis by auto
  next
    case nonempty: False
    show ?thesis
    proof (cases c)
      case None
      with Suc.prems one nonempty show ?thesis by (auto dest: rs)
    next
      case (Some m)
      with Suc.prems one nonempty have mem: "q \<in> set (fst (then_yield (rs, x, st1) (drain_loop rounds (n - m) k page_url)))" by simp
      from then_yield_requests [OF mem] show ?thesis by (auto dest: rs Suc.IH)
    qed
  qed
qed simp


lemma next_page_number:
  assumes "q \<in> set (fst (next_page k pg page e d st))" and "\<And>m. cm_page (cw_extra k m) = cm_page m"
  shows "cm_page (cq_meta q) = Some (page + 1) \<and> page + 1 \<le> SCRAPY_MAX_PAGES_PER_CATEGORY (cw_settings k)"
proof -
  have "should_stop_pagination (cw_settings k) (cw_next_url k pg) page e d = None"
    using assms(1) by (auto simp: next_page_def Let_def split: option.splits if_splits)
  moreover from this have "page + 1 \<le> SCRAPY_MAX_PAGES_PER_CATEGORY (cw_settings k)"
    by (auto simp: should_stop_pagination_def split: if_splits)
  ultimately show ?thesis
    using assms(1)
    by (auto simp: next_page_def Let_def dest!: yielded_request schedule_page [OF _ assms(2)] split: sum.splits if_splits)
qed

lemma parse_listing_requests:
  assumes "q \<in> set (fst (parse k items pg st))" and "cq_purpose q = ''listing''"
  shows "(\<exists>cus st. q \<in> set (fst (listing_categories k cus st)))
    \<or> (\<exists>e d st. q \<in> set (fst (next_page k pg (or_one (cm_page (pg_meta pg))) e d st)))"
proof -
  have no_drain: "q \<notin> set (fst (drain_pending_listing_products k pg st))" for st
    using drain_purpose [of q] assms(2) by (force simp: drain_pending_listing_products_def)
  have "q \<in> set (fst (parse_listing k pg st'))" if "\<And>st. q \<notin> set (fst (drain_pending_listing_products k pg st))"
      "q \<in> set (fst (parse k items pg st))" "st' = st\<lparr>cs_tracker := release_request_governance_counters (cw_gov k) (cm_gov (pg_meta pg)) (cw_store k) (cs_tracker st)\<rparr>" for st'
    using that by (auto simp: parse_def Let_def dest!: then_yield_requests split: if_splits prod.splits)
  with no_drain assms(1) obtain st' where "q \<in> set (fst (parse_listing k pg st'))" by blast
  moreover have "q \<notin> set (fst (listing_products k pg cat page us seen st))" for cat page us seen st
    using assms(2) by (auto dest: listing_products_purpose)
  ultimately show ?thesis
    by (auto simp: parse_listing_def Let_def dest!: then_yield_requests split: sum.splits) blast
qed

text \<open>C29. Every listing request is for the first page of a category, or for the page after the one
  being read, and then its number is at most \<open>SCRAPY_MAX_PAGES_PER_CATEGORY\<close>: the pages
  of a category come to an end whatever its links to the next page say.\<close>

theorem listing_pages_bounded:
  assumes "\<And>m. cm_page (cw_extra k m) = cm_page m"
    and "q \<in> set (fst (parse k items pg st)) \<union> set (fst (start_requests k urls st))" and "cq_purpose q = ''listing''"
  shows "cm_page (cq_meta q) = Some 1 \<or> (\<exists>n. cm_page (cq_meta q) = Some n \<and> n = or_one (cm_page (pg_meta pg)) + 1
    \<and> n \<le> SCRAPY_MAX_PAGES_PER_CATEGORY (cw_settings k))"
  using assms(2)
proof
  assume "q \<in> set (fst (start_requests k urls st))"
  with start_first_pages [OF assms(1)] show ?thesis by (auto simp: first_page_def)
next
  assume "q \<in> set (fst (parse k items pg st))"
  from parse_listing_requests [OF this assms(3)] obtain p e d st' where
    "(\<exists>cus st. q \<in> set (fst (listing_categories k cus st))) \<or> (p = or_one (cm_page (pg_meta pg)) \<and> q \<in> set (fst (next_page k pg p e d st')))"
    by blast
  with category_first_pages [OF assms(1)] next_page_number [OF _ assms(1)] show ?thesis
    by (auto simp: first_page_def)
qed

lemma sample_pages:
  "map (\<lambda>q. (cq_purpose q, cm_page (cq_meta q))) (fst (parse sample_crawl (\<lambda>pg reg. (None, reg)) sample_page (new_crawl sample_crawl)))
    = [(''product'', Some 1), (''product'', Some 1), (''listing'', Some 2)]"
  by code_simp

theorem listing_pages_bounded_witness:
  "\<exists>q::crawl_request. cq_purpose q = ''listing'' \<and> cm_page (cq_meta q) = Some 2 \<and> (2::int) \<le> SCRAPY_MAX_PAGES_PER_CATEGORY (cw_settings sample_crawl)"
proof -
  let ?qs = "fst (parse sample_crawl (\<lambda>pg reg. (None, reg)) sample_page (new_crawl sample_crawl))"
  have "(''listing'', Some 2) \<in> set (map (\<lambda>q. (cq_purpose q, cm_page (cq_meta q))) ?qs)" by (simp add: sample_pages)
  then obtain q where q: "q \<in> set ?qs" "cq_purpose q = ''listing''" "cm_page (cq_meta q) = Some 2" by auto
  have "cm_page (cw_extra sample_crawl m) = cm_page m" for m by (simp add: sample_crawl_def)
  from listing_pages_bounded [OF this UnI1 [OF q(1)] q(2)] q(3)
  have "(2::int) \<le> SCRAPY_MAX_PAGES_PER_CATEGORY (cw_settings sample_crawl)" by auto
  with q show ?thesis by blast
qed

section \<open>The guards that do not guard\<close>

lemma od_seen_known:
  assumes "od_get u d = None"
  shows "od_get u (od_seen m u d) \<noteq> None"
proof -
  have "od_keys (od_seen m u d) = (if m \<le> 0 then od_keys d @ [u] else drop (length (od_keys d) + 1 - nat m) (od_keys d @ [u]))"
    using assms by (simp add: od_seen_def od_keys_limit od_set_absent) (simp add: od_keys_def)
  then have "u \<in> set (od_keys (od_seen m u d))" by (auto simp: Suc_diff_le nat_le_iff)
  then show ?thesis by (simp add: set_od_keys)
qed

text \<open>A link or a category the policies refuse.\<close>

definition refused_url :: "crawl_ctx \<Rightarrow> pystr \<Rightarrow> bool" where
  "refused_url k url \<longleftrightarrow> reject_if_suspicious_url (ax_net (cw_access k)) url \<or> \<not> hv_allowed (validate_store_crawl_url (ax_net (cw_access k)) url)"

lemma refused_not_scheduled: "refused_url k url \<Longrightarrow> schedule_safe_request k url purpose m st = (Inr None, st\<lparr>cs_tick := Suc (cs_tick st)\<rparr>)"
  by (auto simp: refused_url_def schedule_safe_request_def Let_def)

text \<open>A refused product is queued like one the budgets have no room for.\<close>

lemma refused_product_queued:
  assumes "cw_canonical_product k u = Inr c" and "cw_canonical_product k (cw_urljoin k (rs_url (pg_response pg)) (strip u)) = Inr c"
    and "refused_url k c" and "\<not> should_skip_product_url k c (cs_registry st)" and "c \<notin> fst seen" and "source_ids_of k c \<inter> snd seen = {}"
    and "c \<notin> cs_pending_seen st"
  shows "\<exists>seen' m st'. listing_product k pg cat page u seen st = (seen', [], None, st') \<and> cs_pending st' = cs_pending st @ [(u, m)]"
proof -
  have skip: "should_skip_product_url k c (cs_registry (on_registry (\<lambda>r. r\<lparr>product_urls_seen_total := product_urls_seen_total r + 1\<rparr>) st))
      = should_skip_product_url k c (cs_registry st)"
    by (simp add: should_skip_product_url_def on_registry_def has_product_url_def has_source_id_def source_key_def split: option.split)
  with assms show ?thesis
    by (simp add: listing_product_def schedule_product_request_def refused_not_scheduled enqueue_pending_listing_product_def Let_def)
      (simp add: on_registry_def)
qed

definition drain_pages :: "crawl_ctx \<Rightarrow> page list \<Rightarrow> crawl_state \<Rightarrow> crawl_state" where
  "drain_pages k pgs st = foldl (\<lambda>st pg. snd (snd (drain_pending_listing_products k pg st))) st pgs"

lemma refused_head_stays:
  assumes "join_stable k" and "cs_pending st = (cw_urljoin k base v, m) # queue" and "cw_canonical_product k (cw_urljoin k base v) = Inr c"
    and "refused_url k c" and "\<not> should_skip_product_url k c (cs_registry st)"
  shows "drain_pending_listing_products k pg st = ([], None, st\<lparr>cs_tick := Suc (cs_tick st)\<rparr>)"
proof -
  have "cw_canonical_product k (cw_urljoin k (rs_url (pg_response pg)) (strip (cw_urljoin k base v))) = Inr c"
    using assms(1,3) by (simp add: join_stable_def)
  with assms show ?thesis
    by (simp add: drain_pending_listing_products_def PENDING_PRODUCT_DRAIN_LIMIT_def drain_one_def schedule_product_request_def
        refused_not_scheduled Let_def)
qed


definition foreign_product :: pystr where
  "foreign_product = ''https://evil.uz/p''"

lemma foreign_refused: "refused_url sample_crawl foreign_product" "strip foreign_product = foreign_product"
  "canonicalize_crawl_url foreign_product = Inr foreign_product"
  by (code_simp, code_simp, code_simp)


text \<open>A category link, by contrast, is remembered before it is scheduled: refused for want of room in the
  budgets, it has no queue to wait in and is passed over wherever it is met again.\<close>

theorem refused_category_lost:
  assumes "canonicalize_crawl_url cu = Inr c" and "\<not> has_listing_page_url c (cs_registry st)"
    and "schedule_safe_request k cu ''listing'' (category_meta cu) (on_registry (remember_listing_page_url (max_entries k) c) st) = (Inr None, st1)"
  shows "listing_categories k [cu] st = ([], None, st1) \<and> listing_categories k [cu] st1 = ([], None, st1)
    \<and> cs_pending st1 = cs_pending st"
proof -
  have keeps: "cs_registry st1 = remember_listing_page_url (max_entries k) c (cs_registry st) \<and> cs_pending st1 = cs_pending st"
    using schedule_keeps [OF assms(3)] by (simp add: on_registry_def)
  then have "has_listing_page_url c (cs_registry st1)"
    using assms(2) by (simp add: has_listing_page_url_def remember_listing_page_url_def od_seen_known)
  with assms keeps show ?thesis by (simp add: then_yield_def yielded_def)
qed

theorem refused_category_lost_witness:
  "\<exists>st1. listing_categories sample_crawl [foreign_product] st1 = ([], None, st1) \<and> cs_pending st1 = []"
proof -
  let ?st = "new_crawl sample_crawl"
  have "\<not> has_listing_page_url foreign_product (cs_registry ?st)"
    by (simp add: has_listing_page_url_def new_crawl_def new_crawl_registry_def od_get_def)
  from refused_category_lost [OF foreign_refused(3) this refused_not_scheduled [OF foreign_refused(1)]]
  show ?thesis by (auto simp: new_crawl_def)
qed

section \<open>Repeated listings\<close>

text \<open>A listing page as the guard sees it: the page, the canonical URLs of its products, its number.\<close>

type_synonym visit = "page \<times> pystr list \<times> int"

definition signature_of :: "crawl_ctx \<Rightarrow> visit \<Rightarrow> pystr" where
  "signature_of k v = cw_signature k (fst v) (fst (snd v)) (snd (snd v))"

definition visit_all :: "crawl_ctx \<Rightarrow> visit list \<Rightarrow> crawl_registry \<Rightarrow> crawl_registry" where
  "visit_all k vs reg = foldl (\<lambda>reg v. note_signature k (fst v) (fst (snd v)) (snd (snd v)) reg) reg vs"

lemma keys_seen: "set (od_keys (od_seen m u d)) \<subseteq> insert u (set (od_keys d))"
  unfolding od_seen_def od_keys_limit
  by (auto dest!: in_set_dropD simp: od_keys_move_to_end od_keys_set split: if_splits)

lemma visited_signatures:
  "set (od_keys (cr_signatures (visit_all k vs reg))) \<subseteq> signature_of k ` set vs \<union> set (od_keys (cr_signatures reg))"
proof (induction vs rule: rev_induct)
  case (snoc v vs)
  let ?reg = "visit_all k vs reg"
  have "set (od_keys (cr_signatures (note_signature k (fst v) (fst (snd v)) (snd (snd v)) ?reg)))
      \<subseteq> insert (signature_of k v) (set (od_keys (cr_signatures ?reg)))"
    using keys_seen by (auto simp: note_signature_def remember_listing_signature_def signature_of_def Let_def)
  with snoc show ?case by (auto simp: visit_all_def)
qed (simp add: visit_all_def)

lemma keys_seen_new:
  assumes "od_get u d = None" and "m \<le> 0 \<or> length d < nat m"
  shows "od_keys (od_seen m u d) = od_keys d @ [u]"
  using assms by (auto simp: od_seen_def od_limit_def od_keys_limit od_set_absent od_keys_def od_trim_drop)

lemma all_signatures_kept:
  assumes "max_entries k \<le> 0 \<or> length vs \<le> nat (max_entries k)" and "cr_signatures reg = []"
  shows "set (od_keys (cr_signatures (visit_all k vs reg))) = signature_of k ` set vs \<and> length (cr_signatures (visit_all k vs reg)) \<le> length vs"
  using assms(1)
proof (induction vs rule: rev_induct)
  case Nil
  with assms(2) show ?case by (simp add: visit_all_def od_keys_def)
next
  case (snoc w vs)
  let ?d = "cr_signatures (visit_all k vs reg)"
  from snoc have IH: "set (od_keys ?d) = signature_of k ` set vs" "length ?d \<le> length vs" by auto
  have step: "cr_signatures (visit_all k (vs @ [w]) reg) = (if od_get (signature_of k w) ?d \<noteq> None then ?d else od_seen (max_entries k) (signature_of k w) ?d)"
    by (simp add: visit_all_def note_signature_def remember_listing_signature_def signature_of_def has_listing_signature_def Let_def)
  show ?case
  proof (cases "od_get (signature_of k w) ?d")
    case None
    with keys_seen_new [OF None, of "max_entries k"] IH snoc.prems have keys: "od_keys (od_seen (max_entries k) (signature_of k w) ?d) = od_keys ?d @ [signature_of k w]"
      by auto
    then have "length (od_seen (max_entries k) (signature_of k w) ?d) = Suc (length ?d)"
      by (metis length_append_singleton length_map od_keys_def)
    with keys IH step None show ?thesis by auto
  next
    case (Some v)
    then have "signature_of k w \<in> set (od_keys ?d)" by (simp add: set_od_keys)
    with IH step Some show ?thesis by auto
  qed
qed

lemma blob_eq:
  "signature_blob path page head n = signature_blob path' page' head' n' \<longleftrightarrow> path = path' \<and> page = page' \<and> head = head' \<and> n = n'"
  by (auto simp: signature_blob_def inj_map_eq_map inj_def split: option.splits)

text \<open>The signature by which the framework means to notice that a store serves the same listing under
  ever new page numbers contains the page number.  Whatever the pages show, on a page whose
  number the category has not had before, the streak of duplicates is 0, unless two
  different texts have the same SHA-256: \<open>SCRAPY_MAX_DUPLICATE_LISTING_REPEATS\<close> never ends
  a category.\<close>

theorem duplicate_guard_idle:
  assumes "\<And>pg canon p. cw_signature k pg canon p = build_listing_signature sha256 dumps n pg canon p"
    and "\<And>pg' canon' p'. (pg', canon', p') \<in> set vs \<Longrightarrow> p' \<noteq> page \<or> url_path (rs_url (pg_response pg')) \<noteq> url_path (rs_url (pg_response pg))"
    and "cr_signatures reg = []"
  shows "dup_streak k pg canon page (visit_all k vs reg) = 0 \<or> (\<exists>x y. x \<noteq> y \<and> sha256 (dumps x) = sha256 (dumps y))"
proof (cases "has_listing_signature (cw_signature k pg canon page) (visit_all k vs reg)")
  case False
  then show ?thesis by (simp add: dup_streak_def)
next
  case True
  then have "cw_signature k pg canon page \<in> set (od_keys (cr_signatures (visit_all k vs reg)))"
    by (simp add: has_listing_signature_def set_od_keys)
  with visited_signatures [of k vs reg] have "cw_signature k pg canon page \<in> signature_of k ` set vs"
    by (auto simp: assms(3) od_keys_def)
  then obtain pg' canon' p' where v: "(pg', canon', p') \<in> set vs"
      and same: "cw_signature k pg canon page = cw_signature k pg' canon' p'" by (auto simp: signature_of_def)
  let ?blob = "\<lambda>pg canon p. signature_blob (url_path (rs_url (pg_response pg))) (Some p) (sort (take n canon)) (length canon)"
  have "?blob pg canon page \<noteq> ?blob pg' canon' p'" using assms(2) [OF v] by (auto simp: blob_eq)
  with same show ?thesis unfolding assms(1) build_listing_signature_def by blast
qed

text \<open>The signature Uzum's spider puts in its place leaves the page number out: a listing with the
  products of an earlier page of the same path is counted as a repetition, whatever its
  number, as long as the memory of signatures has not overflown.\<close>

theorem uzum_guard_counts:
  assumes "\<And>pg canon p. cw_signature k pg canon p = uzum_listing_signature sha256 dumps pg canon p"
    and "(pg', canon, p') \<in> set vs" and "max_entries k \<le> 0 \<or> length vs \<le> nat (max_entries k)" and "cr_signatures reg = []"
    and "rstrip_slash (url_path (rs_url (pg_response pg'))) = rstrip_slash (url_path (rs_url (pg_response pg)))"
  shows "dup_streak k pg canon page (visit_all k vs reg) = or_zero (cm_dup_sig_streak (pg_meta pg)) + 1"
proof -
  from assms(2) have "signature_of k (pg', canon, p') \<in> set (od_keys (cr_signatures (visit_all k vs reg)))"
    using all_signatures_kept [OF assms(3,4)] by simp
  then have "has_listing_signature (cw_signature k pg' canon p') (visit_all k vs reg)"
    by (simp add: has_listing_signature_def signature_of_def set_od_keys)
  moreover have "cw_signature k pg' canon p' = cw_signature k pg canon page"
    unfolding assms(1) uzum_listing_signature_def assms(5) ..
  ultimately show ?thesis by (simp add: dup_streak_def)
qed

section \<open>Witnesses\<close>

definition page_two :: page where
  "page_two = sample_page\<lparr>pg_meta := (pg_meta sample_page)\<lparr>cm_page := Some 2\<rparr>\<rparr>"

definition plain_dumps :: "json \<Rightarrow> pystr" where
  "plain_dumps j = (case j of JObj kvs \<Rightarrow> concat (map fst kvs) | _ \<Rightarrow> [])"

theorem duplicate_guard_idle_witness:
  "let k = sample_crawl\<lparr>cw_signature := build_listing_signature id plain_dumps 12\<rparr> in
     dup_streak k page_two [''u''] 2 (visit_all k [(sample_page, [''u''], 1)] (new_crawl_registry ''uzum'')) = 0
     \<or> (\<exists>x y. x \<noteq> y \<and> id (plain_dumps x) = id (plain_dumps y))"
  unfolding Let_def
  by (rule duplicate_guard_idle [of _ id plain_dumps 12]) (auto simp: new_crawl_registry_def)

theorem uzum_guard_counts_witness:
  "let k = sample_crawl\<lparr>cw_signature := uzum_listing_signature id plain_dumps\<rparr> in
     dup_streak k page_two [''u''] 2 (visit_all k [(sample_page, [''u''], 1)] (new_crawl_registry ''uzum''))
       = or_zero (cm_dup_sig_streak (pg_meta page_two)) + 1"
  unfolding Let_def
  by (rule uzum_guard_counts [of _ id plain_dumps sample_page _ 1])
    (auto simp: new_crawl_registry_def page_two_def max_entries_def sample_crawl_def)

end
