(* ===== verification/Url_Properties.thy ===== *)
theory Url_Properties imports Url_Tools begin

text \<open>
  What the crawler's URL functions keep: query strings and split URLs survive being
  written and read again, so the page number a spider writes is the one it reads.
\<close>

section \<open>Texts as UTF-8 bytes\<close>

definition ascii_text :: "string \<Rightarrow> bool" where
  "ascii_text s \<longleftrightarrow> (\<forall>c\<in>set s. (of_char c :: nat) < 128)"

lemma utf8_ascii: "ascii_text s \<Longrightarrow> utf8 s = s"
  by (induction s) (auto simp: utf8_def ascii_text_def Let_def)

lemma utf8_append: "utf8 (s @ t) = utf8 s @ utf8 t"
  by (simp add: utf8_def)

lemma decode_ascii: "ascii_text s \<Longrightarrow> decode_replace s = s"
  by (induction s) (auto simp: ascii_text_def followers_def Let_def)

lemma matching_le: "matching rs s \<le> length rs \<and> matching rs s \<le> length s"
  by (induction rs s rule: matching.induct) auto

lemma matching_take: "matching rs s = length rs \<Longrightarrow> matching rs (take (length rs) s @ t) = length rs"
  by (induction rs s rule: matching.induct) (auto split: if_splits)

lemma decode_valid_sequence:
  assumes "followers c = Some rs" and "matching rs s = length rs"
  shows "decode_replace ((c # take (length rs) s) @ t) = (c # take (length rs) s) @ decode_replace t"
proof -
  have "length (take (length rs) s) = length rs" using assms(2) matching_le [of rs s] by simp
  with assms matching_take [OF assms(2), of t] show ?thesis by (simp add: Let_def)
qed

lemma decode_replacement: "decode_replace (REPLACEMENT @ t) = REPLACEMENT @ decode_replace t"
proof -
  have "followers (CHR 0xEF) = Some [(128, 191), (128, 191)]" by code_simp
  moreover have "matching [(128, 191), (128, 191)] [CHR 0xBF, CHR 0xBD] = 2" by code_simp
  ultimately show ?thesis using decode_valid_sequence [of "CHR 0xEF" "[(128, 191), (128, 191)]" "[CHR 0xBF, CHR 0xBD]" t]
    by (simp add: REPLACEMENT_def)
qed

text \<open>Valid UTF-8 is what decoding leaves as it is; what decoding yields is valid.\<close>

definition valid_text :: "string \<Rightarrow> bool" where
  "valid_text s \<longleftrightarrow> decode_replace s = s"

lemma decode_idem: "valid_text (decode_replace s)"
  unfolding valid_text_def
proof (induction s rule: decode_replace.induct)
  case (2 c s)
  show ?case
  proof (cases "followers c")
    case None
    with 2 show ?thesis by (simp add: decode_replacement)
  next
    case (Some rs)
    let ?n = "matching rs s" and ?rest = "decode_replace (drop (matching rs s) s)"
    have IH: "decode_replace ?rest = ?rest" by (rule 2(2) [OF Some refl])
    show ?thesis
    proof (cases "?n = length rs")
      case True
      have "decode_replace (c # s) = (c # take (length rs) s) @ ?rest" using Some True by (simp add: Let_def)
      with decode_valid_sequence [OF Some True, of ?rest] IH show ?thesis by simp
    next
      case False
      have "decode_replace (c # s) = REPLACEMENT @ ?rest" using Some False by (simp add: Let_def)
      with decode_replacement [of ?rest] IH show ?thesis by simp
    qed
  qed
qed simp

lemma utf8_valid: "valid_text (utf8 s)"
proof (induction s)
  case (Cons c s)
  let ?n = "of_char c :: nat"
  show ?case
  proof (cases "?n < 128")
    case True
    with Cons show ?thesis by (simp add: valid_text_def utf8_def followers_def Let_def)
  next
    case False
    have n: "?n < 256" by simp
    let ?a = "char_of (192 + ?n div 64) :: char" and ?b = "char_of (128 + ?n mod 64) :: char"
    have "?n div 64 < 4" by (rule less_mult_imp_div_less) (use n in simp)
    moreover have "2 \<le> ?n div 64" using div_le_mono [of 128 ?n 64] False by simp
    ultimately have q: "?n div 64 = 2 \<or> ?n div 64 = 3" by linarith
    then have a: "(of_char ?a :: nat) = 192 + ?n div 64" and b: "(of_char ?b :: nat) = 128 + ?n mod 64" using n by auto
    have "followers ?a = Some [(128, 191)]" unfolding followers_def Let_def a using q by auto
    moreover have "matching [(128, 191)] [?b] = length [(128::nat, 191::nat)]" by (simp add: in_range_def b)
    ultimately show ?thesis
      using decode_valid_sequence [of ?a "[(128, 191)]" "[?b]" "utf8 s"] Cons False by (simp add: valid_text_def utf8_def Let_def)
  qed
qed (simp add: valid_text_def utf8_def)

section \<open>Query strings\<close>

definition quoted_char :: "char \<Rightarrow> bool" where
  "quoted_char x \<longleftrightarrow> (of_char x :: nat) < 128 \<and> (of_char x :: nat) > 32 \<and> (of_char x :: nat) \<notin> {35, 38, 61, 63}"

lemma quoted_char_not: "quoted_char x \<Longrightarrow> x \<notin> {CHR ''&'', CHR ''='', CHR ''#'', CHR ''?'', CHR 0x09, CHR 0x0A, CHR 0x0D}"
  by (auto simp: quoted_char_def)

lemma nibble_hex:
  assumes "n < 16"
  shows "hex_nibble (upper_hex n) = Some n" "quoted_char (upper_hex n)"
proof -
  have v: "(of_char (upper_hex n) :: nat) = (if n < 10 then 48 + n else 55 + n)" using assms by (simp add: upper_hex_def)
  then show "hex_nibble (upper_hex n) = Some n" using assms by (simp add: hex_nibble_def Let_def)
  show "quoted_char (upper_hex n)" using assms by (auto simp: quoted_char_def v)
qed

lemma unquote_plain: "c \<noteq> CHR ''+'' \<Longrightarrow> c \<noteq> CHR ''%'' \<Longrightarrow> unquote_plus_bytes (c # s) = c # unquote_plus_bytes s"
  by (auto split: list.splits)

lemma reserved: "\<not> is_unreserved (CHR ''+'')" "\<not> is_unreserved (CHR ''%'')" "\<not> is_unreserved (CHR ''&'')" "\<not> is_unreserved (CHR ''='')"
  "\<not> is_unreserved (CHR ''#'')" "\<not> is_unreserved (CHR ''?'')" "\<not> is_unreserved (CHR '' '')"
  by (simp_all add: is_unreserved_def)

lemma unreserved_char: "is_unreserved c \<Longrightarrow> (of_char c :: nat) < 128 \<and> (of_char c :: nat) > 32"
  by (simp add: is_unreserved_def Let_def) linarith

lemma char_halves: "(of_char c :: nat) div 16 < 16" "(of_char c :: nat) mod 16 < 16"
  by (rule less_mult_imp_div_less) simp_all

lemma unquote_hex:
  "hex_nibble a = Some x \<Longrightarrow> hex_nibble b = Some y \<Longrightarrow> unquote_plus_bytes (CHR ''%'' # a # b # s) = char_of (16 * x + y) # unquote_plus_bytes s"
  by simp

lemma unquote_byte: "unquote_plus_bytes (quote_byte c @ s) = c # unquote_plus_bytes s"
proof -
  consider "is_unreserved c" | "c = CHR '' ''" | "\<not> is_unreserved c" "c \<noteq> CHR '' ''" by blast
  then show ?thesis
  proof cases
    case 1
    then have "c \<noteq> CHR ''+''" "c \<noteq> CHR ''%''" using reserved by blast+
    with 1 unquote_plain [of c s] show ?thesis by (simp add: quote_byte_def)
  next
    case 2
    then show ?thesis by (simp add: quote_byte_def reserved)
  next
    case 3
    have "16 * (of_char c div 16) + of_char c mod 16 = (of_char c :: nat)" by simp
    with 3 unquote_hex [OF nibble_hex(1) [OF char_halves(1)] nibble_hex(1) [OF char_halves(2)], of c c s]
    show ?thesis by (simp add: quote_byte_def)
  qed
qed

lemma unquote_quote: "unquote_plus_bytes (quote_plus s) = s"
  by (induction s) (simp_all add: quote_plus_def unquote_byte)

lemma quote_byte_chars: "x \<in> set (quote_byte c) \<Longrightarrow> quoted_char x"
proof -
  have "is_unreserved c \<Longrightarrow> quoted_char c"
    by (auto simp: is_unreserved_def quoted_char_def Let_def)
  moreover have "quoted_char (CHR ''+'')" "quoted_char (CHR ''%'')" by (simp_all add: quoted_char_def)
  moreover have "quoted_char (upper_hex (of_char c div 16))" "quoted_char (upper_hex (of_char c mod 16))"
    by (rule nibble_hex(2) [OF char_halves(1)], rule nibble_hex(2) [OF char_halves(2)])
  ultimately show "x \<in> set (quote_byte c) \<Longrightarrow> quoted_char x" by (auto simp: quote_byte_def split: if_splits)
qed

lemma quote_plus_chars: "x \<in> set (quote_plus s) \<Longrightarrow> quoted_char x"
  by (auto simp: quote_plus_def quote_byte_chars)

lemma unquote_plus_quote: "valid_text s \<Longrightarrow> unquote_plus (quote_plus s) = s"
proof -
  assume "valid_text s"
  moreover have "ascii_text (quote_plus s)" using quote_plus_chars by (auto simp: ascii_text_def quoted_char_def)
  ultimately show ?thesis by (simp add: unquote_plus_def utf8_ascii unquote_quote valid_text_def)
qed

definition field_of :: "string \<times> string \<Rightarrow> pystr" where
  "field_of kv = quote_plus (fst kv) @ CHR ''='' # quote_plus (snd kv)"

lemma cut_at_free: "c \<notin> set s \<Longrightarrow> cut_at c (s @ c # t) = (s, t)"
  by (induction s) (auto simp: cut_at_def)

lemma cut_at_absent: "c \<notin> set s \<Longrightarrow> cut_at c s = (s, [])"
  by (induction s) (auto simp: cut_at_def)

lemma parse_field_of: "valid_text (fst kv) \<Longrightarrow> valid_text (snd kv) \<Longrightarrow> parse_field (field_of kv) = kv"
proof -
  assume "valid_text (fst kv)" "valid_text (snd kv)"
  moreover have "CHR ''='' \<notin> set (quote_plus (fst kv))" using quote_plus_chars quoted_char_not by blast
  ultimately show ?thesis by (simp add: field_of_def parse_field_def cut_at_free unquote_plus_quote)
qed

lemma split_join:
  assumes "\<forall>w\<in>set ws. sep \<notin> set w" and "ws \<noteq> []"
  shows "split_on sep (join_text [sep] ws) = ws"
  using assms
proof (induction "[sep]" ws rule: join_text.induct)
  case (3 x y xs)
  then show ?case using split_on_first [of sep x] by simp
qed (simp_all add: split_on_free)

lemma urlencode_fields: "urlencode kvs = join_text ''&'' (map field_of kvs)"
  unfolding urlencode_def by (rule arg_cong [where f = "join_text ''&''"]) (auto simp: field_of_def)

text \<open>Reading what was written.\<close>

lemma parse_urlencode:
  assumes "\<forall>kv\<in>set kvs. valid_text (fst kv) \<and> valid_text (snd kv)"
  shows "parse_qsl (urlencode kvs) = kvs"
proof (cases "kvs = []")
  case False
  have "\<forall>w\<in>set (map field_of kvs). CHR ''&'' \<notin> set w"
    using quote_plus_chars quoted_char_not by (force simp: field_of_def)
  with False have "split_on (CHR ''&'') (urlencode kvs) = map field_of kvs" unfolding urlencode_fields by (intro split_join) auto
  moreover have "filter (\<lambda>f. f \<noteq> []) (map field_of kvs) = map field_of kvs" by (simp add: field_of_def filter_id_conv)
  ultimately show ?thesis using assms by (simp add: parse_qsl_def parse_field_of map_idI)
qed (simp add: urlencode_def parse_qsl_def)

lemma parse_valid: "kv \<in> set (parse_qsl q) \<Longrightarrow> valid_text (fst kv) \<and> valid_text (snd kv)"
  by (auto simp: parse_qsl_def parse_field_def cut_at_def unquote_plus_def decode_idem)

lemma urlencode_chars:
  assumes "x \<in> set (urlencode kvs)"
  shows "quoted_char x \<or> x = CHR ''&'' \<or> x = CHR ''=''"
proof -
  have "x \<in> set (join_text sep ws) \<Longrightarrow> x \<in> set sep \<or> (\<exists>w\<in>set ws. x \<in> set w)" for sep ws
    by (induction sep ws rule: join_text.induct) auto
  from this [of "''&''" "map field_of kvs"] assms show ?thesis
    by (auto simp: urlencode_fields field_of_def dest!: quote_plus_chars)
qed

section \<open>Dictionaries of parameters\<close>

definition valid_dict :: "(string, string) odict \<Rightarrow> bool" where
  "valid_dict d \<longleftrightarrow> distinct (od_keys d) \<and> (\<forall>kv\<in>set d. valid_text (fst kv) \<and> valid_text (snd kv))"

lemma od_set_elems: "kv \<in> set (od_set k v d) \<Longrightarrow> kv = (k, v) \<or> kv \<in> set d"
  by (induction d) (auto split: if_splits)

lemma valid_dict_set: "valid_dict d \<Longrightarrow> valid_text k \<Longrightarrow> valid_text v \<Longrightarrow> valid_dict (od_set k v d)"
  by (auto simp: valid_dict_def distinct_od_set dest!: od_set_elems)

lemma foldl_valid: "valid_dict d \<Longrightarrow> \<forall>kv\<in>set kvs. valid_text (fst kv) \<and> valid_text (snd kv) \<Longrightarrow> valid_dict (foldl (\<lambda>d (k, v). od_set k v d) d kvs)"
  by (induction kvs arbitrary: d) (auto simp: valid_dict_set)

lemma query_dict_valid: "valid_dict (query_dict q)"
  unfolding query_dict_def using parse_valid by (intro foldl_valid) (auto simp: valid_dict_def od_keys_def)

lemma od_set_new: "k \<notin> set (od_keys d) \<Longrightarrow> od_set k v d = d @ [(k, v)]"
  by (induction d) (auto simp: od_keys_def)

lemma foldl_distinct: "distinct (od_keys (d @ kvs)) \<Longrightarrow> foldl (\<lambda>d (k, v). od_set k v d) d kvs = d @ kvs"
proof (induction kvs arbitrary: d)
  case (Cons kv kvs)
  obtain k v where kv: "kv = (k, v)" by force
  with Cons.prems have "k \<notin> set (od_keys d)" by (auto simp: od_keys_def)
  with Cons kv show ?case by (simp add: od_set_new)
qed simp

lemma query_dict_urlencode: "valid_dict d \<Longrightarrow> query_dict (urlencode d) = d"
  using foldl_distinct [of "[]" d] by (simp add: query_dict_def valid_dict_def parse_urlencode)

section \<open>Split and joined URLs\<close>

definition url_break :: "char \<Rightarrow> bool" where
  "url_break c \<longleftrightarrow> c = CHR ''?'' \<or> c = CHR ''#''"

definition url_space :: "char \<Rightarrow> bool" where
  "url_space c \<longleftrightarrow> c = CHR 0x09 \<or> c = CHR 0x0A \<or> c = CHR 0x0D"

definition scheme_ok :: "pystr \<Rightarrow> bool" where
  "scheme_ok s \<longleftrightarrow> s \<noteq> [] \<and> is_ascii_alpha (hd s) \<and> list_all is_scheme_char s"

text \<open>What the parts of a split URL satisfy, but for the query.\<close>

definition parts_ok :: "url_parts \<Rightarrow> bool" where
  "parts_ok u \<longleftrightarrow> (up_scheme u = [] \<or> scheme_ok (up_scheme u) \<and> lower (up_scheme u) = up_scheme u)
     \<and> (\<forall>c\<in>set (up_netloc u). is_netloc_char c) \<and> ((CHR ''['' \<in> set (up_netloc u)) = (CHR '']'' \<in> set (up_netloc u)))
     \<and> (\<forall>c\<in>set (up_path u). \<not> url_break c) \<and> (up_netloc u \<noteq> [] \<longrightarrow> up_path u = [] \<or> hd (up_path u) = CHR ''/'')
     \<and> (up_scheme u = [] \<and> up_netloc u = [] \<and> up_path u \<noteq> [] \<longrightarrow> (of_char (hd (up_path u)) :: nat) > 32)
     \<and> (up_scheme u = [] \<and> up_netloc u = [] \<and> CHR '':'' \<in> set (up_path u) \<longrightarrow> \<not> scheme_ok (takeWhile (\<lambda>c. c \<noteq> CHR '':'') (up_path u)))
     \<and> (\<forall>c\<in>set (up_netloc u @ up_path u @ up_fragment u). \<not> url_space c)"

definition query_ok :: "pystr \<Rightarrow> bool" where
  "query_ok q \<longleftrightarrow> (\<forall>c\<in>set q. c \<noteq> CHR ''#'' \<and> \<not> url_space c)"

lemma clean_url_id:
  assumes "s = [] \<or> (of_char (hd s) :: nat) > 32" and "\<forall>c\<in>set s. \<not> url_space c"
  shows "clean_url s = s"
proof -
  have "dropWhile (\<lambda>c. (of_char c :: nat) \<le> 32) s = s" by (rule dropWhile_eq_self) (use assms(1) in auto)
  moreover have "filter (\<lambda>c. c \<noteq> CHR 0x09 \<and> c \<noteq> CHR 0x0A \<and> c \<noteq> CHR 0x0D) s = s"
    by (rule filter_True) (use assms(2) in \<open>simp add: url_space_def\<close>)
  ultimately show ?thesis by (simp only: clean_url_def)
qed

lemma clean_url_clean: "(clean_url s = [] \<or> (of_char (hd (clean_url s)) :: nat) > 32) \<and> (\<forall>c\<in>set (clean_url s). \<not> url_space c)"
proof -
  let ?t = "dropWhile (\<lambda>c. (of_char c :: nat) \<le> 32) s"
  show ?thesis
  proof (cases ?t)
    case Nil
    then have "clean_url s = []" by (simp only: clean_url_def filter.simps)
    then show ?thesis by simp
  next
    case (Cons c t)
    then have c: "(of_char c :: nat) > 32" using hd_dropWhile [of "\<lambda>c. (of_char c :: nat) \<le> 32" s] by (metis list.discI list.sel(1) not_le)
    then have "c \<noteq> CHR 0x09 \<and> c \<noteq> CHR 0x0A \<and> c \<noteq> CHR 0x0D" by auto
    then have "clean_url s = c # filter (\<lambda>c. c \<noteq> CHR 0x09 \<and> c \<noteq> CHR 0x0A \<and> c \<noteq> CHR 0x0D) t"
      unfolding clean_url_def Cons by simp
    moreover have "\<forall>c\<in>set (clean_url s). \<not> url_space c" by (simp add: clean_url_def url_space_def)
    ultimately show ?thesis using c by simp
  qed
qed

lemma scheme_char_simps: "is_scheme_char c \<Longrightarrow> c \<noteq> CHR '':'' \<and> \<not> url_break c \<and> \<not> url_space c \<and> c \<noteq> CHR ''/''"
  by (auto simp: is_scheme_char_def is_ascii_alpha_def url_break_def url_space_def Let_def)

lemma alpha_char: "is_ascii_alpha c \<Longrightarrow> (of_char c :: nat) > 32 \<and> c \<noteq> CHR ''/''"
  by (auto simp: is_ascii_alpha_def Let_def)

text \<open>A URL written after its scheme is read with the scheme; without one, as it is.\<close>

lemma scheme_written:
  assumes "scheme_ok s" and "lower s = s"
  shows "url_scheme_rest (s @ CHR '':'' # t) = (s, t)"
proof -
  have "\<forall>c\<in>set s. c \<noteq> CHR '':''" using assms(1) scheme_char_simps by (auto simp: scheme_ok_def list_all_iff)
  then have "takeWhile (\<lambda>c. c \<noteq> CHR '':'') (s @ CHR '':'' # t) = s" "dropWhile (\<lambda>c. c \<noteq> CHR '':'') (s @ CHR '':'' # t) = CHR '':'' # t"
    by (simp_all add: takeWhile_append2 dropWhile_append2)
  with assms show ?thesis by (simp add: url_scheme_rest_def scheme_ok_def Let_def)
qed

lemma no_scheme: "(CHR '':'' \<in> set t \<Longrightarrow> \<not> scheme_ok (takeWhile (\<lambda>c. c \<noteq> CHR '':'') t)) \<Longrightarrow> url_scheme_rest t = ([], t)"
  by (auto simp: url_scheme_rest_def scheme_ok_def Let_def dropWhile_eq_Nil_conv)

lemma slash_no_scheme: "url_scheme_rest (CHR ''/'' # t) = ([], CHR ''/'' # t)"
  by (rule no_scheme) (simp add: scheme_ok_def is_ascii_alpha_def)

lemma tail_cut:
  assumes "\<forall>c\<in>set p. \<not> url_break c" and "query_ok q"
  shows "cut_at (CHR ''#'') (p @ (if q \<noteq> [] then CHR ''?'' # q else []) @ (if f \<noteq> [] then CHR ''#'' # f else []))
      = (p @ (if q \<noteq> [] then CHR ''?'' # q else []), f)"
    and "cut_at (CHR ''?'') (p @ (if q \<noteq> [] then CHR ''?'' # q else [])) = (p, q)"
proof -
  let ?pq = "p @ (if q \<noteq> [] then CHR ''?'' # q else [])"
  have "CHR ''#'' \<notin> set ?pq" using assms by (auto simp: url_break_def query_ok_def)
  then show "cut_at (CHR ''#'') (p @ (if q \<noteq> [] then CHR ''?'' # q else []) @ (if f \<noteq> [] then CHR ''#'' # f else [])) = (?pq, f)"
    using cut_at_free [of "CHR ''#''" ?pq f] cut_at_absent [of "CHR ''#''" ?pq] by auto
  have "CHR ''?'' \<notin> set p" using assms(1) by (auto simp: url_break_def)
  then show "cut_at (CHR ''?'') ?pq = (p, q)" using cut_at_free [of "CHR ''?''" p q] cut_at_absent [of "CHR ''?''" p] by auto
qed

text \<open>The part of a URL after its scheme, as it is written, and as it is read.\<close>

definition url_body :: "url_parts \<Rightarrow> pystr" where
  "url_body u = (if up_netloc u \<noteq> [] then ''//'' @ up_netloc u @ (if up_path u \<noteq> [] \<and> hd (up_path u) \<noteq> CHR ''/'' then ''/'' @ up_path u else up_path u)
     else if take 2 (up_path u) = ''//'' then ''//'' @ up_path u
     else if up_scheme u \<in> set uses_netloc \<and> (up_path u = [] \<or> hd (up_path u) = CHR ''/'') then ''//'' @ up_path u
     else up_path u)"

definition url_tail :: "url_parts \<Rightarrow> pystr" where
  "url_tail u = (if up_query u \<noteq> [] then CHR ''?'' # up_query u else []) @ (if up_fragment u \<noteq> [] then CHR ''#'' # up_fragment u else [])"

definition read_netloc :: "pystr \<Rightarrow> pystr \<times> pystr" where
  "read_netloc rest = (if take 2 rest = ''//'' then (takeWhile is_netloc_char (drop 2 rest), dropWhile is_netloc_char (drop 2 rest)) else ([], rest))"

lemma unsplit_body: "urlunsplit5 u = (if up_scheme u = [] then [] else up_scheme u @ '':'') @ url_body u @ url_tail u"
  by (simp add: urlunsplit5_def urlunsplit3_def url_body_def url_tail_def Let_def)

lemma tail_break: "url_tail u = [] \<or> url_break (hd (url_tail u))"
  by (simp add: url_tail_def url_break_def)

lemma break_not_netloc: "url_break c \<Longrightarrow> \<not> is_netloc_char c \<and> c \<noteq> CHR ''/'' \<and> c \<noteq> CHR '':'' \<and> \<not> is_scheme_char c \<and> (of_char c :: nat) > 32 \<and> \<not> url_space c"
  by (auto simp: url_break_def is_netloc_char_def is_scheme_char_def is_ascii_alpha_def url_space_def Let_def)

lemma netloc_stops:
  assumes "\<forall>c\<in>set n. is_netloc_char c" and "t = [] \<or> \<not> is_netloc_char (hd t)"
  shows "takeWhile is_netloc_char (n @ t) = n \<and> dropWhile is_netloc_char (n @ t) = t"
  using assms by (cases t) (auto simp: takeWhile_append2 dropWhile_append2)

lemma path_tail_stops: "p = [] \<or> hd p = CHR ''/'' \<Longrightarrow> p @ url_tail u = [] \<or> \<not> is_netloc_char (hd (p @ url_tail u))"
  using tail_break [of u] break_not_netloc by (cases p) (auto simp: is_netloc_char_def)

lemma body_read:
  assumes "parts_ok u"
  shows "read_netloc (url_body u @ url_tail u) = (up_netloc u, up_path u @ url_tail u)"
proof -
  have slashed: "read_netloc (''//'' @ n @ p @ url_tail u) = (n, p @ url_tail u)"
    if "\<forall>c\<in>set n. is_netloc_char c" "p = [] \<or> hd p = CHR ''/''" for n p
    using netloc_stops [OF that(1) path_tail_stops [OF that(2)]] by (simp add: read_netloc_def)
  consider "up_netloc u \<noteq> []" | "up_netloc u = []" "take 2 (up_path u) = ''//''" | "up_netloc u = []" "take 2 (up_path u) \<noteq> ''//''" by blast
  then show ?thesis
  proof cases
    case 1
    then have "up_path u = [] \<or> hd (up_path u) = CHR ''/''" using assms by (simp add: parts_ok_def)
    with 1 assms slashed show ?thesis by (auto simp: url_body_def parts_ok_def)
  next
    case 2
    then have "hd (up_path u) = CHR ''/''" by (cases "up_path u") auto
    with 2 slashed [of "[]" "up_path u"] show ?thesis by (simp add: url_body_def)
  next
    case 3
    have "take 2 (up_path u @ url_tail u) \<noteq> ''//''"
    proof (cases "up_path u")
      case Nil
      with tail_break [of u] break_not_netloc show ?thesis by (cases "url_tail u") auto
    next
      case (Cons c p)
      with 3 tail_break [of u] break_not_netloc show ?thesis by (cases p; cases "url_tail u") auto
    qed
    with 3 slashed [of "[]" "up_path u"] show ?thesis by (auto simp: url_body_def read_netloc_def)
  qed
qed

lemma scheme_read:
  assumes "parts_ok u"
  shows "url_scheme_rest (urlunsplit5 u) = (up_scheme u, url_body u @ url_tail u)"
proof (cases "up_scheme u = []")
  case False
  with assms scheme_written show ?thesis by (simp add: unsplit_body parts_ok_def)
next
  case True
  let ?t = "up_path u @ url_tail u"
  have "url_scheme_rest ?t = ([], ?t)" if n: "up_netloc u = []"
  proof (rule no_scheme)
    assume colon: "CHR '':'' \<in> set ?t"
    show "\<not> scheme_ok (takeWhile (\<lambda>c. c \<noteq> CHR '':'') ?t)"
    proof (cases "CHR '':'' \<in> set (up_path u)")
      case here: True
      then have "takeWhile (\<lambda>c. c \<noteq> CHR '':'') ?t = takeWhile (\<lambda>c. c \<noteq> CHR '':'') (up_path u)"
        by (intro takeWhile_append1) auto
      with assms True n here show ?thesis by (simp add: parts_ok_def)
    next
      case False
      with colon obtain c t where t: "url_tail u = c # t" by (cases "url_tail u") auto
      with tail_break [of u] have c: "url_break c" by simp
      from False have "takeWhile (\<lambda>c. c \<noteq> CHR '':'') ?t = up_path u @ takeWhile (\<lambda>c. c \<noteq> CHR '':'') (c # t)"
        unfolding t by (intro takeWhile_append2) auto
      with break_not_netloc [OF c] show ?thesis by (simp add: scheme_ok_def)
    qed
  qed
  moreover have "url_scheme_rest (''//'' @ t) = ([], ''//'' @ t)" for t using slash_no_scheme [of "CHR ''/'' # t"] by simp
  ultimately show ?thesis using True by (auto simp: unsplit_body url_body_def)
qed

lemma clean_written:
  assumes "parts_ok u" and "query_ok (up_query u)"
  shows "clean_url (urlunsplit5 u) = urlunsplit5 u"
proof (rule clean_url_id)
  have sch: "c \<in> set (up_scheme u) \<Longrightarrow> \<not> url_space c" for c
    using assms(1) scheme_char_simps by (auto simp: parts_ok_def scheme_ok_def list_all_iff)
  have "set (url_body u) \<subseteq> {CHR ''/''} \<union> set (up_netloc u) \<union> set (up_path u)" by (auto simp: url_body_def)
  moreover have "set (url_tail u) \<subseteq> {CHR ''?'', CHR ''#''} \<union> set (up_query u) \<union> set (up_fragment u)" by (auto simp: url_tail_def)
  moreover have "\<not> url_space c" if "c \<in> set (up_query u) \<union> set (up_netloc u) \<union> set (up_path u) \<union> set (up_fragment u)" for c
    using that assms unfolding parts_ok_def query_ok_def set_append by blast
  moreover have "set (urlunsplit5 u) \<subseteq> set (up_scheme u) \<union> {CHR '':''} \<union> set (url_body u) \<union> set (url_tail u)" by (auto simp: unsplit_body)
  moreover have "\<not> url_space (CHR ''/'')" "\<not> url_space (CHR '':'')" "\<not> url_space (CHR ''?'')" "\<not> url_space (CHR ''#'')" by (simp_all add: url_space_def)
  ultimately show "\<forall>c\<in>set (urlunsplit5 u). \<not> url_space c" using sch by blast
  show "urlunsplit5 u = [] \<or> (of_char (hd (urlunsplit5 u)) :: nat) > 32"
  proof (cases "up_scheme u")
    case (Cons c s)
    with assms(1) alpha_char show ?thesis by (auto simp: unsplit_body parts_ok_def scheme_ok_def)
  next
    case Nil
    have "url_body u @ url_tail u = [] \<or> (of_char (hd (url_body u @ url_tail u)) :: nat) > 32"
      using assms(1) Nil tail_break [of u] break_not_netloc
      by (cases "up_path u"; cases "up_netloc u") (auto simp: url_body_def parts_ok_def)
    with Nil show ?thesis by (simp add: unsplit_body)
  qed
qed

text \<open>A URL that is written is read as the parts it was written from.\<close>

lemma split_unsplit:
  assumes "parts_ok u" and "query_ok (up_query u)"
  shows "urlsplit5 (urlunsplit5 u) = Inr u"
proof -
  have cuts: "cut_at (CHR ''#'') (up_path u @ url_tail u) = (up_path u @ (if up_query u \<noteq> [] then CHR ''?'' # up_query u else []), up_fragment u)"
    "cut_at (CHR ''?'') (up_path u @ (if up_query u \<noteq> [] then CHR ''?'' # up_query u else [])) = (up_path u, up_query u)"
    using tail_cut(1) [of "up_path u" "up_query u" "up_fragment u"] tail_cut(2) [of "up_path u" "up_query u"] assms
    by (simp_all add: parts_ok_def url_tail_def)
  have "(CHR ''['' \<in> set (up_netloc u)) = (CHR '']'' \<in> set (up_netloc u))" using assms(1) by (simp add: parts_ok_def)
  then show ?thesis
    unfolding urlsplit5_def clean_written [OF assms] scheme_read [OF assms(1)] Let_def prod.case
      body_read [OF assms(1), unfolded read_netloc_def] cuts by simp
qed

text \<open>And what was read is of that form.\<close>

lemma lower_scheme: "scheme_ok s \<Longrightarrow> scheme_ok (lower s)"
proof -
  have "is_ascii_alpha c \<Longrightarrow> is_ascii_alpha (lower_char c)" "is_scheme_char c \<Longrightarrow> is_scheme_char (lower_char c)" for c
    by (auto simp: is_ascii_alpha_def is_scheme_char_def lower_char_def Let_def)
  then show "scheme_ok s \<Longrightarrow> scheme_ok (lower s)" by (cases s) (auto simp: scheme_ok_def lower_def list_all_iff)
qed

lemma set_tl: "set (tl xs) \<subseteq> set xs"
  by (cases xs) auto

lemma scheme_rest_cases:
  obtains "url_scheme_rest t = ([], t)" "CHR '':'' \<in> set t \<longrightarrow> \<not> scheme_ok (takeWhile (\<lambda>c. c \<noteq> CHR '':'') t)"
  | s r where "url_scheme_rest t = (lower s, r)" "scheme_ok s" "set r \<subseteq> set t"
proof (cases "CHR '':'' \<in> set t \<and> scheme_ok (takeWhile (\<lambda>c. c \<noteq> CHR '':'') t)")
  case True
  then have "url_scheme_rest t = (lower (takeWhile (\<lambda>c. c \<noteq> CHR '':'') t), tl (dropWhile (\<lambda>c. c \<noteq> CHR '':'') t))"
    by (auto simp: url_scheme_rest_def scheme_ok_def Let_def dropWhile_eq_Nil_conv)
  moreover have "set (tl (dropWhile (\<lambda>c. c \<noteq> CHR '':'') t)) \<subseteq> set t"
    by (rule subset_trans [OF set_tl]) (auto dest: set_dropWhileD)
  ultimately show ?thesis using that(2) True by blast
next
  case False
  with that(1) no_scheme show ?thesis by blast
qed

lemma cut_at_parts: "cut_at c s = (a, b) \<Longrightarrow> set a \<subseteq> set s \<and> c \<notin> set a \<and> set b \<subseteq> set s \<and> (a = [] \<or> hd a = hd s) \<and> (\<exists>b'. s = a @ b')"
proof (induction s arbitrary: a b)
  case (Cons x s)
  then show ?case by (cases "x = c") (auto simp: cut_at_def)
qed (simp add: cut_at_def)

lemma read_netloc_parts:
  assumes "read_netloc rest = (n, r)"
  shows "(\<forall>c\<in>set n. is_netloc_char c) \<and> set n \<subseteq> set rest \<and> set r \<subseteq> set rest
    \<and> (n \<noteq> [] \<longrightarrow> r = [] \<or> \<not> is_netloc_char (hd r)) \<and> (n = [] \<longrightarrow> r = rest \<or> r = [] \<or> \<not> is_netloc_char (hd r))"
proof (cases "take 2 rest = ''//''")
  case True
  with assms have n: "n = takeWhile is_netloc_char (drop 2 rest)" and r: "r = dropWhile is_netloc_char (drop 2 rest)" by (auto simp: read_netloc_def)
  have "r = [] \<or> \<not> is_netloc_char (hd r)" unfolding r using hd_dropWhile by blast
  moreover have "set n \<subseteq> set rest" "set r \<subseteq> set rest" "\<forall>c\<in>set n. is_netloc_char c"
    unfolding n r by (auto dest: set_takeWhileD set_dropWhileD in_set_dropD)
  ultimately show ?thesis by blast
next
  case False
  with assms show ?thesis by (simp add: read_netloc_def)
qed

lemma parts_ok_split:
  assumes t: "(t = [] \<or> (of_char (hd t) :: nat) > 32) \<and> (\<forall>c\<in>set t. \<not> url_space c)"
    and sch: "url_scheme_rest t = (sch, rest)" and net: "read_netloc rest = (n, r)"
    and cuts: "cut_at (CHR ''#'') r = (b, f)" "cut_at (CHR ''?'') b = (p, q)"
    and brackets: "(CHR ''['' \<in> set n) = (CHR '']'' \<in> set n)"
  shows "parts_ok \<lparr> up_scheme = sch, up_netloc = n, up_path = p, up_query = q, up_fragment = f \<rparr> \<and> query_ok q"
proof -
  note N = read_netloc_parts [OF net] and F = cut_at_parts [OF cuts(1)] and Q = cut_at_parts [OF cuts(2)]
  have rest: "set rest \<subseteq> set t"
    by (rule scheme_rest_cases [of t]) (use sch in auto)
  have scheme: "sch = [] \<or> scheme_ok sch \<and> lower sch = sch"
    by (rule scheme_rest_cases [of t]) (use sch lower_scheme in auto)
  have breaks: "\<not> is_netloc_char c \<Longrightarrow> c = CHR ''/'' \<or> url_break c" for c by (auto simp: is_netloc_char_def url_break_def)
  have path: "\<forall>c\<in>set p. \<not> url_break c" using F Q by (auto simp: url_break_def)
  have start: "p = [] \<or> hd p = hd r" using F Q by (metis append_is_Nil_conv)
  have slash: "p = [] \<or> hd p = CHR ''/''" if "r = [] \<or> \<not> is_netloc_char (hd r)"
  proof (cases "p = []")
    case False
    then have "hd p \<in> set p" by simp
    with path have "\<not> url_break (hd p)" by blast
    moreover have "r \<noteq> []" using False F Q by (metis append_is_Nil_conv)
    ultimately show ?thesis using that start False breaks by auto
  qed simp
  have bare: "p = [] \<or> hd p = CHR ''/'' \<or> (r = t \<and> (CHR '':'' \<in> set t \<longrightarrow> \<not> scheme_ok (takeWhile (\<lambda>c. c \<noteq> CHR '':'') t)))" if "sch = []" "n = []"
    using scheme_rest_cases [of t]
  proof cases
    case 1
    with sch N that slash show ?thesis by auto
  next
    case (2 s r')
    with sch that have "s = []" by (metis length_0_conv length_lower prod.inject)
    with 2 show ?thesis by (simp add: scheme_ok_def)
  qed
  have hd: "p \<noteq> [] \<longrightarrow> (of_char (hd p) :: nat) > 32" if "sch = []" "n = []"
  proof
    assume p: "p \<noteq> []"
    with F Q start have "r \<noteq> []" "hd p = hd r" by (metis append_is_Nil_conv)+
    with bare [OF that] p t show "(of_char (hd p) :: nat) > 32" by auto
  qed
  have colon: "CHR '':'' \<in> set p \<longrightarrow> \<not> scheme_ok (takeWhile (\<lambda>c. c \<noteq> CHR '':'') p)" if "sch = []" "n = []"
  proof
    assume c: "CHR '':'' \<in> set p"
    obtain t' where t': "r = p @ t'" using F Q by (metis append.assoc)
    from bare [OF that] consider "hd p = CHR ''/''" | "r = t" "CHR '':'' \<in> set t \<longrightarrow> \<not> scheme_ok (takeWhile (\<lambda>c. c \<noteq> CHR '':'') t)"
      using c by force
    then show "\<not> scheme_ok (takeWhile (\<lambda>c. c \<noteq> CHR '':'') p)"
    proof cases
      case 1
      with c show ?thesis by (cases p) (auto simp: scheme_ok_def is_ascii_alpha_def)
    next
      case 2
      have "takeWhile (\<lambda>c. c \<noteq> CHR '':'') (p @ t') = takeWhile (\<lambda>c. c \<noteq> CHR '':'') p"
        by (rule takeWhile_append1 [OF c]) simp
      with 2 c t' show ?thesis by auto
    qed
  qed
  have sub: "set n \<subseteq> set t" "set b \<subseteq> set t" "set f \<subseteq> set t" "set p \<subseteq> set t" "set q \<subseteq> set t" "CHR ''#'' \<notin> set q"
    using N F Q rest by blast+
  then have chars: "\<forall>c\<in>set (n @ p @ f). \<not> url_space c" "query_ok q"
    using t unfolding query_ok_def set_append by blast+
  show ?thesis using scheme N brackets path slash hd colon chars by (simp add: parts_ok_def)
qed

lemma split_parts_ok:
  assumes "urlsplit5 raw = Inr u"
  shows "parts_ok u \<and> query_ok (up_query u)"
proof -
  obtain sch rest where sch: "url_scheme_rest (clean_url raw) = (sch, rest)" by force
  obtain n r where net: "read_netloc rest = (n, r)" by force
  obtain b f where fragment: "cut_at (CHR ''#'') r = (b, f)" by force
  obtain p q where query: "cut_at (CHR ''?'') b = (p, q)" by force
  from assms have "(CHR ''['' \<in> set n) = (CHR '']'' \<in> set n)" "u = \<lparr> up_scheme = sch, up_netloc = n, up_path = p, up_query = q, up_fragment = f \<rparr>"
    unfolding urlsplit5_def sch Let_def prod.case net [unfolded read_netloc_def] fragment query by (simp_all split: if_splits)
  with parts_ok_split [OF clean_url_clean sch net fragment query] show ?thesis by simp
qed

lemma query_replaced: "parts_ok u \<Longrightarrow> parts_ok (u\<lparr>up_query := q\<rparr>)"
  by (simp add: parts_ok_def)

lemma urlencode_ok: "query_ok (urlencode kvs)"
  using urlencode_chars [of _ kvs] quoted_char_not by (fastforce simp: query_ok_def url_space_def)

section \<open>Page numbers\<close>

text \<open>The parameters of a URL that is read.\<close>

definition url_params :: "pystr \<Rightarrow> (string, string) odict" where
  "url_params url = (case urlsplit5 url of Inl x \<Rightarrow> [] | Inr u \<Rightarrow> query_dict (up_query u))"

lemma digit_points: "list_all is_digit s \<Longrightarrow> code_points s = map of_char s \<and> ascii_text s"
  by (induction s) (auto simp: is_digit_def ascii_text_def Let_def)

lemma int_of_digits: "list_all is_digit s \<Longrightarrow> foldl (\<lambda>acc n. 10 * acc + (n - 48)) a (map of_char s) = digits_value a s"
  by (induction s arbitrary: a) (auto simp: digit_value_def)

lemma strip_no_space: "ps \<noteq> [] \<Longrightarrow> \<forall>n\<in>set ps. \<not> is_space_point n \<Longrightarrow> strip_points ps = ps"
  by (simp add: strip_points_def dropWhile_eq_self hd_rev)

lemma digit_not_space: "is_digit c \<Longrightarrow> \<not> is_space_point (of_char c) \<and> point_digit (of_char c) \<and> (of_char c :: nat) \<le> 57"
  by (auto simp: is_digit_def is_space_point_def point_digit_def Let_def)

lemma read_digits:
  assumes "list_all is_digit s" and "s \<noteq> []"
  shows "strip_points (code_points s) = code_points s" "code_points s \<noteq> []" "list_all point_digit (code_points s)"
    "int_of_points (code_points s) = Inr (int (digits_value 0 s))"
proof -
  have digits: "is_digit c" if "c \<in> set s" for c using assms(1) that by (simp add: list_all_iff)
  have points: "code_points s = map of_char s" using digit_points [OF assms(1)] by simp
  show "code_points s \<noteq> []" using assms(2) points by simp
  then show "strip_points (code_points s) = code_points s" using digits digit_not_space by (intro strip_no_space) (auto simp: points)
  show "list_all point_digit (code_points s)" using digits digit_not_space by (auto simp: points list_all_iff)
  show "int_of_points (code_points s) = Inr (int (digits_value 0 s))"
    using digits digit_not_space int_of_digits [OF assms(1)] by (fastforce simp: points int_of_points_def)
qed

text \<open>C31. The page number a spider writes into a URL is the page number it reads from it, and every other
  parameter of the URL keeps its value.\<close>

theorem page_number_roundtrip:
  assumes "build_common_paginated_url page_param url page = Inr url'" and "0 \<le> page"
  shows "common_page_number page_param url' = Inr page
    \<and> (\<forall>key. key \<noteq> utf8 page_param \<longrightarrow> od_get key (url_params url') = od_get key (url_params url))"
proof -
  from assms(1) obtain u where u: "urlsplit5 url = Inr u"
    and url': "url' = urlunsplit5 (u\<lparr>up_query := urlencode (od_set (utf8 page_param) (int_text page) (query_dict (up_query u)))\<rparr>)"
    by (auto simp: build_common_paginated_url_def split: sum.splits)
  have digits: "list_all is_digit (int_text page)" "int_text page \<noteq> []" "int (digits_value 0 (int_text page)) = page"
    using assms(2) nat_text_digits digits_value_nat_text by (simp_all add: int_text_def)
  let ?d = "od_set (utf8 page_param) (int_text page) (query_dict (up_query u))"
  have "valid_text (int_text page)" using digit_points [OF digits(1)] decode_ascii by (simp add: valid_text_def)
  then have d: "query_dict (urlencode ?d) = ?d"
    by (intro query_dict_urlencode valid_dict_set query_dict_valid utf8_valid)
  have read: "urlsplit5 url' = Inr (u\<lparr>up_query := urlencode ?d\<rparr>)"
    unfolding url' using split_parts_ok [OF u] urlencode_ok by (intro split_unsplit) (auto intro: query_replaced)
  have "od_get (utf8 page_param) ?d = Some (int_text page)" by (simp add: od_get_set)
  with read d digits read_digits [OF digits(1,2)] have "common_page_number page_param url' = Inr page"
    by (simp add: common_page_number_def)
  moreover have "od_get key (url_params url') = od_get key (url_params url)" if "key \<noteq> utf8 page_param" for key
    using that read d u by (simp add: url_params_def od_get_set)
  ultimately show ?thesis by blast
qed

lemma sample_split: "\<exists>u. urlsplit5 ''https://uzum.uz/c?a=1'' = Inr u"
proof -
  have "\<not> (case urlsplit5 ''https://uzum.uz/c?a=1'' of Inl x \<Rightarrow> True | Inr u \<Rightarrow> False)" by code_simp
  then show ?thesis by (auto split: sum.splits)
qed

theorem page_number_roundtrip_witness:
  "\<exists>url'. build_common_paginated_url ''page'' ''https://uzum.uz/c?a=1'' 7 = Inr url' \<and> common_page_number ''page'' url' = Inr 7"
proof -
  obtain url' where url': "build_common_paginated_url ''page'' ''https://uzum.uz/c?a=1'' 7 = Inr url'"
    using sample_split by (auto simp: build_common_paginated_url_def)
  with page_number_roundtrip [OF url'] show ?thesis by auto
qed

section \<open>Tracking parameters\<close>

lemma parts_ok_prefix:
  assumes "parts_ok u" and path: "up_path u = p @ r"
  shows "parts_ok (u\<lparr>up_path := p, up_query := q\<rparr>)"
proof (cases "p = []")
  case True
  with assms(1) show ?thesis by (simp add: parts_ok_def ball_Un)
next
  case False
  then have hd: "up_path u \<noteq> []" "hd (up_path u) = hd p" by (simp_all add: path)
  have sub: "set p \<subseteq> set (up_path u)" by (auto simp: path)
  have "takeWhile (\<lambda>c. c \<noteq> CHR '':'') (up_path u) = takeWhile (\<lambda>c. c \<noteq> CHR '':'') p" if "CHR '':'' \<in> set p"
    unfolding path by (rule takeWhile_append1 [OF that]) simp
  with assms(1) hd sub False have "up_scheme u = [] \<and> up_netloc u = [] \<and> CHR '':'' \<in> set p \<longrightarrow> \<not> scheme_ok (takeWhile (\<lambda>c. c \<noteq> CHR '':'') p)"
    unfolding parts_ok_def by (metis subsetD)
  moreover have "\<forall>c\<in>set p. \<not> url_break c" "\<forall>c\<in>set p. \<not> url_space c"
    using assms(1) sub unfolding parts_ok_def set_append by blast+
  ultimately show ?thesis using assms(1) hd False by (simp add: parts_ok_def ball_Un)
qed

text \<open>The path and the parameters of its last segment make up the path again, but for a bare semicolon.\<close>

definition rejoined_path :: "url_parts \<Rightarrow> pystr" where
  "rejoined_path u = path_of u @ (if params_of u \<noteq> [] then CHR '';'' # params_of u else [])"

lemma drop_params_rest: "\<exists>r. path = drop_params path @ r \<and> (r = [] \<or> hd r = CHR '';'')"
proof -
  let ?last = "rev (takeWhile (\<lambda>c. c \<noteq> CHR ''/'') (rev path))"
  have "path = rev (dropWhile (\<lambda>c. c \<noteq> CHR ''/'') (rev path)) @ ?last"
    by (metis rev_append rev_rev_ident takeWhile_dropWhile_id)
  then have "take (length path - length ?last) path @ ?last = path"
    by (metis append_eq_conv_conj diff_add_inverse2 length_append)
  then have "path = drop_params path @ dropWhile (\<lambda>c. c \<noteq> CHR '';'') ?last"
    by (metis append.assoc drop_params_def takeWhile_dropWhile_id)
  moreover have "dropWhile (\<lambda>c. c \<noteq> CHR '';'') ?last = [] \<or> hd (dropWhile (\<lambda>c. c \<noteq> CHR '';'') ?last) = CHR '';''"
    using hd_dropWhile by blast
  ultimately show ?thesis by blast
qed

lemma rejoined_prefix: "\<exists>r. up_path u = rejoined_path u @ r"
proof (cases "params_of u = []")
  case True
  then show ?thesis using drop_params_rest [of "up_path u"] by (auto simp: rejoined_path_def path_of_def)
next
  case False
  then have path: "path_of u = drop_params (up_path u)" "params_of u = drop (Suc (length (drop_params (up_path u)))) (up_path u)"
    by (auto simp: path_of_def params_of_def split: if_splits)
  from drop_params_rest obtain r where r: "up_path u = drop_params (up_path u) @ r" "r = [] \<or> hd r = CHR '';''" by blast
  then have "params_of u = drop 1 r" unfolding path(2) by (metis One_nat_def append_eq_conv_conj drop_drop plus_1_eq_Suc)
  with False r(2) have "r = CHR '';'' # params_of u" by (cases r) auto
  with r(1) False path(1) show ?thesis by (auto simp: rejoined_path_def)
qed

lemma unparse_rejoined: "urlunparse (u\<lparr>up_path := path_of u, up_query := q\<rparr>) (params_of u) = urlunsplit5 (u\<lparr>up_path := rejoined_path u, up_query := q\<rparr>)"
  by (cases u) (simp add: urlunparse_def rejoined_path_def)

text \<open>Without its tracking parameters, a URL still reads as the URL it was: the parameters that stay are
  those that have a name and are not on the list of trackers, with their values and in
  their order, and nothing else changes but a bare semicolon at the end of the path.\<close>

theorem tracking_params_dropped:
  assumes "urlsplit5 (strip url) = Inr u" and "up_query u \<noteq> []" and "strip_tracking_params url = Inr url'"
  shows "\<exists>u'. urlsplit5 url' = Inr u'
    \<and> parse_qsl (up_query u') = filter (\<lambda>(k, v). k \<noteq> [] \<and> \<not> should_drop_query_key k) (parse_qsl (up_query u))
    \<and> up_scheme u' = up_scheme u \<and> up_netloc u' = up_netloc u \<and> up_path u' = rejoined_path u \<and> up_fragment u' = up_fragment u"
proof -
  let ?u = "u\<lparr>up_path := rejoined_path u, up_query := kept_query (up_query u)\<rparr>"
  have url': "url' = urlunsplit5 ?u" using assms by (simp add: strip_tracking_params_def unparse_rejoined)
  obtain r where "up_path u = rejoined_path u @ r" using rejoined_prefix by blast
  with split_parts_ok [OF assms(1)] have "parts_ok ?u" by (blast intro: parts_ok_prefix)
  then have "urlsplit5 url' = Inr ?u" unfolding url' by (rule split_unsplit) (simp add: kept_query_def urlencode_ok)
  moreover have "parse_qsl (kept_query (up_query u)) = filter (\<lambda>(k, v). k \<noteq> [] \<and> \<not> should_drop_query_key k) (parse_qsl (up_query u))"
    unfolding kept_query_def using parse_valid by (intro parse_urlencode) auto
  ultimately show ?thesis by auto
qed

theorem tracking_params_dropped_witness:
  "\<exists>(u::url_parts) (u'::url_parts). urlsplit5 ''https://uzum.uz/c?a=1'' = Inr u
    \<and> parse_qsl (up_query u') = filter (\<lambda>(k, v). k \<noteq> [] \<and> \<not> should_drop_query_key k) (parse_qsl (up_query u))"
proof -
  obtain u where u: "urlsplit5 ''https://uzum.uz/c?a=1'' = Inr u" using sample_split by blast
  have s: "strip ''https://uzum.uz/c?a=1'' = ''https://uzum.uz/c?a=1''" by code_simp
  have "\<not> (case urlsplit5 ''https://uzum.uz/c?a=1'' of Inl x \<Rightarrow> True | Inr u \<Rightarrow> up_query u = [])" by code_simp
  then have q: "up_query u \<noteq> []" by (simp add: u)
  then obtain url' where "strip_tracking_params ''https://uzum.uz/c?a=1'' = Inr url'" by (simp add: strip_tracking_params_def s u)
  moreover have "urlsplit5 (strip ''https://uzum.uz/c?a=1'') = Inr u" by (simp only: s u)
  ultimately show ?thesis using tracking_params_dropped [OF _ q] u by blast
qed

text \<open>The fragment stays: one product with and without it has two canonical URLs.\<close>

lemma fragment_kept: "is_same_product_url ''https://uzum.uz/p'' ''https://uzum.uz/p#reviews'' = Inr False"
  by code_simp

end
