(* ===== verification/Backoff.thy ===== *)
theory Backoff imports Ban_Detector Store_Profile Crm_Builder begin

text \<open>
  \<^verbatim>\<open>infrastructure/access/backoff_engine.py\<close> and \<^verbatim>\<open>ban_signal_monitoring.py\<close>: what the rate-limit
  headers of a response say, how long to back off, and when a run of error statuses is a
  spike.  Seconds are exact rationals; a header may also spell an infinity or a NaN.
\<close>

section \<open>Numbers in headers\<close>

datatype py_num = Num rat | Infinite | Neg_infinite | Not_a_number

definition special_num :: "pystr \<Rightarrow> py_num option" where
  "special_num text =
    (let (neg, s) = split_sign (lower (strip text)) in
     if s = ''inf'' \<or> s = ''infinity'' then Some (if neg then Neg_infinite else Infinite)
     else if s = ''nan'' then Some Not_a_number else None)"

text \<open>\<open>float(text)\<close>; \<^const>\<open>None\<close> when it raises \<open>ValueError\<close>.\<close>

definition float_of :: "pystr \<Rightarrow> py_num option" where
  "float_of text = (case special_num text of Some x \<Rightarrow> Some x | None \<Rightarrow> map_option Num (py_float text))"

fun num_less :: "py_num \<Rightarrow> py_num \<Rightarrow> bool" where
  "num_less (Num x) (Num y) = (x < y)"
| "num_less (Num x) Infinite = True"
| "num_less Neg_infinite (Num y) = True"
| "num_less Neg_infinite Infinite = True"
| "num_less _ _ = False"

text \<open>\<open>max(a, b)\<close> keeps the first unless the second is greater.\<close>

definition num_max :: "py_num \<Rightarrow> py_num \<Rightarrow> py_num" where
  "num_max a b = (if num_less a b then b else a)"

text \<open>\<open>min(c, x)\<close> for a finite \<open>c\<close> and an \<open>x\<close> that is not the negative infinity.\<close>

definition capped :: "rat \<Rightarrow> py_num \<Rightarrow> rat" where
  "capped c x = (case x of Num y \<Rightarrow> min c y | _ \<Rightarrow> c)"

text \<open>\<open>int(float(text))\<close>; an infinity raises what is not caught.\<close>

definition parse_int :: "pystr option \<Rightarrow> exc + int option" where
  "parse_int raw = (if \<not> truthy raw \<or> strip (or_empty raw) = [] then Inr None
     else (case float_of (or_empty raw) of
         None \<Rightarrow> Inr None
       | Some (Num q) \<Rightarrow> Inr (Some (truncated q))
       | Some Not_a_number \<Rightarrow> Inr None
       | Some _ \<Rightarrow> Inl (OtherError ''OverflowError: cannot convert float infinity to integer'')))"

section \<open>Headers\<close>

definition LIMIT_HEADERS :: "pystr list" where
  "LIMIT_HEADERS = [''X-RateLimit-Limit'', ''RateLimit-Limit'']"

definition REMAINING_HEADERS :: "pystr list" where
  "REMAINING_HEADERS = [''X-RateLimit-Remaining'', ''RateLimit-Remaining'']"

definition RESET_HEADERS :: "pystr list" where
  "RESET_HEADERS = [''X-RateLimit-Reset'', ''RateLimit-Reset'']"

definition RETRY_AFTER_HEADERS :: "pystr list" where
  "RETRY_AFTER_HEADERS = [''Retry-After'']"

fun decode_header :: "response \<Rightarrow> pystr list \<Rightarrow> pystr option" where
  "decode_header r [] = None"
| "decode_header r (name # names) = (case header name r of
       Some raw \<Rightarrow> if strip raw \<noteq> [] then Some (strip raw) else decode_header r names
     | None \<Rightarrow> decode_header r names)"

text \<open>\<open>parsedate_to_datetime(text).timestamp()\<close>, read as UTC without a zone, is the argument \<open>date_of\<close>.\<close>

definition parse_retry_after_seconds :: "(pystr \<Rightarrow> rat option) \<Rightarrow> rat \<Rightarrow> pystr option \<Rightarrow> py_num option" where
  "parse_retry_after_seconds date_of now raw = (if \<not> truthy raw \<or> strip (or_empty raw) = [] then None
     else (case float_of (or_empty raw) of
         Some x \<Rightarrow> Some (num_max (Num 0) x)
       | None \<Rightarrow> (case date_of (strip (or_empty raw)) of None \<Rightarrow> None | Some t \<Rightarrow> Some (Num (max 0 (t - now))))))"

text \<open>An absolute time of the epoch, or seconds from now.\<close>

definition parse_reset_wait_seconds :: "rat \<Rightarrow> pystr option \<Rightarrow> py_num option" where
  "parse_reset_wait_seconds now raw = (if \<not> truthy raw \<or> strip (or_empty raw) = [] then None
     else (case float_of (or_empty raw) of
         None \<Rightarrow> None
       | Some (Num v) \<Rightarrow> if v \<le> 0 then None else Some (Num (if v > now + 1 then max 0 (v - now) else v))
       | Some Neg_infinite \<Rightarrow> None
       | Some x \<Rightarrow> Some x))"

record rate_limit_hints =
  rl_limit :: "int option"
  rl_remaining :: "int option"
  rl_reset_wait :: "py_num option"
  rl_retry_after :: "py_num option"

definition no_hints :: rate_limit_hints where
  "no_hints = \<lparr> rl_limit = None, rl_remaining = None, rl_reset_wait = None, rl_retry_after = None \<rparr>"

definition has_hints :: "rate_limit_hints \<Rightarrow> bool" where
  "has_hints h = (rl_limit h \<noteq> None \<or> rl_remaining h \<noteq> None \<or> rl_reset_wait h \<noteq> None \<or> rl_retry_after h \<noteq> None)"

definition parse_headers :: "(pystr \<Rightarrow> rat option) \<Rightarrow> rat \<Rightarrow> response \<Rightarrow> exc + rate_limit_hints" where
  "parse_headers date_of now r = (case parse_int (decode_header r LIMIT_HEADERS) of
       Inl x \<Rightarrow> Inl x
     | Inr most \<Rightarrow>
        (case parse_int (decode_header r REMAINING_HEADERS) of
           Inl x \<Rightarrow> Inl x
         | Inr remaining \<Rightarrow>
            Inr \<lparr> rl_limit = most, rl_remaining = remaining,
                  rl_reset_wait = parse_reset_wait_seconds now (decode_header r RESET_HEADERS),
                  rl_retry_after = parse_retry_after_seconds date_of now (decode_header r RETRY_AFTER_HEADERS) \<rparr>))"

section \<open>The engine\<close>

record backoff_engine =
  be_base_seconds :: rat
  be_max_seconds :: rat
  be_cooldown_max_seconds :: rat
  be_respect_retry_after :: bool
  be_strict_429 :: bool

definition engine_from_settings :: "access_settings \<Rightarrow> backoff_engine" where
  "engine_from_settings c = (let base = max 0 (SCRAPY_BACKOFF_BASE_SECONDS c) in
     \<lparr> be_base_seconds = base, be_max_seconds = max base (SCRAPY_BACKOFF_MAX_SECONDS c),
       be_cooldown_max_seconds = max 0 (SCRAPY_BACKOFF_COOLDOWN_MAX_SECONDS c),
       be_respect_retry_after = SCRAPY_BACKOFF_RESPECT_RETRY_AFTER c, be_strict_429 = SCRAPY_BACKOFF_429_STRICT c \<rparr>)"

record backoff_decision =
  bd_status :: int
  bd_reason :: pystr
  bd_retry_allowed :: bool
  bd_wait_seconds :: py_num
  bd_cooldown_seconds :: rat
  bd_actions :: "pystr list"

definition SUPPORTED_STATUSES :: "int list" where
  "SUPPORTED_STATUSES = [403, 408, 429, 500, 502, 503, 504]"

definition supports_status :: "int \<Rightarrow> bool" where
  "supports_status s = (s \<in> set SUPPORTED_STATUSES)"

definition exp_wait :: "backoff_engine \<Rightarrow> int \<Rightarrow> rat" where
  "exp_wait e prior_failures = min (be_max_seconds e) (max 0 (be_base_seconds e * 2 ^ nat (max 0 prior_failures)))"

definition backoff_decided :: "int \<Rightarrow> pystr \<Rightarrow> bool \<Rightarrow> py_num \<Rightarrow> rat \<Rightarrow> pystr list \<Rightarrow> backoff_decision" where
  "backoff_decided status reason retry wait cooldown actions =
    \<lparr> bd_status = status, bd_reason = reason, bd_retry_allowed = retry, bd_wait_seconds = wait, bd_cooldown_seconds = cooldown,
      bd_actions = actions \<rparr>"

definition classify_429 :: "backoff_engine \<Rightarrow> rat \<Rightarrow> rate_limit_hints \<Rightarrow> backoff_decision" where
  "classify_429 e grown h =
    (let (w1, reason1) = (case rl_retry_after h of
           Some s \<Rightarrow> if be_respect_retry_after e then (num_max (Num grown) s, ''http_429_retry_after'') else (Num grown, ''http_429_exponential'')
         | None \<Rightarrow> (Num grown, ''http_429_exponential''));
         (w2, reason2) = (case rl_reset_wait h of
           Some s \<Rightarrow> if rl_remaining h = Some 0
             then (num_max w1 s, if reason1 \<noteq> ''http_429_retry_after'' then ''http_429_ratelimit_reset'' else reason1) else (w1, reason1)
         | None \<Rightarrow> (w1, reason1));
         w3 = (if be_strict_429 e \<and> \<not> num_less (Num 0) w2 then Num grown else w2)
     in backoff_decided 429 reason2 True w3 (capped (be_cooldown_max_seconds e) w3) [''domain_cooldown''])"

definition classify :: "backoff_engine \<Rightarrow> int \<Rightarrow> int \<Rightarrow> rate_limit_hints \<Rightarrow> backoff_decision" where
  "classify e status prior_failures h =
    (if \<not> supports_status status then backoff_decided status ''policy_not_applicable'' False (Num 0) 0 []
     else let wait = exp_wait e prior_failures in
       if status = 403
       then backoff_decided status ''http_403_forbidden'' False (Num 0) (min (be_cooldown_max_seconds e) (max wait 5)) [''rotate_proxy'', ''rotate_session'']
       else if status = 408 then backoff_decided status ''http_408_timeout'' True (Num wait) 0 []
       else if status = 429 then classify_429 e wait h
       else if status = 500 then backoff_decided status ''http_500_server_error'' True (Num wait) 0 []
       else if status = 502 then backoff_decided status ''http_502_bad_gateway'' True (Num wait) 0 []
       else if status = 503
       then backoff_decided status ''http_503_upstream_error'' True (Num wait) (min (be_cooldown_max_seconds e) wait) [''domain_cooldown'']
       else backoff_decided status ''http_504_gateway_timeout'' True (Num wait) 0 [])"

section \<open>Spikes\<close>

definition status_bucket_for_http :: "int \<Rightarrow> pystr option" where
  "status_bucket_for_http s = (if s = 403 then Some ''403'' else if s = 429 then Some ''429''
     else if 500 \<le> s \<and> s \<le> 599 then Some ''5xx'' else None)"

type_synonym spike_key = "pystr \<times> pystr \<times> pystr"

record spike_monitor =
  sm_events :: "(spike_key, rat list) odict"
  sm_armed :: "(spike_key, bool) odict"

definition new_spike_monitor :: spike_monitor where
  "new_spike_monitor = \<lparr> sm_events = [], sm_armed = [] \<rparr>"

definition or_unknown :: "pystr \<Rightarrow> pystr" where
  "or_unknown s = (let t = lower (strip (if s = [] then ''unknown'' else s)) in if t = [] then ''unknown'' else t)"

definition record_http_status ::
    "pystr \<Rightarrow> pystr \<Rightarrow> pystr \<Rightarrow> int \<Rightarrow> rat \<Rightarrow> rat \<Rightarrow> spike_monitor \<Rightarrow> (bool \<times> nat) \<times> spike_monitor" where
  "record_http_status store domain bucket threshold window now m =
    (let b = lower (strip bucket); th = nat (max 1 threshold); win = max 1 window; key = (or_unknown store, or_unknown domain, b) in
     if b = [] then ((False, 0), m)
     else
      (let q = dropWhile (\<lambda>t. t < now - win) (case od_get key (sm_events m) of None \<Rightarrow> [] | Some ts \<Rightarrow> ts);
           armed = (length q < th \<or> od_get key (sm_armed m) \<noteq> Some False);
           q' = q @ [now]; trigger = (length q' \<ge> th \<and> armed)
       in ((trigger, length q'),
           \<lparr> sm_events = od_set key q' (sm_events m),
             sm_armed = (if trigger then od_set key False (sm_armed m)
                         else if length q < th then od_set key True (sm_armed m) else sm_armed m) \<rparr>)))"

end
