(* ===== verification/Header_Profile.thy ===== *)
theory Header_Profile imports Store_Profile Url_Query begin

text \<open>
  \<^verbatim>\<open>infrastructure/access/header_profiles.py\<close>: the headers of a request, fixed or rotating
  over desktop profiles.  The rotation counters are a dictionary; headers are kept in the
  order they are set.
\<close>

record header_profile =
  hp_profile_id :: pystr
  hp_user_agent :: pystr
  hp_accept_language :: pystr
  hp_html_accept :: pystr
  hp_api_accept :: pystr
  hp_referer_policy :: pystr

definition LEGACY_DESKTOP_UA :: pystr where
  "LEGACY_DESKTOP_UA = ''Mozilla/5.0 (Windows NT 10.0; Win64; x64) AppleWebKit/537.36 (KHTML, like Gecko) Chrome/122.0.0.0 Safari/537.36''"

definition HTML_ACCEPT :: pystr where
  "HTML_ACCEPT = ''text/html,application/xhtml+xml,application/xml;q=0.9,*/*;q=0.8''"

definition API_ACCEPT :: pystr where
  "API_ACCEPT = ''application/json, text/plain, */*''"

definition HEADER_PROFILES :: "(pystr, header_profile) odict" where
  "HEADER_PROFILES =
    [(''chrome_win122_ru'', \<lparr> hp_profile_id = ''chrome_win122_ru'', hp_user_agent = LEGACY_DESKTOP_UA,
        hp_accept_language = ''ru-RU,ru;q=0.9,uz-UZ,uz;q=0.8,en;q=0.7'', hp_html_accept = HTML_ACCEPT, hp_api_accept = API_ACCEPT,
        hp_referer_policy = ''passthrough'' \<rparr>),
     (''edge_win122_ru'', \<lparr> hp_profile_id = ''edge_win122_ru'', hp_user_agent = LEGACY_DESKTOP_UA @ '' Edg/122.0.0.0'',
        hp_accept_language = ''ru-RU,ru;q=0.9,en-US;q=0.8,uz-UZ;q=0.7'',
        hp_html_accept = ''text/html,application/xhtml+xml,application/xml;q=0.9,image/webp,*/*;q=0.8'', hp_api_accept = API_ACCEPT,
        hp_referer_policy = ''origin_on_navigation'' \<rparr>),
     (''firefox_win124_ru'', \<lparr> hp_profile_id = ''firefox_win124_ru'',
        hp_user_agent = ''Mozilla/5.0 (Windows NT 10.0; Win64; x64; rv:124.0) Gecko/20100101 Firefox/124.0'',
        hp_accept_language = ''ru-RU,ru;q=0.9,uz-UZ;q=0.7,en-US;q=0.6'', hp_html_accept = HTML_ACCEPT, hp_api_accept = API_ACCEPT,
        hp_referer_policy = ''passthrough'' \<rparr>)]"

definition DEFAULT_PROFILE_ORDER :: "pystr list" where
  "DEFAULT_PROFILE_ORDER = [''chrome_win122_ru'', ''edge_win122_ru'', ''firefox_win124_ru'']"

type_synonym rotation = "(pystr \<times> pystr \<times> pystr, nat) odict"

section \<open>Where a request comes from\<close>

definition extract_host :: "pystr option \<Rightarrow> exc + pystr" where
  "extract_host url = (if \<not> truthy url then Inr []
     else (case urlsplit5 (or_empty url) of Inl x \<Rightarrow> Inl x | Inr u \<Rightarrow> Inr (lower (strip (up_netloc u)))))"

definition extract_origin :: "pystr option \<Rightarrow> exc + pystr option" where
  "extract_origin url = (if \<not> truthy url then Inr None
     else (case urlsplit5 (or_empty url) of
         Inl x \<Rightarrow> Inl x
       | Inr u \<Rightarrow> Inr (if up_scheme u = [] \<or> up_netloc u = [] then None else Some (up_scheme u @ ''://'' @ up_netloc u))))"

definition infer_fetch_site :: "pystr option \<Rightarrow> pystr option \<Rightarrow> exc + pystr" where
  "infer_fetch_site referer request_url = (if \<not> truthy referer then Inr ''none''
     else (case extract_host referer of
         Inl x \<Rightarrow> Inl x
       | Inr a \<Rightarrow> (case extract_host request_url of
           Inl x \<Rightarrow> Inl x
         | Inr b \<Rightarrow> Inr (if a \<noteq> [] \<and> b \<noteq> [] \<and> a = b then ''same-origin'' else ''cross-site''))))"

section \<open>Headers\<close>

definition legacy_headers :: "pystr \<Rightarrow> pystr option \<Rightarrow> (pystr, pystr) odict" where
  "legacy_headers purpose referer =
    (let h = [(''User-Agent'', LEGACY_DESKTOP_UA), (''Accept-Language'', ''ru-RU,ru;q=0.9,uz-UZ,uz;q=0.8,en;q=0.7''),
              (''Accept'', if purpose = ''api'' then API_ACCEPT else HTML_ACCEPT)]
     in if truthy referer then h @ [(''Referer'', or_empty referer)]
        else if purpose = ''product'' then h @ [(''Sec-Fetch-Dest'', ''document''), (''Sec-Fetch-Mode'', ''navigate'')]
        else h)"

definition is_rotation_enabled :: "access_ctx \<Rightarrow> pystr \<Rightarrow> bool" where
  "is_rotation_enabled k store = (SCRAPY_HEADER_PROFILE_ROTATION_ENABLED (ax_settings k) \<and> feature_on k ''header_profile_rotation'' store)"

definition candidate_profile_ids :: "pystr \<Rightarrow> pystr list" where
  "candidate_profile_ids store =
    (let ids = filter (\<lambda>i. od_get i HEADER_PROFILES \<noteq> None)
       (case sp_header_profile_ids (get_store_profile store) of None \<Rightarrow> [] | Some l \<Rightarrow> l)
     in if ids \<noteq> [] then ids else DEFAULT_PROFILE_ORDER)"

definition profile_by_id :: "pystr \<Rightarrow> header_profile" where
  "profile_by_id i = (case od_get i HEADER_PROFILES of Some p \<Rightarrow> p | None \<Rightarrow> snd (hd HEADER_PROFILES))"

text \<open>The identifiers are known ones, so the lookup of the code does not fail.\<close>

definition select_profile :: "pystr \<Rightarrow> pystr \<Rightarrow> pystr option \<Rightarrow> rotation \<Rightarrow> (exc + header_profile) \<times> rotation" where
  "select_profile store purpose request_url rot = (case extract_host request_url of
       Inl x \<Rightarrow> (Inl x, rot)
     | Inr host \<Rightarrow>
        (let ids = candidate_profile_ids store;
             p = lower (strip (if purpose = [] then ''listing'' else purpose));
             key = (store, if host = [] then ''unknown-domain'' else host, if p = [] then ''listing'' else p);
             counter = (case od_get key rot of None \<Rightarrow> 0 | Some n \<Rightarrow> n)
         in (Inr (profile_by_id (ids ! (counter mod length ids))), od_set key (Suc counter) rot)))"

definition resolve_referer :: "header_profile \<Rightarrow> pystr \<Rightarrow> pystr option \<Rightarrow> pystr option \<Rightarrow> exc + pystr option" where
  "resolve_referer p purpose referer request_url =
    (if truthy referer then Inr referer
     else if hp_referer_policy p = ''origin_on_navigation'' \<and> (purpose = ''listing'' \<or> purpose = ''product'') then extract_origin request_url
     else Inr None)"

definition build_rotated_headers ::
    "pystr \<Rightarrow> pystr \<Rightarrow> pystr option \<Rightarrow> pystr option \<Rightarrow> rotation \<Rightarrow> (exc + (pystr, pystr) odict) \<times> rotation" where
  "build_rotated_headers store purpose referer request_url rot =
    (case select_profile store purpose request_url rot of
       (Inl x, rot1) \<Rightarrow> (Inl x, rot1)
     | (Inr p, rot1) \<Rightarrow>
        (let h = [(''User-Agent'', hp_user_agent p), (''Accept-Language'', hp_accept_language p)]
               @ (if purpose = ''api''
                  then [(''Accept'', hp_api_accept p), (''Sec-Fetch-Dest'', ''empty''), (''Sec-Fetch-Mode'', ''cors'')]
                  else [(''Accept'', hp_html_accept p), (''Sec-Fetch-Dest'', ''document''), (''Sec-Fetch-Mode'', ''navigate''), (''Sec-Fetch-User'', ''?1'')])
         in case infer_fetch_site referer request_url of
              Inl x \<Rightarrow> (Inl x, rot1)
            | Inr site \<Rightarrow>
               (case resolve_referer p purpose referer request_url of
                  Inl x \<Rightarrow> (Inl x, rot1)
                | Inr ref \<Rightarrow> (Inr (h @ [(''Sec-Fetch-Site'', site)] @ (if truthy ref then [(''Referer'', or_empty ref)] else [])), rot1))))"

definition build_desktop_headers ::
    "access_ctx \<Rightarrow> pystr \<Rightarrow> pystr \<Rightarrow> pystr option \<Rightarrow> pystr option \<Rightarrow> rotation \<Rightarrow> (exc + (pystr, pystr) odict) \<times> rotation" where
  "build_desktop_headers k store_name purpose referer request_url rot =
    (let s = lower (strip store_name); store = (if s = [] then ''unknown'' else s) in
     if sp_header_rotation_enabled (get_store_profile store) = Some False \<or> \<not> is_rotation_enabled k store
     then (Inr (legacy_headers purpose referer), rot)
     else build_rotated_headers store purpose referer request_url rot)"

text \<open>A request is announced by one of the known desktop browsers.\<close>

lemma candidates_known: "i \<in> set (candidate_profile_ids store) \<Longrightarrow> od_get i HEADER_PROFILES \<noteq> None"
proof -
  have "list_all (\<lambda>i. od_get i HEADER_PROFILES \<noteq> None) DEFAULT_PROFILE_ORDER" by code_simp
  then show "i \<in> set (candidate_profile_ids store) \<Longrightarrow> ?thesis"
    by (auto simp: candidate_profile_ids_def Let_def list_all_iff split: if_splits)
qed

end
