(* ===== verification/Captcha.thy ===== *)
theory Captcha imports Ban_Detector Store_Profile Url_Query begin

text \<open>
  \<^verbatim>\<open>infrastructure/access/captcha_hooks.py\<close>: challenges found in a page or in a redirect, and
  the solver behind the hook, of which there is one: the one that does nothing.
\<close>

definition REDIRECT_STATUSES :: "int list" where
  "REDIRECT_STATUSES = [301, 302, 303, 307, 308]"

definition CHALLENGE_MARKERS :: "string list" where
  "CHALLENGE_MARKERS = [''captcha'', ''g-recaptcha'', ''hcaptcha'', ''cf-chl'', ''challenge-form'', ''verify you are human'', ''turnstile'']"

definition REDIRECT_CHALLENGE_HINTS :: "pystr list" where
  "REDIRECT_CHALLENGE_HINTS = [''captcha'', ''challenge'', ''verify'', ''blocked'', ''sorry'']"

record captcha_detection =
  cd_signal :: "pystr option"
  cd_markers :: "string list"
  cd_suspicious_redirect :: bool
  cd_redirect_target :: "pystr option"

definition is_captcha_related :: "captcha_detection \<Rightarrow> bool" where
  "is_captcha_related d = (cd_signal d = Some ''captcha'' \<or> cd_signal d = Some ''cloudflare_challenge'' \<or> cd_suspicious_redirect d \<or> cd_markers d \<noteq> [])"

definition split_host :: "pystr \<Rightarrow> exc + pystr" where
  "split_host url = (case urlsplit5 url of Inl x \<Rightarrow> Inl x | Inr u \<Rightarrow> Inr (lower (strip (up_netloc u))))"

definition suspicious_redirect :: "bool \<Rightarrow> pystr option \<Rightarrow> response \<Rightarrow> exc + bool \<times> pystr option" where
  "suspicious_redirect enabled request_url r =
    (let location = (case header ''Location'' r of Some l \<Rightarrow> if strip l = [] then None else Some (strip l) | None \<Rightarrow> None);
         target = (case location of Some l \<Rightarrow> l | None \<Rightarrow> rs_url r);
         low = lower target; hinted = (\<lambda>hs. list_ex (\<lambda>h. contains h low) hs)
     in if \<not> enabled then Inr (False, None)
        else if rs_status r \<notin> set REDIRECT_STATUSES \<and> location = None then Inr (False, None)
        else if hinted REDIRECT_CHALLENGE_HINTS then Inr (True, Some target)
        else (case request_url of
            None \<Rightarrow> Inr (False, None)
          | Some q \<Rightarrow>
             (case split_host q of
                Inl x \<Rightarrow> Inl x
              | Inr req \<Rightarrow>
                 (case split_host (rs_url r) of
                    Inl x \<Rightarrow> Inl x
                  | Inr resp \<Rightarrow>
                     (if req \<noteq> [] \<and> resp \<noteq> [] \<and> req \<noteq> resp \<and> hinted [''challenge'', ''captcha'', ''verify'']
                      then Inr (True, Some target) else Inr (False, None))))))"

definition collect_markers :: "response \<Rightarrow> string list" where
  "collect_markers r = filter (\<lambda>m. contains m (body_lower r)) CHALLENGE_MARKERS"

definition detect_captcha :: "bool \<Rightarrow> response \<Rightarrow> pystr option \<Rightarrow> nat \<Rightarrow> exc + captcha_detection" where
  "detect_captcha redirects_enabled r request_url empty_body_threshold =
    (let base = detect_ban_signal r request_url empty_body_threshold; markers = collect_markers r in
     case suspicious_redirect redirects_enabled request_url r of
       Inl x \<Rightarrow> Inl x
     | Inr (sus, target) \<Rightarrow>
        (let s1 = (if base = None \<and> sus then Some ''captcha'' else base);
             s2 = (if s1 = None \<and> markers \<noteq> [] \<and> rs_status r \<in> {200, 403, 429, 503} then Some ''captcha'' else s1)
         in Inr \<lparr> cd_signal = s2, cd_markers = markers, cd_suspicious_redirect = sus, cd_redirect_target = target \<rparr>))"

section \<open>The solver\<close>

text \<open>A result of a solver; \<open>None\<close> for the request to retry, which the only solver never makes.\<close>

record solve_result =
  sv_handled :: bool
  sv_solver :: pystr
  sv_reason :: pystr

definition build_captcha_solver :: "access_settings \<Rightarrow> solve_result" where
  "build_captcha_solver c =
    (let backend = lower (strip (if SCRAPY_CAPTCHA_SOLVER_BACKEND c = [] then ''noop'' else SCRAPY_CAPTCHA_SOLVER_BACKEND c)) in
     \<lparr> sv_handled = False, sv_solver = ''noop'',
       sv_reason = (if backend \<in> {[], ''noop'', ''none'', ''disabled''} then ''solver_not_configured'' else ''unsupported_backend:'' @ backend) \<rparr>)"

section \<open>Facts\<close>

text \<open>The test of the hosts adds nothing: its words are among those looked for before.\<close>

lemma host_test_adds_nothing:
  assumes "suspicious_redirect enabled request_url r = Inr (True, t)"
  shows "list_ex (\<lambda>h. contains h (lower (case t of Some l \<Rightarrow> l | None \<Rightarrow> []))) REDIRECT_CHALLENGE_HINTS"
  using assms by (auto simp: suspicious_redirect_def REDIRECT_CHALLENGE_HINTS_def Let_def split: if_splits option.splits sum.splits)

text \<open>A page of any length that mentions one of the words is a captcha page to the hook.\<close>

lemma marked_page_is_captcha:
  assumes "rs_status r = 200" and "contains ''turnstile'' (body_lower r)" and "detect_captcha b r u n = Inr d"
  shows "is_captcha_related d \<and> cd_signal d \<noteq> None"
proof -
  have "''turnstile'' \<in> set (collect_markers r)" using assms(2) by (simp add: collect_markers_def CHALLENGE_MARKERS_def)
  then have "collect_markers r \<noteq> []" by auto
  with assms(1,3) show ?thesis by (auto simp: detect_captcha_def is_captcha_related_def Let_def split: sum.splits if_splits)
qed

end
