(* ===== verification/Access_Middleware.thy ===== *)
theory Access_Middleware imports Backoff Header_Profile Captcha Request_Strategy begin

text \<open>
  The downloader middlewares of \<^verbatim>\<open>infrastructure/middlewares/\<close>: \<open>retry_middleware.py\<close> (900),
  \<open>mobile_redirect_middleware.py\<close> (800), \<open>ratelimit_middleware.py\<close> (700) and
  \<open>stealth_middleware.py\<close> (400), in the order of \<^verbatim>\<open>config/scrapy_settings.py\<close>.  A response passes
  them from the highest number to the lowest.  The clocks, the random numbers, the slots
  of the downloader and \<open>RetryMiddleware._retry\<close> of Scrapy are parameters; a callback reads
  each clock once.  Logging and metrics are left out, but for the spikes of error statuses.
\<close>

section \<open>Requests and state\<close>

text \<open>The entries of \<open>request.meta\<close> only the middlewares use.\<close>

record mw_notes =
  mn_request_start :: "rat option"
  mn_download_slot :: "pystr option"
  mn_dont_retry :: bool
  mn_mobile_retry :: bool
  mn_retry_reason :: "pystr option"
  mn_download_timeout :: "int option"
  mn_backoff_reason :: "pystr option"
  mn_backoff_wait :: "py_num option"
  mn_backoff_cooldown :: "rat option"
  mn_backoff_actions :: "pystr list option"
  mn_backoff_retry_blocked :: bool
  mn_backoff_wait_applied :: "int option"
  mn_backoff_cooldown_applied :: "rat option"
  mn_captcha_markers :: "string list option"
  mn_captcha_suspicious :: "bool option"
  mn_effective_delay :: "rat option"
  mn_jitter_delta :: "rat option"

record mw_request =
  mq_url :: pystr
  mq_headers :: "(pystr, pystr) odict"
  mq_meta :: crawl_meta
  mq_notes :: mw_notes
  mq_dont_filter :: bool

record mw_ctx =
  mx_access :: access_ctx
  mx_store :: pystr
  mx_playwright :: bool
  mx_download_delay :: rat
  mx_clock :: "nat \<Rightarrow> rat"
  mx_wall :: "nat \<Rightarrow> rat"
  mx_uniform :: "nat \<Rightarrow> rat \<Rightarrow> rat \<Rightarrow> rat"
  mx_upper_half :: "nat \<Rightarrow> bool"
  mx_has_slot :: "nat \<Rightarrow> pystr \<Rightarrow> bool"
  mx_date_of :: "pystr \<Rightarrow> rat option"
  mx_retry :: "mw_request \<Rightarrow> mw_request option"

record mw_state =
  ms_times :: "(pystr, rat list) odict"
  ms_delays :: "(pystr, rat) odict"
  ms_slots :: "(pystr, rat) odict"
  ms_spider_delay :: "rat option"
  ms_proxy :: proxy_state
  ms_rotation :: rotation
  ms_spikes :: spike_monitor
  ms_tick :: nat

definition new_mw_state :: mw_state where
  "new_mw_state = \<lparr> ms_times = [], ms_delays = [], ms_slots = [], ms_spider_delay = None, ms_proxy = new_proxy_state, ms_rotation = [],
     ms_spikes = new_spike_monitor, ms_tick = 0 \<rparr>"

text \<open>The response goes on to the next middleware, or a request is sent in its place.\<close>

datatype mw_outcome = Deliver | Resend mw_request

definition engine :: "mw_ctx \<Rightarrow> backoff_engine" where
  "engine k = engine_from_settings (ax_settings (mx_access k))"

definition cfg :: "mw_ctx \<Rightarrow> access_settings" where
  "cfg k = ax_settings (mx_access k)"

definition on_notes :: "(mw_notes \<Rightarrow> mw_notes) \<Rightarrow> mw_request \<Rightarrow> mw_request" where
  "on_notes f q = q\<lparr>mq_notes := f (mq_notes q)\<rparr>"

definition mw_store :: "mw_ctx \<Rightarrow> mw_request \<Rightarrow> pystr" where
  "mw_store k q = or_empty (py_or (cm_store_name (mq_meta q)) (Some (mx_store k)))"

definition mw_purpose :: "mw_request \<Rightarrow> pystr" where
  "mw_purpose q = or_empty (py_or (cm_access_purpose (mq_meta q)) (Some ''listing''))"

definition explicit_backoff_enabled :: "mw_ctx \<Rightarrow> pystr \<Rightarrow> bool" where
  "explicit_backoff_enabled k store = (SCRAPY_EXPLICIT_BACKOFF_ENABLED (cfg k) \<and> feature_on (mx_access k) ''explicit_backoff_engine'' store)"

definition explicit_backoff_enforced :: "mw_ctx \<Rightarrow> pystr \<Rightarrow> bool" where
  "explicit_backoff_enforced k store =
    (let allow = filter (\<lambda>s. s \<noteq> []) (map (\<lambda>s. lower (strip s)) (SCRAPY_EXPLICIT_BACKOFF_ENFORCE_STORES (cfg k))) in
     SCRAPY_EXPLICIT_BACKOFF_ENFORCE (cfg k) \<and> (allow = [] \<or> lower (strip store) \<in> set allow)
     \<and> feature_on (mx_access k) ''explicit_backoff_enforcement'' store)"

definition round3 :: "rat \<Rightarrow> rat" where
  "round3 x = of_int (py_round (x * 1000)) / 1000"

definition round_num :: "py_num \<Rightarrow> py_num" where
  "round_num x = (case x of Num y \<Rightarrow> Num (round3 y) | _ \<Rightarrow> x)"

text \<open>The decision of the engine, as far as it is asked: the hints may raise.\<close>

definition backoff_decision_for :: "mw_ctx \<Rightarrow> rat \<Rightarrow> response \<Rightarrow> int \<Rightarrow> exc + backoff_decision" where
  "backoff_decision_for k wall r prior_failures =
    (case (if SCRAPY_RATE_LIMIT_HEADER_INTELLIGENCE_ENABLED (cfg k) then parse_headers (mx_date_of k) wall r else Inr no_hints) of
       Inl x \<Rightarrow> Inl x
     | Inr h \<Rightarrow> Inr (classify (engine k) (rs_status r) prior_failures h))"

section \<open>Retries by status\<close>

definition RETRY_HTTP_CODES :: "int list" where
  "RETRY_HTTP_CODES = [429, 503, 520, 521, 522]"

definition MAX_RETRY_TIMES :: int where
  "MAX_RETRY_TIMES = 5"

definition some_or :: "'a option \<Rightarrow> 'a option \<Rightarrow> 'a option" where
  "some_or a b = (case a of None \<Rightarrow> b | Some x \<Rightarrow> Some x)"

definition note_default_decision :: "backoff_decision \<Rightarrow> mw_notes \<Rightarrow> mw_notes" where
  "note_default_decision d n =
    n\<lparr>mn_backoff_reason := some_or (mn_backoff_reason n) (Some (bd_reason d)),
      mn_backoff_wait := some_or (mn_backoff_wait n) (Some (round_num (bd_wait_seconds d))),
      mn_backoff_cooldown := some_or (mn_backoff_cooldown n) (Some (round3 (bd_cooldown_seconds d))),
      mn_backoff_actions := (if bd_actions d = [] then mn_backoff_actions n else some_or (mn_backoff_actions n) (Some (bd_actions d)))\<rparr>"

text \<open>\<open>int(raw)\<close> of the bytes of a header.\<close>

definition int_of_header :: "pystr \<Rightarrow> int option" where
  "int_of_header raw =
    (let (neg, ds) = split_sign (strip raw) in
     if ds = [] \<or> \<not> list_all is_digit ds then None
     else Some (if neg then - int (digits_value 0 ds) else int (digits_value 0 ds)))"

definition first_wait :: "response \<Rightarrow> int \<Rightarrow> int" where
  "first_wait r retry_times =
    (let w = 2 ^ nat retry_times in
     if rs_status r = 429 then (case header ''Retry-After'' r of
         None \<Rightarrow> w | Some raw \<Rightarrow> (if raw = [] then w else case int_of_header raw of None \<Rightarrow> w | Some n \<Rightarrow> n))
     else w)"

text \<open>\<open>math.ceil\<close> of the decided wait, which raises for an infinity.\<close>

definition enforced_wait :: "py_num \<Rightarrow> int \<Rightarrow> exc + int" where
  "enforced_wait seconds w = (case seconds of
       Num s \<Rightarrow> Inr (max w \<lceil>s\<rceil>)
     | _ \<Rightarrow> Inl (OtherError ''OverflowError: cannot convert float infinity to integer''))"

definition retry_reason_of :: "response \<Rightarrow> mw_request \<Rightarrow> pystr" where
  "retry_reason_of r q =
    or_empty (py_or (mn_retry_reason (mq_notes q)) (py_or (mn_backoff_reason (mq_notes q))
      (py_or (cm_access_last_signal (mq_meta q)) (Some (''http_'' @ int_text (rs_status r))))))"

definition resent :: "mw_ctx \<Rightarrow> response \<Rightarrow> int \<Rightarrow> mw_request \<Rightarrow> mw_outcome" where
  "resent k r w q = (case mx_retry k q of
       None \<Rightarrow> Deliver
     | Some q' \<Rightarrow> Resend (on_notes (\<lambda>n. n\<lparr>mn_download_timeout := Some (w + 10), mn_retry_reason := Some (retry_reason_of r q)\<rparr>) q'))"

definition retry_response :: "mw_ctx \<Rightarrow> response \<Rightarrow> mw_request \<Rightarrow> mw_state \<Rightarrow> (exc + mw_outcome) \<times> mw_request" where
  "retry_response k r q st =
    (let store = mw_store k q; times = or_zero (cm_retry_times (mq_meta q));
         asked = explicit_backoff_enabled k store \<and> supports_status (rs_status r)
     in if mn_dont_retry (mq_notes q) \<or> rs_status r \<notin> set RETRY_HTTP_CODES then (Inr Deliver, q)
        else (case (if asked then map_sum id Some (backoff_decision_for k (mx_wall k (ms_tick st)) r times) else Inr None) of
            Inl x \<Rightarrow> (Inl x, q)
          | Inr d \<Rightarrow>
             (let q1 = (case d of None \<Rightarrow> q | Some d \<Rightarrow> on_notes (note_default_decision d) q);
                  w = first_wait r times;
                  enforce = explicit_backoff_enforced k store
              in if times \<ge> MAX_RETRY_TIMES then (Inr Deliver, q1)
                 else (case (if enforce then d else None) of
                     None \<Rightarrow> (Inr (resent k r w q1), q1)
                   | Some d \<Rightarrow>
                      (if \<not> bd_retry_allowed d then (Inr Deliver, on_notes (\<lambda>n. n\<lparr>mn_backoff_retry_blocked := True\<rparr>) q1)
                       else if \<not> num_less (Num 0) (bd_wait_seconds d) then (Inr (resent k r w q1), q1)
                       else (case enforced_wait (bd_wait_seconds d) w of
                           Inl x \<Rightarrow> (Inl x, q1)
                         | Inr w' \<Rightarrow>
                            (let q2 = on_notes (\<lambda>n. n\<lparr>mn_backoff_wait_applied := Some w'\<rparr>) q1 in (Inr (resent k r w' q2), q2))))))))"

section \<open>Mobile redirects\<close>

definition with_headers :: "(pystr, pystr) odict \<Rightarrow> mw_request \<Rightarrow> mw_request" where
  "with_headers hs q = q\<lparr>mq_headers := foldl (\<lambda>d (k, v). od_set k v d) (mq_headers q) hs\<rparr>"

definition mw_referer :: "mw_request \<Rightarrow> pystr option" where
  "mw_referer q = py_or (cm_from_listing (mq_meta q)) (cm_access_referer (mq_meta q))"

definition mobile_response :: "mw_ctx \<Rightarrow> response \<Rightarrow> mw_request \<Rightarrow> mw_state \<Rightarrow> (exc + mw_outcome) \<times> mw_state" where
  "mobile_response k r q st =
    (case third_part (rs_url r) of
       None \<Rightarrow> (Inl (OtherError ''IndexError: list index out of range''), st)
     | Some rh \<Rightarrow>
        (case third_part (mq_url q) of
           None \<Rightarrow> (Inl (OtherError ''IndexError: list index out of range''), st)
         | Some qh \<Rightarrow>
            (if \<not> (starts_with ''m.'' rh \<and> \<not> starts_with ''m.'' qh) \<or> mn_mobile_retry (mq_notes q) then (Inr Deliver, st)
             else if \<not> re_allowed (can_follow_redirect (ax_net (mx_access k)) (mq_url q) (rs_url r)) then (Inr Deliver, st)
             else (case build_desktop_headers (mx_access k) (mw_store k q) (mw_purpose q) (mw_referer q) (Some (mq_url q)) (ms_rotation st) of
                 (Inl x, rot) \<Rightarrow> (Inl x, st\<lparr>ms_rotation := rot\<rparr>)
               | (Inr hs, rot) \<Rightarrow>
                  (Inr (Resend ((on_notes (\<lambda>n. n\<lparr>mn_mobile_retry := True\<rparr>) (with_headers hs q))\<lparr>mq_dont_filter := True\<rparr>)),
                   st\<lparr>ms_rotation := rot\<rparr>)))))"

section \<open>Delays\<close>

definition mw_domain :: "mw_request \<Rightarrow> exc + pystr" where
  "mw_domain q = (case urlsplit5 (mq_url q) of Inl x \<Rightarrow> Inl x | Inr u \<Rightarrow> Inr (lower (strip (up_netloc u))))"

definition delay_of :: "mw_ctx \<Rightarrow> pystr \<Rightarrow> mw_state \<Rightarrow> rat" where
  "delay_of k domain st = (case od_get domain (ms_delays st) of Some d \<Rightarrow> d | None \<Rightarrow> mx_download_delay k)"

definition apply_slot_delay :: "mw_ctx \<Rightarrow> mw_request \<Rightarrow> pystr \<Rightarrow> rat \<Rightarrow> mw_state \<Rightarrow> mw_state" where
  "apply_slot_delay k q domain delay st =
    (let key = or_empty (py_or (mn_download_slot (mq_notes q)) (Some domain)) in
     if mx_has_slot k (ms_tick st) key then st\<lparr>ms_slots := od_set key delay (ms_slots st)\<rparr>
     else st\<lparr>ms_spider_delay := Some delay\<rparr>)"

definition jitter_bounds :: "mw_ctx \<Rightarrow> store_profile \<Rightarrow> rat \<times> rat" where
  "jitter_bounds k p =
    (let low = max 0 (case sp_jitter_min_seconds p of Some x \<Rightarrow> x | None \<Rightarrow> SCRAPY_RANDOMIZED_DELAY_MIN_SECONDS (cfg k));
         high = max 0 (case sp_jitter_max_seconds p of Some x \<Rightarrow> x | None \<Rightarrow> SCRAPY_RANDOMIZED_DELAY_MAX_SECONDS (cfg k))
     in if low > high then (high, low) else (low, high))"

definition jitter_enabled :: "mw_ctx \<Rightarrow> pystr \<Rightarrow> bool" where
  "jitter_enabled k store = (SCRAPY_RANDOMIZED_DELAY_ENABLED (cfg k) \<and> feature_on (mx_access k) ''access_delay_jitter'' store)"

definition randomized_delay :: "mw_ctx \<Rightarrow> mw_request \<Rightarrow> mw_state \<Rightarrow> exc option \<times> mw_request \<times> mw_state" where
  "randomized_delay k q st =
    (let store = mw_store k q; profile = get_store_profile store; (low, high) = jitter_bounds k profile in
     if \<not> jitter_enabled k store \<or> sp_jitter_enabled profile = Some False then (None, q, st)
     else (case mw_domain q of
         Inl x \<Rightarrow> (Some x, q, st)
       | Inr domain \<Rightarrow>
          (if domain = [] \<or> high \<le> 0 then (None, q, st)
           else
            (let magnitude = mx_uniform k (ms_tick st) low high;
                 delta = (if mx_upper_half k (ms_tick st) then magnitude else - magnitude);
                 effective = max 0 (max 0 (delay_of k domain st) + delta)
             in (None, on_notes (\<lambda>n. n\<lparr>mn_effective_delay := Some (of_int (py_round (effective * 10000)) / 10000),
                     mn_jitter_delta := Some (of_int (py_round (delta * 10000)) / 10000)\<rparr>) q,
                 apply_slot_delay k q domain effective st)))))"

text \<open>A request on its way out: the stealth callback, the start time, the jitter.\<close>

definition process_request :: "mw_ctx \<Rightarrow> mw_request \<Rightarrow> mw_state \<Rightarrow> exc option \<times> mw_request \<times> mw_state" where
  "process_request k q st =
    (let g = cm_gov (mq_meta q);
         q1 = (if rm_playwright g \<noteq> None then q\<lparr>mq_meta := (mq_meta q)\<lparr>cm_gov := g\<lparr>rm_page_init_callback := True\<rparr>\<rparr>\<rparr> else q);
         q2 = on_notes (\<lambda>n. n\<lparr>mn_request_start := some_or (mn_request_start n) (Some (mx_clock k (ms_tick st)))\<rparr>) q1
     in case randomized_delay k q2 st of (x, q3, st1) \<Rightarrow> (x, q3, st1\<lparr>ms_tick := Suc (ms_tick st1)\<rparr>))"

definition median_of :: "rat list \<Rightarrow> rat" where
  "median_of xs = (let s = sort xs; n = length s in
     if odd n then s ! (n div 2) else (s ! (n div 2 - 1) + s ! (n div 2)) / 2)"

definition last_ten :: "rat list \<Rightarrow> rat list" where
  "last_ten xs = drop (length xs - 10) xs"

text \<open>A response more than three times slower than the median of the last ten slows the domain down.\<close>

definition slow_origin :: "mw_ctx \<Rightarrow> pystr \<Rightarrow> rat \<Rightarrow> mw_request \<Rightarrow> mw_state \<Rightarrow> mw_state" where
  "slow_origin k domain elapsed q st =
    (let times = last_ten ((case od_get domain (ms_times st) of None \<Rightarrow> [] | Some ts \<Rightarrow> ts) @ [elapsed]);
         st1 = st\<lparr>ms_times := od_set domain times (ms_times st)\<rparr>
     in if length times \<ge> 3 \<and> elapsed > 3 * median_of times
        then (let new_delay = min (delay_of k domain st1 * (3/2)) 30
              in apply_slot_delay k q domain new_delay (st1\<lparr>ms_delays := od_set domain new_delay (ms_delays st1)\<rparr>))
        else st1)"

definition status_monitoring :: "mw_ctx \<Rightarrow> pystr \<Rightarrow> pystr \<Rightarrow> int \<Rightarrow> mw_state \<Rightarrow> mw_state" where
  "status_monitoring k store domain status st =
    (if \<not> (SCRAPY_BAN_SIGNAL_MONITORING_ENABLED (cfg k) \<and> feature_on (mx_access k) ''ban_signal_monitoring'' store) then st
     else (case status_bucket_for_http status of
         None \<Rightarrow> st
       | Some bucket \<Rightarrow> st\<lparr>ms_spikes := snd (record_http_status store domain bucket (SCRAPY_BAN_SPIKE_THRESHOLD (cfg k))
           (SCRAPY_BAN_SPIKE_WINDOW_SECONDS (cfg k)) (mx_clock k (ms_tick st)) (ms_spikes st))\<rparr>))"

definition note_decision :: "backoff_decision \<Rightarrow> mw_notes \<Rightarrow> mw_notes" where
  "note_decision d n =
    n\<lparr>mn_backoff_reason := Some (bd_reason d), mn_backoff_wait := Some (round_num (bd_wait_seconds d)),
      mn_backoff_cooldown := Some (round3 (bd_cooldown_seconds d)),
      mn_backoff_actions := (if bd_actions d = [] then mn_backoff_actions n else Some (bd_actions d))\<rparr>"

definition explicit_backoff ::
    "mw_ctx \<Rightarrow> pystr \<Rightarrow> response \<Rightarrow> mw_request \<Rightarrow> mw_state \<Rightarrow> (exc + backoff_decision option) \<times> mw_request" where
  "explicit_backoff k store r q st =
    (if \<not> explicit_backoff_enabled k store \<or> \<not> supports_status (rs_status r) then (Inr None, q)
     else (case backoff_decision_for k (mx_wall k (ms_tick st)) r (or_zero (cm_prior_failures (mq_meta q))) of
         Inl x \<Rightarrow> (Inl x, q)
       | Inr d \<Rightarrow> (Inr (Some d), on_notes (note_decision d) q)))"

definition apply_cooldown ::
    "mw_ctx \<Rightarrow> pystr \<Rightarrow> pystr \<Rightarrow> backoff_decision option \<Rightarrow> mw_request \<Rightarrow> mw_state \<Rightarrow> mw_request \<times> mw_state" where
  "apply_cooldown k store domain d q st = (case d of
       None \<Rightarrow> (q, st)
     | Some d \<Rightarrow>
        (if \<not> explicit_backoff_enforced k store \<or> bd_cooldown_seconds d \<le> 0 \<or> domain = [] then (q, st)
         else (let new_delay = max (delay_of k domain st) (bd_cooldown_seconds d)
               in (on_notes (\<lambda>n. n\<lparr>mn_backoff_cooldown_applied := Some (round3 new_delay)\<rparr>) q,
                   apply_slot_delay k q domain new_delay (st\<lparr>ms_delays := od_set domain new_delay (ms_delays st)\<rparr>)))))"

section \<open>Signals and escalation\<close>

definition captcha_hooks_enabled :: "mw_ctx \<Rightarrow> pystr \<Rightarrow> bool" where
  "captcha_hooks_enabled k store = (SCRAPY_CAPTCHA_HOOKS_ENABLED (cfg k) \<and> feature_on (mx_access k) ''captcha_hooks'' store)"

definition page_signal :: "mw_ctx \<Rightarrow> pystr \<Rightarrow> response \<Rightarrow> mw_request \<Rightarrow> exc + pystr option \<times> mw_request" where
  "page_signal k store r q =
    (let threshold = sp_empty_body_threshold (get_store_profile store) in
     if captcha_hooks_enabled k store
     then (case detect_captcha (SCRAPY_CAPTCHA_SUSPICIOUS_REDIRECT_ENABLED (cfg k)) r (Some (mq_url q)) threshold of
         Inl x \<Rightarrow> Inl x
       | Inr d \<Rightarrow> Inr (cd_signal d, if is_captcha_related d
           then on_notes (\<lambda>n. n\<lparr>mn_captcha_markers := Some (cd_markers d), mn_captcha_suspicious := Some (cd_suspicious_redirect d)\<rparr>) q
           else q))
     else Inr (detect_ban_signal r (Some (mq_url q)) threshold, q))"

text \<open>The copy that is sent in place of the response, with the access mode chosen anew.\<close>

definition retry_with_access ::
    "mw_ctx \<Rightarrow> pystr \<Rightarrow> int \<Rightarrow> bool \<Rightarrow> bool \<Rightarrow> pystr \<Rightarrow> int \<Rightarrow> int \<Rightarrow> pystr \<Rightarrow> mw_request \<Rightarrow> mw_state
      \<Rightarrow> (exc + mw_outcome) \<times> mw_state" where
  "retry_with_access k store prior force_browser force_proxy signal strikes mw_round reason q st =
    (let purpose = mw_purpose q;
         m = (mq_meta q)\<lparr>cm_retry_times := Some (or_zero (cm_retry_times (mq_meta q)) + 1), cm_prior_failures := Some prior,
               cm_force_browser := force_browser, cm_force_proxy := force_proxy, cm_access_last_signal := Some signal,
               cm_shell_strikes := Some strikes, cm_mw_retry := Some mw_round\<rparr>
     in case build_request_meta (mx_access k) (mx_clock k (ms_tick st)) store purpose prior force_browser force_proxy (Some signal)
            (mx_playwright k) None (ms_proxy st) of
          (Inl x, px) \<Rightarrow> (Inl x, st\<lparr>ms_proxy := px\<rparr>)
        | (Inr part, px) \<Rightarrow>
           (let q1 = on_notes (\<lambda>n. n\<lparr>mn_retry_reason := Some reason\<rparr>) (q\<lparr>mq_meta := update_access store purpose part m, mq_dont_filter := True\<rparr>) in
            case build_desktop_headers (mx_access k) store purpose (mw_referer q1) (Some (mq_url q1)) (ms_rotation st) of
              (Inl x, rot) \<Rightarrow> (Inl x, st\<lparr>ms_proxy := px, ms_rotation := rot\<rparr>)
            | (Inr hs, rot) \<Rightarrow> (Inr (Resend (with_headers hs q1)), st\<lparr>ms_proxy := px, ms_rotation := rot\<rparr>)))"

definition is_shell :: "pystr \<Rightarrow> bool" where
  "is_shell signal = (signal = ''js_shell'' \<or> signal = ''empty_shell'')"

text \<open>
  What follows a ban signal.  The captcha hook before it comes to nothing: the only solver
  there is makes no request.
\<close>

definition escalate :: "mw_ctx \<Rightarrow> pystr \<Rightarrow> pystr \<Rightarrow> mw_request \<Rightarrow> mw_state \<Rightarrow> (exc + mw_outcome) \<times> mw_state" where
  "escalate k store signal q st =
    (let m = mq_meta q; mw_round = or_zero (cm_mw_retry m); prior = or_zero (cm_prior_failures m);
         strikes = or_zero (cm_shell_strikes m) + (if is_shell signal then 1 else 0);
         shell_fail = (if is_shell signal then strikes else prior + 1)
     in if mw_round \<ge> 8 then (Inr Deliver, st)
        else if should_escalate_to_browser (mx_access k) store (Some signal) shell_fail (mx_playwright k)
        then retry_with_access k store (prior + 1) True False signal 0 (mw_round + 1) ''browser_escalation'' q st
        else if should_escalate_to_proxy (mx_access k) store (Some signal) (prior + 1)
        then retry_with_access k store (prior + 1) False True signal strikes (mw_round + 1) ''proxy_escalation'' q st
        else if is_shell signal \<and> strikes < SCRAPY_ACCESS_SHELL_ESCALATE_AFTER (cfg k)
        then retry_with_access k store prior False False signal strikes (mw_round + 1) ''shell_sample'' q st
        else (Inr Deliver, st))"

definition mark_proxy :: "mw_ctx \<Rightarrow> pystr \<Rightarrow> bool \<Rightarrow> pystr \<Rightarrow> mw_request \<Rightarrow> mw_state \<Rightarrow> mw_state" where
  "mark_proxy k store success reason q st =
    (let proxy = strip (or_empty (rm_proxy (cm_gov (mq_meta q)))) in
     if proxy = [] then st
     else st\<lparr>ms_proxy := mark_proxy_result (mx_access k) (mx_clock k (ms_tick st)) proxy success (Some reason) (Some store) (ms_proxy st)\<rparr>)"

definition ratelimit_response :: "mw_ctx \<Rightarrow> response \<Rightarrow> mw_request \<Rightarrow> mw_state \<Rightarrow> (exc + mw_outcome) \<times> mw_state" where
  "ratelimit_response k r q st =
    (case mw_domain q of
       Inl x \<Rightarrow> (Inl x, st)
     | Inr domain \<Rightarrow>
        (let store = mw_store k q;
             st1 = (case mn_request_start (mq_notes q) of
               None \<Rightarrow> st | Some start \<Rightarrow> slow_origin k domain (mx_clock k (ms_tick st) - start) q st);
             st2 = status_monitoring k store domain (rs_status r) st1
         in case explicit_backoff k store r q st2 of
              (Inl x, q1) \<Rightarrow> (Inl x, st2)
            | (Inr d, q1) \<Rightarrow>
               (case apply_cooldown k store domain d q1 st2 of
                  (q2, st3) \<Rightarrow>
                    (case page_signal k store r q2 of
                       Inl x \<Rightarrow> (Inl x, st3)
                     | Inr (None, q3) \<Rightarrow> (Inr Deliver, mark_proxy k store True ''ok'' q3 st3)
                     | Inr (Some signal, q3) \<Rightarrow>
                        (if signal = ''mobile_redirect'' then (Inr Deliver, mark_proxy k store True ''mobile_redirect'' q3 st3)
                         else escalate k store signal q3 (mark_proxy k store False signal q3 st3))))))"

section \<open>The chain\<close>

definition process_response :: "mw_ctx \<Rightarrow> response \<Rightarrow> mw_request \<Rightarrow> mw_state \<Rightarrow> (exc + mw_outcome) \<times> mw_state" where
  "process_response k r q st0 =
    (let st = st0\<lparr>ms_tick := Suc (ms_tick st0)\<rparr> in
     case retry_response k r q st of
       (Inl x, q1) \<Rightarrow> (Inl x, st)
     | (Inr (Resend q'), q1) \<Rightarrow> (Inr (Resend q'), st)
     | (Inr Deliver, q1) \<Rightarrow>
        (case mobile_response k r q1 st of
           (Inl x, st1) \<Rightarrow> (Inl x, st1)
         | (Inr (Resend q'), st1) \<Rightarrow> (Inr (Resend q'), st1)
         | (Inr Deliver, st1) \<Rightarrow> ratelimit_response k r q1 st1))"

end
