(* ===== verification/Middleware_Properties.thy ===== *)
theory Middleware_Properties imports Access_Middleware Proxy_Properties begin

text \<open>
  What the downloader middlewares promise of the requests they send again, of the waits
  they decide and of the delays of a domain.
\<close>

section \<open>The retry of Scrapy\<close>

text \<open>
  As its documentation has it: a copy with the counter raised, exempt from the duplicate
  filter, or nothing once the counter has reached the limit.
\<close>

definition scrapy_retry :: "int \<Rightarrow> mw_ctx \<Rightarrow> bool" where
  "scrapy_retry limit_n k \<longleftrightarrow> (\<forall>q. mx_retry k q = (let n = or_zero (cm_retry_times (mq_meta q)) + 1 in
     if n \<le> limit_n then Some (q\<lparr>mq_meta := (mq_meta q)\<lparr>cm_retry_times := Some n\<rparr>, mq_dont_filter := True\<rparr>) else None))"

lemma scrapy_retryD:
  assumes "scrapy_retry limit_n k" and "mx_retry k q = Some q'"
  shows "cm_retry_times (mq_meta q') = Some (or_zero (cm_retry_times (mq_meta q)) + 1)"
    "cm_mw_retry (mq_meta q') = cm_mw_retry (mq_meta q)" "mq_notes q' = mq_notes q" "cm_gov (mq_meta q') = cm_gov (mq_meta q)"
    "or_zero (cm_retry_times (mq_meta q)) < limit_n"
  using assms by (auto simp: scrapy_retry_def Let_def split: if_splits)

section \<open>Each middleware's resent request\<close>

lemma on_notes_simps [simp]:
  "mq_meta (on_notes f q) = mq_meta q" "mq_url (on_notes f q) = mq_url q" "mq_notes (on_notes f q) = f (mq_notes q)"
  by (simp_all add: on_notes_def)

lemma with_headers_simps [simp]:
  "mq_meta (with_headers hs q) = mq_meta q" "mq_notes (with_headers hs q) = mq_notes q" "mq_url (with_headers hs q) = mq_url q"
  by (simp_all add: with_headers_def)

lemma note_default_mobile [simp]: "mn_mobile_retry (note_default_decision d n) = mn_mobile_retry n"
  by (simp add: note_default_decision_def)

lemma note_decision_mobile [simp]: "mn_mobile_retry (note_decision d n) = mn_mobile_retry n"
  by (simp add: note_decision_def)

text \<open>What a middleware leaves of a request that it passes on: its meta and whether it has been retried as mobile.\<close>

definition same_budget :: "mw_request \<Rightarrow> mw_request \<Rightarrow> bool" where
  "same_budget q q' \<longleftrightarrow> mq_meta q' = mq_meta q \<and> mn_mobile_retry (mq_notes q') = mn_mobile_retry (mq_notes q)"

lemma same_budget_simps [simp]:
  "same_budget q q"
  "same_budget q (on_notes (note_default_decision d) q)"
  "same_budget q (on_notes (note_decision d) q)"
  by (simp_all add: same_budget_def)

lemma resent_cases:
  assumes "resent k r w q = Resend q'" and "scrapy_retry limit_n k"
  shows "cm_retry_times (mq_meta q') = Some (or_zero (cm_retry_times (mq_meta q)) + 1) \<and> cm_mw_retry (mq_meta q') = cm_mw_retry (mq_meta q)
    \<and> mn_mobile_retry (mq_notes q') = mn_mobile_retry (mq_notes q) \<and> cm_gov (mq_meta q') = cm_gov (mq_meta q)
    \<and> mn_download_timeout (mq_notes q') = Some (w + 10)"
  using assms(1) by (auto simp: resent_def dest: scrapy_retryD [OF assms(2)] split: option.splits)

lemma retry_response_passes:
  assumes "retry_response k r q st = (Inr Deliver, q')"
  shows "same_budget q q'"
  using assms
  by (auto simp: retry_response_def same_budget_def Let_def split: if_splits sum.splits option.splits)

lemma retry_response_resends:
  assumes "retry_response k r q st = (Inr (Resend q'), q1)" and "scrapy_retry limit_n k"
  shows "rs_status r \<in> set RETRY_HTTP_CODES \<and> or_zero (cm_retry_times (mq_meta q)) < MAX_RETRY_TIMES
    \<and> cm_retry_times (mq_meta q') = Some (or_zero (cm_retry_times (mq_meta q)) + 1) \<and> cm_mw_retry (mq_meta q') = cm_mw_retry (mq_meta q)
    \<and> mn_mobile_retry (mq_notes q') = mn_mobile_retry (mq_notes q) \<and> cm_gov (mq_meta q') = cm_gov (mq_meta q)
    \<and> (\<exists>w. mn_download_timeout (mq_notes q') = Some (w + 10))"
proof -
  obtain q2 w where q2: "resent k r w q2 = Resend q'" "same_budget q q2" "rs_status r \<in> set RETRY_HTTP_CODES"
      "or_zero (cm_retry_times (mq_meta q)) < MAX_RETRY_TIMES"
    using assms(1)
    by (auto simp: retry_response_def same_budget_def Let_def not_le split: if_splits sum.splits option.splits)
  with resent_cases [OF q2(1) assms(2)] show ?thesis by (auto simp: same_budget_def)
qed

lemma mobile_response_resends:
  assumes "mobile_response k r q st = (Inr (Resend q'), st')"
  shows "\<not> mn_mobile_retry (mq_notes q) \<and> mn_mobile_retry (mq_notes q') \<and> mq_meta q' = mq_meta q"
  using assms by (auto simp: mobile_response_def split: option.splits if_splits sum.splits prod.splits)

lemma update_access_counters [simp]:
  "cm_retry_times (update_access store purpose p m) = cm_retry_times m" "cm_mw_retry (update_access store purpose p m) = cm_mw_retry m"
  "rm_ticket (cm_gov (update_access store purpose p m)) = rm_ticket (cm_gov m)"
  by (auto simp: update_access_def Let_def split: option.splits)

lemma retry_with_access_resends:
  assumes "retry_with_access k store prior browser proxy signal strikes n reason q st = (Inr (Resend q'), st')"
  shows "cm_retry_times (mq_meta q') = Some (or_zero (cm_retry_times (mq_meta q)) + 1) \<and> cm_mw_retry (mq_meta q') = Some n
    \<and> mn_mobile_retry (mq_notes q') = mn_mobile_retry (mq_notes q) \<and> rm_ticket (cm_gov (mq_meta q')) = rm_ticket (cm_gov (mq_meta q))"
  using assms by (auto simp: retry_with_access_def Let_def split: prod.splits sum.splits)

lemma escalate_resends:
  assumes "escalate k store signal q st = (Inr (Resend q'), st')"
  shows "or_zero (cm_mw_retry (mq_meta q)) < 8 \<and> cm_retry_times (mq_meta q') = Some (or_zero (cm_retry_times (mq_meta q)) + 1)
    \<and> cm_mw_retry (mq_meta q') = Some (or_zero (cm_mw_retry (mq_meta q)) + 1)
    \<and> mn_mobile_retry (mq_notes q') = mn_mobile_retry (mq_notes q) \<and> rm_ticket (cm_gov (mq_meta q')) = rm_ticket (cm_gov (mq_meta q))"
  using assms by (auto simp: escalate_def Let_def dest!: retry_with_access_resends split: if_splits)

lemma page_signal_keeps: "page_signal k store r q = Inr (s, q') \<Longrightarrow> same_budget q q'"
  by (auto simp: page_signal_def same_budget_def Let_def split: if_splits sum.splits)

lemma explicit_backoff_keeps: "explicit_backoff k store r q st = (d, q') \<Longrightarrow> same_budget q q'"
  by (auto simp: explicit_backoff_def same_budget_def split: if_splits sum.splits)

lemma apply_cooldown_keeps: "apply_cooldown k store domain d q st = (q', st') \<Longrightarrow> same_budget q q'"
  by (auto simp: apply_cooldown_def same_budget_def Let_def split: option.splits if_splits)

lemma ratelimit_response_resends:
  assumes "ratelimit_response k r q st = (Inr (Resend q'), st')"
  shows "or_zero (cm_mw_retry (mq_meta q)) < 8 \<and> cm_retry_times (mq_meta q') = Some (or_zero (cm_retry_times (mq_meta q)) + 1)
    \<and> cm_mw_retry (mq_meta q') = Some (or_zero (cm_mw_retry (mq_meta q)) + 1)
    \<and> mn_mobile_retry (mq_notes q') = mn_mobile_retry (mq_notes q) \<and> rm_ticket (cm_gov (mq_meta q')) = rm_ticket (cm_gov (mq_meta q))"
proof -
  obtain store signal q3 st3 where "escalate k store signal q3 st3 = (Inr (Resend q'), st')" "same_budget q q3"
    using assms
    by (auto simp: ratelimit_response_def Let_def same_budget_def
        dest!: explicit_backoff_keeps apply_cooldown_keeps page_signal_keeps split: sum.splits prod.splits option.splits if_splits)
  with escalate_resends show ?thesis by (fastforce simp: same_budget_def)
qed

section \<open>Termination\<close>

text \<open>A request sent again and again: out through the middlewares, back with some response.\<close>

inductive resends :: "mw_ctx \<Rightarrow> nat \<Rightarrow> mw_request \<Rightarrow> mw_request \<Rightarrow> bool" for k where
  sent: "resends k 0 q q"
| again: "process_request k q s0 = (None, q1, s1) \<Longrightarrow> process_response k r q1 s2 = (Inr (Resend q2), s3) \<Longrightarrow> resends k n q2 q'
    \<Longrightarrow> resends k (Suc n) q q'"

definition resend_budget :: "mw_request \<Rightarrow> nat" where
  "resend_budget q = nat (MAX_RETRY_TIMES - or_zero (cm_retry_times (mq_meta q))) + nat (8 - or_zero (cm_mw_retry (mq_meta q)))
     + (if mn_mobile_retry (mq_notes q) then 0 else 1)"

lemma randomized_delay_keeps: "randomized_delay k q st = (x, q', st') \<Longrightarrow> same_budget q q'"
  by (auto simp: randomized_delay_def same_budget_def Let_def split: if_splits sum.splits prod.splits)

lemma process_request_budget:
  assumes "process_request k q st = (x, q', st')"
  shows "resend_budget q' = resend_budget q"
proof -
  define q2 where "q2 = on_notes (\<lambda>n. n\<lparr>mn_request_start := some_or (mn_request_start n) (Some (mx_clock k (ms_tick st)))\<rparr>)
    (if rm_playwright (cm_gov (mq_meta q)) \<noteq> None
     then q\<lparr>mq_meta := (mq_meta q)\<lparr>cm_gov := (cm_gov (mq_meta q))\<lparr>rm_page_init_callback := True\<rparr>\<rparr>\<rparr> else q)"
  obtain st1 where "randomized_delay k q2 st = (x, q', st1)"
    using assms by (auto simp: process_request_def q2_def Let_def split: prod.splits)
  from randomized_delay_keeps [OF this] have "same_budget q2 q'" .
  then show ?thesis by (auto simp: same_budget_def resend_budget_def q2_def)
qed

lemma resend_cases:
  assumes "process_response k r q st = (Inr (Resend q'), st')"
  obtains (status) q1 s where "retry_response k r q s = (Inr (Resend q'), q1)"
  | (mobile) q1 s s' where "same_budget q q1" "mobile_response k r q1 s = (Inr (Resend q'), s')"
  | (limited) q1 s s' where "same_budget q q1" "ratelimit_response k r q1 s = (Inr (Resend q'), s')"
proof -
  let ?st = "st\<lparr>ms_tick := Suc (ms_tick st)\<rparr>"
  obtain o1 q1 where r: "retry_response k r q ?st = (o1, q1)" by force
  show thesis
  proof (cases "o1 = Inr Deliver")
    case True
    note pass = retry_response_passes [OF r [unfolded True]]
    obtain o2 s2 where m: "mobile_response k r q1 ?st = (o2, s2)" by force
    show thesis
    proof (cases "o2 = Inr Deliver")
      case deliver: True
      with assms r True m have "ratelimit_response k r q1 s2 = (Inr (Resend q'), st')"
        by (simp add: process_response_def Let_def)
      with pass limited show thesis by blast
    next
      case False
      with assms r True m have "o2 = Inr (Resend q')"
        by (auto simp: process_response_def Let_def split: sum.splits mw_outcome.splits)
      with pass m mobile show thesis by blast
    qed
  next
    case False
    with assms r have "o1 = Inr (Resend q')"
      by (auto simp: process_response_def Let_def split: sum.splits mw_outcome.splits)
    with r status show thesis by blast
  qed
qed

lemma resend_costs:
  assumes "process_response k r q st = (Inr (Resend q'), st')" and "scrapy_retry limit_n k"
  shows "resend_budget q' < resend_budget q"
  using assms(1)
proof (cases rule: resend_cases)
  case (status q1 s)
  from retry_response_resends [OF status assms(2)] show ?thesis by (auto simp: resend_budget_def or_zero_def)
next
  case (mobile q1 s s')
  from mobile_response_resends [OF mobile(2)] mobile(1) show ?thesis by (auto simp: resend_budget_def same_budget_def)
next
  case (limited q1 s s')
  from ratelimit_response_resends [OF limited(2)] limited(1) show ?thesis by (auto simp: resend_budget_def same_budget_def or_zero_def)
qed

text \<open>C34. However the responses fall out and in whatever order the three middlewares take them, a request
  is sent again at most as often as its counters leave room for: five times for its
  status, eight times for a ban signal and once for a mobile redirect.\<close>

theorem resends_bounded:
  assumes "scrapy_retry limit_n k" and "resends k n q q'"
  shows "n \<le> nat (MAX_RETRY_TIMES - or_zero (cm_retry_times (mq_meta q))) + nat (8 - or_zero (cm_mw_retry (mq_meta q)))
    + (if mn_mobile_retry (mq_notes q) then 0 else 1)"
proof -
  from assms(2) have "n + resend_budget q' \<le> resend_budget q"
  proof (induction rule: resends.induct)
    case (again q s0 q1 s1 r s2 q2 s3 n q')
    from process_request_budget [OF again(1)] resend_costs [OF again(2) assms(1)] again(4) show ?case by simp
  qed simp
  then show ?thesis by (simp add: resend_budget_def)
qed

section \<open>Rate limits\<close>

lemma retried_codes_allowed:
  "status \<in> set RETRY_HTTP_CODES \<Longrightarrow> supports_status status \<Longrightarrow> bd_retry_allowed (classify e status p h)"
  by (auto simp: RETRY_HTTP_CODES_def supports_status_def SUPPORTED_STATUSES_def classify_def classify_429_def backoff_decided_def Let_def
      split: prod.splits)

lemma resent_always:
  assumes "scrapy_retry limit_n k" and "or_zero (cm_retry_times (mq_meta q)) < limit_n"
  shows "\<exists>q'. resent k r w q = Resend q' \<and> mn_download_timeout (mq_notes q') = Some (w + 10)"
  using assms by (auto simp: resent_def scrapy_retry_def Let_def)


section \<open>The delay of a domain\<close>

definition delays_rise :: "mw_state \<Rightarrow> mw_state \<Rightarrow> bool" where
  "delays_rise st st' \<longleftrightarrow> (\<forall>d x. od_get d (ms_delays st) = Some x \<and> 0 \<le> x \<longrightarrow> (\<exists>y. od_get d (ms_delays st') = Some y \<and> min x 30 \<le> y))"

lemma delays_rise_refl [simp]: "delays_rise st st"
  by (simp add: delays_rise_def)

lemma delays_rise_same: "ms_delays st' = ms_delays st \<Longrightarrow> delays_rise st st'"
  by (simp add: delays_rise_def)

lemma delays_rise_trans:
  assumes "delays_rise st st1" and "delays_rise st1 st2"
  shows "delays_rise st st2"
  unfolding delays_rise_def
proof (intro allI impI)
  fix d x assume x: "od_get d (ms_delays st) = Some x \<and> 0 \<le> x"
  with assms(1) obtain y where y: "od_get d (ms_delays st1) = Some y" "min x 30 \<le> y" by (auto simp: delays_rise_def)
  moreover from x have "0 \<le> min x 30" by simp
  ultimately have "0 \<le> y" by (meson order_trans)
  with y assms(2) obtain z where "od_get d (ms_delays st2) = Some z" "min y 30 \<le> z" unfolding delays_rise_def by blast
  with y show "\<exists>z. od_get d (ms_delays st2) = Some z \<and> min x 30 \<le> z" by (auto simp: min_le_iff_disj)
qed

lemma slot_delay_keeps [simp]: "ms_delays (apply_slot_delay k q d x st) = ms_delays st"
  by (simp add: apply_slot_delay_def Let_def)

lemma delays_rise_set:
  assumes "ms_delays st' = od_set domain y (ms_delays st)" and "\<And>x. od_get domain (ms_delays st) = Some x \<Longrightarrow> 0 \<le> x \<Longrightarrow> min x 30 \<le> y"
  shows "delays_rise st st'"
  unfolding delays_rise_def
proof (intro allI impI)
  fix d x assume "od_get d (ms_delays st) = Some x \<and> 0 \<le> x"
  with assms show "\<exists>y. od_get d (ms_delays st') = Some y \<and> min x 30 \<le> y"
    by (cases "d = domain") (auto simp: od_get_set)
qed

lemma slow_origin_delays:
  "ms_delays (slow_origin k domain elapsed q st) = ms_delays st
    \<or> ms_delays (slow_origin k domain elapsed q st) = od_set domain (min (delay_of k domain st * (3/2)) 30) (ms_delays st)"
proof -
  have "delay_of k domain (st\<lparr>ms_times := ts\<rparr>) = delay_of k domain st" for ts by (simp add: delay_of_def)
  then show ?thesis by (simp add: slow_origin_def Let_def)
qed

lemma slow_origin_rises: "delays_rise st (slow_origin k domain elapsed q st)"
  using slow_origin_delays [of k domain elapsed q st]
proof
  assume "ms_delays (slow_origin k domain elapsed q st) = ms_delays st"
  then show ?thesis by (rule delays_rise_same)
next
  assume "ms_delays (slow_origin k domain elapsed q st) = od_set domain (min (delay_of k domain st * (3/2)) 30) (ms_delays st)"
  then show ?thesis
  proof (rule delays_rise_set)
    fix x assume "od_get domain (ms_delays st) = Some x" "0 \<le> x"
    then have "delay_of k domain st = x" by (simp add: delay_of_def)
    with \<open>0 \<le> x\<close> show "min x 30 \<le> min (delay_of k domain st * (3/2)) 30" by simp
  qed
qed

lemma cooldown_rises:
  assumes "apply_cooldown k store domain d q st = (q', st')"
  shows "delays_rise st st'"
proof -
  have "ms_delays st' = ms_delays st \<or> (\<exists>c. ms_delays st' = od_set domain (max (delay_of k domain st) c) (ms_delays st))"
    using assms by (auto simp: apply_cooldown_def Let_def split: option.splits if_splits)
  then show ?thesis
  proof
    assume "\<exists>c. ms_delays st' = od_set domain (max (delay_of k domain st) c) (ms_delays st)"
    then obtain c where "ms_delays st' = od_set domain (max (delay_of k domain st) c) (ms_delays st)" ..
    then show ?thesis by (rule delays_rise_set) (simp add: delay_of_def)
  qed (rule delays_rise_same)
qed

lemma monitoring_delays [simp]: "ms_delays (status_monitoring k store domain status st) = ms_delays st"
  by (simp add: status_monitoring_def split: option.split)

lemma mark_proxy_delays [simp]: "ms_delays (mark_proxy k store ok reason q st) = ms_delays st"
  by (simp add: mark_proxy_def Let_def)

lemma escalate_delays: "escalate k store signal q st = (res, st') \<Longrightarrow> ms_delays st' = ms_delays st"
  by (auto simp: escalate_def retry_with_access_def Let_def split: if_splits prod.splits sum.splits)

lemma mobile_delays: "mobile_response k r q st = (res, st') \<Longrightarrow> ms_delays st' = ms_delays st"
  by (auto simp: mobile_response_def split: option.splits if_splits prod.splits sum.splits)

lemma ratelimit_rises:
  assumes "ratelimit_response k r q st = (res, st')"
  shows "delays_rise st st'"
proof (cases "mw_domain q")
  case (Inl x)
  with assms show ?thesis by (simp add: ratelimit_response_def)
next
  case (Inr domain)
  let ?store = "mw_store k q"
  define st1 where "st1 = (case mn_request_start (mq_notes q) of
    None \<Rightarrow> st | Some start \<Rightarrow> slow_origin k domain (mx_clock k (ms_tick st) - start) q st)"
  define st2 where "st2 = status_monitoring k ?store domain (rs_status r) st1"
  have "delays_rise st st1" by (simp add: st1_def slow_origin_rises split: option.split)
  then have s2: "delays_rise st st2" unfolding st2_def by (rule delays_rise_trans) (simp add: delays_rise_same)
  obtain d q1 where d: "explicit_backoff k ?store r q st2 = (d, q1)" by force
  show ?thesis
  proof (cases d)
    case (Inl x)
    with assms Inr d s2 show ?thesis by (simp add: ratelimit_response_def st1_def st2_def Let_def)
  next
    case d': (Inr dd)
    obtain q2 st3 where c: "apply_cooldown k ?store domain dd q1 st2 = (q2, st3)" by force
    have s3: "delays_rise st st3" by (rule delays_rise_trans [OF s2 cooldown_rises [OF c]])
    have res: "(case page_signal k ?store r q2 of
          Inl x \<Rightarrow> (Inl x, st3)
        | Inr (None, q3) \<Rightarrow> (Inr Deliver, mark_proxy k ?store True ''ok'' q3 st3)
        | Inr (Some signal, q3) \<Rightarrow>
           (if signal = ''mobile_redirect'' then (Inr Deliver, mark_proxy k ?store True ''mobile_redirect'' q3 st3)
            else escalate k ?store signal q3 (mark_proxy k ?store False signal q3 st3))) = (res, st')"
      using assms Inr d d' c by (simp add: ratelimit_response_def st1_def st2_def Let_def)
    have "ms_delays st' = ms_delays st3"
      using res by (auto dest!: escalate_delays split: sum.splits prod.splits option.splits if_splits)
    with s3 show ?thesis by (auto intro: delays_rise_trans delays_rise_same)
  qed
qed

text \<open>A delay that slowness or a cooldown has put on a domain never ends: no response lowers it, but that
  a slow one may bring a cooldown of more than thirty seconds down to thirty.\<close>

theorem domain_delay_never_ends:
  assumes "process_response k r q st = (res, st')" and "od_get domain (ms_delays st) = Some x" and "0 \<le> x"
  shows "\<exists>y. od_get domain (ms_delays st') = Some y \<and> min x 30 \<le> y"
proof -
  let ?st = "st\<lparr>ms_tick := Suc (ms_tick st)\<rparr>"
  have "delays_rise ?st st'"
    using assms(1)
    by (auto simp: process_response_def Let_def intro: delays_rise_same delays_rise_trans
        dest!: mobile_delays ratelimit_rises split: prod.splits sum.splits mw_outcome.splits)
  with assms(2,3) show ?thesis by (auto simp: delays_rise_def)
qed

section \<open>Escalation and the budgets\<close>

lemma force_browser_kept:
  assumes "retry_with_access k store prior browser proxy signal strikes n reason q st = (Inr (Resend q'), st')"
  shows "cm_force_browser (mq_meta q') = browser"
  using assms by (auto simp: retry_with_access_def update_access_def Let_def split: prod.splits sum.splits)

lemma browser_chosen:
  assumes "should_escalate_to_browser a store signal fails supports"
  shows "should_use_browser a store prior signal True supports" "supports" "browser_request_meta store"
  using assms by (auto simp: should_escalate_to_browser_def should_use_browser_def browser_request_meta_def Let_def split: if_splits)

text \<open>C36. When a ban signal moves a request to the browser, the copy that is sent asks for a browser page, but
  it keeps the ticket of the request it replaces: the budgets of browser pages are
  neither asked nor charged.\<close>

theorem escalation_bypasses_budgets:
  assumes "ratelimit_response k r q st = (Inr (Resend q'), st')" and "cm_force_browser (mq_meta q')"
  shows "rm_playwright (cm_gov (mq_meta q')) = Some True \<and> rm_access_mode_selected (cm_gov (mq_meta q')) = Some ''browser''
    \<and> rm_ticket (cm_gov (mq_meta q')) = rm_ticket (cm_gov (mq_meta q))"
proof -
  obtain store signal q3 st3 where esc: "escalate k store signal q3 st3 = (Inr (Resend q'), st')"
    using assms(1) by (auto simp: ratelimit_response_def Let_def split: sum.splits prod.splits option.splits if_splits)
  obtain fails prior strikes n reason where up: "should_escalate_to_browser (mx_access k) store (Some signal) fails (mx_playwright k)"
      and rt: "retry_with_access k store prior True False signal strikes n reason q3 st3 = (Inr (Resend q'), st')"
    using esc assms(2) by (auto simp: escalate_def Let_def dest: force_browser_kept split: if_splits)
  from browser_chosen [OF up] have "should_use_browser (mx_access k) store prior (Some signal) True (mx_playwright k)" "mx_playwright k"
      "browser_request_meta store" .
  with rt have "rm_playwright (cm_gov (mq_meta q')) = Some True \<and> rm_access_mode_selected (cm_gov (mq_meta q')) = Some ''browser''"
    by (auto simp: retry_with_access_def build_request_meta_def update_access_def Let_def split: prod.splits sum.splits)
  with ratelimit_response_resends [OF assms(1)] show ?thesis by simp
qed

section \<open>Bounds\<close>

lemma num_max_least: "\<not> num_less (num_max a b) (Num x)" if "\<not> num_less a (Num x)"
  using that by (cases a; cases b) (auto simp: num_max_def)

lemma classify_429_bounds:
  assumes "0 \<le> w" and "0 \<le> be_cooldown_max_seconds e"
  shows "\<not> num_less (bd_wait_seconds (classify_429 e w h)) (Num w)
    \<and> 0 \<le> bd_cooldown_seconds (classify_429 e w h) \<and> bd_cooldown_seconds (classify_429 e w h) \<le> be_cooldown_max_seconds e"
proof -
  define w1 where "w1 = (case rl_retry_after h of Some s \<Rightarrow> if be_respect_retry_after e then num_max (Num w) s else Num w | None \<Rightarrow> Num w)"
  have "\<not> num_less w1 (Num w)" by (auto simp: w1_def num_max_least split: option.split)
  moreover define w2 where "w2 = (case rl_reset_wait h of Some s \<Rightarrow> if rl_remaining h = Some 0 then num_max w1 s else w1 | None \<Rightarrow> w1)"
  ultimately have w2: "\<not> num_less w2 (Num w)" by (auto simp: num_max_least split: option.split)
  define w3 where "w3 = (if be_strict_429 e \<and> \<not> num_less (Num 0) w2 then Num w else w2)"
  have w3: "\<not> num_less w3 (Num w)" using w2 by (simp add: w3_def)
  have d: "bd_wait_seconds (classify_429 e w h) = w3" "bd_cooldown_seconds (classify_429 e w h) = capped (be_cooldown_max_seconds e) w3"
    by (auto simp: classify_429_def backoff_decided_def w1_def w2_def w3_def Let_def split: option.split)
  have "0 \<le> capped (be_cooldown_max_seconds e) w3 \<and> capped (be_cooldown_max_seconds e) w3 \<le> be_cooldown_max_seconds e"
    using assms w3 by (cases w3) (auto simp: capped_def)
  with w3 show ?thesis by (simp add: d)
qed

text \<open>The engine never decides a wait below zero, and for every status but \<open>429\<close> none above
  \<open>SCRAPY_BACKOFF_MAX_SECONDS\<close>; a cooldown never exceeds its own limit; and of two failures
  the later one waits at least as long.  For \<open>429\<close> the wait is at least the exponential one.\<close>

theorem backoff_bounds:
  assumes "p \<le> p'"
  shows "let e = engine_from_settings c; d = classify e status p h in
     0 \<le> bd_cooldown_seconds d \<and> bd_cooldown_seconds d \<le> max 0 (SCRAPY_BACKOFF_COOLDOWN_MAX_SECONDS c)
     \<and> (if status = 429 then \<not> num_less (bd_wait_seconds d) (Num (exp_wait e p))
        else (\<exists>w. bd_wait_seconds d = Num w \<and> 0 \<le> w \<and> w \<le> be_max_seconds e))
     \<and> exp_wait e p \<le> exp_wait e p'"
proof -
  define e where "e = engine_from_settings c"
  have e: "0 \<le> be_base_seconds e" "0 \<le> be_cooldown_max_seconds e" "be_cooldown_max_seconds e = max 0 (SCRAPY_BACKOFF_COOLDOWN_MAX_SECONDS c)"
    "0 \<le> be_max_seconds e"
    by (auto simp: e_def engine_from_settings_def Let_def)
  then have w: "0 \<le> exp_wait e p" "exp_wait e p \<le> be_max_seconds e" by (auto simp: exp_wait_def)
  have "nat (max 0 p) \<le> nat (max 0 p')" using assms by simp
  then have "be_base_seconds e * 2 ^ nat (max 0 p) \<le> be_base_seconds e * 2 ^ nat (max 0 p')"
    by (intro mult_left_mono power_increasing) (use e in auto)
  then have mono: "exp_wait e p \<le> exp_wait e p'" by (auto simp: exp_wait_def min_def max_def)
  show ?thesis
  proof (cases "status = 429")
    case True
    then have "classify e status p h = classify_429 e (exp_wait e p) h" by (simp add: classify_def supports_status_def SUPPORTED_STATUSES_def Let_def)
    with True classify_429_bounds [OF w(1) e(2)] mono e(3) show ?thesis by (simp add: e_def [symmetric] Let_def)
  next
    case False
    with w e mono show ?thesis
      unfolding e_def [symmetric] Let_def classify_def by (auto simp: backoff_decided_def min_def max_def)
  qed
qed

section \<open>Instances\<close>

definition sample_mw :: mw_ctx where
  "sample_mw = \<lparr> mx_access = sample_access, mx_store = ''mediapark'', mx_playwright = True, mx_download_delay = 1,
     mx_clock = (\<lambda>n. of_nat n), mx_wall = (\<lambda>n. of_nat n), mx_uniform = (\<lambda>n low high. low), mx_upper_half = (\<lambda>n. True),
     mx_has_slot = (\<lambda>n key. True), mx_date_of = (\<lambda>s. None),
     mx_retry = (\<lambda>q. let n = or_zero (cm_retry_times (mq_meta q)) + 1 in
       if n \<le> 4 then Some (q\<lparr>mq_meta := (mq_meta q)\<lparr>cm_retry_times := Some n\<rparr>, mq_dont_filter := True\<rparr>) else None) \<rparr>"

definition blank_notes :: mw_notes where
  "blank_notes = \<lparr> mn_request_start = None, mn_download_slot = None, mn_dont_retry = False, mn_mobile_retry = False, mn_retry_reason = None,
     mn_download_timeout = None, mn_backoff_reason = None, mn_backoff_wait = None, mn_backoff_cooldown = None, mn_backoff_actions = None,
     mn_backoff_retry_blocked = False, mn_backoff_wait_applied = None, mn_backoff_cooldown_applied = None, mn_captcha_markers = None,
     mn_captcha_suspicious = None, mn_effective_delay = None, mn_jitter_delta = None \<rparr>"

definition sample_request :: mw_request where
  "sample_request = \<lparr> mq_url = ''https://mediapark.uz/p'', mq_headers = [],
     mq_meta = \<lparr> cm_gov = \<lparr> rm_access_mode_selected = Some ''plain'', rm_playwright = None, rm_page_goto_kwargs = False,
         rm_page_init_callback = False, rm_proxy = None, rm_bypass = False, rm_ticket = None \<rparr>,
       cm_store_name = None, cm_access_purpose = None, cm_category_url = None, cm_from_listing = None, cm_access_referer = None,
       cm_page = None, cm_empty_streak = None, cm_dup_sig_streak = None, cm_prior_failures = None, cm_force_browser = False,
       cm_force_proxy = False, cm_access_last_signal = None, cm_shell_strikes = None, cm_mw_retry = None, cm_retry_times = None \<rparr>,
     mq_notes = blank_notes, mq_dont_filter = False \<rparr>"

definition sample_response :: "int \<Rightarrow> string \<Rightarrow> response" where
  "sample_response status body = \<lparr> rs_url = ''https://mediapark.uz/p'', rs_status = status, rs_headers = [], rs_body = body \<rparr>"

lemma sample_retry: "scrapy_retry 4 sample_mw"
  by (simp add: scrapy_retry_def sample_mw_def Let_def)

text \<open>The request sent in place of a response.\<close>

definition sent_again :: "(exc + mw_outcome) \<times> mw_state \<Rightarrow> mw_request option" where
  "sent_again res = (case fst res of Inr (Resend q) \<Rightarrow> Some q | _ \<Rightarrow> None)"

lemma sent_againE:
  assumes "case sent_again res of Some q \<Rightarrow> P q | None \<Rightarrow> False"
  obtains q s where "res = (Inr (Resend q), s)" "P q"
  using assms by (cases res) (auto simp: sent_again_def split: option.splits sum.splits mw_outcome.splits)

lemma sample_sent: "case process_request sample_mw sample_request new_mw_state of (x, q, s) \<Rightarrow> x = None
    \<and> (case sent_again (process_response sample_mw (sample_response 503 []) q s) of Some q' \<Rightarrow> True | None \<Rightarrow> False)"
  by code_simp

theorem resends_bounded_witness:
  "\<exists>q'. resends sample_mw 1 sample_request q' \<and> (1::nat) \<le> nat (MAX_RETRY_TIMES - or_zero (cm_retry_times (mq_meta sample_request)))
     + nat (8 - or_zero (cm_mw_retry (mq_meta sample_request))) + (if mn_mobile_retry (mq_notes sample_request) then 0 else 1)"
proof -
  obtain q1 s1 where p: "process_request sample_mw sample_request new_mw_state = (None, q1, s1)"
      and c: "case sent_again (process_response sample_mw (sample_response 503 []) q1 s1) of Some q' \<Rightarrow> True | None \<Rightarrow> False"
    using sample_sent by (auto split: prod.splits)
  from c obtain q2 s2 where "process_response sample_mw (sample_response 503 []) q1 s1 = (Inr (Resend q2), s2)"
    by (rule sent_againE)
  from resends.again [OF p this resends.sent] have "resends sample_mw 1 sample_request q2" by simp
  with resends_bounded [OF sample_retry this] show ?thesis by blast
qed


theorem domain_delay_never_ends_witness:
  "\<exists>y. od_get ''mediapark.uz'' (ms_delays (snd (process_response sample_mw (sample_response 200 ''ok'') sample_request
     (new_mw_state\<lparr>ms_delays := [(''mediapark.uz'', 20)]\<rparr>)))) = Some y \<and> min 20 30 \<le> y"
  by (rule domain_delay_never_ends [OF prod.collapse [symmetric]]) (simp_all add: od_get_def)

theorem escalation_bypasses_budgets_witness:
  "\<exists>q'. fst (ratelimit_response sample_mw (sample_response 200 ''cloudflare'') sample_request new_mw_state) = Inr (Resend q')
     \<and> rm_playwright (cm_gov (mq_meta q')) = Some True \<and> rm_ticket (cm_gov (mq_meta q')) = rm_ticket (cm_gov (mq_meta sample_request))"
proof -
  have "case sent_again (ratelimit_response sample_mw (sample_response 200 ''cloudflare'') sample_request new_mw_state) of
      Some q' \<Rightarrow> cm_force_browser (mq_meta q') | None \<Rightarrow> False"
    by code_simp
  then obtain q s where r: "ratelimit_response sample_mw (sample_response 200 ''cloudflare'') sample_request new_mw_state = (Inr (Resend q), s)"
      and "cm_force_browser (mq_meta q)"
    by (rule sent_againE)
  from escalation_bypasses_budgets [OF this] r show ?thesis by simp
qed

theorem backoff_bounds_witness:
  "exp_wait (engine_from_settings sample_access_settings) 1 \<le> exp_wait (engine_from_settings sample_access_settings) 2"
  using backoff_bounds [of 1 2 sample_access_settings 503 no_hints] by (simp add: Let_def)

end
