(* ===== verification/Item_Pipeline.thy ===== *)
theory Item_Pipeline imports Publisher begin

text \<open>
  The item pipelines of a crawl, in the order of \<open>ITEM_PIPELINES\<close> in \<^verbatim>\<open>config/scrapy_settings.py\<close>:
  \<^verbatim>\<open>infrastructure/pipelines/validate_pipeline.py\<close>, then \<open>scraper_storage_pipeline.py\<close> over
  \<^verbatim>\<open>application/ingestion/persistence_service.py\<close> and the store.  An item is a JSON object.  SHA-256
  and the JSON encoder are parameters.  Stock texts in Cyrillic lie outside the code points
  represented here, so none of them is missing for a text that can be written here.
\<close>

type_synonym item = "(pystr, json) odict"

section \<open>From an item to a snapshot\<close>

record item_tools =
  it_sha256 :: "pystr \<Rightarrow> pystr"
  it_orjson :: "json \<Rightarrow> pystr"

definition FALSE_STOCK_VALUES :: "pystr list" where
  "FALSE_STOCK_VALUES = [''false'', ''0'', ''no'', ''n'', ''off'', ''out of stock'', ''out-of-stock'']"

definition TRUE_STOCK_VALUES :: "pystr list" where
  "TRUE_STOCK_VALUES = [''true'', ''1'', ''yes'', ''y'', ''on'', ''available'', ''in stock'', ''in-stock'']"

text \<open>A float is carried by its text.\<close>

definition normalize_stock_signal :: "json \<Rightarrow> bool option" where
  "normalize_stock_signal raw = (case raw of
       JBool b \<Rightarrow> Some b
     | JInt i \<Rightarrow> (if i = 0 then Some False else if i = 1 then Some True else None)
     | JFloat t \<Rightarrow> (if t = ''0.0'' \<or> t = ''-0.0'' then Some False else if t = ''1.0'' then Some True else None)
     | JStr s \<Rightarrow>
        (let text = lower (strip s) in
         if text \<in> set FALSE_STOCK_VALUES then Some False else if text \<in> set TRUE_STOCK_VALUES then Some True else None)
     | _ \<Rightarrow> None)"

definition coerce_snapshot_stock :: "json \<Rightarrow> bool option" where
  "coerce_snapshot_stock raw = (case normalize_stock_signal raw of
       Some b \<Rightarrow> Some b
     | None \<Rightarrow> if raw = JNull then None
         else (case raw of JStr s \<Rightarrow> if strip s = [] then None else Some True | _ \<Rightarrow> Some (json_truthy raw)))"

definition lower_or_null :: "pystr option \<Rightarrow> json" where
  "lower_or_null s = (let t = lower (or_empty s) in if t = [] then JNull else JStr t)"

definition scraped_blob ::
    "pystr \<Rightarrow> pystr \<Rightarrow> pystr option \<Rightarrow> pystr \<Rightarrow> pystr option \<Rightarrow> pystr option \<Rightarrow> bool option \<Rightarrow> json_row \<Rightarrow> pystr list
      \<Rightarrow> pystr option \<Rightarrow> pystr option \<Rightarrow> (pystr, pystr) odict \<Rightarrow> json" where
  "scraped_blob store canonical source_id title brand price_raw in_stock raw_specs image_urls description category_hint external_ids =
    (let again = (\<lambda>v. normalize_text (jopt v)) in
     JObj [(''store_name'', JStr (lower (or_empty (normalize_str store)))), (''source_url'', JStr canonical),
       (''source_id'', jopt (again source_id)), (''title'', JStr (lower (or_empty (normalize_str title)))),
       (''brand'', lower_or_null (again brand)), (''price_raw'', jopt (again price_raw)),
       (''in_stock'', case in_stock of None \<Rightarrow> JNull | Some b \<Rightarrow> JBool b), (''raw_specs'', JObj (normalize_json_dict [] raw_specs)),
       (''image_urls'', JArr (map JStr (sort image_urls))), (''description'', jopt (again description)),
       (''category_hint'', lower_or_null (again category_hint)),
       (''external_ids'', jtexts (sort_key fst (normalize_external_ids [] (map (\<lambda>(k, v). (k, JStr v)) external_ids))))])"

definition build_scraped_payload_hash ::
    "item_tools \<Rightarrow> pystr \<Rightarrow> pystr \<Rightarrow> pystr option \<Rightarrow> pystr \<Rightarrow> pystr option \<Rightarrow> pystr option \<Rightarrow> bool option \<Rightarrow> json_row \<Rightarrow> pystr list
      \<Rightarrow> pystr option \<Rightarrow> pystr option \<Rightarrow> (pystr, pystr) odict \<Rightarrow> exc + pystr" where
  "build_scraped_payload_hash t store source_url source_id title brand price_raw in_stock raw_specs image_urls description category_hint external_ids =
    (case canonicalize_source_url source_url of
       Inl x \<Rightarrow> Inl x
     | Inr canonical \<Rightarrow>
        (case normalize_image_urls image_urls of
           Inl x \<Rightarrow> Inl x
         | Inr urls \<Rightarrow> Inr (''sha256:'' @ it_sha256 t (it_orjson t (sort_keys
             (scraped_blob store canonical source_id title brand price_raw in_stock raw_specs urls description category_hint external_ids))))))"

text \<open>Entries of the wrong type count as empty.\<close>

definition dict_entry :: "pystr \<Rightarrow> item \<Rightarrow> json_row" where
  "dict_entry key item = (case row_get key item of JObj d \<Rightarrow> d | _ \<Rightarrow> [])"

definition list_entry :: "pystr \<Rightarrow> item \<Rightarrow> json list" where
  "list_entry key item = (case row_get key item of JArr xs \<Rightarrow> xs | _ \<Rightarrow> [])"

definition item_images :: "item \<Rightarrow> pystr list" where
  "item_images item = map py_str (filter (\<lambda>u. u \<noteq> JNull) (list_entry ''image_urls'' item))"

definition own_external_ids :: "item \<Rightarrow> pystr \<Rightarrow> pystr option \<Rightarrow> (pystr, pystr) odict" where
  "own_external_ids item store source_id =
    (let ids = normalize_external_ids [] (dict_entry ''external_ids'' item) in
     case source_id of None \<Rightarrow> ids
     | Some sid \<Rightarrow> if store \<noteq> [] \<and> od_get store ids = None then od_set store sid ids else ids)"

text \<open>
  \<open>ScrapedProductSnapshot.from_scrapy_item\<close>.  The model of pydantic strips every text; of those
  only the run id and the keys of the raw payload are not in normal form already.
\<close>

definition from_scrapy_item :: "item_tools \<Rightarrow> item \<Rightarrow> pystr \<Rightarrow> time \<Rightarrow> exc + snapshot" where
  "from_scrapy_item t item scrape_run_id scraped_at =
    (let text = (\<lambda>key. normalize_text (row_get key item));
         either = (\<lambda>a b. normalize_text (json_or (row_get a item) (row_get b item)));
         store = or_empty (text ''source''); url = or_empty (text ''url''); source_id = either ''source_id'' ''external_id'';
         title = or_empty (either ''title'' ''name''); brand = text ''brand''; price_raw = either ''price_raw'' ''price_str'';
         description = text ''description''; category_hint = either ''category_hint'' ''category'';
         raw_specs = normalize_json_dict [] (dict_entry ''raw_specs'' item);
         external_ids = own_external_ids item store source_id; in_stock = coerce_snapshot_stock (row_get ''in_stock'' item)
     in case normalize_image_urls (item_images item) of
          Inl x \<Rightarrow> Inl x
        | Inr image_urls \<Rightarrow>
           (case build_product_identity_key (it_sha256 t) store source_id url of
              Inl x \<Rightarrow> Inl x
            | Inr identity_key \<Rightarrow>
               (case build_scraped_payload_hash t store url source_id title brand price_raw in_stock raw_specs image_urls description
                    category_hint external_ids of
                  Inl x \<Rightarrow> Inl x
                | Inr payload_hash \<Rightarrow> Inr \<lparr>
                    sn_store_name = store, sn_source_url = url, sn_source_id = source_id, sn_title = title, sn_brand = brand,
                    sn_price_raw = price_raw, sn_in_stock = in_stock, sn_raw_specs = raw_specs, sn_image_urls = image_urls,
                    sn_description = description, sn_category_hint = category_hint, sn_external_ids = external_ids,
                    sn_scraped_at = scraped_at, sn_payload_hash = payload_hash,
                    sn_raw_payload = foldl (\<lambda>d (k, v). od_set (strip k) v d) [] (filter (\<lambda>(k, v). take 1 k \<noteq> ''_'') item),
                    sn_scrape_run_id = strip scrape_run_id, sn_identity_key = identity_key \<rparr>)))"

section \<open>Validation\<close>

definition drop_item :: "pystr \<Rightarrow> exc" where
  "drop_item reason = OtherError (''DropItem: '' @ reason)"

definition validate_item :: "pystr option \<Rightarrow> item \<Rightarrow> exc + item" where
  "validate_item spider_store item =
    (let url = row_get ''url'' item; store = json_or (row_get ''source'' item) (jopt spider_store) in
     if \<not> json_truthy (row_get ''title'' item) \<and> \<not> json_truthy (row_get ''name'' item) then Inl (drop_item ''Missing title'')
     else if \<not> json_truthy url then Inl (drop_item ''Missing URL'')
     else if \<not> json_truthy store then Inl (drop_item ''Missing source/store'')
     else if \<not> json_truthy (row_get ''source_id'' item) \<and> \<not> json_truthy url then Inl (drop_item ''Missing identifier'')
     else Inr (od_set ''image_urls'' (JArr (map (\<lambda>u. JStr (strip (py_str u))) (filter json_truthy (list_entry ''image_urls'' item))))
       (od_set ''raw_specs'' (JObj (dict_entry ''raw_specs'' item)) (od_set ''source'' store item))))"

section \<open>Storage\<close>

record storage_settings =
  SCRAPER_DB_BACKEND :: "pystr option"
  SCRAPER_DB_DSN :: "pystr option"
  SCRAPER_OUTBOX_EVENT_TYPE :: pystr
  RABBITMQ_EXCHANGE :: pystr
  RABBITMQ_ROUTING_KEY :: pystr
  STORE_SETTINGS :: store_settings

record storage_env =
  se_tools :: item_tools
  se_uuid5 :: "pystr \<Rightarrow> pystr"
  se_dumps :: "json \<Rightarrow> pystr"

record spider_facts =
  sv_name :: pystr
  sv_store_name :: "pystr option"
  sv_scrape_run_id :: "pystr option"
  sv_parser_run_id :: "pystr option"
  sv_start_urls :: "pystr list"

text \<open>\<open>ScraperStoragePipeline\<close>; no store before \<open>open_spider\<close> and after \<open>close_spider\<close>.\<close>

record storage_pipeline =
  sg_store :: "backend option"
  sg_run_id :: "pystr option"
  sg_persisted :: nat
  sg_with_specs :: nat
  sg_without_specs :: nat
  sg_with_images :: nat
  sg_without_images :: nat

definition new_storage_pipeline :: storage_pipeline where
  "new_storage_pipeline = \<lparr> sg_store = None, sg_run_id = None, sg_persisted = 0, sg_with_specs = 0, sg_without_specs = 0,
     sg_with_images = 0, sg_without_images = 0 \<rparr>"

text \<open>The run id is the spider's; \<open>fresh_id\<close> is the answer of \<open>build_run_id\<close>.\<close>

definition storage_open ::
    "storage_settings \<Rightarrow> spider_facts \<Rightarrow> pystr \<Rightarrow> time \<Rightarrow> storage_pipeline \<Rightarrow> db \<Rightarrow> exc + (spider_facts \<times> storage_pipeline \<times> db)" where
  "storage_open k sp fresh_id now s d =
    (case build_scraper_store (SCRAPER_DB_DSN k) (resolve_scraper_db_backend (SCRAPER_DB_BACKEND k) (SCRAPER_DB_DSN k)) (SCRAPER_DB_DSN k) of
       Inl x \<Rightarrow> Inl x
     | Inr b \<Rightarrow>
        (let run = (case py_or (sv_scrape_run_id sp) (sv_parser_run_id sp) of None \<Rightarrow> fresh_id | Some r \<Rightarrow> if r = [] then fresh_id else r)
         in Inr (sp\<lparr>sv_scrape_run_id := Some run, sv_parser_run_id := Some run\<rparr>,
              new_storage_pipeline\<lparr>sg_store := Some b, sg_run_id := Some run\<rparr>,
              register_scrape_run now run (case sv_store_name sp of None \<Rightarrow> sv_name sp | Some n \<Rightarrow> n) (sv_name sp) (sv_start_urls sp) d)))"

definition persist_item ::
    "storage_settings \<Rightarrow> storage_env \<Rightarrow> backend \<Rightarrow> time \<Rightarrow> time \<Rightarrow> item \<Rightarrow> pystr \<Rightarrow> db \<Rightarrow> exc + (persisted \<times> db)" where
  "persist_item k e b scraped_at now item run d =
    (case from_scrapy_item (se_tools e) item run scraped_at of
       Inl x \<Rightarrow> Inl x
     | Inr snap \<Rightarrow> store_persist b (STORE_SETTINGS k) (se_uuid5 e) (se_dumps e) now (SCRAPER_OUTBOX_EVENT_TYPE k) (RABBITMQ_EXCHANGE k)
         (RABBITMQ_ROUTING_KEY k) snap d)"

definition stored_item :: "pystr \<Rightarrow> persisted \<Rightarrow> item \<Rightarrow> item" where
  "stored_item run p item = od_set ''_publication_state'' (JStr ''pending'') (od_set ''_raw_product_id'' (JInt (ps_raw_product_id p))
     (od_set ''_outbox_event_id'' (JStr (ps_event_id p)) (od_set ''_payload_hash'' (JStr (ps_payload_hash p)) (od_set ''_scrape_run_id'' (JStr run) item))))"

definition count_item :: "item \<Rightarrow> storage_pipeline \<Rightarrow> storage_pipeline" where
  "count_item item s =
    (let s1 = s\<lparr>sg_persisted := Suc (sg_persisted s)\<rparr>;
         s2 = (if json_truthy (row_get ''raw_specs'' item) then s1\<lparr>sg_with_specs := Suc (sg_with_specs s1)\<rparr>
               else s1\<lparr>sg_without_specs := Suc (sg_without_specs s1)\<rparr>)
     in if json_truthy (row_get ''image_urls'' item) then s2\<lparr>sg_with_images := Suc (sg_with_images s2)\<rparr>
        else s2\<lparr>sg_without_images := Suc (sg_without_images s2)\<rparr>)"

definition storage_process_item ::
    "storage_settings \<Rightarrow> storage_env \<Rightarrow> time \<Rightarrow> time \<Rightarrow> item \<Rightarrow> storage_pipeline \<Rightarrow> db \<Rightarrow> (exc + item) \<times> storage_pipeline \<times> db" where
  "storage_process_item k e scraped_at now item s d =
    (case (sg_store s, sg_run_id s) of
       (Some b, Some run) \<Rightarrow>
         (case persist_item k e b scraped_at now item run d of
            Inl x \<Rightarrow> (Inl x, s, d)
          | Inr (p, d') \<Rightarrow> (Inr (stored_item run p item), count_item item s, d'))
     | _ \<Rightarrow> (Inl (RuntimeError ''ScraperStoragePipeline: store not initialized''), s, d))"

text \<open>Both pipelines; an exception of either ends the way of the item and of nothing else.\<close>

definition process_scraped ::
    "storage_settings \<Rightarrow> storage_env \<Rightarrow> pystr option \<Rightarrow> time \<times> time \<times> item \<Rightarrow> storage_pipeline \<Rightarrow> db \<Rightarrow> (exc + item) \<times> storage_pipeline \<times> db" where
  "process_scraped k e spider_store arrival s d =
    (case arrival of (scraped_at, now, item) \<Rightarrow>
      (case validate_item spider_store item of
         Inl x \<Rightarrow> (Inl x, s, d)
       | Inr valid \<Rightarrow> storage_process_item k e scraped_at now valid s d))"

fun process_all ::
    "storage_settings \<Rightarrow> storage_env \<Rightarrow> pystr option \<Rightarrow> (time \<times> time \<times> item) list \<Rightarrow> storage_pipeline \<Rightarrow> db
      \<Rightarrow> (exc + item) list \<times> storage_pipeline \<times> db" where
  "process_all k e spider_store [] s d = ([], s, d)"
| "process_all k e spider_store (a # rest) s d =
    (case process_scraped k e spider_store a s d of
       (r, s1, d1) \<Rightarrow> (case process_all k e spider_store rest s1 d1 of (rs, s2, d2) \<Rightarrow> (r # rs, s2, d2)))"

text \<open>
  The statistics are the counters among them; \<open>finish_reason\<close> is kept apart, and the two coverage
  ratios are the quotients of the counters written beside them.
\<close>

type_synonym stats = "(pystr, int) odict"

definition merged_stats :: "stats \<Rightarrow> stats \<Rightarrow> stats" where
  "merged_stats collector registry = foldl (\<lambda>m (k, v). od_set k v m) collector registry"

definition failed_items :: "stats \<Rightarrow> int" where
  "failed_items m = stat_or m ''items_failed'' (stat_or m ''product_parse_failed_total'' (stat_or m ''item_dropped_count'' 0))"

definition closing_stats :: "storage_pipeline \<Rightarrow> stats \<Rightarrow> stats" where
  "closing_stats s m =
    (let failed = failed_items m;
         scraped = stat_or m ''items_scraped'' (stat_or m ''product_items_yielded_total'' (stat_or m ''item_scraped_count'' (int (sg_persisted s))));
         m1 = (if sg_persisted s > 0
           then od_set ''products_without_images_total'' (int (sg_without_images s)) (od_set ''products_with_images_total'' (int (sg_with_images s))
             (od_set ''products_without_specs_total'' (int (sg_without_specs s)) (od_set ''products_with_specs_total'' (int (sg_with_specs s)) m)))
           else m)
     in od_set ''items_failed'' failed (od_set ''items_persisted'' (int (sg_persisted s)) (od_set ''items_scraped'' scraped m1)))"

definition closing_status :: "pystr option \<Rightarrow> stats \<Rightarrow> pystr" where
  "closing_status finish_reason m =
    (let reason = (case finish_reason of None \<Rightarrow> ''finished'' | Some r \<Rightarrow> if r = [] then ''finished'' else r) in
     if reason \<noteq> ''finished'' then ''failed'' else if stat_or m ''items_failed'' 0 > 0 then ''partial_failure'' else ''completed'')"

definition storage_close ::
    "time \<Rightarrow> stats \<Rightarrow> stats \<Rightarrow> pystr option \<Rightarrow> storage_pipeline \<Rightarrow> db \<Rightarrow> storage_pipeline \<times> db" where
  "storage_close now collector registry finish_reason s d =
    (case (sg_store s, sg_run_id s) of
       (Some b, Some run) \<Rightarrow>
         (let m = closing_stats s (merged_stats collector registry) in
          (s\<lparr>sg_store := None\<rparr>, finish_scrape_run now run (closing_status finish_reason m) m d))
     | _ \<Rightarrow> (s, d))"

section \<open>A whole crawl\<close>

definition scrape_run ::
    "storage_settings \<Rightarrow> storage_env \<Rightarrow> spider_facts \<Rightarrow> pystr \<Rightarrow> time \<Rightarrow> (time \<times> time \<times> item) list \<Rightarrow> time \<Rightarrow> stats \<Rightarrow> stats \<Rightarrow> pystr option
      \<Rightarrow> db \<Rightarrow> exc + (pystr \<times> (exc + item) list \<times> db)" where
  "scrape_run k e sp fresh_id started arrivals ended collector registry finish_reason d =
    (case storage_open k sp fresh_id started new_storage_pipeline d of
       Inl x \<Rightarrow> Inl x
     | Inr (sp1, s1, d1) \<Rightarrow>
        (case process_all k e (sv_store_name sp1) arrivals s1 d1 of
           (rs, s2, d2) \<Rightarrow> Inr (or_empty (sv_scrape_run_id sp1), rs, snd (storage_close ended collector registry finish_reason s2 d2))))"

section \<open>What reaches the publisher\<close>

lemma normalized_text: "strip (or_empty (normalize_text v)) \<noteq> [] \<longleftrightarrow> normalize_text v \<noteq> None"
proof (cases "normalize_text v")
  case (Some t)
  then have "t \<noteq> [] \<and> strip t = t" using normalize_str_nonempty by (auto simp: normalize_text_def split: if_splits)
  with Some show ?thesis by (simp add: or_empty_def)
qed (simp add: or_empty_def)

lemma strip_nonblank:
  assumes "c \<in> set s" and "\<not> is_py_space c"
  shows "strip s \<noteq> []"
proof
  assume "strip s = []"
  then have blank: "\<forall>x\<in>set (dropWhile is_py_space s). is_py_space x" by (simp add: strip_def dropWhile_eq_Nil_conv)
  have "dropWhile is_py_space s = []" using blank hd_dropWhile [of is_py_space s] by (metis list.set_sel(1))
  with assms show False by (simp add: dropWhile_eq_Nil_conv)
qed

lemma from_scrapy_item_fields:
  assumes "from_scrapy_item t item run w = Inr snap"
  shows "sn_store_name snap = or_empty (normalize_text (row_get ''source'' item))"
    and "sn_source_url snap = or_empty (normalize_text (row_get ''url'' item))"
    and "sn_title snap = or_empty (normalize_text (json_or (row_get ''title'' item) (row_get ''name'' item)))"
    and "sn_in_stock snap = coerce_snapshot_stock (row_get ''in_stock'' item)"
    and "sn_scrape_run_id snap = strip run" and "clean_image_urls (sn_image_urls snap)"
    and "CHR '':'' \<in> set (sn_identity_key snap)" and "CHR '':'' \<in> set (sn_payload_hash snap)"
  using assms normalize_image_urls_clean
  by (auto simp: from_scrapy_item_def Let_def build_product_identity_key_def build_scraped_payload_hash_def split: sum.splits option.splits)


text \<open>What an item must have so that its message meets the publish contract.\<close>

definition deliverable_item :: "pystr option \<Rightarrow> item \<Rightarrow> bool" where
  "deliverable_item spider_store item \<longleftrightarrow>
     normalize_text (json_or (row_get ''source'' item) (jopt spider_store)) \<noteq> None
     \<and> normalize_text (json_or (row_get ''title'' item) (row_get ''name'' item)) \<noteq> None
     \<and> is_valid_http_url (normalize_text (row_get ''url'' item)) = Inr True
     \<and> (case row_get ''in_stock'' item of JNull \<Rightarrow> False | JStr s \<Rightarrow> strip s \<noteq> [] | _ \<Rightarrow> True)"

lemma stock_known: "coerce_snapshot_stock raw \<noteq> None \<longleftrightarrow> (case raw of JNull \<Rightarrow> False | JStr s \<Rightarrow> strip s \<noteq> [] | _ \<Rightarrow> True)"
proof (cases raw)
  case (JStr s)
  have "lower [] \<notin> set FALSE_STOCK_VALUES" "lower [] \<notin> set TRUE_STOCK_VALUES" by code_simp+
  with JStr show ?thesis by (auto simp: coerce_snapshot_stock_def normalize_stock_signal_def Let_def)
qed (auto simp: coerce_snapshot_stock_def normalize_stock_signal_def)

text \<open>The settings under which a sound snapshot can be published.\<close>

definition publisher_ready :: "storage_settings \<Rightarrow> publisher_config \<Rightarrow> bool" where
  "publisher_ready k c \<longleftrightarrow> SCRAPER_OUTBOX_EVENT_TYPE k = SCRAPER_PRODUCT_EVENT_TYPE
     \<and> MESSAGE_SCHEMA_VERSION (STORE_SETTINGS k) = SCRAPER_PRODUCT_SCHEMA_VERSION
     \<and> strip (pc_exchange_name c) \<noteq> [] \<and> strip (pc_queue_name c) \<noteq> [] \<and> strip (pc_routing_key c) \<noteq> []
     \<and> strip (pc_publisher_service_name c) \<noteq> []"

lemma validated_entries:
  assumes "validate_item spider_store item = Inr valid"
  shows "row_get ''source'' valid = json_or (row_get ''source'' item) (jopt spider_store)"
    and "row_get ''title'' valid = row_get ''title'' item" and "row_get ''name'' valid = row_get ''name'' item"
    and "row_get ''url'' valid = row_get ''url'' item" and "row_get ''in_stock'' valid = row_get ''in_stock'' item"
  using assms by (auto simp: validate_item_def Let_def split: if_splits)

lemma snapshot_deliverable:
  assumes valid: "validate_item spider_store item = Inr valid" and snap: "from_scrapy_item t valid run w = Inr snap"
    and ready: "publisher_ready k c" and run: "strip run \<noteq> []" and id: "\<forall>x. strip (uuid5 x) \<noteq> []"
  shows "assert_rabbit_publish_contract (build_delivery_event c
      \<lparr> cl_event_id = eid, cl_exchange_name = x, cl_routing_key = y, cl_attempt_count = int n,
        cl_payload = snapshot_event (STORE_SETTINGS k) uuid5 now (SCRAPER_OUTBOX_EVENT_TYPE k) ex rk snap \<rparr> published_at) = Inr ()
    \<longleftrightarrow> deliverable_item spider_store item"
proof -
  note f = from_scrapy_item_fields [OF snap]
  note v = validated_entries [OF valid]
  have url: "is_valid_http_url (Some (or_empty u)) = is_valid_http_url u" for u
    by (cases u) (simp_all add: or_empty_def is_valid_http_url_def)
  have "CHR '':'' \<in> set s \<Longrightarrow> strip s \<noteq> []" for s by (rule strip_nonblank) (assumption, code_simp)
  then have blank: "strip (sn_identity_key snap) \<noteq> []" "strip (sn_payload_hash snap) \<noteq> []" using f(7,8) by blast+
  have images: "length (sn_image_urls snap) \<le> 100" "list_all (\<lambda>u. is_valid_http_url (Some u) = Inr True) (sn_image_urls snap)"
    using f(6) by (auto simp: clean_image_urls_def MAX_IMAGE_URLS_def list_all_iff)
  show ?thesis
    unfolding delivery_contract deliverable_item_def stock_known [symmetric] f(1,2,3,4) v url normalized_text
    using ready run id blank images f(5) by (simp add: publisher_ready_def outbox_event_id_def conj_ac)
qed


section \<open>What a run leaves in the store\<close>

text \<open>No product of another run has an event id of this run.\<close>

definition run_apart :: "(pystr \<Rightarrow> pystr) \<Rightarrow> pystr \<Rightarrow> db \<Rightarrow> bool" where
  "run_apart uuid5 run d \<longleftrightarrow> (\<forall>p\<in>set (t_products d). pr_scrape_run_id p = run
     \<or> (\<forall>ident. outbox_event_id uuid5 (pr_scrape_run_id p) (pr_identity_key p) \<noteq> outbox_event_id uuid5 run ident))"

lemma apart_unambiguous:
  assumes "inj uuid5" and "run_apart uuid5 run d"
  shows "event_id_unambiguous uuid5 run ident d"
  using assms unfolding event_id_unambiguous_def run_apart_def
  by (auto simp: outbox_event_id_def product_key_def dest!: injD)

definition store_sound :: "(pystr \<Rightarrow> pystr) \<Rightarrow> pystr \<Rightarrow> db \<Rightarrow> bool" where
  "store_sound uuid5 run d \<longleftrightarrow> db_wf uuid5 d \<and> states_mirror d \<and> run_apart uuid5 run d"

text \<open>A message that waits for the publisher with its whole budget.\<close>

definition message_waiting :: "db \<Rightarrow> pystr \<Rightarrow> bool" where
  "message_waiting d e \<longleftrightarrow> (\<exists>r. get_outbox_row e d = Some r \<and> ob_status r = Pending \<and> ob_retry_count r = 0)"

definition event_of :: "item \<Rightarrow> pystr" where
  "event_of it = (case row_get ''_outbox_event_id'' it of JStr e \<Rightarrow> e | _ \<Rightarrow> [])"

lemma store_persist_frame:
  assumes "store_persist b s uuid5 dumps now et ex rk snap d = Inr (res, d')"
  shows "t_runs d' = t_runs d"
    and "q \<in> set (t_products d') \<Longrightarrow> product_key q = (sn_scrape_run_id snap, sn_identity_key snap)
      \<or> product_key q \<in> product_key ` set (t_products d)"
  using assms sqlite_writer.persist_frame pg_writer.persist_frame
  by (cases b; simp add: store_persist_def sqlite_persist_snapshot_def pg_persist_snapshot_def)+

lemma store_persist_others:
  assumes "store_persist b s uuid5 dumps now et ex rk snap d = Inr (res, d')" and "db_wf uuid5 d" and "e \<noteq> ps_event_id res"
  shows "get_outbox_row e d' = get_outbox_row e d"
  using assms sqlite_writer.persist_others pg_writer.persist_others
  by (cases b) (simp_all add: store_persist_def sqlite_persist_snapshot_def pg_persist_snapshot_def)

lemma run_apart_persist:
  assumes "store_persist b s uuid5 dumps now et ex rk snap d = Inr (res, d')" and "sn_scrape_run_id snap = run" and "run_apart uuid5 run d"
  shows "run_apart uuid5 run d'"
  unfolding run_apart_def
proof
  fix q assume "q \<in> set (t_products d')"
  from store_persist_frame(2) [OF assms(1) this]
  show "pr_scrape_run_id q = run
      \<or> (\<forall>ident. outbox_event_id uuid5 (pr_scrape_run_id q) (pr_identity_key q) \<noteq> outbox_event_id uuid5 run ident)"
    using assms(2,3) by (auto simp: product_key_def run_apart_def)
qed

lemma persist_item_sound:
  assumes "persist_item k e b w now item run d = Inr (res, d')" and "strip run = run" and "inj (se_uuid5 e)"
    and "store_sound (se_uuid5 e) run d"
  shows "store_sound (se_uuid5 e) run d' \<and> t_runs d' = t_runs d \<and> message_waiting d' (ps_event_id res)
    \<and> (\<forall>e'. e' \<noteq> ps_event_id res \<longrightarrow> get_outbox_row e' d' = get_outbox_row e' d)"
proof -
  from assms(1) obtain snap where snap: "from_scrapy_item (se_tools e) item run w = Inr snap"
    and p: "store_persist b (STORE_SETTINGS k) (se_uuid5 e) (se_dumps e) now (SCRAPER_OUTBOX_EVENT_TYPE k) (RABBITMQ_EXCHANGE k)
         (RABBITMQ_ROUTING_KEY k) snap d = Inr (res, d')"
    by (auto simp: persist_item_def split: sum.splits)
  have run: "sn_scrape_run_id snap = run" using from_scrapy_item_fields(5) [OF snap] assms(2) by simp
  have d: "db_wf (se_uuid5 e) d" "states_mirror d" "run_apart (se_uuid5 e) run d" using assms(4) by (simp_all add: store_sound_def)
  have un: "event_id_unambiguous (se_uuid5 e) (sn_scrape_run_id snap) (sn_identity_key snap) d"
    unfolding run by (rule apart_unambiguous [OF assms(3) d(3)])
  have "message_waiting d' (ps_event_id res)" using store_persist_lookup [OF p] by (auto simp: message_waiting_def)
  with store_persist_wf [OF p d(1) un] store_persist_mirror [OF p d(1) un d(2)] run_apart_persist [OF p run d(3)]
    store_persist_frame(1) [OF p] store_persist_others [OF p d(1)]
  show ?thesis by (simp add: store_sound_def)
qed

text \<open>What one item and what a list of items does to pipeline and store.\<close>

definition ready_for :: "backend \<Rightarrow> pystr \<Rightarrow> storage_pipeline \<Rightarrow> bool" where
  "ready_for b run s \<longleftrightarrow> sg_store s = Some b \<and> sg_run_id s = Some run"

definition stored :: "(exc + item) list \<Rightarrow> item list" where
  "stored rs = concat (map (case_sum (\<lambda>x. []) (\<lambda>it. [it])) rs)"

lemma stored_simps [simp]: "stored [] = []" "stored (Inl x # rs) = stored rs" "stored (Inr it # rs) = it # stored rs"
  by (simp_all add: stored_def)

lemma count_item_simps [simp]:
  "sg_store (count_item item s) = sg_store s" "sg_run_id (count_item item s) = sg_run_id s" "sg_persisted (count_item item s) = Suc (sg_persisted s)"
  by (simp_all add: count_item_def Let_def)

lemma event_of_stored [simp]: "event_of (stored_item run p item) = ps_event_id p"
  by (simp add: event_of_def stored_item_def)

lemma process_scraped_sound:
  assumes "process_scraped k e st a s d = (r, s', d')" and "ready_for b run s" and "strip run = run" and "inj (se_uuid5 e)"
    and "store_sound (se_uuid5 e) run d"
  shows "store_sound (se_uuid5 e) run d' \<and> ready_for b run s' \<and> t_runs d' = t_runs d
    \<and> sg_persisted s' = sg_persisted s + length (stored [r]) \<and> (\<forall>it\<in>set (stored [r]). message_waiting d' (event_of it))
    \<and> (\<forall>e'. e' \<notin> event_of ` set (stored [r]) \<longrightarrow> get_outbox_row e' d' = get_outbox_row e' d)"
proof -
  obtain w now item where a: "a = (w, now, item)" by (cases a)
  show ?thesis
  proof (cases "validate_item st item")
    case (Inl x)
    then have "r = Inl x \<and> s' = s \<and> d' = d" using assms(1) by (simp add: process_scraped_def a)
    with assms(2,5) show ?thesis by simp
  next
    case (Inr valid)
    show ?thesis
    proof (cases "persist_item k e b w now valid run d")
      case (Inl x)
      with Inr assms show ?thesis by (auto simp: process_scraped_def a storage_process_item_def ready_for_def)
    next
      case ok: (Inr res)
      obtain p d1 where res: "res = (p, d1)" by (cases res)
      from persist_item_sound [OF ok [unfolded res] assms(3-5)] ok Inr assms(1,2) show ?thesis
        by (auto simp: process_scraped_def a storage_process_item_def ready_for_def res)
    qed
  qed
qed

lemma process_all_sound:
  assumes "process_all k e st arrivals s d = (rs, s', d')" and "ready_for b run s" and "strip run = run" and "inj (se_uuid5 e)"
    and "store_sound (se_uuid5 e) run d"
  shows "store_sound (se_uuid5 e) run d' \<and> ready_for b run s' \<and> t_runs d' = t_runs d \<and> length rs = length arrivals
    \<and> sg_persisted s' = sg_persisted s + length (stored rs) \<and> (\<forall>it\<in>set (stored rs). message_waiting d' (event_of it))
    \<and> (\<forall>e'. e' \<notin> event_of ` set (stored rs) \<longrightarrow> get_outbox_row e' d' = get_outbox_row e' d)"
  using assms(1,2,5)
proof (induction arrivals arbitrary: s d rs)
  case Nil
  then show ?case by simp
next
  case (Cons a arrivals)
  obtain r s1 d1 where 1: "process_scraped k e st a s d = (r, s1, d1)" by (metis prod_cases3)
  obtain rs' where 2: "process_all k e st arrivals s1 d1 = (rs', s', d')" and rs: "rs = r # rs'"
    using Cons.prems(1) 1 by (auto split: prod.splits)
  note one = process_scraped_sound [OF 1 Cons.prems(2) assms(3,4) Cons.prems(3)]
  have "ready_for b run s1" "store_sound (se_uuid5 e) run d1" using one by blast+
  note rest = Cons.IH [OF 2 this]
  have split: "set (stored rs) = set (stored [r]) \<union> set (stored rs')" "length (stored rs) = length (stored [r]) + length (stored rs')"
    by (simp_all add: rs stored_def)
  have "message_waiting d' (event_of it)" if "it \<in> set (stored rs)" for it
  proof (cases "event_of it \<in> event_of ` set (stored rs')")
    case True
    with rest show ?thesis by force
  next
    case False
    then have "it \<in> set (stored [r])" using that split(1) by blast
    with one have "message_waiting d1 (event_of it)" by blast
    with False rest show ?thesis by (simp add: message_waiting_def)
  qed
  with one rest split rs show ?case by (simp add: image_Un)
qed


lemma finish_frame:
  "db_wf uuid5 (finish_scrape_run now run status m d) = db_wf uuid5 d" "states_mirror (finish_scrape_run now run status m d) = states_mirror d"
  "get_outbox_row e (finish_scrape_run now run status m d) = get_outbox_row e d"
  by (simp_all add: finish_scrape_run_def db_wf_def products_wf_def outbox_wf_def outbox_linked_def states_mirror_def get_outbox_row_def)

lemma register_frame:
  "db_wf uuid5 (register_scrape_run now run st spider urls d) = db_wf uuid5 d"
  "states_mirror (register_scrape_run now run st spider urls d) = states_mirror d"
  "run_apart uuid5 run' (register_scrape_run now run st spider urls d) = run_apart uuid5 run' d"
  "get_outbox_row e (register_scrape_run now run st spider urls d) = get_outbox_row e d"
  by (simp_all add: register_scrape_run_def db_wf_def products_wf_def outbox_wf_def outbox_linked_def states_mirror_def
      run_apart_def get_outbox_row_def)

lemma register_found: "\<exists>r. List.find (\<lambda>r. rr_run_id r = run) (t_runs (register_scrape_run now run st spider urls d)) = Some r"
proof -
  have "map rr_run_id (t_runs (register_scrape_run now run st spider urls d))
      = (if run \<in> rr_run_id ` set (t_runs d) then map rr_run_id (t_runs d) else map rr_run_id (t_runs d) @ [run])"
    by (auto simp: register_scrape_run_def list_ex_iff map_update_rows)
  then have "run \<in> set (map rr_run_id (t_runs (register_scrape_run now run st spider urls d)))" by (simp add: if_split_mem2 del: set_map) auto
  then have "List.find (\<lambda>r. rr_run_id r = run) (t_runs (register_scrape_run now run st spider urls d)) \<noteq> None"
    by (auto simp: find_None_iff)
  then show ?thesis by blast
qed

lemma closing_stats_persisted: "stat_or (closing_stats s m) ''items_persisted'' 0 = int (sg_persisted s)"
  by (simp add: closing_stats_def stat_or_def od_get_set Let_def)

lemma closing_stats_failed: "stat_or (closing_stats s m) ''items_failed'' 0 = failed_items m"
  by (simp add: closing_stats_def stat_or_def od_get_set Let_def)



text \<open>C11. From the spider to the publish contract.  An item that both pipelines let through leaves a message that
  waits for the publisher; its delivery event meets the publish contract exactly when the raw
  item had a source, a title, an HTTP URL and a stock state that are not blank.  So an item without a
  stock state passes validation, is stored and enqueued, and can never be delivered.\<close>

theorem stored_item_deliverable_iff:
  assumes "process_scraped k e spider_store (w, now, item) s d = (Inr it, s', d')" and "ready_for b run s"
    and "publisher_ready k c" and "strip run \<noteq> []" and "\<forall>x. strip (se_uuid5 e x) \<noteq> []"
  shows "\<exists>r. get_outbox_row (event_of it) d' = Some r \<and> ob_status r = Pending
    \<and> (assert_rabbit_publish_contract (build_delivery_event c (claimed_of r) published_at) = Inr ()
        \<longleftrightarrow> deliverable_item spider_store item)"
proof -
  from assms(1,2) obtain valid p where valid: "validate_item spider_store item = Inr valid"
    and p: "persist_item k e b w now valid run d = Inr (p, d')" and it: "it = stored_item run p valid"
    by (auto simp: process_scraped_def storage_process_item_def ready_for_def split: sum.splits)
  from p obtain snap where snap: "from_scrapy_item (se_tools e) valid run w = Inr snap"
    and st: "store_persist b (STORE_SETTINGS k) (se_uuid5 e) (se_dumps e) now (SCRAPER_OUTBOX_EVENT_TYPE k) (RABBITMQ_EXCHANGE k)
         (RABBITMQ_ROUTING_KEY k) snap d = Inr (p, d')"
    by (auto simp: persist_item_def split: sum.splits)
  from store_persist_lookup [OF st] obtain r where r: "get_outbox_row (event_of it) d' = Some r" "ob_status r = Pending"
    "ob_payload r = snapshot_event (STORE_SETTINGS k) (se_uuid5 e) now (SCRAPER_OUTBOX_EVENT_TYPE k) (RABBITMQ_EXCHANGE k) (RABBITMQ_ROUTING_KEY k) snap"
    "ob_retry_count r = 0"
    by (auto simp: it)
  have cl: "claimed_of r = \<lparr> cl_event_id = ob_event_id r, cl_exchange_name = ob_exchange_name r, cl_routing_key = ob_routing_key r,
      cl_attempt_count = int 0, cl_payload = ob_payload r \<rparr>"
    by (simp add: claimed_of_def r(4))
  have "assert_rabbit_publish_contract (build_delivery_event c (claimed_of r) published_at) = Inr () \<longleftrightarrow> deliverable_item spider_store item"
    unfolding cl r(3) by (rule snapshot_deliverable [OF valid snap assms(3-5)])
  with r show ?thesis by blast
qed

section \<open>A sample crawl\<close>

definition sample_storage :: storage_settings where
  "sample_storage = \<lparr> SCRAPER_DB_BACKEND = Some ''sqlite'', SCRAPER_DB_DSN = None, SCRAPER_OUTBOX_EVENT_TYPE = SCRAPER_PRODUCT_EVENT_TYPE,
     RABBITMQ_EXCHANGE = ''ex'', RABBITMQ_ROUTING_KEY = ''rk'', STORE_SETTINGS = sample_settings \<rparr>"

definition sample_env :: storage_env where
  "sample_env = \<lparr> se_tools = \<lparr> it_sha256 = (\<lambda>s. ''h''), it_orjson = (\<lambda>j. ''{}'') \<rparr>, se_uuid5 = (\<lambda>s. s @ ''x''), se_dumps = sample_dumps \<rparr>"

definition sample_scraped :: item where
  "sample_scraped = [(''title'', JStr ''Phone''), (''url'', JStr ''https://shop.uz/p/1''), (''source'', JStr ''shop''), (''source_id'', JInt 7)]"

definition sample_spider :: spider_facts where
  "sample_spider = \<lparr> sv_name = ''spider'', sv_store_name = Some ''shop'', sv_scrape_run_id = Some ''run'', sv_parser_run_id = None, sv_start_urls = [] \<rparr>"

definition sample_open :: storage_pipeline where
  "sample_open = new_storage_pipeline\<lparr>sg_store := Some Sqlite, sg_run_id := Some ''run''\<rparr>"

text \<open>The sample item says nothing of its stock.\<close>

definition sample_processed :: "(exc + item) \<times> storage_pipeline \<times> db" where
  "sample_processed = process_scraped sample_storage sample_env (Some ''shop'') (5, 10, sample_scraped) sample_open sample_registered"

lemma sample_processed_stored: "\<not> isl (fst sample_processed)"
  by code_simp

lemma stored_item_deliverable_iff_witness:
  "\<exists>r. ob_status r = Pending \<and> assert_rabbit_publish_contract (build_delivery_event sample_config (claimed_of r) 20) \<noteq> Inr ()"
proof -
  obtain it s' d' where p: "process_scraped sample_storage sample_env (Some ''shop'') (5, 10, sample_scraped) sample_open sample_registered = (Inr it, s', d')"
    using sample_processed_stored by (cases sample_processed; cases "fst sample_processed") (auto simp: sample_processed_def)
  have ready: "ready_for Sqlite ''run'' sample_open" by (simp add: ready_for_def sample_open_def)
  have pub: "publisher_ready sample_storage sample_config"
    by (simp add: publisher_ready_def sample_storage_def sample_settings_def sample_config_def SCRAPER_PRODUCT_SCHEMA_VERSION_def) code_simp
  have id: "\<forall>x. strip (se_uuid5 sample_env x) \<noteq> []"
    using strip_nonblank [of "CHR ''x''"] by (simp add: sample_env_def is_py_space_def)
  have "\<not> deliverable_item (Some ''shop'') sample_scraped" "strip ''run'' \<noteq> []" by code_simp+
  with stored_item_deliverable_iff [OF p ready pub _ id] show ?thesis by blast
qed

definition sample_run :: "exc + (pystr \<times> (exc + item) list \<times> db)" where
  "sample_run = scrape_run sample_storage sample_env sample_spider [] 1 [(5, 10, sample_scraped), (6, 11, [])] 20 [] [] None empty_db"

lemma sample_run_facts:
  "\<not> isl sample_run" "fst (projr sample_run) = ''run''" "length (stored (fst (snd (projr sample_run)))) = 1"
  by code_simp+


end
