(* ===== verification/Spec_Resolution.thy ===== *)
theory Spec_Resolution imports Py_Number begin

text \<open>
  \<^verbatim>\<open>application/extractors/spec_confidence.py\<close>, \<open>spec_conflicts.py\<close> and \<open>spec_resolution.py\<close>: how
  sure a typed value is, which values count as the same, and which of the values read
  from several labels becomes the value of a typed field.  The text of a float is the
  argument \<open>float_text\<close>; confidences are exact rationals.
\<close>

section \<open>Values\<close>

datatype spec_value = Int_value int | Float_value rat | Text_value pystr | Bool_value bool

text \<open>\<open>isinstance(v, (int, float))\<close>, which holds of booleans too, with \<open>float(v)\<close>.\<close>

definition number_of :: "spec_value \<Rightarrow> rat option" where
  "number_of v = (case v of Int_value n \<Rightarrow> Some (of_int n) | Float_value q \<Rightarrow> Some q | Bool_value b \<Rightarrow> Some (if b then 1 else 0)
     | Text_value s \<Rightarrow> None)"

definition value_text :: "(rat \<Rightarrow> pystr) \<Rightarrow> spec_value \<Rightarrow> pystr" where
  "value_text float_text v = (case v of Int_value n \<Rightarrow> int_text n | Float_value q \<Rightarrow> float_text q | Text_value s \<Rightarrow> s
     | Bool_value b \<Rightarrow> if b then ''True'' else ''False'')"

definition equivalent :: "(rat \<Rightarrow> pystr) \<Rightarrow> spec_value \<Rightarrow> spec_value \<Rightarrow> bool" where
  "equivalent float_text a b = (case (number_of a, number_of b) of
       (Some x, Some y) \<Rightarrow> \<bar>x - y\<bar> < 1 / 1000000
     | _ \<Rightarrow> lower (strip (value_text float_text a)) = lower (strip (value_text float_text b)))"

definition is_plausible_ram_gb :: "int \<Rightarrow> bool" where
  "is_plausible_ram_gb v = (1 \<le> v \<and> v \<le> 128)"

definition is_plausible_storage_gb :: "int \<Rightarrow> bool" where
  "is_plausible_storage_gb v = (1 \<le> v \<and> v \<le> 8192)"

definition is_plausible_display_size :: "rat \<Rightarrow> bool" where
  "is_plausible_display_size v = (1 \<le> v \<and> v \<le> 100)"

definition is_plausible_battery_mah :: "int \<Rightarrow> bool" where
  "is_plausible_battery_mah v = (500 \<le> v \<and> v \<le> 20000)"

definition is_plausible_weight_g :: "int \<Rightarrow> bool" where
  "is_plausible_weight_g v = (50 \<le> v \<and> v \<le> 100000)"

definition is_plausible_weight_kg :: "rat \<Rightarrow> bool" where
  "is_plausible_weight_kg v = (1 / 20 \<le> v \<and> v \<le> 80)"

text \<open>A text is never plausible in a numeric field, and anything is plausible elsewhere.\<close>

definition is_plausible_typed_value :: "pystr \<Rightarrow> spec_value \<Rightarrow> bool" where
  "is_plausible_typed_value field v =
    (let whole = (\<lambda>p. case number_of v of Some q \<Rightarrow> p (truncated q) | None \<Rightarrow> False);
         part = (\<lambda>p. case number_of v of Some q \<Rightarrow> p q | None \<Rightarrow> False)
     in if field = ''ram_gb'' then whole is_plausible_ram_gb
        else if field = ''storage_gb'' then whole is_plausible_storage_gb
        else if field = ''display_size_inch'' then part is_plausible_display_size
        else if field = ''battery_mah'' then whole is_plausible_battery_mah
        else if field = ''weight_g'' then whole is_plausible_weight_g
        else if field = ''weight_kg'' then part is_plausible_weight_kg
        else True)"

section \<open>Confidence\<close>

record spec_settings =
  ENABLE_TYPED_SPEC_CONFIDENCE :: bool
  ENABLE_TYPED_SPEC_SUPPRESSION :: bool
  ENABLE_DEPRECATED_ALIAS_WARNINGS :: bool
  ENABLE_NORMALIZATION_QUALITY_SUMMARY :: bool
  TYPED_SPEC_MIN_CONFIDENCE_DEFAULT :: rat
  TYPED_SPEC_MIN_CONFIDENCE_PHONE :: rat
  TYPED_SPEC_MIN_CONFIDENCE_LAPTOP :: rat
  TYPED_SPEC_MIN_CONFIDENCE_TV :: rat
  TYPED_SPEC_MIN_CONFIDENCE_TABLET :: rat
  TYPED_SPEC_MIN_CONFIDENCE_APPLIANCE :: rat

definition get_min_confidence_for_category :: "spec_settings \<Rightarrow> pystr option \<Rightarrow> rat" where
  "get_min_confidence_for_category k category_hint =
    (let c = lower (strip (or_empty category_hint)) in
     if c = ''phone'' then TYPED_SPEC_MIN_CONFIDENCE_PHONE k
     else if c = ''laptop'' then TYPED_SPEC_MIN_CONFIDENCE_LAPTOP k
     else if c = ''tv'' then TYPED_SPEC_MIN_CONFIDENCE_TV k
     else if c = ''tablet'' then TYPED_SPEC_MIN_CONFIDENCE_TABLET k
     else if c = ''appliance'' then TYPED_SPEC_MIN_CONFIDENCE_APPLIANCE k
     else TYPED_SPEC_MIN_CONFIDENCE_DEFAULT k)"

definition NUMERICISH_FIELDS :: "pystr list" where
  "NUMERICISH_FIELDS = [''ram_gb'', ''storage_gb'', ''display_size_inch'', ''battery_mah'', ''battery_wh'', ''weight_g'', ''weight_kg'',
     ''main_camera_mp'', ''front_camera_mp'', ''volume_l'', ''power_w'', ''hdmi_count'', ''usb_c_count'', ''refresh_rate_hz'', ''sim_count'',
     ''warranty_months'']"

definition numericish_field :: "pystr \<Rightarrow> bool" where
  "numericish_field field = (field \<in> set NUMERICISH_FIELDS)"

text \<open>
  The units that are searched for, of those written in Latin-1; \<open>g\<close>, \<open>w\<close> and \<open>l\<close> only at the
  end of a word.
\<close>

definition UNIT_HINTS :: "pystr list" where
  "UNIT_HINTS = [''gb'', ''tb'', ''mb'', ''mhz'', ''ghz'', ''inch'', [CHR 0x22], ''mah'', ''wh'', ''kg'', ''mm'', ''cm'', ''mp'']"

definition is_word_char :: "char \<Rightarrow> bool" where
  "is_word_char c = (let n = of_char c :: nat in (48 \<le> n \<and> n \<le> 57) \<or> (65 \<le> n \<and> n \<le> 90) \<or> n = 95 \<or> (97 \<le> n \<and> n \<le> 122)
     \<or> n \<in> {170, 178, 179, 181, 185, 186, 188, 189, 190} \<or> (192 \<le> n \<and> n \<noteq> 215 \<and> n \<noteq> 247))"

fun word_end_unit :: "pystr \<Rightarrow> bool" where
  "word_end_unit [] = False"
| "word_end_unit [c] = (c \<in> set ''gwl'')"
| "word_end_unit (c # d # s) = ((c \<in> set ''gwl'' \<and> \<not> is_word_char d) \<or> word_end_unit (d # s))"

definition has_unit_hint :: "pystr \<Rightarrow> bool" where
  "has_unit_hint s = (let low = lower s in list_ex (\<lambda>u. contains u low) UNIT_HINTS \<or> word_end_unit low)"

text \<open>\<open>\d+(?:[.,]\d+)?\<close> of the whole text.\<close>

definition bare_number :: "pystr \<Rightarrow> bool" where
  "bare_number s = (let a = takeWhile is_digit s; r = dropWhile is_digit s in
     a \<noteq> [] \<and> (r = [] \<or> (hd r \<in> set ''.,'' \<and> tl r \<noteq> [] \<and> list_all is_digit (tl r))))"

definition detect_missing_unit :: "pystr \<Rightarrow> pystr \<Rightarrow> bool" where
  "detect_missing_unit field raw_value =
    (let s = strip raw_value in
     if \<not> numericish_field field then False
     else if s = [] then True
     else if has_unit_hint s then False
     else bare_number s)"

record field_confidence =
  fc_field_name :: pystr
  fc_confidence :: rat
  fc_source_labels :: "pystr list"
  fc_source_values :: "pystr list"
  fc_resolution_reason :: "pystr option"
  fc_warning_codes :: "pystr list"

text \<open>What is known of the way a value was found.\<close>

record candidate_meta =
  cdm_direct_key :: bool
  cdm_rule_priority :: "int option"
  cdm_deprecated_alias :: bool
  cdm_ambiguous_alias :: bool
  cdm_missing_unit :: "bool option"
  cdm_store_override_exact_match :: bool
  cdm_corrected_value :: bool
  cdm_implausible_hint :: bool
  cdm_extra_warnings :: "pystr list"

definition add_code :: "bool \<Rightarrow> pystr \<Rightarrow> pystr list \<Rightarrow> pystr list" where
  "add_code b code wc = (if b \<and> code \<notin> set wc then wc @ [code] else wc)"

definition round4 :: "rat \<Rightarrow> rat" where
  "round4 x = of_int (py_round (x * 10000)) / 10000"

definition score_base :: "pystr \<Rightarrow> pystr \<Rightarrow> candidate_meta \<Rightarrow> bool \<Rightarrow> rat" where
  "score_base field raw_value m missing =
    58 / 100 + (if cdm_direct_key m then 26 / 100 else 17 / 100)
    + (case cdm_rule_priority m of Some p \<Rightarrow> if p \<ge> 70 then 12 / 100 else if p \<ge> 10 then 6 / 100 else 0 | None \<Rightarrow> 0)
    - (if cdm_deprecated_alias m then 6 / 100 else 0) - (if cdm_ambiguous_alias m then 10 / 100 else 0)
    + (if missing then - (8 / 100) else if numericish_field field \<and> length (strip raw_value) > 2 then 4 / 100 else 0)
    + (if cdm_store_override_exact_match m then 6 / 100 else 0) - (if cdm_corrected_value m then 18 / 100 else 0)
    - (if cdm_implausible_hint m then 35 / 100 else 0)"

definition code_penalty :: "pystr \<Rightarrow> rat" where
  "code_penalty code = (if code = ''category_mismatch'' then 8 / 100 else if code = ''ram_storage_swap_suspected'' then 5 / 100 else 0)"

definition score_typed_field_confidence :: "pystr \<Rightarrow> pystr \<Rightarrow> pystr \<Rightarrow> candidate_meta \<Rightarrow> pystr list \<Rightarrow> field_confidence" where
  "score_typed_field_confidence field raw_label raw_value m warning_codes =
    (let missing = (case cdm_missing_unit m of None \<Rightarrow> detect_missing_unit field raw_value | Some b \<Rightarrow> b);
         wc = add_code (cdm_implausible_hint m) ''implausible_value'' (add_code (cdm_corrected_value m) ''corrected_value''
           (add_code (cdm_ambiguous_alias m) ''ambiguous_alias'' (add_code (cdm_deprecated_alias m) ''deprecated_alias''
             (add_code missing ''missing_unit'' warning_codes))));
         base = score_base field raw_value m missing - sum_list (map code_penalty wc)
     in \<lparr> fc_field_name = field, fc_confidence = round4 (max (35 / 100) (min (98 / 100) base)), fc_source_labels = [raw_label],
          fc_source_values = [raw_value], fc_resolution_reason = None, fc_warning_codes = dict_fromkeys wc \<rparr>)"

definition merge_field_confidences :: "pystr \<Rightarrow> field_confidence list \<Rightarrow> field_confidence" where
  "merge_field_confidences field evidences = (case evidences of
       [] \<Rightarrow> \<lparr> fc_field_name = field, fc_confidence = 35 / 100, fc_source_labels = [], fc_source_values = [],
              fc_resolution_reason = Some ''no_evidence'', fc_warning_codes = [''low_confidence''] \<rparr>
     | [e] \<Rightarrow> e\<lparr>fc_field_name := field\<rparr>
     | _ \<Rightarrow>
        (let max_c = Max (set (map fc_confidence evidences)); bump = min (12 / 100) (4 / 100 * of_nat (length evidences - 1))
         in \<lparr> fc_field_name = field, fc_confidence = round4 (min (98 / 100) (max_c + bump)),
              fc_source_labels = dict_fromkeys (concat (map fc_source_labels evidences)),
              fc_source_values = dict_fromkeys (concat (map fc_source_values evidences)),
              fc_resolution_reason = Some ''merged_equivalent_sources'',
              fc_warning_codes = dict_fromkeys (concat (map fc_warning_codes evidences)) \<rparr>))"

definition should_suppress_field :: "spec_settings \<Rightarrow> field_confidence \<Rightarrow> pystr option \<Rightarrow> bool" where
  "should_suppress_field k fc category_hint =
    (ENABLE_TYPED_SPEC_SUPPRESSION k \<and> ENABLE_TYPED_SPEC_CONFIDENCE k \<and> fc_confidence fc < get_min_confidence_for_category k category_hint)"

section \<open>Resolution\<close>

record suppressed_field =
  sf_field_name :: pystr
  sf_raw_values :: "pystr list"
  sf_reason_code :: pystr
  sf_details :: "pystr option"

record candidate =
  cd_raw_label :: pystr
  cd_raw_value :: pystr
  cd_value :: spec_value
  cd_meta :: candidate_meta

record resolution =
  rs_chosen :: "spec_value option"
  rs_warnings :: "pystr list"
  rs_confidences :: "field_confidence list"
  rs_suppressed :: "suppressed_field list"

definition compatible_values :: "(rat \<Rightarrow> pystr) \<Rightarrow> spec_value \<Rightarrow> spec_value \<Rightarrow> bool" where
  "compatible_values float_text a b = (equivalent float_text a b
     \<or> (case (number_of a, number_of b) of
          (Some x, Some y) \<Rightarrow> (x = 0 \<and> y = 0) \<or> \<bar>x - y\<bar> / max (max \<bar>x\<bar> \<bar>y\<bar>) (1 / 1000000000) \<le> 5 / 100
        | _ \<Rightarrow> False))"

definition all_pairwise_compatible :: "(rat \<Rightarrow> pystr) \<Rightarrow> spec_value list \<Rightarrow> bool" where
  "all_pairwise_compatible float_text vs = (case vs of [] \<Rightarrow> True | v # rest \<Rightarrow> list_all (compatible_values float_text v) rest)"

definition score_candidate :: "pystr \<Rightarrow> candidate \<Rightarrow> field_confidence" where
  "score_candidate field c = score_typed_field_confidence field (cd_raw_label c) (cd_raw_value c) (cd_meta c) (cdm_extra_warnings (cd_meta c))"

text \<open>The scoring of a candidate without the hints the first branch does not pass on.\<close>

definition plain_meta :: "bool \<Rightarrow> candidate_meta \<Rightarrow> candidate_meta" where
  "plain_meta implausible m = m\<lparr>cdm_store_override_exact_match := False, cdm_corrected_value := False, cdm_implausible_hint := implausible\<rparr>"

definition scored_without_hint :: "pystr \<Rightarrow> candidate \<Rightarrow> field_confidence" where
  "scored_without_hint field c = score_candidate field (c\<lparr>cd_meta := (cd_meta c)\<lparr>cdm_implausible_hint := False\<rparr>\<rparr>)"

definition scored_plain :: "pystr \<Rightarrow> bool \<Rightarrow> pystr list \<Rightarrow> candidate \<Rightarrow> field_confidence" where
  "scored_plain field implausible codes c =
    score_typed_field_confidence field (cd_raw_label c) (cd_raw_value c) (plain_meta implausible (cd_meta c)) codes"

text \<open>The first of the candidates with the highest confidence: the sort is by \<open>(-confidence, position)\<close>.\<close>

definition by_confidence :: "pystr \<Rightarrow> candidate list \<Rightarrow> candidate list" where
  "by_confidence field cs = sort_key (\<lambda>c. - fc_confidence (score_candidate field c)) cs"

definition pick_best_candidate :: "(rat \<Rightarrow> pystr) \<Rightarrow> pystr \<Rightarrow> candidate list \<Rightarrow> spec_value \<times> field_confidence \<times> pystr list" where
  "pick_best_candidate float_text field cs =
    (let scored = by_confidence field cs; best = cd_value (hd scored);
         merged = merge_field_confidences field (map (score_candidate field)
           (filter (\<lambda>c. compatible_values float_text (cd_value c) best \<and> is_plausible_typed_value field (cd_value c)) scored))
     in if length cs > 1
        then (best, merged\<lparr>fc_resolution_reason := py_or (fc_resolution_reason merged) (Some ''picked_best_compatible_candidate''),
            fc_warning_codes := dict_fromkeys (fc_warning_codes merged @ [''conflicting_values''])\<rparr>, [''conflicting_values''])
        else (best, merged, []))"

definition suppression :: "pystr \<Rightarrow> candidate list \<Rightarrow> pystr \<Rightarrow> pystr option \<Rightarrow> suppressed_field" where
  "suppression field cs reason details =
    \<lparr> sf_field_name = field, sf_raw_values = map cd_raw_value cs, sf_reason_code = reason, sf_details = details \<rparr>"

text \<open>The two tests that end every branch with a value: plausible first, then confident.\<close>

definition settle_value ::
    "spec_settings \<Rightarrow> pystr \<Rightarrow> pystr option \<Rightarrow> candidate list \<Rightarrow> spec_value \<Rightarrow> field_confidence \<Rightarrow> pystr list \<Rightarrow> pystr \<Rightarrow> resolution" where
  "settle_value k field category_hint cs v fc warnings implausible_details =
    (if \<not> is_plausible_typed_value field v
     then \<lparr> rs_chosen = None, rs_warnings = warnings @ [''implausible_value''], rs_confidences = [fc],
            rs_suppressed = [suppression field cs ''suppressed_by_plausibility'' (Some implausible_details)] \<rparr>
     else if ENABLE_TYPED_SPEC_CONFIDENCE k \<and> should_suppress_field k fc category_hint
     then \<lparr> rs_chosen = None, rs_warnings = warnings @ [''low_confidence''], rs_confidences = [fc],
            rs_suppressed = [suppression field cs ''suppressed_by_confidence'' None] \<rparr>
     else \<lparr> rs_chosen = Some v, rs_warnings = warnings, rs_confidences = [fc], rs_suppressed = [] \<rparr>)"

text \<open>The candidates that have a value; with as many metas as candidates, as every caller passes them.\<close>

definition resolve_typed_field_candidates ::
    "(rat \<Rightarrow> pystr) \<Rightarrow> spec_settings \<Rightarrow> pystr \<Rightarrow> candidate list \<Rightarrow> pystr option \<Rightarrow> resolution" where
  "resolve_typed_field_candidates float_text k field cs category_hint = (case cs of
       [] \<Rightarrow> \<lparr> rs_chosen = None, rs_warnings = [], rs_confidences = [], rs_suppressed = [] \<rparr>
     | [c] \<Rightarrow>
        settle_value k field category_hint cs (cd_value c)
          (if is_plausible_typed_value field (cd_value c) then scored_without_hint field c else scored_plain field True [] c)
          [] ''single_candidate_implausible''
     | c # rest \<Rightarrow>
        (if list_all (\<lambda>x. equivalent float_text (cd_value c) (cd_value x)) rest
         then settle_value k field category_hint cs (cd_value c)
           (merge_field_confidences field (map (scored_without_hint field) cs)) [] ''merged_equivalent_implausible''
         else if \<not> list_ex (\<lambda>x. is_plausible_typed_value field (cd_value x)) cs
         then \<lparr> rs_chosen = None, rs_warnings = [''implausible_value''], rs_confidences = map (scored_plain field True []) cs,
                rs_suppressed = [suppression field cs ''suppressed_by_plausibility'' (Some ''all_candidates_implausible'')] \<rparr>
         else if all_pairwise_compatible float_text (map cd_value cs)
         then (case pick_best_candidate float_text field cs of
             (v, merged, extra) \<Rightarrow> settle_value k field category_hint cs v merged extra ''compatible_cluster_implausible'')
         else \<lparr> rs_chosen = None, rs_warnings = [''conflicting_values''],
                rs_confidences = map (\<lambda>x. scored_plain field False (cdm_extra_warnings (cd_meta x) @ [''conflicting_values'']) x) cs,
                rs_suppressed = [suppression field cs ''suppressed_by_conflict'' (Some ''incompatible_normalized_values'')] \<rparr>))"

section \<open>Facts\<close>

text \<open>A confidence lies between 0.35 and 0.98.\<close>

definition confident :: "field_confidence \<Rightarrow> bool" where
  "confident fc \<longleftrightarrow> 35 / 100 \<le> fc_confidence fc \<and> fc_confidence fc \<le> 98 / 100"

lemma py_round_mono_int: "of_int n \<le> q \<Longrightarrow> n \<le> py_round q" "q \<le> of_int n \<Longrightarrow> py_round q \<le> n"
  by (auto simp: py_round_def Let_def le_floor_iff) linarith+

lemma round4_bounds: "35 / 100 \<le> x \<Longrightarrow> x \<le> 98 / 100 \<Longrightarrow> 35 / 100 \<le> round4 x \<and> round4 x \<le> 98 / 100"
  using py_round_mono_int(1) [of 3500 "x * 10000"] py_round_mono_int(2) [of "x * 10000" 9800]
  by (simp add: round4_def field_simps)

lemma score_confident: "confident (score_typed_field_confidence field l v m wc)"
proof -
  have "35 / 100 \<le> round4 (max (35 / 100) (min (98 / 100) b)) \<and> round4 (max (35 / 100) (min (98 / 100) b)) \<le> 98 / 100" for b
    by (rule round4_bounds) auto
  then show ?thesis
    unfolding confident_def score_typed_field_confidence_def Let_def field_confidence.select_convs .
qed

lemma merge_confident:
  assumes "list_all confident es"
  shows "confident (merge_field_confidences field es)"
proof (cases es rule: remdups_adj.cases)
  case 1
  then show ?thesis by (simp add: merge_field_confidences_def confident_def)
next
  case (2 x)
  with assms show ?thesis by (simp add: merge_field_confidences_def confident_def)
next
  case (3 x y zs)
  define m where "m = Max (set (map fc_confidence es))"
  define b :: rat where "b = min (12 / 100) (4 / 100 * of_nat (length es - 1))"
  have "35 / 100 \<le> fc_confidence x" using assms 3 by (simp add: confident_def)
  also have "fc_confidence x \<le> m" unfolding m_def using 3 by (intro Max_ge) auto
  finally have "35 / 100 \<le> m" .
  moreover have "0 \<le> b" by (simp add: b_def)
  ultimately have "35 / 100 \<le> m + b" by linarith
  then have "35 / 100 \<le> min (98 / 100) (m + b)" by (rule min.boundedI [rotated]) simp
  then have "35 / 100 \<le> round4 (min (98 / 100) (m + b)) \<and> round4 (min (98 / 100) (m + b)) \<le> 98 / 100"
    by (rule round4_bounds) (rule min.cobounded1)
  moreover have "fc_confidence (merge_field_confidences field es) = round4 (min (98 / 100) (m + b))"
    by (simp add: merge_field_confidences_def 3 m_def b_def Let_def)
  ultimately show ?thesis unfolding confident_def by simp
qed

text \<open>The values a resolution may choose are those of its candidates.\<close>

lemma by_confidence_set [simp]: "set (by_confidence field cs) = set cs"
  by (simp add: by_confidence_def)

lemma by_confidence_Nil [simp]: "by_confidence field cs = [] \<longleftrightarrow> cs = []"
  by (metis by_confidence_set set_empty)

lemma pick_best_value:
  assumes "cs \<noteq> []"
  shows "fst (pick_best_candidate float_text field cs) \<in> cd_value ` set cs"
proof -
  have "hd (by_confidence field cs) \<in> set (by_confidence field cs)" by (rule hd_in_set) (simp add: assms)
  then show ?thesis by (simp add: pick_best_candidate_def Let_def)
qed

lemma score_confident_all: "list_all confident (map (score_candidate field) cs)" "list_all confident (map (scored_without_hint field) cs)"
  by (simp_all add: list_all_iff score_candidate_def scored_without_hint_def score_confident)

lemma pick_best_confident:
  assumes "pick_best_candidate float_text field cs = (v, fc, extra)"
  shows "confident fc"
proof -
  define es where "es = map (score_candidate field) (filter (\<lambda>c. compatible_values float_text (cd_value c)
      (cd_value (hd (by_confidence field cs))) \<and> is_plausible_typed_value field (cd_value c)) (by_confidence field cs))"
  have "confident (merge_field_confidences field es)" by (rule merge_confident) (simp add: es_def score_confident_all)
  with assms show ?thesis
    by (auto simp: pick_best_candidate_def es_def confident_def Let_def split: if_splits)
qed

text \<open>
  What a resolution owes: a value it chooses is the value of a candidate, plausible and
  confident enough; a value it does not choose has exactly one entry that says why.
\<close>

definition resolved_well :: "spec_settings \<Rightarrow> pystr \<Rightarrow> pystr option \<Rightarrow> candidate list \<Rightarrow> resolution \<Rightarrow> bool" where
  "resolved_well k field category_hint cs r \<longleftrightarrow> (case rs_chosen r of
     Some v \<Rightarrow> v \<in> cd_value ` set cs \<and> is_plausible_typed_value field v \<and> rs_suppressed r = []
       \<and> (\<exists>fc. rs_confidences r = [fc] \<and> confident fc \<and> \<not> should_suppress_field k fc category_hint)
   | None \<Rightarrow> (cs = [] \<and> rs_suppressed r = [])
       \<or> (cs \<noteq> [] \<and> (\<exists>x. rs_suppressed r = [x] \<and> sf_field_name x = field \<and> sf_raw_values x = map cd_raw_value cs)))"

lemma settle_resolved_well:
  assumes "v \<in> cd_value ` set cs" and "confident fc"
  shows "resolved_well k field category_hint cs (settle_value k field category_hint cs v fc ws details)"
proof -
  have "cs \<noteq> []" using assms(1) by auto
  with assms show ?thesis
    by (auto simp: resolved_well_def settle_value_def suppression_def should_suppress_field_def)
qed

lemma resolved_well_resolution: "resolved_well k field category_hint cs (resolve_typed_field_candidates float_text k field cs category_hint)"
proof (cases cs rule: remdups_adj.cases)
  case 1
  then show ?thesis by (simp add: resolve_typed_field_candidates_def resolved_well_def)
next
  case (2 c)
  have "confident (if is_plausible_typed_value field (cd_value c) then scored_without_hint field c else scored_plain field True [] c)"
    by (simp add: scored_without_hint_def scored_plain_def score_candidate_def score_confident)
  then show ?thesis unfolding 2 resolve_typed_field_candidates_def list.case
    by (intro settle_resolved_well) simp_all
next
  case (3 c d rest)
  note settle = settle_resolved_well [of _ cs]
  have c: "cd_value c \<in> cd_value ` set cs" by (simp add: 3)
  have merged: "confident (merge_field_confidences field (map (scored_without_hint field) cs))"
    by (rule merge_confident) (rule score_confident_all)
  obtain v fc extra where best: "pick_best_candidate float_text field cs = (v, fc, extra)" by (metis prod_cases3)
  have v: "v \<in> cd_value ` set cs" using pick_best_value [of cs float_text field] best 3 by simp
  have "resolved_well k field category_hint cs (resolve_typed_field_candidates float_text k field cs category_hint)
    \<longleftrightarrow> resolved_well k field category_hint cs
        (if list_all (\<lambda>x. equivalent float_text (cd_value c) (cd_value x)) (d # rest)
         then settle_value k field category_hint cs (cd_value c)
           (merge_field_confidences field (map (scored_without_hint field) cs)) [] ''merged_equivalent_implausible''
         else if \<not> list_ex (\<lambda>x. is_plausible_typed_value field (cd_value x)) cs
         then \<lparr> rs_chosen = None, rs_warnings = [''implausible_value''], rs_confidences = map (scored_plain field True []) cs,
                rs_suppressed = [suppression field cs ''suppressed_by_plausibility'' (Some ''all_candidates_implausible'')] \<rparr>
         else if all_pairwise_compatible float_text (map cd_value cs)
         then settle_value k field category_hint cs v fc extra ''compatible_cluster_implausible''
         else \<lparr> rs_chosen = None, rs_warnings = [''conflicting_values''],
                rs_confidences = map (\<lambda>x. scored_plain field False (cdm_extra_warnings (cd_meta x) @ [''conflicting_values'']) x) cs,
                rs_suppressed = [suppression field cs ''suppressed_by_conflict'' (Some ''incompatible_normalized_values'')] \<rparr>)"
    by (simp only: resolve_typed_field_candidates_def 3 list.case best [unfolded 3] prod.case)
  also have \<dots>
    using settle [OF c merged] settle [OF v pick_best_confident [OF best]]
    by (simp add: resolved_well_def [of _ _ _ _ "resolution.make a b c' d'" for a b c' d'] 3)
      (auto simp: resolved_well_def suppression_def 3)
  finally show ?thesis .
qed

end
