(* ===== verification/Spec_Registry.thy ===== *)
theory Spec_Registry imports Spec_Resolution "HOL-Library.List_Lexorder" "HOL-Library.Product_Lexorder" begin

text \<open>
  \<^verbatim>\<open>application/extractors/spec_registry_loader.py\<close>: which rules, fields and store overrides apply to
  a category and a store.  The tables themselves are data in Cyrillic and are an argument;
  their labels are normalised when they are loaded.
\<close>

record alias_rule =
  ru_raw_label :: pystr
  ru_canonical_label :: pystr
  ru_typed_field :: pystr
  ru_category_scope :: "pystr option"
  ru_store_scope :: "pystr option"
  ru_priority :: int
  ru_deprecated :: bool

record field_definition =
  fd_supported_categories :: "pystr list"
  fd_plausibility_checker :: "pystr option"

record category_policy =
  cp_enabled_fields :: "pystr list"
  cp_extraction_priority_order :: "pystr list"

record store_override =
  so_store_name :: pystr
  so_category_hint :: "pystr option"
  so_alias_overrides :: "alias_rule list"
  so_field_disables :: "pystr list"

record spec_tables =
  tb_field_definitions :: "(pystr, field_definition) odict"
  tb_alias_rules :: "alias_rule list"
  tb_category_policies :: "(pystr, category_policy) odict"
  tb_store_overrides :: "store_override list"

record spec_registry =
  rg_normalize_label :: "pystr \<Rightarrow> pystr"
  rg_overrides_enabled :: bool
  rg_tables :: spec_tables

definition normalize_rule :: "spec_registry \<Rightarrow> alias_rule \<Rightarrow> alias_rule" where
  "normalize_rule g r =
    (let nk = rg_normalize_label g (ru_raw_label r); ck = rg_normalize_label g (ru_canonical_label r)
     in r\<lparr>ru_raw_label := nk, ru_canonical_label := (if ck = [] then nk else ck)\<rparr>)"

definition registry_overrides :: "spec_registry \<Rightarrow> store_override list" where
  "registry_overrides g = (if rg_overrides_enabled g then tb_store_overrides (rg_tables g) else [])"

definition registry_rules :: "spec_registry \<Rightarrow> alias_rule list" where
  "registry_rules g = map (normalize_rule g) (tb_alias_rules (rg_tables g) @ concat (map so_alias_overrides (registry_overrides g)))"

definition cat_key :: "spec_registry \<Rightarrow> pystr option \<Rightarrow> pystr" where
  "cat_key g category_hint =
    (let c = lower (strip (if truthy category_hint then or_empty category_hint else ''unknown'')) in
     if od_get c (tb_category_policies (rg_tables g)) = None then ''unknown'' else c)"

text \<open>There is a policy for \<^verbatim>\<open>unknown\<close>; without one the lookup of the code raises.\<close>

definition get_category_policy :: "spec_registry \<Rightarrow> pystr option \<Rightarrow> exc + category_policy" where
  "get_category_policy g category_hint = (case od_get (cat_key g category_hint) (tb_category_policies (rg_tables g)) of
       Some p \<Rightarrow> Inr p
     | None \<Rightarrow> Inl (OtherError ''KeyError: unknown''))"

definition get_field_definitions :: "spec_registry \<Rightarrow> category_policy \<Rightarrow> pystr option \<Rightarrow> (pystr, field_definition) odict" where
  "get_field_definitions g policy category_hint =
    (let cat = cat_key g category_hint in
     filter (\<lambda>(name, fd). name \<in> set (cp_enabled_fields policy)
       \<and> (cat \<in> set (fd_supported_categories fd) \<or> ''unknown'' \<in> set (fd_supported_categories fd))) (tb_field_definitions (rg_tables g)))"

definition hint_key :: "pystr option \<Rightarrow> pystr option" where
  "hint_key category_hint = (let c = lower (strip (or_empty category_hint)) in if c = [] then None else Some c)"

definition override_applies :: "pystr \<Rightarrow> pystr option \<Rightarrow> store_override \<Rightarrow> bool" where
  "override_applies st ch ov = (lower (so_store_name ov) = st
     \<and> (case so_category_hint ov of None \<Rightarrow> True | Some c \<Rightarrow> Some (lower c) = ch))"

definition merged_field_disables :: "spec_registry \<Rightarrow> pystr \<Rightarrow> pystr option \<Rightarrow> pystr list" where
  "merged_field_disables g store_name category_hint =
    concat (map so_field_disables (filter (override_applies (lower (strip store_name)) (hint_key category_hint)) (registry_overrides g)))"

definition rule_applies :: "pystr \<Rightarrow> pystr option \<Rightarrow> alias_rule \<Rightarrow> bool" where
  "rule_applies cat st r = ((case ru_category_scope r of None \<Rightarrow> True | Some c \<Rightarrow> lower c = cat)
     \<and> (case ru_store_scope r of None \<Rightarrow> True | Some s \<Rightarrow> st = Some (lower s)))"

definition rule_sort_key :: "alias_rule \<Rightarrow> int \<times> nat \<times> nat \<times> pystr" where
  "rule_sort_key r = (- ru_priority r, if truthy (ru_store_scope r) then 0 else 1, if truthy (ru_category_scope r) then 0 else 1, ru_typed_field r)"

definition get_alias_rules :: "spec_registry \<Rightarrow> pystr option \<Rightarrow> pystr option \<Rightarrow> alias_rule list" where
  "get_alias_rules g category_hint store_name =
    sort_key rule_sort_key (filter (rule_applies (cat_key g category_hint) (hint_key store_name)) (registry_rules g))"

text \<open>The entry of a label in \<open>get_rules_index\<close>, which sorts it once more.\<close>

definition rules_for :: "spec_registry \<Rightarrow> pystr option \<Rightarrow> pystr option \<Rightarrow> pystr \<Rightarrow> alias_rule list" where
  "rules_for g category_hint store_name nk =
    sort_key rule_sort_key (filter (\<lambda>r. ru_raw_label r = nk) (get_alias_rules g category_hint store_name))"

section \<open>Targets of a label\<close>

definition TYPED_FIELDS :: "pystr list" where
  "TYPED_FIELDS = [''ram_gb'', ''storage_gb'', ''display_size_inch'', ''display_resolution'', ''display_type'', ''display_tech'',
     ''refresh_rate_hz'', ''processor'', ''gpu'', ''battery_mah'', ''battery_wh'', ''weight_g'', ''weight_kg'', ''color'', ''sim_count'',
     ''main_camera_mp'', ''front_camera_mp'', ''volume_l'', ''power_w'', ''smart_tv'', ''has_wifi'', ''has_bluetooth'', ''hdmi'',
     ''hdmi_count'', ''usb_c_count'', ''os'', ''energy_class'', ''warranty_months'']"

text \<open>The best rule of each field, in the order the fields first come; a key that names a field is that field.\<close>

definition resolve_rule_targets :: "spec_registry \<Rightarrow> pystr option \<Rightarrow> pystr option \<Rightarrow> pystr \<Rightarrow> (pystr \<times> int option \<times> bool) list" where
  "resolve_rule_targets g category_hint store_name nk =
    (if nk \<in> set TYPED_FIELDS then [(nk, None, False)]
     else map (\<lambda>(f, r). (f, Some (ru_priority r), ru_deprecated r))
       (foldl (\<lambda>best r. if od_get (ru_typed_field r) best = None then od_set (ru_typed_field r) r best else best) []
         (rules_for g category_hint store_name nk)))"

definition resolve_raw_label :: "spec_registry \<Rightarrow> pystr \<Rightarrow> pystr option \<Rightarrow> pystr option \<Rightarrow> (pystr \<times> pystr) option" where
  "resolve_raw_label g raw_label category_hint store_name =
    (let nk = rg_normalize_label g raw_label in
     if nk = [] then None
     else if nk \<in> set TYPED_FIELDS then Some (nk, nk)
     else (case rules_for g category_hint store_name nk of [] \<Rightarrow> None | r # rs \<Rightarrow> Some (ru_canonical_label r, ru_typed_field r)))"

section \<open>Facts\<close>

text \<open>Of the rules for a label, the first has the highest priority.\<close>

lemma rules_for_ordered:
  assumes "rules_for g category_hint store_name nk = r # rs" and "r' \<in> set rs"
  shows "ru_priority r' \<le> ru_priority r"
proof -
  have "sorted (map rule_sort_key (rules_for g category_hint store_name nk))" by (simp add: rules_for_def)
  then have "sorted (map rule_sort_key (r # rs))" by (simp only: assms(1))
  with assms(2) have "rule_sort_key r \<le> rule_sort_key r'" by auto
  then show ?thesis by (auto simp: rule_sort_key_def less_eq_prod_def)
qed

lemma rules_for_scoped:
  assumes "r \<in> set (rules_for g category_hint store_name nk)"
  shows "rule_applies (cat_key g category_hint) (hint_key store_name) r \<and> ru_raw_label r = nk"
  using assms by (simp add: rules_for_def get_alias_rules_def)

text \<open>Each field has at most one target, given by the first of its rules.\<close>

lemma first_rules:
  fixes rs :: "alias_rule list"
  defines "step \<equiv> \<lambda>best r. if od_get (ru_typed_field r) best = None then od_set (ru_typed_field r) r best else best"
  shows "od_get f (foldl step best rs) = (case od_get f best of Some r \<Rightarrow> Some r | None \<Rightarrow> find (\<lambda>r. ru_typed_field r = f) rs)"
  by (induction rs arbitrary: best) (auto simp: step_def od_get_set split: option.splits)

end
