(* ===== verification/Spec_Sanity.thy ===== *)
theory Spec_Sanity imports Spec_Resolution begin

text \<open>
  \<^verbatim>\<open>application/extractors/spec_sanity.py\<close>: typed fields that contradict each other or the category
  are taken out.  The dictionary of \<open>model_dump\<close> is kept as it is, an absent entry for a
  field that is \<open>None\<close>; a field has a value of its declared type.
\<close>

type_synonym typed_specs = "(pystr, spec_value) odict"

definition int_field :: "pystr \<Rightarrow> typed_specs \<Rightarrow> int option" where
  "int_field f d = (case od_get f d of None \<Rightarrow> None | Some v \<Rightarrow> map_option truncated (number_of v))"

definition float_field :: "pystr \<Rightarrow> typed_specs \<Rightarrow> rat option" where
  "float_field f d = (case od_get f d of None \<Rightarrow> None | Some v \<Rightarrow> number_of v)"

definition bool_field :: "pystr \<Rightarrow> typed_specs \<Rightarrow> bool option" where
  "bool_field f d = (case od_get f d of Some (Bool_value b) \<Rightarrow> Some b | _ \<Rightarrow> None)"

definition display_plausible_for_category :: "rat \<Rightarrow> pystr \<Rightarrow> bool" where
  "display_plausible_for_category inches c =
    (if c = ''phone'' then 3 \<le> inches \<and> inches \<le> 17 / 2
     else if c = ''tablet'' then 5 \<le> inches \<and> inches \<le> 22
     else if c = ''laptop'' then 9 \<le> inches \<and> inches \<le> 21
     else if c = ''tv'' then 12 \<le> inches \<and> inches \<le> 120
     else 1 \<le> inches \<and> inches \<le> 100)"

text \<open>The local variables of the function: the values, the warnings and what has been suppressed.\<close>

record sanity_state =
  ss_data :: typed_specs
  ss_warnings :: "pystr list"
  ss_suppressed :: "suppressed_field list"

definition drop_field :: "pystr \<Rightarrow> pystr \<Rightarrow> pystr \<Rightarrow> sanity_state \<Rightarrow> sanity_state" where
  "drop_field f reason details s = (if od_get f (ss_data s) = None then s
     else s\<lparr>ss_data := od_pop f (ss_data s),
       ss_suppressed := ss_suppressed s @ [\<lparr> sf_field_name = f, sf_raw_values = [], sf_reason_code = reason, sf_details = Some details \<rparr>]\<rparr>)"

definition warn :: "pystr \<Rightarrow> sanity_state \<Rightarrow> sanity_state" where
  "warn code s = s\<lparr>ss_warnings := ss_warnings s @ [code]\<rparr>"

definition check_ram :: "pystr \<Rightarrow> sanity_state \<Rightarrow> sanity_state" where
  "check_ram c s = (case (int_field ''ram_gb'' (ss_data s), int_field ''storage_gb'' (ss_data s)) of
       (Some ram, Some sto) \<Rightarrow>
         if c \<in> {''phone'', ''tablet'', ''laptop''} \<and> ram > sto
         then drop_field ''ram_gb'' ''ram_storage_swap_suspected'' ''ram_gb_gt_storage_gb'' (warn ''ram_storage_swap_suspected'' s) else s
     | _ \<Rightarrow> s)"

definition check_display :: "pystr \<Rightarrow> sanity_state \<Rightarrow> sanity_state" where
  "check_display c s = (case float_field ''display_size_inch'' (ss_data s) of
       Some x \<Rightarrow> if \<not> display_plausible_for_category x c
         then drop_field ''display_size_inch'' ''cross_field_conflict'' ''display_size_implausible_for_category'' (warn ''category_mismatch'' s) else s
     | None \<Rightarrow> s)"

definition check_battery_mah :: "pystr \<Rightarrow> sanity_state \<Rightarrow> sanity_state" where
  "check_battery_mah c s = (case int_field ''battery_mah'' (ss_data s) of
       Some mah \<Rightarrow>
         if c \<in> {''laptop'', ''tv'', ''appliance''} \<and> (mah < 500 \<or> mah > 50000)
         then drop_field ''battery_mah'' ''category_mismatch'' ''battery_mah_unusual_for_category'' (warn ''category_mismatch'' s)
         else if c = ''laptop'' \<and> float_field ''battery_wh'' (ss_data s) = None \<and> mah > 25000
         then drop_field ''battery_mah'' ''cross_field_conflict'' ''battery_mah_too_large_for_laptop'' (warn ''category_mismatch'' s)
         else s
     | None \<Rightarrow> s)"

definition check_battery_wh :: "pystr \<Rightarrow> sanity_state \<Rightarrow> sanity_state" where
  "check_battery_wh c s = (if float_field ''battery_wh'' (ss_data s) \<noteq> None \<and> c \<in> {''phone'', ''tablet''}
     then drop_field ''battery_wh'' ''category_mismatch'' ''battery_wh_unusual_for_mobile'' (warn ''category_mismatch'' s) else s)"

definition weights_disagree :: "int \<Rightarrow> rat \<Rightarrow> bool" where
  "weights_disagree g kg = (\<bar>g - truncated (kg * 1000)\<bar> > max 100 (truncated (1 / 5 * of_int (max g 1))))"

definition check_weight :: "sanity_state \<Rightarrow> sanity_state" where
  "check_weight s = (case (int_field ''weight_g'' (ss_data s), float_field ''weight_kg'' (ss_data s)) of
       (Some g, Some kg) \<Rightarrow>
         if weights_disagree g kg
         then drop_field ''weight_kg'' ''inconsistent_weight_units'' ''weight_g_kg_mismatch''
           (drop_field ''weight_g'' ''inconsistent_weight_units'' ''weight_g_kg_mismatch'' (warn ''inconsistent_weight_units'' s))
         else s
     | _ \<Rightarrow> s)"

definition check_range_int :: "pystr \<Rightarrow> int \<Rightarrow> int \<Rightarrow> pystr \<Rightarrow> sanity_state \<Rightarrow> sanity_state" where
  "check_range_int f lo hi details s = (case int_field f (ss_data s) of
       Some n \<Rightarrow> if n < lo \<or> n > hi then drop_field f ''implausible_value'' details (warn ''implausible_value'' s) else s
     | None \<Rightarrow> s)"

definition check_volume :: "sanity_state \<Rightarrow> sanity_state" where
  "check_volume s = (case float_field ''volume_l'' (ss_data s) of
       Some x \<Rightarrow> if x < 1 / 100 \<or> x > 800 then drop_field ''volume_l'' ''implausible_value'' ''volume_l_out_of_range'' (warn ''implausible_value'' s) else s
     | None \<Rightarrow> s)"

definition check_appliance :: "pystr \<Rightarrow> sanity_state \<Rightarrow> sanity_state" where
  "check_appliance c s = (if c = ''appliance''
     then check_range_int ''power_w'' 1 30000 ''power_w_out_of_range'' (check_volume s) else s)"

definition check_smart_tv :: "pystr \<Rightarrow> sanity_state \<Rightarrow> sanity_state" where
  "check_smart_tv c s = (if bool_field ''smart_tv'' (ss_data s) = Some True \<and> c \<in> {''appliance'', ''phone''}
     then drop_field ''smart_tv'' ''cross_field_conflict'' ''smart_tv_unlikely_for_category'' (warn ''cross_field_conflict'' s) else s)"

definition check_hdmi :: "sanity_state \<Rightarrow> sanity_state" where
  "check_hdmi s = (case int_field ''hdmi_count'' (ss_data s) of
       Some n \<Rightarrow> if bool_field ''hdmi'' (ss_data s) = Some False \<and> n > 0
         then drop_field ''hdmi_count'' ''inconsistent_hdmi_state'' ''hdmi_false_but_positive_count'' (warn ''inconsistent_hdmi_state'' s) else s
     | None \<Rightarrow> s)"

definition apply_cross_field_sanity_checks ::
    "typed_specs \<Rightarrow> pystr option \<Rightarrow> typed_specs \<times> pystr list \<times> suppressed_field list" where
  "apply_cross_field_sanity_checks d category_hint =
    (let c = lower (strip (or_empty category_hint));
         s1 = check_battery_wh c (check_battery_mah c (check_display c (check_ram c
           \<lparr> ss_data = d, ss_warnings = [], ss_suppressed = [] \<rparr>)));
         s2 = check_range_int ''front_camera_mp'' 1 64 ''front_camera_out_of_range''
           (check_range_int ''main_camera_mp'' 1 200 ''main_camera_out_of_range'' (check_weight s1));
         s3 = check_hdmi (check_smart_tv c (check_appliance c s2))
     in (ss_data s3, dict_fromkeys (ss_warnings s3), ss_suppressed s3))"

section \<open>What sane values are\<close>

text \<open>The contract, over the values alone.\<close>

definition in_int :: "typed_specs \<Rightarrow> pystr \<Rightarrow> int \<Rightarrow> int \<Rightarrow> bool" where
  "in_int d f lo hi \<longleftrightarrow> (case int_field f d of Some n \<Rightarrow> lo \<le> n \<and> n \<le> hi | None \<Rightarrow> True)"

definition sane_ram :: "pystr \<Rightarrow> typed_specs \<Rightarrow> bool" where
  "sane_ram c d \<longleftrightarrow> (case (int_field ''ram_gb'' d, int_field ''storage_gb'' d) of
     (Some ram, Some sto) \<Rightarrow> c \<in> {''phone'', ''tablet'', ''laptop''} \<longrightarrow> ram \<le> sto | _ \<Rightarrow> True)"

definition sane_display :: "pystr \<Rightarrow> typed_specs \<Rightarrow> bool" where
  "sane_display c d \<longleftrightarrow> (case float_field ''display_size_inch'' d of Some x \<Rightarrow> display_plausible_for_category x c | None \<Rightarrow> True)"

definition sane_battery :: "pystr \<Rightarrow> typed_specs \<Rightarrow> bool" where
  "sane_battery c d \<longleftrightarrow> (case int_field ''battery_mah'' d of
     Some mah \<Rightarrow> (c \<in> {''laptop'', ''tv'', ''appliance''} \<longrightarrow> 500 \<le> mah \<and> mah \<le> 50000)
       \<and> (c = ''laptop'' \<and> float_field ''battery_wh'' d = None \<longrightarrow> mah \<le> 25000) | None \<Rightarrow> True)
   \<and> (c \<in> {''phone'', ''tablet''} \<longrightarrow> float_field ''battery_wh'' d = None)"

definition sane_weight :: "typed_specs \<Rightarrow> bool" where
  "sane_weight d \<longleftrightarrow> (case (int_field ''weight_g'' d, float_field ''weight_kg'' d) of (Some g, Some kg) \<Rightarrow> \<not> weights_disagree g kg | _ \<Rightarrow> True)"

definition sane_appliance :: "pystr \<Rightarrow> typed_specs \<Rightarrow> bool" where
  "sane_appliance c d \<longleftrightarrow> (c = ''appliance'' \<longrightarrow> in_int d ''power_w'' 1 30000
     \<and> (case float_field ''volume_l'' d of Some x \<Rightarrow> 1 / 100 \<le> x \<and> x \<le> 800 | None \<Rightarrow> True))"

definition sane_connectors :: "pystr \<Rightarrow> typed_specs \<Rightarrow> bool" where
  "sane_connectors c d \<longleftrightarrow> (c \<in> {''appliance'', ''phone''} \<longrightarrow> bool_field ''smart_tv'' d \<noteq> Some True)
     \<and> (case int_field ''hdmi_count'' d of Some n \<Rightarrow> bool_field ''hdmi'' d = Some False \<longrightarrow> n \<le> 0 | None \<Rightarrow> True)"

definition sane_specs :: "pystr \<Rightarrow> typed_specs \<Rightarrow> bool" where
  "sane_specs c d \<longleftrightarrow> sane_ram c d \<and> sane_display c d \<and> sane_battery c d \<and> sane_weight d
     \<and> in_int d ''main_camera_mp'' 1 200 \<and> in_int d ''front_camera_mp'' 1 64 \<and> sane_appliance c d \<and> sane_connectors c d"

section \<open>Each check takes fields out\<close>

text \<open>
  \<open>takes F s s'\<close>: only fields of \<open>F\<close> have gone, each with an entry that says so, and nothing
  happened when none has.
\<close>

definition takes :: "pystr set \<Rightarrow> sanity_state \<Rightarrow> sanity_state \<Rightarrow> bool" where
  "takes F s s' \<longleftrightarrow> (\<forall>f. od_get f (ss_data s') = od_get f (ss_data s) \<or> (f \<in> F \<and> od_get f (ss_data s) \<noteq> None \<and> od_get f (ss_data s') = None
       \<and> f \<in> sf_field_name ` set (ss_suppressed s')))
     \<and> set (ss_suppressed s) \<subseteq> set (ss_suppressed s')
     \<and> (\<forall>x\<in>set (ss_suppressed s'). x \<in> set (ss_suppressed s) \<or> (sf_field_name x \<in> F \<and> od_get (sf_field_name x) (ss_data s) \<noteq> None
           \<and> od_get (sf_field_name x) (ss_data s') = None))"

lemma takes_refl [simp]: "takes F s s"
  by (simp add: takes_def)

lemma takes_warn [simp]: "takes F s (warn w s)"
  by (simp add: takes_def warn_def)

lemma takes_drop [simp]: "f \<in> F \<Longrightarrow> takes F s (drop_field f r x s)"
  by (auto simp: takes_def drop_field_def od_get_pop)

lemma takes_trans:
  assumes "takes F s s1" and "takes F s1 s2"
  shows "takes F s s2"
  unfolding takes_def
proof (intro conjI allI ballI)
  fix f
  from assms show "od_get f (ss_data s2) = od_get f (ss_data s) \<or> (f \<in> F \<and> od_get f (ss_data s) \<noteq> None \<and> od_get f (ss_data s2) = None
       \<and> f \<in> sf_field_name ` set (ss_suppressed s2))"
    unfolding takes_def by (metis (no_types, lifting) image_mono subsetD)
next
  from assms show "set (ss_suppressed s) \<subseteq> set (ss_suppressed s2)" unfolding takes_def by blast
next
  fix x assume "x \<in> set (ss_suppressed s2)"
  with assms show "x \<in> set (ss_suppressed s) \<or> (sf_field_name x \<in> F \<and> od_get (sf_field_name x) (ss_data s) \<noteq> None
           \<and> od_get (sf_field_name x) (ss_data s2) = None)"
    unfolding takes_def by metis
qed

lemma takes_mono: "takes F s s' \<Longrightarrow> F \<subseteq> G \<Longrightarrow> takes G s s'"
  unfolding takes_def by blast

lemma takes_keeps: "takes F s s' \<Longrightarrow> f \<notin> F \<Longrightarrow> od_get f (ss_data s') = od_get f (ss_data s)"
  unfolding takes_def by blast

lemma takes_warned_drop [simp]: "f \<in> F \<Longrightarrow> takes F s (drop_field f r x (warn w s))"
  by (rule takes_trans [of F s "warn w s"]) simp_all

lemma checks_take:
  "takes {''ram_gb''} s (check_ram c s)" "takes {''display_size_inch''} s (check_display c s)"
  "takes {''battery_mah''} s (check_battery_mah c s)" "takes {''battery_wh''} s (check_battery_wh c s)"
  "takes {f} s (check_range_int f lo hi details s)" "takes {''volume_l''} s (check_volume s)"
  "takes {''smart_tv''} s (check_smart_tv c s)" "takes {''hdmi_count''} s (check_hdmi s)"
  by (simp_all add: check_ram_def check_display_def check_battery_mah_def check_battery_wh_def check_range_int_def check_volume_def
      check_smart_tv_def check_hdmi_def split: option.split)

lemma check_weight_takes: "takes {''weight_g'', ''weight_kg''} s (check_weight s)"
proof -
  have "takes {''weight_g'', ''weight_kg''} s (drop_field ''weight_kg'' r x (drop_field ''weight_g'' r x (warn w s)))" for r x w
    by (rule takes_trans [OF takes_warned_drop takes_drop]) simp_all
  then show ?thesis by (simp add: check_weight_def split: option.split)
qed

lemma check_appliance_takes: "takes {''volume_l'', ''power_w''} s (check_appliance c s)"
proof -
  have "takes {''volume_l'', ''power_w''} s (check_volume s)" by (rule takes_mono [OF checks_take(6)]) simp
  moreover have "takes {''volume_l'', ''power_w''} s' (check_range_int ''power_w'' lo hi d s')" for s' lo hi d
    by (rule takes_mono [OF checks_take(5)]) simp
  ultimately show ?thesis unfolding check_appliance_def by (auto intro: takes_trans)
qed

section \<open>Each check establishes its part of the contract\<close>

lemma field_drop [simp]:
  "int_field f (ss_data (drop_field f r x s)) = None" "float_field f (ss_data (drop_field f r x s)) = None"
  "g \<noteq> f \<Longrightarrow> int_field g (ss_data (drop_field f r x s)) = int_field g (ss_data s)"
  "g \<noteq> f \<Longrightarrow> float_field g (ss_data (drop_field f r x s)) = float_field g (ss_data s)"
  "g \<noteq> f \<Longrightarrow> bool_field g (ss_data (drop_field f r x s)) = bool_field g (ss_data s)"
  "bool_field f (ss_data (drop_field f r x s)) = None"
  by (auto simp: drop_field_def int_field_def float_field_def bool_field_def od_get_pop split: option.splits)

lemma field_warn [simp]: "ss_data (warn w s) = ss_data s"
  by (simp add: warn_def)

lemma checks_establish:
  "sane_ram c (ss_data (check_ram c s))" "sane_display c (ss_data (check_display c s))"
  "sane_weight (ss_data (check_weight s))" "in_int (ss_data (check_range_int f lo hi details s)) f lo hi"
  by (auto simp: check_ram_def sane_ram_def check_display_def sane_display_def check_weight_def sane_weight_def check_range_int_def in_int_def
      split: option.splits)

lemma battery_establishes: "sane_battery c (ss_data (check_battery_wh c (check_battery_mah c s)))"
  by (auto simp: check_battery_mah_def check_battery_wh_def sane_battery_def split: option.splits)

lemma appliance_establishes: "sane_appliance c (ss_data (check_appliance c s))"
  by (auto simp: check_appliance_def check_volume_def check_range_int_def sane_appliance_def in_int_def split: option.splits)

lemma connectors_establish: "sane_connectors c (ss_data (check_hdmi (check_smart_tv c s)))"
  by (auto simp: check_smart_tv_def check_hdmi_def sane_connectors_def split: option.splits)

section \<open>Sane values pass unchanged\<close>

lemma checks_idle:
  shows "sane_ram c (ss_data s) \<Longrightarrow> check_ram c s = s" and "sane_display c (ss_data s) \<Longrightarrow> check_display c s = s"
    and "sane_weight (ss_data s) \<Longrightarrow> check_weight s = s" and "in_int (ss_data s) f lo hi \<Longrightarrow> check_range_int f lo hi details s = s"
proof -
  show "sane_ram c (ss_data s) \<Longrightarrow> check_ram c s = s" by (auto simp: check_ram_def sane_ram_def split: option.splits)
  show "sane_display c (ss_data s) \<Longrightarrow> check_display c s = s" by (auto simp: check_display_def sane_display_def split: option.splits)
  show "sane_weight (ss_data s) \<Longrightarrow> check_weight s = s" by (auto simp: check_weight_def sane_weight_def split: option.splits)
  show "in_int (ss_data s) f lo hi \<Longrightarrow> check_range_int f lo hi details s = s"
    by (auto simp: check_range_int_def in_int_def split: option.splits)
qed

lemma battery_idle:
  assumes "sane_battery c (ss_data s)"
  shows "check_battery_mah c s = s" "check_battery_wh c s = s"
proof -
  show "check_battery_mah c s = s"
  proof (cases "int_field ''battery_mah'' (ss_data s)")
    case (Some mah)
    have "(c \<in> {''laptop'', ''tv'', ''appliance''} \<longrightarrow> 500 \<le> mah \<and> mah \<le> 50000)
       \<and> (c = ''laptop'' \<and> float_field ''battery_wh'' (ss_data s) = None \<longrightarrow> mah \<le> 25000)"
      using assms unfolding sane_battery_def Some option.case by (rule conjunct1)
    then have "\<not> (c \<in> {''laptop'', ''tv'', ''appliance''} \<and> (mah < 500 \<or> mah > 50000))"
      "\<not> (c = ''laptop'' \<and> float_field ''battery_wh'' (ss_data s) = None \<and> mah > 25000)"
      by (meson not_less)+
    with Some show ?thesis by (simp only: check_battery_mah_def option.case if_False)
  qed (simp add: check_battery_mah_def)
  have "c \<in> {''phone'', ''tablet''} \<longrightarrow> float_field ''battery_wh'' (ss_data s) = None"
    using assms unfolding sane_battery_def by (rule conjunct2)
  then have "\<not> (float_field ''battery_wh'' (ss_data s) \<noteq> None \<and> c \<in> {''phone'', ''tablet''})" by argo
  then show "check_battery_wh c s = s" by (simp only: check_battery_wh_def if_False)
qed

lemma appliance_idle:
  assumes "sane_appliance c (ss_data s)"
  shows "check_appliance c s = s"
proof (cases "c = ''appliance''")
  case True
  with assms have "check_volume s = s" "in_int (ss_data s) ''power_w'' 1 30000"
    by (auto simp: sane_appliance_def check_volume_def split: option.splits)
  with checks_idle(4) show ?thesis by (simp add: check_appliance_def)
qed (simp add: check_appliance_def)

lemma connectors_idle:
  assumes "sane_connectors c (ss_data s)"
  shows "check_smart_tv c s = s" "check_hdmi s = s"
proof -
  have "\<not> (bool_field ''smart_tv'' (ss_data s) = Some True \<and> c \<in> {''appliance'', ''phone''})"
    using assms unfolding sane_connectors_def by blast
  then show "check_smart_tv c s = s" by (simp only: check_smart_tv_def if_False)
  show "check_hdmi s = s"
  proof (cases "int_field ''hdmi_count'' (ss_data s)")
    case (Some n)
    with assms have "\<not> (bool_field ''hdmi'' (ss_data s) = Some False \<and> n > 0)" by (auto simp: sane_connectors_def)
    with Some show ?thesis by (simp only: check_hdmi_def option.case if_False)
  qed (simp add: check_hdmi_def)
qed

section \<open>The whole pass\<close>

definition sanity_pass :: "pystr \<Rightarrow> sanity_state \<Rightarrow> sanity_state" where
  "sanity_pass c s = check_hdmi (check_smart_tv c (check_appliance c (check_range_int ''front_camera_mp'' 1 64 ''front_camera_out_of_range''
     (check_range_int ''main_camera_mp'' 1 200 ''main_camera_out_of_range'' (check_weight (check_battery_wh c (check_battery_mah c
       (check_display c (check_ram c s)))))))))"

lemma sanity_pass_eq:
  "apply_cross_field_sanity_checks d category_hint =
    (let s = sanity_pass (lower (strip (or_empty category_hint))) \<lparr> ss_data = d, ss_warnings = [], ss_suppressed = [] \<rparr>
     in (ss_data s, dict_fromkeys (ss_warnings s), ss_suppressed s))"
  by (simp add: apply_cross_field_sanity_checks_def sanity_pass_def Let_def)

lemma sanity_pass_takes: "takes UNIV s (sanity_pass c s)"
proof -
  have t: "takes UNIV s (check_ram c s)" "takes UNIV s (check_display c s)" "takes UNIV s (check_battery_mah c s)"
    "takes UNIV s (check_battery_wh c s)" "takes UNIV s (check_weight s)" "takes UNIV s (check_range_int f lo hi details s)"
    "takes UNIV s (check_appliance c s)" "takes UNIV s (check_smart_tv c s)" "takes UNIV s (check_hdmi s)" for s f lo hi details
    using checks_take check_weight_takes check_appliance_takes by (meson takes_mono subset_UNIV)+
  show ?thesis unfolding sanity_pass_def by (intro takes_trans [OF _ t(1)] takes_trans [OF _ t(2)] takes_trans [OF _ t(3)]
      takes_trans [OF _ t(4)] takes_trans [OF _ t(5)] takes_trans [OF _ t(6)] takes_trans [OF _ t(7)] takes_trans [OF _ t(8)]
      takes_trans [OF _ t(9)] takes_refl)
qed

text \<open>The fields a part of the contract speaks of.\<close>

definition agree :: "pystr list \<Rightarrow> sanity_state \<Rightarrow> sanity_state \<Rightarrow> bool" where
  "agree fs s s' \<longleftrightarrow> list_all (\<lambda>f. od_get f (ss_data s') = od_get f (ss_data s)) fs"

lemma agree_takes: "takes F s s' \<Longrightarrow> list_all (\<lambda>f. f \<notin> F) fs \<Longrightarrow> agree fs s s'"
  by (auto simp: agree_def list_all_iff takes_keeps)

lemma agree_trans: "agree fs s s1 \<Longrightarrow> agree fs s1 s2 \<Longrightarrow> agree fs s s2"
  by (auto simp: agree_def list_all_iff)

lemma sane_agree:
  "agree [''ram_gb'', ''storage_gb''] s s' \<Longrightarrow> sane_ram c (ss_data s') = sane_ram c (ss_data s)"
  "agree [''display_size_inch''] s s' \<Longrightarrow> sane_display c (ss_data s') = sane_display c (ss_data s)"
  "agree [''battery_mah'', ''battery_wh''] s s' \<Longrightarrow> sane_battery c (ss_data s') = sane_battery c (ss_data s)"
  "agree [''weight_g'', ''weight_kg''] s s' \<Longrightarrow> sane_weight (ss_data s') = sane_weight (ss_data s)"
  "agree [f] s s' \<Longrightarrow> in_int (ss_data s') f lo hi = in_int (ss_data s) f lo hi"
  "agree [''power_w'', ''volume_l''] s s' \<Longrightarrow> sane_appliance c (ss_data s') = sane_appliance c (ss_data s)"
  by (simp_all add: agree_def sane_ram_def sane_display_def sane_battery_def sane_weight_def sane_appliance_def in_int_def
      int_field_def float_field_def cong: option.case_cong)

lemma sanity_pass_sane: "sane_specs c (ss_data (sanity_pass c s))"
proof -
  define s1 where "s1 = check_ram c s"
  define s2 where "s2 = check_display c s1"
  define s3 where "s3 = check_battery_wh c (check_battery_mah c s2)"
  define s4 where "s4 = check_weight s3"
  define s5 where "s5 = check_range_int ''main_camera_mp'' 1 200 ''main_camera_out_of_range'' s4"
  define s6 where "s6 = check_range_int ''front_camera_mp'' 1 64 ''front_camera_out_of_range'' s5"
  define s7 where "s7 = check_appliance c s6"
  define s8 where "s8 = check_hdmi (check_smart_tv c s7)"
  have t2: "takes {''display_size_inch''} s1 s2" unfolding s2_def by (rule checks_take)
  have t3: "takes {''battery_mah'', ''battery_wh''} s2 s3" unfolding s3_def
    by (rule takes_trans [OF takes_mono [OF checks_take(3)] takes_mono [OF checks_take(4)]]) auto
  have t4: "takes {''weight_g'', ''weight_kg''} s3 s4" unfolding s4_def by (rule check_weight_takes)
  have t5: "takes {''main_camera_mp''} s4 s5" unfolding s5_def by (rule checks_take)
  have t6: "takes {''front_camera_mp''} s5 s6" unfolding s6_def by (rule checks_take)
  have t7: "takes {''volume_l'', ''power_w''} s6 s7" unfolding s7_def by (rule check_appliance_takes)
  have t8: "takes {''smart_tv'', ''hdmi_count''} s7 s8" unfolding s8_def
    by (rule takes_trans [OF takes_mono [OF checks_take(7)] takes_mono [OF checks_take(8)]]) auto
  have a6: "agree fs s6 s8" if "list_all (\<lambda>f. f \<notin> {''volume_l'', ''power_w'', ''smart_tv'', ''hdmi_count''}) fs" for fs
    by (rule agree_trans [OF agree_takes [OF t7] agree_takes [OF t8]]) (use that in \<open>auto simp: list_all_iff\<close>)
  have a4: "agree fs s4 s8"
    if "list_all (\<lambda>f. f \<notin> {''main_camera_mp'', ''front_camera_mp'', ''volume_l'', ''power_w'', ''smart_tv'', ''hdmi_count''}) fs" for fs
    by (rule agree_trans [OF agree_trans [OF agree_takes [OF t5] agree_takes [OF t6]] a6]) (use that in \<open>auto simp: list_all_iff\<close>)
  have a3: "agree [''battery_mah'', ''battery_wh''] s3 s8" by (rule agree_trans [OF agree_takes [OF t4] a4]) simp_all
  have a2: "agree [''display_size_inch''] s2 s8"
    by (rule agree_trans [OF agree_trans [OF agree_takes [OF t3] agree_takes [OF t4]] a4]) simp_all
  have a1: "agree [''ram_gb'', ''storage_gb''] s1 s8"
    by (rule agree_trans [OF agree_trans [OF agree_trans [OF agree_takes [OF t2] agree_takes [OF t3]] agree_takes [OF t4]] a4]) simp_all
  have a5: "agree [''main_camera_mp''] s5 s8" by (rule agree_trans [OF agree_takes [OF t6] a6]) simp_all
  have "sane_ram c (ss_data s8)" using sane_agree(1) [OF a1] checks_establish(1) [of c s] by (simp add: s1_def)
  moreover have "sane_display c (ss_data s8)" using sane_agree(2) [OF a2] checks_establish(2) [of c s1] by (simp add: s2_def)
  moreover have "sane_battery c (ss_data s8)" using sane_agree(3) [OF a3] battery_establishes [of c s2] by (simp add: s3_def)
  moreover have "sane_weight (ss_data s8)"
    using sane_agree(4) [OF a4 [of "[''weight_g'', ''weight_kg'']"]] checks_establish(3) [of s3] by (simp add: s4_def)
  moreover have "in_int (ss_data s8) ''main_camera_mp'' 1 200" using sane_agree(5) [OF a5] checks_establish(4) by (simp add: s5_def)
  moreover have "in_int (ss_data s8) ''front_camera_mp'' 1 64"
    using sane_agree(5) [OF a6 [of "[''front_camera_mp'']"]] checks_establish(4) by (simp add: s6_def)
  moreover have "sane_appliance c (ss_data s8)"
    using sane_agree(6) [OF agree_takes [OF t8]] appliance_establishes [of c s6] by (simp add: s7_def)
  moreover have "sane_connectors c (ss_data s8)" unfolding s8_def by (rule connectors_establish)
  moreover have "sanity_pass c s = s8"
    by (simp add: sanity_pass_def s1_def s2_def s3_def s4_def s5_def s6_def s7_def s8_def)
  ultimately show ?thesis by (simp add: sane_specs_def)
qed

lemma sanity_pass_idle: "sane_specs c (ss_data s) \<Longrightarrow> sanity_pass c s = s"
  using connectors_idle(2) [of c s]
  by (simp add: sanity_pass_def sane_specs_def checks_idle battery_idle appliance_idle connectors_idle(1))

text \<open>What the checks leave and what they list, as one function of the values.\<close>

lemma sanity_checks_sane: "sane_specs (lower (strip (or_empty category_hint))) (fst (apply_cross_field_sanity_checks d category_hint))"
  by (simp add: sanity_pass_eq Let_def sanity_pass_sane)

lemma sanity_checks_listed:
  assumes "x \<in> set (snd (snd (apply_cross_field_sanity_checks d category_hint)))"
  shows "od_get (sf_field_name x) d \<noteq> None" and "od_get (sf_field_name x) (fst (apply_cross_field_sanity_checks d category_hint)) = None"
  using assms sanity_pass_takes [of "\<lparr> ss_data = d, ss_warnings = [], ss_suppressed = [] \<rparr>" "lower (strip (or_empty category_hint))"]
  unfolding takes_def by (simp_all add: sanity_pass_eq Let_def)

lemma sanity_checks_kept:
  "od_get f (fst (apply_cross_field_sanity_checks d category_hint)) =
    (if f \<in> sf_field_name ` set (snd (snd (apply_cross_field_sanity_checks d category_hint))) then None else od_get f d)"
proof (cases "f \<in> sf_field_name ` set (snd (snd (apply_cross_field_sanity_checks d category_hint)))")
  case True
  with sanity_checks_listed(2) show ?thesis by auto
next
  case False
  with sanity_pass_takes [of "\<lparr> ss_data = d, ss_warnings = [], ss_suppressed = [] \<rparr>" "lower (strip (or_empty category_hint))"]
  show ?thesis unfolding takes_def by (force simp: sanity_pass_eq Let_def)
qed

lemma sanity_checks_idle:
  "sane_specs (lower (strip (or_empty category_hint))) d \<Longrightarrow> apply_cross_field_sanity_checks d category_hint = (d, [], [])"
  using sanity_pass_idle [of "lower (strip (or_empty category_hint))" "\<lparr> ss_data = d, ss_warnings = [], ss_suppressed = [] \<rparr>"]
  by (simp add: sanity_pass_eq Let_def)


end
