(* ===== verification/Spec_Mapper.thy ===== *)
theory Spec_Mapper imports Spec_Registry Spec_Sanity begin

text \<open>
  \<^verbatim>\<open>application/extractors/spec_mapper.py\<close>, \<open>spec_coverage.py\<close> and \<open>spec_quality.py\<close>: from the raw
  specifications of a product to typed fields.  The readers of single values
  (\<open>normalize_field_value\<close>, \<open>normalize_storage\<close>) and the answer of the rollout policy are
  arguments.  Logging is left out.
\<close>

record spec_ctx =
  sx_settings :: spec_settings
  sx_registry :: spec_registry
  sx_float_text :: "rat \<Rightarrow> pystr"
  sx_normalize_field_value :: "pystr \<Rightarrow> pystr \<Rightarrow> spec_value option"
  sx_normalize_storage :: "pystr \<Rightarrow> int option"
  sx_rollout :: "pystr \<Rightarrow> bool"

type_synonym raw_specs = "(pystr, pystr) odict"

record mapper_state =
  mp_warnings :: "pystr list"
  mp_candidates :: "(pystr, candidate list) odict"
  mp_mapped :: "pystr list"
  mp_deprecated :: "pystr list"
  mp_unmapped :: "pystr list"

definition mp_warn :: "pystr \<Rightarrow> mapper_state \<Rightarrow> mapper_state" where
  "mp_warn code s = s\<lparr>mp_warnings := mp_warnings s @ [code]\<rparr>"

definition mp_add :: "pystr \<Rightarrow> candidate \<Rightarrow> pystr \<Rightarrow> mapper_state \<Rightarrow> mapper_state" where
  "mp_add field c raw_key s = s\<lparr>
     mp_candidates := od_set field ((case od_get field (mp_candidates s) of None \<Rightarrow> [] | Some cs \<Rightarrow> cs) @ [c]) (mp_candidates s),
     mp_mapped := (if raw_key \<in> set (mp_mapped s) then mp_mapped s else mp_mapped s @ [raw_key])\<rparr>"

definition make_meta :: "pystr \<Rightarrow> pystr \<Rightarrow> int option \<Rightarrow> bool \<Rightarrow> pystr list \<Rightarrow> candidate_meta" where
  "make_meta nk typed_field priority deprecated extra =
    (let direct = (nk \<in> set TYPED_FIELDS \<and> typed_field = nk) in
     \<lparr> cdm_direct_key = direct, cdm_rule_priority = priority, cdm_deprecated_alias = deprecated,
       cdm_ambiguous_alias = (\<not> direct \<and> length nk < 4), cdm_missing_unit = None,
       cdm_store_override_exact_match = (case priority of Some p \<Rightarrow> p \<ge> 70 | None \<Rightarrow> False), cdm_corrected_value = False,
       cdm_implausible_hint = False, cdm_extra_warnings = extra \<rparr>)"

text \<open>The named checkers; the readers of the fields that have one give numbers.\<close>

definition plausible_by_name :: "pystr \<Rightarrow> spec_value \<Rightarrow> bool option" where
  "plausible_by_name name v =
    (let whole = (\<lambda>p. case number_of v of Some q \<Rightarrow> p (truncated q) | None \<Rightarrow> False);
         part = (\<lambda>p. case number_of v of Some q \<Rightarrow> p q | None \<Rightarrow> False)
     in if name = ''is_plausible_ram_gb'' then Some (whole is_plausible_ram_gb)
        else if name = ''is_plausible_storage_gb'' then Some (whole is_plausible_storage_gb)
        else if name = ''is_plausible_display_size'' then Some (part is_plausible_display_size)
        else if name = ''is_plausible_battery_mah'' then Some (whole is_plausible_battery_mah)
        else if name = ''is_plausible_weight_g'' then Some (whole is_plausible_weight_g)
        else if name = ''is_plausible_weight_kg'' then Some (part is_plausible_weight_kg)
        else None)"

definition is_plausible_for_field :: "pystr \<Rightarrow> spec_value \<Rightarrow> pystr option \<Rightarrow> bool" where
  "is_plausible_for_field field v checker = (case plausible_by_name (or_empty checker) v of
       Some b \<Rightarrow> b | None \<Rightarrow> is_plausible_typed_value field v)"

text \<open>The number before a unit of inches, and the first number of a text with \<open>mah\<close>.\<close>

definition inches_at :: "pystr \<Rightarrow> pystr option" where
  "inches_at s =
    (let a = takeWhile is_digit s; r = dropWhile is_digit s;
         (sep, r1) = (case r of [] \<Rightarrow> ([], []) | c # t \<Rightarrow> if c \<in> set ''.,'' then (''.'', t) else ([], r));
         b = takeWhile is_digit r1; unit = dropWhile is_py_space (dropWhile is_digit r1)
     in if a \<noteq> [] \<and> (starts_with ''inch'' (lower unit) \<or> starts_with [CHR 0x22] unit) then Some (a @ sep @ b) else None)"

fun search_inches :: "pystr \<Rightarrow> pystr option" where
  "search_inches [] = None"
| "search_inches (c # s) = (case inches_at (c # s) of Some x \<Rightarrow> Some x | None \<Rightarrow> search_inches s)"

definition first_digits :: "pystr \<Rightarrow> pystr" where
  "first_digits s = takeWhile is_digit (dropWhile (\<lambda>c. \<not> is_digit c) s)"

definition unreadable_but_out_of_range :: "pystr \<Rightarrow> pystr \<Rightarrow> bool" where
  "unreadable_but_out_of_range field raw =
    ((field = ''battery_mah'' \<and> contains ''mah'' (lower raw) \<and> first_digits raw \<noteq> []
       \<and> \<not> is_plausible_battery_mah (int (digits_value 0 (first_digits raw))))
     \<or> (field = ''display_size_inch'' \<and> (case search_inches raw of Some t \<Rightarrow>
          (case py_float t of Some x \<Rightarrow> \<not> is_plausible_display_size x | None \<Rightarrow> False) | None \<Rightarrow> False)))"

definition collect_into ::
    "spec_ctx \<Rightarrow> category_policy \<Rightarrow> (pystr, field_definition) odict \<Rightarrow> pystr list \<Rightarrow> pystr \<Rightarrow> pystr \<Rightarrow> pystr
      \<Rightarrow> pystr \<Rightarrow> int option \<Rightarrow> bool \<Rightarrow> mapper_state \<Rightarrow> mapper_state" where
  "collect_into k policy field_defs disables nk raw_key raw field priority deprecated s =
    (let cand = (\<lambda>v f extra. \<lparr> cd_raw_label = raw_key, cd_raw_value = raw, cd_value = v, cd_meta = make_meta nk f priority deprecated extra \<rparr>);
         read = sx_normalize_field_value k field raw;
         swapped = (case sx_normalize_storage k raw of Some n \<Rightarrow> if is_plausible_storage_gb n then Some n else None | None \<Rightarrow> None)
     in if field \<in> set disables then mp_warn ''field_disabled_by_store_override'' s
        else if field \<notin> set (cp_enabled_fields policy) then mp_warn ''category_mismatch'' s
        else if field = ''ram_gb'' \<and> read = None \<and> swapped \<noteq> None
        then mp_add ''storage_gb'' (cand (Int_value (the swapped)) ''storage_gb'' [''ram_storage_swap_suspected'']) raw_key
          (mp_warn ''ram_storage_swap_suspected'' s)
        else (case read of
            None \<Rightarrow> if unreadable_but_out_of_range field raw then mp_warn ''implausible_value'' s else s
          | Some v \<Rightarrow>
             (if \<not> is_plausible_for_field field v (case od_get field field_defs of Some fd \<Rightarrow> fd_plausibility_checker fd | None \<Rightarrow> None)
              then mp_warn ''implausible_value'' s
              else mp_add field (cand v field []) raw_key s)))"

definition collect_candidate_from_target ::
    "spec_ctx \<Rightarrow> category_policy \<Rightarrow> (pystr, field_definition) odict \<Rightarrow> pystr list \<Rightarrow> pystr \<Rightarrow> pystr \<Rightarrow> pystr
      \<Rightarrow> pystr \<times> int option \<times> bool \<Rightarrow> mapper_state \<Rightarrow> mapper_state" where
  "collect_candidate_from_target k policy field_defs disables nk raw_key raw target s =
    (case target of (field, priority, deprecated) \<Rightarrow>
       collect_into k policy field_defs disables nk raw_key raw field priority deprecated
         (if deprecated \<and> ENABLE_DEPRECATED_ALIAS_WARNINGS (sx_settings k)
          then mp_warn ''deprecated_alias'' (s\<lparr>mp_deprecated := mp_deprecated s @ [nk]\<rparr>) else s))"

definition collect_label ::
    "spec_ctx \<Rightarrow> category_policy \<Rightarrow> (pystr, field_definition) odict \<Rightarrow> pystr list \<Rightarrow> pystr option \<Rightarrow> pystr option
      \<Rightarrow> pystr \<times> pystr \<Rightarrow> mapper_state \<Rightarrow> mapper_state" where
  "collect_label k policy field_defs disables category_hint st entry s =
    (let (raw_key, raw) = entry; nk = rg_normalize_label (sx_registry k) raw_key;
         targets = resolve_rule_targets (sx_registry k) category_hint st nk
     in if strip raw_key = [] \<or> strip raw = [] then s
        else if targets = [] then s\<lparr>mp_unmapped := mp_unmapped s @ [raw_key]\<rparr>
        else fold (collect_candidate_from_target k policy field_defs disables nk raw_key raw) targets s)"

section \<open>Resolving the fields\<close>

record mapping_result =
  mr_specs :: typed_specs
  mr_warnings :: "pystr list"
  mr_mapped_count :: nat
  mr_unmapped_count :: nat
  mr_unmapped_labels :: "pystr list"
  mr_conflicting :: "pystr list"
  mr_deprecated_hits :: "pystr list"
  mr_field_confidence :: "(pystr, field_confidence) odict"
  mr_suppressed :: "suppressed_field list"
  mr_mapping_ratio :: rat

definition raw_total :: "raw_specs \<Rightarrow> nat" where
  "raw_total raw = length (filter (\<lambda>(k, v). strip k \<noteq> [] \<and> strip v \<noteq> []) raw)"

definition calculate_mapping_ratio :: "raw_specs \<Rightarrow> nat \<Rightarrow> rat" where
  "calculate_mapping_ratio raw mapped =
    (let n = raw_total raw in
     if n = 0 then 1 else min 1 (max 0 (of_nat mapped / of_nat n)))"

fun position :: "'a \<Rightarrow> 'a list \<Rightarrow> nat option" where
  "position x [] = None"
| "position x (y # ys) = (case position x ys of Some i \<Rightarrow> Some (Suc i) | None \<Rightarrow> if x = y then Some 0 else None)"

definition extraction_order :: "category_policy \<Rightarrow> pystr list \<Rightarrow> pystr list" where
  "extraction_order policy names =
    sort_key (\<lambda>f. case position f (cp_extraction_priority_order policy) of Some i \<Rightarrow> i | None \<Rightarrow> 999) (sort names)"

definition settle_field :: "spec_ctx \<Rightarrow> pystr option \<Rightarrow> mapper_state \<Rightarrow> pystr \<Rightarrow> mapping_result \<Rightarrow> mapping_result" where
  "settle_field k category_hint s f m =
    (let r = resolve_typed_field_candidates (sx_float_text k) (sx_settings k) f
           (case od_get f (mp_candidates s) of Some cs \<Rightarrow> cs | None \<Rightarrow> []) category_hint;
         m1 = m\<lparr>mr_suppressed := mr_suppressed m @ rs_suppressed r,
                mr_conflicting := (if ''conflicting_values'' \<in> set (rs_warnings r) then mr_conflicting m @ [f] else mr_conflicting m),
                mr_warnings := foldl (\<lambda>ws w. if w \<in> set ws then ws else ws @ [w]) (mr_warnings m) (rs_warnings r)\<rparr>
     in case (rs_chosen r, rs_confidences r) of
          (Some v, [fc]) \<Rightarrow>
            m1\<lparr>mr_field_confidence := (if ENABLE_TYPED_SPEC_CONFIDENCE (sx_settings k) then od_set f fc (mr_field_confidence m1)
                else mr_field_confidence m1), mr_specs := od_set f v (mr_specs m1)\<rparr>
        | _ \<Rightarrow> m1)"

definition no_mapping :: mapping_result where
  "no_mapping = \<lparr> mr_specs = [], mr_warnings = [], mr_mapped_count = 0, mr_unmapped_count = 0, mr_unmapped_labels = [], mr_conflicting = [], mr_deprecated_hits = [],
     mr_field_confidence = [], mr_suppressed = [], mr_mapping_ratio = 0 \<rparr>"

definition collect_all :: "spec_ctx \<Rightarrow> category_policy \<Rightarrow> raw_specs \<Rightarrow> pystr option \<Rightarrow> pystr option \<Rightarrow> mapper_state" where
  "collect_all k policy raw category_hint st =
    fold (collect_label k policy (get_field_definitions (sx_registry k) policy category_hint)
        (if st = None then [] else merged_field_disables (sx_registry k) (or_empty st) category_hint) category_hint st) raw
      \<lparr> mp_warnings = [], mp_candidates = [], mp_mapped = [], mp_deprecated = [], mp_unmapped = [] \<rparr>"

text \<open>The store as the mapping reads it, and the fields its overrides disable.\<close>

definition mapping_store :: "pystr option \<Rightarrow> pystr option" where
  "mapping_store store = (let t = strip (or_empty store) in if t = [] then None else Some t)"

definition disabled_fields :: "spec_ctx \<Rightarrow> pystr option \<Rightarrow> pystr option \<Rightarrow> pystr list" where
  "disabled_fields k category_hint store =
    (if mapping_store store = None then [] else merged_field_disables (sx_registry k) (or_empty (mapping_store store)) category_hint)"

definition map_raw_specs_to_typed_partial :: "spec_ctx \<Rightarrow> raw_specs \<Rightarrow> pystr option \<Rightarrow> pystr option \<Rightarrow> exc + mapping_result" where
  "map_raw_specs_to_typed_partial k raw category_hint store_name =
    (let st = mapping_store store_name in
     if st \<noteq> None \<and> \<not> sx_rollout k (or_empty st)
     then Inr (no_mapping\<lparr>mr_warnings := [''typed_specs_mapping_disabled_by_rollout''], mr_unmapped_count := raw_total raw\<rparr>)
     else (case get_category_policy (sx_registry k) category_hint of
         Inl x \<Rightarrow> Inl x
       | Inr policy \<Rightarrow>
          (let s = collect_all k policy raw category_hint st;
               m = fold (settle_field k category_hint s) (extraction_order policy (od_keys (mp_candidates s)))
                 (no_mapping\<lparr>mr_warnings := mp_warnings s\<rparr>)
           in Inr (m\<lparr>mr_warnings := dict_fromkeys (mr_warnings m), mr_mapped_count := length (mp_mapped s),
                mr_unmapped_count := length (mp_unmapped s), mr_unmapped_labels := mp_unmapped s,
                mr_conflicting := dict_fromkeys (mr_conflicting m), mr_deprecated_hits := mp_deprecated s,
                mr_mapping_ratio := calculate_mapping_ratio raw (length (mp_mapped s))\<rparr>))))"

section \<open>Quality\<close>

record quality_summary =
  qs_mapping_ratio :: "rat option"
  qs_confident_fields :: nat
  qs_low_confidence_fields :: nat
  qs_suppressed_fields :: nat
  qs_conflicts :: nat
  qs_warnings :: nat

definition build_normalization_quality_summary ::
    "spec_settings \<Rightarrow> pystr option \<Rightarrow> (pystr, field_confidence) odict \<Rightarrow> suppressed_field list \<Rightarrow> pystr list \<Rightarrow> pystr list \<Rightarrow> rat option
      \<Rightarrow> typed_specs \<Rightarrow> quality_summary" where
  "build_normalization_quality_summary k category_hint confidences suppressed conflicting warnings mapping_ratio specs =
    (let thr = get_min_confidence_for_category k category_hint; emitted = od_keys specs;
         sure = length (filter (\<lambda>f. case od_get f confidences of Some fc \<Rightarrow> fc_confidence fc \<ge> thr
           | None \<Rightarrow> \<not> ENABLE_TYPED_SPEC_CONFIDENCE k) emitted);
         by_reason = (\<lambda>code. length (filter (\<lambda>x. sf_reason_code x = code) suppressed))
     in if \<not> ENABLE_NORMALIZATION_QUALITY_SUMMARY k
        then \<lparr> qs_mapping_ratio = None, qs_confident_fields = 0, qs_low_confidence_fields = 0, qs_suppressed_fields = 0, qs_conflicts = 0, qs_warnings = 0 \<rparr>
        else \<lparr> qs_mapping_ratio = mapping_ratio, qs_confident_fields = (if sure = 0 then length emitted else sure),
               qs_low_confidence_fields = by_reason ''suppressed_by_confidence'', qs_suppressed_fields = length suppressed,
               qs_conflicts = length (remdups conflicting) + by_reason ''suppressed_by_conflict'', qs_warnings = length warnings \<rparr>)"

section \<open>The typed part of the pipeline\<close>

text \<open>The middle of \<open>NormalizePipeline._process_item_inner\<close>: mapping, then the checks across fields.\<close>

record typed_result =
  ty_specs :: typed_specs
  ty_field_confidence :: "(pystr, field_confidence) odict"
  ty_suppressed :: "suppressed_field list"
  ty_warnings :: "pystr list"
  ty_quality :: quality_summary

definition type_specs :: "spec_ctx \<Rightarrow> raw_specs \<Rightarrow> pystr option \<Rightarrow> pystr option \<Rightarrow> exc + typed_result" where
  "type_specs k raw category_hint store = (case map_raw_specs_to_typed_partial k raw category_hint store of
       Inl x \<Rightarrow> Inl x
     | Inr m \<Rightarrow>
        (case apply_cross_field_sanity_checks (mr_specs m) category_hint of
           (specs, warnings, dropped) \<Rightarrow>
             (let fcs = filter (\<lambda>(f, fc). f \<notin> sf_field_name ` set dropped) (mr_field_confidence m);
                  suppressed = mr_suppressed m @ dropped; ws = dict_fromkeys (mr_warnings m @ warnings)
              in Inr \<lparr> ty_specs = specs, ty_field_confidence = fcs, ty_suppressed = suppressed, ty_warnings = ws,
                   ty_quality = build_normalization_quality_summary (sx_settings k) category_hint fcs suppressed (mr_conflicting m) ws
                     (Some (mr_mapping_ratio m)) specs \<rparr>)))"

section \<open>Where a typed value comes from\<close>

text \<open>
  A value of a field was read from some raw specification; only a memory size that is no
  RAM size ends up in a field its label does not name.
\<close>

definition read_from :: "spec_ctx \<Rightarrow> category_policy \<Rightarrow> pystr list \<Rightarrow> raw_specs \<Rightarrow> pystr \<Rightarrow> candidate \<Rightarrow> bool" where
  "read_from k policy disables raw f c \<longleftrightarrow> (cd_raw_label c, cd_raw_value c) \<in> set raw
     \<and> ((f \<in> set (cp_enabled_fields policy) \<and> f \<notin> set disables \<and> sx_normalize_field_value k f (cd_raw_value c) = Some (cd_value c))
        \<or> (f = ''storage_gb'' \<and> ''ram_gb'' \<in> set (cp_enabled_fields policy) \<and> ''ram_gb'' \<notin> set disables
            \<and> map_option Int_value (sx_normalize_storage k (cd_raw_value c)) = Some (cd_value c)))"

definition all_read :: "spec_ctx \<Rightarrow> category_policy \<Rightarrow> pystr list \<Rightarrow> raw_specs \<Rightarrow> mapper_state \<Rightarrow> bool" where
  "all_read k policy disables raw s \<longleftrightarrow>
    (\<forall>f cs c. od_get f (mp_candidates s) = Some cs \<and> c \<in> set cs \<longrightarrow> read_from k policy disables raw f c)"

lemma all_read_warn [simp]: "all_read k policy disables raw (mp_warn w s) = all_read k policy disables raw s"
  by (simp add: all_read_def mp_warn_def)

lemma all_read_other [simp]:
  "all_read k policy disables raw (s\<lparr>mp_deprecated := x\<rparr>) = all_read k policy disables raw s"
  "all_read k policy disables raw (s\<lparr>mp_unmapped := x\<rparr>) = all_read k policy disables raw s"
  by (simp_all add: all_read_def)

lemma all_read_add: "all_read k policy disables raw s \<Longrightarrow> read_from k policy disables raw f c \<Longrightarrow> all_read k policy disables raw (mp_add f c l s)"
  by (cases "od_get f (mp_candidates s)") (auto simp: all_read_def mp_add_def od_get_set)

lemma collect_into_read:
  assumes "all_read k policy disables raw s" and "(raw_key, text) \<in> set raw"
  shows "all_read k policy disables raw (collect_into k policy field_defs disables nk raw_key text f p d s)"
proof (cases "f \<in> set disables \<or> f \<notin> set (cp_enabled_fields policy)")
  case True
  with assms show ?thesis by (auto simp: collect_into_def Let_def)
next
  case False
  show ?thesis
  proof (cases "sx_normalize_field_value k f text")
    case None
    with False assms show ?thesis
      by (cases "sx_normalize_storage k text") (auto simp: collect_into_def Let_def read_from_def intro!: all_read_add)
  next
    case (Some v)
    with False assms show ?thesis
      by (auto simp: collect_into_def Let_def read_from_def intro!: all_read_add)
  qed
qed

lemma collect_target_read:
  assumes "all_read k policy disables raw s" and "(raw_key, text) \<in> set raw"
  shows "all_read k policy disables raw (collect_candidate_from_target k policy field_defs disables nk raw_key text target s)"
proof (cases target)
  case (fields f p d)
  define s1 where "s1 = (if d \<and> ENABLE_DEPRECATED_ALIAS_WARNINGS (sx_settings k)
      then mp_warn ''deprecated_alias'' (s\<lparr>mp_deprecated := mp_deprecated s @ [nk]\<rparr>) else s)"
  have s1: "all_read k policy disables raw s1" using assms(1) by (simp add: s1_def)
  have eq: "collect_candidate_from_target k policy field_defs disables nk raw_key text target s =
      collect_into k policy field_defs disables nk raw_key text f p d s1"
    by (simp add: collect_candidate_from_target_def fields s1_def)
  from collect_into_read [OF s1 assms(2)] show ?thesis by (simp add: eq)
qed

lemma collect_targets_read:
  assumes "(raw_key, text) \<in> set raw"
  shows "all_read k policy disables raw s
    \<Longrightarrow> all_read k policy disables raw (fold (collect_candidate_from_target k policy field_defs disables nk raw_key text) targets s)"
  by (induction targets arbitrary: s) (simp_all add: collect_target_read assms)

lemma collect_label_read:
  assumes "all_read k policy disables raw s" and "entry \<in> set raw"
  shows "all_read k policy disables raw (collect_label k policy field_defs disables category_hint st entry s)"
  using assms collect_targets_read by (cases entry) (auto simp: collect_label_def Let_def)

lemma collect_labels_read:
  "set entries \<subseteq> set raw \<Longrightarrow> all_read k policy disables raw s
    \<Longrightarrow> all_read k policy disables raw (fold (collect_label k policy field_defs disables category_hint st) entries s)"
  by (induction entries arbitrary: s) (auto intro: collect_label_read)

lemma collect_all_read:
  "all_read k policy (if st = None then [] else merged_field_disables (sx_registry k) (or_empty st) category_hint) raw
    (collect_all k policy raw category_hint st)"
  unfolding collect_all_def by (rule collect_labels_read) (auto simp: all_read_def od_get_def)

text \<open>What holds of the mapped fields while they are settled one by one.\<close>

definition well_mapped ::
    "spec_ctx \<Rightarrow> pystr option \<Rightarrow> mapper_state \<Rightarrow> mapping_result \<Rightarrow> bool" where
  "well_mapped k category_hint s m \<longleftrightarrow>
    (\<forall>f v. od_get f (mr_specs m) = Some v \<longrightarrow> (\<exists>cs c. od_get f (mp_candidates s) = Some cs \<and> c \<in> set cs \<and> cd_value c = v)
       \<and> is_plausible_typed_value f v)
    \<and> (ENABLE_TYPED_SPEC_CONFIDENCE (sx_settings k)
       \<longrightarrow> (\<forall>f. (od_get f (mr_specs m) = None) = (od_get f (mr_field_confidence m) = None)))
    \<and> (\<forall>f fc. od_get f (mr_field_confidence m) = Some fc \<longrightarrow> confident fc \<and> \<not> should_suppress_field (sx_settings k) fc category_hint)"

lemma settle_field_well:
  assumes "well_mapped k category_hint s m"
  shows "well_mapped k category_hint s (settle_field k category_hint s f m)"
proof -
  define cs where "cs = (case od_get f (mp_candidates s) of Some cs \<Rightarrow> cs | None \<Rightarrow> [])"
  define r where "r = resolve_typed_field_candidates (sx_float_text k) (sx_settings k) f cs category_hint"
  have r: "resolved_well (sx_settings k) f category_hint cs r" unfolding r_def by (rule resolved_well_resolution)
  define m1 where "m1 = m\<lparr>mr_suppressed := mr_suppressed m @ rs_suppressed r,
      mr_conflicting := (if ''conflicting_values'' \<in> set (rs_warnings r) then mr_conflicting m @ [f] else mr_conflicting m),
      mr_warnings := foldl (\<lambda>ws w. if w \<in> set ws then ws else ws @ [w]) (mr_warnings m) (rs_warnings r)\<rparr>"
  have m1: "well_mapped k category_hint s m1" using assms by (simp add: well_mapped_def m1_def)
  have eq: "settle_field k category_hint s f m = (case (rs_chosen r, rs_confidences r) of
          (Some v, [fc]) \<Rightarrow>
            m1\<lparr>mr_field_confidence := (if ENABLE_TYPED_SPEC_CONFIDENCE (sx_settings k) then od_set f fc (mr_field_confidence m1)
                else mr_field_confidence m1), mr_specs := od_set f v (mr_specs m1)\<rparr>
        | _ \<Rightarrow> m1)"
    by (simp only: settle_field_def Let_def r_def cs_def m1_def)
  show ?thesis
  proof (cases "rs_chosen r")
    case None
    with m1 show ?thesis by (simp add: eq)
  next
    case (Some v)
    with r obtain fc where v: "v \<in> cd_value ` set cs" "is_plausible_typed_value f v" and fc: "rs_confidences r = [fc]"
        "confident fc" "\<not> should_suppress_field (sx_settings k) fc category_hint"
      by (auto simp: resolved_well_def)
    from v(1) have "\<exists>cs c. od_get f (mp_candidates s) = Some cs \<and> c \<in> set cs \<and> cd_value c = v"
      by (cases "od_get f (mp_candidates s)") (auto simp: cs_def)
    with m1 v(2) fc Some show ?thesis
      by (simp add: eq well_mapped_def od_get_set)
  qed
qed

lemma settle_fields_well:
  "well_mapped k category_hint s m \<Longrightarrow> well_mapped k category_hint s (fold (settle_field k category_hint s) fs m)"
  by (induction fs arbitrary: m) (simp_all add: settle_field_well)

lemma mapped_fields:
  assumes "map_raw_specs_to_typed_partial k raw category_hint store = Inr m"
  obtains "mr_specs m = []" "mr_field_confidence m = []"
  | policy s where "get_category_policy (sx_registry k) category_hint = Inr policy" and "well_mapped k category_hint s m"
      and "all_read k policy (disabled_fields k category_hint store) raw s"
      and "mapping_store store = None \<or> sx_rollout k (or_empty (mapping_store store))"
proof (cases "mapping_store store \<noteq> None \<and> \<not> sx_rollout k (or_empty (mapping_store store))")
  case True
  with assms have "m = no_mapping\<lparr>mr_warnings := [''typed_specs_mapping_disabled_by_rollout''], mr_unmapped_count := raw_total raw\<rparr>"
    unfolding map_raw_specs_to_typed_partial_def
      by (simp add: Let_def)
  then show thesis by (intro that(1)) (simp_all add: no_mapping_def)
next
  case False
  note m = assms [unfolded map_raw_specs_to_typed_partial_def Let_def if_not_P [OF False]]
  show thesis
  proof (cases "get_category_policy (sx_registry k) category_hint")
    case (Inl x)
    with m show thesis by simp
  next
    case (Inr policy)
    define s where "s = collect_all k policy raw category_hint (mapping_store store)"
    define m0 where "m0 = fold (settle_field k category_hint s) (extraction_order policy (od_keys (mp_candidates s))) (no_mapping\<lparr>mr_warnings := mp_warnings s\<rparr>)"
    have "well_mapped k category_hint s m0"
      unfolding m0_def by (rule settle_fields_well) (simp add: well_mapped_def no_mapping_def od_get_def)
    moreover have "mr_specs m = mr_specs m0 \<and> mr_field_confidence m = mr_field_confidence m0"
      using m by (auto simp: Inr s_def m0_def)
    ultimately have "well_mapped k category_hint s m" by (simp add: well_mapped_def)
    moreover have "all_read k policy (disabled_fields k category_hint store) raw s"
      unfolding s_def disabled_fields_def by (rule collect_all_read)
    ultimately show thesis using Inr False by (intro that(2)) simp_all
  qed
qed

text \<open>C21. A typed value the pipeline stores was read from a raw specification of the product by a reader of that field,
  where the category has the field and the store has not disabled it (only a size filed as memory may
  become a storage size); it is plausible, the fields together meet the contract of the
  category, and with confidences switched on each field has one, at least the threshold of the
  category when suppression is on; for a store outside the rollout there is no value at all.\<close>

theorem typed_specs_justified:
  assumes "type_specs k raw category_hint store = Inr t" and "od_get f (ty_specs t) = Some v"
  shows "\<exists>policy c. get_category_policy (sx_registry k) category_hint = Inr policy
    \<and> cd_value c = v \<and> read_from k policy (disabled_fields k category_hint store) raw f c
    \<and> is_plausible_typed_value f v \<and> sane_specs (lower (strip (or_empty category_hint))) (ty_specs t)
    \<and> (mapping_store store = None \<or> sx_rollout k (or_empty (mapping_store store)))
    \<and> (ENABLE_TYPED_SPEC_CONFIDENCE (sx_settings k) \<longrightarrow> (\<exists>fc. od_get f (ty_field_confidence t) = Some fc \<and> confident fc
        \<and> (ENABLE_TYPED_SPEC_SUPPRESSION (sx_settings k) \<longrightarrow> get_min_confidence_for_category (sx_settings k) category_hint \<le> fc_confidence fc)))"
proof -
  obtain m where m: "map_raw_specs_to_typed_partial k raw category_hint store = Inr m"
    using assms(1) by (cases "map_raw_specs_to_typed_partial k raw category_hint store") (simp_all add: type_specs_def)
  define res where "res = apply_cross_field_sanity_checks (mr_specs m) category_hint"
  define gone where "gone = sf_field_name ` set (snd (snd res))"
  have t: "ty_specs t = fst res" "ty_field_confidence t = filter (\<lambda>(f, fc). f \<notin> gone) (mr_field_confidence m)"
    using assms(1) m by (auto simp: type_specs_def Let_def res_def gone_def split: prod.splits)
  have "od_get f (fst res) = (if f \<in> gone then None else od_get f (mr_specs m))"
    unfolding res_def gone_def by (rule sanity_checks_kept)
  with assms(2) have f: "f \<notin> gone" "od_get f (mr_specs m) = Some v" by (auto simp: t split: if_splits)
  have fc: "od_get f (ty_field_confidence t) = od_get f (mr_field_confidence m)"
    using od_get_filter_key [of f "\<lambda>f. f \<notin> gone" "mr_field_confidence m"] f(1) by (simp add: t)
  have sane: "sane_specs (lower (strip (or_empty category_hint))) (ty_specs t)"
    unfolding t res_def by (rule sanity_checks_sane)
  from m show ?thesis
  proof (cases rule: mapped_fields)
    case 1
    with f(2) show ?thesis by (simp add: od_get_def)
  next
    case (2 policy s)
    from 2(2) f(2) obtain cs c where c: "od_get f (mp_candidates s) = Some cs" "c \<in> set cs" "cd_value c = v"
      and plausible: "is_plausible_typed_value f v" unfolding well_mapped_def by blast
    from 2(3) c(1,2) have read: "read_from k policy (disabled_fields k category_hint store) raw f c" by (simp add: all_read_def)
    have "\<exists>fc. od_get f (ty_field_confidence t) = Some fc \<and> confident fc
        \<and> (ENABLE_TYPED_SPEC_SUPPRESSION (sx_settings k) \<longrightarrow> get_min_confidence_for_category (sx_settings k) category_hint \<le> fc_confidence fc)"
      if on: "ENABLE_TYPED_SPEC_CONFIDENCE (sx_settings k)"
    proof -
      from 2(2) on have "(od_get f (mr_specs m) = None) = (od_get f (mr_field_confidence m) = None)" unfolding well_mapped_def by blast
      with f(2) obtain x where x: "od_get f (mr_field_confidence m) = Some x" by auto
      with 2(2) have "confident x \<and> \<not> should_suppress_field (sx_settings k) x category_hint" unfolding well_mapped_def by blast
      with x on show ?thesis by (auto simp: fc should_suppress_field_def)
    qed
    with 2(1,4) c(3) read plausible sane show ?thesis by blast
  qed
qed


text \<open>A phone with one specification, under the name of its field.\<close>

definition example_spec_ctx :: spec_ctx where
  "example_spec_ctx = \<lparr>
     sx_settings = \<lparr> ENABLE_TYPED_SPEC_CONFIDENCE = True, ENABLE_TYPED_SPEC_SUPPRESSION = True, ENABLE_DEPRECATED_ALIAS_WARNINGS = True,
       ENABLE_NORMALIZATION_QUALITY_SUMMARY = True, TYPED_SPEC_MIN_CONFIDENCE_DEFAULT = 1 / 2, TYPED_SPEC_MIN_CONFIDENCE_PHONE = 1 / 2,
       TYPED_SPEC_MIN_CONFIDENCE_LAPTOP = 1 / 2, TYPED_SPEC_MIN_CONFIDENCE_TV = 1 / 2, TYPED_SPEC_MIN_CONFIDENCE_TABLET = 1 / 2,
       TYPED_SPEC_MIN_CONFIDENCE_APPLIANCE = 1 / 2 \<rparr>,
     sx_registry = \<lparr> rg_normalize_label = (\<lambda>s. s), rg_overrides_enabled = True,
       rg_tables = \<lparr> tb_field_definitions = [(''ram_gb'', \<lparr> fd_supported_categories = [''phone''], fd_plausibility_checker = Some ''is_plausible_ram_gb'' \<rparr>)],
         tb_alias_rules = [], tb_category_policies = [(''phone'', \<lparr> cp_enabled_fields = [''ram_gb''], cp_extraction_priority_order = [''ram_gb''] \<rparr>)],
         tb_store_overrides = [] \<rparr> \<rparr>,
     sx_float_text = (\<lambda>q. []), sx_normalize_field_value = (\<lambda>f t. if t = ''8 GB'' then Some (Int_value 8) else None),
     sx_normalize_storage = (\<lambda>t. None), sx_rollout = (\<lambda>st. True) \<rparr>"

definition example_typed :: "exc + typed_result" where
  "example_typed = type_specs example_spec_ctx [(''ram_gb'', ''8 GB'')] (Some ''phone'') (Some ''shop'')"

lemma example_typed_value: "\<not> isl example_typed" "od_get ''ram_gb'' (ty_specs (projr example_typed)) = Some (Int_value 8)"
  by code_simp+

lemma typed_specs_justified_witness:
  "od_get ''ram_gb'' (ty_specs (projr example_typed)) = Some (Int_value 8)
    \<and> (\<exists>fc. od_get ''ram_gb'' (ty_field_confidence (projr example_typed)) = Some fc \<and> 1 / 2 \<le> fc_confidence fc)"
proof -
  have "type_specs example_spec_ctx [(''ram_gb'', ''8 GB'')] (Some ''phone'') (Some ''shop'') = Inr (projr example_typed)"
    using example_typed_value(1) by (simp add: example_typed_def sum.collapse(2))
  moreover have "get_min_confidence_for_category (sx_settings example_spec_ctx) (Some ''phone'') = 1 / 2"
    "ENABLE_TYPED_SPEC_CONFIDENCE (sx_settings example_spec_ctx)" "ENABLE_TYPED_SPEC_SUPPRESSION (sx_settings example_spec_ctx)"
    by code_simp+
  ultimately show ?thesis
    using typed_specs_justified [OF _ example_typed_value(2)] example_typed_value(2) by fastforce
qed

end
