(* ===== verification/Slo_Policy.thy ===== *)
theory Slo_Policy imports Prelude begin

text \<open>
  \<^verbatim>\<open>infrastructure/observability/threshold_evaluator.py\<close>, \<open>alert_policy.py\<close> and
  \<open>health_policy.py\<close>: the rates of a run against the objectives, the alerts of those that
  are missed and the status that follows.  Counters are exact numbers; the text of a
  number with four decimals is the argument \<open>fixed4\<close>.
\<close>

section \<open>Thresholds\<close>

datatype alert_severity = Info | Warning | High | Critical

definition severity_order :: "alert_severity \<Rightarrow> nat" where
  "severity_order s = (case s of Info \<Rightarrow> 0 | Warning \<Rightarrow> 1 | High \<Rightarrow> 2 | Critical \<Rightarrow> 3)"

datatype service_status = Healthy | Degraded | Failing

definition status_order :: "service_status \<Rightarrow> nat" where
  "status_order s = (case s of Healthy \<Rightarrow> 0 | Degraded \<Rightarrow> 1 | Failing \<Rightarrow> 2)"

datatype comparator = Lt | Gt | Ge

record slo_settings =
  SLO_MIN_PARSE_SUCCESS_RATE :: rat
  SLO_MIN_APPLY_SUCCESS_RATE :: rat
  SLO_MAX_BLOCK_PAGE_RATE :: rat
  SLO_MAX_ZERO_RESULT_CATEGORY_RATE :: rat
  SLO_MAX_LOW_COVERAGE_RATE :: rat
  SLO_MAX_REJECTED_ITEM_RATE :: rat
  SLO_MAX_RETRYABLE_FAILURE_RATE :: rat
  SLO_MAX_MALFORMED_RESPONSE_RATE :: rat
  SLO_MAX_UNRESOLVED_RECONCILIATION_RATE :: rat
  SLO_MAX_DUPLICATE_PAYLOAD_SKIP_RATE :: rat
  SLO_MIN_ITEMS_PER_ACTIVE_STORE :: rat

record threshold_decision =
  td_metric :: pystr
  td_observed :: rat
  td_threshold :: rat
  td_comparator :: comparator
  td_breached :: bool
  td_severity :: "alert_severity option"
  td_notes :: "pystr list"

type_synonym run_counters = "(pystr, rat) odict"

definition counter :: "run_counters \<Rightarrow> pystr \<Rightarrow> rat" where
  "counter c key = (case od_get key c of None \<Rightarrow> 0 | Some v \<Rightarrow> v)"

definition compute_rate :: "rat \<Rightarrow> rat \<Rightarrow> rat" where
  "compute_rate n d = (if d \<le> 0 then 0 else n / d)"

definition round6 :: "rat \<Rightarrow> rat" where
  "round6 x = of_int (py_round (x * 1000000)) / 1000000"

definition threshold_decided :: "pystr \<Rightarrow> rat \<Rightarrow> rat \<Rightarrow> comparator \<Rightarrow> alert_severity \<Rightarrow> pystr list \<Rightarrow> threshold_decision" where
  "threshold_decided metric observed threshold cmp severity notes =
    (let breached = (case cmp of Lt \<Rightarrow> observed < threshold | Gt \<Rightarrow> observed > threshold | Ge \<Rightarrow> observed \<ge> threshold) in
     \<lparr> td_metric = metric, td_observed = round6 observed, td_threshold = threshold, td_comparator = cmp, td_breached = breached,
       td_severity = (if breached then Some severity else None), td_notes = notes \<rparr>)"

text \<open>A share of a total, with the value for no total at all.\<close>

definition rate_or :: "rat \<Rightarrow> rat \<Rightarrow> rat \<Rightarrow> rat" where
  "rate_or none n d = (if d > 0 then compute_rate n d else none)"

definition parse_rate :: "run_counters \<Rightarrow> rat \<times> pystr" where
  "parse_rate c =
    (let yielded = counter c ''product_items_yielded_total''; denom = yielded + counter c ''product_parse_failed_total'';
         ok = counter c ''crawl_product_pages_total''
     in if denom \<le> 0 then (compute_rate ok (ok + counter c ''crawl_failures_total''), ''from_observability_crawl_counters'')
        else (compute_rate yielded denom, ''from_crawl_registry_yield_vs_failed''))"

definition listing_pages :: "run_counters \<Rightarrow> rat" where
  "listing_pages c = (let n = counter c ''listing_pages_seen_total'' in if n \<le> 0 then counter c ''crawl_listing_pages_total'' else n)"

definition evaluate_run_thresholds :: "slo_settings \<Rightarrow> run_counters \<Rightarrow> threshold_decision list" where
  "evaluate_run_thresholds k c =
    (let items = counter c ''delivery_items_total'' in
     [threshold_decided ''parse_success_rate'' (fst (parse_rate c)) (SLO_MIN_PARSE_SUCCESS_RATE k) Lt High [snd (parse_rate c)],
      threshold_decided ''apply_success_rate'' (rate_or 1 (counter c ''crm_applied_total'') items) (SLO_MIN_APPLY_SUCCESS_RATE k) Lt High
        [''crm_applied_over_delivery_items''],
      threshold_decided ''block_page_rate'' (rate_or 0 (counter c ''block_pages_total'') (listing_pages c)) (SLO_MAX_BLOCK_PAGE_RATE k) Gt Critical
        [''block_pages_over_listing_pages''],
      threshold_decided ''zero_result_category_rate''
        (rate_or 0 (counter c ''categories_zero_result_total'') (counter c ''categories_started_total'')) (SLO_MAX_ZERO_RESULT_CATEGORY_RATE k) Gt Warning
        [''zero_result_categories_over_categories_started''],
      threshold_decided ''low_coverage_rate''
        (rate_or 0 (counter c ''normalization_low_coverage_total'') (counter c ''normalization_items_total'')) (SLO_MAX_LOW_COVERAGE_RATE k) Gt Warning
        [''low_coverage_over_normalized_items''],
      threshold_decided ''rejected_item_rate'' (rate_or 0 (counter c ''crm_rejected_total'') items) (SLO_MAX_REJECTED_ITEM_RATE k) Gt High
        [''rejected_over_delivery_items''],
      threshold_decided ''retryable_failure_rate'' (rate_or 0 (counter c ''crm_retryable_total'') items) (SLO_MAX_RETRYABLE_FAILURE_RATE k) Gt Warning
        [''retryable_over_delivery_items''],
      threshold_decided ''malformed_response_rate''
        (rate_or 0 (counter c ''malformed_batch_responses_total'') (counter c ''delivery_batches_total'')) (SLO_MAX_MALFORMED_RESPONSE_RATE k) Gt Critical
        [''malformed_batch_over_batches''],
      threshold_decided ''unresolved_reconciliation_rate''
        (rate_or 0 (counter c ''reconciliation_failed_total'') (counter c ''reconciliation_started_total''))
        (SLO_MAX_UNRESOLVED_RECONCILIATION_RATE k) Gt Critical [''reconciliation_failed_over_started''],
      threshold_decided ''duplicate_payload_skip_rate'' (rate_or 0 (counter c ''duplicate_payload_skipped_total'') items)
        (SLO_MAX_DUPLICATE_PAYLOAD_SKIP_RATE k) Gt Info [''duplicate_skips_over_delivery_items''],
      threshold_decided ''min_items_per_active_store'' items (SLO_MIN_ITEMS_PER_ACTIVE_STORE k) Lt (if items > 0 then Warning else Info)
        [''delivery_items_below_minimum_for_active_store'']])"

definition decide_status_from_thresholds :: "threshold_decision list \<Rightarrow> service_status" where
  "decide_status_from_thresholds ds =
    (let breached = filter td_breached ds;
         worst = foldl (\<lambda>w d. max w (severity_order (case td_severity d of Some s \<Rightarrow> s | None \<Rightarrow> Warning))) 0 breached
     in if breached = [] then Healthy else if worst \<ge> 3 then Failing else if worst \<ge> 1 then Degraded else Healthy)"

section \<open>Alerts\<close>

definition classify_alert_domain :: "pystr \<Rightarrow> pystr" where
  "classify_alert_domain m =
    (if m \<in> {''block_page_rate'', ''zero_result_category_rate''} then ''store_access''
     else if m = ''parse_success_rate'' then ''crawl_quality''
     else if m = ''low_coverage_rate'' then ''normalization_quality''
     else if m \<in> {''apply_success_rate'', ''rejected_item_rate'', ''retryable_failure_rate''} then ''crm_apply''
     else if m = ''malformed_response_rate'' then ''delivery_transport''
     else if m = ''unresolved_reconciliation_rate'' then ''reconciliation''
     else ''internal'')"

definition decide_alert_severity :: "pystr \<Rightarrow> rat \<Rightarrow> rat \<Rightarrow> alert_severity" where
  "decide_alert_severity m observed threshold =
    (let gap = \<bar>observed - threshold\<bar>; excess = observed - threshold; shortfall = threshold - observed in
     if m \<in> {''block_page_rate'', ''malformed_response_rate'', ''unresolved_reconciliation_rate''}
     then (if gap > 15 / 100 \<or> observed > threshold * 3 then Critical else if gap > 5 / 100 then High else Warning)
     else if m = ''low_coverage_rate'' \<or> m = ''duplicate_payload_skip_rate''
     then (if m = ''duplicate_payload_skip_rate'' \<and> observed > 85 / 100 then High else if gap > 25 / 100 then Warning else Info)
     else if m \<in> {''parse_success_rate'', ''apply_success_rate''}
     then (if shortfall > 15 / 100 then Critical else if shortfall > 8 / 100 then High else Warning)
     else if m = ''rejected_item_rate'' then (if excess > 1 / 5 then Critical else if excess > 8 / 100 then High else Warning)
     else if m = ''retryable_failure_rate'' then (if excess > 15 / 100 then High else Warning)
     else if m = ''zero_result_category_rate'' then (if excess > 25 / 100 then High else Warning)
     else Warning)"

definition max_severity :: "alert_severity \<Rightarrow> alert_severity \<Rightarrow> alert_severity" where
  "max_severity a b = (if severity_order a \<ge> severity_order b then a else b)"

record alert_signal =
  al_code :: pystr
  al_severity :: alert_severity
  al_domain :: pystr
  al_store_name :: "pystr option"
  al_run_id :: pystr
  al_metric :: pystr
  al_observed :: rat
  al_threshold :: rat
  al_message :: pystr
  al_tags :: "(pystr, pystr) odict"

definition comparator_text :: "comparator \<Rightarrow> pystr" where
  "comparator_text c = (case c of Lt \<Rightarrow> ''lt'' | Gt \<Rightarrow> ''gt'' | Ge \<Rightarrow> ''ge'')"

definition alert_of :: "(rat \<Rightarrow> pystr) \<Rightarrow> pystr \<Rightarrow> pystr option \<Rightarrow> threshold_decision \<Rightarrow> alert_signal" where
  "alert_of fixed4 run_id store d =
    (let sev = decide_alert_severity (td_metric d) (td_observed d) (td_threshold d) in
     \<lparr> al_code = ''THRESHOLD_BREACHED:'' @ td_metric d,
       al_severity = (case td_severity d of Some b \<Rightarrow> max_severity sev b | None \<Rightarrow> sev),
       al_domain = classify_alert_domain (td_metric d), al_store_name = store, al_run_id = run_id, al_metric = td_metric d,
       al_observed = td_observed d, al_threshold = td_threshold d,
       al_message = td_metric d @ '' breached SLO (observed='' @ fixed4 (td_observed d) @ '', threshold='' @ fixed4 (td_threshold d)
         @ '', cmp='' @ comparator_text (td_comparator d) @ '')'',
       al_tags = [(''comparator'', comparator_text (td_comparator d))] \<rparr>)"

definition build_alerts_from_thresholds :: "(rat \<Rightarrow> pystr) \<Rightarrow> pystr \<Rightarrow> pystr option \<Rightarrow> threshold_decision list \<Rightarrow> alert_signal list" where
  "build_alerts_from_thresholds fixed4 run_id store ds = map (alert_of fixed4 run_id store) (filter td_breached ds)"

section \<open>Health\<close>

record trace_failure =
  tf_message_code :: pystr
  tf_severity :: pystr
  tf_failure_type :: "pystr option"

definition worst_service_status :: "service_status \<Rightarrow> service_status \<Rightarrow> service_status" where
  "worst_service_status a b = (if status_order a \<ge> status_order b then a else b)"

definition count_where :: "('a \<Rightarrow> bool) \<Rightarrow> 'a list \<Rightarrow> nat" where
  "count_where p xs = length (filter p xs)"

text \<open>\<open>delivery_retries\<close> is the counter of the process-wide metrics.\<close>

definition transport_failures :: "rat \<Rightarrow> run_counters \<Rightarrow> rat" where
  "transport_failures delivery_retries c =
    (let a = counter c ''transport_failures_total''; tf = (if a = 0 then counter c ''batch_transport_failures_total'' else a)
     in if tf = 0 then delivery_retries else tf)"

definition compute_parser_health :: "rat \<Rightarrow> run_counters \<Rightarrow> trace_failure list \<Rightarrow> service_status" where
  "compute_parser_health delivery_retries c recent =
    (let malformed = count_where (\<lambda>r. tf_failure_type r = Some ''malformed_response'' \<or> ends_with ''MALFORMED'' (tf_message_code r)) recent;
         unreconciled = count_where (\<lambda>r. tf_message_code r = ''RECONCILIATION_UNRESOLVED'' \<or> tf_failure_type r = Some ''reconciliation_failed'') recent;
         failing = (if count_where (\<lambda>r. tf_severity r = ''critical'') recent \<ge> 1 then 2 else 0)
           + (if malformed \<ge> 2 \<or> counter c ''reconciliation_failed_total'' \<ge> 3 then 2 else 0)
           + (if transport_failures delivery_retries c \<ge> 5 \<and> counter c ''crm_rejected_total'' \<ge> 5 then 2 else 0);
         degraded = (if count_where (\<lambda>r. tf_severity r = ''error'') recent \<ge> 5 \<or> counter c ''crm_retryable_total'' \<ge> 10 then 1 else 0)
           + (if counter c ''block_pages_total'' \<ge> 3 \<or> counter c ''crawl_failures_total'' \<ge> 20 then 1 else 0)
           + (if counter c ''normalization_low_coverage_total'' \<ge> 15 then 1 else 0)
           + (if counter c ''duplicate_payload_skipped_total'' \<ge> 50 then 1 else 0)
           + (if counter c ''delivery_retries_total'' \<ge> 15 then 1 else 0) + (if unreconciled \<ge> 3 then 1 else 0)
           + count_where (\<lambda>r. tf_failure_type r = Some ''block_page'') (drop (length recent - 50) recent)
     in if failing \<ge> (2::nat) then Failing else if failing \<ge> 1 \<or> degraded \<ge> (2::nat) then Degraded else Healthy)"

definition merge_health_with_operational :: "service_status \<Rightarrow> service_status \<Rightarrow> service_status" where
  "merge_health_with_operational heuristic operational = worst_service_status heuristic operational"

section \<open>Facts\<close>

definition at_least :: "alert_severity \<Rightarrow> threshold_decision \<Rightarrow> bool" where
  "at_least s d \<longleftrightarrow> td_breached d \<and> severity_order s \<le> severity_order (case td_severity d of Some x \<Rightarrow> x | None \<Rightarrow> Warning)"

lemma foldl_max: "n \<le> foldl (\<lambda>w d. max w (f d)) (w::nat) ds \<longleftrightarrow> n \<le> w \<or> (\<exists>d\<in>set ds. n \<le> f d)"
  by (induction ds arbitrary: w) (auto simp: le_max_iff_disj)

text \<open>The status is the worst breach: failing for a critical one, degraded for a lesser one that is not mere information.\<close>

lemma status_by_worst_breach:
  "decide_status_from_thresholds ds = Failing \<longleftrightarrow> (\<exists>d\<in>set ds. at_least Critical d)"
  "decide_status_from_thresholds ds = Healthy \<longleftrightarrow> \<not> (\<exists>d\<in>set ds. at_least Warning d)"
proof -
  have ge: "n \<le> foldl (\<lambda>w d. max w (severity_order (case td_severity d of Some s \<Rightarrow> s | None \<Rightarrow> Warning))) 0 (filter td_breached ds)
      \<longleftrightarrow> (\<exists>d\<in>set ds. td_breached d \<and> n \<le> severity_order (case td_severity d of Some s \<Rightarrow> s | None \<Rightarrow> Warning))"
    if "0 < n" for n
    using that by (subst foldl_max) auto
  show "decide_status_from_thresholds ds = Failing \<longleftrightarrow> (\<exists>d\<in>set ds. at_least Critical d)"
    using ge [of 3] by (auto simp: decide_status_from_thresholds_def at_least_def severity_order_def [of Critical] Let_def filter_empty_conv)
  show "decide_status_from_thresholds ds = Healthy \<longleftrightarrow> \<not> (\<exists>d\<in>set ds. at_least Warning d)"
    using ge [of 1] ge [of 3]
    by (auto simp: decide_status_from_thresholds_def at_least_def severity_order_def [of Warning] Let_def filter_empty_conv split: if_splits)
qed

text \<open>A run that has done nothing at all misses the objective for parsing, and no other one that counts.\<close>

lemma idle_run_degraded:
  assumes "0 < SLO_MIN_PARSE_SUCCESS_RATE k" and "SLO_MIN_APPLY_SUCCESS_RATE k \<le> 1"
    and "0 \<le> SLO_MAX_BLOCK_PAGE_RATE k" "0 \<le> SLO_MAX_MALFORMED_RESPONSE_RATE k" "0 \<le> SLO_MAX_UNRESOLVED_RECONCILIATION_RATE k"
  shows "decide_status_from_thresholds (evaluate_run_thresholds k []) = Degraded"
proof -
  have "\<not> (\<exists>d\<in>set (evaluate_run_thresholds k []). at_least Critical d)"
    using assms by (auto simp: evaluate_run_thresholds_def at_least_def threshold_decided_def counter_def parse_rate_def listing_pages_def
        compute_rate_def rate_or_def od_get_def severity_order_def Let_def split: alert_severity.splits if_splits)
  moreover have "at_least Warning (hd (evaluate_run_thresholds k []))"
    using assms(1) by (simp add: evaluate_run_thresholds_def at_least_def threshold_decided_def counter_def parse_rate_def
        compute_rate_def od_get_def severity_order_def Let_def)
  then have "\<exists>d\<in>set (evaluate_run_thresholds k []). at_least Warning d"
    by (intro bexI [of _ "hd (evaluate_run_thresholds k [])"]) (simp_all add: evaluate_run_thresholds_def Let_def)
  ultimately show ?thesis
    using status_by_worst_breach [of "evaluate_run_thresholds k []"]
    by (cases "decide_status_from_thresholds (evaluate_run_thresholds k [])") auto
qed

text \<open>An alert is never milder than the objective it breaks.\<close>

lemma alert_not_milder:
  assumes "td_severity d = Some b"
  shows "severity_order b \<le> severity_order (al_severity (alert_of fixed4 run_id store d))"
  using assms by (auto simp: alert_of_def max_severity_def Let_def)

text \<open>A run is failing exactly when it misses an objective that is critical, healthy exactly when it misses
  none but informative ones; every missed objective has one alert, which is at least as
  severe; and a run that has done nothing is degraded.\<close>

theorem run_status_by_worst_miss:
  fixes k :: slo_settings
  defines "ds \<equiv> \<lambda>c. evaluate_run_thresholds k c"
  shows "(decide_status_from_thresholds (ds c) = Failing \<longleftrightarrow> (\<exists>d. d \<in> set (ds c) \<and> at_least Critical d))
    \<and> (decide_status_from_thresholds (ds c) = Healthy \<longleftrightarrow> (\<nexists>d. d \<in> set (ds c) \<and> at_least Warning d))
    \<and> map al_metric (build_alerts_from_thresholds fixed4 run_id store (ds c)) = map td_metric (filter td_breached (ds c))
    \<and> list_all2 (\<lambda>a d. severity_order (the (td_severity d)) \<le> severity_order (al_severity a))
        (build_alerts_from_thresholds fixed4 run_id store (ds c)) (filter td_breached (ds c))"
proof -
  have "td_severity d \<noteq> None" if "d \<in> set (ds c)" "td_breached d" for d
    using that by (auto simp: ds_def evaluate_run_thresholds_def threshold_decided_def Let_def)
  then have "list_all2 (\<lambda>a d. severity_order (the (td_severity d)) \<le> severity_order (al_severity a))
        (build_alerts_from_thresholds fixed4 run_id store (ds c)) (filter td_breached (ds c))"
    by (auto simp: build_alerts_from_thresholds_def list_all2_map1 list_all2_same intro!: alert_not_milder)
  moreover have "map al_metric (build_alerts_from_thresholds fixed4 run_id store (ds c)) = map td_metric (filter td_breached (ds c))"
    by (simp add: build_alerts_from_thresholds_def alert_of_def Let_def)
  ultimately show ?thesis using status_by_worst_breach by (auto simp: Bex_def)
qed

end
