(* ===== verification/Cost_Model.thy ===== *)
theory Cost_Model imports Prelude begin

text \<open>
  \<^verbatim>\<open>infrastructure/performance/cost_model.py\<close>, \<open>efficiency_evaluator.py\<close> and
  \<^verbatim>\<open>application/performance/perf_regression_checker.py\<close>: what a crawl costs, which stores cost too
  much for what they yield, and whether a run has become worse than a baseline.  Numbers
  are exact; counters that are neither integers nor floats are not represented.
\<close>

section \<open>Costs\<close>

record cost_settings =
  ENABLE_COST_EFFICIENCY_TRACKING :: bool
  ENABLE_COST_REGRESSION_GATES :: bool
  COST_WEIGHT_HTTP_REQUEST :: rat
  COST_WEIGHT_PROXY_REQUEST :: rat
  COST_WEIGHT_BROWSER_PAGE :: rat
  COST_WEIGHT_RETRY_ATTEMPT :: rat
  COST_WEIGHT_BATCH_FLUSH :: rat
  COST_WEIGHT_CRM_ROUNDTRIP :: rat
  COST_WEIGHT_NORMALIZATION_UNIT :: rat
  COST_WEIGHT_DIAGNOSTIC_UNIT :: rat
  EFFICIENCY_MIN_PRODUCTS_PER_COST_UNIT :: rat
  EFFICIENCY_MIN_APPLIED_PER_COST_UNIT :: rat
  EFFICIENCY_MAX_BROWSER_SHARE :: rat
  EFFICIENCY_MAX_RETRY_SHARE :: rat
  EFFICIENCY_MAX_PROXY_SHARE :: rat
  PERF_REGRESSION_MAX_REQUEST_MS_DELTA_PCT :: rat
  PERF_REGRESSION_MAX_NORMALIZE_MS_DELTA_PCT :: rat
  PERF_REGRESSION_MAX_CRM_SEND_MS_DELTA_PCT :: rat
  PERF_REGRESSION_MAX_COST_PER_PRODUCT_DELTA_PCT :: rat

datatype cost_status = Efficient | Acceptable | Expensive | Critical_cost

datatype signal_severity = Sig_warning | Sig_high | Sig_critical

record efficiency_signal =
  es_store_name :: "pystr option"
  es_severity :: signal_severity
  es_code :: pystr
  es_observed :: rat
  es_threshold :: rat

record store_cost =
  sc_store_name :: pystr
  sc_http_requests :: int
  sc_proxy_requests :: int
  sc_browser_pages :: int
  sc_retry_attempts :: int
  sc_batch_flushes :: int
  sc_crm_roundtrips :: int
  sc_products_parsed :: int
  sc_products_applied :: int
  sc_cost_units :: rat
  sc_products_per_cost_unit :: "rat option"
  sc_applied_per_cost_unit :: "rat option"
  sc_status :: cost_status

record run_cost =
  rn_run_id :: pystr
  rn_stores :: "store_cost list"
  rn_total :: rat
  rn_highest_cost :: "pystr list"
  rn_lowest_efficiency :: "pystr list"
  rn_status :: cost_status

type_synonym counters = "(pystr, rat) odict"

definition float_counter :: "counters \<Rightarrow> pystr \<Rightarrow> rat" where
  "float_counter c key = (case od_get key c of None \<Rightarrow> 0 | Some v \<Rightarrow> v)"

definition int_counter :: "counters \<Rightarrow> pystr \<Rightarrow> int" where
  "int_counter c key = truncated (float_counter c key)"

definition compute_products_per_cost_unit :: "int \<Rightarrow> rat \<Rightarrow> rat option" where
  "compute_products_per_cost_unit products cost_units =
    (if products \<le> 0 \<or> cost_units \<le> 0 then None else Some (of_int products / cost_units))"

definition estimate_store_cost_units :: "cost_settings \<Rightarrow> counters \<Rightarrow> rat" where
  "estimate_store_cost_units k c =
    (let i = (\<lambda>key. of_int (int_counter c key) :: rat) in
     if \<not> ENABLE_COST_EFFICIENCY_TRACKING k then 0
     else COST_WEIGHT_HTTP_REQUEST k * i ''http_requests'' + COST_WEIGHT_PROXY_REQUEST k * i ''proxy_requests''
       + COST_WEIGHT_BROWSER_PAGE k * i ''browser_pages'' + COST_WEIGHT_RETRY_ATTEMPT k * i ''retry_attempts''
       + COST_WEIGHT_BATCH_FLUSH k * i ''batch_flushes'' + COST_WEIGHT_CRM_ROUNDTRIP k * i ''crm_roundtrips''
       + COST_WEIGHT_NORMALIZATION_UNIT k * float_counter c ''normalization_units''
       + COST_WEIGHT_DIAGNOSTIC_UNIT k * float_counter c ''diagnostic_units'')"

section \<open>Efficiency\<close>

definition sig :: "pystr option \<Rightarrow> signal_severity \<Rightarrow> pystr \<Rightarrow> rat \<Rightarrow> rat \<Rightarrow> efficiency_signal" where
  "sig store severity code observed threshold =
    \<lparr> es_store_name = store, es_severity = severity, es_code = code, es_observed = observed, es_threshold = threshold \<rparr>"

definition evaluate_store_efficiency :: "cost_settings \<Rightarrow> store_cost \<Rightarrow> efficiency_signal list" where
  "evaluate_store_efficiency k s =
    (let st = Some (sc_store_name s); cost = max (sc_cost_units s) (1 / 1000000000);
         browser = COST_WEIGHT_BROWSER_PAGE k * of_int (sc_browser_pages s) / cost;
         retry = COST_WEIGHT_RETRY_ATTEMPT k * of_int (sc_retry_attempts s) / cost;
         proxy = COST_WEIGHT_PROXY_REQUEST k * of_int (sc_proxy_requests s) / cost;
         crm = COST_WEIGHT_CRM_ROUNDTRIP k * of_int (sc_crm_roundtrips s) / cost;
         max_browser = EFFICIENCY_MAX_BROWSER_SHARE k; max_retry = EFFICIENCY_MAX_RETRY_SHARE k; max_proxy = EFFICIENCY_MAX_PROXY_SHARE k;
         requests = sc_http_requests s + sc_proxy_requests s + sc_browser_pages s;
         yielded = of_int (sc_products_parsed s) / of_int requests
     in if \<not> ENABLE_COST_EFFICIENCY_TRACKING k then []
        else (case sc_products_per_cost_unit s of
               Some p \<Rightarrow> if p < EFFICIENCY_MIN_PRODUCTS_PER_COST_UNIT k
                 then [sig st Sig_high ''low_products_per_cost_unit'' p (EFFICIENCY_MIN_PRODUCTS_PER_COST_UNIT k)] else []
             | None \<Rightarrow> [])
          @ (case sc_applied_per_cost_unit s of
               Some p \<Rightarrow> if p < EFFICIENCY_MIN_APPLIED_PER_COST_UNIT k
                 then [sig st Sig_warning ''low_applied_per_cost_unit'' p (EFFICIENCY_MIN_APPLIED_PER_COST_UNIT k)] else []
             | None \<Rightarrow> [])
          @ (if browser > max_browser
             then [sig st (if browser > max_browser * (13 / 10) then Sig_high else Sig_warning) ''browser_overuse'' browser max_browser] else [])
          @ (if retry > max_retry
             then [sig st (if retry > max_retry * (3 / 2) then Sig_critical else Sig_high) ''retry_overuse'' retry max_retry] else [])
          @ (if proxy > max_proxy
             then [sig st (if proxy < max_proxy * (12 / 10) then Sig_warning else Sig_high) ''proxy_overuse'' proxy max_proxy] else [])
          @ (if crm > 35 / 100 \<and> sc_products_applied s > 0 then [sig st Sig_warning ''crm_roundtrip_heavy'' crm (35 / 100)] else [])
          @ (if requests > 0 \<and> sc_products_parsed s > 0 \<and> yielded < 5 / 100 \<and> sc_cost_units s > 10
             then [sig st Sig_high ''expensive_low_yield_store'' yielded (5 / 100)] else []))"

definition classify_store_cost_status :: "store_cost \<Rightarrow> efficiency_signal list \<Rightarrow> cost_status" where
  "classify_store_cost_status s signals =
    (if list_ex (\<lambda>x. es_severity x = Sig_critical) signals then Critical_cost
     else if list_ex (\<lambda>x. es_severity x = Sig_high) signals then Expensive
     else if list_ex (\<lambda>x. es_severity x = Sig_warning) signals then Acceptable
     else if sc_cost_units s \<le> 0 then Acceptable
     else (case sc_products_per_cost_unit s of Some p \<Rightarrow> if p \<ge> 1 then Efficient else Acceptable | None \<Rightarrow> Acceptable))"

definition build_store_cost_snapshot :: "cost_settings \<Rightarrow> pystr \<Rightarrow> counters \<Rightarrow> store_cost" where
  "build_store_cost_snapshot k store_name c =
    (let st = (if strip store_name = [] then ''unknown'' else strip store_name); cost = estimate_store_cost_units k c; i = int_counter c;
         s = \<lparr> sc_store_name = st, sc_http_requests = i ''http_requests'', sc_proxy_requests = i ''proxy_requests'',
               sc_browser_pages = i ''browser_pages'', sc_retry_attempts = i ''retry_attempts'', sc_batch_flushes = i ''batch_flushes'',
               sc_crm_roundtrips = i ''crm_roundtrips'', sc_products_parsed = i ''products_parsed'', sc_products_applied = i ''products_applied'',
               sc_cost_units = cost, sc_products_per_cost_unit = compute_products_per_cost_unit (i ''products_parsed'') cost,
               sc_applied_per_cost_unit = compute_products_per_cost_unit (i ''products_applied'') cost, sc_status = Acceptable \<rparr>
     in s\<lparr>sc_status := classify_store_cost_status s (evaluate_store_efficiency k s)\<rparr>)"

section \<open>Runs\<close>

text \<open>\<open>min(xs, key)\<close>: the first of the least.\<close>

fun min_by :: "('a \<Rightarrow> rat) \<Rightarrow> 'a \<Rightarrow> 'a list \<Rightarrow> 'a" where
  "min_by f x [] = x"
| "min_by f x (y # ys) = min_by f (if f y < f x then y else x) ys"

definition efficiency_key :: "store_cost \<Rightarrow> rat" where
  "efficiency_key s = (case sc_products_per_cost_unit s of Some p \<Rightarrow> p | None \<Rightarrow> -1)"

definition evaluate_run_efficiency :: "cost_settings \<Rightarrow> run_cost \<Rightarrow> efficiency_signal list" where
  "evaluate_run_efficiency k r =
    (if \<not> ENABLE_COST_EFFICIENCY_TRACKING k then []
     else (case rn_stores r of
         [] \<Rightarrow> []
       | s # rest \<Rightarrow>
          (if max (rn_total r) (1 / 1000000000) \<le> 1000 then []
           else (case sc_products_per_cost_unit (min_by efficiency_key s rest) of
               Some p \<Rightarrow> if p < EFFICIENCY_MIN_PRODUCTS_PER_COST_UNIT k
                 then [sig None Sig_warning ''run_low_efficiency_tail'' p (EFFICIENCY_MIN_PRODUCTS_PER_COST_UNIT k)] else []
             | None \<Rightarrow> []))))"

definition status_rank :: "cost_status \<Rightarrow> nat" where
  "status_rank s = (case s of Efficient \<Rightarrow> 0 | Acceptable \<Rightarrow> 1 | Expensive \<Rightarrow> 2 | Critical_cost \<Rightarrow> 3)"

definition rank_status :: "cost_status \<Rightarrow> cost_status \<Rightarrow> cost_status" where
  "rank_status a b = (if status_rank a \<ge> status_rank b then a else b)"

definition status_of_signal :: "efficiency_signal \<Rightarrow> cost_status" where
  "status_of_signal x = (case es_severity x of Sig_critical \<Rightarrow> Critical_cost | Sig_high \<Rightarrow> Expensive | Sig_warning \<Rightarrow> Acceptable)"

text \<open>The stores come in the order of their names.\<close>

definition build_run_cost_snapshot :: "cost_settings \<Rightarrow> pystr \<Rightarrow> (pystr \<times> counters) list \<Rightarrow> run_cost" where
  "build_run_cost_snapshot k run_id stores =
    (let rid = (if strip run_id = [] then ''unknown'' else strip run_id);
         snaps = map (\<lambda>(name, c). build_store_cost_snapshot k name c) stores;
         by_cost = sort_key (\<lambda>s. - sc_cost_units s) snaps;
         run = \<lparr> rn_run_id = rid, rn_stores = snaps, rn_total = sum_list (map sc_cost_units snaps),
                 rn_highest_cost = map sc_store_name (filter (\<lambda>s. sc_cost_units s > 0) (take 5 by_cost)),
                 rn_lowest_efficiency = map sc_store_name (take 5 (sort_key efficiency_key snaps)), rn_status = Acceptable \<rparr>;
         overall = (if snaps = [] then Acceptable else foldl (\<lambda>a s. rank_status a (sc_status s)) Efficient snaps)
     in run\<lparr>rn_status := foldl (\<lambda>a x. rank_status a (status_of_signal x)) overall (evaluate_run_efficiency k run)\<rparr>)"

section \<open>Regressions\<close>

datatype direction = Higher_worse | Lower_worse

record regression_result =
  rg_passed :: bool
  rg_metric :: pystr
  rg_regression_pct :: rat
  rg_reason :: pystr

definition compare_metric_against_baseline :: "pystr \<Rightarrow> rat \<Rightarrow> rat \<Rightarrow> rat \<Rightarrow> direction \<Rightarrow> regression_result" where
  "compare_metric_against_baseline metric baseline current allowed d =
    (let res = (\<lambda>p pct reason. \<lparr> rg_passed = p, rg_metric = metric, rg_regression_pct = pct, rg_reason = reason \<rparr>) in
     if baseline = 0 \<and> current = 0 then res True 0 ''both_zero''
     else if baseline = 0 then res False 100 ''baseline_zero_nonzero_current''
     else (let worsened = (case d of Higher_worse \<Rightarrow> current > baseline * (1 + allowed / 100) | Lower_worse \<Rightarrow> current < baseline * (1 - allowed / 100));
               pct = (case d of Higher_worse \<Rightarrow> (current - baseline) / \<bar>baseline\<bar> * 100 | Lower_worse \<Rightarrow> (baseline - current) / \<bar>baseline\<bar> * 100)
           in res (\<not> worsened) pct (if worsened then ''regression_beyond_allowed_delta'' else ''within_tolerance'')))"

definition perf_checks :: "cost_settings \<Rightarrow> (pystr \<times> rat \<times> direction) list" where
  "perf_checks k =
    [(''avg_request_ms'', PERF_REGRESSION_MAX_REQUEST_MS_DELTA_PCT k, Higher_worse),
     (''avg_normalize_ms'', PERF_REGRESSION_MAX_NORMALIZE_MS_DELTA_PCT k, Higher_worse),
     (''avg_crm_send_ms'', PERF_REGRESSION_MAX_CRM_SEND_MS_DELTA_PCT k, Higher_worse),
     (''cost_per_product'', PERF_REGRESSION_MAX_COST_PER_PRODUCT_DELTA_PCT k, Higher_worse),
     (''cost_per_applied_item'', PERF_REGRESSION_MAX_COST_PER_PRODUCT_DELTA_PCT k, Higher_worse),
     (''products_per_minute'', PERF_REGRESSION_MAX_REQUEST_MS_DELTA_PCT k, Lower_worse)]"

definition evaluate_perf_regressions :: "cost_settings \<Rightarrow> counters \<Rightarrow> counters \<Rightarrow> regression_result list" where
  "evaluate_perf_regressions k baseline current =
    (if \<not> ENABLE_COST_REGRESSION_GATES k then []
     else concat (map (\<lambda>(key, pct, d). case (od_get key baseline, od_get key current) of
         (Some b, Some c) \<Rightarrow> [compare_metric_against_baseline key b c pct d] | _ \<Rightarrow> []) (perf_checks k)))"

definition should_fail_perf_gate :: "regression_result list \<Rightarrow> bool" where
  "should_fail_perf_gate rs = list_ex (\<lambda>r. \<not> rg_passed r) rs"

section \<open>Facts\<close>

lemma min_by_mem: "min_by f x ys \<in> insert x (set ys)"
  by (induction ys arbitrary: x) auto

lemma min_by_least: "y \<in> insert x (set ys) \<Longrightarrow> f (min_by f x ys) \<le> f y"
proof (induction ys arbitrary: x y)
  case (Cons z zs)
  define x' where "x' = (if f z < f x then z else x)"
  have "f x' \<le> f z" "f x' \<le> f x" by (auto simp: x'_def)
  moreover have "f (min_by f x' zs) \<le> f x'" "y \<in> set zs \<Longrightarrow> f (min_by f x' zs) \<le> f y" using Cons.IH by auto
  moreover have "min_by f x (z # zs) = min_by f x' zs" by (simp add: x'_def)
  ultimately show ?case using Cons.prems by (metis insert_iff list.simps(15) order_trans)
qed simp

text \<open>One store without a product hides every inefficient store from the check of the run.\<close>

lemma barren_store_hides_run:
  assumes "s \<in> set (rn_stores r)" and "sc_products_per_cost_unit s = None"
    and "\<forall>t\<in>set (rn_stores r). \<forall>p. sc_products_per_cost_unit t = Some p \<longrightarrow> 0 < p"
  shows "evaluate_run_efficiency k r = []"
proof (cases "rn_stores r")
  case (Cons t rest)
  let ?m = "min_by efficiency_key t rest"
  have m: "?m \<in> set (rn_stores r)" using min_by_mem [of efficiency_key t rest] Cons by simp
  have "efficiency_key ?m \<le> efficiency_key s" using min_by_least [of s t rest efficiency_key] assms(1) Cons by simp
  then have "efficiency_key ?m \<le> -1" using assms(2) by (simp add: efficiency_key_def)
  with assms(3) m have "sc_products_per_cost_unit ?m = None"
    by (fastforce simp: efficiency_key_def split: option.splits)
  then show ?thesis by (simp add: evaluate_run_efficiency_def Cons)
qed (simp add: evaluate_run_efficiency_def)

lemma positive_ratio: "compute_products_per_cost_unit n c = Some p \<Longrightarrow> 0 < p"
  by (auto simp: compute_products_per_cost_unit_def split: if_splits)

lemma barren_store_hides_snapshot:
  assumes "(name, c) \<in> set stores" and "int_counter c ''products_parsed'' \<le> 0"
  shows "evaluate_run_efficiency k (build_run_cost_snapshot k run_id stores) = []"
proof (rule barren_store_hides_run)
  show "build_store_cost_snapshot k name c \<in> set (rn_stores (build_run_cost_snapshot k run_id stores))"
    using assms(1) by (force simp: build_run_cost_snapshot_def Let_def)
  show "sc_products_per_cost_unit (build_store_cost_snapshot k name c) = None"
    using assms(2) by (simp add: build_store_cost_snapshot_def compute_products_per_cost_unit_def Let_def)
  show "\<forall>t\<in>set (rn_stores (build_run_cost_snapshot k run_id stores)). \<forall>p. sc_products_per_cost_unit t = Some p \<longrightarrow> 0 < p"
    by (auto simp: build_run_cost_snapshot_def build_store_cost_snapshot_def Let_def dest: positive_ratio)
qed

text \<open>An improvement from nothing counts as a regression.\<close>

lemma gain_from_zero_fails: "0 < current \<Longrightarrow> \<not> rg_passed (compare_metric_against_baseline m 0 current allowed Lower_worse)"
  by (simp add: compare_metric_against_baseline_def)

lemma foldl_rank_max:
  "status_rank (foldl (\<lambda>a x. rank_status a (f x)) s xs) = Max (insert (status_rank s) ((\<lambda>x. status_rank (f x)) ` set xs))"
proof (induction xs arbitrary: s)
  case (Cons x xs)
  have "status_rank (rank_status s (f x)) = max (status_rank s) (status_rank (f x))" by (simp add: rank_status_def)
  then show ?case using Cons.IH [of "rank_status s (f x)"]
    by (cases "xs = []") (auto simp: Max_insert2 max.assoc insert_commute)
qed simp

end
