(* ===== verification/Replay_Guard.thy ===== *)
theory Replay_Guard imports Prelude begin

text \<open>
  \<^verbatim>\<open>infrastructure/security/replay_abuse_guard.py\<close>: which events an operator may replay, and how
  many of them.
\<close>

record replay_settings =
  ENABLE_REPLAY_ABUSE_GUARDS :: bool
  SAFE_REPLAY_REQUIRE_PRODUCT_FOUND_ONLY :: bool
  SAFE_REPLAY_ALLOW_PRODUCT_FOUND :: bool
  SAFE_REPLAY_ALLOW_DELTA_EVENTS :: bool
  SAFE_REPLAY_MAX_ITEMS_PER_ACTION :: int
  SAFE_REPLAY_MAX_BATCHES_PER_ACTION :: int

record replay_abuse_decision =
  rd_allowed :: bool
  rd_reason :: pystr
  rd_max_items :: int
  rd_max_batches :: int
  rd_safe_event_types :: "pystr list"

definition DELTA_TYPES :: "pystr list" where
  "DELTA_TYPES = [''characteristic_added'', ''out_of_stock'', ''price_changed'']"

definition safe_event_types :: "replay_settings \<Rightarrow> pystr list" where
  "safe_event_types s =
    (if SAFE_REPLAY_REQUIRE_PRODUCT_FOUND_ONLY s
     then (if SAFE_REPLAY_ALLOW_PRODUCT_FOUND s then [''product_found''] else [])
     else (if SAFE_REPLAY_ALLOW_PRODUCT_FOUND s then [''product_found''] else [])
       @ (if SAFE_REPLAY_ALLOW_DELTA_EVENTS s then DELTA_TYPES else []))"

definition norm_event :: "pystr \<Rightarrow> pystr" where
  "norm_event e = lower (strip e)"

text \<open>A limit of zero counts as unset.\<close>

definition max_items :: "replay_settings \<Rightarrow> int" where
  "max_items s = (if SAFE_REPLAY_MAX_ITEMS_PER_ACTION s = 0 then 20 else SAFE_REPLAY_MAX_ITEMS_PER_ACTION s)"

definition max_batches :: "replay_settings \<Rightarrow> int" where
  "max_batches s = (if SAFE_REPLAY_MAX_BATCHES_PER_ACTION s = 0 then 3 else SAFE_REPLAY_MAX_BATCHES_PER_ACTION s)"

definition is_safe_replay_event_set :: "replay_settings \<Rightarrow> pystr list \<Rightarrow> bool" where
  "is_safe_replay_event_set s types =
    (if \<not> ENABLE_REPLAY_ABUSE_GUARDS s then True
     else if types = [] then False
     else let norm = remdups (map norm_event types) in
       length norm = 1 \<and> hd norm \<in> set (safe_event_types s))"

definition is_safe_replay_scope :: "replay_settings \<Rightarrow> int \<Rightarrow> int \<Rightarrow> bool" where
  "is_safe_replay_scope s items batches =
    (if \<not> ENABLE_REPLAY_ABUSE_GUARDS s then True else items \<le> max_items s \<and> batches \<le> max_batches s)"

definition replay_verdict :: "replay_settings \<Rightarrow> bool \<Rightarrow> pystr \<Rightarrow> replay_abuse_decision" where
  "replay_verdict s allowed reason = \<lparr> rd_allowed = allowed, rd_reason = reason, rd_max_items = max_items s, rd_max_batches = max_batches s,
     rd_safe_event_types = safe_event_types s \<rparr>"

definition validate_replay_request :: "replay_settings \<Rightarrow> pystr list \<Rightarrow> int \<Rightarrow> int \<Rightarrow> replay_abuse_decision" where
  "validate_replay_request s types items batches =
    (if \<not> ENABLE_REPLAY_ABUSE_GUARDS s then replay_verdict s True ''replay_abuse_guards_disabled''
     else if \<not> is_safe_replay_scope s items batches
     then replay_verdict s False (''scope_exceeds_policy items='' @ int_text items @ '' batches='' @ int_text batches)
     else if types = [] then replay_verdict s False ''empty_event_types''
     else let norm = map norm_event types; et = hd norm in
       if length (remdups norm) > 1 then replay_verdict s False ''heterogeneous_event_types_not_allowed''
       else if SAFE_REPLAY_REQUIRE_PRODUCT_FOUND_ONLY s \<and> et \<noteq> ''product_found''
       then replay_verdict s False ''SAFE_REPLAY_REQUIRE_PRODUCT_FOUND_ONLY''
       else if et \<notin> set (safe_event_types s) then replay_verdict s False (''event_type_not_allowed:'' @ et)
       else replay_verdict s True ''within_replay_policy'')"

section \<open>The two forms of the guard agree\<close>

lemma one_distinct:
  assumes "xs \<noteq> []"
  shows "length (remdups xs) = 1 \<longleftrightarrow> \<not> 1 < length (remdups xs)" and "length (remdups xs) = 1 \<Longrightarrow> hd (remdups xs) = hd xs"
proof -
  have "remdups xs \<noteq> []" using assms by simp
  then show "length (remdups xs) = 1 \<longleftrightarrow> \<not> 1 < length (remdups xs)" by (cases "remdups xs") auto
  assume "length (remdups xs) = 1"
  then obtain x where x: "remdups xs = [x]" by (cases "remdups xs") auto
  then have "set xs = {x}" by (metis list.set(1) list.set(2) set_remdups)
  with assms x show "hd (remdups xs) = hd xs" by (metis hd_in_set list.sel(1) singletonD)
qed

lemma safe_types_single: "SAFE_REPLAY_REQUIRE_PRODUCT_FOUND_ONLY s \<Longrightarrow> et \<in> set (safe_event_types s) \<Longrightarrow> et = ''product_found''"
  by (auto simp: safe_event_types_def split: if_splits)

text \<open>The decision with reasons and the two plain tests are the same guard: a replay is allowed exactly when
  its size and its event types are both safe, and while the guards are on, only replays of
  one single event type within both limits are allowed.\<close>

theorem replay_guard_forms_agree:
  "rd_allowed (validate_replay_request s types items batches)
     = (is_safe_replay_scope s items batches \<and> is_safe_replay_event_set s types)
   \<and> (rd_allowed (validate_replay_request s types items batches) \<and> ENABLE_REPLAY_ABUSE_GUARDS s
      \<longrightarrow> (\<exists>et\<in>set (safe_event_types s). set (map norm_event types) = {et}) \<and> items \<le> max_items s \<and> batches \<le> max_batches s)"
proof -
  let ?norm = "map norm_event types"
  have eq: "rd_allowed (validate_replay_request s types items batches)
     = (is_safe_replay_scope s items batches \<and> is_safe_replay_event_set s types)"
  proof (cases "types = []")
    case True
    then show ?thesis
      by (auto simp: validate_replay_request_def replay_verdict_def is_safe_replay_event_set_def is_safe_replay_scope_def Let_def)
  next
    case False
    then have ne: "?norm \<noteq> []" by simp
    show ?thesis
      using one_distinct [OF ne] safe_types_single [of s "hd ?norm"] False
      by (auto simp: validate_replay_request_def replay_verdict_def is_safe_replay_event_set_def is_safe_replay_scope_def Let_def)
  qed
  moreover have "(\<exists>et\<in>set (safe_event_types s). set ?norm = {et}) \<and> items \<le> max_items s \<and> batches \<le> max_batches s"
    if "is_safe_replay_scope s items batches" "is_safe_replay_event_set s types" "ENABLE_REPLAY_ABUSE_GUARDS s"
  proof -
    from that(2,3) have "length (remdups ?norm) = 1" and safe: "hd (remdups ?norm) \<in> set (safe_event_types s)"
      by (auto simp: is_safe_replay_event_set_def Let_def split: if_splits)
    then obtain x where "remdups ?norm = [x]" by (cases "remdups ?norm") auto
    then have "set ?norm = {x}" by (metis list.set(1) list.set(2) set_remdups)
    moreover have "x \<in> set (safe_event_types s)" using safe \<open>remdups ?norm = [x]\<close> by simp
    ultimately show ?thesis using that(1,3) by (auto simp: is_safe_replay_scope_def)
  qed
  ultimately show ?thesis by blast
qed

definition sample_replay :: replay_settings where
  "sample_replay = \<lparr> ENABLE_REPLAY_ABUSE_GUARDS = True, SAFE_REPLAY_REQUIRE_PRODUCT_FOUND_ONLY = True, SAFE_REPLAY_ALLOW_PRODUCT_FOUND = True,
     SAFE_REPLAY_ALLOW_DELTA_EVENTS = False, SAFE_REPLAY_MAX_ITEMS_PER_ACTION = 20, SAFE_REPLAY_MAX_BATCHES_PER_ACTION = 3 \<rparr>"

lemma replay_guard_forms_agree_witness:
  "set (map norm_event ['' Product_Found '']) = {''product_found''}"
proof -
  have "rd_allowed (validate_replay_request sample_replay ['' Product_Found ''] 5 1) \<and> ENABLE_REPLAY_ABUSE_GUARDS sample_replay"
    by code_simp
  with replay_guard_forms_agree [of sample_replay "['' Product_Found '']" 5 1]
  obtain et where "et \<in> set (safe_event_types sample_replay)" "set (map norm_event ['' Product_Found '']) = {et}" by blast
  moreover have "safe_event_types sample_replay = [''product_found'']" by code_simp
  ultimately show ?thesis by simp
qed

text \<open>A limit of no batch, which the settings allow, forbids nothing: it is read as the default.\<close>

lemma zero_batches_is_default: "SAFE_REPLAY_MAX_BATCHES_PER_ACTION s = 0 \<Longrightarrow> items \<le> max_items s \<Longrightarrow> is_safe_replay_scope s items 3"
  by (simp add: is_safe_replay_scope_def max_batches_def)

end
