(* ===== verification/Run_Registry.thy ===== *)
theory Run_Registry imports Fingerprints begin

text \<open>
  \<^verbatim>\<open>services/ui_api/run_registry.py\<close>: the runs the operator's page shows, in one JSON file.  Each
  operation reads the file and writes it whole under a lock, so it is one step here.
  Failures of the file system and the order of the keys in the file are left out.  The locale
  \<open>run_book\<close> says what the runner relies on.
\<close>

type_synonym run = json_row

datatype registry_file = No_file | Corrupt_file | Runs "run list"

text \<open>A file that cannot be read is moved away.\<close>

definition read_runs :: "registry_file \<Rightarrow> run list \<times> registry_file" where
  "read_runs f = (case f of Runs rs \<Rightarrow> (rs, f) | _ \<Rightarrow> ([], No_file))"

definition list_runs :: "registry_file \<Rightarrow> run list" where
  "list_runs f = rev (sort_key (\<lambda>r. let v = row_get ''started_at'' r in if json_truthy v then py_str v else []) (rev (fst (read_runs f))))"

definition registry_get :: "pystr \<Rightarrow> registry_file \<Rightarrow> run option" where
  "registry_get run_id f = List.find (\<lambda>r. row_get ''id'' r = JStr run_id) (fst (read_runs f))"

text \<open>\<open>dict.update\<close>.\<close>

definition update_run :: "run \<Rightarrow> json_row \<Rightarrow> run" where
  "update_run r updates = foldl (\<lambda>r (k, v). od_set k v r) r updates"

fun put_run :: "run \<Rightarrow> run list \<Rightarrow> run list" where
  "put_run run [] = [run]"
| "put_run run (r # rs) = (if row_get ''id'' r = row_get ''id'' run then run # rs else r # put_run run rs)"

definition registry_upsert :: "pystr \<Rightarrow> run \<Rightarrow> registry_file \<Rightarrow> run \<times> registry_file" where
  "registry_upsert now run f =
    (let run1 = od_set ''updated_at'' (JStr now) run in (run1, Runs (put_run run1 (fst (read_runs f)))))"

fun patch_run :: "pystr \<Rightarrow> (run \<Rightarrow> run) \<Rightarrow> run list \<Rightarrow> (run \<times> run list) option" where
  "patch_run run_id g [] = None"
| "patch_run run_id g (r # rs) =
    (if row_get ''id'' r = JStr run_id then Some (g r, g r # rs)
     else (case patch_run run_id g rs of None \<Rightarrow> None | Some (x, rs1) \<Rightarrow> Some (x, r # rs1)))"

definition registry_patch :: "pystr \<Rightarrow> pystr \<Rightarrow> json_row \<Rightarrow> registry_file \<Rightarrow> run option \<times> registry_file" where
  "registry_patch now run_id updates f =
    (case patch_run run_id (\<lambda>r. od_set ''updated_at'' (JStr now) (update_run r updates)) (fst (read_runs f)) of
       None \<Rightarrow> (None, snd (read_runs f))
     | Some (r, rs) \<Rightarrow> (Some r, Runs rs))"

section \<open>The contract\<close>

lemma update_run_get:
  "row_get k (update_run r updates) = (case map_of (rev updates) k of None \<Rightarrow> row_get k r | Some v \<Rightarrow> v)"
  by (induction updates arbitrary: r) (auto simp: update_run_def map_add_def split: option.splits)

locale run_book =
  fixes get :: "pystr \<Rightarrow> 'f \<Rightarrow> run option" and upsert :: "pystr \<Rightarrow> run \<Rightarrow> 'f \<Rightarrow> run \<times> 'f"
    and patch :: "pystr \<Rightarrow> pystr \<Rightarrow> json_row \<Rightarrow> 'f \<Rightarrow> run option \<times> 'f"
  assumes get_upsert: "row_get ''id'' run = JStr i \<Longrightarrow>
      get j (snd (upsert now run f)) = (if j = i then Some (od_set ''updated_at'' (JStr now) run) else get j f)"
    and get_patch: "map_of updates ''id'' = None \<Longrightarrow>
      get j (snd (patch now i updates f)) = (if j = i then map_option (\<lambda>r. od_set ''updated_at'' (JStr now) (update_run r updates)) (get i f) else get j f)"
begin

text \<open>The status of a run, and what a patch makes of it.\<close>

definition status :: "pystr \<Rightarrow> 'f \<Rightarrow> json option" where
  "status i f = map_option (row_get ''status'') (get i f)"

lemma status_upsert:
  "row_get ''id'' run = JStr i \<Longrightarrow> status j (snd (upsert now run f)) = (if j = i then Some (row_get ''status'' run) else status j f)"
  by (simp add: status_def get_upsert)

lemma status_patch:
  assumes "map_of updates ''id'' = None"
  shows "status j (snd (patch now i updates f)) = (if j = i then map_option (\<lambda>v. case map_of (rev updates) ''status'' of None \<Rightarrow> v | Some w \<Rightarrow> w) (status i f)
    else status j f)"
  by (cases "get i f") (simp_all add: status_def get_patch [OF assms] update_run_get)

lemma status_kept:
  assumes "map_of updates ''id'' = None" and "map_of (rev updates) ''status'' = None"
  shows "status j (snd (patch now i updates f)) = status j f"
  by (cases "status i f") (simp_all add: status_patch [OF assms(1)] assms(2))

end

lemma find_put_run:
  assumes "row_get ''id'' run = JStr i"
  shows "List.find (\<lambda>r. row_get ''id'' r = JStr j) (put_run run rs) = (if j = i then Some run else List.find (\<lambda>r. row_get ''id'' r = JStr j) rs)"
  by (induction rs) (auto simp: assms)

lemma find_patch_run:
  assumes "\<And>r. row_get ''id'' (g r) = row_get ''id'' r"
  shows "(case patch_run i g rs of None \<Rightarrow> List.find (\<lambda>r. row_get ''id'' r = JStr i) rs = None
    | Some (x, rs1) \<Rightarrow> \<forall>j. List.find (\<lambda>r. row_get ''id'' r = JStr j) rs1
        = (if j = i then map_option g (List.find (\<lambda>r. row_get ''id'' r = JStr i) rs) else List.find (\<lambda>r. row_get ''id'' r = JStr j) rs))"
  by (induction rs) (auto simp: assms split: option.splits)

interpretation book: run_book registry_get registry_upsert registry_patch
proof
  fix run :: run and i j now f
  assume "row_get ''id'' run = JStr i"
  then have "row_get ''id'' (od_set ''updated_at'' (JStr now) run) = JStr i" by simp
  from find_put_run [OF this]
  show "registry_get j (snd (registry_upsert now run f)) = (if j = i then Some (od_set ''updated_at'' (JStr now) run) else registry_get j f)"
    by (simp add: registry_get_def registry_upsert_def read_runs_def Let_def)
next
  fix updates :: json_row and i j now f
  assume "map_of updates ''id'' = None"
  then have "map_of (rev updates) ''id'' = None" by (simp add: map_of_eq_None_iff)
  then have "row_get ''id'' (od_set ''updated_at'' (JStr now) (update_run r updates)) = row_get ''id'' r" for r
    by (simp add: update_run_get)
  note p = find_patch_run [where g = "\<lambda>r. od_set ''updated_at'' (JStr now) (update_run r updates)" and i = i and rs = "fst (read_runs f)", OF this]
  show "registry_get j (snd (registry_patch now i updates f))
      = (if j = i then map_option (\<lambda>r. od_set ''updated_at'' (JStr now) (update_run r updates)) (registry_get i f) else registry_get j f)"
    using p by (auto simp: registry_get_def registry_patch_def read_runs_def split: option.splits registry_file.splits)
qed

end
