(* ===== verification/Ui_Runner.thy ===== *)
theory Ui_Runner imports Run_Registry Py_Number "HOL-Library.Multiset" begin

text \<open>
  \<^verbatim>\<open>services/ui_api/scraper_runner.py\<close>: crawls started, watched and stopped from the operator's
  page.  A run is served by the thread that starts it, the thread that watches its output
  and one thread per request to stop or refresh it.  Each access to the registry or to a
  table of the runner is one step of \<open>ui_step\<close>; the steps of different threads interleave.
  The regular expressions that read a crawl's output are parameters (\<open>line_reader\<close>), but for
  those without alternatives.
\<close>

section \<open>Starting\<close>

record start_request =
  sr_store :: pystr
  sr_time_limit :: "int option"
  sr_item_limit :: "int option"
  sr_interval :: "rat option"
  sr_category :: "pystr option"
  sr_brand :: "pystr option"
  sr_category_url :: "pystr option"
  sr_until_stopped :: bool

definition not_positive :: "'n::linordered_idom option \<Rightarrow> bool" where
  "not_positive x = (case x of None \<Rightarrow> False | Some n \<Rightarrow> n \<le> 0)"

definition check_request :: "pystr list \<Rightarrow> start_request \<Rightarrow> exc + start_request" where
  "check_request stores q =
    (if sr_store q \<notin> set stores then Inl (ValueError (''Unknown store: '' @ sr_store q))
     else if \<not> sr_until_stopped q \<and> not_positive (sr_time_limit q) then Inl (ValueError ''time_limit_minutes must be greater than zero'')
     else if \<not> sr_until_stopped q \<and> not_positive (sr_item_limit q) then Inl (ValueError ''item_limit must be greater than zero'')
     else if \<not> sr_until_stopped q \<and> sr_time_limit q = None \<and> sr_item_limit q = None
       then Inl (ValueError ''Set a time limit, item limit, or enable Run until stopped'')
     else if not_positive (sr_interval q) then Inl (ValueError ''parse_interval_seconds must be greater than zero'')
     else Inr (if sr_until_stopped q then q\<lparr>sr_time_limit := None, sr_item_limit := None\<rparr> else q))"

text \<open>What the interpreter and the operating system supply.\<close>

record ui_env =
  ue_stores :: "pystr list"
  ue_python :: pystr
  ue_g_text :: "rat \<Rightarrow> pystr"
  ue_repr_text :: "rat \<Rightarrow> pystr"

definition option_args :: "pystr \<Rightarrow> pystr \<Rightarrow> pystr option \<Rightarrow> pystr list" where
  "option_args flag key v = (case v of None \<Rightarrow> [] | Some x \<Rightarrow> [flag, key @ ''='' @ x])"

definition build_command :: "ui_env \<Rightarrow> start_request \<Rightarrow> pystr list" where
  "build_command e q =
    [ue_python e, ''-m'', ''scrapy'', ''crawl'', sr_store q]
    @ option_args ''-s'' ''CLOSESPIDER_TIMEOUT'' (map_option (\<lambda>m. int_text (m * 60)) (sr_time_limit q))
    @ option_args ''-s'' ''CLOSESPIDER_ITEMCOUNT'' (map_option int_text (sr_item_limit q))
    @ option_args ''-s'' ''DOWNLOAD_DELAY'' (map_option (ue_g_text e) (sr_interval q))
    @ (if truthy (sr_category q) then option_args ''-a'' ''category'' (sr_category q) else [])
    @ (if truthy (sr_brand q) then option_args ''-a'' ''brand'' (sr_brand q) else [])
    @ (if truthy (sr_category_url q) then option_args ''-a'' ''category_url'' (sr_category_url q) else [])"

definition jint_opt :: "int option \<Rightarrow> json" where
  "jint_opt x = (case x of None \<Rightarrow> JNull | Some i \<Rightarrow> JInt i)"

definition fresh_run :: "ui_env \<Rightarrow> pystr \<Rightarrow> pystr \<Rightarrow> pystr \<Rightarrow> pystr \<Rightarrow> start_request \<Rightarrow> run" where
  "fresh_run e run_id now log_path db_path q =
    [(''id'', JStr run_id), (''status'', JStr ''starting''), (''store'', JStr (sr_store q)), (''started_at'', JStr now), (''finished_at'', JNull),
     (''duration_seconds'', JInt 0), (''items_scraped'', JInt 0), (''items_persisted'', JInt 0), (''pages_visited'', JInt 0),
     (''errors'', JInt 0), (''warnings'', JInt 0), (''stop_reason'', JNull),
     (''time_limit_minutes'', jint_opt (sr_time_limit q)), (''item_limit'', jint_opt (sr_item_limit q)),
     (''parse_interval_seconds'', case sr_interval q of None \<Rightarrow> JNull | Some x \<Rightarrow> JFloat (ue_repr_text e x)),
     (''category'', jopt (sr_category q)), (''brand'', jopt (sr_brand q)), (''category_url'', jopt (sr_category_url q)),
     (''run_until_stopped'', JBool (sr_until_stopped q)), (''command'', JArr (map JStr (build_command e q))),
     (''log_path'', JStr log_path), (''scraper_db_path'', JStr db_path), (''summary'', JObj []),
     (''created_at'', JStr now), (''updated_at'', JStr now)]"

section \<open>Watching\<close>

text \<open>The groups of \<open>SUMMARY_RE\<close>, in order, and what the other two expressions find.\<close>

record summary_match =
  sm_run_id :: pystr
  sm_store :: pystr
  sm_status :: pystr
  sm_scraped :: pystr
  sm_persisted :: pystr
  sm_failed :: pystr
  sm_pages :: pystr
  sm_spec :: pystr
  sm_image :: pystr

record line_reader =
  lr_summary :: "pystr \<Rightarrow> summary_match option"
  lr_raw_product :: "pystr \<Rightarrow> pystr option"
  lr_run_id :: "pystr \<Rightarrow> pystr option"

definition to_int :: "pystr \<Rightarrow> int" where
  "to_int s = (case py_float s of None \<Rightarrow> 0 | Some x \<Rightarrow> truncated x)"

definition safe_ratio_percent :: "pystr \<Rightarrow> json" where
  "safe_ratio_percent s = (case py_float s of None \<Rightarrow> JNull | Some x \<Rightarrow> JInt (py_round (x * 100)))"

definition parse_summary_line :: "line_reader \<Rightarrow> pystr \<Rightarrow> json_row option" where
  "parse_summary_line rd line = map_option (\<lambda>m.
    [(''scrape_run_id'', JStr (sm_run_id m)), (''store'', JStr (sm_store m)), (''pipeline_status'', JStr (sm_status m)),
     (''items_scraped'', JInt (to_int (sm_scraped m))), (''items_persisted'', JInt (to_int (sm_persisted m))),
     (''failed_pdp'', JInt (to_int (sm_failed m))), (''pages_visited'', JInt (to_int (sm_pages m))),
     (''spec_coverage_percent'', safe_ratio_percent (sm_spec m)), (''image_coverage_percent'', safe_ratio_percent (sm_image m))])
    (lr_summary rd line)"

text \<open>\<open>Spider closed \((?P<reason>[^)]+)\)\<close>, at the first place where it matches.\<close>

fun parse_finish_reason :: "pystr \<Rightarrow> pystr option" where
  "parse_finish_reason [] = None"
| "parse_finish_reason (c # s) =
    (let t = drop 15 (c # s); reason = takeWhile (\<lambda>d. d \<noteq> CHR '')'') t
     in if starts_with ''Spider closed ('' (c # s) \<and> reason \<noteq> [] \<and> length reason < length t then Some reason else parse_finish_reason s)"

record watcher =
  wt_summary :: json_row
  wt_items :: int
  wt_pages :: int
  wt_seen :: "pystr list"
  wt_warnings :: int
  wt_errors :: int

definition new_watcher :: watcher where
  "new_watcher = \<lparr>wt_summary = [], wt_items = 0, wt_pages = 0, wt_seen = [], wt_warnings = 0, wt_errors = 0\<rparr>"

definition count_levels :: "pystr \<Rightarrow> watcher \<Rightarrow> watcher" where
  "count_levels line w = w\<lparr>wt_warnings := wt_warnings w + of_bool (contains '' WARNING:'' line \<or> contains '' WARN '' line),
     wt_errors := wt_errors w + of_bool (contains '' ERROR:'' line \<or> contains '' ERROR '' line)\<rparr>"

text \<open>Each kind of news changes what the watcher knows and may send one patch to the registry.\<close>

definition see_product :: "pystr option \<Rightarrow> watcher \<Rightarrow> watcher \<times> json_row list" where
  "see_product x w =
    (case x of None \<Rightarrow> (w, [])
     | Some p \<Rightarrow> (if p = [] \<or> p \<in> set (wt_seen w) then (w, []) else
        (let n = wt_items w + 1;
             summary = od_set ''items_persisted'' (JInt n) (od_set ''items_scraped'' (JInt n) (wt_summary w))
         in (w\<lparr>wt_seen := p # wt_seen w, wt_items := n, wt_summary := summary\<rparr>,
             [[(''items_scraped'', JInt n), (''items_persisted'', JInt n), (''summary'', JObj summary)]]))))"

definition see_run_id :: "pystr option \<Rightarrow> watcher \<Rightarrow> watcher \<times> json_row list" where
  "see_run_id x w =
    (case x of None \<Rightarrow> (w, [])
     | Some r \<Rightarrow> (if r = [] then (w, []) else
        (let summary = od_set ''scrape_run_id'' (JStr r) (wt_summary w)
         in (w\<lparr>wt_summary := summary\<rparr>, [[(''scrape_run_id'', JStr r), (''summary'', JObj summary)]]))))"

definition see_page :: "pystr \<Rightarrow> watcher \<Rightarrow> watcher \<times> json_row list" where
  "see_page line w =
    (if contains (CHR 0x22 # ''event'' @ [CHR 0x22] @ '': '' @ [CHR 0x22] @ ''LISTING_PAGE'' @ [CHR 0x22]) line
     then (w\<lparr>wt_pages := wt_pages w + 1\<rparr>, [[(''pages_visited'', JInt (wt_pages w + 1))]]) else (w, []))"

definition see_summary :: "json_row option \<Rightarrow> watcher \<Rightarrow> watcher \<times> json_row list" where
  "see_summary x w =
    (case x of None \<Rightarrow> (w, [])
     | Some d \<Rightarrow> (let summary = update_run (wt_summary w) d in
        (w\<lparr>wt_summary := summary\<rparr>,
         [[(''scrape_run_id'', row_get ''scrape_run_id'' d), (''items_scraped'', row_get ''items_scraped'' d),
           (''items_persisted'', row_get ''items_persisted'' d), (''pages_visited'', row_get ''pages_visited'' d),
           (''summary'', JObj summary)]])))"

definition see_reason :: "pystr \<Rightarrow> watcher \<Rightarrow> watcher" where
  "see_reason line w = (case parse_finish_reason line of None \<Rightarrow> w
     | Some r \<Rightarrow> w\<lparr>wt_summary := od_set ''finish_reason'' (JStr r) (wt_summary w)\<rparr>)"

definition watch_line :: "line_reader \<Rightarrow> pystr \<Rightarrow> watcher \<Rightarrow> watcher \<times> json_row list" where
  "watch_line rd line w =
    (let (w1, p1) = see_product (lr_raw_product rd line) (count_levels line w);
         (w2, p2) = see_run_id (lr_run_id rd line) w1;
         (w3, p3) = see_page line w2;
         (w4, p4) = see_summary (parse_summary_line rd line) w3
     in (see_reason line w4, p1 @ p2 @ p3 @ p4))"

section \<open>The verdict\<close>

definition run_verdict :: "bool \<Rightarrow> int \<Rightarrow> pystr" where
  "run_verdict stopped exit_code = (if stopped then ''stopped'' else if exit_code = 0 then ''completed'' else ''failed'')"

definition stop_reason_of :: "bool \<Rightarrow> int \<Rightarrow> json \<Rightarrow> json" where
  "stop_reason_of stopped exit_code reason =
    (if stopped then JStr ''manual stop''
     else if \<not> json_truthy reason then JStr (if exit_code = 0 then ''finished'' else ''exit code '' @ int_text exit_code)
     else reason)"

definition final_summary :: "watcher \<Rightarrow> json_row" where
  "final_summary w =
    (let d = wt_summary w;
         d1 = (if wt_items w \<noteq> 0 \<and> ''items_scraped'' \<notin> set (od_keys d)
               then od_set ''items_persisted'' (JInt (wt_items w)) (od_set ''items_scraped'' (JInt (wt_items w)) d) else d)
     in if wt_pages w \<noteq> 0 \<and> ''pages_visited'' \<notin> set (od_keys d1) then od_set ''pages_visited'' (JInt (wt_pages w)) d1 else d1)"

text \<open>\<open>int(a or b or 0)\<close>; the counts of the summary and of the registry are integers.\<close>

definition final_count :: "pystr \<Rightarrow> json_row \<Rightarrow> json_row \<Rightarrow> json" where
  "final_count k summary run = JInt (case json_or (row_get k summary) (row_get k run) of JInt n \<Rightarrow> n | _ \<Rightarrow> 0)"

definition final_patch :: "pystr \<Rightarrow> int \<Rightarrow> watcher \<Rightarrow> int \<Rightarrow> bool \<Rightarrow> run \<Rightarrow> json_row" where
  "final_patch finished_at duration w exit_code stopped run =
    (let d = final_summary w in
     [(''status'', JStr (run_verdict stopped exit_code)), (''exit_code'', JInt exit_code), (''finished_at'', JStr finished_at),
      (''duration_seconds'', JInt (max 0 duration)), (''errors'', JInt (wt_errors w)), (''warnings'', JInt (wt_warnings w)),
      (''stop_reason'', stop_reason_of stopped exit_code (row_get ''finish_reason'' (wt_summary w))),
      (''items_scraped'', final_count ''items_scraped'' d run), (''items_persisted'', final_count ''items_persisted'' d run),
      (''pages_visited'', final_count ''pages_visited'' d run), (''summary'', JObj d)])"


section \<open>The threads of the runner\<close>

text \<open>Where the threads that start and watch a run are.\<close>

datatype phase =
    Absent
  | Launching
  | Launch_failed
  | Spawned
  | Announcing
  | Watching watcher "json_row list"
  | Waited watcher int
  | Looked_up watcher int run
  | Judged int bool json_row
  | Reported int bool
  | Over int bool

text \<open>
  The file, the two tables of the runner, and what its threads hold: the stops that have
  still to be written (False) or signalled (True), the refreshes that have to write the
  duration (False) or to poll the process (True).  \<open>us_exited\<close> is the state of the operating
  system; \<open>us_asked\<close> and \<open>us_signalled\<close> record the calls.
\<close>

record ui_state =
  us_file :: registry_file
  us_processes :: "pystr set"
  us_stop_requested :: "pystr set"
  us_phase :: "pystr \<Rightarrow> phase"
  us_exited :: "pystr \<Rightarrow> int option"
  us_stops :: "(pystr \<times> bool) multiset"
  us_refreshes :: "(pystr \<times> bool) multiset"
  us_asked :: "pystr set"
  us_signalled :: "pystr set"

definition ui_start :: "registry_file \<Rightarrow> ui_state" where
  "ui_start f = \<lparr>us_file = f, us_processes = {}, us_stop_requested = {}, us_phase = (\<lambda>_. Absent), us_exited = (\<lambda>_. None),
     us_stops = {#}, us_refreshes = {#}, us_asked = {}, us_signalled = {}\<rparr>"

definition enter :: "pystr \<Rightarrow> phase \<Rightarrow> ui_state \<Rightarrow> ui_state" where
  "enter i p s = s\<lparr>us_phase := (us_phase s)(i := p)\<rparr>"

definition patch_file :: "pystr \<Rightarrow> pystr \<Rightarrow> json_row \<Rightarrow> ui_state \<Rightarrow> ui_state" where
  "patch_file now i u s = s\<lparr>us_file := snd (registry_patch now i u (us_file s))\<rparr>"

text \<open>The steps of \<open>start\<close>: a fresh identifier, the run in the registry, the process, its entry, the news of it.\<close>

definition start_book :: "ui_env \<Rightarrow> pystr \<Rightarrow> pystr \<Rightarrow> pystr \<Rightarrow> pystr \<Rightarrow> start_request \<Rightarrow> ui_state \<Rightarrow> ui_state" where
  "start_book e i now log_path db_path q s =
    enter i Launching (s\<lparr>us_file := snd (registry_upsert now (fresh_run e i now log_path db_path q) (us_file s))\<rparr>)"

definition start_register :: "pystr \<Rightarrow> ui_state \<Rightarrow> ui_state" where
  "start_register i s = enter i Announcing (s\<lparr>us_processes := insert i (us_processes s)\<rparr>)"

definition start_announce :: "pystr \<Rightarrow> pystr \<Rightarrow> int \<Rightarrow> ui_state \<Rightarrow> ui_state" where
  "start_announce i now pid s =
    enter i (Watching new_watcher []) (patch_file now i [(''status'', JStr ''running''), (''pid'', JInt pid)] s)"

text \<open>The steps of \<open>stop\<close>; without an entry it is done after the first one.\<close>

definition stop_ask :: "pystr \<Rightarrow> ui_state \<Rightarrow> ui_state" where
  "stop_ask i s = s\<lparr>us_stop_requested := insert i (us_stop_requested s), us_asked := insert i (us_asked s),
     us_stops := (if i \<in> us_processes s then add_mset (i, False) (us_stops s) else us_stops s)\<rparr>"

definition stop_write :: "pystr \<Rightarrow> pystr \<Rightarrow> ui_state \<Rightarrow> ui_state" where
  "stop_write now i s = patch_file now i [(''status'', JStr ''stopping''), (''stop_reason'', JStr ''manual stop requested'')]
     (s\<lparr>us_stops := add_mset (i, True) (us_stops s - {#(i, False)#})\<rparr>)"

definition stop_signal :: "pystr \<Rightarrow> ui_state \<Rightarrow> ui_state" where
  "stop_signal i s = s\<lparr>us_stops := us_stops s - {#(i, True)#}, us_signalled := insert i (us_signalled s)\<rparr>"

text \<open>The steps of \<open>refresh_active\<close> for one of the processes it found.\<close>

definition refresh_write :: "pystr \<Rightarrow> pystr \<Rightarrow> int \<Rightarrow> ui_state \<Rightarrow> ui_state" where
  "refresh_write now i duration s =
    (let s1 = s\<lparr>us_refreshes := us_refreshes s - {#(i, False)#}\<rparr> in
     if registry_get i (us_file s) = None then s1
     else patch_file now i [(''duration_seconds'', JInt (max 0 duration))] (s1\<lparr>us_refreshes := add_mset (i, True) (us_refreshes s1)\<rparr>))"

definition refresh_poll :: "pystr \<Rightarrow> ui_state \<Rightarrow> ui_state" where
  "refresh_poll i s = s\<lparr>us_refreshes := us_refreshes s - {#(i, True)#},
     us_processes := (if us_exited s i = None then us_processes s else us_processes s - {i})\<rparr>"

text \<open>The last two steps of the watcher.\<close>

definition watch_report :: "pystr \<Rightarrow> pystr \<Rightarrow> int \<Rightarrow> bool \<Rightarrow> json_row \<Rightarrow> ui_state \<Rightarrow> ui_state" where
  "watch_report now i code stopped u s = enter i (Reported code stopped) (patch_file now i u s)"

definition watch_cleanup :: "pystr \<Rightarrow> int \<Rightarrow> bool \<Rightarrow> ui_state \<Rightarrow> ui_state" where
  "watch_cleanup i code stopped s =
    enter i (Over code stopped) (s\<lparr>us_processes := us_processes s - {i}, us_stop_requested := us_stop_requested s - {i}\<rparr>)"

text \<open>
  The watcher leaves its loop at the end of the output or by an exception; either way it
  waits for the process.  The page adds what it reads from the crawl's database to a run
  (\<open>services/ui_api/main.py\<close>).
\<close>

inductive ui_step :: "ui_env \<Rightarrow> line_reader \<Rightarrow> ui_state \<Rightarrow> ui_state \<Rightarrow> bool" for e rd where
  book_run: "check_request (ue_stores e) q = Inr q1 \<Longrightarrow> us_phase s i = Absent \<Longrightarrow> registry_get i (us_file s) = None
    \<Longrightarrow> ui_step e rd s (start_book e i now log_path db_path q1 s)"
| spawn: "us_phase s i = Launching \<Longrightarrow> ui_step e rd s (enter i Spawned s)"
| spawn_fails: "us_phase s i = Launching \<Longrightarrow> ui_step e rd s (enter i Launch_failed s)"
| register: "us_phase s i = Spawned \<Longrightarrow> ui_step e rd s (start_register i s)"
| announce: "us_phase s i = Announcing \<Longrightarrow> ui_step e rd s (start_announce i now pid s)"
| exit: "us_phase s i \<notin> {Absent, Launching, Launch_failed} \<Longrightarrow> us_exited s i = None
    \<Longrightarrow> ui_step e rd s (s\<lparr>us_exited := (us_exited s)(i := Some code)\<rparr>)"
| read_line: "us_phase s i = Watching w [] \<Longrightarrow> watch_line rd line w = (w1, us) \<Longrightarrow> ui_step e rd s (enter i (Watching w1 us) s)"
| tell: "us_phase s i = Watching w (u # us) \<Longrightarrow> ui_step e rd s (enter i (Watching w us) (patch_file now i u s))"
| wait: "us_phase s i = Watching w us \<Longrightarrow> us_exited s i = Some code \<Longrightarrow> ui_step e rd s (enter i (Waited w code) s)"
| look_up: "us_phase s i = Waited w code
    \<Longrightarrow> ui_step e rd s (enter i (Looked_up w code (case registry_get i (us_file s) of None \<Rightarrow> [] | Some r \<Rightarrow> r)) s)"
| judge: "us_phase s i = Looked_up w code r
    \<Longrightarrow> ui_step e rd s (enter i (Judged code (i \<in> us_stop_requested s) (final_patch finished_at duration w code (i \<in> us_stop_requested s) r)) s)"
| report: "us_phase s i = Judged code stopped u \<Longrightarrow> ui_step e rd s (watch_report now i code stopped u s)"
| cleanup: "us_phase s i = Reported code stopped \<Longrightarrow> ui_step e rd s (watch_cleanup i code stopped s)"
| ask: "ui_step e rd s (stop_ask i s)"
| write_stop: "(i, False) \<in># us_stops s \<Longrightarrow> ui_step e rd s (stop_write now i s)"
| signal_stop: "(i, True) \<in># us_stops s \<Longrightarrow> ui_step e rd s (stop_signal i s)"
| refresh: "i \<in> us_processes s \<Longrightarrow> ui_step e rd s (s\<lparr>us_refreshes := add_mset (i, False) (us_refreshes s)\<rparr>)"
| refresh_writes: "(i, False) \<in># us_refreshes s \<Longrightarrow> ui_step e rd s (refresh_write now i duration s)"
| refresh_polls: "(i, True) \<in># us_refreshes s \<Longrightarrow> ui_step e rd s (refresh_poll i s)"
| enrich: "ui_step e rd s (patch_file now i [(''scrape_run_id'', JStr r), (''summary'', JObj d)] s)"

section \<open>What a status tells\<close>

text \<open>The statuses a run may show while its threads are in a phase.\<close>

definition shown_statuses :: "phase \<Rightarrow> pystr list" where
  "shown_statuses p = (case p of
       Absent \<Rightarrow> []
     | Launching \<Rightarrow> [''starting''] | Launch_failed \<Rightarrow> [''starting''] | Spawned \<Rightarrow> [''starting'']
     | Announcing \<Rightarrow> [''starting'', ''stopping'']
     | Watching _ _ \<Rightarrow> [''running'', ''stopping''] | Waited _ _ \<Rightarrow> [''running'', ''stopping'']
     | Looked_up _ _ _ \<Rightarrow> [''running'', ''stopping''] | Judged _ _ _ \<Rightarrow> [''running'', ''stopping'']
     | Reported code stopped \<Rightarrow> [run_verdict stopped code, ''stopping''] | Over code stopped \<Rightarrow> [run_verdict stopped code, ''stopping''])"

abbreviation shown_status :: "ui_state \<Rightarrow> pystr \<Rightarrow> json option" where
  "shown_status s i \<equiv> book.status i (us_file s)"

text \<open>No patch of the watcher but the last touches the status or the identifier.\<close>

definition harmless :: "json_row \<Rightarrow> bool" where
  "harmless u \<longleftrightarrow> ''id'' \<notin> fst ` set u \<and> ''status'' \<notin> fst ` set u"

definition reports :: "int \<Rightarrow> bool \<Rightarrow> json_row \<Rightarrow> bool" where
  "reports code stopped u \<longleftrightarrow> map_of u ''id'' = None \<and> map_of (rev u) ''status'' = Some (JStr (run_verdict stopped code))"

definition phase_ok :: "ui_state \<Rightarrow> pystr \<Rightarrow> phase \<Rightarrow> bool" where
  "phase_ok s i p = (case p of
       Watching _ us \<Rightarrow> list_all harmless us
     | Waited _ code \<Rightarrow> us_exited s i = Some code | Looked_up _ code _ \<Rightarrow> us_exited s i = Some code
     | Judged code stopped u \<Rightarrow> us_exited s i = Some code \<and> reports code stopped u \<and> (stopped \<longrightarrow> i \<in> us_asked s)
     | Reported code stopped \<Rightarrow> us_exited s i = Some code \<and> (stopped \<longrightarrow> i \<in> us_asked s)
     | Over code stopped \<Rightarrow> us_exited s i = Some code \<and> (stopped \<longrightarrow> i \<in> us_asked s)
     | _ \<Rightarrow> True)"

definition unregistered :: "phase \<Rightarrow> bool" where
  "unregistered p \<longleftrightarrow> p \<in> {Absent, Launching, Launch_failed, Spawned}"

definition run_ok :: "ui_state \<Rightarrow> pystr \<Rightarrow> bool" where
  "run_ok s i \<longleftrightarrow> phase_ok s i (us_phase s i)
    \<and> (us_phase s i \<noteq> Absent \<longrightarrow> (\<exists>v. v \<in> set (shown_statuses (us_phase s i)) \<and> shown_status s i = Some (JStr v)
        \<and> (v = ''stopping'' \<longrightarrow> i \<in> us_signalled s \<or> (i, True) \<in># us_stops s)))
    \<and> (unregistered (us_phase s i) \<longrightarrow> i \<notin> us_processes s \<and> (i, False) \<notin># us_stops s)
    \<and> (\<forall>c b. us_phase s i = Over c b \<longrightarrow> i \<notin> us_processes s)
    \<and> (i \<in> us_stop_requested s \<longrightarrow> i \<in> us_asked s)"


lemma patch_file_fields [simp]:
  "us_processes (patch_file now i u s) = us_processes s" "us_stop_requested (patch_file now i u s) = us_stop_requested s"
  "us_phase (patch_file now i u s) = us_phase s" "us_exited (patch_file now i u s) = us_exited s"
  "us_stops (patch_file now i u s) = us_stops s" "us_refreshes (patch_file now i u s) = us_refreshes s"
  "us_asked (patch_file now i u s) = us_asked s" "us_signalled (patch_file now i u s) = us_signalled s"
  by (simp_all add: patch_file_def)

lemma enter_fields [simp]:
  "us_file (enter i p s) = us_file s" "us_processes (enter i p s) = us_processes s" "us_stop_requested (enter i p s) = us_stop_requested s"
  "us_phase (enter i p s) = (us_phase s)(i := p)" "us_exited (enter i p s) = us_exited s"
  "us_stops (enter i p s) = us_stops s" "us_refreshes (enter i p s) = us_refreshes s"
  "us_asked (enter i p s) = us_asked s" "us_signalled (enter i p s) = us_signalled s"
  by (simp_all add: enter_def)

lemma status_patch_file:
  "map_of u ''id'' = None \<Longrightarrow> shown_status (patch_file now i u s) j
    = (if j = i then map_option (\<lambda>v. case map_of (rev u) ''status'' of None \<Rightarrow> v | Some w \<Rightarrow> w) (shown_status s i) else shown_status s j)"
  by (simp add: patch_file_def book.status_patch)

lemma harmless_maps: "harmless u \<Longrightarrow> map_of u ''id'' = None \<and> map_of (rev u) ''status'' = None"
  by (simp add: harmless_def map_of_eq_None_iff)

lemma status_harmless [simp]: "harmless u \<Longrightarrow> shown_status (patch_file now i u s) j = shown_status s j"
  using book.status_kept [of u j now i "us_file s"] by (simp add: patch_file_def harmless_maps)

lemma harmless_patches:
  "harmless [(''duration_seconds'', d)]" "harmless [(''scrape_run_id'', r), (''summary'', v)]"
  "harmless [(''items_scraped'', a), (''items_persisted'', b), (''summary'', v)]" "harmless [(''pages_visited'', a)]"
  "harmless [(''scrape_run_id'', r), (''items_scraped'', a), (''items_persisted'', b), (''pages_visited'', c), (''summary'', v)]"
  by (simp_all add: harmless_def)

lemma see_harmless:
  "list_all harmless (snd (see_product x w))" "list_all harmless (snd (see_run_id x w))"
  "list_all harmless (snd (see_page line w))" "list_all harmless (snd (see_summary y w))"
  by (simp_all add: see_product_def see_run_id_def see_page_def see_summary_def Let_def harmless_patches split: option.splits)

lemma watch_line_harmless: "watch_line rd line w = (w1, us) \<Longrightarrow> list_all harmless us"
  using see_harmless(1) [of "lr_raw_product rd line" "count_levels line w"] see_harmless(2,3,4)
  by (auto simp: watch_line_def Let_def split: prod.splits) (metis snd_conv)+

lemma reports_final_patch: "reports code stopped (final_patch t d w code stopped r)"
  by (simp add: reports_def final_patch_def Let_def)

lemma status_reports: "reports code stopped u \<Longrightarrow> shown_status (patch_file now i u s) j
    = (if j = i then map_option (\<lambda>_. JStr (run_verdict stopped code)) (shown_status s i) else shown_status s j)"
  by (simp add: reports_def status_patch_file)

lemma status_fresh_run: "row_get ''status'' (fresh_run e i now l d q) = JStr ''starting''" "row_get ''id'' (fresh_run e i now l d q) = JStr i"
  by (simp_all add: fresh_run_def row_get_def)

lemma status_start_book:
  "shown_status (start_book e i now l d q s) j = (if j = i then Some (JStr ''starting'') else shown_status s j)"
  by (simp add: start_book_def book.status_upsert [OF status_fresh_run(2)] status_fresh_run(1))

lemmas runner_steps = start_register_def stop_ask_def stop_signal_def refresh_poll_def watch_cleanup_def

lemmas phase_views = run_ok_def phase_ok_def unregistered_def shown_statuses_def

text \<open>Each step keeps every run in order.\<close>

lemma run_ok_frame:
  assumes "run_ok s j" and "us_phase t j = us_phase s j" and "shown_status t j = shown_status s j"
    and "\<And>c. us_exited s j = Some c \<Longrightarrow> us_exited t j = Some c"
    and "j \<in> us_asked s \<Longrightarrow> j \<in> us_asked t" and "j \<in> us_stop_requested t \<Longrightarrow> j \<in> us_stop_requested s \<or> j \<in> us_asked t"
    and "j \<in> us_signalled s \<or> (j, True) \<in># us_stops s \<Longrightarrow> j \<in> us_signalled t \<or> (j, True) \<in># us_stops t"
    and "j \<in> us_processes t \<Longrightarrow> j \<in> us_processes s"
    and "(j, False) \<in># us_stops t \<Longrightarrow> (j, False) \<in># us_stops s \<or> j \<in> us_processes s"
  shows "run_ok t j"
proof -
  have "phase_ok t j (us_phase s j)" using assms(1,4,5) by (auto simp: run_ok_def phase_ok_def split: phase.splits)
  with assms show ?thesis unfolding run_ok_def by metis
qed


text \<open>
  A thread moves on: the status stays (\<open>run_ok_move\<close>) or is written (\<open>run_ok_write\<close>).
\<close>

definition tables_ok :: "ui_state \<Rightarrow> pystr \<Rightarrow> phase \<Rightarrow> bool" where
  "tables_ok t i p \<longleftrightarrow> (unregistered p \<longrightarrow> i \<notin> us_processes t \<and> (i, False) \<notin># us_stops t)
    \<and> (\<forall>c b. p = Over c b \<longrightarrow> i \<notin> us_processes t) \<and> (i \<in> us_stop_requested t \<longrightarrow> i \<in> us_asked t)"

lemma run_ok_write:
  assumes "us_phase t i = p" and "shown_status t i = Some (JStr v)" and "v \<in> set (shown_statuses p)" and "v \<noteq> ''stopping''"
    and "phase_ok t i p" and "tables_ok t i p"
  shows "run_ok t i"
  using assms by (auto simp: run_ok_def tables_ok_def)

lemma run_ok_move:
  assumes "run_ok s i" and "us_phase s i = was" and "was \<noteq> Absent" and "set (shown_statuses was) \<subseteq> set (shown_statuses (us_phase t i))"
    and "shown_status t i = shown_status s i" and "us_signalled t = us_signalled s" and "us_stops t = us_stops s"
    and "phase_ok t i (us_phase t i)" and "tables_ok t i (us_phase t i)"
  shows "run_ok t i"
  using assms by (auto simp: run_ok_def tables_ok_def)

lemma run_okD:
  assumes "run_ok s i" and "us_phase s i = p"
  shows "phase_ok s i p" and "tables_ok s i p" and "p \<noteq> Absent \<Longrightarrow> \<exists>v. shown_status s i = Some (JStr v)"
  using assms by (auto simp: run_ok_def tables_ok_def)

lemma shown_simps [simp]:
  "shown_statuses Launching = [''starting'']" "shown_statuses Launch_failed = [''starting'']" "shown_statuses Spawned = [''starting'']"
  "shown_statuses Announcing = [''starting'', ''stopping'']" "shown_statuses (Watching w us) = [''running'', ''stopping'']"
  "shown_statuses (Waited w c) = [''running'', ''stopping'']" "shown_statuses (Looked_up w c r) = [''running'', ''stopping'']"
  "shown_statuses (Judged c b u) = [''running'', ''stopping'']"
  "shown_statuses (Reported c b) = [run_verdict b c, ''stopping'']" "shown_statuses (Over c b) = [run_verdict b c, ''stopping'']"
  by (simp_all add: shown_statuses_def)

lemma run_verdict_not_stopping [simp]: "run_verdict b c \<noteq> ''stopping''"
  by (simp add: run_verdict_def)

lemmas move_simps = tables_ok_def phase_ok_def unregistered_def

text \<open>The steps that move the threads of a run itself.\<close>

lemma run_ok_book: "run_ok s i \<Longrightarrow> us_phase s i = Absent \<Longrightarrow> run_ok (start_book e i now l d q s) i"
  using run_okD(2) [of s i Absent]
  by (intro run_ok_write [where p = Launching and v = "''starting''"]) (simp_all add: status_start_book, simp_all add: start_book_def move_simps)

lemma run_ok_spawn:
  assumes "run_ok s i" and "us_phase s i = Launching"
  shows "run_ok (enter i Spawned s) i" and "run_ok (enter i Launch_failed s) i"
  using run_okD(2) [OF assms] by (intro run_ok_move [OF assms]; auto simp: move_simps)+

lemma run_ok_register:
  assumes "run_ok s i" and "us_phase s i = Spawned"
  shows "run_ok (start_register i s) i"
  using run_okD(2) [OF assms] by (intro run_ok_move [OF assms]) (auto simp: start_register_def move_simps)

lemma run_ok_announce: "run_ok s i \<Longrightarrow> us_phase s i = Announcing \<Longrightarrow> run_ok (start_announce i now pid s) i"
  using run_okD(2,3) [of s i Announcing]
  by (intro run_ok_write [where p = "Watching new_watcher []" and v = "''running''"])
    (auto simp: start_announce_def status_patch_file move_simps)

lemma run_ok_watch:
  assumes "run_ok s i"
  shows "us_phase s i = Watching w [] \<Longrightarrow> list_all harmless us \<Longrightarrow> run_ok (enter i (Watching w1 us) s) i"
    and "us_phase s i = Watching w (u # us) \<Longrightarrow> run_ok (enter i (Watching w us) (patch_file now i u s)) i"
    and "us_phase s i = Watching w us \<Longrightarrow> us_exited s i = Some code \<Longrightarrow> run_ok (enter i (Waited w code) s) i"
    and "us_phase s i = Waited w code \<Longrightarrow> run_ok (enter i (Looked_up w code r) s) i"
proof -
  { assume p: "us_phase s i = Watching w []" and h: "list_all harmless us"
    from run_okD(2) [OF assms p] h show "run_ok (enter i (Watching w1 us) s) i"
      by (intro run_ok_move [OF assms p]) (simp_all add: move_simps) }
  { assume p: "us_phase s i = Watching w (u # us)"
    from run_okD(1,2) [OF assms p] show "run_ok (enter i (Watching w us) (patch_file now i u s)) i"
      by (intro run_ok_move [OF assms p]) (simp_all add: move_simps) }
  { assume p: "us_phase s i = Watching w us" and c: "us_exited s i = Some code"
    from run_okD(2) [OF assms p] c show "run_ok (enter i (Waited w code) s) i"
      by (intro run_ok_move [OF assms p]) (simp_all add: move_simps) }
  { assume p: "us_phase s i = Waited w code"
    from run_okD(1,2) [OF assms p] show "run_ok (enter i (Looked_up w code r) s) i"
      by (intro run_ok_move [OF assms p]) (simp_all add: move_simps) }
qed

lemma run_ok_judge:
  assumes "run_ok s i" and p: "us_phase s i = Looked_up w code r"
  shows "run_ok (enter i (Judged code (i \<in> us_stop_requested s) (final_patch f d w code (i \<in> us_stop_requested s) r)) s) i"
  using run_okD(1,2) [OF assms] by (intro run_ok_move [OF assms]) (simp_all add: move_simps reports_final_patch)

lemma run_ok_report:
  assumes "run_ok s i" and p: "us_phase s i = Judged code stopped u"
  shows "run_ok (watch_report now i code stopped u s) i"
  using run_okD [OF assms]
  by (intro run_ok_write [where p = "Reported code stopped" and v = "run_verdict stopped code"])
    (auto simp: watch_report_def move_simps status_reports)

lemma run_ok_cleanup:
  assumes "run_ok s i" and p: "us_phase s i = Reported code stopped"
  shows "run_ok (watch_cleanup i code stopped s) i"
  using run_okD(1,2) [OF assms] by (intro run_ok_move [OF assms]) (simp_all add: watch_cleanup_def move_simps)

lemma in_remove_other [simp]: "x \<noteq> y \<Longrightarrow> x \<in># M - {#y#} \<longleftrightarrow> x \<in># M"
  by (simp add: in_diff_count flip: count_greater_zero_iff)

lemma status_stop_write:
  "shown_status (stop_write now i s) j = (if j = i then map_option (\<lambda>_. JStr ''stopping'') (shown_status s i) else shown_status s j)"
  by (simp add: stop_write_def status_patch_file)

lemma run_ok_stop_write:
  assumes "run_ok s i" and "(i, False) \<in># us_stops s"
  shows "run_ok (stop_write now i s) i"
proof -
  let ?t = "stop_write now i s"
  have same: "us_phase ?t = us_phase s" "us_processes ?t = us_processes s" "us_exited ?t = us_exited s" "us_asked ?t = us_asked s"
    "us_stop_requested ?t = us_stop_requested s" "(i, True) \<in># us_stops ?t" by (simp_all add: stop_write_def)
  from assms have late: "\<not> unregistered (us_phase s i)" by (auto simp: run_ok_def)
  then have "us_phase s i \<noteq> Absent" by (auto simp: unregistered_def)
  from run_okD(3) [OF assms(1) refl this] obtain v where "shown_status s i = Some (JStr v)" ..
  then have "shown_status ?t i = Some (JStr ''stopping'')" by (simp add: status_stop_write)
  moreover have "''stopping'' \<in> set (shown_statuses (us_phase s i))"
    using late by (cases "us_phase s i") (simp_all add: unregistered_def)
  moreover have "phase_ok ?t i (us_phase s i)"
    using run_okD(1) [OF assms(1) refl] by (cases "us_phase s i") (simp_all add: phase_ok_def same)
  ultimately show ?thesis
    using run_okD(2) [OF assms(1) refl] late by (auto simp: run_ok_def tables_ok_def same)
qed

lemma run_ok_start: "run_ok (ui_start f) i"
  by (simp add: run_ok_def ui_start_def phase_ok_def)

text \<open>The steps of a run leave the others alone.\<close>

lemma run_ok_other:
  assumes "run_ok s j" and "j \<noteq> i"
  shows "run_ok (start_book e i now l d q s) j" and "run_ok (enter i p s) j" and "run_ok (start_register i s) j"
    and "run_ok (start_announce i now pid s) j" and "run_ok (enter i p (patch_file now i u s)) j \<longleftrightarrow> run_ok (patch_file now i u s) j"
    and "run_ok (watch_cleanup i code stopped s) j" and "run_ok (stop_write now i s) j"
proof -
  note rule = run_ok_frame [OF assms(1)]
  show "run_ok (start_book e i now l d q s) j"
    by (rule rule, use assms(2) in \<open>simp_all add: status_start_book\<close>, use assms(2) in \<open>auto simp: start_book_def\<close>)
  show "run_ok (enter i p s) j" by (rule rule, use assms(2) in auto)
  show "run_ok (start_register i s) j" by (rule rule, use assms(2) in \<open>auto simp: start_register_def\<close>)
  show "run_ok (start_announce i now pid s) j"
    by (rule rule, use assms(2) in \<open>auto simp: start_announce_def status_patch_file\<close>)
  show "run_ok (enter i p (patch_file now i u s)) j \<longleftrightarrow> run_ok (patch_file now i u s) j"
    using assms(2) by (simp add: run_ok_def phase_ok_def split: phase.splits)
  show "run_ok (watch_cleanup i code stopped s) j" by (rule rule, use assms(2) in \<open>auto simp: watch_cleanup_def\<close>)
  show "run_ok (stop_write now i s) j"
    by (rule rule, use assms(2) in \<open>simp_all add: status_stop_write\<close>, use assms(2) in \<open>auto simp: stop_write_def dest: in_diffD\<close>)
qed

lemma run_ok_patch_other:
  assumes "run_ok s j" and "j \<noteq> i" and "map_of u ''id'' = None"
  shows "run_ok (patch_file now i u s) j"
  by (rule run_ok_frame [OF assms(1)], use assms in \<open>simp_all add: status_patch_file\<close>)

lemma run_ok_tables:
  assumes "run_ok s j"
  shows "run_ok (stop_ask i s) j" and "run_ok (stop_signal i s) j" and "run_ok (refresh_write now i d s) j" and "run_ok (refresh_poll i s) j"
    and "harmless u \<Longrightarrow> run_ok (patch_file now i u s) j" and "run_ok (s\<lparr>us_refreshes := r\<rparr>) j"
    and "us_exited s i = None \<Longrightarrow> run_ok (s\<lparr>us_exited := (us_exited s)(i := x)\<rparr>) j"
proof -
  note rule = run_ok_frame [OF assms]
  show "run_ok (stop_ask i s) j" by (rule rule) (auto simp: stop_ask_def split: if_splits)
  show "run_ok (stop_signal i s) j" by (rule rule) (auto simp: stop_signal_def dest: in_diffD)
  show "run_ok (refresh_write now i d s) j" by (rule rule) (auto simp: refresh_write_def Let_def harmless_patches split: if_splits)
  show "run_ok (refresh_poll i s) j" by (rule rule) (auto simp: refresh_poll_def split: if_splits)
  show "run_ok (patch_file now i u s) j" if "harmless u" by (rule rule) (use that in auto)
  show "run_ok (s\<lparr>us_refreshes := r\<rparr>) j" by (rule rule) auto
  show "run_ok (s\<lparr>us_exited := (us_exited s)(i := x)\<rparr>) j" if "us_exited s i = None" by (rule rule) (use that in auto)
qed

lemma run_ok_step:
  assumes "ui_step e rd s t" and ok: "\<And>i. run_ok s i"
  shows "run_ok t j"
  using assms(1)
proof cases
  case (book_run q q1 i now log_path db_path)
  with ok [of i] ok [of j] show ?thesis by (cases "j = i") (simp_all add: run_ok_book run_ok_other)
next
  case (spawn i)
  with ok [of i] ok [of j] show ?thesis by (cases "j = i") (simp_all add: run_ok_spawn run_ok_other)
next
  case (spawn_fails i)
  with ok [of i] ok [of j] show ?thesis by (cases "j = i") (simp_all add: run_ok_spawn run_ok_other)
next
  case (register i)
  with ok [of i] ok [of j] show ?thesis by (cases "j = i") (simp_all add: run_ok_register run_ok_other)
next
  case (announce i now pid)
  with ok [of i] ok [of j] show ?thesis by (cases "j = i") (simp_all add: run_ok_announce run_ok_other)
next
  case (exit i code)
  then show ?thesis using run_ok_tables(7) [OF ok, of i "Some code" j] by simp
next
  case (read_line i w line w1 us)
  with ok [of i] ok [of j] watch_line_harmless [OF read_line(3)] show ?thesis
    by (cases "j = i") (simp_all add: run_ok_watch(1) run_ok_other)
next
  case (tell i w u us now)
  then have "harmless u" using run_okD(1) [OF ok tell(2)] by (simp add: phase_ok_def)
  with tell run_ok_tables(5) [OF ok [of j]] ok [of i] ok [of j] show ?thesis
    by (cases "j = i") (simp_all add: run_ok_watch(2) run_ok_other)
next
  case (wait i w us code)
  with ok [of i] ok [of j] show ?thesis by (cases "j = i") (simp_all add: run_ok_watch(3) run_ok_other)
next
  case (look_up i w code)
  with ok [of i] ok [of j] show ?thesis by (cases "j = i") (simp_all add: run_ok_watch(4) run_ok_other)
next
  case (judge i w code r finished_at duration)
  with ok [of i] ok [of j] run_ok_judge [OF ok judge(2)] show ?thesis by (cases "j = i") (simp_all add: run_ok_other)
next
  case (report i code stopped u now)
  then have "map_of u ''id'' = None" using run_okD(1) [OF ok report(2)] by (simp add: phase_ok_def reports_def)
  with report ok [of i] ok [of j] run_ok_report [OF ok report(2)] show ?thesis
    by (cases "j = i") (simp_all add: watch_report_def run_ok_other run_ok_patch_other)
next
  case (cleanup i code stopped)
  with ok [of i] ok [of j] run_ok_cleanup [OF ok cleanup(2)] show ?thesis by (cases "j = i") (simp_all add: run_ok_other)
next
  case (write_stop i now)
  with ok [of i] ok [of j] show ?thesis by (cases "j = i") (simp_all add: run_ok_stop_write run_ok_other)
next
  case (ask i)
  then show ?thesis by (simp add: run_ok_tables ok)
next
  case (signal_stop i)
  then show ?thesis by (simp add: run_ok_tables ok)
next
  case (refresh i)
  then show ?thesis by (simp add: run_ok_tables ok)
next
  case (refresh_writes i now duration)
  then show ?thesis by (simp add: run_ok_tables ok)
next
  case (refresh_polls i)
  then show ?thesis by (simp add: run_ok_tables ok)
next
  case (enrich now i r d)
  then show ?thesis by (simp add: run_ok_tables ok harmless_patches)
qed

definition ui_reachable :: "ui_env \<Rightarrow> line_reader \<Rightarrow> ui_state \<Rightarrow> bool" where
  "ui_reachable e rd s \<longleftrightarrow> (\<exists>f. (ui_step e rd)\<^sup>*\<^sup>* (ui_start f) s)"

lemma reachable_run_ok: "ui_reachable e rd s \<Longrightarrow> run_ok s i"
proof -
  assume "ui_reachable e rd s"
  then obtain f where "(ui_step e rd)\<^sup>*\<^sup>* (ui_start f) s" by (auto simp: ui_reachable_def)
  then have "\<forall>i. run_ok s i" by (induction rule: rtranclp_induct) (auto simp: run_ok_start intro: run_ok_step)
  then show ?thesis ..
qed

lemma ui_reachable_step: "ui_reachable e rd s \<Longrightarrow> ui_step e rd s t \<Longrightarrow> ui_reachable e rd t"
  unfolding ui_reachable_def by (meson rtranclp.rtrancl_into_rtrancl)

text \<open>Nothing happens to a run whose threads are done, but for stops that are under way.\<close>

lemma over_step:
  assumes "ui_step e rd s t" and ok: "run_ok s i" and over: "us_phase s i = Over c b" and quiet: "(i, False) \<notin># us_stops s"
    and all: "\<And>j. run_ok s j"
  shows "us_phase t i = Over c b \<and> (i, False) \<notin># us_stops t \<and> shown_status t i = shown_status s i"
proof -
  have idle: "i \<notin> us_processes s" using ok over by (simp add: run_ok_def)
  show ?thesis using assms(1)
  proof cases
    case (tell j w u us now)
    then have "harmless u" using run_okD(1) [OF all tell(2)] by (simp add: phase_ok_def)
    with tell over quiet show ?thesis by auto
  next
    case (report j code stopped u now)
    then have "reports code stopped u" using run_okD(1) [OF all report(2)] by (simp add: phase_ok_def)
    with report over quiet show ?thesis by (auto simp: watch_report_def status_reports)
  next
    case (write_stop j now)
    with quiet have "i \<noteq> j" by auto
    with write_stop(1) have "shown_status t i = shown_status s i" by (simp add: status_stop_write)
    moreover have "us_phase t i = Over c b" "(i, False) \<notin># us_stops t"
      using write_stop(1) over quiet \<open>i \<noteq> j\<close> by (simp_all add: stop_write_def)
    ultimately show ?thesis by simp
  qed (use over quiet idle in \<open>auto simp: status_start_book start_book_def [of e, THEN arg_cong [of _ _ us_phase]]
     start_book_def [of e, THEN arg_cong [of _ _ us_stops]] start_register_def start_announce_def status_patch_file stop_ask_def stop_signal_def
     watch_cleanup_def refresh_write_def refresh_poll_def Let_def harmless_patches dest: in_diffD\<close>)
qed

lemma over_steps:
  assumes "(ui_step e rd)\<^sup>*\<^sup>* s t" and "ui_reachable e rd s" and "us_phase s i = Over c b" and "(i, False) \<notin># us_stops s"
  shows "us_phase t i = Over c b \<and> (i, False) \<notin># us_stops t \<and> shown_status t i = shown_status s i \<and> ui_reachable e rd t"
  using assms
proof (induction rule: rtranclp_induct)
  case (step t u)
  then have t: "us_phase t i = Over c b" "(i, False) \<notin># us_stops t" "shown_status t i = shown_status s i" "ui_reachable e rd t" by auto
  from over_step [OF step(2) reachable_run_ok [OF t(4)] t(1,2) reachable_run_ok [OF t(4)]] t ui_reachable_step [OF t(4) step(2)]
  show ?case by simp
qed simp

section \<open>A stop that comes too late\<close>

lemma run_to_verdict:
  assumes "check_request (ue_stores e) q = Inr q1" and "registry_get i f = None"
  shows "\<exists>s u. ui_reachable e rd s \<and> us_phase s i = Judged code False u \<and> i \<in> us_processes s \<and> us_stops s = {#}"
proof -
  have "ui_reachable e rd (ui_start f)" by (auto simp: ui_reachable_def)
  from ui_reachable_step [OF this ui_step.book_run [OF assms(1), where i = i]] assms(2)
  obtain s1 where 1: "ui_reachable e rd s1" "us_phase s1 i = Launching" "us_processes s1 = {}" "us_stop_requested s1 = {}" "us_stops s1 = {#}" "us_exited s1 i = None"
    by (fastforce simp: ui_start_def start_book_def)
  have 2: "ui_reachable e rd (start_register i (enter i Spawned s1))"
    using 1 by (intro ui_reachable_step [OF ui_reachable_step [OF 1(1) ui_step.spawn] ui_step.register]) simp_all
  let ?s3 = "start_announce i t pid (start_register i (enter i Spawned s1))"
  have 3: "ui_reachable e rd ?s3"
    by (intro ui_reachable_step [OF 2 ui_step.announce]) (simp add: start_register_def)
  let ?s4 = "?s3\<lparr>us_exited := (us_exited ?s3)(i := Some code)\<rparr>"
  have 4: "ui_reachable e rd ?s4"
    by (intro ui_reachable_step [OF 3 ui_step.exit]) (simp_all add: start_announce_def start_register_def 1)
  let ?s5 = "enter i (Waited new_watcher code) ?s4"
  have 5: "ui_reachable e rd ?s5"
    by (intro ui_reachable_step [OF 4 ui_step.wait]) (simp_all add: start_announce_def)
  let ?s6 = "enter i (Looked_up new_watcher code (case registry_get i (us_file ?s5) of None \<Rightarrow> [] | Some r \<Rightarrow> r)) ?s5"
  have 6: "ui_reachable e rd ?s6" by (intro ui_reachable_step [OF 5 ui_step.look_up]) simp
  have "us_phase ?s6 i = Looked_up new_watcher code (case registry_get i (us_file ?s5) of None \<Rightarrow> [] | Some r \<Rightarrow> r)" by simp
  from ui_reachable_step [OF 6 ui_step.judge [OF this]] 1 show ?thesis
    by (fastforce simp: start_announce_def start_register_def)
qed

lemma stop_after_verdict:
  assumes "ui_reachable e rd s" and "us_phase s i = Judged code b u" and "i \<in> us_processes s" and "us_stops s = {#}"
  shows "\<exists>t. ui_reachable e rd t \<and> us_phase t i = Over code b \<and> (i, False) \<notin># us_stops t \<and> shown_status t i = Some (JStr ''stopping'')"
proof -
  have 1: "ui_reachable e rd (stop_ask i s)" by (rule ui_reachable_step [OF assms(1) ui_step.ask])
  let ?s2 = "watch_report t i code b u (stop_ask i s)"
  have 2: "ui_reachable e rd ?s2"
    using assms(2) by (intro ui_reachable_step [OF 1 ui_step.report]) (simp add: stop_ask_def)
  let ?s3 = "watch_cleanup i code b ?s2"
  have 3: "ui_reachable e rd ?s3" by (intro ui_reachable_step [OF 2 ui_step.cleanup]) (simp add: watch_report_def)
  have stops: "us_stops ?s3 = {#(i, False)#}" using assms(3,4) by (simp add: watch_cleanup_def watch_report_def stop_ask_def)
  have over: "us_phase ?s3 i = Over code b" by (simp add: watch_cleanup_def)
  from run_okD(3) [OF reachable_run_ok [OF 3] over] obtain v where "shown_status ?s3 i = Some (JStr v)" by auto
  then have "shown_status (stop_write t i ?s3) i = Some (JStr ''stopping'')" by (simp add: status_stop_write)
  moreover have "ui_reachable e rd (stop_write t i ?s3)"
    using stops by (intro ui_reachable_step [OF 3 ui_step.write_stop]) simp
  ultimately show ?thesis using stops over by (intro exI [of _ "stop_write t i ?s3"]) (simp add: stop_write_def)
qed

definition sample_ui_env :: ui_env where
  "sample_ui_env = \<lparr>ue_stores = [''uzum''], ue_python = ''python'', ue_g_text = (\<lambda>_. ''1''), ue_repr_text = (\<lambda>_. ''1.0'')\<rparr>"

definition sample_reader :: line_reader where
  "sample_reader = \<lparr>lr_summary = (\<lambda>_. None), lr_raw_product = (\<lambda>_. None), lr_run_id = (\<lambda>_. None)\<rparr>"

definition sample_start :: start_request where
  "sample_start = \<lparr>sr_store = ''uzum'', sr_time_limit = Some 5, sr_item_limit = None, sr_interval = None, sr_category = None,
     sr_brand = None, sr_category_url = None, sr_until_stopped = False\<rparr>"

lemma sample_late_stop:
  "\<exists>s. ui_reachable sample_ui_env sample_reader s \<and> us_phase s ''r'' = Over 0 False \<and> (''r'', False) \<notin># us_stops s
    \<and> map_option (row_get ''status'') (registry_get ''r'' (us_file s)) = Some (JStr ''stopping'')"
proof -
  have "check_request (ue_stores sample_ui_env) sample_start = Inr sample_start"
    by (simp add: check_request_def sample_ui_env_def sample_start_def not_positive_def)
  from run_to_verdict [OF this, of "''r''" No_file sample_reader 0]
  obtain s u where "ui_reachable sample_ui_env sample_reader s" "us_phase s ''r'' = Judged 0 False u" "''r'' \<in> us_processes s" "us_stops s = {#}"
    by (auto simp: registry_get_def read_runs_def)
  from stop_after_verdict [OF this] show ?thesis by (auto simp: book.status_def)
qed

section \<open>What the operator sees\<close>

text \<open>C37. In every interleaving of the threads that start, watch, stop and refresh runs, the
  registry shows for a run one of the statuses of the phase its threads are in; once they are done
  this is the verdict on the exit code of its process, which has no entry any more, or \<open>stopping\<close>.
  \<open>stopping\<close> is shown only if the process has been or is about to be signalled, and a run is
  judged stopped only if somebody asked for it.\<close>

theorem run_status_follows_process:
  assumes "ui_reachable e rd s" and "us_phase s i \<noteq> Absent"
  shows "(\<exists>v. v \<in> set (shown_statuses (us_phase s i)) \<and> map_option (row_get ''status'') (registry_get i (us_file s)) = Some (JStr v)
      \<and> (v = ''stopping'' \<longrightarrow> i \<in> us_signalled s \<or> (i, True) \<in># us_stops s))
    \<and> (\<forall>code stopped. us_phase s i = Over code stopped
        \<longrightarrow> us_exited s i = Some code \<and> (stopped \<longrightarrow> i \<in> us_asked s) \<and> i \<notin> us_processes s)"
  using reachable_run_ok [OF assms(1), of i] assms(2) by (auto simp: run_ok_def book.status_def phase_ok_def)

theorem run_status_follows_process_witness:
  "\<exists>s. ui_reachable sample_ui_env sample_reader s \<and> us_phase s ''r'' = Over 0 False \<and> us_exited s ''r'' = Some 0 \<and> ''r'' \<notin> us_processes s"
proof -
  from sample_late_stop obtain s where s: "ui_reachable sample_ui_env sample_reader s" "us_phase s ''r'' = Over 0 False" by blast
  then show ?thesis using run_status_follows_process [OF s(1), of "''r''"] by auto
qed

text \<open>C38. Once the threads of a run are done and no stop of it is under way, its status never
  changes again, whatever is asked of the runner.  So a stop that raced with the last patch of the
  watcher leaves a completed run \<open>stopping\<close> for ever.\<close>

theorem ended_run_frozen:
  assumes "ui_reachable e rd s" and "us_phase s i = Over code stopped" and "(i, False) \<notin># us_stops s" and "(ui_step e rd)\<^sup>*\<^sup>* s t"
  shows "map_option (row_get ''status'') (registry_get i (us_file t)) = map_option (row_get ''status'') (registry_get i (us_file s))"
  using over_steps [OF assms(4,1,2,3)] by (simp add: book.status_def)

theorem ended_run_frozen_witness:
  "\<exists>s. ui_reachable sample_ui_env sample_reader s \<and> us_phase s ''r'' = Over 0 False
    \<and> (\<forall>t. (ui_step sample_ui_env sample_reader)\<^sup>*\<^sup>* s t
        \<longrightarrow> map_option (row_get ''status'') (registry_get ''r'' (us_file t)) = Some (JStr ''stopping''))"
proof -
  from sample_late_stop obtain s where s: "ui_reachable sample_ui_env sample_reader s" "us_phase s ''r'' = Over 0 False" "(''r'', False) \<notin># us_stops s"
    "map_option (row_get ''status'') (registry_get ''r'' (us_file s)) = Some (JStr ''stopping'')" by blast
  show ?thesis using s(1,2) ended_run_frozen [OF s(1,2,3), unfolded s(4)] by blast
qed

end
