(* ===== verification/Redaction.thy ===== *)
theory Redaction imports Url_Query begin

text \<open>
  \<^verbatim>\<open>infrastructure/security/redaction.py\<close>: what is blotted out before anything is logged or
  exported.  Keys and header names are text; what a query decodes to is bytes, as in
  \<open>Url_Query\<close>.
\<close>

record redact_settings =
  MASK_SENSITIVE_HEADERS_IN_LOGS :: bool
  MASK_SENSITIVE_FIELDS_IN_LOGS :: bool

definition REDACTED :: pystr where
  "REDACTED = ''[REDACTED]''"

definition SENSITIVE_HEADER_NAMES :: "pystr list" where
  "SENSITIVE_HEADER_NAMES = [''x-parser-key'', ''x-request-signature'', ''authorization'', ''cookie'', ''set-cookie'', ''x-api-key'', ''proxy-authorization'']"

definition PAYLOAD_KEY_ALLOWLIST :: "pystr list" where
  "PAYLOAD_KEY_ALLOWLIST = [''entity_key'', ''payload_hash'', ''event_id'', ''batch_id'', ''request_idempotency_key'', ''source_id'', ''category_hint'']"

definition is_sensitive_payload_key :: "pystr \<Rightarrow> bool" where
  "is_sensitive_payload_key key =
    (let kl = lower key in
     if kl \<in> set PAYLOAD_KEY_ALLOWLIST then False
     else if kl \<in> set [''secret'', ''token'', ''signature'', ''password'', ''parser_key'', ''api_key'', ''access_token'', ''refresh_token''] then True
     else if kl = ''key'' \<or> ends_with ''_secret'' kl \<or> ends_with ''_token'' kl \<or> ends_with ''_password'' kl then True
     else contains ''signature'' kl \<and> kl \<noteq> ''payload_hash'')"

definition redact_headers :: "redact_settings \<Rightarrow> json_row \<Rightarrow> json_row" where
  "redact_headers s headers =
    (if \<not> MASK_SENSITIVE_HEADERS_IN_LOGS s then headers
     else map (\<lambda>(k, v). (k, if lower k \<in> set SENSITIVE_HEADER_NAMES \<or> starts_with ''x-parser-'' (lower k) then JStr REDACTED else v)) headers)"

fun redact_obj :: "json \<Rightarrow> json" where
  "redact_obj (JObj d) = JObj (map (\<lambda>(k, v). (k, if is_sensitive_payload_key k then JStr REDACTED else redact_obj v)) d)"
| "redact_obj (JArr xs) = JArr (map redact_obj xs)"
| "redact_obj v = v"

text \<open>\<open>_redact_obj\<close> of a dictionary is one.\<close>

definition redact_row :: "json_row \<Rightarrow> json_row" where
  "redact_row d = map (\<lambda>(k, v). (k, if is_sensitive_payload_key k then JStr REDACTED else redact_obj v)) d"

definition redact_payload :: "redact_settings \<Rightarrow> json_row \<Rightarrow> json_row" where
  "redact_payload s payload = (if \<not> MASK_SENSITIVE_FIELDS_IN_LOGS s then payload else redact_row payload)"

definition redact_mapping_for_logs :: "redact_settings \<Rightarrow> json_row option \<Rightarrow> json_row" where
  "redact_mapping_for_logs s obj = (case obj of None \<Rightarrow> [] | Some d \<Rightarrow> if d = [] then [] else redact_payload s d)"

section \<open>URLs\<close>

text \<open>\<open>str.lower\<close> on UTF-8, as far as the words tested for go: besides the letters of ASCII
  only the Kelvin sign becomes one of theirs.\<close>

fun lower_utf8 :: "string \<Rightarrow> string" where
  "lower_utf8 (a # b # c # s) =
    (if a = CHR 0xE2 \<and> b = CHR 0x84 \<and> c = CHR 0xAA then CHR ''k'' # lower_utf8 s else lower_char a # lower_utf8 (b # c # s))"
| "lower_utf8 (a # s) = lower_char a # lower_utf8 s"
| "lower_utf8 [] = []"

definition is_sensitive_param :: "string \<Rightarrow> bool" where
  "is_sensitive_param k =
    (let kl = lower_utf8 k in kl \<in> set [''token'', ''key'', ''signature'', ''secret'', ''password'', ''access_token'', ''api_key'']
       \<or> contains ''secret'' kl \<or> contains ''token'' kl \<or> contains ''password'' kl)"

definition redact_url :: "redact_settings \<Rightarrow> pystr \<Rightarrow> pystr" where
  "redact_url s url =
    (if \<not> MASK_SENSITIVE_HEADERS_IN_LOGS s then url
     else (case urlsplit5 url of
         Inl _ \<Rightarrow> url
       | Inr parts \<Rightarrow>
          (if up_query parts = [] then url
           else urlunsplit5 (parts\<lparr>up_query :=
             urlencode (map (\<lambda>(k, v). (k, if is_sensitive_param k then REDACTED else v)) (parse_qsl (up_query parts)))\<rparr>))))"

definition minimize_url_for_support :: "redact_settings \<Rightarrow> bool \<Rightarrow> pystr \<Rightarrow> pystr" where
  "minimize_url_for_support s full_query_allowed url =
    (if url = [] then url
     else (case urlsplit5 (strip url) of
         Inl _ \<Rightarrow> url
       | Inr parts \<Rightarrow>
          (if full_query_allowed then redact_url s url
           else if up_query parts = [] then url
           else urlunsplit5 (parts\<lparr>up_query := []\<rparr>))))"

section \<open>Messages of exceptions\<close>

text \<open>
  \<open>Pattern.sub\<close> for a pattern that matches no empty text: \<open>m\<close> gives what it keeps of a match
  at the start of a text and how many characters it spans beyond the first.
\<close>

function sub_all :: "(pystr \<Rightarrow> (pystr \<times> nat) option) \<Rightarrow> pystr \<Rightarrow> pystr" where
  "sub_all m [] = []"
| "sub_all m (c # s) =
    (case m (c # s) of
       None \<Rightarrow> c # sub_all m s
     | Some (g, n) \<Rightarrow> g @ REDACTED @ sub_all m (drop n s))"
  by pat_completeness auto
termination
  by (relation "measure (length \<circ> snd)") auto

text \<open>\<open>(word\s*)\S+\<close> with blanks between, or none allowed.\<close>

definition word_then :: "bool \<Rightarrow> pystr \<Rightarrow> pystr \<Rightarrow> (pystr \<times> nat) option" where
  "word_then blanks w s =
    (let rest = drop (length w) s; gap = (if blanks then takeWhile is_py_space rest else []);
         body = takeWhile (\<lambda>c. \<not> is_py_space c) (drop (length gap) rest)
     in if lower (take (length w) s) = w \<and> body \<noteq> []
        then Some (take (length w) s @ gap, length w + length gap + length body - 1) else None)"

definition credential_match :: "pystr \<Rightarrow> (pystr \<times> nat) option" where
  "credential_match s =
    (case word_then False ''x-parser-key'' s of Some r \<Rightarrow> Some r
     | None \<Rightarrow> (case word_then False ''x-request-signature'' s of Some r \<Rightarrow> Some r
     | None \<Rightarrow> word_then True ''authorization:'' s))"

text \<open>\<open>[\w\-._~+/]\<close>.\<close>

definition is_bearer_char :: "char \<Rightarrow> bool" where
  "is_bearer_char c = (let n = of_char c :: nat in
     is_ascii_alpha c \<or> (48 \<le> n \<and> n \<le> 57) \<or> c \<in> set ''_-.~+/''
     \<or> n \<in> {170, 178, 179, 181, 185, 186, 188, 189, 190} \<or> (192 \<le> n \<and> n \<le> 255 \<and> n \<noteq> 215 \<and> n \<noteq> 247))"

definition bearer_match :: "pystr \<Rightarrow> (pystr \<times> nat) option" where
  "bearer_match s =
    (let rest = drop 6 s; gap = takeWhile is_py_space rest; rest1 = drop (length gap) rest;
         body = takeWhile is_bearer_char rest1; pad = takeWhile (\<lambda>c. c = CHR ''='') (drop (length body) rest1)
     in if lower (take 6 s) = ''bearer'' \<and> gap \<noteq> [] \<and> body \<noteq> []
        then Some (take 6 s @ gap, 6 + length gap + length body + length pad - 1) else None)"

definition redact_exception_message :: "redact_settings \<Rightarrow> pystr \<Rightarrow> pystr" where
  "redact_exception_message s message =
    (if \<not> MASK_SENSITIVE_FIELDS_IN_LOGS s then message
     else redact_url s (sub_all bearer_match (sub_all credential_match message)))"

section \<open>What redaction leaves\<close>

text \<open>No sensitive key has a value of its own, at any depth.\<close>

fun redacted :: "json \<Rightarrow> bool" where
  "redacted (JObj d) \<longleftrightarrow> list_all (\<lambda>(k, v). if is_sensitive_payload_key k then v = JStr REDACTED else redacted v) d"
| "redacted (JArr xs) \<longleftrightarrow> list_all redacted xs"
| "redacted v \<longleftrightarrow> True"

lemma redact_row_obj: "JObj (redact_row d) = redact_obj (JObj d)"
  by (simp add: redact_row_def)

lemma redacted_redact_obj [simp]: "redacted (redact_obj v)"
  by (induction v rule: redact_obj.induct) (auto simp: list_all_iff)

lemma redact_obj_redacted: "redacted v \<Longrightarrow> redact_obj v = v"
  by (induction v rule: redact_obj.induct) (auto simp: list_all_iff intro!: map_idI)

lemma redact_obj_idem [simp]: "redact_obj (redact_obj v) = redact_obj v"
  by (simp add: redact_obj_redacted)

lemma redact_row_keys [simp]: "map fst (redact_row d) = map fst d"
  by (simp add: redact_row_def comp_def case_prod_unfold)

lemma redact_row_idem [simp]: "redact_row (redact_row d) = redact_row d"
  using redact_obj_idem [of "JObj d"] by (simp add: redact_row_obj [symmetric] del: redact_obj_idem redact_obj.simps)

text \<open>
  Of the headers that carry credentials only one is sensitive as a key of a payload: headers
  inside the details of a log record are written out.
\<close>

lemma header_names_as_keys: "filter is_sensitive_payload_key SENSITIVE_HEADER_NAMES = [''x-request-signature'']"
  by code_simp

section \<open>Credentials in messages\<close>

lemma url_scheme_rest_set: "set (snd (url_scheme_rest u)) \<subseteq> set u"
proof -
  have "x \<in> set u" if "x \<in> set (tl (dropWhile P u))" for P x
  proof -
    have "x \<in> set (dropWhile P u)" using that by (cases "dropWhile P u") auto
    then show ?thesis by (rule set_dropWhileD)
  qed
  then show ?thesis by (auto simp: url_scheme_rest_def Let_def)
qed

lemma cut_at_none: "c \<notin> set s \<Longrightarrow> cut_at c s = (s, [])"
  by (induction s) (auto simp: cut_at_def)

lemma urlsplit5_no_query:
  assumes "CHR ''?'' \<notin> set url" and "urlsplit5 url = Inr u"
  shows "up_query u = []"
proof -
  obtain scheme rest where sr: "url_scheme_rest (clean_url url) = (scheme, rest)" by fastforce
  have "set (clean_url url) \<subseteq> set url" by (auto simp: clean_url_def dest: set_dropWhileD)
  with assms(1) url_scheme_rest_set [of "clean_url url"] have rest: "CHR ''?'' \<notin> set rest" by (auto simp: sr)
  have "CHR ''?'' \<notin> set (takeWhile f (dropWhile g (drop n rest)))" "CHR ''?'' \<notin> set (takeWhile f rest)" for f g n
    using rest by (auto dest: set_takeWhileD set_dropWhileD in_set_dropD)
  then show ?thesis
    using assms(2) by (auto simp: urlsplit5_def sr Let_def cut_at_def [of "CHR ''#''"] cut_at_none split: if_splits)
qed

lemma redact_url_no_query: "CHR ''?'' \<notin> set url \<Longrightarrow> redact_url s url = url"
  by (auto simp: redact_url_def urlsplit5_no_query split: sum.splits)

lemma lower_char_low: "lower_char c = d \<Longrightarrow> of_char d < (65::nat) \<Longrightarrow> c = d"
  by (auto simp: lower_char_def Let_def split: if_splits)

lemma lower_takeD:
  assumes "lower (take n s) = w" and "d \<in> set w" and "of_char d < (65::nat)"
  shows "d \<in> set s"
proof -
  from assms(1,2) obtain c where c: "c \<in> set (take n s)" "lower_char c = d" by (auto simp: lower_def)
  from lower_char_low [OF c(2) assms(3)] c(1) have "d \<in> set (take n s)" by simp
  then show ?thesis by (rule in_set_takeD)
qed

lemma credential_match_none:
  assumes "CHR ''-'' \<notin> set s" and "CHR '':'' \<notin> set s"
  shows "credential_match s = None"
proof -
  have dash: "CHR ''-'' \<notin> set w" and colon: "CHR '':'' \<notin> set w" if "lower (take n s) = w" for n w
    using lower_takeD [OF that, of "CHR ''-''"] lower_takeD [OF that, of "CHR '':''"] assms by auto
  have "lower (take n s) \<noteq> ''x-parser-key''" "lower (take n s) \<noteq> ''x-request-signature''" "lower (take n s) \<noteq> ''authorization:''" for n
    using dash [of n "''x-parser-key''"] dash [of n "''x-request-signature''"] colon [of n "''authorization:''"] by force+
  then show ?thesis by (simp add: credential_match_def word_then_def Let_def)
qed

lemma sub_all_none:
  assumes "\<And>u v. s = u @ v \<Longrightarrow> m v = None"
  shows "sub_all m s = s"
  using assms
proof (induction s)
  case (Cons c s)
  have "m (c # s) = None" using Cons.prems [of "[]" "c # s"] by simp
  moreover have "sub_all m s = s" using Cons.prems [of "c # u" for u] by (intro Cons.IH) simp
  ultimately show ?case by simp
qed simp

lemma bearer_head: "(of_char c :: nat) \<notin> {66, 98} \<Longrightarrow> bearer_match (c # s) = None"
proof -
  assume "(of_char c :: nat) \<notin> {66, 98}"
  then have "(of_char (lower_char c) :: nat) \<noteq> of_char (CHR ''b'')" by (auto simp: lower_char_def Let_def)
  then have "lower_char c \<noteq> CHR ''b''" by metis
  then show ?thesis by (simp add: bearer_match_def Let_def lower_def)
qed

lemma bearer_match_none:
  assumes "\<forall>c \<in> set s. \<not> is_py_space c"
  shows "bearer_match s = None"
proof -
  have "takeWhile is_py_space (drop 6 s) = []" using assms in_set_dropD [of _ 6 s] by (cases "drop 6 s") auto
  then show ?thesis by (simp add: bearer_match_def Let_def)
qed

text \<open>A token that no separator of the patterns interrupts.\<close>

definition plain_token :: "pystr \<Rightarrow> bool" where
  "plain_token t \<longleftrightarrow> t \<noteq> [] \<and> list_all (\<lambda>c. \<not> is_py_space c \<and> c \<notin> set ''-:?'') t"

lemma plain_tokenD: "plain_token t \<Longrightarrow> sub_all credential_match t = t \<and> sub_all bearer_match t = t \<and> CHR ''?'' \<notin> set t"
proof -
  assume "plain_token t"
  then have t: "\<forall>c \<in> set t. \<not> is_py_space c" "CHR ''-'' \<notin> set t" "CHR '':'' \<notin> set t" "CHR ''?'' \<notin> set t"
    by (auto simp: plain_token_def list_all_iff)
  have "sub_all credential_match t = t" by (rule sub_all_none, rule credential_match_none) (use t in auto)
  moreover have "sub_all bearer_match t = t" by (rule sub_all_none, rule bearer_match_none) (use t in auto)
  ultimately show ?thesis using t by simp
qed

text \<open>
  Two messages whose token survives: the first pattern takes \<open>Bearer\<close> for the credential, or
  the colon after the name of the header, and then the second finds nothing to replace.
\<close>

lemma bearer_token_survives:
  assumes "plain_token t"
  shows "redact_exception_message s (''Authorization: Bearer '' @ t)
    = (if MASK_SENSITIVE_FIELDS_IN_LOGS s then ''Authorization: [REDACTED] '' @ t else ''Authorization: Bearer '' @ t)"
proof -
  have "credential_match ('' '' @ t) = None" if "plain_token t" for t
    using that by (intro credential_match_none) (auto simp: plain_token_def list_all_iff)
  moreover have "char_of (97::nat) = CHR ''a''" by code_simp
  then have "credential_match (''Authorization: Bearer '' @ t) = Some (''Authorization: '', 20)"
    by (simp add: credential_match_def word_then_def lower_def lower_char_def is_py_space_def Let_def)
  ultimately have 1: "sub_all credential_match (''Authorization: Bearer '' @ t) = ''Authorization: [REDACTED] '' @ t"
    using plain_tokenD [OF assms] assms by (simp add: REDACTED_def)
  have 2: "sub_all bearer_match (''Authorization: [REDACTED] '' @ t) = ''Authorization: [REDACTED] '' @ t"
    using plain_tokenD [OF assms] by (simp add: bearer_head)
  have "CHR ''?'' \<notin> set (''Authorization: [REDACTED] '' @ t)" using plain_tokenD [OF assms] by simp
  from redact_url_no_query [OF this] 1 2 show ?thesis by (simp add: redact_exception_message_def)
qed

lemma header_value_survives:
  assumes "plain_token t"
  shows "redact_exception_message s (''x-parser-key: '' @ t)
    = (if MASK_SENSITIVE_FIELDS_IN_LOGS s then ''x-parser-key[REDACTED] '' @ t else ''x-parser-key: '' @ t)"
proof -
  have "credential_match ('' '' @ t) = None"
    using assms by (intro credential_match_none) (auto simp: plain_token_def list_all_iff)
  moreover have "credential_match (''x-parser-key: '' @ t) = Some (''x-parser-key'', 12)"
    by (simp add: credential_match_def word_then_def lower_def lower_char_def is_py_space_def Let_def)
  ultimately have 1: "sub_all credential_match (''x-parser-key: '' @ t) = ''x-parser-key[REDACTED] '' @ t"
    using plain_tokenD [OF assms] by (simp add: REDACTED_def)
  have 2: "sub_all bearer_match (''x-parser-key[REDACTED] '' @ t) = ''x-parser-key[REDACTED] '' @ t"
    using plain_tokenD [OF assms] by (simp add: bearer_head)
  have "CHR ''?'' \<notin> set (''x-parser-key[REDACTED] '' @ t)" using plain_tokenD [OF assms] by simp
  from redact_url_no_query [OF this] 1 2 show ?thesis by (simp add: redact_exception_message_def)
qed

end
