(* ===== verification/Data_Minimizer.thy ===== *)
theory Data_Minimizer imports Redaction begin

text \<open>
  What may leave the program for logs, support and exports: the policies of the fields
  (\<^verbatim>\<open>data_policy_registry.py\<close>), the scope of an export (\<^verbatim>\<open>support_scope_guard.py\<close>), the
  minimisation of payloads, traces and snapshots (\<^verbatim>\<open>minimizer.py\<close>) and the retention of
  traces (\<^verbatim>\<open>retention_guard.py\<close>), all under \<^verbatim>\<open>infrastructure/security/\<close>.
\<close>

section \<open>Field policies\<close>

datatype purpose = For_crawl | For_normalize | For_delivery | For_observability | For_support | For_replay

datatype sensitivity = Public | Internal | Sensitive | Restricted

record field_policy =
  fd_sensitivity :: sensitivity
  fd_purposes :: "purpose list"
  fd_loggable :: bool
  fd_exportable :: bool
  fd_redact :: bool

definition ALL_PURPOSES :: "purpose list" where
  "ALL_PURPOSES = [For_crawl, For_normalize, For_delivery, For_observability, For_support, For_replay]"

definition OPS :: "purpose list" where
  "OPS = [For_observability, For_support, For_delivery]"

definition NO_SUPPORT :: "purpose list" where
  "NO_SUPPORT = [For_crawl, For_normalize, For_delivery, For_observability, For_replay]"

abbreviation open_policy :: "sensitivity \<Rightarrow> purpose list \<Rightarrow> field_policy" where
  "open_policy sens ps \<equiv> \<lparr>fd_sensitivity = sens, fd_purposes = ps, fd_loggable = True, fd_exportable = True, fd_redact = False\<rparr>"

abbreviation closed_policy :: "sensitivity \<Rightarrow> purpose list \<Rightarrow> bool \<Rightarrow> field_policy" where
  "closed_policy sens ps red \<equiv> \<lparr>fd_sensitivity = sens, fd_purposes = ps, fd_loggable = False, fd_exportable = False, fd_redact = red\<rparr>"

definition FIELD_POLICIES :: "(pystr \<times> field_policy) list" where
  "FIELD_POLICIES =
    [(''source_url'', open_policy Sensitive (OPS @ [For_crawl, For_normalize])),
     (''source_id'', open_policy Internal ALL_PURPOSES),
     (''entity_key'', open_policy Internal ALL_PURPOSES),
     (''payload_hash'', open_policy Internal ALL_PURPOSES),
     (''request_idempotency_key'', (open_policy Sensitive ALL_PURPOSES)\<lparr>fd_redact := True\<rparr>),
     (''crm_listing_id'', open_policy Internal ALL_PURPOSES),
     (''crm_product_id'', open_policy Internal ALL_PURPOSES),
     (''raw_specs'', (open_policy Sensitive (OPS @ [For_normalize]))\<lparr>fd_loggable := False\<rparr>),
     (''typed_specs'', open_policy Internal (OPS @ [For_normalize])),
     (''normalization_warnings'', open_policy Internal (OPS @ [For_normalize])),
     (''field_confidence'', closed_policy Sensitive [For_observability] False),
     (''suppressed_typed_fields'', closed_policy Sensitive [For_observability] False),
     (''image_urls'', open_policy Internal (OPS @ [For_crawl, For_normalize])),
     (''headers'', closed_policy Restricted [For_observability] False),
     (''proxy_url'', closed_policy Restricted ALL_PURPOSES True),
     (''parser_key'', closed_policy Restricted ALL_PURPOSES True),
     (''signature_headers'', closed_policy Restricted ALL_PURPOSES True),
     (''diagnostic_snapshot'', open_policy Internal OPS),
     (''etl_status_payload'', open_policy Internal [For_observability, For_support]),
     (''category_url'', open_policy Sensitive (OPS @ [For_crawl])),
     (''batch_id'', open_policy Internal ALL_PURPOSES),
     (''event_id'', open_policy Internal ALL_PURPOSES),
     (''title'', open_policy Internal NO_SUPPORT),
     (''price_raw'', open_policy Internal ALL_PURPOSES),
     (''barcode'', open_policy Sensitive ALL_PURPOSES),
     (''details'', (open_policy Internal ALL_PURPOSES)\<lparr>fd_exportable := False\<rparr>),
     (''metrics'', open_policy Internal ALL_PURPOSES),
     (''correlation'', open_policy Internal ALL_PURPOSES),
     (''spec_coverage'', open_policy Internal ALL_PURPOSES)]"

definition get_field_policy :: "pystr \<Rightarrow> field_policy option" where
  "get_field_policy name = map_of FIELD_POLICIES name"

definition default_policy_for_unknown :: field_policy where
  "default_policy_for_unknown = open_policy Internal ALL_PURPOSES"

definition policy_for :: "pystr \<Rightarrow> field_policy" where
  "policy_for key = (case get_field_policy key of Some p \<Rightarrow> p | None \<Rightarrow> default_policy_for_unknown)"

section \<open>The scope of an export\<close>

record support_settings =
  ENABLE_DATA_MINIMIZATION :: bool
  ENABLE_SAFE_DIAGNOSTIC_EXPORTS :: bool
  ENABLE_SUPPORT_SCOPE_RESTRICTIONS :: bool
  ENABLE_RUNTIME_RETENTION_LIMITS :: bool
  DIAGNOSTIC_SNAPSHOT_MAX_ITEMS :: nat
  SUPPORT_EXPORT_MAX_ERRORS :: nat
  SUPPORT_EXPORT_INCLUDE_RAW_SPECS :: bool
  SUPPORT_EXPORT_INCLUDE_TYPED_SPECS :: bool
  SUPPORT_EXPORT_INCLUDE_FIELD_CONFIDENCE :: bool
  SUPPORT_EXPORT_INCLUDE_SUPPRESSED_FIELDS :: bool
  SUPPORT_EXPORT_INCLUDE_RAW_HEADERS :: bool
  SUPPORT_EXPORT_INCLUDE_FULL_URL_QUERY :: bool
  TRACE_MAX_AGE_SECONDS :: int
  BATCH_TRACE_MAX_AGE_SECONDS :: int
  TRACE_BUFFER_MAX_RECORDS :: int
  ss_redact :: redact_settings

definition purpose_names :: "(pystr \<times> purpose) list" where
  "purpose_names = [(''crawl'', For_crawl), (''normalize'', For_normalize), (''delivery'', For_delivery), (''observability'', For_observability),
     (''support'', For_support), (''replay'', For_replay), (''etl'', For_observability), (''export'', For_observability),
     (''dashboard'', For_observability), (''operator'', For_support), (''triage'', For_support), (''diagnostic'', For_support)]"

definition norm_purpose :: "pystr \<Rightarrow> purpose" where
  "norm_purpose p = (case map_of purpose_names (lower (strip p)) of Some x \<Rightarrow> x | None \<Rightarrow> For_support)"

definition all_sections :: "support_settings \<Rightarrow> pystr list" where
  "all_sections s = [''summary'', ''errors'', ''counters'', ''alerts'', ''replay_hints'']
     @ (if SUPPORT_EXPORT_INCLUDE_RAW_SPECS s then [''raw_specs''] else [])
     @ (if SUPPORT_EXPORT_INCLUDE_TYPED_SPECS s then [''typed_specs''] else [])"

definition sections_for_purpose :: "purpose \<Rightarrow> support_settings \<Rightarrow> pystr list" where
  "sections_for_purpose p s = (case p of
       For_observability \<Rightarrow> all_sections s @ [''traces'', ''batches'', ''thresholds'']
     | For_support \<Rightarrow> [''summary'', ''errors'', ''alerts'', ''diagnostic'', ''runbook'', ''replay_hints'']
     | For_replay \<Rightarrow> [''replay'', ''summary'']
     | _ \<Rightarrow> [''summary''])"

record scope_decision =
  sd_purpose :: purpose
  sd_sections :: "pystr list"
  sd_excluded :: "pystr list"

definition decide_support_export_scope :: "pystr \<Rightarrow> support_settings \<Rightarrow> scope_decision" where
  "decide_support_export_scope purpose s =
    (let p = norm_purpose purpose in
     if \<not> ENABLE_SUPPORT_SCOPE_RESTRICTIONS s then \<lparr>sd_purpose = p, sd_sections = all_sections s, sd_excluded = []\<rparr>
     else \<lparr>sd_purpose = p, sd_sections = sections_for_purpose p s, sd_excluded =
         (if SUPPORT_EXPORT_INCLUDE_RAW_SPECS s then [] else [''raw_specs''])
       @ (if SUPPORT_EXPORT_INCLUDE_TYPED_SPECS s then [] else [''typed_specs''])
       @ (if SUPPORT_EXPORT_INCLUDE_FIELD_CONFIDENCE s then [] else [''field_confidence''])
       @ (if SUPPORT_EXPORT_INCLUDE_SUPPRESSED_FIELDS s then [] else [''suppressed_typed_fields''])
       @ (if SUPPORT_EXPORT_INCLUDE_RAW_HEADERS s then [] else [''headers''])
       @ (if SUPPORT_EXPORT_INCLUDE_FULL_URL_QUERY s then [] else [''full_url_query''])\<rparr>)"

definition should_include_field :: "pystr \<Rightarrow> pystr \<Rightarrow> support_settings \<Rightarrow> bool" where
  "should_include_field name purpose s =
    (if \<not> ENABLE_SUPPORT_SCOPE_RESTRICTIONS s then True
     else (let fn = strip name in
       if fn \<in> set (sd_excluded (decide_support_export_scope purpose s)) then False
       else (case get_field_policy fn of None \<Rightarrow> True | Some pol \<Rightarrow> norm_purpose purpose \<in> set (fd_purposes pol))))"

definition should_include_section :: "pystr \<Rightarrow> pystr \<Rightarrow> support_settings \<Rightarrow> bool" where
  "should_include_section name purpose s \<longleftrightarrow> name \<in> set (sd_sections (decide_support_export_scope purpose s))"

text \<open>\<open>int(... or 20)\<close>: a limit of zero means twenty.\<close>

definition cap_error_list :: "support_settings \<Rightarrow> 'a list \<Rightarrow> 'a list" where
  "cap_error_list s errors = take (if SUPPORT_EXPORT_MAX_ERRORS s = 0 then 20 else SUPPORT_EXPORT_MAX_ERRORS s) errors"

section \<open>Minimisation\<close>

text \<open>The sign for a cut text is a code point beyond those of \<open>pystr\<close>, so it is a parameter.\<close>

fun shrink_value :: "pystr \<Rightarrow> nat \<Rightarrow> nat \<Rightarrow> json \<Rightarrow> json" where
  "shrink_value dots max_list max_str (JStr v) = JStr (if length v > max_str then take max_str v @ dots else v)"
| "shrink_value dots max_list max_str (JArr xs) = JArr (take max_list (map (shrink_value dots max_list max_str) xs))"
| "shrink_value dots max_list max_str (JObj d) = JObj (take max_list (map (\<lambda>(k, v). (k, shrink_value dots max_list max_str v)) d))"
| "shrink_value dots max_list max_str v = v"

definition MAX_LOG_STRING :: nat where "MAX_LOG_STRING = 400"

definition MAX_LOG_LIST :: nat where "MAX_LOG_LIST = 30"

definition MAX_SUPPORT_SPECS_KEYS :: nat where "MAX_SUPPORT_SPECS_KEYS = 40"

definition MAX_SUPPORT_IMAGE_URLS :: nat where "MAX_SUPPORT_IMAGE_URLS = 12"

fun is_dict :: "json \<Rightarrow> bool" where
  "is_dict (JObj _) = True" | "is_dict _ = False"

definition log_field :: "redact_settings \<Rightarrow> pystr \<Rightarrow> pystr \<Rightarrow> json \<Rightarrow> json option" where
  "log_field r dots k v =
    (let pol = policy_for k; v1 = shrink_value dots MAX_LOG_LIST MAX_LOG_STRING v in
     if \<not> fd_loggable pol then None
     else if fd_redact pol \<and> is_dict v1 \<and> MASK_SENSITIVE_FIELDS_IN_LOGS r then Some (redact_obj v1) else Some v1)"

definition minimize_payload_for_logging :: "support_settings \<Rightarrow> pystr \<Rightarrow> json_row \<Rightarrow> json_row" where
  "minimize_payload_for_logging s dots payload =
    (if \<not> ENABLE_DATA_MINIMIZATION s then payload
     else List.map_filter (\<lambda>(k, v). map_option (Pair k) (log_field (ss_redact s) dots k v)) payload)"

definition minimize_url_str :: "support_settings \<Rightarrow> pystr \<Rightarrow> pystr" where
  "minimize_url_str s url = minimize_url_for_support (ss_redact s) (SUPPORT_EXPORT_INCLUDE_FULL_URL_QUERY s) url"

definition omitted :: "json \<Rightarrow> json" where
  "omitted v = JObj [(''_omitted'', JBool True), (''count'', case v of JObj d \<Rightarrow> JInt (int (length d)) | _ \<Rightarrow> JNull)]"

definition shrink_specs :: "pystr \<Rightarrow> json_row \<Rightarrow> json" where
  "shrink_specs dots d = JObj (map (\<lambda>(k, v). (k, shrink_value dots 15 200 v)) (take MAX_SUPPORT_SPECS_KEYS d))"

definition support_value :: "support_settings \<Rightarrow> pystr \<Rightarrow> pystr \<Rightarrow> json \<Rightarrow> json" where
  "support_value s dots k v =
    (case v of
       JStr u \<Rightarrow> if k \<in> {''source_url'', ''category_url'', ''url''} then JStr (minimize_url_str s u)
                  else shrink_value dots MAX_LOG_LIST MAX_LOG_STRING v
     | JArr xs \<Rightarrow> if k = ''image_urls'' then JArr (map (\<lambda>x. JStr (minimize_url_str s (py_str x))) (take MAX_SUPPORT_IMAGE_URLS xs))
                  else shrink_value dots MAX_LOG_LIST MAX_LOG_STRING v
     | JObj d \<Rightarrow> if k \<in> {''raw_specs'', ''typed_specs''} then shrink_specs dots d else shrink_value dots MAX_LOG_LIST MAX_LOG_STRING v
     | _ \<Rightarrow> v)"

definition support_field :: "support_settings \<Rightarrow> pystr \<Rightarrow> pystr \<Rightarrow> pystr \<Rightarrow> json \<Rightarrow> json option" where
  "support_field s dots purpose k v =
    (if \<not> should_include_field k purpose s then None
     else if \<not> fd_exportable (policy_for k) then None
     else if k = ''raw_specs'' \<and> \<not> SUPPORT_EXPORT_INCLUDE_RAW_SPECS s then Some (omitted v)
     else if k = ''typed_specs'' \<and> \<not> SUPPORT_EXPORT_INCLUDE_TYPED_SPECS s then Some (omitted v)
     else if k = ''field_confidence'' \<and> \<not> SUPPORT_EXPORT_INCLUDE_FIELD_CONFIDENCE s then None
     else if k = ''suppressed_typed_fields'' \<and> \<not> SUPPORT_EXPORT_INCLUDE_SUPPRESSED_FIELDS s then None
     else Some (support_value s dots k v))"

definition minimize_payload_for_support :: "support_settings \<Rightarrow> pystr \<Rightarrow> pystr \<Rightarrow> json_row \<Rightarrow> json_row" where
  "minimize_payload_for_support s dots purpose payload =
    redact_payload (ss_redact s) (List.map_filter (\<lambda>(k, v). map_option (Pair k) (support_field s dots purpose k v)) payload)"

definition minimize_headers_for_support :: "support_settings \<Rightarrow> json_row \<Rightarrow> json_row" where
  "minimize_headers_for_support s headers =
    (if SUPPORT_EXPORT_INCLUDE_RAW_HEADERS s then redact_headers (ss_redact s) headers
     else [(''_omitted'', JBool True), (''note'', JStr ''raw_headers_disabled_by_policy'')])"

text \<open>Of a trace some keys stay, and what is known of its place with the URLs cut.\<close>

definition TRACE_KEYS :: "pystr list" where
  "TRACE_KEYS = [''timestamp'', ''stage'', ''severity'', ''message_code'', ''failure_domain'', ''failure_type'']"

definition CORRELATION_KEYS :: "pystr list" where
  "CORRELATION_KEYS = [''run_id'', ''store_name'', ''spider_name'', ''entity_key'', ''event_id'', ''batch_id'', ''source_id'']"

definition set_url :: "support_settings \<Rightarrow> pystr \<Rightarrow> json_row \<Rightarrow> json_row \<Rightarrow> json_row" where
  "set_url s k from d = (case row_get k from of JStr u \<Rightarrow> od_set k (JStr (minimize_url_str s u)) d | _ \<Rightarrow> d)"

definition minimize_trace_record :: "support_settings \<Rightarrow> pystr \<Rightarrow> json_row \<Rightarrow> json_row" where
  "minimize_trace_record s dots rec =
    (if \<not> ENABLE_DATA_MINIMIZATION s then rec
     else (let slim = filter (\<lambda>(k, v). k \<in> set TRACE_KEYS) rec;
               slim1 = (case row_get ''correlation'' rec of
                   JObj corr \<Rightarrow> od_set ''correlation'' (JObj (set_url s ''category_url'' corr
                     (set_url s ''source_url'' corr (filter (\<lambda>(k, v). k \<in> set CORRELATION_KEYS) corr)))) slim
                 | _ \<Rightarrow> slim);
               slim2 = (case row_get ''details'' rec of
                   JObj d \<Rightarrow> od_set ''details'' (JObj (minimize_payload_for_logging s dots d)) slim1 | _ \<Rightarrow> slim1)
           in (case row_get ''metrics'' rec of
                   JObj d \<Rightarrow> od_set ''metrics'' (JObj (minimize_payload_for_logging s dots d)) slim2 | _ \<Rightarrow> slim2)))"

definition minimize_nested_dict_item :: "support_settings \<Rightarrow> nat \<Rightarrow> json \<Rightarrow> json" where
  "minimize_nested_dict_item s max_items x =
    (case x of JObj d \<Rightarrow> JObj (take max_items (set_url s ''category_url'' d (set_url s ''source_url'' d d))) | _ \<Rightarrow> x)"

definition snapshot_value :: "support_settings \<Rightarrow> nat \<Rightarrow> pystr \<Rightarrow> json \<Rightarrow> json" where
  "snapshot_value s max_items k v =
    (if ends_with ''_sample'' k \<or> starts_with ''last_'' k \<or> k = ''top_alerts'' then
       (case v of JArr xs \<Rightarrow> JArr (map (minimize_nested_dict_item s max_items) (take max_items xs)) | _ \<Rightarrow> v)
     else (case v of
         JObj d \<Rightarrow> if k = ''counters_merged_summary'' then JObj (take 50 (sort_key fst d)) else v
       | JStr u \<Rightarrow> JStr (minimize_url_str s u)
       | _ \<Rightarrow> v))"

definition minimize_diagnostic_snapshot :: "support_settings \<Rightarrow> json_row \<Rightarrow> json_row" where
  "minimize_diagnostic_snapshot s snapshot =
    (if \<not> ENABLE_SAFE_DIAGNOSTIC_EXPORTS s then [(''enabled'', JBool False), (''reason'', JStr ''SAFE_DIAGNOSTIC_EXPORTS disabled'')]
     else if \<not> ENABLE_DATA_MINIMIZATION s then snapshot
     else (let max_items = (if DIAGNOSTIC_SNAPSHOT_MAX_ITEMS s = 0 then 20 else DIAGNOSTIC_SNAPSHOT_MAX_ITEMS s) in
       redact_payload (ss_redact s) (map (\<lambda>(k, v). (k, snapshot_value s max_items k v)) snapshot)))"

fun count_leaves :: "json \<Rightarrow> nat" where
  "count_leaves (JObj d) = sum_list (map (\<lambda>(k, v). count_leaves v) d) + length d"
| "count_leaves (JArr xs) = sum_list (map count_leaves xs) + length xs"
| "count_leaves v = 1"

definition count_fields :: "json_row \<Rightarrow> nat \<times> nat" where
  "count_fields payload = (length payload, count_leaves (JObj payload))"

section \<open>Retention\<close>

text \<open>\<open>stamp\<close> is the time of a record, \<open>None\<close> when it has none that is a date.\<close>

definition trim_trace_buffer_by_age :: "('r \<Rightarrow> int option) \<Rightarrow> int \<Rightarrow> int \<Rightarrow> 'r list \<Rightarrow> 'r list" where
  "trim_trace_buffer_by_age stamp now max_age_seconds records =
    (if max_age_seconds \<le> 0 then records
     else filter (\<lambda>r. case stamp r of None \<Rightarrow> True | Some t \<Rightarrow> t \<ge> now - max_age_seconds * 1000000) records)"

definition trim_trace_buffer_by_count :: "int \<Rightarrow> 'r list \<Rightarrow> 'r list" where
  "trim_trace_buffer_by_count max_records records =
    (if max_records \<le> 0 \<or> int (length records) \<le> max_records then records else drop (length records - nat max_records) records)"

definition trim_batch_traces :: "('r \<Rightarrow> int option) \<Rightarrow> int \<Rightarrow> int \<Rightarrow> int \<Rightarrow> 'r list \<Rightarrow> 'r list" where
  "trim_batch_traces stamp now max_age_seconds max_records batches =
    trim_trace_buffer_by_count max_records (trim_trace_buffer_by_age stamp now max_age_seconds batches)"

definition trim_diagnostic_samples :: "int \<Rightarrow> 'a list \<Rightarrow> 'a list" where
  "trim_diagnostic_samples max_items samples = (if max_items \<le> 0 then [] else take (nat max_items) samples)"

definition apply_retention_policies :: "support_settings \<Rightarrow> ('r \<Rightarrow> int option) \<Rightarrow> ('b \<Rightarrow> int option) \<Rightarrow> int \<Rightarrow> 'r list \<Rightarrow> 'b list \<Rightarrow> 'r list \<times> 'b list" where
  "apply_retention_policies s stamp bstamp now traces batches =
    (if \<not> ENABLE_RUNTIME_RETENTION_LIMITS s then (traces, batches)
     else (trim_trace_buffer_by_count (TRACE_BUFFER_MAX_RECORDS s) (trim_trace_buffer_by_age stamp now (TRACE_MAX_AGE_SECONDS s) traces),
           trim_batch_traces bstamp now (BATCH_TRACE_MAX_AGE_SECONDS s)
             (min 500 (if TRACE_BUFFER_MAX_RECORDS s = 0 then 500 else TRACE_BUFFER_MAX_RECORDS s)) batches))"

section \<open>What leaves the program\<close>

text \<open>Texts of at most \<open>m\<close> characters, lists and dictionaries of at most \<open>n\<close> entries, at every depth.\<close>

fun small :: "nat \<Rightarrow> nat \<Rightarrow> json \<Rightarrow> bool" where
  "small n m (JStr v) \<longleftrightarrow> length v \<le> m"
| "small n m (JArr xs) \<longleftrightarrow> length xs \<le> n \<and> list_all (small n m) xs"
| "small n m (JObj d) \<longleftrightarrow> length d \<le> n \<and> list_all (\<lambda>(k, v). small n m v) d"
| "small n m v \<longleftrightarrow> True"

lemma small_shrink: "a \<le> n \<Longrightarrow> b + length dots \<le> m \<Longrightarrow> small n m (shrink_value dots a b v)"
  by (induction v) (auto simp: list_all_iff dest!: in_set_takeD)

lemma small_redact_obj: "small n m v \<Longrightarrow> length REDACTED \<le> m \<Longrightarrow> small n m (redact_obj v)"
  by (induction v rule: redact_obj.induct) (auto simp: list_all_iff)

definition URL_FIELDS :: "pystr list" where
  "URL_FIELDS = [''source_url'', ''category_url'', ''url'', ''image_urls'']"

lemma small_support_value:
  assumes "k \<notin> set URL_FIELDS"
  shows "small 40 (400 + length dots) (support_value s dots k v)"
proof -
  have log: "small 40 (400 + length dots) (shrink_value dots MAX_LOG_LIST MAX_LOG_STRING v)"
    by (rule small_shrink) (simp_all add: MAX_LOG_LIST_def MAX_LOG_STRING_def)
  have "small 40 (400 + length dots) (shrink_specs dots d)" for d
    by (auto simp: shrink_specs_def list_all_iff MAX_SUPPORT_SPECS_KEYS_def intro!: small_shrink)
  with log show ?thesis
    using assms by (cases v) (simp_all add: support_value_def URL_FIELDS_def)
qed

lemma small_support_field:
  "support_field s dots purpose k v = Some w \<Longrightarrow> k \<notin> set URL_FIELDS \<Longrightarrow> small 40 (400 + length dots) w"
  by (auto simp: support_field_def omitted_def small_support_value split: if_splits json.splits)

text \<open>The fields no export contains: those that must not be exported.\<close>

definition CLOSED_FIELDS :: "pystr list" where
  "CLOSED_FIELDS = map fst (filter (\<lambda>(k, p). \<not> fd_exportable p) FIELD_POLICIES)"

lemma closed_fields: "CLOSED_FIELDS = [''field_confidence'', ''suppressed_typed_fields'', ''headers'', ''proxy_url'', ''parser_key'', ''signature_headers'', ''details'']"
  by code_simp

lemma exportable_not_closed: "fd_exportable (policy_for k) \<Longrightarrow> k \<notin> set CLOSED_FIELDS"
  unfolding closed_fields by (auto simp: policy_for_def get_field_policy_def FIELD_POLICIES_def)

text \<open>
  The one field with \<open>redact_required\<close> that is logged is on the list of keys that are not
  sensitive, and its value is a text: it is logged as it is.
\<close>

lemma redact_required_logged:
  "map fst (filter (\<lambda>(k, p). fd_redact p \<and> fd_loggable p) FIELD_POLICIES) = [''request_idempotency_key'']"
  "log_field r dots ''request_idempotency_key'' (JStr v) = Some (JStr (if length v > 400 then take 400 v @ dots else v))"
  by code_simp (simp add: log_field_def policy_for_def get_field_policy_def FIELD_POLICIES_def MAX_LOG_STRING_def)

lemma map_filter_pair: "(k, w) \<in> set (List.map_filter (\<lambda>(k, v). map_option (Pair k) (f k v)) xs) \<longleftrightarrow> (\<exists>v. (k, v) \<in> set xs \<and> f k v = Some w)"
  by (force simp: List.map_filter_def)

text \<open>C39. An export for support keeps what the policies promise.  With masking and the scope of
  exports on, whatever the payload: under no sensitive key, at any depth, is there a value of its
  own, and redacting the export again changes nothing; every field of it is one of the payload's that
  may be exported and may be used for the purpose, so none of the closed fields is among them; and apart
  from the URLs every value is small: texts, lists and dictionaries are cut at every depth.\<close>

theorem support_export_contract:
  assumes "MASK_SENSITIVE_FIELDS_IN_LOGS (ss_redact s)" and "ENABLE_SUPPORT_SCOPE_RESTRICTIONS s"
    and "out = minimize_payload_for_support s dots purpose payload"
  shows "redacted (JObj out) \<and> redact_payload (ss_redact s) out = out
    \<and> (\<forall>(k, v) \<in> set out. k \<in> fst ` set payload \<and> fd_exportable (policy_for k) \<and> k \<notin> set CLOSED_FIELDS
        \<and> (\<forall>pol. get_field_policy (strip k) = Some pol \<longrightarrow> norm_purpose purpose \<in> set (fd_purposes pol))
        \<and> (k \<notin> set URL_FIELDS \<longrightarrow> small 40 (400 + length dots) v))"
proof -
  let ?kept = "List.map_filter (\<lambda>(k, v). map_option (Pair k) (support_field s dots purpose k v)) payload"
  have out: "out = redact_row ?kept" using assms(1,3) by (simp add: minimize_payload_for_support_def redact_payload_def)
  have "redacted (JObj out)" using redacted_redact_obj [of "JObj ?kept"] by (simp only: out redact_row_obj)
  moreover have "redact_payload (ss_redact s) out = out" using assms(1) by (simp add: redact_payload_def out)
  moreover have "k \<in> fst ` set payload \<and> fd_exportable (policy_for k) \<and> k \<notin> set CLOSED_FIELDS
      \<and> (\<forall>pol. get_field_policy (strip k) = Some pol \<longrightarrow> norm_purpose purpose \<in> set (fd_purposes pol))
      \<and> (k \<notin> set URL_FIELDS \<longrightarrow> small 40 (400 + length dots) v)" if kv: "(k, v) \<in> set out" for k v
  proof -
    from kv obtain w where w: "(k, w) \<in> set ?kept" "v = (if is_sensitive_payload_key k then JStr REDACTED else redact_obj w)"
      by (auto simp: out redact_row_def)
    then obtain v0 where v0: "(k, v0) \<in> set payload" "support_field s dots purpose k v0 = Some w" by (auto simp: map_filter_pair)
    then have exp: "should_include_field k purpose s" "fd_exportable (policy_for k)" by (auto simp: support_field_def split: if_splits)
    then have "get_field_policy (strip k) = Some pol \<Longrightarrow> norm_purpose purpose \<in> set (fd_purposes pol)" for pol
      using assms(2) by (simp add: should_include_field_def Let_def split: if_splits)
    moreover have "small 40 (400 + length dots) v" if "k \<notin> set URL_FIELDS"
      using small_redact_obj [OF small_support_field [OF v0(2) that]] w(2) by (simp add: REDACTED_def)
    ultimately show ?thesis using v0(1) exp(2) exportable_not_closed [OF exp(2)] by force
  qed
  ultimately show ?thesis by blast
qed

definition sample_support :: support_settings where
  "sample_support = \<lparr>ENABLE_DATA_MINIMIZATION = True, ENABLE_SAFE_DIAGNOSTIC_EXPORTS = True, ENABLE_SUPPORT_SCOPE_RESTRICTIONS = True,
     ENABLE_RUNTIME_RETENTION_LIMITS = True, DIAGNOSTIC_SNAPSHOT_MAX_ITEMS = 20, SUPPORT_EXPORT_MAX_ERRORS = 20,
     SUPPORT_EXPORT_INCLUDE_RAW_SPECS = True, SUPPORT_EXPORT_INCLUDE_TYPED_SPECS = True, SUPPORT_EXPORT_INCLUDE_FIELD_CONFIDENCE = False,
     SUPPORT_EXPORT_INCLUDE_SUPPRESSED_FIELDS = False, SUPPORT_EXPORT_INCLUDE_RAW_HEADERS = False, SUPPORT_EXPORT_INCLUDE_FULL_URL_QUERY = False,
     TRACE_MAX_AGE_SECONDS = 3600, BATCH_TRACE_MAX_AGE_SECONDS = 3600, TRACE_BUFFER_MAX_RECORDS = 5000,
     ss_redact = \<lparr>MASK_SENSITIVE_HEADERS_IN_LOGS = True, MASK_SENSITIVE_FIELDS_IN_LOGS = True\<rparr>\<rparr>"

definition sample_payload :: json_row where
  "sample_payload = [(''entity_key'', JStr ''uzum:1''), (''parser_key'', JStr ''k''), (''title'', JStr ''Phone''),
     (''metrics'', JObj [(''access_token'', JStr ''t''), (''pages'', JInt 3)])]"

theorem support_export_contract_witness:
  "minimize_payload_for_support sample_support ''...'' ''triage'' sample_payload
     = [(''entity_key'', JStr ''uzum:1''), (''metrics'', JObj [(''access_token'', JStr REDACTED), (''pages'', JInt 3)])]
   \<and> redacted (JObj (minimize_payload_for_support sample_support ''...'' ''triage'' sample_payload))"
proof
  show "minimize_payload_for_support sample_support ''...'' ''triage'' sample_payload
     = [(''entity_key'', JStr ''uzum:1''), (''metrics'', JObj [(''access_token'', JStr REDACTED), (''pages'', JInt 3)])]"
    by code_simp
  show "redacted (JObj (minimize_payload_for_support sample_support ''...'' ''triage'' sample_payload))"
    using support_export_contract [OF _ _ refl, of sample_support "''...''" "''triage''" sample_payload] by (simp add: sample_support_def)
qed

section \<open>What is kept\<close>

lemma trim_by_count_suffix: "\<exists>dropped. records = dropped @ trim_trace_buffer_by_count n records"
  by (auto simp: trim_trace_buffer_by_count_def intro: exI [of _ "take (length records - nat n) records"])

lemma trim_by_count_length: "0 < n \<Longrightarrow> int (length (trim_trace_buffer_by_count n records)) \<le> n"
  by (auto simp: trim_trace_buffer_by_count_def)

lemma retention_keeps:
  assumes "ENABLE_RUNTIME_RETENTION_LIMITS s" and "0 < TRACE_BUFFER_MAX_RECORDS s"
    and "apply_retention_policies s stamp bstamp now traces batches = (ts, bs)"
  shows "int (length ts) \<le> TRACE_BUFFER_MAX_RECORDS s \<and> length bs \<le> 500 \<and> set ts \<subseteq> set traces \<and> set bs \<subseteq> set batches
    \<and> (0 < TRACE_MAX_AGE_SECONDS s \<longrightarrow> (\<forall>r \<in> set ts. \<forall>t. stamp r = Some t \<longrightarrow> now - TRACE_MAX_AGE_SECONDS s * 1000000 \<le> t))"
proof -
  let ?n = "min 500 (TRACE_BUFFER_MAX_RECORDS s)"
  let ?kept = "trim_trace_buffer_by_age stamp now (TRACE_MAX_AGE_SECONDS s) traces"
    and ?bkept = "trim_trace_buffer_by_age bstamp now (BATCH_TRACE_MAX_AGE_SECONDS s) batches"
  have ts: "ts = trim_trace_buffer_by_count (TRACE_BUFFER_MAX_RECORDS s) ?kept" and bs: "bs = trim_trace_buffer_by_count ?n ?bkept"
    using assms by (auto simp: apply_retention_policies_def trim_batch_traces_def)
  have sub: "set ts \<subseteq> set ?kept" "set bs \<subseteq> set ?bkept"
    using trim_by_count_suffix [of ?kept "TRACE_BUFFER_MAX_RECORDS s"] trim_by_count_suffix [of ?bkept ?n] by (metis Un_upper2 set_append ts bs)+
  have "int (length bs) \<le> ?n" using trim_by_count_length [of ?n ?bkept] assms(2) by (simp add: bs)
  moreover have "int (length ts) \<le> TRACE_BUFFER_MAX_RECORDS s" using trim_by_count_length [of _ ?kept] assms(2) by (simp add: ts)
  moreover have "set ?kept \<subseteq> set traces" "set ?bkept \<subseteq> set batches" by (auto simp: trim_trace_buffer_by_age_def)
  ultimately show ?thesis using sub by (auto simp: trim_trace_buffer_by_age_def split: if_splits)
qed

text \<open>Retention is done once: what it keeps it keeps again.\<close>

lemma trim_by_age_idem: "trim_trace_buffer_by_age stamp now a (trim_trace_buffer_by_age stamp now a rs) = trim_trace_buffer_by_age stamp now a rs"
  by (simp add: trim_trace_buffer_by_age_def)

lemma trim_by_count_idem: "trim_trace_buffer_by_count n (trim_trace_buffer_by_count n rs) = trim_trace_buffer_by_count n rs"
  using trim_by_count_length [of n rs] by (cases "0 < n") (simp_all add: trim_trace_buffer_by_count_def)

end
