(* ===== verification/Contract_Evolution.thy ===== *)
theory Contract_Evolution imports Py_Number Fingerprints begin

text \<open>
  How the contracts with the consumers of the data may change
  (\<^verbatim>\<open>contract_evolution.py\<close>, \<^verbatim>\<open>compatibility_checker.py\<close>, \<^verbatim>\<open>payload_compatibility.py\<close>,
  \<^verbatim>\<open>deprecation_registry.py\<close> and \<^verbatim>\<open>shape_compat.py\<close> of \<^verbatim>\<open>application/release/\<close>): a payload is
  compared with a baseline, and what is sent keeps the old names of renamed fields.  The
  registry of deprecations is an argument; the one the program ships with is empty.
\<close>

section \<open>Surfaces, deprecations and changes\<close>

datatype surface = Crm_payload | Lifecycle_event | Apply_result | Replay_metadata | Etl_status | Diagnostic_snapshot | Operator_summary

definition surface_names :: "(pystr \<times> surface) list" where
  "surface_names = [(''crm_payload'', Crm_payload), (''lifecycle_event'', Lifecycle_event), (''apply_result'', Apply_result),
     (''replay_metadata'', Replay_metadata), (''etl_status'', Etl_status), (''diagnostic_snapshot'', Diagnostic_snapshot),
     (''operator_summary'', Operator_summary)]"

definition as_surface :: "pystr \<Rightarrow> exc + surface" where
  "as_surface s = (case map_of surface_names s of Some x \<Rightarrow> Inr x | None \<Rightarrow> Inl (ValueError (''unknown contract surface: '' @ repr_str s)))"

datatype deprecation_status = Active | Deprecated | Shadow | Removed_field

record deprecation_notice =
  dn_surface :: surface
  dn_field :: pystr
  dn_status :: deprecation_status
  dn_replacement :: "pystr option"

type_synonym deprecation_registry = "deprecation_notice list"

definition get_deprecations :: "deprecation_registry \<Rightarrow> surface \<Rightarrow> deprecation_notice list" where
  "get_deprecations reg s = filter (\<lambda>n. dn_surface n = s) reg"

text \<open>The old name of each renamed field with its new one.\<close>

definition get_shadow_fields :: "deprecation_registry \<Rightarrow> surface \<Rightarrow> (pystr \<times> pystr) list" where
  "get_shadow_fields reg s = foldl (\<lambda>out n. if dn_status n = Shadow \<and> truthy (dn_replacement n)
     then od_set (dn_field n) (or_empty (dn_replacement n)) out else out) [] (get_deprecations reg s)"

definition is_field_deprecated :: "deprecation_registry \<Rightarrow> surface \<Rightarrow> pystr \<Rightarrow> bool" where
  "is_field_deprecated reg s field \<longleftrightarrow> list_ex (\<lambda>n. dn_field n = field \<and> dn_status n \<in> {Deprecated, Shadow}) (get_deprecations reg s)"

definition register_deprecation_notice :: "deprecation_notice \<Rightarrow> deprecation_registry \<Rightarrow> deprecation_registry" where
  "register_deprecation_notice n reg = reg @ [n]"

datatype change_type = Additive | Behavioral | Deprecation | Breaking_change

datatype compat_level = Backward_compatible | Conditionally_compatible | Breaking

text \<open>\<open>change_name\<close> is a prefix and a name, which the code takes apart again; here it is a value.\<close>

datatype change_kind =
    Removed pystr
  | Added pystr
  | Drift pystr
  | Semantic pystr
  | Shadow_rename pystr pystr
  | Rename_without_bridge

fun change_name :: "change_kind \<Rightarrow> pystr" where
  "change_name (Removed p) = ''removed_field:'' @ p"
| "change_name (Added p) = ''added_field:'' @ p"
| "change_name (Drift p) = ''type_or_shape_drift:'' @ p"
| "change_name (Semantic k) = ''lifecycle_semantic:'' @ k"
| "change_name (Shadow_rename a b) = ''shadow_rename:'' @ a @ ''->'' @ b"
| "change_name Rename_without_bridge = ''rename_without_shadow_or_bridge''"

record contract_change =
  cc_kind :: change_kind
  cc_type :: change_type
  cc_level :: compat_level
  cc_fields :: "pystr list"

section \<open>Differences\<close>

text \<open>\<open>type(v)\<close>\<close>

fun type_name :: "json \<Rightarrow> pystr" where
  "type_name JNull = ''NoneType''"
| "type_name (JBool _) = ''bool''"
| "type_name (JInt _) = ''int''"
| "type_name (JFloat _) = ''float''"
| "type_name (JStr _) = ''str''"
| "type_name (JArr _) = ''list''"
| "type_name (JObj _) = ''dict''"

fun is_number :: "json \<Rightarrow> bool" where
  "is_number (JInt _) = True" | "is_number (JFloat _) = True" | "is_number _ = False"

fun is_breaking_field_change :: "json \<Rightarrow> json \<Rightarrow> bool" where
  "is_breaking_field_change (JObj a) (JObj b) =
    (set (od_keys a) \<noteq> set (od_keys b) \<or> list_ex (\<lambda>(k, v). is_breaking_field_change v (row_get k b)) a)"
| "is_breaking_field_change a b = (if type_name a = type_name b then False else \<not> (is_number a \<and> is_number b))"

definition last_key :: "pystr \<Rightarrow> pystr" where
  "last_key path = rev (takeWhile (\<lambda>c. c \<noteq> CHR ''.'') (rev path))"

definition join_key :: "pystr \<Rightarrow> pystr \<Rightarrow> pystr" where
  "join_key prefix k = (if prefix = [] then k else prefix @ ''.'' @ k)"

definition od_update :: "json_row \<Rightarrow> json_row \<Rightarrow> json_row" where
  "od_update out d = foldl (\<lambda>acc (k, v). od_set k v acc) out d"

fun flatten_keys :: "pystr \<Rightarrow> json \<Rightarrow> json_row" where
  "flatten_keys prefix (JObj d) =
    foldl (\<lambda>out (k, v). od_update (od_set (join_key prefix k) v out) (flatten_keys (join_key prefix k) v)) [] d"
| "flatten_keys prefix _ = []"

definition flat :: "json_row \<Rightarrow> json_row" where
  "flat d = flatten_keys [] (JObj d)"

definition is_additive_field_change :: "json_row \<Rightarrow> json_row \<Rightarrow> bool" where
  "is_additive_field_change old_payload new_payload =
    (let a = flat old_payload; b = flat new_payload in
     list_all (\<lambda>(k, v). k \<in> set (od_keys b) \<and> \<not> is_breaking_field_change v (row_get k b)) a
     \<and> list_ex (\<lambda>k. k \<notin> set (od_keys a)) (od_keys b))"

definition REQUIRED_FIELDS :: "surface \<Rightarrow> pystr list" where
  "REQUIRED_FIELDS s = (case s of
       Crm_payload \<Rightarrow> [''schema_version'', ''entity_key'', ''payload_hash'', ''source_name'', ''source_url'']
     | Lifecycle_event \<Rightarrow> [''event_type'', ''payload_hash'', ''event_id'', ''sent_at'']
     | Apply_result \<Rightarrow> [''ok'']
     | Replay_metadata \<Rightarrow> [''replay_mode'']
     | Etl_status \<Rightarrow> [''schema'', ''run_id'', ''current_status'']
     | _ \<Rightarrow> [])"

definition ETL_BREAKING_IF_REMOVED :: "pystr list" where
  "ETL_BREAKING_IF_REMOVED = [''counters_summary'', ''errors_by_domain'', ''schema'']"

definition QUALITY_ID_KEYS :: "pystr list" where
  "QUALITY_ID_KEYS = [''entity_key'', ''payload_hash'', ''event_id'', ''request_idempotency_key'', ''replay_mode'', ''crm_listing_id'',
     ''crm_product_id'', ''source_id'', ''external_ids'']"

text \<open>The code goes through a set of these in no fixed order.\<close>

definition LIFECYCLE_SEMANTIC_KEYS :: "pystr list" where
  "LIFECYCLE_SEMANTIC_KEYS = [''lifecycle_default_event'', ''default_event_type'', ''PARSER_LIFECYCLE_DEFAULT_EVENT'']"

text \<open>\<open>b != a\<close> for values that are texts, truth values or numbers.\<close>

fun compare_number :: "json \<Rightarrow> rat option" where
  "compare_number (JBool b) = Some (of_bool b)"
| "compare_number (JInt i) = Some (of_int i)"
| "compare_number (JFloat t) = py_float t"
| "compare_number _ = None"

definition same_value :: "json \<Rightarrow> json \<Rightarrow> bool" where
  "same_value a b = (case (compare_number a, compare_number b) of (Some x, Some y) \<Rightarrow> x = y | _ \<Rightarrow> a = b)"

definition DEFAULT_EVENT_KEYS :: "pystr list" where
  "DEFAULT_EVENT_KEYS = [''lifecycle_default_event'', ''default_event_type'']"

definition semantic_change :: "json_row \<Rightarrow> json_row \<Rightarrow> pystr \<Rightarrow> contract_change option" where
  "semantic_change before after key =
    (let b = row_get key before; a = row_get key after in
     if b = JNull \<and> a = JNull \<or> same_value b a then None
     else if key \<in> set DEFAULT_EVENT_KEYS
       then Some \<lparr>cc_kind = Semantic key, cc_type = Breaking_change, cc_level = Breaking, cc_fields = [key]\<rparr>
     else Some \<lparr>cc_kind = Semantic key, cc_type = Behavioral, cc_level = Conditionally_compatible, cc_fields = [key]\<rparr>)"

definition detect_behavioral_change :: "surface \<Rightarrow> json_row \<Rightarrow> json_row \<Rightarrow> contract_change list" where
  "detect_behavioral_change s before after =
    (if s \<notin> {Lifecycle_event, Crm_payload, Replay_metadata} then []
     else List.map_filter (semantic_change before after) LIFECYCLE_SEMANTIC_KEYS)"

text \<open>When is the loss of a field breaking?\<close>

definition loss_breaks :: "surface \<Rightarrow> pystr \<Rightarrow> bool" where
  "loss_breaks s path \<longleftrightarrow> last_key path \<in> set (REQUIRED_FIELDS s) \<or> path \<in> set (REQUIRED_FIELDS s)
     \<or> (s = Etl_status \<and> last_key path \<in> set ETL_BREAKING_IF_REMOVED)
     \<or> (last_key path \<in> set QUALITY_ID_KEYS \<and> s \<in> {Crm_payload, Lifecycle_event, Replay_metadata})"

definition removal :: "surface \<Rightarrow> pystr \<Rightarrow> contract_change" where
  "removal s path = (if loss_breaks s path
     then \<lparr>cc_kind = Removed path, cc_type = Breaking_change, cc_level = Breaking, cc_fields = [path]\<rparr>
     else \<lparr>cc_kind = Removed path, cc_type = Deprecation, cc_level = Conditionally_compatible, cc_fields = [path]\<rparr>)"

definition current_change :: "json_row \<Rightarrow> pystr \<times> json \<Rightarrow> contract_change option" where
  "current_change base = (\<lambda>(path, v).
    if path \<notin> set (od_keys base) then Some \<lparr>cc_kind = Added path, cc_type = Additive, cc_level = Backward_compatible, cc_fields = [path]\<rparr>
    else if is_breaking_field_change (row_get path base) v
      then Some \<lparr>cc_kind = Drift path, cc_type = Breaking_change, cc_level = Breaking, cc_fields = [path]\<rparr>
    else None)"

definition removed_path :: "contract_change \<Rightarrow> pystr option" where
  "removed_path c = (case cc_kind c of Removed p \<Rightarrow> Some p | _ \<Rightarrow> None)"

definition added_path :: "contract_change \<Rightarrow> pystr option" where
  "added_path c = (case cc_kind c of Added p \<Rightarrow> Some p | _ \<Rightarrow> None)"

text \<open>A removal and an addition that the registry knows as a rename become one change.\<close>

definition find_path :: "(contract_change \<Rightarrow> pystr option) \<Rightarrow> pystr \<Rightarrow> contract_change list \<Rightarrow> contract_change option" where
  "find_path f p changes = List.find (\<lambda>c. f c = Some p) changes"

definition renames :: "(pystr \<times> pystr) list \<Rightarrow> contract_change list \<Rightarrow> (pystr \<times> pystr) list" where
  "renames shadow changes = filter (\<lambda>(legacy, canonical). (case find_path removed_path legacy changes of
       None \<Rightarrow> False | Some r \<Rightarrow> cc_level r \<noteq> Backward_compatible) \<and> find_path added_path canonical changes \<noteq> None) shadow"

definition collapse_shadow_renames :: "(pystr \<times> pystr) list \<Rightarrow> contract_change list \<Rightarrow> contract_change list" where
  "collapse_shadow_renames shadow changes =
    (if shadow = [] then changes
     else (let rs = renames shadow changes in
       filter (\<lambda>c. removed_path c = None \<and> added_path c = None) changes
       @ filter (\<lambda>c. removed_path c \<noteq> None \<and> removed_path c \<notin> set (map (Some \<circ> fst) rs)) changes
       @ filter (\<lambda>c. added_path c \<noteq> None \<and> added_path c \<notin> set (map (Some \<circ> snd) rs)) changes
       @ map (\<lambda>(a, b). \<lparr>cc_kind = Shadow_rename a b, cc_type = Deprecation, cc_level = Conditionally_compatible, cc_fields = [a, b]\<rparr>) rs))"

definition top_level :: "pystr \<Rightarrow> bool" where
  "top_level p \<longleftrightarrow> CHR ''.'' \<notin> set p"

definition suspected_rename :: "surface \<Rightarrow> contract_change list \<Rightarrow> contract_change list" where
  "suspected_rename s changes =
    (let removed = filter top_level (List.map_filter removed_path changes); added = filter top_level (List.map_filter added_path changes) in
     if s \<noteq> Crm_payload then []
     else if list_ex (\<lambda>c. case cc_kind c of Shadow_rename _ _ \<Rightarrow> True | _ \<Rightarrow> False) changes then []
     else if removed = [] \<or> added = [] then []
     else [\<lparr>cc_kind = Rename_without_bridge, cc_type = Breaking_change, cc_level = Breaking,
            cc_fields = sort (remdups (removed @ added))\<rparr>])"

definition field_changes :: "surface \<Rightarrow> json_row \<Rightarrow> json_row \<Rightarrow> contract_change list" where
  "field_changes s baseline current =
    (let b = flat baseline; c = flat current in
     map (removal s) (filter (\<lambda>p. p \<notin> set (od_keys c)) (od_keys b)) @ List.map_filter (current_change b) c)"

definition classify_contract_change :: "deprecation_registry \<Rightarrow> surface \<Rightarrow> json_row \<Rightarrow> json_row \<Rightarrow> contract_change list" where
  "classify_contract_change reg s baseline current =
    (let changes = collapse_shadow_renames (get_shadow_fields reg s)
           (field_changes s baseline current @ detect_behavioral_change s baseline current)
     in changes @ suspected_rename s changes)"

section \<open>The report\<close>

record compat_settings =
  ALLOW_BREAKING_CHANGES_WITHOUT_GATE :: bool
  ENABLE_SHADOW_FIELDS :: bool
  ENABLE_COMPATIBILITY_GUARDS :: bool
  DUAL_SHAPE_OUTPUTS :: bool
  CONTRACT_SCHEMA_VERSION :: pystr

record compat_report =
  rp_compatible :: bool
  rp_level :: compat_level
  rp_breaking :: "contract_change list"
  rp_conditional :: "contract_change list"
  rp_additive :: "contract_change list"

definition aggregate_level :: "contract_change list \<Rightarrow> compat_level" where
  "aggregate_level changes =
    (if list_ex (\<lambda>c. cc_level c = Breaking) changes then Breaking
     else if list_ex (\<lambda>c. cc_level c = Conditionally_compatible) changes then Conditionally_compatible else Backward_compatible)"

definition compat_report_of :: "compat_settings \<Rightarrow> contract_change list \<Rightarrow> compat_report" where
  "compat_report_of st changes =
    (let breaking = filter (\<lambda>c. cc_level c = Breaking) changes;
         compatible = (breaking = [] \<or> ALLOW_BREAKING_CHANGES_WITHOUT_GATE st)
     in \<lparr>rp_compatible = compatible, rp_level = (if compatible then aggregate_level changes else Breaking), rp_breaking = breaking,
         rp_conditional = filter (\<lambda>c. cc_level c = Conditionally_compatible) changes,
         rp_additive = filter (\<lambda>c. cc_type c = Additive) changes\<rparr>)"

definition check_surface_compatibility ::
  "compat_settings \<Rightarrow> deprecation_registry \<Rightarrow> pystr \<Rightarrow> json_row \<Rightarrow> json_row \<Rightarrow> exc + compat_report" where
  "check_surface_compatibility st reg name baseline current =
    (case as_surface name of Inl e \<Rightarrow> Inl e
     | Inr s \<Rightarrow> Inr (compat_report_of st (classify_contract_change reg s baseline current)))"

definition should_block_due_to_compatibility :: "compat_settings \<Rightarrow> compat_report list \<Rightarrow> bool" where
  "should_block_due_to_compatibility st reports =
    (if ALLOW_BREAKING_CHANGES_WITHOUT_GATE st then False else list_ex (\<lambda>r. \<not> rp_compatible r) reports)"

section \<open>Shapes\<close>

text \<open>\<open>payload_compatibility.py\<close>: what a payload lacks of its baseline.\<close>

fun type_ok :: "json \<Rightarrow> json \<Rightarrow> bool" where
  "type_ok JNull _ = True"
| "type_ok (JFloat _) v = (is_number v \<or> type_name v = ''bool'')"
| "type_ok b v = (type_name b = type_name v)"

fun compare_shapes :: "json \<Rightarrow> json \<Rightarrow> pystr \<Rightarrow> pystr list" where
  "compare_shapes (JObj baseline) (JObj current) path = concat (map (\<lambda>(key, v).
     if key \<notin> set (od_keys current) then [''missing_required:'' @ join_key path key]
     else (case (v, row_get key current) of
         (JObj _, JObj _) \<Rightarrow> compare_shapes v (row_get key current) (join_key path key)
       | _ \<Rightarrow> if type_ok v (row_get key current) then []
              else [''type_drift:'' @ join_key path key @ '' expected='' @ type_name v @ '' got='' @ type_name (row_get key current)])) baseline)"
| "compare_shapes _ _ _ = []"

definition compare_payload_shapes :: "json_row \<Rightarrow> json_row \<Rightarrow> bool \<times> pystr list" where
  "compare_payload_shapes current baseline = (let notes = compare_shapes (JObj baseline) (JObj current) [] in (notes = [], notes))"

text \<open>\<open>shape_compat.py\<close>: the names an outgoing payload has.\<close>

definition shadow_step :: "json_row \<Rightarrow> pystr \<times> pystr \<Rightarrow> json_row" where
  "shadow_step out = (\<lambda>(shadow_key, canonical).
    if canonical \<in> set (od_keys out) \<and> shadow_key \<notin> set (od_keys out) then od_set shadow_key (row_get canonical out) out else out)"

definition apply_shadow_fields :: "compat_settings \<Rightarrow> deprecation_registry \<Rightarrow> surface \<Rightarrow> json_row \<Rightarrow> json_row" where
  "apply_shadow_fields st reg s payload =
    (if \<not> ENABLE_SHADOW_FIELDS st then payload else foldl shadow_step payload (get_shadow_fields reg s))"

definition legacy_step :: "json_row \<Rightarrow> json_row \<Rightarrow> pystr \<times> pystr \<Rightarrow> json_row" where
  "legacy_step primary legacy = (\<lambda>(shadow_key, canonical).
    let l1 = (if canonical \<in> set (od_keys primary) then od_set shadow_key (row_get canonical primary) legacy else legacy)
    in if shadow_key \<in> set (od_keys primary) \<and> canonical \<notin> set (od_keys primary)
       then od_set canonical (row_get shadow_key primary) l1 else l1)"

definition build_dual_shape_payload :: "compat_settings \<Rightarrow> deprecation_registry \<Rightarrow> surface \<Rightarrow> json_row \<Rightarrow> json_row" where
  "build_dual_shape_payload st reg s payload =
    (if \<not> DUAL_SHAPE_OUTPUTS st then payload
     else (let primary = apply_shadow_fields st reg s payload;
               legacy = foldl (legacy_step primary) primary (get_shadow_fields reg s)
           in [(''contract_schema_version'', JStr (CONTRACT_SCHEMA_VERSION st)), (''primary'', JObj primary), (''legacy_shape'', JObj legacy)]))"

definition strip_removed_fields :: "compat_settings \<Rightarrow> deprecation_registry \<Rightarrow> surface \<Rightarrow> json_row \<Rightarrow> json_row" where
  "strip_removed_fields st reg s payload =
    (if \<not> ENABLE_COMPATIBILITY_GUARDS st then payload
     else foldl (\<lambda>out n. if dn_status n \<noteq> Removed_field then out else od_pop (dn_field n) out) payload (get_deprecations reg s))"

definition export_shape :: "compat_settings \<Rightarrow> deprecation_registry \<Rightarrow> surface \<Rightarrow> json_row \<Rightarrow> json_row" where
  "export_shape st reg s payload =
    (let out = apply_shadow_fields st reg s (strip_removed_fields st reg s payload)
     in if DUAL_SHAPE_OUTPUTS st then build_dual_shape_payload st reg s out else out)"

section \<open>Paths\<close>

lemma keys_od_set: "set (od_keys (od_set k v d)) = insert k (set (od_keys d))"
  by (auto simp: od_keys_set)

lemma keys_Cons: "od_keys ((k, v) # d) = k # od_keys d" "od_keys [] = []"
  by (simp_all add: od_keys_def)

lemma od_update_keys: "set (od_keys (od_update out d)) = set (od_keys out) \<union> set (od_keys d)"
proof (induction d arbitrary: out)
  case (Cons kv d)
  then show ?case by (cases kv) (simp add: od_update_def keys_od_set keys_Cons)
qed (simp add: od_update_def keys_Cons)

lemma distinct_od_update: "distinct (od_keys out) \<Longrightarrow> distinct (od_keys (od_update out d))"
  by (induction d arbitrary: out) (auto simp: od_update_def distinct_od_set)

text \<open>The paths of a payload, whatever their order.\<close>

lemma flatten_fold_keys:
  "set (od_keys (foldl (\<lambda>out (k, v). od_update (od_set (join_key prefix k) v out) (f (join_key prefix k) v)) out0 d))
    = set (od_keys out0) \<union> (\<Union>(k, v) \<in> set d. insert (join_key prefix k) (set (od_keys (f (join_key prefix k) v))))"
proof (induction d arbitrary: out0)
  case (Cons kv d)
  then show ?case by (cases kv) (simp add: od_update_keys keys_od_set Un_assoc Un_left_commute)
qed simp

lemma flatten_keys_paths:
  "set (od_keys (flatten_keys prefix (JObj d)))
    = (\<Union>(k, v) \<in> set d. insert (join_key prefix k) (set (od_keys (flatten_keys (join_key prefix k) v))))"
  by (simp add: flatten_fold_keys) (simp add: od_keys_def)

lemma distinct_flat: "distinct (od_keys (flat d))"
proof -
  have "distinct (od_keys out0) \<Longrightarrow>
      distinct (od_keys (foldl (\<lambda>out (k, v). od_update (od_set (join_key prefix k) v out) (f (join_key prefix k) v)) out0 d))"
    for out0 f prefix by (induction d arbitrary: out0) (auto simp: distinct_od_update distinct_od_set)
  then show ?thesis by (simp add: flat_def od_keys_def)
qed

lemma row_get_mem: "k \<in> set (od_keys d) \<Longrightarrow> (k, row_get k d) \<in> set d"
  by (induction d) (auto simp: od_keys_def row_get_def)

lemma mem_row_get: "(k, v) \<in> set d \<Longrightarrow> distinct (od_keys d) \<Longrightarrow> row_get k d = v"
  by (simp add: row_get_def od_keys_def)

text \<open>A payload that passes the comparison of shapes has every path of its baseline.\<close>

lemma compare_shapes_paths:
  "compare_shapes base current path = [] \<Longrightarrow> \<exists>d. base = JObj d \<Longrightarrow> \<exists>d. current = JObj d
    \<Longrightarrow> set (od_keys (flatten_keys path base)) \<subseteq> set (od_keys (flatten_keys path current))"
proof (induction base current path rule: compare_shapes.induct)
  case (1 baseline current path)
  show ?case
  proof
    fix p
    assume "p \<in> set (od_keys (flatten_keys path (JObj baseline)))"
    then obtain k v where kv: "(k, v) \<in> set baseline" and p: "p = join_key path k \<or> p \<in> set (od_keys (flatten_keys (join_key path k) v))"
      by (auto simp only: flatten_keys_paths)
    let ?v = "row_get k current"
    from 1(2) kv have none: "(if k \<notin> set (od_keys current) then [''missing_required:'' @ join_key path k]
       else (case (v, ?v) of (JObj _, JObj _) \<Rightarrow> compare_shapes v ?v (join_key path k)
         | _ \<Rightarrow> if type_ok v ?v then [] else [''type_drift:'' @ join_key path k @ '' expected='' @ type_name v @ '' got='' @ type_name ?v])) = []"
      using bspec [OF 1(2) [unfolded compare_shapes.simps(1) concat_eq_Nil_conv set_map ball_simps(9)] kv] by (simp only: prod.case)
    then have mem: "k \<in> set (od_keys current)" by (auto split: if_splits)
    have "p \<in> set (od_keys (flatten_keys (join_key path k) ?v))" if "p \<noteq> join_key path k"
    proof -
      from that p have pv: "p \<in> set (od_keys (flatten_keys (join_key path k) v))" by simp
      then obtain d where d: "v = JObj d" by (cases v) (simp_all add: od_keys_def)
      with none mem obtain d' where d': "?v = JObj d'" by (cases ?v) simp_all
      from none mem have "compare_shapes v ?v (join_key path k) = []" by (simp add: d d')
      from 1(1) [OF kv refl _ _ d d' this] mem pv d d' show ?thesis by auto
    qed
    then show "p \<in> set (od_keys (flatten_keys path (JObj current)))"
      using row_get_mem [OF mem] by (force simp only: flatten_keys_paths)
  qed
qed simp_all

section \<open>When a contract is kept\<close>

lemma map_filter_ball: "(\<forall>y \<in> set (List.map_filter f xs). P y) \<longleftrightarrow> (\<forall>x \<in> set xs. \<forall>y. f x = Some y \<longrightarrow> P y)"
  by (force simp: List.map_filter_def)

lemma map_filter_append: "List.map_filter f (xs @ ys) = List.map_filter f xs @ List.map_filter f ys"
  by (simp add: List.map_filter_def)

lemma map_filter_none: "(\<And>x. x \<in> set xs \<Longrightarrow> f x = None) \<Longrightarrow> List.map_filter f xs = []"
  by (simp add: List.map_filter_def filter_empty_conv)

lemma compatible_iff_no_breaking:
  "rp_compatible (compat_report_of st changes) \<longleftrightarrow> ALLOW_BREAKING_CHANGES_WITHOUT_GATE st \<or> (\<forall>c \<in> set changes. cc_level c \<noteq> Breaking)"
  by (auto simp: compat_report_of_def Let_def filter_empty_conv)

lemma removal_simps [simp]:
  "cc_level (removal s p) = Breaking \<longleftrightarrow> loss_breaks s p" "removed_path (removal s p) = Some p" "added_path (removal s p) = None"
  by (simp_all add: removal_def removed_path_def added_path_def)

lemma current_change_level:
  "(\<forall>ch. current_change b (p, v) = Some ch \<longrightarrow> cc_level ch \<noteq> Breaking) \<longleftrightarrow> (p \<in> set (od_keys b) \<longrightarrow> \<not> is_breaking_field_change (row_get p b) v)"
  by (simp add: current_change_def)

lemma current_level_ball:
  "(\<forall>c \<in> set (List.map_filter (current_change b) xs). cc_level c \<noteq> Breaking)
    \<longleftrightarrow> (\<forall>(p, v) \<in> set xs. p \<in> set (od_keys b) \<longrightarrow> \<not> is_breaking_field_change (row_get p b) v)"
  unfolding map_filter_ball by (rule ball_cong [OF refl]) (simp only: split_paired_all prod.case current_change_level)

lemma current_change_paths:
  "current_change b (p, v) = Some ch \<Longrightarrow> removed_path ch = None \<and> added_path ch = (if p \<in> set (od_keys b) then None else Some p)"
  by (auto simp: current_change_def removed_path_def added_path_def split: if_splits)

lemma current_change_added: "p \<notin> set (od_keys b) \<Longrightarrow> \<exists>ch. current_change b (p, v) = Some ch \<and> added_path ch = Some p"
  by (simp add: current_change_def added_path_def)

lemma semantic_change_level:
  "(\<forall>ch. semantic_change before after k = Some ch \<longrightarrow> cc_level ch \<noteq> Breaking)
    \<longleftrightarrow> (k \<in> set DEFAULT_EVENT_KEYS \<longrightarrow> same_value (row_get k before) (row_get k after))"
proof -
  have "same_value JNull JNull" by (simp add: same_value_def)
  then show ?thesis by (auto simp: semantic_change_def Let_def)
qed

lemma semantic_change_paths: "semantic_change before after k = Some ch \<Longrightarrow> removed_path ch = None \<and> added_path ch = None"
  by (auto simp: semantic_change_def Let_def removed_path_def added_path_def split: if_splits)

lemma behaviour_level:
  "(\<forall>c \<in> set (detect_behavioral_change s before after). cc_level c \<noteq> Breaking)
    \<longleftrightarrow> (s \<in> {Lifecycle_event, Crm_payload, Replay_metadata} \<longrightarrow>
          (\<forall>k \<in> set DEFAULT_EVENT_KEYS. same_value (row_get k before) (row_get k after)))"
proof -
  have "set DEFAULT_EVENT_KEYS \<subseteq> set LIFECYCLE_SEMANTIC_KEYS" by (simp add: DEFAULT_EVENT_KEYS_def LIFECYCLE_SEMANTIC_KEYS_def)
  then have "(\<forall>k \<in> set LIFECYCLE_SEMANTIC_KEYS. k \<in> set DEFAULT_EVENT_KEYS \<longrightarrow> same_value (row_get k before) (row_get k after))
      \<longleftrightarrow> (\<forall>k \<in> set DEFAULT_EVENT_KEYS. same_value (row_get k before) (row_get k after))" by blast
  then show ?thesis by (simp add: detect_behavioral_change_def map_filter_ball semantic_change_level)
qed

lemma behaviour_paths: "ch \<in> set (detect_behavioral_change s before after) \<Longrightarrow> removed_path ch = None \<and> added_path ch = None"
  using map_filter_ball [of "semantic_change before after" LIFECYCLE_SEMANTIC_KEYS "\<lambda>ch. removed_path ch = None \<and> added_path ch = None"]
    semantic_change_paths [of before after]
  by (auto simp only: detect_behavioral_change_def split: if_splits) simp_all

lemma removed_paths:
  "List.map_filter removed_path (map (removal s) ps @ List.map_filter (current_change b) c @ detect_behavioral_change s x y) = ps"
proof -
  have "List.map_filter removed_path (map (removal s) ps) = ps" by (induction ps) simp_all
  moreover have "\<forall>ch \<in> set (List.map_filter (current_change b) c). removed_path ch = None"
    by (auto simp: map_filter_ball dest: current_change_paths)
  then have "List.map_filter removed_path (List.map_filter (current_change b) c) = []" by (intro map_filter_none) blast
  moreover have "List.map_filter removed_path (detect_behavioral_change s x y) = []" by (intro map_filter_none) (simp add: behaviour_paths)
  ultimately show ?thesis by (simp only: map_filter_append append_Nil2)
qed

lemma added_paths:
  "List.map_filter added_path (map (removal s) ps @ List.map_filter (current_change b) c @ detect_behavioral_change s x y)
    = filter (\<lambda>p. p \<notin> set (od_keys b)) (od_keys c)"
proof -
  have "List.map_filter added_path (map (removal s) ps) = []" by (intro map_filter_none) auto
  moreover have "List.map_filter added_path (List.map_filter (current_change b) c) = filter (\<lambda>p. p \<notin> set (od_keys b)) (od_keys c)"
  proof (induction c)
    case (Cons pv c)
    obtain p v where pv: "pv = (p, v)" by fastforce
    show ?case
    proof (cases "p \<in> set (od_keys b)")
      case True
      then have "current_change b (p, v) = None \<or> (\<exists>ch. current_change b (p, v) = Some ch \<and> added_path ch = None)"
        using current_change_paths [of b p v] by (cases "current_change b (p, v)") auto
      with Cons True show ?thesis by (auto simp: pv keys_Cons)
    next
      case False
      from current_change_added [OF this, of v] Cons False show ?thesis by (auto simp: pv keys_Cons)
    qed
  qed (simp add: keys_Cons)
  moreover have "List.map_filter added_path (detect_behavioral_change s x y) = []" by (intro map_filter_none) (simp add: behaviour_paths)
  ultimately show ?thesis by (simp only: map_filter_append append_Nil append_Nil2)
qed

lemma shadow_kind: "removed_path c \<noteq> None \<or> added_path c \<noteq> None \<Longrightarrow> (case cc_kind c of Shadow_rename _ _ \<Rightarrow> True | _ \<Rightarrow> False) = False"
  by (auto simp: removed_path_def added_path_def split: change_kind.splits)

definition no_rename :: "json_row \<Rightarrow> json_row \<Rightarrow> bool" where
  "no_rename b c \<longleftrightarrow> (\<forall>p \<in> set (od_keys b). top_level p \<longrightarrow> p \<in> set (od_keys c)) \<or> (\<forall>p \<in> set (od_keys c). top_level p \<longrightarrow> p \<in> set (od_keys b))"

lemma no_shadow_renames:
  "\<not> list_ex (\<lambda>c. case cc_kind c of Shadow_rename _ _ \<Rightarrow> True | _ \<Rightarrow> False) (field_changes s x y @ detect_behavioral_change s x y)"
proof -
  have "\<forall>ch \<in> set (List.map_filter (current_change b) c). \<not> (case cc_kind ch of Shadow_rename _ _ \<Rightarrow> True | _ \<Rightarrow> False)" for b c
    by (auto simp: map_filter_ball current_change_def split: if_splits)
  moreover have "\<forall>ch \<in> set (detect_behavioral_change s x y). \<not> (case cc_kind ch of Shadow_rename _ _ \<Rightarrow> True | _ \<Rightarrow> False)"
    by (auto simp: detect_behavioral_change_def map_filter_ball semantic_change_def Let_def split: if_splits)
  ultimately show ?thesis by (auto simp: field_changes_def Let_def list_ex_iff removal_def)
qed

lemma suspected_rename_level:
  "(\<forall>c \<in> set (suspected_rename s (field_changes s x y @ detect_behavioral_change s x y)). cc_level c \<noteq> Breaking)
    \<longleftrightarrow> (s = Crm_payload \<longrightarrow> no_rename (flat x) (flat y))"
proof -
  let ?ch = "field_changes s x y @ detect_behavioral_change s x y"
  have "List.map_filter removed_path ?ch = filter (\<lambda>p. p \<notin> set (od_keys (flat y))) (od_keys (flat x))"
    and "List.map_filter added_path ?ch = filter (\<lambda>p. p \<notin> set (od_keys (flat x))) (od_keys (flat y))"
    by (simp_all only: field_changes_def Let_def append_assoc removed_paths added_paths)
  then show ?thesis
    using no_shadow_renames [of s x y] by (auto simp: suspected_rename_def Let_def no_rename_def filter_empty_conv)
qed

text \<open>What the consumers of a surface rest on.\<close>

definition contract_kept :: "surface \<Rightarrow> json_row \<Rightarrow> json_row \<Rightarrow> bool" where
  "contract_kept s baseline current \<longleftrightarrow>
     (\<forall>p \<in> set (od_keys (flat baseline)). p \<notin> set (od_keys (flat current)) \<longrightarrow> \<not> loss_breaks s p)
   \<and> (\<forall>(p, v) \<in> set (flat current). p \<in> set (od_keys (flat baseline)) \<longrightarrow> \<not> is_breaking_field_change (row_get p (flat baseline)) v)
   \<and> (s \<in> {Lifecycle_event, Crm_payload, Replay_metadata} \<longrightarrow>
        (\<forall>k \<in> set DEFAULT_EVENT_KEYS. same_value (row_get k baseline) (row_get k current)))
   \<and> (s = Crm_payload \<longrightarrow> no_rename (flat baseline) (flat current))"


definition sample_baseline :: json_row where
  "sample_baseline = [(''entity_key'', JStr ''uzum:1''), (''price'', JInt 5), (''specs'', JObj [(''ram'', JInt 8)])]"

text \<open>Two payloads: one has lost a field that is not required, the other has only gained one, inside a dictionary.\<close>

definition sample_lost :: json_row where
  "sample_lost = [(''entity_key'', JStr ''uzum:1''), (''specs'', JObj [(''ram'', JInt 8)])]"

definition sample_gained :: json_row where
  "sample_gained = [(''entity_key'', JStr ''uzum:1''), (''price'', JInt 5), (''specs'', JObj [(''ram'', JInt 8), (''storage'', JInt 64)])]"

definition sample_compat :: compat_settings where
  "sample_compat = \<lparr>ALLOW_BREAKING_CHANGES_WITHOUT_GATE = False, ENABLE_SHADOW_FIELDS = True, ENABLE_COMPATIBILITY_GUARDS = True,
     DUAL_SHAPE_OUTPUTS = False, CONTRACT_SCHEMA_VERSION = ''v1''\<rparr>"

lemma sample_contracts: "contract_kept Crm_payload sample_baseline sample_lost" "\<not> contract_kept Crm_payload sample_baseline sample_gained"
  "\<not> fst (compare_payload_shapes sample_lost sample_baseline)" "fst (compare_payload_shapes sample_gained sample_baseline)"
  by code_simp+


section \<open>Old and new names\<close>

lemma shadow_step_keys: "set (od_keys out) \<subseteq> set (od_keys (shadow_step out m))"
  by (cases m) (auto simp: shadow_step_def keys_od_set)

lemma shadow_fold_keys: "set (od_keys out) \<subseteq> set (od_keys (foldl shadow_step out ms))"
  by (induction ms arbitrary: out) (use shadow_step_keys in fastforce)+

text \<open>Every old name stands beside its new one, and nothing a payload has is changed.\<close>

lemma shadow_complete:
  assumes "ENABLE_SHADOW_FIELDS st" and "(old, new) \<in> set (get_shadow_fields reg s)" and "new \<in> set (od_keys payload)"
  shows "old \<in> set (od_keys (apply_shadow_fields st reg s payload))"
proof -
  from split_list [OF assms(2)] obtain us vs where ms: "get_shadow_fields reg s = us @ (old, new) # vs" by blast
  let ?out = "foldl shadow_step payload us"
  have "new \<in> set (od_keys ?out)" using shadow_fold_keys [of payload us] assms(3) by blast
  then have "old \<in> set (od_keys (shadow_step ?out (old, new)))" by (simp add: shadow_step_def keys_od_set)
  then show ?thesis using shadow_fold_keys [of "shadow_step ?out (old, new)" vs] assms(1) by (auto simp: apply_shadow_fields_def ms)
qed

lemma shadow_keeps: "k \<in> set (od_keys payload) \<Longrightarrow> row_get k (apply_shadow_fields st reg s payload) = row_get k payload"
proof -
  have "k \<in> set (od_keys out) \<Longrightarrow> row_get k (foldl shadow_step out ms) = row_get k out" for out ms
  proof (induction ms arbitrary: out)
    case (Cons m ms)
    have "row_get k (shadow_step out m) = row_get k out" using Cons.prems by (cases m) (auto simp: shadow_step_def)
    with Cons.IH [of "shadow_step out m"] Cons.prems shadow_step_keys [of out m] show ?case by auto
  qed simp
  then show "k \<in> set (od_keys payload) \<Longrightarrow> row_get k (apply_shadow_fields st reg s payload) = row_get k payload"
    by (simp add: apply_shadow_fields_def)
qed

text \<open>With the registry the program ships with, an export is the payload itself or the payload twice.\<close>

lemma export_shape_empty:
  "export_shape st [] s payload = (if DUAL_SHAPE_OUTPUTS st
     then [(''contract_schema_version'', JStr (CONTRACT_SCHEMA_VERSION st)), (''primary'', JObj payload), (''legacy_shape'', JObj payload)]
     else payload)"
  by (simp add: export_shape_def apply_shadow_fields_def strip_removed_fields_def build_dual_shape_payload_def get_shadow_fields_def
      get_deprecations_def Let_def)

end
