(* ===== verification/Release_Gates.thy ===== *)
theory Release_Gates imports Rollout Fingerprints begin

text \<open>
  \<^verbatim>\<open>application/release/release_gate_evaluator.py\<close> and \<^verbatim>\<open>rollback_advisor.py\<close>: whether a release may
  go out, and when a feature or a store should be taken back.
\<close>

section \<open>Gates\<close>

datatype gate_severity = Gate_info | Gate_warning | Gate_high | Gate_critical

datatype check_category = Unit | Contract | Acceptance | Compatibility | Regression | Integration_like | Other_category

datatype release_action = Release | Release_with_caution | Block_release

record quality_gate =
  qg_name :: pystr
  qg_passed :: bool
  qg_severity :: gate_severity

record release_check =
  rc_passed :: bool
  rc_category :: check_category

definition GATE_SPECS :: "(pystr \<times> pystr \<times> gate_severity) list" where
  "GATE_SPECS =
    [(''critical_unit_tests'', ''critical_unit_tests_passed'', Gate_critical),
     (''contract_tests'', ''contract_tests_passed'', Gate_critical),
     (''store_acceptance'', ''store_acceptance_passed'', Gate_critical),
     (''payload_compatibility'', ''payload_compatibility_passed'', Gate_critical),
     (''lifecycle_replay_safety'', ''lifecycle_replay_safety_passed'', Gate_critical),
     (''malformed_batch_regression'', ''malformed_response_regression_ok'', Gate_critical),
     (''mapping_coverage_regression'', ''mapping_coverage_regression_ok'', Gate_high),
     (''parse_success_golden'', ''parse_success_golden_ok'', Gate_high),
     (''compatibility_core_surfaces'', ''compatibility_core_surfaces_clean'', Gate_critical),
     (''compatibility_no_unplanned_breaking'', ''compatibility_no_unplanned_breaking'', Gate_critical),
     (''migration_readiness'', ''migration_readiness_acceptable'', Gate_critical),
     (''deprecation_removal_policy'', ''deprecation_removal_safe'', Gate_high),
     (''dual_shape_plan'', ''dual_shape_plan_when_needed'', Gate_high),
     (''cost_perf_regression'', ''cost_perf_regression_gate_ok'', Gate_critical),
     (''store_efficiency_policy'', ''store_efficiency_policy_ok'', Gate_high),
     (''arch_dependency'', ''arch_dependency_gate_ok'', Gate_critical),
     (''arch_anti_pattern'', ''arch_anti_pattern_gate_ok'', Gate_critical),
     (''architecture_lint_report'', ''architecture_lint_report_ok'', Gate_high),
     (''arch_core_imports'', ''arch_core_import_gate_ok'', Gate_critical),
     (''docs_required'', ''docs_required_present'', Gate_critical),
     (''store_playbooks'', ''store_playbooks_for_enabled_stores'', Gate_critical),
     (''docs_support_crm_bundle'', ''crm_integration_release_support_docs_present'', Gate_critical),
     (''docs_coverage'', ''docs_coverage_acceptable'', Gate_high),
     (''knowledge_continuity'', ''knowledge_continuity_no_critical_gaps'', Gate_critical),
     (''readiness_no_blocking_gaps'', ''readiness_no_critical_blocking_gaps'', Gate_critical),
     (''readiness_domains_ok'', ''readiness_required_domains_not_blocked'', Gate_critical),
     (''readiness_report'', ''readiness_report_available'', Gate_high),
     (''readiness_store_evidence'', ''readiness_enabled_stores_have_evidence'', Gate_high),
     (''readiness_critical_surface'', ''readiness_critical_evidence_security_crm_release'', Gate_critical)]"

definition gate_of :: "json_row \<Rightarrow> pystr \<times> pystr \<times> gate_severity \<Rightarrow> quality_gate" where
  "gate_of results = (\<lambda>(gate, key, sev). let passed = json_truthy (row_get key results)
     in \<lparr>qg_name = gate, qg_passed = passed, qg_severity = (if passed then Gate_info else sev)\<rparr>)"

definition evaluate_release_gates :: "json_row \<Rightarrow> quality_gate list" where
  "evaluate_release_gates results = map (gate_of results) GATE_SPECS"

record readiness_summary =
  rs_passed :: bool
  rs_critical :: nat
  rs_warnings :: nat
  rs_action :: release_action

definition decide_release_action :: "nat \<Rightarrow> nat \<Rightarrow> release_action" where
  "decide_release_action critical warnings =
    (if critical > 0 then Block_release else if warnings > 0 then Release_with_caution else Release)"

definition build_release_readiness_summary :: "release_check list \<Rightarrow> quality_gate list \<Rightarrow> readiness_summary" where
  "build_release_readiness_summary checks gates =
    (let bad = filter (\<lambda>g. \<not> qg_passed g) gates; failed = filter (\<lambda>c. \<not> rc_passed c) checks;
         critical = length (filter (\<lambda>g. qg_severity g \<in> {Gate_critical, Gate_high}) bad)
           + length (filter (\<lambda>c. rc_category c \<in> {Unit, Contract, Acceptance, Compatibility, Regression}) failed);
         warnings = length (filter (\<lambda>g. qg_severity g = Gate_warning) bad)
           + length (filter (\<lambda>c. rc_category c \<in> {Integration_like, Other_category}) failed)
     in \<lparr>rs_passed = (critical = 0), rs_critical = critical, rs_warnings = warnings, rs_action = decide_release_action critical warnings\<rparr>)"

text \<open>\<open>summarize_pytest_flags\<close>: one flag for each key, no checks.\<close>

definition summarize_pytest_flags :: "(pystr \<Rightarrow> bool) \<Rightarrow> readiness_summary" where
  "summarize_pytest_flags flag =
    build_release_readiness_summary [] (evaluate_release_gates (map (\<lambda>(_, key, _). (key, JBool (flag key))) GATE_SPECS))"

text \<open>
  A release goes out exactly when every flag is set; a gate whose severity is only high blocks it
  like a critical one, so that a release with caution never comes of flags.
\<close>

lemma spec_severities: "(g, k, sev) \<in> set GATE_SPECS \<Longrightarrow> sev \<in> {Gate_critical, Gate_high}"
  unfolding GATE_SPECS_def by auto

lemma failed_severity:
  assumes "g \<in> set (evaluate_release_gates results)" and "\<not> qg_passed g"
  shows "qg_severity g \<in> {Gate_critical, Gate_high}"
proof -
  from assms(1) obtain n k sev where spec: "(n, k, sev) \<in> set GATE_SPECS" "g = gate_of results (n, k, sev)"
    by (auto simp: evaluate_release_gates_def)
  with spec_severities [OF spec(1)] assms(2) show ?thesis by (simp add: gate_of_def Let_def)
qed

lemma release_action_iff:
  "rs_action (build_release_readiness_summary [] (evaluate_release_gates results))
    = (if \<forall>(g, k, sev) \<in> set GATE_SPECS. json_truthy (row_get k results) then Release else Block_release)"
proof -
  let ?bad = "filter (\<lambda>g. \<not> qg_passed g) (evaluate_release_gates results)"
  have crit: "filter (\<lambda>g. qg_severity g \<in> {Gate_critical, Gate_high}) ?bad = ?bad"
    by (rule filter_True) (use failed_severity in auto)
  have warn: "filter (\<lambda>g. qg_severity g = Gate_warning) ?bad = []"
    by (rule filter_False) (use failed_severity in fastforce)
  have "?bad = [] \<longleftrightarrow> (\<forall>(g, k, sev) \<in> set GATE_SPECS. json_truthy (row_get k results))"
    by (force simp: evaluate_release_gates_def gate_of_def Let_def filter_empty_conv)
  then show ?thesis
    unfolding build_release_readiness_summary_def Let_def crit warn by (simp add: decide_release_action_def)
qed

lemma summarize_pytest_flags_action:
  "rs_action (summarize_pytest_flags flag) = (if \<forall>(g, k, sev) \<in> set GATE_SPECS. flag k then Release else Block_release)"
proof -
  have "json_truthy (row_get k (map (\<lambda>(_, key, _). (key, JBool (flag key))) specs)) = flag k" if "k \<in> (fst \<circ> snd) ` set specs" for k specs
    using that by (induction specs) (auto simp: row_get_def json_truthy_def)
  then have "(\<forall>(g, k, sev) \<in> set GATE_SPECS. json_truthy (row_get k (map (\<lambda>(_, key, _). (key, JBool (flag key))) GATE_SPECS)))
      \<longleftrightarrow> (\<forall>(g, k, sev) \<in> set GATE_SPECS. flag k)" by force
  then show ?thesis by (simp add: summarize_pytest_flags_def release_action_iff)
qed

section \<open>Rollback\<close>

record release_alert =
  al_severity :: pystr
  al_domain :: pystr
  al_store :: pystr
  al_code :: pystr

record rollback_decision =
  rb_rollback :: bool
  rb_scope :: rollout_scope
  rb_target :: "pystr option"
  rb_stage :: rollout_stage

definition critical_alerts :: "release_alert list \<Rightarrow> release_alert list" where
  "critical_alerts alerts = filter (\<lambda>a. lower (al_severity a) = ''critical'') alerts"

definition domain_hints :: "pystr \<Rightarrow> pystr list" where
  "domain_hints feature = (case map_of
    [(''lifecycle_delta_events'', [''lifecycle'', ''normalization'']),
     (''typed_specs_mapping'', [''normalization'', ''parsing'']),
     (''replay_reconciliation'', [''reconciliation'', ''crm_apply'', ''transport'']),
     (''browser_escalation_policy'', [''anti_bot'', ''crawl'']),
     (''crm_http_transport'', [''transport'', ''crm_apply''])] feature of Some hs \<Rightarrow> hs | None \<Rightarrow> [])"

text \<open>\<open>status\<close> is the text of a store's status, empty when there is none.\<close>

definition decide_feature_rollback :: "bool \<Rightarrow> pystr \<Rightarrow> pystr \<Rightarrow> release_alert list \<Rightarrow> rollback_decision" where
  "decide_feature_rollback advice feature status alerts =
    (let hit = filter (\<lambda>a. lower (al_domain a) \<in> set (domain_hints feature)) (critical_alerts alerts) in
     if \<not> advice then \<lparr>rb_rollback = False, rb_scope = Scope_feature, rb_target = Some feature, rb_stage = Canary\<rparr>
     else if hit \<noteq> [] \<and> lower status \<noteq> ''failing''
       then \<lparr>rb_rollback = True, rb_scope = Scope_feature, rb_target = Some feature, rb_stage = Canary\<rparr>
     else \<lparr>rb_rollback = False, rb_scope = Scope_feature, rb_target = Some feature, rb_stage = Full\<rparr>)"

definition decide_store_rollback :: "bool \<Rightarrow> pystr \<Rightarrow> pystr \<Rightarrow> release_alert list \<Rightarrow> rollback_decision" where
  "decide_store_rollback advice store status alerts =
    (let crit = critical_alerts alerts;
         store_crit = filter (\<lambda>a. lower (strip (al_store a)) = lower (strip store)) crit;
         transport_global = filter (\<lambda>a. contains ''transport'' (lower (al_domain a)) \<or> contains ''GLOBAL'' (al_code a)) crit
     in if \<not> advice then \<lparr>rb_rollback = False, rb_scope = Scope_store, rb_target = Some store, rb_stage = Partial\<rparr>
        else if length transport_global \<ge> 2 then \<lparr>rb_rollback = True, rb_scope = Scope_global, rb_target = None, rb_stage = Canary\<rparr>
        else if store_crit \<noteq> [] \<or> lower status = ''failing'' then \<lparr>rb_rollback = True, rb_scope = Scope_store, rb_target = Some store, rb_stage = Partial\<rparr>
        else \<lparr>rb_rollback = False, rb_scope = Scope_store, rb_target = Some store, rb_stage = Full\<rparr>)"

text \<open>
  A feature is never taken back on a store that fails, whatever its alerts: there the store is.
\<close>

lemma failing_store_rolled_back:
  assumes "lower status = ''failing''" and "advice"
  shows "\<not> rb_rollback (decide_feature_rollback advice feature status alerts)" and "rb_rollback (decide_store_rollback advice store status alerts)"
  using assms by (simp_all add: decide_feature_rollback_def decide_store_rollback_def Let_def)

lemma feature_rollback_iff:
  "rb_rollback (decide_feature_rollback advice feature status alerts)
    \<longleftrightarrow> advice \<and> lower status \<noteq> ''failing'' \<and> (\<exists>a \<in> set alerts. lower (al_severity a) = ''critical'' \<and> lower (al_domain a) \<in> set (domain_hints feature))"
  by (auto simp: decide_feature_rollback_def critical_alerts_def Let_def filter_empty_conv)

text \<open>Without critical alerts nothing is taken back but a failing store.\<close>

lemma no_critical_no_rollback:
  assumes "critical_alerts alerts = []"
  shows "rb_rollback (decide_store_rollback advice store status alerts) \<longleftrightarrow> advice \<and> lower status = ''failing''"
  using assms by (simp add: decide_store_rollback_def Let_def)

end
