(* ===== verification/Spec2Isabelle.thy ===== *)
theory Spec2Isabelle imports Publisher Crm_Delivery Crawl_Properties Url_Properties Middleware_Properties Item_Pipeline Spec_Mapper Slo_Policy Cost_Model Replay_Guard Ui_Runner Data_Minimizer Contract_Evolution Release_Gates begin

text \<open>
  Moscraper (\<^verbatim>\<open>src/\<close>) crawls web shops, stores what it finds and hands it on.  This is a shallow
  embedding of the parts that decide what is requested, stored and sent: the Python code
  as functions of HOL, exceptions as values, effects as explicit state.

  \<^bold>\<open>The program.\<close>  Spiders (\<^verbatim>\<open>infrastructure/spiders/\<close>) turn category pages into requests and product
  pages into items.  Each request passes the resource budgets and the access layer
  (\<^verbatim>\<open>infrastructure/access/\<close>: plain HTTP, proxy or browser), the network policy
  (\<^verbatim>\<open>infrastructure/security/\<close>) and the downloader middlewares (\<^verbatim>\<open>infrastructure/middlewares/\<close>), which
  send it again when a response is a block page.  Items pass validation and reach a store
  (\<^verbatim>\<open>infrastructure/pipelines/\<close> over \<^verbatim>\<open>infrastructure/persistence/\<close>, SQLite or PostgreSQL) in one transaction with an outbox row; the
  publisher (\<^verbatim>\<open>services/publisher/\<close>) claims outbox rows under a lease and sends them to RabbitMQ.
  The older contour (\<^verbatim>\<open>normalize_pipeline.py\<close>, \<^verbatim>\<open>sync_pipeline.py\<close>) instead types the specifications of a
  product (\<^verbatim>\<open>application/extractors/\<close>), batches lifecycle events and sends them to a CRM over HTTP.

  \<^bold>\<open>Theories, bottom up.\<close>
  \<^item> Shared: \<open>Prelude\<close> (Python text, ordered dictionaries, SQL tables), \<open>Py_Number\<close>, \<open>Ip_Address\<close> (IPv4
    on 32-bit words), \<open>Bounded_Cache\<close> (the locale \<open>recent_memory\<close>), \<open>Url_Query\<close> (\<^verbatim>\<open>urllib.parse\<close>).
  \<^item> Products and the outbox: \<open>Fingerprints\<close> and \<open>Domain\<close> (\<^verbatim>\<open>domain/\<close>); \<open>Store_Tables\<close>, \<open>Store_Invariant\<close>,
    \<open>Store_Persist\<close>, \<open>Store_Settle\<close>, \<open>Store_Claim\<close> (the transactions both stores share);
    \<open>Sqlite_Store\<close> and \<open>Postgres_Store\<close>; \<open>Outbox_Store\<close> (the locale of the protocol
    \<^verbatim>\<open>infrastructure/persistence/base.py\<close>, interpreted on both); \<open>Outbox_Lifecycle\<close> (the stores as
    step relations with reachability); \<open>Publisher\<close> (from the outbox row to the broker);
    \<open>Item_Pipeline\<close> (from the item of a spider to its outbox row, a whole crawl).
  \<^item> Synchronisation: \<open>Sync_Domain\<close>, \<open>Sync_State\<close> (\<^verbatim>\<open>infrastructure/sync/\<close>), \<open>Rollout\<close>
    (\<^verbatim>\<open>application/release/\<close>), \<open>Crm_Builder\<close>, \<open>Lifecycle\<close> and \<open>Apply_Classifier\<close>
    (\<^verbatim>\<open>application/lifecycle/\<close>), \<open>Sync_Pipeline\<close>, \<open>Sync_Delivery\<close>, \<open>Crm_Transport\<close>
    (\<^verbatim>\<open>infrastructure/transports/crm_http.py\<close>), \<open>Crm_Delivery\<close> (the two together).
  \<^item> Budgets: \<open>Resource_Governance\<close>, \<open>Governance_Invariant\<close>, \<open>Sync_Governance\<close>.
  \<^item> Network: \<open>Network_Policy\<close>, \<open>Network_Properties\<close>, \<open>Page_Guard\<close>.
  \<^item> Access: \<open>Store_Profile\<close>, \<open>Proxy_Policy\<close>, \<open>Proxy_Properties\<close>, \<open>Ban_Detector\<close>, \<open>Request_Strategy\<close>,
    \<open>Backoff\<close>, \<open>Header_Profile\<close>, \<open>Captcha\<close>, \<open>Access_Middleware\<close>, \<open>Middleware_Properties\<close>.
  \<^item> Crawl: \<open>Url_Tools\<close>, \<open>Url_Properties\<close>, \<open>Crawl_Registry\<close>, \<open>Honeypot_Filter\<close>, \<open>Crawl\<close>
    (\<^verbatim>\<open>infrastructure/spiders/base.py\<close>), \<open>Crawl_Invariant\<close>, \<open>Crawl_Properties\<close>.
  \<^item> Specifications: \<open>Spec_Resolution\<close>, \<open>Spec_Sanity\<close>, \<open>Spec_Registry\<close>, \<open>Spec_Mapper\<close> (\<^verbatim>\<open>spec_*.py\<close> of
    \<^verbatim>\<open>application/extractors/\<close> and the step of \<^verbatim>\<open>normalize_pipeline.py\<close> that calls them).
  \<^item> Data that leaves the program: \<open>Redaction\<close>, \<open>Data_Minimizer\<close> (\<^verbatim>\<open>redaction.py\<close>, \<^verbatim>\<open>minimizer.py\<close> and
    what they rest on, \<^verbatim>\<open>infrastructure/security/\<close>).
  \<^item> Contracts: \<open>Contract_Evolution\<close>, \<open>Release_Gates\<close> (what blocks a release or takes it back,
    \<^verbatim>\<open>application/release/\<close>).
  \<^item> Operation: \<open>Slo_Policy\<close> (objectives, alerts and health), \<open>Cost_Model\<close> (costs, efficiency and
    regressions), \<open>Replay_Guard\<close>; \<open>Run_Registry\<close> (the locale \<open>run_book\<close>) and \<open>Ui_Runner\<close>
    (\<^verbatim>\<open>services/ui_api/\<close>: the crawls an operator starts and stops, as a step relation of threads).

  \<^bold>\<open>What the lemmas show.\<close>  Invariants of the relational state and their preservation by every
  operation, then by every reachable state; for each operation its effect on every
  branch, with the exact condition under which it succeeds; that the two stores meet one
  contract; that a claim is exclusive while its lease lasts and free after it; what the
  publisher leaves settled when the broker fails; that a crawl accounts for every item it
  stores, and which of them can be delivered; that the status of a run an operator sees follows
  its process in every interleaving of the runner's threads; what an export for support cannot
  contain; which changes of a payload block a release; where a typed specification comes from and
  what it meets; that no fingerprint, budget or delivery record leaks; bounds on attempts, pages and resent requests; that queues drain; round
  trips of query strings, split URLs and addresses; the closed forms of the outbound and
  the rollout decision.  Several theorems state what the code does where it does not do
  what its comments say; the manifest lists these findings.

  \<^bold>\<open>Conventions.\<close>  Text is a list of code points below 256.  Times are integers of microseconds,
  monotonic clocks rationals; floats are exact rationals, so rounding errors are not
  modelled.  A fallible function returns \<open>exc + 'a\<close>, a fallible procedure \<open>exc option \<times> state\<close>;
  a generator returns the requests it yields, the exception that ends it and the state.
  Settings are records, one per component, of the entries it reads.

  \<^bold>\<open>Parameters.\<close>  What is not under \<^verbatim>\<open>src/\<close> is an argument: SHA-256, the text of JSON, the answers of
  the broker and of HTTP servers, clocks, random numbers, the slots of the downloader,
  the \<open>_retry\<close> of Scrapy, HTTP dates, \<open>urljoin\<close>, the reading of files and of the memory in
  use.  So are the hooks a store's spider implements (its selectors and its patterns), the
  label tables behind the key attributes of a product and its specifications, the readers
  of single specification values, the classes of IPv6 addresses and the signature of a
  request.  Theorems that need one of them to behave state it as a
  hypothesis (\<open>scrapy_retry\<close>, an injective hash on the inputs at hand) and have a witness.

  \<^bold>\<open>Bounds.\<close>  Recursion follows the data except where the code loops on a state: draining at the
  close of a spider has the 2000 rounds of the code, the downgrade of an event its three
  steps, a request over HTTP its attempts, the queue of deferred products as many rounds as
  it is long.  In each case a theorem shows that the bound is reached only where the code
  stops too.

  \<^bold>\<open>Not modelled.\<close>  The selectors of the single stores and the keyword tables for titles, brands,
  categories and units rest on parsel, regular expressions and Cyrillic text outside the
  code points represented here.  Logs, dashboards, run books, reports on the repository itself and the
  operator's pages decide nothing about what is requested, stored or sent.  Signing and
  the loading of secrets rest on libraries and the environment.
\<close>

end
